(* ===== verification/Prelude.thy ===== *)
theory Prelude
  imports Complex_Main "HOL-Library.State_Monad" "HOL-Library.AList" "HOL-Library.Sublist"
    "HOL-Library.List_Lexorder" "HOL-Library.Char_ord"
begin

text \<open>
  Shared vocabulary of the development: the collections of simplification and introduction
  facts, the programs that call a Kubernetes API server, the Go string functions the operator
  uses, Go maps as association lists, and the metadata types every component reads.

  A Go handler is a program of the state monad over the list of events it has caused so far.
  What the API server answers is not part of the repository: every client call takes its answer
  from a function of the whole history, which is an argument of the model (the oracle), so that
  a theorem about a handler holds for every behaviour of the server, interference of other
  clients included. Logging is not modelled; recorded Kubernetes events are events.

  Go strings are lists of characters and are taken to be ASCII; \<open>int\<close> stands for Go's
  64-bit integers where the code cannot overflow, \<open>rat\<close> for \<open>float64\<close> with exact
  arithmetic, and instants and durations are \<open>int\<close> nanoseconds.
\<close>

named_theorems go_simps \<open>defining equations of the Go library functions\<close>
named_theorems emits_intros \<open>introduction rules for the events a program may cause\<close>
named_theorems does_intros \<open>weakest-precondition rules for the result and the events of a program\<close>

section \<open>Programs that call the API server\<close>

type_synonym ('e, 'a) prog = "('e list, 'a) state"

abbreviation ret :: "'a \<Rightarrow> ('e, 'a) prog" where
  "ret \<equiv> State_Monad.return"

definition call :: "('e list \<Rightarrow> 'r) \<Rightarrow> ('r \<Rightarrow> 'e) \<Rightarrow> ('e, 'r) prog" where
  "call answer event = State (\<lambda>h. (answer h, h @ [event (answer h)]))"

definition emit :: "'e \<Rightarrow> ('e, unit) prog" where
  "emit event = State (\<lambda>h. ((), h @ [event]))"

lemma run_call [simp]: "run_state (call answer event) h = (answer h, h @ [event (answer h)])"
  by (simp add: call_def)

lemma run_emit [simp]: "run_state (emit event) h = ((), h @ [event])"
  by (simp add: emit_def)

lemma bind_cong_right: "(\<And>x. f x = g x) \<Longrightarrow> State_Monad.bind m f = State_Monad.bind m g"
  by (rule arg_cong [of f g]) (rule ext)

definition result_of :: "('e, 'a) prog \<Rightarrow> 'e list \<Rightarrow> 'a" where
  "result_of m h = fst (run_state m h)"

definition history_of :: "('e, 'a) prog \<Rightarrow> 'e list \<Rightarrow> 'e list" where
  "history_of m h = snd (run_state m h)"

text \<open>
  \<open>does Q m\<close>: from every history the program only appends events, and the result and the events
  it appended satisfy \<open>Q\<close>. The answers of the server are arbitrary in it.
\<close>

definition does :: "('a \<Rightarrow> 'e list \<Rightarrow> bool) \<Rightarrow> ('e, 'a) prog \<Rightarrow> bool" where
  "does Q m \<longleftrightarrow> (\<forall>h. \<exists>x new. run_state m h = (x, h @ new) \<and> Q x new)"

lemma doesD:
  assumes "does Q m"
  obtains new where "history_of m h = h @ new" and "Q (result_of m h) new"
  using assms unfolding does_def history_of_def result_of_def by (metis fst_conv snd_conv)

lemma does_return [does_intros]: "Q x [] \<Longrightarrow> does Q (ret x)"
  by (simp add: does_def)

lemma does_call [does_intros]: "(\<And>r. Q r [event r]) \<Longrightarrow> does Q (call answer event)"
  by (simp add: does_def)

lemma does_call_known: "(\<And>h. answer h = v) \<Longrightarrow> Q v [event v] \<Longrightarrow> does Q (call answer event)"
  by (simp add: does_def)

lemma does_call_answer: "(\<And>h. Q (answer h) [event (answer h)]) \<Longrightarrow> does Q (call answer event)"
  by (simp add: does_def)

lemma does_emit [does_intros]: "Q () [event] \<Longrightarrow> does Q (emit event)"
  by (simp add: does_def)

lemma does_bind [does_intros]:
  assumes "does (\<lambda>x n1. does (\<lambda>y n2. Q y (n1 @ n2)) (f x)) m"
  shows "does Q (State_Monad.bind m f)"
  unfolding does_def
proof
  fix h
  obtain x n1 where m: "run_state m h = (x, h @ n1)" and f: "does (\<lambda>y n2. Q y (n1 @ n2)) (f x)"
    using assms unfolding does_def [of _ m] by blast
  obtain y n2 where "run_state (f x) (h @ n1) = (y, (h @ n1) @ n2)" "Q y (n1 @ n2)"
    using f unfolding does_def by blast
  with m show "\<exists>y new. run_state (State_Monad.bind m f) h = (y, h @ new) \<and> Q y new" by auto
qed

lemma does_mono: "does P m \<Longrightarrow> (\<And>x n. P x n \<Longrightarrow> Q x n) \<Longrightarrow> does Q m"
  unfolding does_def by blast

lemma does_conj: "does P m \<Longrightarrow> does Q m \<Longrightarrow> does (\<lambda>x n. P x n \<and> Q x n) m"
  unfolding does_def by (metis Pair_inject same_append_eq)

lemma does_seq:
  "does P m \<Longrightarrow> (\<And>x n1. P x n1 \<Longrightarrow> does (\<lambda>y n2. Q y (n1 @ n2)) (f x)) \<Longrightarrow> does Q (State_Monad.bind m f)"
  by (rule does_bind) (erule does_mono, blast)

lemma does_if [does_intros]: "(b \<Longrightarrow> does Q m) \<Longrightarrow> (\<not> b \<Longrightarrow> does Q n) \<Longrightarrow> does Q (if b then m else n)"
  by simp

lemma does_case_sum [does_intros]:
  "(\<And>e. r = Inl e \<Longrightarrow> does Q (f e)) \<Longrightarrow> (\<And>x. r = Inr x \<Longrightarrow> does Q (g x)) \<Longrightarrow> does Q (case r of Inl e \<Rightarrow> f e | Inr x \<Rightarrow> g x)"
  by (cases r) simp_all

lemma does_case_option [does_intros]:
  "(r = None \<Longrightarrow> does Q m) \<Longrightarrow> (\<And>x. r = Some x \<Longrightarrow> does Q (g x)) \<Longrightarrow> does Q (case r of None \<Rightarrow> m | Some x \<Rightarrow> g x)"
  by (cases r) simp_all

lemma does_case_prod [does_intros]:
  "(\<And>x y. r = (x, y) \<Longrightarrow> does Q (f x y)) \<Longrightarrow> does Q (case r of (x, y) \<Rightarrow> f x y)"
  by (cases r) simp

lemma does_Let [does_intros]: "(\<And>x. x = v \<Longrightarrow> does Q (f x)) \<Longrightarrow> does Q (Let v f)"
  by (simp add: Let_def)

text \<open>\<open>emits P m\<close>: every event the program causes satisfies \<open>P\<close>.\<close>

definition emits :: "('e \<Rightarrow> bool) \<Rightarrow> ('e, 'a) prog \<Rightarrow> bool" where
  "emits P m \<longleftrightarrow> does (\<lambda>_ new. list_all P new) m"

lemma emitsD:
  assumes "emits P m"
  obtains new where "history_of m h = h @ new" and "list_all P new"
  using assms unfolding emits_def by (rule doesD)

lemma emits_return [emits_intros]: "emits P (ret x)"
  by (simp add: emits_def does_return)

lemma emits_call [emits_intros]: "(\<And>r. P (event r)) \<Longrightarrow> emits P (call answer event)"
  by (simp add: emits_def does_call)

lemma emits_emit [emits_intros]: "P event \<Longrightarrow> emits P (emit event)"
  by (simp add: emits_def does_emit)

lemma emits_bind [emits_intros]:
  assumes "emits P m" and "\<And>x. emits P (f x)"
  shows "emits P (State_Monad.bind m f)"
  using assms unfolding emits_def by (elim does_seq) (auto elim: does_mono)

text \<open>The same with what is known of the value that the first program returns.\<close>

lemma emits_bind_result:
  assumes "does (\<lambda>x new. R x \<and> list_all P new) m" and "\<And>x. R x \<Longrightarrow> emits P (f x)"
  shows "emits P (State_Monad.bind m f)"
  using assms unfolding emits_def by (elim does_seq) (auto elim: does_mono)

lemma emits_if [emits_intros]: "(b \<Longrightarrow> emits P m) \<Longrightarrow> (\<not> b \<Longrightarrow> emits P n) \<Longrightarrow> emits P (if b then m else n)"
  by simp

lemma emits_case_sum [emits_intros]:
  "(\<And>e. r = Inl e \<Longrightarrow> emits P (f e)) \<Longrightarrow> (\<And>x. r = Inr x \<Longrightarrow> emits P (g x)) \<Longrightarrow> emits P (case r of Inl e \<Rightarrow> f e | Inr x \<Rightarrow> g x)"
  by (cases r) simp_all

lemma emits_case_option [emits_intros]:
  "(r = None \<Longrightarrow> emits P m) \<Longrightarrow> (\<And>x. r = Some x \<Longrightarrow> emits P (g x)) \<Longrightarrow> emits P (case r of None \<Rightarrow> m | Some x \<Rightarrow> g x)"
  by (cases r) simp_all

lemma emits_case_prod [emits_intros]:
  "(\<And>x y. r = (x, y) \<Longrightarrow> emits P (f x y)) \<Longrightarrow> emits P (case r of (x, y) \<Rightarrow> f x y)"
  by (cases r) simp

lemma emits_Let [emits_intros]: "(\<And>x. x = v \<Longrightarrow> emits P (f x)) \<Longrightarrow> emits P (Let v f)"
  by (simp add: Let_def)

lemma emits_mono: "emits P m \<Longrightarrow> (\<And>e. P e \<Longrightarrow> Q e) \<Longrightarrow> emits Q m"
  unfolding emits_def by (elim does_mono) (auto simp: list_all_iff)

text \<open>
  A property of traces that the empty trace has and that concatenation keeps is a property of every
  program built from calls that have it.
\<close>

locale trace_property =
  fixes Q :: "'e list \<Rightarrow> bool"
  assumes empty: "Q []"
    and append: "Q xs \<Longrightarrow> Q ys \<Longrightarrow> Q (xs @ ys)"
begin

definition always :: "('e, 'a) prog \<Rightarrow> bool" where
  "always m \<longleftrightarrow> does (\<lambda>_. Q) m"

lemma always_return: "always (ret x)"
  by (simp add: always_def does_return empty)

lemma always_call: "(\<And>r. Q [event r]) \<Longrightarrow> always (call answer event)"
  by (simp add: always_def does_call)

lemma always_emit: "Q [event] \<Longrightarrow> always (emit event)"
  by (simp add: always_def does_emit)

lemma always_bind: "always m \<Longrightarrow> (\<And>x. always (f x)) \<Longrightarrow> always (State_Monad.bind m f)"
  unfolding always_def by (erule does_seq) (rule does_mono [of "\<lambda>_. Q"], auto intro: append)

lemma always_if: "(b \<Longrightarrow> always m) \<Longrightarrow> (\<not> b \<Longrightarrow> always n) \<Longrightarrow> always (if b then m else n)"
  by simp

lemma always_case_sum:
  "(\<And>e. r = Inl e \<Longrightarrow> always (f e)) \<Longrightarrow> (\<And>x. r = Inr x \<Longrightarrow> always (g x)) \<Longrightarrow> always (case r of Inl e \<Rightarrow> f e | Inr x \<Rightarrow> g x)"
  by (cases r) simp_all

lemma always_case_option:
  "(r = None \<Longrightarrow> always m) \<Longrightarrow> (\<And>x. r = Some x \<Longrightarrow> always (g x)) \<Longrightarrow> always (case r of None \<Rightarrow> m | Some x \<Rightarrow> g x)"
  by (cases r) simp_all

lemma always_case_prod: "(\<And>x y. r = (x, y) \<Longrightarrow> always (f x y)) \<Longrightarrow> always (case r of (x, y) \<Rightarrow> f x y)"
  by (cases r) simp

lemma always_Let: "(\<And>x. x = v \<Longrightarrow> always (f x)) \<Longrightarrow> always (Let v f)"
  by (simp add: Let_def)

lemmas always_intros = always_return always_call always_emit always_bind always_if always_case_sum
  always_case_option always_case_prod always_Let

end

text \<open>In particular that every event satisfies \<open>P\<close>: \<open>emits\<close> is this instance.\<close>

interpretation all_events: trace_property "list_all P" for P
  by unfold_locales simp_all

lemma emits_always: "emits P m \<longleftrightarrow> all_events.always P m"
  by (simp add: emits_def all_events.always_def)

section \<open>Errors of the API server and results of a reconciliation\<close>

datatype api_error =
    NotFound | AlreadyExists | Conflict | Forbidden | Invalid | NoMatch | OtherError string

datatype requeue = NoRequeue | RequeueNow | RequeueAfter int

text \<open>
  \<^verbatim>\<open>retry.RetryOnConflict\<close> of client-go: it runs the function at most \<open>steps\<close> times, again only
  while the answer is a conflict, and returns the last error. The number of steps is an
  argument: it is a constant of client-go.
\<close>

fun RetryOnConflict :: "nat \<Rightarrow> ('e, api_error option) prog \<Rightarrow> ('e, api_error option) prog" where
  "RetryOnConflict 0 fn = ret (Some Conflict)"
| "RetryOnConflict (Suc steps) fn = do {
     r \<leftarrow> fn;
     (if r = Some Conflict \<and> steps \<noteq> 0 then RetryOnConflict steps fn else ret r)
   }"

context trace_property
begin

lemma always_RetryOnConflict: "always fn \<Longrightarrow> always (RetryOnConflict n fn)"
  by (induction n) (auto intro!: always_intros)

end

lemma emits_RetryOnConflict [emits_intros]: "emits P fn \<Longrightarrow> emits P (RetryOnConflict n fn)"
  by (induction n) (auto intro!: emits_intros)

text \<open>
  Calls in sequence with an early return on an error: the rest \<open>f\<close> runs on the value, an error is
  returned as it is.
\<close>

definition bindE :: "('e, 'x + 'a) prog \<Rightarrow> ('a \<Rightarrow> ('e, 'x + 'b) prog) \<Rightarrow> ('e, 'x + 'b) prog" where
  "bindE m f = State_Monad.bind m (\<lambda>r. case r of Inl e \<Rightarrow> ret (Inl e) | Inr x \<Rightarrow> f x)"

lemma run_bindE [simp]:
  "run_state (bindE m f) h = (case run_state m h of (Inl e, h') \<Rightarrow> (Inl e, h') | (Inr x, h') \<Rightarrow> run_state (f x) h')"
  by (simp add: bindE_def split: prod.split sum.split)

lemma does_bindE [does_intros]:
  "does (\<lambda>r n1. case r of Inl e \<Rightarrow> Q (Inl e) n1 | Inr x \<Rightarrow> does (\<lambda>y n2. Q y (n1 @ n2)) (f x)) m \<Longrightarrow> does Q (bindE m f)"
  unfolding bindE_def by (rule does_bind) (erule does_mono, auto intro: does_return split: sum.splits)

lemma does_seqE:
  "does P m \<Longrightarrow> (\<And>e n. P (Inl e) n \<Longrightarrow> Q (Inl e) n) \<Longrightarrow>
   (\<And>x n1. P (Inr x) n1 \<Longrightarrow> does (\<lambda>y n2. Q y (n1 @ n2)) (f x)) \<Longrightarrow> does Q (bindE m f)"
  by (rule does_bindE) (erule does_mono, auto split: sum.splits)

lemma emits_bindE [emits_intros]: "emits P m \<Longrightarrow> (\<And>x. emits P (f x)) \<Longrightarrow> emits P (bindE m f)"
  unfolding bindE_def by (auto intro!: emits_intros)

text \<open>The same with what is known of the value that the first program returns.\<close>

lemma emits_bindE_result:
  "does (\<lambda>r new. (\<forall>x. r = Inr x \<longrightarrow> R x) \<and> list_all P new) m \<Longrightarrow> (\<And>x. R x \<Longrightarrow> emits P (f x)) \<Longrightarrow> emits P (bindE m f)"
  unfolding bindE_def by (erule emits_bind_result) (auto intro!: emits_intros)

context trace_property
begin

lemma always_bindE: "always m \<Longrightarrow> (\<And>x. always (f x)) \<Longrightarrow> always (bindE m f)"
  unfolding bindE_def by (auto intro!: always_intros)

end

section \<open>Go maps\<close>

text \<open>
  A Go map is an association list with distinct keys: the order of the list is one order in
  which \<^verbatim>\<open>range\<close> may visit the map, and theorems quantify over all of them. Reading a missing
  key of a \<^verbatim>\<open>map[string]int\<close> gives 0.
\<close>

type_synonym 'v gomap = "(string \<times> 'v) list"

definition map_get :: "'v \<Rightarrow> 'v gomap \<Rightarrow> string \<Rightarrow> 'v" where
  "map_get zero m k = (case map_of m k of None \<Rightarrow> zero | Some v \<Rightarrow> v)"

definition has_key :: "'v gomap \<Rightarrow> string \<Rightarrow> bool" where
  "has_key m k \<longleftrightarrow> map_of m k \<noteq> None"

definition append_at :: "string \<Rightarrow> 'v \<Rightarrow> 'v list gomap \<Rightarrow> 'v list gomap" where
  "append_at k x m = AList.update k (map_get [] m k @ [x]) m"

definition add_at :: "string \<Rightarrow> int \<Rightarrow> int gomap \<Rightarrow> int gomap" where
  "add_at k n m = AList.update k (map_get 0 m k + n) m"

definition put_all :: "'v gomap \<Rightarrow> 'v gomap \<Rightarrow> 'v gomap" where
  "put_all src dst = fold (\<lambda>(k, v). AList.update k v) src dst"

lemma map_get_Nil [simp]: "map_get z [] k = z"
  by (simp add: map_get_def)

lemma map_get_Cons [simp]: "map_get z ((k, v) # m) k' = (if k' = k then v else map_get z m k')"
  by (simp add: map_get_def)

lemma has_key_Nil [simp]: "\<not> has_key [] k"
  by (simp add: has_key_def)

lemma has_key_Cons [simp]: "has_key ((k, v) # m) k' \<longleftrightarrow> k' = k \<or> has_key m k'"
  by (simp add: has_key_def)

lemma map_get_no_key: "\<not> has_key m k \<Longrightarrow> map_get z m k = z"
  by (simp add: has_key_def map_get_def)

lemma map_get_update: "map_get z (AList.update k v m) k' = (if k' = k then v else map_get z m k')"
  by (simp add: map_get_def update_conv')

lemma map_get_append_at:
  "map_get [] (append_at k x m) k' = (if k' = k then map_get [] m k @ [x] else map_get [] m k')"
  by (simp add: append_at_def map_get_update)

lemma map_get_add_at:
  "map_get 0 (add_at k n m) k' = (if k' = k then map_get 0 m k + n else map_get 0 m k')"
  by (simp add: add_at_def map_get_update)

lemma has_key_update [simp]: "has_key (AList.update k v m) k' \<longleftrightarrow> k' = k \<or> has_key m k'"
  by (simp add: has_key_def update_conv')

lemma has_key_iff: "has_key m k \<longleftrightarrow> k \<in> fst ` set m"
  by (simp add: has_key_def map_of_eq_None_iff)

lemma distinct_keys_append_at: "distinct (map fst m) \<Longrightarrow> distinct (map fst (append_at k x m))"
  by (simp add: append_at_def distinct_update)

lemma distinct_keys_add_at: "distinct (map fst m) \<Longrightarrow> distinct (map fst (add_at k n m))"
  by (simp add: add_at_def distinct_update)

lemma map_of_put_all:
  "distinct (map fst src) \<Longrightarrow> map_of (put_all src dst) k =
     (case map_of src k of Some v \<Rightarrow> Some v | None \<Rightarrow> map_of dst k)"
proof (induction src arbitrary: dst)
  case Nil
  then show ?case by (simp add: put_all_def)
next
  case (Cons p src)
  have "put_all (p # src) dst = put_all src (AList.update (fst p) (snd p) dst)"
    by (simp add: put_all_def case_prod_beta)
  moreover have "map_of src (fst p) = None"
    using Cons.prems by (simp add: map_of_eq_None_iff)
  ultimately show ?case
    using Cons by (cases "k = fst p") (auto simp: update_conv' split: option.splits)
qed

section \<open>Go strings\<close>

definition between :: "char \<Rightarrow> char \<Rightarrow> char \<Rightarrow> bool" where
  "between lo hi c \<longleftrightarrow> of_char lo \<le> (of_char c :: nat) \<and> (of_char c :: nat) \<le> of_char hi"

definition is_lower :: "char \<Rightarrow> bool" where
  "is_lower c \<longleftrightarrow> between (CHR ''a'') (CHR ''z'') c"

definition is_upper :: "char \<Rightarrow> bool" where
  "is_upper c \<longleftrightarrow> between (CHR ''A'') (CHR ''Z'') c"

definition is_digit :: "char \<Rightarrow> bool" where
  "is_digit c \<longleftrightarrow> between (CHR ''0'') (CHR ''9'') c"

definition to_lower_char :: "char \<Rightarrow> char" where
  "to_lower_char c = (if is_upper c then char_of ((of_char c :: nat) + 32) else c)"

definition ToLower :: "string \<Rightarrow> string" where
  "ToLower s = map to_lower_char s"

definition HasPrefix :: "string \<Rightarrow> string \<Rightarrow> bool" where
  "HasPrefix s p \<longleftrightarrow> take (length p) s = p"

definition HasSuffix :: "string \<Rightarrow> string \<Rightarrow> bool" where
  "HasSuffix s p \<longleftrightarrow> HasPrefix (rev s) (rev p)"

fun Contains :: "string \<Rightarrow> string \<Rightarrow> bool" where
  "Contains [] sub = (sub = [])"
| "Contains (c # s) sub = (HasPrefix (c # s) sub \<or> Contains s sub)"

definition TrimLeft :: "string \<Rightarrow> string \<Rightarrow> string" where
  "TrimLeft s cutset = dropWhile (\<lambda>c. c \<in> set cutset) s"

definition TrimRight :: "string \<Rightarrow> string \<Rightarrow> string" where
  "TrimRight s cutset = rev (dropWhile (\<lambda>c. c \<in> set cutset) (rev s))"

definition Trim :: "string \<Rightarrow> string \<Rightarrow> string" where
  "Trim s cutset = TrimRight (TrimLeft s cutset) cutset"

definition TrimSuffix :: "string \<Rightarrow> string \<Rightarrow> string" where
  "TrimSuffix s p = (if HasSuffix s p then take (length s - length p) s else s)"

fun Split :: "string \<Rightarrow> char \<Rightarrow> string list" where
  "Split [] sep = [[]]"
| "Split (c # s) sep =
     (if c = sep then [] # Split s sep
      else (case Split s sep of [] \<Rightarrow> [[c]] | w # ws \<Rightarrow> (c # w) # ws))"

fun Join :: "string list \<Rightarrow> string \<Rightarrow> string" where
  "Join [] sep = []"
| "Join [w] sep = w"
| "Join (w # ws) sep = w @ sep @ Join ws sep"

text \<open>\<^verbatim>\<open>strings.ReplaceAll\<close> with a non-empty pattern: \<open>skip\<close> characters of a match are still to be dropped.\<close>

fun replace_aux :: "nat \<Rightarrow> string \<Rightarrow> string \<Rightarrow> string \<Rightarrow> string" where
  "replace_aux skip [] old new = []"
| "replace_aux (Suc skip) (c # s) old new = replace_aux skip s old new"
| "replace_aux 0 (c # s) old new =
     (if HasPrefix (c # s) old then new @ replace_aux (length old - 1) s old new
      else c # replace_aux 0 s old new)"

definition ReplaceAll :: "string \<Rightarrow> string \<Rightarrow> string \<Rightarrow> string" where
  "ReplaceAll s old new = replace_aux 0 s old new"

text \<open>\<^verbatim>\<open>fmt.Sprintf("%d", n)\<close>\<close>

fun nat_digits :: "nat \<Rightarrow> string" where
  "nat_digits n =
     (if n < 10 then [char_of (48 + n)] else nat_digits (n div 10) @ [char_of (48 + n mod 10)])"

declare nat_digits.simps [simp del]

definition Itoa :: "int \<Rightarrow> string" where
  "Itoa n = (if n < 0 then CHR ''-'' # nat_digits (nat (- n)) else nat_digits (nat n))"

text \<open>
  \<^verbatim>\<open>strconv.Atoi\<close>: \<open>Inl v\<close> is an error together with the value that is returned beside it
  (0 for a syntax error, the nearest 64-bit integer for a range error).
\<close>

definition digits_value :: "string \<Rightarrow> int" where
  "digits_value s = foldl (\<lambda>acc c. acc * 10 + (int (of_char c) - 48)) 0 s"

definition max_int64 :: int where "max_int64 = 2 ^ 63 - 1"
definition min_int64 :: int where "min_int64 = - (2 ^ 63)"

definition Atoi :: "string \<Rightarrow> int + int" where
  "Atoi s =
     (let neg = HasPrefix s ''-'';
          ds = (if neg \<or> HasPrefix s ''+'' then drop 1 s else s)
      in if ds = [] \<or> \<not> list_all is_digit ds then Inl 0
         else let v = (if neg then - digits_value ds else digits_value ds)
              in if v > max_int64 then Inl max_int64
                 else if v < min_int64 then Inl min_int64 else Inr v)"

definition atoi_value :: "string \<Rightarrow> int" where
  "atoi_value s = (case Atoi s of Inl v \<Rightarrow> v | Inr v \<Rightarrow> v)"

section \<open>Rounding\<close>

text \<open>\<^verbatim>\<open>math.Round\<close>: to the nearest integer, halves away from zero.\<close>

definition go_round :: "rat \<Rightarrow> int" where
  "go_round x = (if x < 0 then - \<lfloor>- x + 1 / 2\<rfloor> else \<lfloor>x + 1 / 2\<rfloor>)"

lemma go_round_mono: "x \<le> y \<Longrightarrow> go_round x \<le> go_round y"
proof -
  assume "x \<le> y"
  have neg: "go_round z \<le> 0" if "z < 0" for z
    using that by (simp add: go_round_def)
  have pos: "0 \<le> go_round z" if "0 \<le> z" for z
    using that by (simp add: go_round_def)
  show ?thesis
  proof (cases "x < 0 \<longleftrightarrow> y < 0")
    case True
    with \<open>x \<le> y\<close> show ?thesis by (auto simp: go_round_def intro!: floor_mono)
  next
    case False
    with \<open>x \<le> y\<close> have "x < 0" "0 \<le> y" by auto
    with neg pos show ?thesis by (meson order_trans)
  qed
qed

lemma go_round_of_int [simp]: "go_round (of_int n) = n"
proof (cases "(of_int n :: rat) < 0")
  case True
  have "\<lfloor>- (of_int n :: rat) + 1 / 2\<rfloor> = - n"
    by (rule floor_unique) simp_all
  with True show ?thesis by (simp add: go_round_def)
next
  case False
  have "\<lfloor>(of_int n :: rat) + 1 / 2\<rfloor> = n"
    by (rule floor_unique) simp_all
  with False show ?thesis by (simp add: go_round_def)
qed

text \<open>\<^verbatim>\<open>math.Round(x*100) / 100\<close>\<close>

definition round2 :: "rat \<Rightarrow> rat" where
  "round2 x = of_int (go_round (x * 100)) / 100"

lemma go_round_error: "\<bar>of_int (go_round x) - x\<bar> \<le> 1 / 2"
proof -
  have "\<bar>of_int \<lfloor>y + 1 / 2\<rfloor> - y\<bar> \<le> 1 / 2" for y :: rat
    using of_int_floor_le [of "y + 1 / 2"] floor_correct [of "y + 1 / 2"] by linarith
  note bound = this [of x] this [of "- x"]
  show ?thesis
  proof (cases "x < 0")
    case True
    have "\<bar>of_int (go_round x) - x\<bar> = \<bar>of_int \<lfloor>- x + 1 / 2\<rfloor> - - x\<bar>"
      using True by (simp add: go_round_def)
    with bound(2) show ?thesis by metis
  next
    case False
    then have "of_int (go_round x) = (of_int \<lfloor>x + 1 / 2\<rfloor> :: rat)" by (simp add: go_round_def)
    with bound(1) show ?thesis by metis
  qed
qed

lemma round2_error: "\<bar>round2 x - x\<bar> \<le> 1 / 200"
proof -
  have "round2 x - x = (of_int (go_round (x * 100)) - x * 100) / 100"
    by (simp add: round2_def diff_divide_distrib)
  then have "\<bar>round2 x - x\<bar> = \<bar>of_int (go_round (x * 100)) - x * 100\<bar> / 100"
    by (simp only: abs_divide abs_numeral)
  also have "\<dots> \<le> (1 / 2) / 100" using go_round_error [of "x * 100"] by (rule divide_right_mono) simp
  finally show ?thesis by simp
qed

lemma round2_mono: "x \<le> y \<Longrightarrow> round2 x \<le> round2 y"
  by (simp add: round2_def divide_right_mono go_round_mono)

lemma round2_hundredth [simp]: "round2 (of_int n / 100) = of_int n / 100"
  by (simp add: round2_def)

lemma round2_ge: "of_int n / 100 \<le> x \<Longrightarrow> of_int n / 100 \<le> round2 x"
  using round2_mono [of "of_int n / 100" x] by simp

lemma round2_le: "x \<le> of_int n / 100 \<Longrightarrow> round2 x \<le> of_int n / 100"
  using round2_mono [of x "of_int n / 100"] by simp

section \<open>Kubernetes metadata\<close>

datatype condition_status = CondTrue | CondFalse | CondUnknown

record Condition =
  c_type :: string
  c_status :: condition_status
  c_observedGeneration :: int
  c_lastTransitionTime :: int
  c_reason :: string
  c_message :: string

record OwnerReference =
  o_apiVersion :: string
  o_kind :: string
  o_name :: string
  o_uid :: string
  o_controller :: "bool option"

end
