(* ===== verification/GpuTypes.thy ===== *)
theory GpuTypes
  imports Prelude
begin

text \<open>
  The data of the GPU preemption controller: the \<open>GpuWorkload\<close> resource of
  \<^verbatim>\<open>apis/kaiwo/v1alpha1/gpuworkload_types.go\<close>, the defaults of
  \<^verbatim>\<open>apis/config/v1alpha1/kaiwoconfig_types.go\<close>, the fields of Pods and Kueue Workloads the
  controller reads, its constants, the resolution of settings (spec, then KaiwoConfig, then
  environment, then constant), the GPU resource accounting and the annotation parsing of
  \<^verbatim>\<open>internal/controller/gpuworkload_controller.go\<close>. Lemmas: what the resource accounting
  keeps and sums, when two resource maps are equal, and which annotations reach the spec.
\<close>

section \<open>The GpuWorkload resource\<close>

datatype PreemptionPolicy = PreemptionPolicyOnPressure | PreemptionPolicyAlways

datatype AggregationPolicy = AggregationPolicyMin | AggregationPolicyMax | AggregationPolicyAvg

text \<open>The empty string, which the CRD admits too, is \<open>PhaseUnset\<close>.\<close>

datatype GpuWorkloadPhase =
    PhaseUnset | PhasePendingGpu | PhasePendingOther | PhaseActive | PhaseIdle
  | PhasePreempting | PhasePreempted | PhaseDeleted

record WorkloadReference =
  ref_apiVersion :: string
  ref_kind :: string
  ref_name :: string
  ref_uid :: string

record GpuMetric =
  gm_gpuID :: string
  gm_utilization :: rat
  gm_lastUpdate :: int

record TrackedPod =
  tp_podName :: string
  tp_gpuMetrics :: "GpuMetric list"

record GpuWorkloadSpec =
  sp_workloadRef :: WorkloadReference
  sp_gpuResources :: "int gomap"
  sp_utilizationThreshold :: "rat option"
  sp_gracePeriod :: "int option"
  sp_preemptionPolicy :: "PreemptionPolicy option"
  sp_aggregationPolicy :: "AggregationPolicy option"
  sp_ttlAfterFinished :: "int option"

record GpuWorkloadStatus =
  st_phase :: GpuWorkloadPhase
  st_trackedPods :: "TrackedPod list"
  st_aggregatedUtilization :: "rat option"
  st_lastMetricsUpdate :: "int option"
  st_idleSince :: "int option"
  st_finishedAt :: "int option"
  st_ownerChain :: string
  st_preemptedAt :: "int option"
  st_preemptedFor :: string
  st_preemptionReason :: string
  st_conditions :: "Condition list"

record GpuWorkload =
  gw_name :: string
  gw_namespace :: string
  gw_resourceVersion :: nat
  gw_creationTimestamp :: int
  gw_spec :: GpuWorkloadSpec
  gw_status :: GpuWorkloadStatus

definition empty_status :: GpuWorkloadStatus where
  "empty_status = \<lparr>st_phase = PhaseUnset, st_trackedPods = [], st_aggregatedUtilization = None,
     st_lastMetricsUpdate = None, st_idleSince = None, st_finishedAt = None, st_ownerChain = [],
     st_preemptedAt = None, st_preemptedFor = [], st_preemptionReason = [], st_conditions = []\<rparr>"

abbreviation gw_phase :: "GpuWorkload \<Rightarrow> GpuWorkloadPhase" where
  "gw_phase gw \<equiv> st_phase (gw_status gw)"

abbreviation gw_resources :: "GpuWorkload \<Rightarrow> int gomap" where
  "gw_resources gw \<equiv> sp_gpuResources (gw_spec gw)"

abbreviation gw_ref :: "GpuWorkload \<Rightarrow> WorkloadReference" where
  "gw_ref gw \<equiv> sp_workloadRef (gw_spec gw)"

section \<open>Pods, Kueue Workloads, unstructured objects\<close>

datatype PodPhase = PodPending | PodRunning | PodSucceeded | PodFailed | PodUnknown

record Container =
  ct_requests :: "int gomap"
  ct_limits :: "int gomap"

record Pod =
  pod_name :: string
  pod_namespace :: string
  pod_uid :: string
  pod_labels :: "string gomap"
  pod_ownerReferences :: "OwnerReference list"
  pod_phase :: PodPhase
  pod_conditions :: "Condition list"
  pod_containers :: "Container list"
  pod_initContainers :: "Container list"

record KueueWorkload =
  wl_name :: string
  wl_namespace :: string
  wl_ownerReferences :: "OwnerReference list"
  wl_conditions :: "Condition list"

text \<open>
  An object read through the unstructured client. \<open>ob_podSpec\<close> is what
  \<^verbatim>\<open>runtime.DefaultUnstructuredConverter\<close> makes of \<^verbatim>\<open>spec.template.spec\<close>, and \<open>ob_spec\<close> of
  \<^verbatim>\<open>spec\<close>: \<open>None\<close> when the field is absent, \<open>Some None\<close> when it does not convert to a PodSpec.
\<close>

record Object =
  ob_apiVersion :: string
  ob_kind :: string
  ob_name :: string
  ob_uid :: string
  ob_annotations :: "string gomap"
  ob_ownerReferences :: "OwnerReference list"
  ob_podSpec :: "(Container list \<times> Container list) option option"
  ob_spec :: "(Container list \<times> Container list) option option"

section \<open>Constants\<close>

definition AnnotationPrefix :: string where
  "AnnotationPrefix = ''kaiwo.silogen.ai/gpu-preemption.''"
definition AnnotationThreshold :: string where
  "AnnotationThreshold = AnnotationPrefix @ ''threshold''"
definition AnnotationGracePeriod :: string where
  "AnnotationGracePeriod = AnnotationPrefix @ ''grace-period''"
definition AnnotationPolicy :: string where
  "AnnotationPolicy = AnnotationPrefix @ ''policy''"
definition AnnotationAggregation :: string where
  "AnnotationAggregation = AnnotationPrefix @ ''aggregation''"
definition AnnotationTTL :: string where
  "AnnotationTTL = AnnotationPrefix @ ''ttl''"
definition PreemptionEvalLeaseName :: string where
  "PreemptionEvalLeaseName = ''gpu-preemption-eval''"

definition second :: int where "second = 1000000000"

definition PreemptionEvalLeaseDur :: int where "PreemptionEvalLeaseDur = 30 * second"
definition IdleRequeueInterval :: int where "IdleRequeueInterval = 60 * second"

definition GpuResourcePrefix :: string where "GpuResourcePrefix = ''amd.com/''"
definition DefaultOperatorNamespace :: string where "DefaultOperatorNamespace = ''kaiwo-system''"
definition DefaultUtilizationThreshold :: rat where "DefaultUtilizationThreshold = 5"
definition DefaultGracePeriod :: int where "DefaultGracePeriod = 10 * 60 * second"
definition DefaultTTL :: int where "DefaultTTL = 24 * 60 * 60 * second"

definition EnvDefaultThreshold :: string where
  "EnvDefaultThreshold = ''GPU_PREEMPTION_DEFAULT_THRESHOLD''"
definition EnvDefaultGracePeriod :: string where
  "EnvDefaultGracePeriod = ''GPU_PREEMPTION_DEFAULT_GRACE_PERIOD''"
definition EnvDefaultPolicy :: string where
  "EnvDefaultPolicy = ''GPU_PREEMPTION_DEFAULT_POLICY''"
definition EnvDefaultAggregation :: string where
  "EnvDefaultAggregation = ''GPU_PREEMPTION_DEFAULT_AGGREGATION''"
definition EnvDefaultTTL :: string where
  "EnvDefaultTTL = ''GPU_PREEMPTION_DEFAULT_TTL''"
definition EnvOperatorNamespace :: string where
  "EnvOperatorNamespace = ''GPU_PREEMPTION_OPERATOR_NAMESPACE''"

section \<open>Settings\<close>

text \<open>
  The process environment and the parsers and printers of Go's library: \<open>parseFloat\<close> and
  \<open>parseDuration\<close> are \<open>None\<close> on an error; \<open>durationString\<close> is \<^verbatim>\<open>Duration.String\<close> and
  \<open>formatFloat1\<close> the verb \<^verbatim>\<open>%.1f\<close>.
\<close>

record GoEnv =
  getenv :: "string \<Rightarrow> string"
  parseFloat :: "string \<Rightarrow> rat option"
  parseDuration :: "string \<Rightarrow> int option"
  durationString :: "int \<Rightarrow> string"
  formatFloat1 :: "rat \<Rightarrow> string"

record KaiwoGpuPreemptionConfig =
  cfg_defaultThreshold :: "rat option"
  cfg_defaultGracePeriod :: "int option"
  cfg_defaultPolicy :: string
  cfg_defaultAggregation :: string
  cfg_defaultTTL :: "int option"

definition getOperatorNamespace :: "GoEnv \<Rightarrow> string" where
  "getOperatorNamespace env =
     (let ns = getenv env EnvOperatorNamespace in if ns = [] then DefaultOperatorNamespace else ns)"

definition getThreshold :: "GoEnv \<Rightarrow> GpuWorkload \<Rightarrow> KaiwoGpuPreemptionConfig \<Rightarrow> rat" where
  "getThreshold env gw cfg =
     (case sp_utilizationThreshold (gw_spec gw) of Some v \<Rightarrow> v
      | None \<Rightarrow> (case cfg_defaultThreshold cfg of Some v \<Rightarrow> v
      | None \<Rightarrow> (case parseFloat env (getenv env EnvDefaultThreshold) of Some v \<Rightarrow> v
      | None \<Rightarrow> DefaultUtilizationThreshold)))"

definition getGracePeriod :: "GoEnv \<Rightarrow> GpuWorkload \<Rightarrow> KaiwoGpuPreemptionConfig \<Rightarrow> int" where
  "getGracePeriod env gw cfg =
     (case sp_gracePeriod (gw_spec gw) of Some v \<Rightarrow> v
      | None \<Rightarrow> (case cfg_defaultGracePeriod cfg of Some v \<Rightarrow> v
      | None \<Rightarrow> (case parseDuration env (getenv env EnvDefaultGracePeriod) of Some v \<Rightarrow> v
      | None \<Rightarrow> DefaultGracePeriod)))"

definition getPreemptionPolicy ::
    "GoEnv \<Rightarrow> GpuWorkload \<Rightarrow> KaiwoGpuPreemptionConfig \<Rightarrow> PreemptionPolicy" where
  "getPreemptionPolicy env gw cfg =
     (case sp_preemptionPolicy (gw_spec gw) of Some p \<Rightarrow> p
      | None \<Rightarrow>
        if cfg_defaultPolicy cfg \<noteq> [] then
          (if cfg_defaultPolicy cfg = ''Always'' then PreemptionPolicyAlways
           else PreemptionPolicyOnPressure)
        else if getenv env EnvDefaultPolicy = ''Always'' then PreemptionPolicyAlways
        else PreemptionPolicyOnPressure)"

definition aggregation_of_string :: "string \<Rightarrow> AggregationPolicy option" where
  "aggregation_of_string s =
     (if s = ''Min'' then Some AggregationPolicyMin
      else if s = ''Avg'' then Some AggregationPolicyAvg
      else if s = ''Max'' then Some AggregationPolicyMax
      else None)"

definition getAggregationPolicy ::
    "GoEnv \<Rightarrow> GpuWorkload \<Rightarrow> KaiwoGpuPreemptionConfig \<Rightarrow> AggregationPolicy" where
  "getAggregationPolicy env gw cfg =
     (case sp_aggregationPolicy (gw_spec gw) of Some p \<Rightarrow> p
      | None \<Rightarrow>
        (case (if cfg_defaultAggregation cfg \<noteq> []
               then aggregation_of_string (cfg_defaultAggregation cfg) else None) of
           Some p \<Rightarrow> p
         | None \<Rightarrow>
             (let val = getenv env EnvDefaultAggregation in
              if val = ''Min'' then AggregationPolicyMin
              else if val = ''Avg'' then AggregationPolicyAvg
              else AggregationPolicyMax)))"

definition getTTL :: "GoEnv \<Rightarrow> GpuWorkload \<Rightarrow> KaiwoGpuPreemptionConfig \<Rightarrow> int" where
  "getTTL env gw cfg =
     (case sp_ttlAfterFinished (gw_spec gw) of Some v \<Rightarrow> v
      | None \<Rightarrow> (case cfg_defaultTTL cfg of Some v \<Rightarrow> v
      | None \<Rightarrow> (case parseDuration env (getenv env EnvDefaultTTL) of Some v \<Rightarrow> v
      | None \<Rightarrow> DefaultTTL)))"

section \<open>GPU resource accounting\<close>

text \<open>\<^verbatim>\<open>resources[name] += value\<close> for the requests of a main container\<close>

fun add_gpu_requests :: "int gomap \<Rightarrow> int gomap \<Rightarrow> int gomap" where
  "add_gpu_requests [] res = res"
| "add_gpu_requests ((name, qty) # rest) res =
     add_gpu_requests rest (if HasPrefix name GpuResourcePrefix then add_at name qty res else res)"

text \<open>\<^verbatim>\<open>if current, exists := resources[name]; !exists || value > current { resources[name] = value }\<close>\<close>

fun raise_gpu_to :: "int gomap \<Rightarrow> int gomap \<Rightarrow> int gomap" where
  "raise_gpu_to [] res = res"
| "raise_gpu_to ((name, qty) # rest) res =
     raise_gpu_to rest
       (if HasPrefix name GpuResourcePrefix \<and> (\<not> has_key res name \<or> qty > map_get 0 res name)
        then AList.update name qty res else res)"

fun main_container_resources :: "Container list \<Rightarrow> int gomap \<Rightarrow> int gomap" where
  "main_container_resources [] res = res"
| "main_container_resources (c # cs) res =
     main_container_resources cs (raise_gpu_to (ct_limits c) (add_gpu_requests (ct_requests c) res))"

fun init_container_resources :: "Container list \<Rightarrow> int gomap \<Rightarrow> int gomap" where
  "init_container_resources [] res = res"
| "init_container_resources (c # cs) res =
     init_container_resources cs (raise_gpu_to (ct_requests c) res)"

definition extractGpuResources :: "Container list \<Rightarrow> Container list \<Rightarrow> int gomap" where
  "extractGpuResources containers initContainers =
     init_container_resources initContainers (main_container_resources containers [])"

definition podGpuResources :: "Pod \<Rightarrow> int gomap" where
  "podGpuResources pod = extractGpuResources (pod_containers pod) (pod_initContainers pod)"

fun add_all_at :: "int gomap \<Rightarrow> int gomap \<Rightarrow> int gomap" where
  "add_all_at [] tot = tot"
| "add_all_at ((name, count) # rest) tot = add_all_at rest (add_at name count tot)"

fun sum_pods :: "Pod list \<Rightarrow> int gomap \<Rightarrow> int gomap" where
  "sum_pods [] tot = tot"
| "sum_pods (p # ps) tot = sum_pods ps (add_all_at (podGpuResources p) tot)"

definition computeTotalGpuResources :: "Pod list \<Rightarrow> int gomap" where
  "computeTotalGpuResources pods = sum_pods pods []"

definition gpuResourcesEqual :: "int gomap \<Rightarrow> int gomap \<Rightarrow> bool" where
  "gpuResourcesEqual a b \<longleftrightarrow>
     length a = length b \<and> list_all (\<lambda>(k, v). map_get 0 b k = v) a"

definition hasGpuResources :: "Pod \<Rightarrow> bool" where
  "hasGpuResources pod \<longleftrightarrow>
     list_ex (\<lambda>c. list_ex (\<lambda>(r, _). HasPrefix r GpuResourcePrefix) (ct_requests c)
                \<or> list_ex (\<lambda>(r, _). HasPrefix r GpuResourcePrefix) (ct_limits c))
       (pod_containers pod)"

text \<open>\<open>spec.template.spec\<close> first, then \<open>spec\<close>; an object with neither has no resources.\<close>

definition extractGpuResourcesFromUnstructuredOwner :: "Object \<Rightarrow> int gomap" where
  "extractGpuResourcesFromUnstructuredOwner obj =
     (case (case ob_podSpec obj of Some s \<Rightarrow> Some s | None \<Rightarrow> ob_spec obj) of
        Some (Some (containers, initContainers)) \<Rightarrow> extractGpuResources containers initContainers
      | _ \<Rightarrow> [])"

section \<open>Annotations\<close>

definition mergePreemptionAnnotations :: "string gomap \<Rightarrow> string gomap \<Rightarrow> string gomap" where
  "mergePreemptionAnnotations base override =
     put_all (filter (\<lambda>(k, _). HasPrefix k AnnotationPrefix) override)
       (put_all (filter (\<lambda>(k, _). HasPrefix k AnnotationPrefix) base) [])"

definition isGpuPreemptionAnnotated :: "string gomap \<Rightarrow> bool" where
  "isGpuPreemptionAnnotated annotations \<longleftrightarrow>
     annotations \<noteq> [] \<and> list_ex (\<lambda>(k, _). HasPrefix k AnnotationPrefix) annotations"

text \<open>\<^verbatim>\<open>if v, ok := annotations[key]; ok { if x, err := parse(v); err == nil { field = &x } }\<close>\<close>

definition parse_into ::
    "(string \<Rightarrow> 'x option) \<Rightarrow> string gomap \<Rightarrow> string \<Rightarrow> ('x option \<Rightarrow> 's \<Rightarrow> 's) \<Rightarrow> 's \<Rightarrow> 's" where
  "parse_into parse annotations key write spec =
     (case map_of annotations key of
        None \<Rightarrow> spec
      | Some v \<Rightarrow> (case parse v of None \<Rightarrow> spec | Some x \<Rightarrow> write (Some x) spec))"

definition policy_of_string :: "string \<Rightarrow> PreemptionPolicy option" where
  "policy_of_string s =
     (if s = ''Always'' then Some PreemptionPolicyAlways
      else if s = ''OnPressure'' then Some PreemptionPolicyOnPressure else None)"

definition parseAnnotationsIntoSpec ::
    "GoEnv \<Rightarrow> string gomap \<Rightarrow> GpuWorkloadSpec \<Rightarrow> GpuWorkloadSpec" where
  "parseAnnotationsIntoSpec env a spec0 =
     (let spec1 = parse_into (parseFloat env) a AnnotationThreshold
                    (\<lambda>x. sp_utilizationThreshold_update (\<lambda>_. x)) spec0;
          spec2 = parse_into (parseDuration env) a AnnotationGracePeriod
                    (\<lambda>x. sp_gracePeriod_update (\<lambda>_. x)) spec1;
          spec3 = parse_into policy_of_string a AnnotationPolicy
                    (\<lambda>x. sp_preemptionPolicy_update (\<lambda>_. x)) spec2;
          spec4 = parse_into aggregation_of_string a AnnotationAggregation
                    (\<lambda>x. sp_aggregationPolicy_update (\<lambda>_. x)) spec3
      in parse_into (parseDuration env) a AnnotationTTL
           (\<lambda>x. sp_ttlAfterFinished_update (\<lambda>_. x)) spec4)"

section \<open>Concrete values\<close>

text \<open>An environment without variables, a configuration without defaults, a workload and a pod
  that the witnesses of this and the following theories instantiate.\<close>

definition example_env :: GoEnv where
  "example_env = \<lparr>getenv = (\<lambda>_. []), parseFloat = (\<lambda>_. None),
     parseDuration = (\<lambda>_. None), durationString = (\<lambda>_. []), formatFloat1 = (\<lambda>_. [])\<rparr>"

definition example_cfg :: KaiwoGpuPreemptionConfig where
  "example_cfg = \<lparr>cfg_defaultThreshold = None, cfg_defaultGracePeriod = None, cfg_defaultPolicy = [],
     cfg_defaultAggregation = [], cfg_defaultTTL = None\<rparr>"

definition example_spec :: "int \<Rightarrow> GpuWorkloadSpec" where
  "example_spec gpus = \<lparr>
     sp_workloadRef = \<lparr>ref_apiVersion = ''batch/v1'', ref_kind = ''Job'', ref_name = ''train'', ref_uid = ''u1''\<rparr>,
     sp_gpuResources = [(''amd.com/gpu'', gpus)], sp_utilizationThreshold = None,
     sp_gracePeriod = None, sp_preemptionPolicy = None, sp_aggregationPolicy = None,
     sp_ttlAfterFinished = None\<rparr>"

definition example_gw :: "string \<Rightarrow> int \<Rightarrow> GpuWorkloadStatus \<Rightarrow> GpuWorkload" where
  "example_gw name gpus status = \<lparr>gw_name = name, gw_namespace = ''ns'', gw_resourceVersion = 1,
     gw_creationTimestamp = 0, gw_spec = example_spec gpus, gw_status = status\<rparr>"

definition example_tracked :: "rat \<Rightarrow> TrackedPod" where
  "example_tracked u = \<lparr>tp_podName = ''p'',
     tp_gpuMetrics = [\<lparr>gm_gpuID = ''0'', gm_utilization = u, gm_lastUpdate = 0\<rparr>]\<rparr>"

definition example_pod :: "string \<Rightarrow> PodPhase \<Rightarrow> Pod" where
  "example_pod name phase = \<lparr>pod_name = name, pod_namespace = ''ns'', pod_uid = ''pu'', pod_labels = [],
     pod_ownerReferences = [], pod_phase = phase, pod_conditions = [],
     pod_containers = [\<lparr>ct_requests = [(''amd.com/gpu'', 2)], ct_limits = [(''amd.com/gpu'', 2)]\<rparr>],
     pod_initContainers = [\<lparr>ct_requests = [(''amd.com/gpu'', 1)], ct_limits = [(''amd.com/gpu'', 1)]\<rparr>]\<rparr>"

lemmas example_defs = example_env_def example_cfg_def example_spec_def example_gw_def
  example_tracked_def example_pod_def empty_status_def

section \<open>Lemmas\<close>

text \<open>What one step of the accounting does to the count of one resource.\<close>

lemma distinct_add_gpu_requests:
  "distinct (map fst res) \<Longrightarrow> distinct (map fst (add_gpu_requests reqs res))"
  by (induction reqs res rule: add_gpu_requests.induct) (auto simp: distinct_keys_add_at)

lemma distinct_raise_gpu_to: "distinct (map fst res) \<Longrightarrow> distinct (map fst (raise_gpu_to lims res))"
  by (induction lims res rule: raise_gpu_to.induct) (auto simp: distinct_update)

lemma distinct_main_container_resources:
  "distinct (map fst res) \<Longrightarrow> distinct (map fst (main_container_resources cs res))"
  by (induction cs res rule: main_container_resources.induct)
    (auto simp: distinct_add_gpu_requests distinct_raise_gpu_to)

lemma distinct_init_container_resources:
  "distinct (map fst res) \<Longrightarrow> distinct (map fst (init_container_resources cs res))"
  by (induction cs res rule: init_container_resources.induct) (auto simp: distinct_raise_gpu_to)

lemma distinct_podGpuResources: "distinct (map fst (podGpuResources pod))"
  by (simp add: podGpuResources_def extractGpuResources_def distinct_init_container_resources
      distinct_main_container_resources)

lemma add_gpu_requests_get:
  "distinct (map fst reqs) \<Longrightarrow>
   map_get 0 (add_gpu_requests reqs res) r =
     map_get 0 res r + (if HasPrefix r GpuResourcePrefix then map_get 0 reqs r else 0)"
proof (induction reqs res rule: add_gpu_requests.induct)
  case (1 res)
  then show ?case by (simp add: map_get_def)
next
  case (2 name qty rest res)
  have "\<not> has_key rest name" using "2.prems" by (auto simp: has_key_iff)
  then have "map_get 0 rest name = 0" by (rule map_get_no_key)
  with 2 show ?case by (simp add: map_get_add_at)
qed

lemma add_gpu_requests_keys:
  "has_key (add_gpu_requests reqs res) r \<longleftrightarrow>
     has_key res r \<or> (HasPrefix r GpuResourcePrefix \<and> has_key reqs r)"
  by (induction reqs res rule: add_gpu_requests.induct) (auto simp: add_at_def)

lemma raise_gpu_to_get:
  "distinct (map fst lims) \<Longrightarrow>
   map_get 0 (raise_gpu_to lims res) r =
     (if HasPrefix r GpuResourcePrefix \<and> has_key lims r
      then (if has_key res r then max (map_get 0 res r) (map_get 0 lims r) else map_get 0 lims r)
      else map_get 0 res r)"
proof (induction lims res rule: raise_gpu_to.induct)
  case (1 res)
  then show ?case by (simp add: has_key_def)
next
  case (2 name qty rest res)
  have "\<not> has_key rest name" using "2.prems" by (auto simp: has_key_iff)
  with 2 show ?case
    by (cases "r = name") (simp_all add: map_get_update)
qed

lemma raise_gpu_to_keys:
  "has_key (raise_gpu_to lims res) r \<longleftrightarrow>
     has_key res r \<or> (HasPrefix r GpuResourcePrefix \<and> has_key lims r)"
  by (induction lims res rule: raise_gpu_to.induct) (auto)

text \<open>
  Kubernetes' rule for extended resources, which the device-plugin resources are: quantities
  are not negative, and limits equal requests.
\<close>

definition extended_container :: "Container \<Rightarrow> bool" where
  "extended_container c \<longleftrightarrow>
     distinct (map fst (ct_requests c)) \<and> distinct (map fst (ct_limits c)) \<and>
     list_all (\<lambda>(_, q). 0 \<le> q) (ct_requests c) \<and>
     (\<forall>r. map_of (ct_limits c) r = map_of (ct_requests c) r)"

lemma extended_container_nonneg: "extended_container c \<Longrightarrow> 0 \<le> map_get 0 (ct_requests c) r"
  by (auto simp: extended_container_def map_get_def list_all_iff split: option.splits
      dest!: map_of_SomeD)

lemma main_container_step:
  assumes "extended_container c" and "0 \<le> map_get 0 res r" and "HasPrefix r GpuResourcePrefix"
  shows "map_get 0 (raise_gpu_to (ct_limits c) (add_gpu_requests (ct_requests c) res)) r
         = map_get 0 res r + map_get 0 (ct_requests c) r"
proof -
  have eq: "has_key (ct_limits c) r = has_key (ct_requests c) r"
    "map_get 0 (ct_limits c) r = map_get 0 (ct_requests c) r"
    using assms(1) by (auto simp: extended_container_def has_key_def map_get_def)
  have d: "distinct (map fst (ct_limits c))" "distinct (map fst (ct_requests c))"
    using assms(1) by (auto simp: extended_container_def)
  show ?thesis
    using assms(2,3) extended_container_nonneg [OF assms(1), of r]
    by (simp add: raise_gpu_to_get [OF d(1)] add_gpu_requests_get [OF d(2)]
        add_gpu_requests_keys eq)
qed

lemma main_container_resources_get:
  assumes "list_all extended_container cs" and "0 \<le> map_get 0 res r"
    and "HasPrefix r GpuResourcePrefix"
  shows "map_get 0 (main_container_resources cs res) r
         = map_get 0 res r + sum_list (map (\<lambda>c. map_get 0 (ct_requests c) r) cs)"
  using assms
proof (induction cs res rule: main_container_resources.induct)
  case (2 c cs res)
  then show ?case using extended_container_nonneg [of c r] by (simp add: main_container_step)
qed simp

lemma init_container_resources_get:
  assumes "list_all extended_container cs" and "0 \<le> map_get 0 res r"
    and "HasPrefix r GpuResourcePrefix"
  shows "map_get 0 (init_container_resources cs res) r
         = fold (\<lambda>c acc. max acc (map_get 0 (ct_requests c) r)) cs (map_get 0 res r)"
  using assms
proof (induction cs res rule: init_container_resources.induct)
  case (2 c cs res)
  have d: "distinct (map fst (ct_requests c))" using 2 by (simp add: extended_container_def)
  have "map_get 0 (raise_gpu_to (ct_requests c) res) r
        = max (map_get 0 res r) (map_get 0 (ct_requests c) r)"
    using 2 extended_container_nonneg [of c r]
    by (auto simp: raise_gpu_to_get [OF d] map_get_no_key)
  with 2 show ?case by simp
qed simp

lemma gpu_prefix_only_main:
  "has_key (main_container_resources cs res) r \<Longrightarrow> HasPrefix r GpuResourcePrefix \<or> has_key res r"
  by (induction cs res rule: main_container_resources.induct)
    (auto simp: raise_gpu_to_keys add_gpu_requests_keys)

lemma gpu_prefix_only_init:
  "has_key (init_container_resources cs res) r \<Longrightarrow> HasPrefix r GpuResourcePrefix \<or> has_key res r"
  by (induction cs res rule: init_container_resources.induct) (auto simp: raise_gpu_to_keys)

lemma extractGpuResources_prefix:
  "has_key (extractGpuResources cs ics) r \<Longrightarrow> HasPrefix r GpuResourcePrefix"
  unfolding extractGpuResources_def
  by (auto dest!: gpu_prefix_only_init gpu_prefix_only_main)

text \<open>The sum over the pods.\<close>

lemma distinct_add_all_at: "distinct (map fst tot) \<Longrightarrow> distinct (map fst (add_all_at m tot))"
  by (induction m tot rule: add_all_at.induct) (auto simp: distinct_keys_add_at)

lemma add_all_at_get:
  "distinct (map fst m) \<Longrightarrow> map_get 0 (add_all_at m tot) r = map_get 0 tot r + map_get 0 m r"
proof (induction m tot rule: add_all_at.induct)
  case (1 tot)
  then show ?case by (simp add: map_get_def)
next
  case (2 name count rest tot)
  have "\<not> has_key rest name" using "2.prems" by (auto simp: has_key_iff)
  then have "map_get 0 rest name = 0" by (rule map_get_no_key)
  with 2 show ?case by (simp add: map_get_add_at)
qed

lemma sum_pods_get:
  "map_get 0 (sum_pods ps tot) r
   = map_get 0 tot r + sum_list (map (\<lambda>p. map_get 0 (podGpuResources p) r) ps)"
  by (induction ps tot rule: sum_pods.induct)
    (simp_all add: add_all_at_get distinct_podGpuResources)

lemma distinct_computeTotalGpuResources: "distinct (map fst (computeTotalGpuResources pods))"
proof -
  have "distinct (map fst tot) \<Longrightarrow> distinct (map fst (sum_pods pods tot))" for tot
    by (induction pods tot rule: sum_pods.induct) (auto simp: distinct_add_all_at)
  then show ?thesis by (simp add: computeTotalGpuResources_def)
qed

text \<open>Equality of resource maps.\<close>

lemma map_get_eq_imp_key: "map_get 0 b k = v \<Longrightarrow> v \<noteq> (0::int) \<Longrightarrow> map_of b k = Some v"
  by (auto simp: map_get_def split: option.splits)

lemma distinct_keys_subset_eq:
  fixes a b :: "int gomap"
  assumes "distinct (map fst a)" and "distinct (map fst b)" and "length a = length b"
    and "fst ` set a \<subseteq> fst ` set b"
  shows "fst ` set a = fst ` set b"
proof (rule card_subset_eq)
  have "card (fst ` set m) = length m" if "distinct (map fst m)" for m :: "(string \<times> int) list"
    using distinct_card [OF that] by simp
  with assms show "card (fst ` set a) = card (fst ` set b)" by simp
qed (use assms in auto)

lemma gpuResourcesEqual_sound:
  assumes "distinct (map fst a)" and "distinct (map fst b)"
    and "list_all (\<lambda>(_, v). v \<noteq> 0) a" and "gpuResourcesEqual a b"
  shows "map_of a = map_of b"
proof -
  have len: "length a = length b" and all: "\<And>k v. (k, v) \<in> set a \<Longrightarrow> map_get 0 b k = v"
    using assms(4) by (auto simp: gpuResourcesEqual_def list_all_iff)
  have some: "map_of b k = Some v" if "(k, v) \<in> set a" for k v
    using that assms(3) all by (auto simp: list_all_iff intro!: map_get_eq_imp_key)
  then have "fst ` set a \<subseteq> fst ` set b" by (auto dest!: some map_of_SomeD intro: rev_image_eqI)
  then have keys: "fst ` set a = fst ` set b"
    using distinct_keys_subset_eq [OF assms(1,2) len] by blast
  show ?thesis
  proof
    fix k
    show "map_of a k = map_of b k"
    proof (cases "map_of a k")
      case None
      then have "k \<notin> fst ` set b" using keys by (metis map_of_eq_None_iff)
      with None show ?thesis by (metis map_of_eq_None_iff)
    next
      case (Some v)
      then show ?thesis using some [OF map_of_SomeD [OF Some]] by simp
    qed
  qed
qed

lemma gpuResourcesEqual_complete:
  assumes "distinct (map fst a)" and "distinct (map fst b)" and "map_of a = map_of b"
  shows "gpuResourcesEqual a b"
proof -
  have "set a = set b"
    using assms by (metis map_of_eqI map_of_inject_set)
  then have "length a = length b"
    using assms(1,2) by (metis distinct_card distinct_map)
  moreover have "map_get 0 b k = v" if "(k, v) \<in> set a" for k v
    using that assms by (metis map_get_def map_of_is_SomeI option.simps(5))
  ultimately show ?thesis by (auto simp: gpuResourcesEqual_def list_all_iff)
qed

text \<open>Annotations.\<close>

lemma merged_annotation_of:
  assumes "distinct (map fst base)" and "distinct (map fst override)"
    and "HasPrefix k AnnotationPrefix"
  shows "map_of (mergePreemptionAnnotations base override) k =
           (case map_of override k of Some v \<Rightarrow> Some v | None \<Rightarrow> map_of base k)"
proof -
  have filt: "map_of (filter (\<lambda>(k, _). HasPrefix k AnnotationPrefix) m) k = map_of m k"
    for m :: "string gomap"
    using assms(3) by (induction m) auto
  have "distinct (map fst (filter (\<lambda>(k, _). HasPrefix k AnnotationPrefix) m))"
    if "distinct (map fst m)" for m :: "string gomap"
    using that by (simp add: distinct_map_filter)
  with assms show ?thesis
    by (simp add: mergePreemptionAnnotations_def map_of_put_all filt split: option.splits)
qed

lemma merged_annotation_other:
  assumes "distinct (map fst base)" and "distinct (map fst override)"
    and "\<not> HasPrefix k AnnotationPrefix"
  shows "map_of (mergePreemptionAnnotations base override) k = None"
proof -
  have filt: "map_of (filter (\<lambda>(k, _). HasPrefix k AnnotationPrefix) m) k = None"
    for m :: "string gomap"
    using assms(3) by (induction m) auto
  have "distinct (map fst (filter (\<lambda>(k, _). HasPrefix k AnnotationPrefix) m))"
    if "distinct (map fst m)" for m :: "string gomap"
    using that by (simp add: distinct_map_filter)
  with assms show ?thesis
    by (simp add: mergePreemptionAnnotations_def map_of_put_all filt)
qed

lemma parse_into_frame: "(\<And>x t. f (write x t) = f t) \<Longrightarrow> f (parse_into parse a key write s) = f s"
  by (simp add: parse_into_def split: option.split)

lemma parse_into_field:
  "(\<And>x t. f (write x t) = x) \<Longrightarrow> f (parse_into parse a key write s) =
     (case Option.bind (map_of a key) parse of Some x \<Rightarrow> Some x | None \<Rightarrow> f s)"
  by (simp add: parse_into_def split: option.split)

lemma parseAnnotationsIntoSpec_frame:
  "sp_workloadRef (parseAnnotationsIntoSpec env a spec0) = sp_workloadRef spec0"
  "sp_gpuResources (parseAnnotationsIntoSpec env a spec0) = sp_gpuResources spec0"
  by (simp_all add: parseAnnotationsIntoSpec_def Let_def parse_into_frame [of sp_workloadRef]
      parse_into_frame [of sp_gpuResources])

lemma parseAnnotationsIntoSpec_fields:
  "sp_utilizationThreshold (parseAnnotationsIntoSpec env a spec0) =
     (case Option.bind (map_of a AnnotationThreshold) (parseFloat env) of
        Some f \<Rightarrow> Some f | None \<Rightarrow> sp_utilizationThreshold spec0)"
  "sp_gracePeriod (parseAnnotationsIntoSpec env a spec0) =
     (case Option.bind (map_of a AnnotationGracePeriod) (parseDuration env) of
        Some d \<Rightarrow> Some d | None \<Rightarrow> sp_gracePeriod spec0)"
  "sp_preemptionPolicy (parseAnnotationsIntoSpec env a spec0) =
     (case Option.bind (map_of a AnnotationPolicy) policy_of_string of
        Some p \<Rightarrow> Some p | None \<Rightarrow> sp_preemptionPolicy spec0)"
  "sp_aggregationPolicy (parseAnnotationsIntoSpec env a spec0) =
     (case Option.bind (map_of a AnnotationAggregation) aggregation_of_string of
        Some p \<Rightarrow> Some p | None \<Rightarrow> sp_aggregationPolicy spec0)"
  "sp_ttlAfterFinished (parseAnnotationsIntoSpec env a spec0) =
     (case Option.bind (map_of a AnnotationTTL) (parseDuration env) of
        Some d \<Rightarrow> Some d | None \<Rightarrow> sp_ttlAfterFinished spec0)"
  by (simp_all add: parseAnnotationsIntoSpec_def Let_def
      parse_into_frame [of sp_utilizationThreshold] parse_into_field [of sp_utilizationThreshold]
      parse_into_frame [of sp_gracePeriod] parse_into_field [of sp_gracePeriod]
      parse_into_frame [of sp_preemptionPolicy] parse_into_field [of sp_preemptionPolicy]
      parse_into_frame [of sp_aggregationPolicy] parse_into_field [of sp_aggregationPolicy]
      parse_into_frame [of sp_ttlAfterFinished] parse_into_field [of sp_ttlAfterFinished]
      cong: option.case_cong)

section \<open>Properties\<close>

text \<open>
  The GPU total of a workload. For containers whose limits equal their non-negative requests
  (which Kubernetes demands of extended resources) the total of a GPU resource over the pods is
  the sum, pod by pod, of the larger of the main containers' summed requests and the largest
  init-container request; a resource without the GPU prefix is never counted.
\<close>

theorem computeTotalGpuResources_total:
  assumes "\<forall>p \<in> set pods. list_all extended_container (pod_containers p) \<and>
                           list_all extended_container (pod_initContainers p)"
  shows "map_get 0 (computeTotalGpuResources pods) r =
    (if HasPrefix r GpuResourcePrefix
     then (\<Sum>p\<leftarrow>pods. fold (\<lambda>c acc. max acc (map_get 0 (ct_requests c) r)) (pod_initContainers p)
                         (\<Sum>c\<leftarrow>pod_containers p. map_get 0 (ct_requests c) r))
     else 0)"
proof (cases "HasPrefix r GpuResourcePrefix")
  case False
  then have "map_get 0 (podGpuResources p) r = 0" for p
    using extractGpuResources_prefix map_get_no_key unfolding podGpuResources_def by metis
  with False show ?thesis by (simp add: computeTotalGpuResources_def sum_pods_get)
next
  case True
  have pod: "map_get 0 (podGpuResources p) r =
      fold (\<lambda>c acc. max acc (map_get 0 (ct_requests c) r)) (pod_initContainers p)
        (\<Sum>c\<leftarrow>pod_containers p. map_get 0 (ct_requests c) r)" if "p \<in> set pods" for p
  proof -
    have ext: "list_all extended_container (pod_containers p)"
        "list_all extended_container (pod_initContainers p)" using assms that by auto
    have main: "map_get 0 (main_container_resources (pod_containers p) []) r =
        (\<Sum>c\<leftarrow>pod_containers p. map_get 0 (ct_requests c) r)"
      using main_container_resources_get [OF ext(1) _ True, of "[]"] by simp
    have "0 \<le> (\<Sum>c\<leftarrow>pod_containers p. map_get 0 (ct_requests c) r)"
      using ext(1) by (intro sum_list_nonneg) (auto simp: list_all_iff extended_container_nonneg)
    then show ?thesis
      using init_container_resources_get [OF ext(2) _ True] main
      by (simp add: podGpuResources_def extractGpuResources_def)
  qed
  then have "map (\<lambda>p. map_get 0 (podGpuResources p) r) pods = map (\<lambda>p.
      fold (\<lambda>c acc. max acc (map_get 0 (ct_requests c) r)) (pod_initContainers p)
        (\<Sum>c\<leftarrow>pod_containers p. map_get 0 (ct_requests c) r)) pods" by simp
  with True show ?thesis by (simp only: computeTotalGpuResources_def sum_pods_get map_get_Nil add_0 if_True)
qed

theorem computeTotalGpuResources_total_witness:
  "map_get 0 (computeTotalGpuResources [example_pod ''a'' PodRunning, example_pod ''b'' PodPending])
     ''amd.com/gpu'' = 4"
  using computeTotalGpuResources_total
    [of "[example_pod ''a'' PodRunning, example_pod ''b'' PodPending]" "''amd.com/gpu''"]
  by (simp add: example_pod_def extended_container_def HasPrefix_def GpuResourcePrefix_def)

text \<open>
  \<open>gpuResourcesEqual\<close> decides equality of resource maps that hold no zero count, in whichever
  order Go visits them. With a zero count it does not: a missing key reads as zero, so two maps with
  different keys compare equal.
\<close>

theorem gpuResourcesEqual_decides:
  assumes "distinct (map fst a)" and "distinct (map fst b)" and "list_all (\<lambda>(_, v). v \<noteq> 0) a"
  shows "gpuResourcesEqual a b = (map_of a = map_of b) \<and>
         gpuResourcesEqual [(''amd.com/gpu'', 0)] [(''amd.com/mig'', n)]"
proof
  show "gpuResourcesEqual a b = (map_of a = map_of b)"
    using gpuResourcesEqual_sound [OF assms] gpuResourcesEqual_complete [OF assms(1,2)] by blast
qed (simp add: gpuResourcesEqual_def)

theorem gpuResourcesEqual_decides_witness:
  "gpuResourcesEqual [(''amd.com/gpu'', 1), (''amd.com/mig'', 2)] [(''amd.com/mig'', 2), (''amd.com/gpu'', 1)]"
  using gpuResourcesEqual_decides
    [of "[(''amd.com/gpu'', 1), (''amd.com/mig'', 2)]" "[(''amd.com/mig'', 2), (''amd.com/gpu'', 1)]" 1]
  by (auto simp: fun_upd_twist)

text \<open>
  Settings that reach the spec of a GpuWorkload. An annotation of the overriding object wins over
  the same annotation of the base object, and the merged map holds preemption annotations only. Of the
  merged map a well-formed value is written to its field, an ill-formed or missing one leaves the
  field as it was, and the workload reference and the GPU counts are never touched.
\<close>

theorem annotations_reach_spec:
  assumes "distinct (map fst base)" and "distinct (map fst override)"
  shows "let merged = mergePreemptionAnnotations base override;
             val = (\<lambda>k. case map_of override k of Some v \<Rightarrow> Some v | None \<Rightarrow> map_of base k);
             spec = parseAnnotationsIntoSpec env merged spec0
         in (\<forall>k. has_key merged k = (HasPrefix k AnnotationPrefix \<and> val k \<noteq> None)) \<and>
            sp_workloadRef spec = sp_workloadRef spec0 \<and> sp_gpuResources spec = sp_gpuResources spec0 \<and>
            sp_utilizationThreshold spec = (case Option.bind (val AnnotationThreshold) (parseFloat env) of
               Some f \<Rightarrow> Some f | None \<Rightarrow> sp_utilizationThreshold spec0) \<and>
            sp_gracePeriod spec = (case Option.bind (val AnnotationGracePeriod) (parseDuration env) of
               Some d \<Rightarrow> Some d | None \<Rightarrow> sp_gracePeriod spec0) \<and>
            sp_preemptionPolicy spec = (case Option.bind (val AnnotationPolicy) policy_of_string of
               Some p \<Rightarrow> Some p | None \<Rightarrow> sp_preemptionPolicy spec0) \<and>
            sp_aggregationPolicy spec = (case Option.bind (val AnnotationAggregation) aggregation_of_string of
               Some p \<Rightarrow> Some p | None \<Rightarrow> sp_aggregationPolicy spec0) \<and>
            sp_ttlAfterFinished spec = (case Option.bind (val AnnotationTTL) (parseDuration env) of
               Some d \<Rightarrow> Some d | None \<Rightarrow> sp_ttlAfterFinished spec0)"
proof -
  let ?m = "mergePreemptionAnnotations base override"
  have keys: "map_of ?m k = (if HasPrefix k AnnotationPrefix
      then (case map_of override k of Some v \<Rightarrow> Some v | None \<Rightarrow> map_of base k) else None)" for k
    using merged_annotation_of [OF assms, of k] merged_annotation_other [OF assms, of k] by auto
  have pre: "HasPrefix AnnotationThreshold AnnotationPrefix" "HasPrefix AnnotationGracePeriod AnnotationPrefix"
      "HasPrefix AnnotationPolicy AnnotationPrefix" "HasPrefix AnnotationAggregation AnnotationPrefix"
      "HasPrefix AnnotationTTL AnnotationPrefix"
    by (simp_all add: HasPrefix_def AnnotationThreshold_def AnnotationGracePeriod_def
        AnnotationPolicy_def AnnotationAggregation_def AnnotationTTL_def)
  show ?thesis
    by (simp add: Let_def has_key_def parseAnnotationsIntoSpec_frame parseAnnotationsIntoSpec_fields
        keys pre)
qed

theorem annotations_reach_spec_witness:
  "sp_gracePeriod (parseAnnotationsIntoSpec (example_env\<lparr>parseDuration := (\<lambda>s. Some 7)\<rparr>)
     (mergePreemptionAnnotations [(AnnotationGracePeriod, ''5m'')] []) (example_spec 1)) = Some 7"
  using annotations_reach_spec [of "[(AnnotationGracePeriod, ''5m'')]" "[]"
      "example_env\<lparr>parseDuration := (\<lambda>s. Some 7)\<rparr>" "example_spec 1"]
  by (simp add: Let_def)

end
