(* ===== verification/GpuClient.thy ===== *)
theory GpuClient
  imports GpuTypes
begin

text \<open>
  The calls that the GPU preemption controller makes on its client, its clock and its event
  recorder: one event per call, with the arguments and the answer, and the record of answers.
  The API server is not part of the repository, so each answer is an argument of the model, a
  function of the history of all events so far: concurrent writers, stale caches and failures
  are covered by quantifying over it. Also the reconciler's other surroundings: environment,
  constants of the Kubernetes packages, the retry bound of client-go, the group-version parser.
\<close>

section \<open>Events and answers\<close>

record KueueConstants =
  kc_podScheduled :: string
  kc_schedulingGated :: string
  kc_managedByKueueLabelKey :: string
  kc_managedByKueueLabelValue :: string
  kc_workloadQuotaReserved :: string

text \<open>\<^verbatim>\<open>schema.GroupVersionKind\<close>\<close>

record GVK =
  gvk_group :: string
  gvk_version :: string
  gvk_kind :: string

text \<open>\<^verbatim>\<open>coordinationv1.Lease\<close>: the fields of its spec are pointers.\<close>

record Lease =
  l_resourceVersion :: nat
  l_holderIdentity :: "string option"
  l_leaseDurationSeconds :: "int option"
  l_acquireTime :: "int option"
  l_renewTime :: "int option"

datatype event_type = EventTypeNormal | EventTypeWarning

datatype gpu_event =
    EvGetGpuWorkload string string "api_error + GpuWorkload"
  | EvGetConfig "api_error + KaiwoGpuPreemptionConfig"
  | EvGetObject GVK string string "api_error + Object"
  | EvGetNamespace string "api_error + string gomap"
  | EvListPods string "api_error + Pod list"
  | EvListKueueWorkloads string "api_error + KueueWorkload list"
  | EvListGpuWorkloads "api_error + GpuWorkload list"
  | EvUpdate GpuWorkload "api_error + GpuWorkload"
  | EvUpdateStatus GpuWorkload "api_error + GpuWorkload"
  | EvCreate GpuWorkload "api_error + GpuWorkload"
  | EvDelete GpuWorkload "api_error option"
  | EvDeleteObject GVK string string "api_error option"
  | EvGetLease string "api_error + Lease"
  | EvCreateLease string Lease "api_error option"
  | EvUpdateLease string Lease "api_error option"
  | EvNow int
  | EvRecord GpuWorkload event_type string string

type_synonym 'a gpu_prog = "(gpu_event, 'a) prog"

record GpuApi =
  a_getGpuWorkload :: "gpu_event list \<Rightarrow> string \<Rightarrow> string \<Rightarrow> api_error + GpuWorkload"
  a_getConfig :: "gpu_event list \<Rightarrow> api_error + KaiwoGpuPreemptionConfig"
  a_getObject :: "gpu_event list \<Rightarrow> GVK \<Rightarrow> string \<Rightarrow> string \<Rightarrow> api_error + Object"
  a_getNamespace :: "gpu_event list \<Rightarrow> string \<Rightarrow> api_error + string gomap"
  a_listPods :: "gpu_event list \<Rightarrow> string \<Rightarrow> api_error + Pod list"
  a_listKueueWorkloads :: "gpu_event list \<Rightarrow> string \<Rightarrow> api_error + KueueWorkload list"
  a_listGpuWorkloads :: "gpu_event list \<Rightarrow> api_error + GpuWorkload list"
  a_update :: "gpu_event list \<Rightarrow> GpuWorkload \<Rightarrow> api_error + GpuWorkload"
  a_updateStatus :: "gpu_event list \<Rightarrow> GpuWorkload \<Rightarrow> api_error + GpuWorkload"
  a_create :: "gpu_event list \<Rightarrow> GpuWorkload \<Rightarrow> api_error + GpuWorkload"
  a_delete :: "gpu_event list \<Rightarrow> GpuWorkload \<Rightarrow> api_error option"
  a_deleteObject :: "gpu_event list \<Rightarrow> GVK \<Rightarrow> string \<Rightarrow> string \<Rightarrow> api_error option"
  a_getLease :: "gpu_event list \<Rightarrow> string \<Rightarrow> api_error + Lease"
  a_createLease :: "gpu_event list \<Rightarrow> string \<Rightarrow> Lease \<Rightarrow> api_error option"
  a_updateLease :: "gpu_event list \<Rightarrow> string \<Rightarrow> Lease \<Rightarrow> api_error option"
  a_now :: "gpu_event list \<Rightarrow> int"

text \<open>
  The rest of what a reconciler is given. \<open>cx_parseGroupVersion\<close> is \<^verbatim>\<open>schema.ParseGroupVersion\<close>
  (\<open>None\<close> on an error), \<open>cx_retrySteps\<close> the number of attempts of \<^verbatim>\<open>retry.DefaultRetry\<close>,
  \<open>cx_mapOrder\<close> the order in which \<^verbatim>\<open>range\<close> visits the keys of a map.
\<close>

record GpuCtx =
  cx_env :: GoEnv
  cx_kueue :: KueueConstants
  cx_parseGroupVersion :: "string \<Rightarrow> (string \<times> string) option"
  cx_retrySteps :: nat
  cx_mapOrder :: "string list \<Rightarrow> string list"
  cx_holderID :: string

section \<open>Calls\<close>

definition Get_GpuWorkload :: "GpuApi \<Rightarrow> string \<Rightarrow> string \<Rightarrow> (api_error + GpuWorkload) gpu_prog" where
  "Get_GpuWorkload api ns name = call (\<lambda>h. a_getGpuWorkload api h ns name) (EvGetGpuWorkload ns name)"

definition Get_Config :: "GpuApi \<Rightarrow> (api_error + KaiwoGpuPreemptionConfig) gpu_prog" where
  "Get_Config api = call (a_getConfig api) EvGetConfig"

definition Get_Object :: "GpuApi \<Rightarrow> GVK \<Rightarrow> string \<Rightarrow> string \<Rightarrow> (api_error + Object) gpu_prog" where
  "Get_Object api gvk ns name = call (\<lambda>h. a_getObject api h gvk ns name) (EvGetObject gvk ns name)"

definition Get_Namespace :: "GpuApi \<Rightarrow> string \<Rightarrow> (api_error + string gomap) gpu_prog" where
  "Get_Namespace api name = call (\<lambda>h. a_getNamespace api h name) (EvGetNamespace name)"

definition List_Pods :: "GpuApi \<Rightarrow> string \<Rightarrow> (api_error + Pod list) gpu_prog" where
  "List_Pods api ns = call (\<lambda>h. a_listPods api h ns) (EvListPods ns)"

definition List_KueueWorkloads :: "GpuApi \<Rightarrow> string \<Rightarrow> (api_error + KueueWorkload list) gpu_prog" where
  "List_KueueWorkloads api ns = call (\<lambda>h. a_listKueueWorkloads api h ns) (EvListKueueWorkloads ns)"

definition List_GpuWorkloads :: "GpuApi \<Rightarrow> (api_error + GpuWorkload list) gpu_prog" where
  "List_GpuWorkloads api = call (a_listGpuWorkloads api) EvListGpuWorkloads"

definition Update_GpuWorkload :: "GpuApi \<Rightarrow> GpuWorkload \<Rightarrow> (api_error + GpuWorkload) gpu_prog" where
  "Update_GpuWorkload api gw = call (\<lambda>h. a_update api h gw) (EvUpdate gw)"

definition Status_Update :: "GpuApi \<Rightarrow> GpuWorkload \<Rightarrow> (api_error + GpuWorkload) gpu_prog" where
  "Status_Update api gw = call (\<lambda>h. a_updateStatus api h gw) (EvUpdateStatus gw)"

definition Create_GpuWorkload :: "GpuApi \<Rightarrow> GpuWorkload \<Rightarrow> (api_error + GpuWorkload) gpu_prog" where
  "Create_GpuWorkload api gw = call (\<lambda>h. a_create api h gw) (EvCreate gw)"

definition Delete_GpuWorkload :: "GpuApi \<Rightarrow> GpuWorkload \<Rightarrow> api_error option gpu_prog" where
  "Delete_GpuWorkload api gw = call (\<lambda>h. a_delete api h gw) (EvDelete gw)"

definition Delete_Object :: "GpuApi \<Rightarrow> GVK \<Rightarrow> string \<Rightarrow> string \<Rightarrow> api_error option gpu_prog" where
  "Delete_Object api gvk ns name = call (\<lambda>h. a_deleteObject api h gvk ns name) (EvDeleteObject gvk ns name)"

definition Get_Lease :: "GpuApi \<Rightarrow> string \<Rightarrow> (api_error + Lease) gpu_prog" where
  "Get_Lease api ns = call (\<lambda>h. a_getLease api h ns) (EvGetLease ns)"

definition Create_Lease :: "GpuApi \<Rightarrow> string \<Rightarrow> Lease \<Rightarrow> api_error option gpu_prog" where
  "Create_Lease api ns lease = call (\<lambda>h. a_createLease api h ns lease) (EvCreateLease ns lease)"

definition Update_Lease :: "GpuApi \<Rightarrow> string \<Rightarrow> Lease \<Rightarrow> api_error option gpu_prog" where
  "Update_Lease api ns lease = call (\<lambda>h. a_updateLease api h ns lease) (EvUpdateLease ns lease)"

definition Now :: "GpuApi \<Rightarrow> int gpu_prog" where
  "Now api = call (a_now api) EvNow"

definition Eventf :: "GpuWorkload \<Rightarrow> event_type \<Rightarrow> string \<Rightarrow> string \<Rightarrow> unit gpu_prog" where
  "Eventf gw etype reason message = emit (EvRecord gw etype reason message)"

lemmas client_defs = Get_GpuWorkload_def Get_Config_def Get_Object_def Get_Namespace_def
  List_Pods_def List_KueueWorkloads_def List_GpuWorkloads_def Update_GpuWorkload_def
  Status_Update_def Create_GpuWorkload_def Delete_GpuWorkload_def Delete_Object_def Get_Lease_def
  Create_Lease_def Update_Lease_def Now_def Eventf_def

section \<open>A concrete surrounding\<close>

text \<open>A server that finds nothing and accepts every write, and a context for it.\<close>

definition empty_api :: GpuApi where
  "empty_api = \<lparr>a_getGpuWorkload = (\<lambda>_ _ _. Inl NotFound), a_getConfig = (\<lambda>_. Inl NotFound),
     a_getObject = (\<lambda>_ _ _ _. Inl NotFound), a_getNamespace = (\<lambda>_ _. Inl NotFound),
     a_listPods = (\<lambda>_ _. Inr []), a_listKueueWorkloads = (\<lambda>_ _. Inr []),
     a_listGpuWorkloads = (\<lambda>_. Inr []), a_update = (\<lambda>_ gw. Inr gw), a_updateStatus = (\<lambda>_ gw. Inr gw),
     a_create = (\<lambda>_ gw. Inr gw), a_delete = (\<lambda>_ _. None), a_deleteObject = (\<lambda>_ _ _ _. None),
     a_getLease = (\<lambda>_ _. Inl NotFound), a_createLease = (\<lambda>_ _ _. None),
     a_updateLease = (\<lambda>_ _ _. None), a_now = (\<lambda>_. 0)\<rparr>"

definition example_constants :: KueueConstants where
  "example_constants = \<lparr>kc_podScheduled = ''PodScheduled'', kc_schedulingGated = ''SchedulingGated'',
     kc_managedByKueueLabelKey = ''kueue.x-k8s.io/managed'', kc_managedByKueueLabelValue = ''true'',
     kc_workloadQuotaReserved = ''QuotaReserved''\<rparr>"

definition example_ctx :: GpuCtx where
  "example_ctx = \<lparr>cx_env = example_env, cx_kueue = example_constants,
     cx_parseGroupVersion = (\<lambda>s. Some ([], s)), cx_retrySteps = 5, cx_mapOrder = (\<lambda>ks. ks),
     cx_holderID = ''replica-a''\<rparr>"

end
