(* ===== verification/GpuPhase.thy ===== *)
theory GpuPhase
  imports GpuClient
begin

text \<open>
  The phase of a GpuWorkload: \<^verbatim>\<open>computePhase\<close>, \<^verbatim>\<open>isPendingDueToGPU\<close>,
  \<^verbatim>\<open>isWorkloadPendingDueToGPUQuota\<close> and \<^verbatim>\<open>computeAggregatedUtilization\<close> of
  \<^verbatim>\<open>internal/controller/gpuworkload_controller.go\<close>. Lemmas: the aggregate lies between the
  samples and grows from Min over Avg to Max, and the phase follows the pods and the samples.
\<close>

section \<open>Definitions\<close>

definition message_names_resource :: "string \<Rightarrow> string \<Rightarrow> int gomap \<Rightarrow> bool" where
  "message_names_resource pre message gpuResources \<longleftrightarrow>
     list_ex (\<lambda>(name, _). Contains (ToLower message) (ToLower (pre @ name))) gpuResources"

definition isWorkloadPendingDueToGPUQuota ::
    "KueueConstants \<Rightarrow> KueueWorkload option \<Rightarrow> int gomap \<Rightarrow> bool" where
  "isWorkloadPendingDueToGPUQuota k wl gpuResources \<longleftrightarrow>
     (case wl of None \<Rightarrow> False
      | Some w \<Rightarrow>
          gpuResources \<noteq> [] \<and>
          list_ex (\<lambda>c. c_type c = kc_workloadQuotaReserved k \<and> c_status c = CondFalse \<and>
                     message_names_resource [] (c_message c) gpuResources) (wl_conditions w))"

definition isPendingDueToGPU ::
    "KueueConstants \<Rightarrow> Pod \<Rightarrow> KueueWorkload gomap \<Rightarrow> int gomap \<Rightarrow> bool" where
  "isPendingDueToGPU k pod workloadByPodUID gpuResources =
     (if list_ex (\<lambda>c. c_type c = kc_podScheduled k \<and> c_status c = CondFalse \<and>
                    c_reason c = ''Unschedulable'' \<and>
                    message_names_resource ''Insufficient '' (c_message c) gpuResources)
           (pod_conditions pod) then True
      else if \<not> list_ex (\<lambda>c. c_type c = kc_podScheduled k \<and> c_status c = CondFalse \<and>
                    c_reason c = kc_schedulingGated k) (pod_conditions pod) then False
      else if map_get [] (pod_labels pod) (kc_managedByKueueLabelKey k)
                \<noteq> kc_managedByKueueLabelValue k then False
      else (case map_of workloadByPodUID (pod_uid pod) of
              None \<Rightarrow> False
            | Some w \<Rightarrow>
                list_ex (\<lambda>c. c_type c = kc_workloadQuotaReserved k \<and> c_status c = CondFalse \<and>
                           message_names_resource [] (c_message c) gpuResources)
                  (wl_conditions w)))"

fun collect_utils :: "TrackedPod list \<Rightarrow> rat list gomap \<Rightarrow> rat list gomap" where
  "collect_utils [] podUtils = podUtils"
| "collect_utils (tp # tps) podUtils =
     collect_utils tps
       (fold (\<lambda>gm. append_at (tp_podName tp) (gm_utilization gm)) (tp_gpuMetrics tp) podUtils)"

definition average :: "rat list \<Rightarrow> rat" where
  "average us = sum_list us / of_nat (length us)"

definition aggregate :: "AggregationPolicy \<Rightarrow> rat list \<Rightarrow> rat" where
  "aggregate policy podAverages =
     (case policy of
        AggregationPolicyMin \<Rightarrow>
          foldl (\<lambda>result v. if v < result then v else result) (hd podAverages) (tl podAverages)
      | AggregationPolicyMax \<Rightarrow>
          foldl (\<lambda>result v. if v > result then v else result) (hd podAverages) (tl podAverages)
      | AggregationPolicyAvg \<Rightarrow> average podAverages)"

definition podAverages_of :: "TrackedPod list \<Rightarrow> rat list" where
  "podAverages_of tps = map (\<lambda>(_, us). average us) (collect_utils tps [])"

definition computeAggregatedUtilization ::
    "GoEnv \<Rightarrow> GpuWorkload \<Rightarrow> KaiwoGpuPreemptionConfig \<Rightarrow> rat option" where
  "computeAggregatedUtilization env gw cfg =
     (let averages = podAverages_of (st_trackedPods (gw_status gw))
      in if averages = [] then None
         else Some (round2 (aggregate (getAggregationPolicy env gw cfg) averages)))"

text \<open>The new phase, and the workload with its \<open>aggregatedUtilization\<close> written.\<close>

definition computePhase ::
    "GoEnv \<Rightarrow> KueueConstants \<Rightarrow> GpuWorkload \<Rightarrow> Pod list \<Rightarrow> KueueWorkload gomap \<Rightarrow>
     KueueWorkload gomap \<Rightarrow> KaiwoGpuPreemptionConfig \<Rightarrow> GpuWorkloadPhase \<times> GpuWorkload" where
  "computePhase env k gw pods workloadByPodUID workloadByOwnerUID cfg =
     (if pods = [] then
        (if gw_phase gw = PhaseUnset then (PhasePendingOther, gw)
         else if isWorkloadPendingDueToGPUQuota k
                   (map_of workloadByOwnerUID (ref_uid (gw_ref gw))) (gw_resources gw)
           then (PhasePendingGpu, gw)
         else (gw_phase gw, gw))
      else if list_ex (\<lambda>p. pod_phase p = PodPending \<and>
                         isPendingDueToGPU k p workloadByPodUID (gw_resources gw)) pods
        then (PhasePendingGpu, gw)
      else if \<not> list_ex (\<lambda>p. pod_phase p = PodRunning) pods then (PhasePendingOther, gw)
      else
        let aggUtil = computeAggregatedUtilization env gw cfg;
            gw' = gw\<lparr>gw_status := (gw_status gw)\<lparr>st_aggregatedUtilization := aggUtil\<rparr>\<rparr>;
            effectiveUtil = (case aggUtil of None \<Rightarrow> 0 | Some u \<Rightarrow> u)
        in if effectiveUtil \<ge> getThreshold env gw' cfg then (PhaseActive, gw')
           else (PhaseIdle, gw'))"

section \<open>The aggregate\<close>

text \<open>Every list of samples that \<open>collect_utils\<close> groups is non-empty and holds samples only.\<close>

definition utils_ok :: "(rat \<Rightarrow> bool) \<Rightarrow> rat list gomap \<Rightarrow> bool" where
  "utils_ok P m \<longleftrightarrow> (\<forall>(k, us) \<in> set m. us \<noteq> [] \<and> list_all P us)"

lemma utils_ok_update:
  "utils_ok P m \<Longrightarrow> us \<noteq> [] \<Longrightarrow> list_all P us \<Longrightarrow> utils_ok P (AList.update k us m)"
  by (induction m) (auto simp: utils_ok_def)

lemma utils_ok_get: "utils_ok P m \<Longrightarrow> list_all P (map_get [] m k)"
  by (auto simp: utils_ok_def map_get_def split: option.splits dest!: map_of_SomeD)

lemma utils_ok_append_at: "utils_ok P m \<Longrightarrow> P u \<Longrightarrow> utils_ok P (append_at k u m)"
  unfolding append_at_def by (rule utils_ok_update) (auto dest: utils_ok_get)

lemma utils_ok_fold:
  "utils_ok P m \<Longrightarrow> list_all (\<lambda>gm. P (gm_utilization gm)) gms \<Longrightarrow>
   utils_ok P (fold (\<lambda>gm. append_at k (gm_utilization gm)) gms m)"
  by (induction gms arbitrary: m) (auto simp: utils_ok_append_at)

lemma utils_ok_collect:
  "utils_ok P m \<Longrightarrow> list_all (\<lambda>tp. list_all (\<lambda>gm. P (gm_utilization gm)) (tp_gpuMetrics tp)) tps \<Longrightarrow>
   utils_ok P (collect_utils tps m)"
  by (induction tps m rule: collect_utils.induct) (auto simp: utils_ok_fold)

lemma collect_utils_nonempty:
  "m \<noteq> [] \<or> (\<exists>tp \<in> set tps. tp_gpuMetrics tp \<noteq> []) \<Longrightarrow> collect_utils tps m \<noteq> []"
proof (induction tps m rule: collect_utils.induct)
  case (2 tp tps podUtils)
  have upd: "append_at k u m \<noteq> []" for k and u :: rat and m
    by (cases m) (auto simp: append_at_def)
  have keep: "fold (\<lambda>gm. append_at k (gm_utilization gm)) gms m \<noteq> []" if "m \<noteq> []" for k gms m
    using that by (induction gms arbitrary: m) (auto simp: upd)
  have new: "fold (\<lambda>gm. append_at k (gm_utilization gm)) gms m \<noteq> []" if "gms \<noteq> []" for k gms m
    using that keep [OF upd] by (cases gms) simp_all
  let ?m = "fold (\<lambda>gm. append_at (tp_podName tp) (gm_utilization gm)) (tp_gpuMetrics tp) podUtils"
  have "?m \<noteq> [] \<or> (\<exists>tp \<in> set tps. tp_gpuMetrics tp \<noteq> [])"
  proof (cases "podUtils \<noteq> [] \<or> tp_gpuMetrics tp \<noteq> []")
    case True
    then have "?m \<noteq> []" by (metis keep new)
    then show ?thesis ..
  next
    case False
    with "2.prems" show ?thesis by simp
  qed
  with "2.IH" show ?case by simp
qed simp

lemma sum_list_bounds:
  fixes xs :: "rat list"
  assumes "list_all (\<lambda>x. lo \<le> x \<and> x \<le> hi) xs"
  shows "of_nat (length xs) * lo \<le> sum_list xs \<and> sum_list xs \<le> of_nat (length xs) * hi"
  using assms by (induction xs) (auto simp: algebra_simps)

lemma average_bounds:
  assumes "xs \<noteq> []" and "list_all (\<lambda>x. lo \<le> x \<and> x \<le> hi) xs"
  shows "lo \<le> average xs \<and> average xs \<le> hi"
proof -
  have "(0::rat) < of_nat (length xs)" using assms(1) by simp
  with sum_list_bounds [OF assms(2)] show ?thesis
    by (auto simp: average_def pos_le_divide_eq pos_divide_le_eq mult.commute)
qed

lemma foldl_min_eq: "foldl (\<lambda>r v. if v < r then v else r) a xs = fold min xs (a::rat)"
  by (induction xs arbitrary: a) (auto simp: min_def)

lemma foldl_max_eq: "foldl (\<lambda>r v. if v > r then v else r) a xs = fold max xs (a::rat)"
  by (induction xs arbitrary: a) (auto simp: max_def)

lemma fold_min_Min: "fold min xs (a::rat) = Min (set (a # xs))"
  by (metis Min.set_eq_fold)

lemma fold_max_Max: "fold max xs (a::rat) = Max (set (a # xs))"
  by (metis Max.set_eq_fold)

lemma aggregate_Min: "xs \<noteq> [] \<Longrightarrow> aggregate AggregationPolicyMin xs = Min (set xs)"
  by (cases xs) (simp_all add: aggregate_def foldl_min_eq fold_min_Min)

lemma aggregate_Max: "xs \<noteq> [] \<Longrightarrow> aggregate AggregationPolicyMax xs = Max (set xs)"
  by (cases xs) (simp_all add: aggregate_def foldl_max_eq fold_max_Max)

lemma aggregate_Avg: "aggregate AggregationPolicyAvg xs = average xs"
  by (simp add: aggregate_def)

lemma average_Min_Max: "xs \<noteq> [] \<Longrightarrow> Min (set xs) \<le> average xs \<and> average xs \<le> Max (set xs)"
  by (rule average_bounds) (auto simp: list_all_iff)

lemma aggregate_bounds:
  assumes "xs \<noteq> []" and "list_all (\<lambda>x. lo \<le> x \<and> x \<le> hi) xs"
  shows "lo \<le> aggregate p xs \<and> aggregate p xs \<le> hi"
proof (cases p)
  case AggregationPolicyAvg
  with average_bounds [OF assms] show ?thesis by (simp add: aggregate_Avg)
next
  case AggregationPolicyMin
  have "Min (set xs) \<in> set xs" using assms(1) by simp
  with assms AggregationPolicyMin show ?thesis by (auto simp: aggregate_Min list_all_iff)
next
  case AggregationPolicyMax
  have "Max (set xs) \<in> set xs" using assms(1) by simp
  with assms AggregationPolicyMax show ?thesis by (auto simp: aggregate_Max list_all_iff)
qed

definition samples_within :: "rat \<Rightarrow> rat \<Rightarrow> TrackedPod list \<Rightarrow> bool" where
  "samples_within lo hi tps \<longleftrightarrow>
     list_all (\<lambda>tp. list_all (\<lambda>gm. lo \<le> gm_utilization gm \<and> gm_utilization gm \<le> hi)
                     (tp_gpuMetrics tp)) tps"

lemma podAverages_bounds:
  assumes "samples_within lo hi tps"
  shows "list_all (\<lambda>x. lo \<le> x \<and> x \<le> hi) (podAverages_of tps)"
proof -
  have "utils_ok (\<lambda>u. lo \<le> u \<and> u \<le> hi) (collect_utils tps [])"
    using assms by (intro utils_ok_collect) (auto simp: utils_ok_def samples_within_def)
  then show ?thesis
    using average_bounds by (fastforce simp: podAverages_of_def utils_ok_def list_all_iff)
qed

lemma podAverages_nonempty:
  "podAverages_of tps \<noteq> [] \<longleftrightarrow> (\<exists>tp \<in> set tps. tp_gpuMetrics tp \<noteq> [])"
proof -
  have "collect_utils tps m = m" if "\<forall>tp \<in> set tps. tp_gpuMetrics tp = []" for m
    using that by (induction tps m rule: collect_utils.induct) auto
  then show ?thesis
    using collect_utils_nonempty [of "[]" tps] by (auto simp: podAverages_of_def)
qed

lemma aggregated_bounds:
  assumes "samples_within (of_int lo / 100) (of_int hi / 100) (st_trackedPods (gw_status gw))"
    and "computeAggregatedUtilization env gw cfg = Some u"
  shows "of_int lo / 100 \<le> u \<and> u \<le> of_int hi / 100"
proof -
  let ?xs = "podAverages_of (st_trackedPods (gw_status gw))"
  let ?a = "aggregate (getAggregationPolicy env gw cfg) ?xs"
  have u: "?xs \<noteq> []" "u = round2 ?a"
    using assms(2) by (auto simp: computeAggregatedUtilization_def Let_def split: if_splits)
  with aggregate_bounds [OF u(1) podAverages_bounds [OF assms(1)]] show ?thesis
    by (metis round2_ge round2_le)
qed

lemma aggregated_None_iff:
  "computeAggregatedUtilization env gw cfg = None \<longleftrightarrow>
     (\<forall>tp \<in> set (st_trackedPods (gw_status gw)). tp_gpuMetrics tp = [])"
  using podAverages_nonempty [of "st_trackedPods (gw_status gw)"]
  by (auto simp: computeAggregatedUtilization_def Let_def)

lemma samples_within_mono:
  "samples_within lo hi tps \<Longrightarrow> lo' \<le> lo \<Longrightarrow> hi \<le> hi' \<Longrightarrow> samples_within lo' hi' tps"
  by (fastforce simp: samples_within_def list_all_iff)

section \<open>The phase\<close>

text \<open>The pods that let the utilization decide: one is running and none waits for a GPU.\<close>

definition utilization_decides ::
    "KueueConstants \<Rightarrow> GpuWorkload \<Rightarrow> Pod list \<Rightarrow> KueueWorkload gomap \<Rightarrow> bool" where
  "utilization_decides k gw pods workloadByPodUID \<longleftrightarrow>
     list_ex (\<lambda>p. pod_phase p = PodRunning) pods \<and>
     \<not> list_ex (\<lambda>p. pod_phase p = PodPending \<and>
                  isPendingDueToGPU k p workloadByPodUID (gw_resources gw)) pods"

lemma getThreshold_status [simp]: "getThreshold env (gw\<lparr>gw_status := s\<rparr>) cfg = getThreshold env gw cfg"
  by (simp add: getThreshold_def)

lemma computePhase_decided:
  assumes "utilization_decides k gw pods byPod"
  shows "computePhase env k gw pods byPod byOwner cfg =
    (let u = computeAggregatedUtilization env gw cfg
     in (if (case u of None \<Rightarrow> 0 | Some v \<Rightarrow> v) \<ge> getThreshold env gw cfg then PhaseActive else PhaseIdle,
         gw\<lparr>gw_status := (gw_status gw)\<lparr>st_aggregatedUtilization := u\<rparr>\<rparr>))"
proof -
  have "pods \<noteq> []" using assms by (auto simp: utilization_decides_def)
  with assms show ?thesis by (simp add: computePhase_def utilization_decides_def Let_def)
qed

lemma hundredth_bounds_exist:
  fixes f :: "'a \<Rightarrow> rat"
  shows "\<exists>lo hi :: int. \<forall>x \<in> set xs. of_int lo / 100 \<le> f x \<and> f x \<le> of_int hi / 100"
proof -
  obtain a b where ab: "\<forall>x \<in> set xs. a \<le> f x \<and> f x \<le> b"
    by (metis Max_ge Min_le finite_imageI finite_set imageI)
  moreover have "of_int \<lfloor>a * 100\<rfloor> / 100 \<le> a" by (simp add: pos_divide_le_eq)
  moreover have "b \<le> of_int \<lceil>b * 100\<rceil> / 100" by (simp add: pos_le_divide_eq)
  ultimately show ?thesis by (meson order_trans)
qed

lemma aggregated_Some:
  assumes "samples = concat (map tp_gpuMetrics (st_trackedPods (gw_status gw)))" and "samples \<noteq> []"
  obtains u where "computeAggregatedUtilization env gw cfg = Some u"
    and "\<And>n :: int. \<forall>g \<in> set samples. of_int n / 100 \<le> gm_utilization g \<Longrightarrow> of_int n / 100 \<le> u"
    and "\<And>n :: int. \<forall>g \<in> set samples. gm_utilization g \<le> of_int n / 100 \<Longrightarrow> u \<le> of_int n / 100"
proof -
  have "computeAggregatedUtilization env gw cfg \<noteq> None"
    using assms by (auto simp: aggregated_None_iff)
  then obtain u where u: "computeAggregatedUtilization env gw cfg = Some u" by blast
  obtain lo hi where ends:
      "\<forall>g \<in> set samples. of_int lo / 100 \<le> gm_utilization g \<and> gm_utilization g \<le> of_int hi / 100"
    using hundredth_bounds_exist by metis
  have bound: "of_int l / 100 \<le> u \<and> u \<le> of_int h / 100"
    if "\<forall>g \<in> set samples. of_int l / 100 \<le> gm_utilization g \<and> gm_utilization g \<le> of_int h / 100" for l h
  proof (rule aggregated_bounds [OF _ u])
    show "samples_within (of_int l / 100) (of_int h / 100) (st_trackedPods (gw_status gw))"
      using that unfolding samples_within_def list_all_iff assms(1) by fastforce
  qed
  show ?thesis
  proof (rule that [OF u])
    show "of_int n / 100 \<le> u" if "\<forall>g \<in> set samples. of_int n / 100 \<le> gm_utilization g" for n
      using bound [of n hi] that ends by blast
    show "u \<le> of_int n / 100" if "\<forall>g \<in> set samples. gm_utilization g \<le> of_int n / 100" for n
      using bound [of lo n] that ends by blast
  qed
qed

text \<open>
  C1: Whether a workload with a running pod and no pod waiting for a GPU counts as Active or Idle.
  For a threshold with at most two decimals: if every sample of every GPU is at or above the
  threshold (and there is a sample) the phase is Active, if every sample is at least 0.01 below it
  the phase is Idle, whatever the aggregation policy; with no sample at all the utilization is
  cleared and the phase is Idle when the threshold is positive.
\<close>

theorem computePhase_classifies:
  assumes decides: "utilization_decides k gw pods byPod"
    and thr: "getThreshold env gw cfg = of_int t / 100"
  shows "let samples = concat (map tp_gpuMetrics (st_trackedPods (gw_status gw)));
             outcome = computePhase env k gw pods byPod byOwner cfg
         in ((samples \<noteq> [] \<and> (\<forall>g \<in> set samples. of_int t / 100 \<le> gm_utilization g)
                \<longrightarrow> fst outcome = PhaseActive) \<and>
            (samples \<noteq> [] \<and> (\<forall>g \<in> set samples. gm_utilization g \<le> of_int (t - 1) / 100)
                \<longrightarrow> fst outcome = PhaseIdle) \<and>
            (samples = [] \<longrightarrow> st_aggregatedUtilization (gw_status (snd outcome)) = None \<and>
               (0 < t \<longrightarrow> fst outcome = PhaseIdle)))"
proof -
  define samples where "samples = concat (map tp_gpuMetrics (st_trackedPods (gw_status gw)))"
  let ?outcome = "computePhase env k gw pods byPod byOwner cfg"
  let ?agg = "computeAggregatedUtilization env gw cfg"
  have less: "of_int (t - 1) / 100 < (of_int t / 100 :: rat)" by (simp add: divide_strict_right_mono)
  have "fst ?outcome = PhaseActive"
    if ne: "samples \<noteq> []" and all: "\<forall>g \<in> set samples. of_int t / 100 \<le> gm_utilization g"
  proof -
    obtain u where "?agg = Some u" "of_int t / 100 \<le> u"
      using aggregated_Some [OF samples_def ne] all by metis
    then show ?thesis by (simp add: computePhase_decided [OF decides] thr)
  qed
  moreover have "fst ?outcome = PhaseIdle"
    if ne: "samples \<noteq> []" and all: "\<forall>g \<in> set samples. gm_utilization g \<le> of_int (t - 1) / 100"
  proof -
    obtain u where "?agg = Some u" "u \<le> of_int (t - 1) / 100"
      using aggregated_Some [OF samples_def ne] all by metis
    then show ?thesis using less by (simp add: computePhase_decided [OF decides] thr)
  qed
  moreover have "?agg = None" if "samples = []"
    using that by (simp add: aggregated_None_iff samples_def)
  ultimately show ?thesis
    unfolding Let_def samples_def [symmetric]
    by (auto simp: computePhase_decided [OF decides] thr)
qed

theorem computePhase_classifies_witness:
  "fst (computePhase example_env example_constants
      (example_gw ''g'' 2 (empty_status\<lparr>st_trackedPods := [example_tracked 80]\<rparr>))
      [example_pod ''p'' PodRunning] [] [] example_cfg) = PhaseActive"
  using computePhase_classifies [of example_constants
      "example_gw ''g'' 2 (empty_status\<lparr>st_trackedPods := [example_tracked 80]\<rparr>)"
      "[example_pod ''p'' PodRunning]" "[]" example_env example_cfg 500 "[]"]
  by (simp add: utilization_decides_def getThreshold_def DefaultUtilizationThreshold_def example_defs Let_def)

text \<open>
  Where a phase decision comes from. \<open>computePhase\<close> invents no preemption or deletion: it
  returns Preempting, Preempted or Deleted only by keeping that phase for a workload without pods.
  It returns Active or Idle for a workload with pods only when a pod is running and no pod waits
  for a GPU, and PendingGpu as soon as one pod waits for a GPU.
\<close>

theorem computePhase_sources:
  "let ph = fst (computePhase env k gw pods byPod byOwner cfg);
       waiting = (\<lambda>p. pod_phase p = PodPending \<and> isPendingDueToGPU k p byPod (gw_resources gw))
   in (ph \<in> {PhasePreempting, PhasePreempted, PhaseDeleted} = (pods = [] \<and>
         gw_phase gw \<in> {PhasePreempting, PhasePreempted, PhaseDeleted} \<and>
         \<not> isWorkloadPendingDueToGPUQuota k (map_of byOwner (ref_uid (gw_ref gw))) (gw_resources gw))) \<and>
      (pods = [] \<or> (ph \<in> {PhaseActive, PhaseIdle} = utilization_decides k gw pods byPod)) \<and>
      (pods = [] \<or> (ph = PhasePendingGpu) = (\<exists>p \<in> set pods. waiting p)) \<and>
      ph \<noteq> PhaseUnset"
  by (auto simp: computePhase_def utilization_decides_def Let_def list_ex_iff)

text \<open>
  The aggregated utilization lies between the smallest and the largest sample, up to the
  two decimals it is rounded to, and for the same samples the Min policy gives at most the Avg
  policy's value and the Avg policy at most the Max policy's.
\<close>

theorem computeAggregatedUtilization_ordered:
  assumes "samples_within (of_int lo / 100) (of_int hi / 100) (st_trackedPods (gw_status gw))"
    and "\<exists>tp \<in> set (st_trackedPods (gw_status gw)). tp_gpuMetrics tp \<noteq> []"
  shows "\<exists>a b c.
     computeAggregatedUtilization env
       (gw\<lparr>gw_spec := (gw_spec gw)\<lparr>sp_aggregationPolicy := Some AggregationPolicyMin\<rparr>\<rparr>) cfg = Some a \<and>
     computeAggregatedUtilization env
       (gw\<lparr>gw_spec := (gw_spec gw)\<lparr>sp_aggregationPolicy := Some AggregationPolicyAvg\<rparr>\<rparr>) cfg = Some b \<and>
     computeAggregatedUtilization env
       (gw\<lparr>gw_spec := (gw_spec gw)\<lparr>sp_aggregationPolicy := Some AggregationPolicyMax\<rparr>\<rparr>) cfg = Some c \<and>
     of_int lo / 100 \<le> a \<and> a \<le> b \<and> b \<le> c \<and> c \<le> of_int hi / 100"
proof -
  let ?xs = "podAverages_of (st_trackedPods (gw_status gw))"
  let ?r = "\<lambda>p. round2 (aggregate p ?xs)"
  have ne: "?xs \<noteq> []" using assms(2) podAverages_nonempty by blast
  have agg: "computeAggregatedUtilization env
      (gw\<lparr>gw_spec := (gw_spec gw)\<lparr>sp_aggregationPolicy := Some p\<rparr>\<rparr>) cfg = Some (?r p)" for p
    using ne by (simp add: computeAggregatedUtilization_def getAggregationPolicy_def)
  have "of_int lo / 100 \<le> ?r p \<and> ?r p \<le> of_int hi / 100" for p
    using aggregate_bounds [OF ne podAverages_bounds [OF assms(1)]] by (metis round2_ge round2_le)
  moreover have "?r AggregationPolicyMin \<le> ?r AggregationPolicyAvg"
      "?r AggregationPolicyAvg \<le> ?r AggregationPolicyMax"
    using average_Min_Max [OF ne] ne
    by (simp_all add: round2_mono aggregate_Min aggregate_Max aggregate_Avg)
  ultimately show ?thesis using agg by blast
qed

theorem computeAggregatedUtilization_ordered_witness:
  "\<exists>a. computeAggregatedUtilization example_env
     (example_gw ''g'' 2 (empty_status\<lparr>st_trackedPods := [example_tracked 80]\<rparr>)\<lparr>gw_spec :=
       (example_spec 2)\<lparr>sp_aggregationPolicy := Some AggregationPolicyMin\<rparr>\<rparr>) example_cfg = Some a \<and> a \<ge> 80"
  using computeAggregatedUtilization_ordered [of 8000 8000
      "example_gw ''g'' 2 (empty_status\<lparr>st_trackedPods := [example_tracked 80]\<rparr>)" example_env example_cfg]
  by (auto simp: samples_within_def example_defs)

end
