(* ===== verification/GpuResolver.thy ===== *)
theory GpuResolver
  imports GpuClient
begin

text \<open>
  Owner resolution: \<^verbatim>\<open>internal/controller/gpuworkload_resolver.go\<close> and the ownership test of
  \<^verbatim>\<open>internal/controller/gpuworkload_controller.go\<close> (\<open>isPodOwnedByWorkload\<close>, \<open>isAncestorOf\<close>).
  Both walks follow controller references for at most \<open>maxOwnerDepth\<close> objects. The lemmas relate
  them, for an unchanging store of objects, to the chain of controller references in the store.
\<close>

section \<open>Definitions\<close>

record RootOwnerResult =
  ro_ref :: WorkloadReference
  ro_ownerChain :: string
  ro_namespace :: string

definition maxOwnerDepth :: nat where "maxOwnerDepth = 10"

fun getControllerOwnerRef :: "OwnerReference list \<Rightarrow> OwnerReference option" where
  "getControllerOwnerRef [] = None"
| "getControllerOwnerRef (r # rs) =
     (if o_controller r = Some True then Some r else getControllerOwnerRef rs)"

definition gvkFromAPIVersionKind :: "GpuCtx \<Rightarrow> string \<Rightarrow> string \<Rightarrow> GVK" where
  "gvkFromAPIVersionKind cx apiVersion kind =
     (case cx_parseGroupVersion cx apiVersion of
        None \<Rightarrow> \<lparr>gvk_group = [], gvk_version = [], gvk_kind = kind\<rparr>
      | Some (g, v) \<Rightarrow> \<lparr>gvk_group = g, gvk_version = v, gvk_kind = kind\<rparr>)"

definition GpuWorkloadName :: "string \<Rightarrow> string \<Rightarrow> string \<Rightarrow> string" where
  "GpuWorkloadName kind name uid =
     (let uidPrefix = (if length uid > 8 then take 8 uid else uid)
      in ToLower kind @ ''-'' @ name @ ''-'' @ uidPrefix)"

text \<open>The loop of \<open>ResolveRootOwner\<close> with \<open>n\<close> rounds left.\<close>

fun resolve_loop ::
    "GpuApi \<Rightarrow> GpuCtx \<Rightarrow> string \<Rightarrow> nat \<Rightarrow> GVK \<Rightarrow> string \<Rightarrow> string list \<Rightarrow>
     (api_error + RootOwnerResult) gpu_prog" where
  "resolve_loop api cx ns 0 gvk name chain =
     ret (Inl (OtherError ''owner reference chain exceeded maximum depth''))"
| "resolve_loop api cx ns (Suc n) gvk name chain = do {
     r \<leftarrow> Get_Object api gvk ns name;
     (case r of
        Inl e \<Rightarrow> ret (Inl e)
      | Inr obj \<Rightarrow>
          (case getControllerOwnerRef (ob_ownerReferences obj) of
             None \<Rightarrow> ret (Inr \<lparr>ro_ref = \<lparr>ref_apiVersion = ob_apiVersion obj, ref_kind = ob_kind obj,
                                        ref_name = ob_name obj, ref_uid = ob_uid obj\<rparr>,
                             ro_ownerChain = Join chain '' -> '', ro_namespace = ns\<rparr>)
           | Some ref \<Rightarrow>
               resolve_loop api cx ns n (gvkFromAPIVersionKind cx (o_apiVersion ref) (o_kind ref))
                 (o_name ref) (chain @ [o_kind ref @ ''/'' @ o_name ref])))
   }"

definition ResolveRootOwner ::
    "GpuApi \<Rightarrow> GpuCtx \<Rightarrow> string \<Rightarrow> string \<Rightarrow> string \<Rightarrow> string \<Rightarrow> (api_error + RootOwnerResult) gpu_prog" where
  "ResolveRootOwner api cx ns name kind apiVersion =
     resolve_loop api cx ns maxOwnerDepth (gvkFromAPIVersionKind cx apiVersion kind) name
       [kind @ ''/'' @ name]"

fun ancestor_loop ::
    "GpuApi \<Rightarrow> GpuCtx \<Rightarrow> string \<Rightarrow> string \<Rightarrow> nat \<Rightarrow> string list \<Rightarrow> OwnerReference \<Rightarrow> bool gpu_prog" where
  "ancestor_loop api cx ns targetUID 0 seen currentRef = ret False"
| "ancestor_loop api cx ns targetUID (Suc n) seen currentRef = do {
     r \<leftarrow> Get_Object api (gvkFromAPIVersionKind cx (o_apiVersion currentRef) (o_kind currentRef))
            ns (o_name currentRef);
     (case r of
        Inl e \<Rightarrow> ret False
      | Inr obj \<Rightarrow>
          if list_ex (\<lambda>ref. o_uid ref = targetUID) (ob_ownerReferences obj) then ret True
          else (case getControllerOwnerRef (ob_ownerReferences obj) of
                  None \<Rightarrow> ret False
                | Some nextRef \<Rightarrow>
                    if o_uid nextRef \<in> set seen then ret False
                    else ancestor_loop api cx ns targetUID n (o_uid nextRef # seen) nextRef))
   }"

definition isAncestorOf :: "GpuApi \<Rightarrow> GpuCtx \<Rightarrow> string \<Rightarrow> OwnerReference \<Rightarrow> string \<Rightarrow> bool gpu_prog" where
  "isAncestorOf api cx ns startRef targetUID =
     ancestor_loop api cx ns targetUID maxOwnerDepth [o_uid startRef] startRef"

definition isPodOwnedByWorkload :: "GpuApi \<Rightarrow> GpuCtx \<Rightarrow> Pod \<Rightarrow> GpuWorkload \<Rightarrow> bool gpu_prog" where
  "isPodOwnedByWorkload api cx pod gw =
     (let targetUID = ref_uid (gw_ref gw)
      in if ref_kind (gw_ref gw) = ''Pod'' \<and> pod_uid pod = targetUID then ret True
         else if list_ex (\<lambda>ref. o_uid ref = targetUID) (pod_ownerReferences pod) then ret True
         else if hasGpuResources pod then
           (case getControllerOwnerRef (pod_ownerReferences pod) of
              None \<Rightarrow> ret False
            | Some controllerRef \<Rightarrow> isAncestorOf api cx (pod_namespace pod) controllerRef targetUID)
         else ret False)"

section \<open>Chains of controller references\<close>

lemma getControllerOwnerRef_Some:
  "getControllerOwnerRef refs = Some r \<Longrightarrow> r \<in> set refs \<and> o_controller r = Some True"
  by (induction refs) (auto split: if_splits)

lemma getControllerOwnerRef_None:
  "getControllerOwnerRef refs = None \<longleftrightarrow> (\<forall>r \<in> set refs. o_controller r \<noteq> Some True)"
  by (induction refs) auto

text \<open>
  A store of objects by kind and name. \<open>controls s gvk name n obj\<close>: following \<open>n\<close> controller
  references from the object \<open>name\<close> of kind \<open>gvk\<close> one reaches \<open>obj\<close>.
\<close>

type_synonym object_store = "GVK \<Rightarrow> string \<Rightarrow> Object option"

inductive controls :: "GpuCtx \<Rightarrow> object_store \<Rightarrow> GVK \<Rightarrow> string \<Rightarrow> nat \<Rightarrow> Object \<Rightarrow> bool" for cx s where
  here: "s gvk name = Some obj \<Longrightarrow> controls cx s gvk name 0 obj"
| up: "s gvk name = Some obj \<Longrightarrow> getControllerOwnerRef (ob_ownerReferences obj) = Some ref \<Longrightarrow>
       controls cx s (gvkFromAPIVersionKind cx (o_apiVersion ref) (o_kind ref)) (o_name ref) n rt \<Longrightarrow>
       controls cx s gvk name (Suc n) rt"

inductive_cases controls_0E: "controls cx s gvk name 0 obj"
inductive_cases controls_SucE: "controls cx s gvk name (Suc n) obj"

text \<open>The server answers from an unchanging store.\<close>

definition serves :: "GpuApi \<Rightarrow> string \<Rightarrow> object_store \<Rightarrow> bool" where
  "serves api ns s \<longleftrightarrow> (\<forall>h gvk name. a_getObject api h gvk ns name =
     (case s gvk name of None \<Rightarrow> Inl NotFound | Some obj \<Rightarrow> Inr obj))"

lemma run_Get_Object:
  "serves api ns s \<Longrightarrow> fst (run_state (Get_Object api gvk ns name) h) =
     (case s gvk name of None \<Rightarrow> Inl NotFound | Some obj \<Rightarrow> Inr obj)"
  by (simp add: Get_Object_def serves_def)

abbreviation is_root :: "Object \<Rightarrow> bool" where
  "is_root obj \<equiv> getControllerOwnerRef (ob_ownerReferences obj) = None"

definition ref_of_object :: "Object \<Rightarrow> WorkloadReference" where
  "ref_of_object obj = \<lparr>ref_apiVersion = ob_apiVersion obj, ref_kind = ob_kind obj,
     ref_name = ob_name obj, ref_uid = ob_uid obj\<rparr>"

lemma roots_here:
  assumes "s gvk name = Some obj" and "is_root obj"
  shows "controls cx s gvk name m rt \<and> is_root rt \<longleftrightarrow> m = 0 \<and> rt = obj"
  using assms by (auto elim: controls.cases intro: controls.here)

lemma roots_above:
  assumes "s gvk name = Some obj" and "getControllerOwnerRef (ob_ownerReferences obj) = Some ref"
  shows "controls cx s gvk name m rt \<and> is_root rt \<longleftrightarrow>
    (\<exists>k. m = Suc k \<and> controls cx s (gvkFromAPIVersionKind cx (o_apiVersion ref) (o_kind ref)) (o_name ref) k rt
       \<and> is_root rt)"
  using assms by (auto elim: controls.cases intro: controls.up)

lemma resolve_loop_iff:
  assumes "serves api ns s"
  shows "(\<exists>rr. fst (run_state (resolve_loop api cx ns n gvk name chain) h) = Inr rr \<and>
              ro_ref rr = ref \<and> ro_namespace rr = ns) \<longleftrightarrow>
         (\<exists>m rt. m < n \<and> (controls cx s gvk name m rt \<and> is_root rt) \<and> ref = ref_of_object rt)"
proof (induction n arbitrary: gvk name chain h)
  case 0
  then show ?case by simp
next
  case (Suc n)
  obtain r h1 where r: "run_state (Get_Object api gvk ns name) h = (r, h1)" by fastforce
  have r': "r = (case s gvk name of None \<Rightarrow> Inl NotFound | Some obj \<Rightarrow> Inr obj)"
    using run_Get_Object [OF assms, of gvk name h] r by simp
  show ?case
  proof (cases "s gvk name")
    case None
    then have "\<not> controls cx s gvk name m rt" for m rt by (auto elim: controls.cases)
    with None r r' show ?thesis by simp
  next
    case (Some obj)
    show ?thesis
    proof (cases "getControllerOwnerRef (ob_ownerReferences obj)")
      case None
      have "(\<exists>m rt. m < Suc n \<and> (controls cx s gvk name m rt \<and> is_root rt) \<and> ref = ref_of_object rt)
          \<longleftrightarrow> ref = ref_of_object obj"
        unfolding roots_here [where s = s, OF Some None] by auto
      with None Some r r' show ?thesis by (auto simp: ref_of_object_def)
    next
      case (Some ref')
      let ?gvk = "gvkFromAPIVersionKind cx (o_apiVersion ref') (o_kind ref')"
      have "(\<exists>m rt. m < Suc n \<and> (controls cx s gvk name m rt \<and> is_root rt) \<and> ref = ref_of_object rt)
          \<longleftrightarrow> (\<exists>m rt. m < n \<and> (controls cx s ?gvk (o_name ref') m rt \<and> is_root rt) \<and> ref = ref_of_object rt)"
        unfolding roots_above [where s = s, OF \<open>s gvk name = Some obj\<close> Some] by auto
      with Some \<open>s gvk name = Some obj\<close> r r' Suc show ?thesis by simp
    qed
  qed
qed

text \<open>
  C2: Root owner resolution against an unchanging store of objects. \<open>ResolveRootOwner\<close> succeeds
  with a reference exactly when some object without a controller is reached from the given one by
  following fewer than ten controller references, and then the reference is that object's; cycles,
  dangling references and longer chains therefore end in an error.
\<close>

theorem ResolveRootOwner_correct:
  assumes "serves api ns s"
  shows "(\<exists>rr. result_of (ResolveRootOwner api cx ns name kind apiVersion) h = Inr rr \<and>
              ro_ref rr = ref \<and> ro_namespace rr = ns) =
         (\<exists>m rt. m < 10 \<and> controls cx s (gvkFromAPIVersionKind cx apiVersion kind) name m rt \<and>
              getControllerOwnerRef (ob_ownerReferences rt) = None \<and> ref = ref_of_object rt)"
  using resolve_loop_iff [OF assms, of cx 10]
  by (simp add: ResolveRootOwner_def result_of_def maxOwnerDepth_def)

text \<open>A pod controlled by a replica set that a deployment controls.\<close>

definition example_object :: "string \<Rightarrow> string \<Rightarrow> string \<Rightarrow> OwnerReference list \<Rightarrow> Object" where
  "example_object kind name uid refs = \<lparr>ob_apiVersion = ''v1'', ob_kind = kind, ob_name = name, ob_uid = uid,
     ob_annotations = [], ob_ownerReferences = refs, ob_podSpec = None, ob_spec = None\<rparr>"

definition example_ref :: "string \<Rightarrow> string \<Rightarrow> string \<Rightarrow> OwnerReference" where
  "example_ref kind name uid = \<lparr>o_apiVersion = ''v1'', o_kind = kind, o_name = name, o_uid = uid,
     o_controller = Some True\<rparr>"

definition example_store :: object_store where
  "example_store gvk name =
     (if gvk_kind gvk = ''Pod'' \<and> name = ''p'' then
        Some (example_object ''Pod'' ''p'' ''u0'' [example_ref ''ReplicaSet'' ''rs'' ''u1''])
      else if gvk_kind gvk = ''ReplicaSet'' \<and> name = ''rs'' then
        Some (example_object ''ReplicaSet'' ''rs'' ''u1'' [example_ref ''Deployment'' ''d'' ''u2''])
      else if gvk_kind gvk = ''Deployment'' \<and> name = ''d'' then
        Some (example_object ''Deployment'' ''d'' ''u2'' [])
      else None)"

definition store_api :: "object_store \<Rightarrow> GpuApi" where
  "store_api s = empty_api\<lparr>a_getObject := (\<lambda>h gvk ns name.
     case s gvk name of None \<Rightarrow> Inl NotFound | Some obj \<Rightarrow> Inr obj)\<rparr>"

lemmas example_store_defs = example_store_def example_object_def example_ref_def store_api_def
  gvkFromAPIVersionKind_def example_ctx_def

lemma serves_store_api: "serves (store_api s) ns s"
  by (simp add: serves_def store_api_def)

lemma example_chain:
  "controls example_ctx example_store (gvkFromAPIVersionKind example_ctx ''v1'' ''Pod'') ''p'' 2
     (example_object ''Deployment'' ''d'' ''u2'' [])"
proof -
  let ?gvk = "gvkFromAPIVersionKind example_ctx ''v1''"
  have "controls example_ctx example_store (?gvk ''Deployment'') ''d'' 0
      (example_object ''Deployment'' ''d'' ''u2'' [])"
    by (rule controls.here) (simp add: example_store_defs)
  then have "controls example_ctx example_store (?gvk ''ReplicaSet'') ''rs'' (Suc 0)
      (example_object ''Deployment'' ''d'' ''u2'' [])"
    by - (rule controls.up [where obj = "example_object ''ReplicaSet'' ''rs'' ''u1'' [example_ref ''Deployment'' ''d'' ''u2'']"
          and ref = "example_ref ''Deployment'' ''d'' ''u2''"], simp_all add: example_store_defs)
  then show ?thesis
    unfolding numeral_2_eq_2
    by - (rule controls.up [where obj = "example_object ''Pod'' ''p'' ''u0'' [example_ref ''ReplicaSet'' ''rs'' ''u1'']"
          and ref = "example_ref ''ReplicaSet'' ''rs'' ''u1''"], simp_all add: example_store_defs)
qed

theorem ResolveRootOwner_correct_witness:
  "\<exists>rr. result_of (ResolveRootOwner (store_api example_store) example_ctx ''ns'' ''p'' ''Pod'' ''v1'') [] = Inr rr
     \<and> ref_uid (ro_ref rr) = ''u2''"
proof -
  have "\<exists>m rt. m < 10 \<and> controls example_ctx example_store
      (gvkFromAPIVersionKind example_ctx ''v1'' ''Pod'') ''p'' m rt \<and> is_root rt \<and>
      ref_of_object (example_object ''Deployment'' ''d'' ''u2'' []) = ref_of_object rt"
    using example_chain by (intro exI [of _ "2::nat"] exI) (auto simp: example_object_def)
  then show ?thesis
    using ResolveRootOwner_correct [OF serves_store_api, of example_store example_ctx "''ns''" "''p''" "''Pod''" "''v1''" "[]"
        "ref_of_object (example_object ''Deployment'' ''d'' ''u2'' [])"]
    by (auto simp: ref_of_object_def example_object_def)
qed

section \<open>Ownership\<close>

text \<open>
  \<open>reaches d ref\<close>: after \<open>d\<close> controller references from the object that \<open>ref\<close> names, one is at an
  object with an owner of the target's UID.
\<close>

definition ref_gvk :: "GpuCtx \<Rightarrow> OwnerReference \<Rightarrow> GVK" where
  "ref_gvk cx ref = gvkFromAPIVersionKind cx (o_apiVersion ref) (o_kind ref)"

definition reaches :: "GpuCtx \<Rightarrow> object_store \<Rightarrow> string \<Rightarrow> nat \<Rightarrow> OwnerReference \<Rightarrow> bool" where
  "reaches cx s target d ref \<longleftrightarrow>
     (\<exists>obj. controls cx s (ref_gvk cx ref) (o_name ref) d obj \<and>
            target \<in> o_uid ` set (ob_ownerReferences obj))"

text \<open>References of the store that carry the same UID name the same object.\<close>

definition known_ref :: "object_store \<Rightarrow> OwnerReference \<Rightarrow> OwnerReference \<Rightarrow> bool" where
  "known_ref s start b \<longleftrightarrow>
     b = start \<or> (\<exists>gvk name obj. s gvk name = Some obj \<and> b \<in> set (ob_ownerReferences obj))"

definition uids_identify :: "GpuCtx \<Rightarrow> object_store \<Rightarrow> OwnerReference \<Rightarrow> bool" where
  "uids_identify cx s start \<longleftrightarrow>
     (\<forall>a b. known_ref s start a \<and> known_ref s start b \<and> o_uid a = o_uid b \<longrightarrow>
        ref_gvk cx a = ref_gvk cx b \<and> o_name a = o_name b)"

lemma reaches_0:
  "reaches cx s target 0 ref \<longleftrightarrow>
     (\<exists>obj. s (ref_gvk cx ref) (o_name ref) = Some obj \<and> target \<in> o_uid ` set (ob_ownerReferences obj))"
  by (auto simp: reaches_def elim: controls_0E intro: controls.here)

lemma reaches_Suc:
  "reaches cx s target (Suc d) ref \<longleftrightarrow>
     (\<exists>obj next. s (ref_gvk cx ref) (o_name ref) = Some obj \<and>
        getControllerOwnerRef (ob_ownerReferences obj) = Some next \<and> reaches cx s target d next)"
  unfolding reaches_def ref_gvk_def by (blast elim: controls_SucE intro: controls.up)

lemma run_ancestor_Suc:
  assumes "serves api ns s"
  shows "fst (run_state (ancestor_loop api cx ns target (Suc n) seen ref) h) \<longleftrightarrow>
    (\<exists>obj. s (ref_gvk cx ref) (o_name ref) = Some obj \<and>
       (target \<in> o_uid ` set (ob_ownerReferences obj) \<or>
        (\<exists>next h'. getControllerOwnerRef (ob_ownerReferences obj) = Some next \<and> o_uid next \<notin> set seen \<and>
           h' = snd (run_state (Get_Object api (ref_gvk cx ref) ns (o_name ref)) h) \<and>
           fst (run_state (ancestor_loop api cx ns target n (o_uid next # seen) next) h'))))"
proof -
  obtain r h1 where r: "run_state (Get_Object api (ref_gvk cx ref) ns (o_name ref)) h = (r, h1)" by fastforce
  have r': "r = (case s (ref_gvk cx ref) (o_name ref) of None \<Rightarrow> Inl NotFound | Some obj \<Rightarrow> Inr obj)"
    using run_Get_Object [OF assms, of "ref_gvk cx ref" "o_name ref" h] r by simp
  show ?thesis
    using r r' unfolding ref_gvk_def
    by (auto simp: list_ex_iff image_iff split: option.splits)
qed

lemma ancestor_loop_sound:
  assumes "serves api ns s"
  shows "fst (run_state (ancestor_loop api cx ns target n seen ref) h) \<Longrightarrow> \<exists>d < n. reaches cx s target d ref"
proof (induction n arbitrary: seen ref h)
  case (Suc n)
  from Suc.prems obtain obj where obj: "s (ref_gvk cx ref) (o_name ref) = Some obj"
    and alt: "target \<in> o_uid ` set (ob_ownerReferences obj) \<or>
      (\<exists>next h'. getControllerOwnerRef (ob_ownerReferences obj) = Some next \<and>
         fst (run_state (ancestor_loop api cx ns target n (o_uid next # seen) next) h'))"
    unfolding run_ancestor_Suc [OF assms] by blast
  from alt show ?case
  proof
    assume "target \<in> o_uid ` set (ob_ownerReferences obj)"
    with obj have "reaches cx s target 0 ref" by (auto simp: reaches_0)
    then show ?case by blast
  next
    assume "\<exists>next h'. getControllerOwnerRef (ob_ownerReferences obj) = Some next \<and>
         fst (run_state (ancestor_loop api cx ns target n (o_uid next # seen) next) h')"
    then obtain "next" d where "getControllerOwnerRef (ob_ownerReferences obj) = Some next" "d < n"
        "reaches cx s target d next" using Suc.IH by blast
    with obj have "reaches cx s target (Suc d) ref" by (auto simp: reaches_Suc)
    with \<open>d < n\<close> show ?case by blast
  qed
qed simp

lemma ancestor_loop_complete:
  assumes srv: "serves api ns s" and uniq: "uids_identify cx s start"
  shows "reaches cx s target d ref \<Longrightarrow> \<forall>d' < d. \<not> reaches cx s target d' ref \<Longrightarrow> d < n \<Longrightarrow>
    (\<And>b d'. o_uid b \<in> set seen \<Longrightarrow> d' < d \<Longrightarrow> known_ref s start b \<Longrightarrow> \<not> reaches cx s target d' b) \<Longrightarrow>
    fst (run_state (ancestor_loop api cx ns target n seen ref) h)"
proof (induction n arbitrary: d seen ref h)
  case (Suc n)
  show ?case
  proof (cases d)
    case 0
    with Suc.prems(1) show ?thesis
      unfolding run_ancestor_Suc [OF srv] by (auto simp: reaches_0)
  next
    case (Suc d0)
    then obtain obj nxt where obj: "s (ref_gvk cx ref) (o_name ref) = Some obj"
      and nxt: "getControllerOwnerRef (ob_ownerReferences obj) = Some nxt" "reaches cx s target d0 nxt"
      using Suc.prems(1) by (auto simp: reaches_Suc)
    have known: "known_ref s start nxt"
      using getControllerOwnerRef_Some [OF nxt(1)] obj by (auto simp: known_ref_def)
    have fresh: "o_uid nxt \<notin> set seen" using Suc.prems(4) [of nxt d0] nxt(2) Suc known by auto
    have min: "\<not> reaches cx s target d' nxt" if "d' < d0" for d'
      using Suc.prems(2) that Suc obj nxt(1) by (auto simp: reaches_Suc)
    have "fst (run_state (ancestor_loop api cx ns target n (o_uid nxt # seen) nxt) h')" for h'
    proof (rule Suc.IH [OF nxt(2)])
      show "\<not> reaches cx s target d' b"
        if b: "o_uid b \<in> set (o_uid nxt # seen)" "d' < d0" "known_ref s start b" for b d'
      proof (cases "o_uid b = o_uid nxt")
        case True
        then have "ref_gvk cx b = ref_gvk cx nxt \<and> o_name b = o_name nxt"
          using uniq known b(3) unfolding uids_identify_def by blast
        with min [OF b(2)] show ?thesis by (simp add: reaches_def)
      next
        case False
        with Suc.prems(4) [of b d'] b Suc show ?thesis by auto
      qed
    qed (use min Suc.prems(3) Suc in auto)
    with obj nxt(1) fresh show ?thesis unfolding run_ancestor_Suc [OF srv] by blast
  qed
qed simp

text \<open>
  Which pods belong to a tracked workload, for an unchanging store in which a UID identifies an
  object. \<open>isPodOwnedByWorkload\<close> answers yes exactly for the tracked pod itself, for a pod with an
  owner of the workload's UID, and for a GPU pod whose controller chain meets, within ten objects, an
  owner of that UID. The cycle check cuts no such chain short, and the walk always ends.
\<close>

theorem isPodOwnedByWorkload_correct:
  assumes "serves api (pod_namespace pod) s"
    and "\<forall>ref. getControllerOwnerRef (pod_ownerReferences pod) = Some ref \<longrightarrow> uids_identify cx s ref"
  shows "result_of (isPodOwnedByWorkload api cx pod gw) h =
     (let uid = ref_uid (gw_ref gw)
      in (ref_kind (gw_ref gw) = ''Pod'' \<and> pod_uid pod = uid) \<or>
         uid \<in> o_uid ` set (pod_ownerReferences pod) \<or>
         (hasGpuResources pod \<and> (\<exists>ref d. getControllerOwnerRef (pod_ownerReferences pod) = Some ref \<and>
            d < 10 \<and> reaches cx s uid d ref)))"
proof -
  let ?uid = "ref_uid (gw_ref gw)"
  have walk: "fst (run_state (isAncestorOf api cx (pod_namespace pod) ref ?uid) h) = (\<exists>d < 10. reaches cx s ?uid d ref)"
    if "getControllerOwnerRef (pod_ownerReferences pod) = Some ref" for ref
    unfolding isAncestorOf_def maxOwnerDepth_def
  proof
    assume "\<exists>d < 10. reaches cx s ?uid d ref"
    then obtain d where d: "reaches cx s ?uid d ref" "d < 10" "\<forall>d' < d. \<not> reaches cx s ?uid d' ref"
      using exists_least_iff [of "\<lambda>d. reaches cx s ?uid d ref"] by (metis linorder_not_less order_le_less_trans)
    have start: "\<not> reaches cx s ?uid d' b" if "o_uid b \<in> set [o_uid ref]" "d' < d" "known_ref s ref b" for b d'
    proof -
      have "ref_gvk cx b = ref_gvk cx ref \<and> o_name b = o_name ref"
        using assms(2) that \<open>getControllerOwnerRef _ = Some ref\<close>
        unfolding uids_identify_def by (metis known_ref_def list.set(1,2) singletonD)
      with d(3) that(2) show ?thesis by (simp add: reaches_def)
    qed
    show "fst (run_state (ancestor_loop api cx (pod_namespace pod) ?uid 10 [o_uid ref] ref) h)"
      using ancestor_loop_complete [OF assms(1) _ d(1,3,2) start] assms(2) that by blast
  qed (rule ancestor_loop_sound [OF assms(1)])
  have direct: "list_ex (\<lambda>ref. o_uid ref = ?uid) refs \<longleftrightarrow> ?uid \<in> o_uid ` set refs" for refs
    by (metis (mono_tags, lifting) image_iff list_ex_iff)
  show ?thesis
    by (cases "getControllerOwnerRef (pod_ownerReferences pod)")
      (auto simp add: isPodOwnedByWorkload_def result_of_def Let_def direct walk)
qed

definition example_owned_pod :: Pod where
  "example_owned_pod = (example_pod ''p'' PodRunning)\<lparr>pod_ownerReferences := [example_ref ''ReplicaSet'' ''rs'' ''u1'']\<rparr>"

definition example_deployment_gw :: GpuWorkload where
  "example_deployment_gw = (example_gw ''g'' 1 empty_status)\<lparr>gw_spec := (example_spec 1)\<lparr>sp_workloadRef :=
     \<lparr>ref_apiVersion = ''v1'', ref_kind = ''Deployment'', ref_name = ''d'', ref_uid = ''u2''\<rparr>\<rparr>\<rparr>"

lemma example_known_ref:
  "known_ref example_store (example_ref ''ReplicaSet'' ''rs'' ''u1'') b \<Longrightarrow>
     b = example_ref ''ReplicaSet'' ''rs'' ''u1'' \<or> b = example_ref ''Deployment'' ''d'' ''u2''"
  by (auto simp: known_ref_def example_store_def example_object_def split: if_splits)

lemma example_uids_identify: "uids_identify cx example_store (example_ref ''ReplicaSet'' ''rs'' ''u1'')"
proof -
  have "o_uid (example_ref ''ReplicaSet'' ''rs'' ''u1'') \<noteq> o_uid (example_ref ''Deployment'' ''d'' ''u2'')"
    by (simp add: example_ref_def)
  then show ?thesis unfolding uids_identify_def by (metis example_known_ref)
qed

lemma example_reaches: "reaches example_ctx example_store ''u2'' 0 (example_ref ''ReplicaSet'' ''rs'' ''u1'')"
  by (simp add: reaches_0 ref_gvk_def example_store_defs)

theorem isPodOwnedByWorkload_correct_witness:
  "result_of (isPodOwnedByWorkload (store_api example_store) example_ctx example_owned_pod example_deployment_gw) []"
proof -
  have ref: "getControllerOwnerRef (pod_ownerReferences example_owned_pod) = Some (example_ref ''ReplicaSet'' ''rs'' ''u1'')"
    "hasGpuResources example_owned_pod" "ref_uid (gw_ref example_deployment_gw) = ''u2''"
    by (simp_all add: example_owned_pod_def example_ref_def example_pod_def hasGpuResources_def HasPrefix_def
        GpuResourcePrefix_def example_deployment_gw_def example_spec_def)
  show ?thesis
    using isPodOwnedByWorkload_correct [of "store_api example_store" example_owned_pod example_store example_ctx
        example_deployment_gw "[]"] example_reaches
    by (auto simp: serves_store_api example_uids_identify ref Let_def)
qed

end
