(* ===== verification/GpuPreemption.thy ===== *)
theory GpuPreemption
  imports GpuClient
begin

text \<open>
  The preemption evaluation of \<^verbatim>\<open>internal/controller/gpuworkload_controller.go\<close>:
  \<open>classifyWorkloads\<close> and \<open>matchAndMarkVictims\<close>. The loops that talk to the API server are
  programs; \<open>plan_victims\<close> is the pure plan that \<open>matchAndMarkVictims\<close> carries out, and the
  refinement lemma says so. Lemmas: a plan covers each demand with a minimal set of longest-idle
  victims or leaves it alone, and claims no workload twice; a workload is marked only when it was
  listed as idle beyond its grace period and is still idle when it is written.
\<close>

section \<open>Definitions\<close>

record workloadEntry =
  we_gw :: GpuWorkload
  we_gpuCount :: "int gomap"
  we_idleSince :: int

record preemptionState =
  ps_pendingByResource :: "workloadEntry list gomap"
  ps_idleByResource :: "workloadEntry list gomap"
  ps_inFlight :: "int gomap gomap"

text \<open>\<^verbatim>\<open>Duration.Round(time.Second)\<close>\<close>

definition round_to_second :: "int \<Rightarrow> int" where
  "round_to_second d = second * go_round (of_int d / of_int second)"

text \<open>The closure both callers hand to \<^verbatim>\<open>retry.RetryOnConflict\<close>: \<open>change\<close> is what it writes.\<close>

definition mark_if_idle :: "GpuApi \<Rightarrow> GpuWorkload \<Rightarrow> (GpuWorkload \<Rightarrow> GpuWorkload) \<Rightarrow> api_error option gpu_prog" where
  "mark_if_idle api w change = do {
     r \<leftarrow> Get_GpuWorkload api (gw_namespace w) (gw_name w);
     (case r of
        Inl e \<Rightarrow> ret (Some e)
      | Inr fresh \<Rightarrow>
          if gw_phase fresh \<noteq> PhaseIdle then ret None
          else do {
            u \<leftarrow> Status_Update api (change fresh);
            ret (case u of Inl e \<Rightarrow> Some e | Inr _ \<Rightarrow> None)
          })
   }"

definition always_change :: "string \<Rightarrow> GpuWorkload \<Rightarrow> GpuWorkload" where
  "always_change reason fresh = fresh\<lparr>gw_status := (gw_status fresh)\<lparr>
     st_phase := PhasePreempting, st_idleSince := None, st_preemptionReason := reason\<rparr>\<rparr>"

definition pressure_change :: "string \<Rightarrow> string \<Rightarrow> GpuWorkload \<Rightarrow> GpuWorkload" where
  "pressure_change pendingName reason fresh = fresh\<lparr>gw_status := (gw_status fresh)\<lparr>
     st_phase := PhasePreempting, st_idleSince := None, st_preemptedFor := pendingName,
     st_preemptionReason := reason\<rparr>\<rparr>"

definition add_pending :: "GpuWorkload \<Rightarrow> preemptionState \<Rightarrow> preemptionState" where
  "add_pending w st = st\<lparr>ps_pendingByResource :=
     fold (\<lambda>(resName, _). append_at resName
             \<lparr>we_gw = w, we_gpuCount = gw_resources w, we_idleSince = 0\<rparr>)
       (gw_resources w) (ps_pendingByResource st)\<rparr>"

definition add_in_flight :: "GpuWorkload \<Rightarrow> preemptionState \<Rightarrow> preemptionState" where
  "add_in_flight w st =
     (let pfor = st_preemptedFor (gw_status w)
      in if pfor \<noteq> [] then
           st\<lparr>ps_inFlight := AList.update pfor
                (add_all_at (gw_resources w) (map_get [] (ps_inFlight st) pfor)) (ps_inFlight st)\<rparr>
         else st)"

definition add_idle :: "GpuWorkload \<Rightarrow> int \<Rightarrow> preemptionState \<Rightarrow> preemptionState" where
  "add_idle w since st = st\<lparr>ps_idleByResource :=
     fold (\<lambda>(resName, _). append_at resName
             \<lparr>we_gw = w, we_gpuCount = gw_resources w, we_idleSince = since\<rparr>)
       (gw_resources w) (ps_idleByResource st)\<rparr>"

definition always_reason :: "GoEnv \<Rightarrow> int \<Rightarrow> int \<Rightarrow> string" where
  "always_reason env idleDuration gracePeriod =
     ''Policy is Always and workload has been idle for '' @ durationString env (round_to_second idleDuration)
       @ '' (threshold: '' @ durationString env gracePeriod @ '')''"

definition always_message :: "GoEnv \<Rightarrow> int \<Rightarrow> int \<Rightarrow> string" where
  "always_message env idleDuration gracePeriod =
     ''Workload has been idle for '' @ durationString env (round_to_second idleDuration)
       @ '' (limit: '' @ durationString env gracePeriod @ '', policy: Always); preempting''"

fun classify_loop ::
    "GpuApi \<Rightarrow> GpuCtx \<Rightarrow> KaiwoGpuPreemptionConfig \<Rightarrow> GpuWorkload list \<Rightarrow> preemptionState \<Rightarrow>
     (api_error + preemptionState) gpu_prog" where
  "classify_loop api cx cfg [] st = ret (Inr st)"
| "classify_loop api cx cfg (w # ws) st =
     (case gw_phase w of
        PhasePendingGpu \<Rightarrow> classify_loop api cx cfg ws (add_pending w st)
      | PhasePreempting \<Rightarrow> classify_loop api cx cfg ws (add_in_flight w st)
      | PhaseIdle \<Rightarrow>
          (case st_idleSince (gw_status w) of
             None \<Rightarrow> classify_loop api cx cfg ws st
           | Some since \<Rightarrow> do {
               now \<leftarrow> Now api;
               let gracePeriod = getGracePeriod (cx_env cx) w cfg;
               let idleDuration = now - since;
               (if idleDuration < gracePeriod then classify_loop api cx cfg ws st
                else if getPreemptionPolicy (cx_env cx) w cfg = PreemptionPolicyAlways then do {
                  err \<leftarrow> RetryOnConflict (cx_retrySteps cx)
                           (mark_if_idle api w (always_change (always_reason (cx_env cx) idleDuration gracePeriod)));
                  (case err of
                     Some e \<Rightarrow> ret (Inl e)
                   | None \<Rightarrow> do {
                       Eventf w EventTypeWarning ''PreemptionStarted''
                         (always_message (cx_env cx) idleDuration gracePeriod);
                       classify_loop api cx cfg ws st
                     })
                }
                else classify_loop api cx cfg ws (add_idle w since st))
             })
      | _ \<Rightarrow> classify_loop api cx cfg ws st)"

definition sort_state :: "preemptionState \<Rightarrow> preemptionState" where
  "sort_state st = st\<lparr>
     ps_idleByResource := map (\<lambda>(r, es). (r, sort_key we_idleSince es)) (ps_idleByResource st),
     ps_pendingByResource :=
       map (\<lambda>(r, es). (r, sort_key (\<lambda>e. gw_creationTimestamp (we_gw e)) es)) (ps_pendingByResource st)\<rparr>"

definition classifyWorkloads ::
    "GpuApi \<Rightarrow> GpuCtx \<Rightarrow> KaiwoGpuPreemptionConfig \<Rightarrow> GpuWorkload list \<Rightarrow>
     (api_error + preemptionState) gpu_prog" where
  "classifyWorkloads api cx cfg workloads = do {
     r \<leftarrow> classify_loop api cx cfg workloads
            \<lparr>ps_pendingByResource = [], ps_idleByResource = [], ps_inFlight = []\<rparr>;
     ret (case r of Inl e \<Rightarrow> Inl e | Inr st \<Rightarrow> Inr (sort_state st))
   }"

text \<open>The inner loop that accumulates victims until the demand is met.\<close>

abbreviation we_uid :: "workloadEntry \<Rightarrow> string" where
  "we_uid e \<equiv> ref_uid (gw_ref (we_gw e))"

abbreviation we_count :: "string \<Rightarrow> workloadEntry \<Rightarrow> int" where
  "we_count res e \<equiv> map_get 0 (we_gpuCount e) res"

fun pick_victims ::
    "string \<Rightarrow> string list \<Rightarrow> int \<Rightarrow> workloadEntry list \<Rightarrow> int \<Rightarrow> workloadEntry list \<times> int" where
  "pick_victims res claimed demand [] accumulated = ([], accumulated)"
| "pick_victims res claimed demand (idle # pool) accumulated =
     (if we_uid idle \<in> set claimed then pick_victims res claimed demand pool accumulated
      else if we_count res idle \<le> 0 then pick_victims res claimed demand pool accumulated
      else if accumulated + we_count res idle \<ge> demand then ([idle], accumulated + we_count res idle)
      else (let (victims, tot) =
                  pick_victims res claimed demand pool (accumulated + we_count res idle)
            in (idle # victims, tot)))"

definition pressure_reason :: "string \<Rightarrow> int \<Rightarrow> string \<Rightarrow> string" where
  "pressure_reason pendingName demandCount resName =
     ''GPU pressure: pending workload '' @ pendingName @ '' needs '' @ Itoa demandCount @ '' '' @ resName @ '' GPUs''"

fun mark_victims ::
    "GpuApi \<Rightarrow> GpuCtx \<Rightarrow> string \<Rightarrow> string \<Rightarrow> int \<Rightarrow> workloadEntry list \<Rightarrow> string list \<Rightarrow>
     (api_error + string list) gpu_prog" where
  "mark_victims api cx pendingName res demandCount [] claimed = ret (Inr claimed)"
| "mark_victims api cx pendingName res demandCount (victim # victims) claimed = do {
     err \<leftarrow> RetryOnConflict (cx_retrySteps cx) (mark_if_idle api (we_gw victim)
              (pressure_change pendingName (pressure_reason pendingName demandCount res)));
     (case err of
        Some e \<Rightarrow> ret (Inl e)
      | None \<Rightarrow> do {
          Eventf (we_gw victim) EventTypeWarning ''PreemptionStarted''
            (''Freeing '' @ Itoa (we_count res victim) @ '' '' @ res @ '' GPU(s) for pending workload '' @ pendingName);
          mark_victims api cx pendingName res demandCount victims (we_uid victim # claimed)
        })
   }"

text \<open>The demand that is left after what is already being freed; \<open>None\<close> where the code continues.\<close>

definition open_demand :: "int gomap gomap \<Rightarrow> string \<Rightarrow> workloadEntry \<Rightarrow> int option" where
  "open_demand inFlight res pending =
     (let demandCount = we_count res pending
      in if demandCount \<le> 0 then None
         else (case map_of inFlight (gw_name (we_gw pending)) of
                 None \<Rightarrow> Some demandCount
               | Some alreadyFreeing \<Rightarrow>
                   let rest = demandCount - map_get 0 alreadyFreeing res
                   in if rest \<le> 0 then None else Some rest))"

fun match_pending ::
    "GpuApi \<Rightarrow> GpuCtx \<Rightarrow> int gomap gomap \<Rightarrow> string \<Rightarrow> workloadEntry list \<Rightarrow> workloadEntry list \<Rightarrow>
     string list \<Rightarrow> (api_error + string list) gpu_prog" where
  "match_pending api cx inFlight res idlePool [] claimed = ret (Inr claimed)"
| "match_pending api cx inFlight res idlePool (pending # pendings) claimed =
     (case open_demand inFlight res pending of
        None \<Rightarrow> match_pending api cx inFlight res idlePool pendings claimed
      | Some demandCount \<Rightarrow>
          let (victims, accumulated) = pick_victims res claimed demandCount idlePool 0
          in if accumulated < demandCount
             then match_pending api cx inFlight res idlePool pendings claimed
             else do {
               r \<leftarrow> mark_victims api cx (gw_name (we_gw pending)) res demandCount victims claimed;
               (case r of
                  Inl e \<Rightarrow> ret (Inl e)
                | Inr claimed' \<Rightarrow> match_pending api cx inFlight res idlePool pendings claimed')
             })"

fun match_resources ::
    "GpuApi \<Rightarrow> GpuCtx \<Rightarrow> preemptionState \<Rightarrow> string list \<Rightarrow> string list \<Rightarrow> api_error option gpu_prog" where
  "match_resources api cx st [] claimed = ret None"
| "match_resources api cx st (resName # resNames) claimed =
     (case map_of (ps_idleByResource st) resName of
        None \<Rightarrow> match_resources api cx st resNames claimed
      | Some idlePool \<Rightarrow>
          if idlePool = [] then match_resources api cx st resNames claimed
          else do {
            r \<leftarrow> match_pending api cx (ps_inFlight st) resName idlePool
                   (map_get [] (ps_pendingByResource st) resName) claimed;
            (case r of
               Inl e \<Rightarrow> ret (Some e)
             | Inr claimed' \<Rightarrow> match_resources api cx st resNames claimed')
          })"

definition matchAndMarkVictims :: "GpuApi \<Rightarrow> GpuCtx \<Rightarrow> preemptionState \<Rightarrow> api_error option gpu_prog" where
  "matchAndMarkVictims api cx st =
     match_resources api cx st (cx_mapOrder cx (map fst (ps_pendingByResource st))) []"

section \<open>The plan\<close>

text \<open>One satisfied pending workload: what it needs of which resource, and who gives it.\<close>

record assignment =
  as_pending :: workloadEntry
  as_resource :: string
  as_demand :: int
  as_victims :: "workloadEntry list"

fun plan_pending ::
    "int gomap gomap \<Rightarrow> string \<Rightarrow> workloadEntry list \<Rightarrow> workloadEntry list \<Rightarrow> string list \<Rightarrow> assignment list" where
  "plan_pending inFlight res idlePool [] claimed = []"
| "plan_pending inFlight res idlePool (pending # pendings) claimed =
     (case open_demand inFlight res pending of
        None \<Rightarrow> plan_pending inFlight res idlePool pendings claimed
      | Some demandCount \<Rightarrow>
          let (victims, accumulated) = pick_victims res claimed demandCount idlePool 0
          in if accumulated < demandCount then plan_pending inFlight res idlePool pendings claimed
             else \<lparr>as_pending = pending, as_resource = res, as_demand = demandCount, as_victims = victims\<rparr>
                    # plan_pending inFlight res idlePool pendings (rev (map we_uid victims) @ claimed))"

definition plan_uids :: "assignment list \<Rightarrow> string list" where
  "plan_uids plan = concat (map (\<lambda>a. map we_uid (as_victims a)) plan)"

fun plan_resources :: "preemptionState \<Rightarrow> string list \<Rightarrow> string list \<Rightarrow> assignment list" where
  "plan_resources st [] claimed = []"
| "plan_resources st (res # resNames) claimed =
     (let plan = plan_pending (ps_inFlight st) res (map_get [] (ps_idleByResource st) res)
                   (map_get [] (ps_pendingByResource st) res) claimed
      in plan @ plan_resources st resNames (rev (plan_uids plan) @ claimed))"

definition plan_victims :: "GpuCtx \<Rightarrow> preemptionState \<Rightarrow> assignment list" where
  "plan_victims cx st = plan_resources st (cx_mapOrder cx (map fst (ps_pendingByResource st))) []"

text \<open>Carrying out a plan: mark the victims one after the other, stop at the first error.\<close>

definition mark_one :: "GpuApi \<Rightarrow> GpuCtx \<Rightarrow> assignment \<Rightarrow> workloadEntry \<Rightarrow> api_error option gpu_prog" where
  "mark_one api cx a victim = do {
     err \<leftarrow> RetryOnConflict (cx_retrySteps cx) (mark_if_idle api (we_gw victim)
              (pressure_change (gw_name (we_gw (as_pending a)))
                (pressure_reason (gw_name (we_gw (as_pending a))) (as_demand a) (as_resource a))));
     (case err of
        Some e \<Rightarrow> ret (Some e)
      | None \<Rightarrow> do {
          Eventf (we_gw victim) EventTypeWarning ''PreemptionStarted''
            (''Freeing '' @ Itoa (we_count (as_resource a) victim) @ '' '' @ as_resource a
               @ '' GPU(s) for pending workload '' @ gw_name (we_gw (as_pending a)));
          ret None
        })
   }"

fun until_error :: "api_error option gpu_prog list \<Rightarrow> api_error option gpu_prog" where
  "until_error [] = ret None"
| "until_error (m # ms) = do { r \<leftarrow> m; (case r of Some e \<Rightarrow> ret (Some e) | None \<Rightarrow> until_error ms) }"

definition execute_plan :: "GpuApi \<Rightarrow> GpuCtx \<Rightarrow> assignment list \<Rightarrow> api_error option gpu_prog" where
  "execute_plan api cx plan = until_error (concat (map (\<lambda>a. map (mark_one api cx a) (as_victims a)) plan))"

section \<open>The evaluation carries out the plan\<close>

lemma until_error_append:
  "until_error (ms @ ns) =
     do { r \<leftarrow> until_error ms; (case r of Some e \<Rightarrow> ret (Some e) | None \<Rightarrow> until_error ns) }"
proof (induction ms)
  case (Cons m ms)
  have "until_error ((m # ms) @ ns) = do { r \<leftarrow> m; (case r of Some e \<Rightarrow> ret (Some e) | None \<Rightarrow>
      do { r \<leftarrow> until_error ms; (case r of Some e \<Rightarrow> ret (Some e) | None \<Rightarrow> until_error ns) }) }"
    using Cons by simp
  also have "\<dots> = do { r \<leftarrow> until_error (m # ms); (case r of Some e \<Rightarrow> ret (Some e) | None \<Rightarrow> until_error ns) }"
    by (auto intro!: bind_cong_right split: option.split)
  finally show ?case .
qed simp

lemma mark_victims_eq:
  assumes "gw_name (we_gw (as_pending a)) = pendingName" "as_resource a = res" "as_demand a = demand"
  shows "mark_victims api cx pendingName res demand victims claimed =
    do { r \<leftarrow> until_error (map (mark_one api cx a) victims);
         ret (case r of Some e \<Rightarrow> Inl e | None \<Rightarrow> Inr (rev (map we_uid victims) @ claimed)) }"
proof (induction victims arbitrary: claimed)
  case (Cons v victims)
  show ?case
    by (auto simp: mark_one_def assms Cons.IH intro!: bind_cong_right split: option.split)
qed simp

lemma match_pending_eq:
  "match_pending api cx inFlight res pool pendings claimed =
    do { r \<leftarrow> execute_plan api cx (plan_pending inFlight res pool pendings claimed);
         ret (case r of Some e \<Rightarrow> Inl e
              | None \<Rightarrow> Inr (rev (plan_uids (plan_pending inFlight res pool pendings claimed)) @ claimed)) }"
proof (induction pendings arbitrary: claimed)
  case Nil
  then show ?case by (simp add: execute_plan_def plan_uids_def)
next
  case (Cons p pendings)
  show ?case
  proof (cases "open_demand inFlight res p")
    case None
    with Cons show ?thesis by (simp cong: option.case_cong)
  next
    case (Some demand)
    obtain victims tot where pick: "pick_victims res claimed demand pool 0 = (victims, tot)" by fastforce
    let ?a = "\<lparr>as_pending = p, as_resource = res, as_demand = demand, as_victims = victims\<rparr>"
    show ?thesis
    proof (cases "tot < demand")
      case True
      with Some pick Cons show ?thesis by (simp cong: option.case_cong)
    next
      case False
      with Some pick show ?thesis
        by (auto simp: Cons.IH mark_victims_eq [of ?a] execute_plan_def until_error_append plan_uids_def
            intro!: bind_cong_right split: option.split)
    qed
  qed
qed

lemma plan_pending_no_pool: "plan_pending inFlight res [] pendings claimed = []"
  by (induction pendings arbitrary: claimed)
    (auto simp: open_demand_def Let_def split: option.splits if_splits)

lemma match_resources_eq:
  "match_resources api cx st resNames claimed = execute_plan api cx (plan_resources st resNames claimed)"
proof (induction resNames arbitrary: claimed)
  case Nil
  then show ?case by (simp add: execute_plan_def)
next
  case (Cons res resNames)
  show ?case
  proof (cases "map_get [] (ps_idleByResource st) res = []")
    case True
    with Cons show ?thesis
      by (auto simp: map_get_def plan_pending_no_pool plan_uids_def split: option.splits)
  next
    case False
    then obtain pool where pool: "map_of (ps_idleByResource st) res = Some pool" "pool \<noteq> []"
      by (auto simp: map_get_def split: option.splits)
    then have get: "map_get [] (ps_idleByResource st) res = pool" by (simp add: map_get_def)
    show ?thesis
      using pool get
      by (auto simp: Cons.IH match_pending_eq execute_plan_def until_error_append Let_def
          intro!: bind_cong_right split: option.split)
  qed
qed

text \<open>
  C3: \<open>matchAndMarkVictims\<close>, with its claimed map, early returns and server calls, performs exactly
  the plan \<open>plan_victims\<close> computes from the state alone: it marks the planned victims in the plan's
  order and stops at the first write that fails. The answers of the server never change who is chosen.
\<close>

theorem matchAndMarkVictims_refines_plan:
  "matchAndMarkVictims api cx st = execute_plan api cx (plan_victims cx st)"
  by (simp add: matchAndMarkVictims_def plan_victims_def match_resources_eq)

section \<open>What a plan is\<close>

text \<open>The pool an assignment may draw from: unclaimed entries that hold the resource.\<close>

definition available :: "string \<Rightarrow> string list \<Rightarrow> workloadEntry list \<Rightarrow> workloadEntry list" where
  "available res claimed pool = filter (\<lambda>e. we_uid e \<notin> set claimed \<and> 0 < we_count res e) pool"

definition capacity :: "string \<Rightarrow> workloadEntry list \<Rightarrow> int" where
  "capacity res es = sum_list (map (we_count res) es)"

lemma capacity_simps [simp]:
  "capacity res [] = 0" "capacity res (e # es) = we_count res e + capacity res es"
  "capacity res (es @ fs) = capacity res es + capacity res fs"
  by (simp_all add: capacity_def)

lemma available_simps [simp]:
  "available res claimed [] = []"
  "available res claimed (e # pool) =
     (if we_uid e \<notin> set claimed \<and> 0 < we_count res e then e # available res claimed pool
      else available res claimed pool)"
  by (simp_all add: available_def)

lemma pick_victims_spec:
  assumes "pick_victims res claimed demand pool acc = (victims, tot)" and "acc < demand"
  shows "tot = acc + capacity res victims \<and>
    (\<exists>n. victims = take n (available res claimed pool)) \<and>
    (demand \<le> tot \<longleftrightarrow> demand \<le> acc + capacity res (available res claimed pool)) \<and>
    (demand \<le> tot \<longrightarrow> victims \<noteq> [] \<and> acc + capacity res (butlast victims) < demand)"
  using assms
proof (induction res claimed demand pool acc arbitrary: victims tot rule: pick_victims.induct)
  case (1 res claimed demand acc)
  then show ?case by auto
next
  case (2 res claimed demand e pool acc)
  let ?c = "we_count res e"
  have nonneg: "0 \<le> capacity res (available res claimed pool)"
    by (induction pool) auto
  consider (skip) "we_uid e \<in> set claimed \<or> ?c \<le> 0"
    | (last) "we_uid e \<notin> set claimed" "0 < ?c" "demand \<le> acc + ?c"
    | (more) "we_uid e \<notin> set claimed" "0 < ?c" "acc + ?c < demand" by linarith
  then show ?case
  proof cases
    case skip
    with 2 show ?thesis by (auto split: if_splits)
  next
    case last
    with "2.prems" nonneg show ?thesis by (auto intro: exI [of _ 1])
  next
    case more
    then obtain vs where vs: "pick_victims res claimed demand pool (acc + ?c) = (vs, tot)" "victims = e # vs"
      using "2.prems"(1) by (auto split: prod.splits)
    from more "2.IH"(3) [OF _ _ _ vs(1)] obtain n where IH: "tot = acc + ?c + capacity res vs"
        "vs = take n (available res claimed pool)"
        "demand \<le> tot \<longleftrightarrow> demand \<le> acc + ?c + capacity res (available res claimed pool)"
        "demand \<le> tot \<longrightarrow> vs \<noteq> [] \<and> acc + ?c + capacity res (butlast vs) < demand" by auto
    have pre: "victims = take (Suc n) (available res claimed (e # pool))" using IH(2) vs(2) more by simp
    have "tot = acc + capacity res victims" using IH(1) vs(2) by simp
    moreover have "demand \<le> tot \<longleftrightarrow> demand \<le> acc + capacity res (available res claimed (e # pool))"
      using IH(3) more by (simp add: add.assoc)
    moreover have "demand \<le> tot \<longrightarrow> victims \<noteq> [] \<and> acc + capacity res (butlast victims) < demand"
      using IH(4) vs(2) by (simp add: add.assoc)
    ultimately show ?thesis using pre by blast
  qed
qed

definition assignment_ok ::
    "int gomap gomap \<Rightarrow> workloadEntry list \<Rightarrow> workloadEntry list \<Rightarrow> string set \<Rightarrow> assignment \<Rightarrow> bool" where
  "assignment_ok inFlight pool pendings claimed a \<longleftrightarrow>
     as_pending a \<in> set pendings \<and>
     open_demand inFlight (as_resource a) (as_pending a) = Some (as_demand a) \<and>
     (\<exists>n. as_victims a = take n (filter (\<lambda>e. we_uid e \<notin> claimed \<and> 0 < we_count (as_resource a) e) pool)) \<and>
     as_demand a \<le> capacity (as_resource a) (as_victims a) \<and>
     capacity (as_resource a) (butlast (as_victims a)) < as_demand a"

lemma open_demand_pos: "open_demand inFlight res p = Some d \<Longrightarrow> 0 < d"
  by (auto simp: open_demand_def Let_def split: if_splits option.splits)

lemma plan_pending_split:
  assumes "plan_pending inFlight res pool pendings claimed = pre @ a # post"
  shows "as_resource a = res \<and> assignment_ok inFlight pool pendings (set (plan_uids pre) \<union> set claimed) a"
  using assms
proof (induction pendings arbitrary: claimed pre)
  case (Cons p pendings)
  have weaken: "assignment_ok inFlight pool pendings c a \<Longrightarrow> assignment_ok inFlight pool (p # pendings) c a" for c
    by (simp add: assignment_ok_def)
  show ?case
  proof (cases "open_demand inFlight res p")
    case None
    with Cons weaken show ?thesis by simp
  next
    case (Some demand)
    obtain victims tot where pick: "pick_victims res claimed demand pool 0 = (victims, tot)" by fastforce
    note spec = pick_victims_spec [OF pick open_demand_pos [OF Some]]
    show ?thesis
    proof (cases "tot < demand")
      case True
      with Cons Some pick weaken show ?thesis by simp
    next
      case False
      let ?b = "\<lparr>as_pending = p, as_resource = res, as_demand = demand, as_victims = victims\<rparr>"
      have eq: "?b # plan_pending inFlight res pool pendings (rev (map we_uid victims) @ claimed) = pre @ a # post"
        using Cons.prems Some pick False by simp
      show ?thesis
      proof (cases pre)
        case Nil
        with eq have "a = ?b" by simp
        with Nil Some spec False show ?thesis by (simp add: assignment_ok_def plan_uids_def available_def)
      next
        case (Cons b pre')
        with eq have "plan_pending inFlight res pool pendings (rev (map we_uid victims) @ claimed) = pre' @ a # post"
          and "b = ?b" by auto
        with Cons.IH weaken Cons show ?thesis by (fastforce simp: plan_uids_def Un_assoc Un_left_commute)
      qed
    qed
  qed
qed simp

lemma plan_resources_split:
  assumes "plan_resources st resNames claimed = pre @ a # post"
  shows "as_resource a \<in> set resNames \<and>
    assignment_ok (ps_inFlight st) (map_get [] (ps_idleByResource st) (as_resource a))
      (map_get [] (ps_pendingByResource st) (as_resource a)) (set (plan_uids pre) \<union> set claimed) a"
  using assms
proof (induction resNames arbitrary: claimed pre)
  case (Cons res resNames)
  define plan where "plan = plan_pending (ps_inFlight st) res (map_get [] (ps_idleByResource st) res)
      (map_get [] (ps_pendingByResource st) res) claimed"
  have eq: "plan @ plan_resources st resNames (rev (plan_uids plan) @ claimed) = pre @ a # post"
    using Cons.prems by (simp add: plan_def Let_def)
  then consider (here) post' where "plan = pre @ a # post'"
    | (later) pre' where "pre = plan @ pre'"
        "plan_resources st resNames (rev (plan_uids plan) @ claimed) = pre' @ a # post"
    by (auto simp: append_eq_append_conv2 append_eq_Cons_conv)
  then show ?case
  proof cases
    case here
    with plan_pending_split show ?thesis unfolding plan_def by fastforce
  next
    case later
    from Cons.IH [OF later(2)] show ?thesis
      by (simp add: later(1) plan_uids_def Un_commute Un_left_commute)
  qed
qed simp

text \<open>
  C4: What every planned preemption satisfies, whatever order Go visits the resources in. The demand
  of the pending workload beyond what is already being freed is covered by the chosen victims, and by
  no proper prefix of them; the victims are the first in the pool (which is sorted by idle time)
  among the entries that hold the resource and were not claimed by an earlier assignment.
\<close>

theorem plan_assignment_justified:
  assumes "plan_victims cx st = pre @ a # post"
  shows "let pool = map_get [] (ps_idleByResource st) (as_resource a);
             free = filter (\<lambda>e. we_uid e \<notin> set (plan_uids pre) \<and> 0 < we_count (as_resource a) e) pool
         in as_pending a \<in> set (map_get [] (ps_pendingByResource st) (as_resource a)) \<and>
            open_demand (ps_inFlight st) (as_resource a) (as_pending a) = Some (as_demand a) \<and>
            (\<exists>n. as_victims a = take n free) \<and>
            as_demand a \<le> capacity (as_resource a) (as_victims a) \<and>
            capacity (as_resource a) (butlast (as_victims a)) < as_demand a"
  using plan_resources_split [of st _ "[]" pre a post] assms
  by (simp add: plan_victims_def assignment_ok_def)

definition example_entry :: "string \<Rightarrow> string \<Rightarrow> int \<Rightarrow> int \<Rightarrow> workloadEntry" where
  "example_entry name uid gpus since = \<lparr>we_gw = (example_gw name gpus empty_status)\<lparr>gw_spec := (example_spec gpus)\<lparr>
       sp_workloadRef := \<lparr>ref_apiVersion = ''v1'', ref_kind = ''Job'', ref_name = name, ref_uid = uid\<rparr>\<rparr>\<rparr>,
     we_gpuCount = [(''amd.com/gpu'', gpus)], we_idleSince = since\<rparr>"

definition example_state :: preemptionState where
  "example_state = \<lparr>ps_pendingByResource = [(''amd.com/gpu'', [example_entry ''waiting'' ''w'' 4 0])],
     ps_idleByResource = [(''amd.com/gpu'', [example_entry ''a'' ''ua'' 2 10, example_entry ''b'' ''ub'' 3 20,
        example_entry ''c'' ''uc'' 8 30])],
     ps_inFlight = [(''waiting'', [(''amd.com/gpu'', 1)])]\<rparr>"

lemmas example_state_defs = example_state_def example_entry_def example_gw_def example_spec_def
  example_ctx_def

lemma example_plan:
  "plan_victims example_ctx example_state =
     [\<lparr>as_pending = example_entry ''waiting'' ''w'' 4 0, as_resource = ''amd.com/gpu'', as_demand = 3,
       as_victims = [example_entry ''a'' ''ua'' 2 10, example_entry ''b'' ''ub'' 3 20]\<rparr>]"
  by (simp add: plan_victims_def open_demand_def example_state_defs)

theorem plan_assignment_justified_witness:
  "capacity ''amd.com/gpu'' [example_entry ''a'' ''ua'' 2 10, example_entry ''b'' ''ub'' 3 20] \<ge> 3"
  using plan_assignment_justified [of example_ctx example_state "[]", unfolded example_plan, simplified]
  by (simp add: Let_def)

lemma plan_uids_simps [simp]:
  "plan_uids [] = []" "plan_uids (a # plan) = map we_uid (as_victims a) @ plan_uids plan"
  "plan_uids (p @ q) = plan_uids p @ plan_uids q"
  by (simp_all add: plan_uids_def)

lemma distinct_plan_uidsI:
  assumes "\<And>pre a post. plan = pre @ a # post \<Longrightarrow>
      distinct (map we_uid (as_victims a)) \<and> set (map we_uid (as_victims a)) \<inter> set (plan_uids pre) = {}"
  shows "distinct (plan_uids plan)"
  using assms
proof (induction plan rule: rev_induct)
  case (snoc a plan)
  have "distinct (plan_uids plan)" by (rule snoc.IH) (use snoc.prems in auto)
  moreover have "distinct (map we_uid (as_victims a)) \<and> set (map we_uid (as_victims a)) \<inter> set (plan_uids plan) = {}"
    by (rule snoc.prems [of plan a "[]"]) simp
  ultimately show ?case by auto
qed simp

text \<open>
  No workload is claimed twice in one evaluation, be it for two pending workloads or for two
  resources: the UIDs of all planned victims are distinct, when every pool holds a UID once.
\<close>

theorem plan_claims_once:
  assumes "\<forall>res. distinct (map we_uid (map_get [] (ps_idleByResource st) res))"
  shows "distinct (plan_uids (plan_victims cx st))"
proof (rule distinct_plan_uidsI)
  fix pre a post
  assume "plan_victims cx st = pre @ a # post"
  then obtain n where v: "as_victims a = take n (filter (\<lambda>e. we_uid e \<notin> set (plan_uids pre) \<and>
      0 < we_count (as_resource a) e) (map_get [] (ps_idleByResource st) (as_resource a)))"
    using plan_resources_split [of st _ "[]" pre a post] by (auto simp: plan_victims_def assignment_ok_def)
  then show "distinct (map we_uid (as_victims a)) \<and> set (map we_uid (as_victims a)) \<inter> set (plan_uids pre) = {}"
    using assms by (auto simp: distinct_map_filter take_map [symmetric] dest!: in_set_takeD)
qed

theorem plan_claims_once_witness:
  "distinct (plan_uids (plan_victims example_ctx example_state))"
  by (rule plan_claims_once) (simp add: example_state_defs map_get_def)

lemma plan_pending_Nil_iff:
  "plan_pending inFlight res pool pendings claimed = [] \<longleftrightarrow>
     (\<forall>p \<in> set pendings. \<forall>d. open_demand inFlight res p = Some d \<longrightarrow> capacity res (available res claimed pool) < d)"
proof (induction pendings)
  case (Cons p pendings)
  show ?case
  proof (cases "open_demand inFlight res p")
    case (Some d)
    obtain victims tot where pick: "pick_victims res claimed d pool 0 = (victims, tot)" by fastforce
    from pick_victims_spec [OF pick open_demand_pos [OF Some]] Some pick Cons show ?thesis by auto
  qed (use Cons in simp)
qed simp

lemma plan_resources_Nil_iff:
  "plan_resources st resNames claimed = [] \<longleftrightarrow>
     (\<forall>res \<in> set resNames. plan_pending (ps_inFlight st) res (map_get [] (ps_idleByResource st) res)
        (map_get [] (ps_pendingByResource st) res) claimed = [])"
  by (induction resNames) (auto simp: Let_def)

text \<open>
  C5: An evaluation gives up only when it has to: it plans nothing exactly when, for every resource
  and every pending workload with an open demand for it, all idle workloads that hold the resource
  together cannot cover the demand (all-or-nothing).
\<close>

theorem plan_empty_iff:
  "(plan_victims cx st = []) =
     (\<forall>res \<in> set (cx_mapOrder cx (map fst (ps_pendingByResource st))).
      \<forall>p \<in> set (map_get [] (ps_pendingByResource st) res). \<forall>d.
        open_demand (ps_inFlight st) res p = Some d \<longrightarrow>
        capacity res (filter (\<lambda>e. 0 < we_count res e) (map_get [] (ps_idleByResource st) res)) < d)"
  by (simp add: plan_victims_def plan_resources_Nil_iff plan_pending_Nil_iff available_def)

theorem plan_empty_iff_witness:
  "plan_victims example_ctx (example_state\<lparr>ps_idleByResource :=
     [(''amd.com/gpu'', [example_entry ''a'' ''ua'' 2 10])]\<rparr>) = []"
  unfolding plan_empty_iff by (simp add: open_demand_def example_state_defs)

section \<open>Who is marked\<close>

text \<open>
  In a trace with \<open>marks_ok J\<close> every status write directly follows a read of the same object that
  was idle, and writes what \<open>change\<close> makes of it, for a workload and a change that \<open>J\<close> admits.
\<close>

definition after_idle_read ::
    "(GpuWorkload \<Rightarrow> (GpuWorkload \<Rightarrow> GpuWorkload) \<Rightarrow> bool) \<Rightarrow> gpu_event list \<Rightarrow> GpuWorkload \<Rightarrow> bool" where
  "after_idle_read J pre g \<longleftrightarrow>
     (\<exists>pre' w change fresh. pre = pre' @ [EvGetGpuWorkload (gw_namespace w) (gw_name w) (Inr fresh)] \<and>
        gw_phase fresh = PhaseIdle \<and> g = change fresh \<and> J w change)"

definition marks_ok :: "(GpuWorkload \<Rightarrow> (GpuWorkload \<Rightarrow> GpuWorkload) \<Rightarrow> bool) \<Rightarrow> gpu_event list \<Rightarrow> bool" where
  "marks_ok J new \<longleftrightarrow>
     (\<forall>pre g r post. new = pre @ EvUpdateStatus g r # post \<longrightarrow> after_idle_read J pre g)"

lemma after_idle_read_append: "after_idle_read J pre g \<Longrightarrow> after_idle_read J (xs @ pre) g"
  unfolding after_idle_read_def by (metis append_assoc)

lemma after_idle_read_mono: "after_idle_read J pre g \<Longrightarrow> (\<And>w c. J w c \<Longrightarrow> K w c) \<Longrightarrow> after_idle_read K pre g"
  unfolding after_idle_read_def by metis

lemma marks_ok_no_write: "(\<And>g r. EvUpdateStatus g r \<notin> set new) \<Longrightarrow> marks_ok J new"
  unfolding marks_ok_def by (metis in_set_conv_decomp)

lemma marks_ok_single: "(\<And>g r. e \<noteq> EvUpdateStatus g r) \<Longrightarrow> marks_ok J [e]"
  by (rule marks_ok_no_write) (metis empty_iff empty_set set_ConsD)

lemma marks_ok_append: "marks_ok J xs \<Longrightarrow> marks_ok J ys \<Longrightarrow> marks_ok J (xs @ ys)"
  unfolding marks_ok_def
proof (intro allI impI)
  fix pre g r post
  assume xs: "\<forall>pre g r post. xs = pre @ EvUpdateStatus g r # post \<longrightarrow> after_idle_read J pre g"
    and ys: "\<forall>pre g r post. ys = pre @ EvUpdateStatus g r # post \<longrightarrow> after_idle_read J pre g"
    and eq: "xs @ ys = pre @ EvUpdateStatus g r # post"
  from eq consider (left) post' where "xs = pre @ EvUpdateStatus g r # post'"
    | (right) pre2 where "pre = xs @ pre2" "ys = pre2 @ EvUpdateStatus g r # post"
    by (auto simp: append_eq_append_conv2 append_eq_Cons_conv)
  then show "after_idle_read J pre g"
    by cases (use xs ys after_idle_read_append in blast)+
qed

interpretation marks: trace_property "marks_ok J" for J
  by unfold_locales (simp_all add: marks_ok_no_write marks_ok_append)

lemma marks_ok_mono: "marks_ok J new \<Longrightarrow> (\<And>w c. J w c \<Longrightarrow> K w c) \<Longrightarrow> marks_ok K new"
  unfolding marks_ok_def by (metis after_idle_read_mono)

lemma marks_ok_written:
  "gw_phase fresh = PhaseIdle \<Longrightarrow> J w change \<Longrightarrow>
   marks_ok J [EvGetGpuWorkload (gw_namespace w) (gw_name w) (Inr fresh), EvUpdateStatus (change fresh) r]"
  unfolding marks_ok_def after_idle_read_def by (auto simp: Cons_eq_append_conv)

lemma mark_if_idle_marks: "J w change \<Longrightarrow> marks.always J (mark_if_idle api w change)"
  unfolding marks.always_def mark_if_idle_def client_defs
  by (intro does_intros) (auto intro: marks_ok_written marks_ok_single)

lemma Eventf_marks: "marks.always J (Eventf gw t reason message)"
  unfolding Eventf_def by (intro marks.always_intros marks_ok_single) simp

lemmas marks_intros = marks.always_intros marks.always_RetryOnConflict mark_if_idle_marks Eventf_marks

lemma until_error_marks: "(\<And>m. m \<in> set ms \<Longrightarrow> marks.always J m) \<Longrightarrow> marks.always J (until_error ms)"
  by (induction ms) (auto intro!: marks.always_intros)

text \<open>The change that an assignment writes to its victims.\<close>

definition assignment_change :: "assignment \<Rightarrow> GpuWorkload \<Rightarrow> GpuWorkload" where
  "assignment_change a = pressure_change (gw_name (we_gw (as_pending a)))
     (pressure_reason (gw_name (we_gw (as_pending a))) (as_demand a) (as_resource a))"

lemma execute_plan_marks:
  "marks.always (\<lambda>w change. \<exists>a \<in> set plan. \<exists>v \<in> set (as_victims a). w = we_gw v \<and> change = assignment_change a)
     (execute_plan api cx plan)"
  unfolding execute_plan_def
proof (rule until_error_marks)
  fix m
  assume "m \<in> set (concat (map (\<lambda>a. map (mark_one api cx a) (as_victims a)) plan))"
  then obtain a v where "a \<in> set plan" "v \<in> set (as_victims a)" "m = mark_one api cx a v" by auto
  then show "marks.always (\<lambda>w change. \<exists>a \<in> set plan. \<exists>v \<in> set (as_victims a). w = we_gw v \<and> change = assignment_change a) m"
    unfolding mark_one_def by (auto intro!: marks_intros simp: assignment_change_def)
qed

section \<open>What is classified\<close>

text \<open>
  A listed workload is idle beyond its grace period, by a clock reading among the given events.
\<close>

definition overdue :: "GpuCtx \<Rightarrow> KaiwoGpuPreemptionConfig \<Rightarrow> gpu_event list \<Rightarrow> GpuWorkload \<Rightarrow> bool" where
  "overdue cx cfg events w \<longleftrightarrow> gw_phase w = PhaseIdle \<and>
     (\<exists>since now. st_idleSince (gw_status w) = Some since \<and> EvNow now \<in> set events \<and>
        getGracePeriod (cx_env cx) w cfg \<le> now - since)"

definition idle_entry_ok ::
    "GpuCtx \<Rightarrow> KaiwoGpuPreemptionConfig \<Rightarrow> GpuWorkload list \<Rightarrow> gpu_event list \<Rightarrow> workloadEntry \<Rightarrow> bool" where
  "idle_entry_ok cx cfg ws events e \<longleftrightarrow> we_gw e \<in> set ws \<and> overdue cx cfg events (we_gw e) \<and>
     getPreemptionPolicy (cx_env cx) (we_gw e) cfg = PreemptionPolicyOnPressure \<and>
     we_gpuCount e = gw_resources (we_gw e) \<and> st_idleSince (gw_status (we_gw e)) = Some (we_idleSince e)"

definition pending_entry :: "GpuWorkload \<Rightarrow> workloadEntry" where
  "pending_entry w = \<lparr>we_gw = w, we_gpuCount = gw_resources w, we_idleSince = 0\<rparr>"

definition idle_entries_ok ::
    "GpuCtx \<Rightarrow> KaiwoGpuPreemptionConfig \<Rightarrow> GpuWorkload list \<Rightarrow> gpu_event list \<Rightarrow> preemptionState \<Rightarrow> bool" where
  "idle_entries_ok cx cfg ws events st \<longleftrightarrow>
     (\<forall>res. \<forall>e \<in> set (map_get [] (ps_idleByResource st) res). idle_entry_ok cx cfg ws events e)"

lemma fold_append_at_get:
  assumes "distinct (map fst kvs)"
  shows "map_get [] (fold (\<lambda>(k, _). append_at k x) kvs m) r =
     (if has_key kvs r then map_get [] m r @ [x] else map_get [] m r)"
  using assms
proof (induction kvs arbitrary: m)
  case (Cons p kvs)
  obtain k v where p: "p = (k, v)" by fastforce
  have "\<not> has_key kvs k" using Cons.prems p by (auto simp: has_key_iff)
  with Cons p show ?case by (auto simp: map_get_append_at)
qed simp

lemma fold_append_at_set:
  "set (map_get [] (fold (\<lambda>(k, _). append_at k x) kvs m) r) \<subseteq> insert x (set (map_get [] m r))"
proof (induction kvs arbitrary: m)
  case (Cons p kvs)
  obtain k v where p: "p = (k, v)" by fastforce
  have "set (map_get [] (append_at k x m) r) \<subseteq> insert x (set (map_get [] m r))"
    by (auto simp: map_get_append_at)
  with Cons [of "append_at k x m"] p show ?case by auto
qed auto

lemma idle_entries_mono:
  "idle_entries_ok cx cfg ws ev st \<Longrightarrow> set ws \<subseteq> set ws' \<Longrightarrow> set ev \<subseteq> set ev' \<Longrightarrow> idle_entries_ok cx cfg ws' ev' st"
  unfolding idle_entries_ok_def idle_entry_ok_def overdue_def by blast

lemma idle_entries_add:
  assumes "idle_entries_ok cx cfg ws ev st" and "w \<in> set ws" and "overdue cx cfg ev w"
    and "getPreemptionPolicy (cx_env cx) w cfg \<noteq> PreemptionPolicyAlways"
    and "st_idleSince (gw_status w) = Some since"
  shows "idle_entries_ok cx cfg ws ev (add_idle w since st)"
proof -
  let ?e = "\<lparr>we_gw = w, we_gpuCount = gw_resources w, we_idleSince = since\<rparr>"
  have "idle_entry_ok cx cfg ws ev ?e"
    using assms(2-5) by (cases "getPreemptionPolicy (cx_env cx) w cfg") (auto simp: idle_entry_ok_def)
  with assms(1) fold_append_at_set [of ?e "gw_resources w" "ps_idleByResource st"] show ?thesis
    by (fastforce simp: idle_entries_ok_def add_idle_def)
qed

lemma idle_entries_other [simp]:
  "idle_entries_ok cx cfg ws ev (add_pending w st) = idle_entries_ok cx cfg ws ev st"
  "idle_entries_ok cx cfg ws ev (add_in_flight w st) = idle_entries_ok cx cfg ws ev st"
  by (simp_all add: idle_entries_ok_def add_pending_def add_in_flight_def Let_def)

definition always_marked ::
    "GpuCtx \<Rightarrow> KaiwoGpuPreemptionConfig \<Rightarrow> GpuWorkload list \<Rightarrow> gpu_event list \<Rightarrow>
     GpuWorkload \<Rightarrow> (GpuWorkload \<Rightarrow> GpuWorkload) \<Rightarrow> bool" where
  "always_marked cx cfg ws events w change \<longleftrightarrow> w \<in> set ws \<and> overdue cx cfg events w \<and>
     getPreemptionPolicy (cx_env cx) w cfg = PreemptionPolicyAlways \<and> (\<exists>reason. change = always_change reason)"

lemma always_marked_mono:
  "always_marked cx cfg ws ev w c \<Longrightarrow> set ev \<subseteq> set ev' \<Longrightarrow> always_marked cx cfg ws ev' w c"
  unfolding always_marked_def overdue_def by blast

definition classify_post ::
    "GpuCtx \<Rightarrow> KaiwoGpuPreemptionConfig \<Rightarrow> GpuWorkload list \<Rightarrow> gpu_event list \<Rightarrow>
     api_error + preemptionState \<Rightarrow> gpu_event list \<Rightarrow> bool" where
  "classify_post cx cfg ws before r new \<longleftrightarrow>
     marks_ok (always_marked cx cfg ws (before @ new)) new \<and>
     (\<forall>st. r = Inr st \<longrightarrow> idle_entries_ok cx cfg ws (before @ new) st)"

lemma classify_post_after:
  assumes "marks_ok (always_marked cx cfg ws (before @ n1)) n1"
    and "classify_post cx cfg ws (before @ n1) r n2"
  shows "classify_post cx cfg ws before r (n1 @ n2)"
  using assms unfolding classify_post_def
  by (auto intro!: marks_ok_append elim!: marks_ok_mono always_marked_mono)

lemma classify_post_always:
  assumes mark: "marks.always (always_marked cx cfg W b) m"
    and rest: "\<And>b'. set b \<subseteq> set b' \<Longrightarrow> does (classify_post cx cfg W b') k"
  shows "does (classify_post cx cfg W b)
     (do { err \<leftarrow> m; (case err of Some e \<Rightarrow> ret (Inl e) | None \<Rightarrow> do { Eventf w t reason message; k }) })"
proof (rule does_seq [OF mark [unfolded marks.always_def]])
  fix err n1
  assume "marks_ok (always_marked cx cfg W b) n1"
  then have n1: "marks_ok (always_marked cx cfg W (b @ n)) n1" for n
    by (rule marks_ok_mono) (auto elim: always_marked_mono)
  show "does (\<lambda>y n2. classify_post cx cfg W b y (n1 @ n2))
     (case err of Some e \<Rightarrow> ret (Inl e) | None \<Rightarrow> do { Eventf w t reason message; k })"
  proof (cases err)
    case None
    let ?n = "n1 @ [EvRecord w t reason message]"
    have m: "marks_ok (always_marked cx cfg W (b @ ?n)) ?n"
      using n1 by (auto intro!: marks_ok_append marks_ok_single)
    have "does (classify_post cx cfg W (b @ ?n)) k" by (rule rest) auto
    then have "does (\<lambda>y n2. classify_post cx cfg W b y (?n @ n2)) k"
      using classify_post_after [OF m] by (rule does_mono)
    then show ?thesis unfolding None option.case Eventf_def by (intro does_bind does_emit) simp
  qed (use n1 [of n1] in \<open>auto intro!: does_return simp: classify_post_def\<close>)
qed

lemma classify_loop_does:
  "idle_entries_ok cx cfg W before st \<Longrightarrow> set ws \<subseteq> set W \<Longrightarrow>
   does (classify_post cx cfg W before) (classify_loop api cx cfg ws st)"
proof (induction ws arbitrary: st before)
  case Nil
  then show ?case by (auto intro!: does_intros simp: classify_post_def marks_ok_no_write)
next
  case (Cons w ws)
  have IH: "does (classify_post cx cfg W b) (classify_loop api cx cfg ws s)" if "idle_entries_ok cx cfg W b s" for b s
    using Cons.IH [OF that] Cons.prems(2) by simp
  have w: "w \<in> set W" using Cons.prems(2) by simp
  show ?case
  proof (cases "gw_phase w = PhaseIdle \<and> st_idleSince (gw_status w) \<noteq> None")
    case False
    with IH Cons.prems(1) show ?thesis by (auto split: GpuWorkloadPhase.splits)
  next
    case True
    then obtain since where idle: "gw_phase w = PhaseIdle" "st_idleSince (gw_status w) = Some since" by auto
    show ?thesis
      unfolding classify_loop.simps idle GpuWorkloadPhase.case option.case Now_def Let_def
    proof (intro does_bind does_call)
      fix now
      let ?grace = "getGracePeriod (cx_env cx) w cfg"
      let ?b = "before @ [EvNow now]"
      have ok: "idle_entries_ok cx cfg W ?b st" by (rule idle_entries_mono [OF Cons.prems(1)]) auto
      have now: "marks_ok (always_marked cx cfg W ?b) [EvNow now]" by (rule marks_ok_single) simp
      have od: "overdue cx cfg ?b w" if "\<not> now - since < ?grace"
        using that idle by (auto simp: overdue_def)
      have rest: "does (\<lambda>r n2. classify_post cx cfg W before r ([EvNow now] @ n2)) (classify_loop api cx cfg ws s)"
        if "idle_entries_ok cx cfg W ?b s" for s
        using does_mono [OF IH [OF that] classify_post_after [OF now]] .
      have always: "does (\<lambda>r n2. classify_post cx cfg W before r ([EvNow now] @ n2))
         (do { err \<leftarrow> RetryOnConflict (cx_retrySteps cx) (mark_if_idle api w (always_change reason));
               (case err of Some e \<Rightarrow> ret (Inl e)
                | None \<Rightarrow> do { Eventf w EventTypeWarning ''PreemptionStarted'' message; classify_loop api cx cfg ws st }) })"
        if "\<not> now - since < ?grace" and pol: "getPreemptionPolicy (cx_env cx) w cfg = PreemptionPolicyAlways" for reason message
      proof (rule does_mono [OF classify_post_always classify_post_after [OF now]])
        show "marks.always (always_marked cx cfg W ?b)
            (RetryOnConflict (cx_retrySteps cx) (mark_if_idle api w (always_change reason)))"
          by (intro marks_intros) (use od [OF that(1)] pol w in \<open>auto simp: always_marked_def\<close>)
        show "does (classify_post cx cfg W b') (classify_loop api cx cfg ws st)" if "set ?b \<subseteq> set b'" for b'
          by (rule IH, rule idle_entries_mono [OF ok]) (use that in auto)
      qed
      show "does (\<lambda>y n2. classify_post cx cfg W before y ([EvNow now] @ n2))
         (if now - since < ?grace then classify_loop api cx cfg ws st
          else if getPreemptionPolicy (cx_env cx) w cfg = PreemptionPolicyAlways then do {
            err \<leftarrow> RetryOnConflict (cx_retrySteps cx)
               (mark_if_idle api w (always_change (always_reason (cx_env cx) (now - since) ?grace)));
            (case err of Some e \<Rightarrow> ret (Inl e)
             | None \<Rightarrow> do { Eventf w EventTypeWarning ''PreemptionStarted''
                  (always_message (cx_env cx) (now - since) ?grace); classify_loop api cx cfg ws st }) }
          else classify_loop api cx cfg ws (add_idle w since st))"
        by (intro does_if) (use rest ok always idle_entries_add [OF ok w od _ idle(2)] in auto)
    qed
  qed
qed

text \<open>The pending lists and the in-flight counts do not depend on the clock or the server.\<close>

definition waits_for :: "string \<Rightarrow> GpuWorkload \<Rightarrow> bool" where
  "waits_for res w \<longleftrightarrow> gw_phase w = PhasePendingGpu \<and> has_key (gw_resources w) res"

definition freed_for :: "string \<Rightarrow> string \<Rightarrow> GpuWorkload list \<Rightarrow> int" where
  "freed_for name res ws = (\<Sum>w\<leftarrow>filter (\<lambda>w. gw_phase w = PhasePreempting \<and> st_preemptedFor (gw_status w) = name) ws.
     map_get 0 (gw_resources w) res)"

definition counted :: "GpuWorkload list \<Rightarrow> preemptionState \<Rightarrow> preemptionState \<Rightarrow> bool" where
  "counted ws st0 st \<longleftrightarrow>
     (\<forall>res. map_get [] (ps_pendingByResource st) res =
        map_get [] (ps_pendingByResource st0) res @ map pending_entry (filter (waits_for res) ws)) \<and>
     (\<forall>name res. name \<noteq> [] \<longrightarrow> map_get 0 (map_get [] (ps_inFlight st) name) res =
        map_get 0 (map_get [] (ps_inFlight st0) name) res + freed_for name res ws)"

lemma freed_for_simps [simp]:
  "freed_for name res [] = 0"
  "freed_for name res (w # ws) =
     (if gw_phase w = PhasePreempting \<and> st_preemptedFor (gw_status w) = name
      then map_get 0 (gw_resources w) res else 0) + freed_for name res ws"
  by (simp_all add: freed_for_def)

lemma counted_skip:
  "gw_phase w \<noteq> PhasePendingGpu \<Longrightarrow> gw_phase w \<noteq> PhasePreempting \<Longrightarrow>
   counted (w # ws) st0 st \<longleftrightarrow> counted ws st0 st"
  by (simp add: counted_def waits_for_def)

lemma counted_idle: "counted ws (add_idle w since st0) st \<longleftrightarrow> counted ws st0 st"
  by (simp add: counted_def add_idle_def)

lemma counted_pending:
  assumes "gw_phase w = PhasePendingGpu" and "distinct (map fst (gw_resources w))"
    and "counted ws (add_pending w st0) st"
  shows "counted (w # ws) st0 st"
  using assms(1,3) fold_append_at_get [OF assms(2), of "pending_entry w" "ps_pendingByResource st0"]
  by (simp add: counted_def add_pending_def waits_for_def pending_entry_def)

lemma counted_in_flight:
  assumes "gw_phase w = PhasePreempting" and "distinct (map fst (gw_resources w))"
    and "counted ws (add_in_flight w st0) st"
  shows "counted (w # ws) st0 st"
proof -
  have "map_get 0 (map_get [] (ps_inFlight (add_in_flight w st0)) name) res =
      (if st_preemptedFor (gw_status w) = name then map_get 0 (gw_resources w) res else 0) +
      map_get 0 (map_get [] (ps_inFlight st0) name) res" if "name \<noteq> []" for name res
    using that by (simp add: add_in_flight_def Let_def map_get_update add_all_at_get [OF assms(2)])
  moreover have "ps_pendingByResource (add_in_flight w st0) = ps_pendingByResource st0"
    by (simp add: add_in_flight_def Let_def)
  ultimately show ?thesis
    using assms(1,3) by (simp add: counted_def waits_for_def)
qed

lemma does_any: "emits (\<lambda>_. True) m \<Longrightarrow> (\<And>x new. Q x new) \<Longrightarrow> does Q m"
  unfolding emits_def by (erule does_mono)

lemma mark_emits: "emits (\<lambda>_. True) (RetryOnConflict n (mark_if_idle api w change))"
  unfolding mark_if_idle_def client_defs by (intro emits_intros) auto

lemma classify_loop_counts:
  "\<forall>w \<in> set ws. distinct (map fst (gw_resources w)) \<Longrightarrow>
   does (\<lambda>r _. \<forall>st. r = Inr st \<longrightarrow> counted ws st0 st) (classify_loop api cx cfg ws st0)"
proof (induction ws arbitrary: st0)
  case Nil
  then show ?case by (auto intro!: does_return simp: counted_def)
next
  case (Cons w ws)
  have IH: "does (\<lambda>r _. \<forall>st. r = Inr st \<longrightarrow> counted ws s st) (classify_loop api cx cfg ws s)" for s
    using Cons by simp
  have d: "distinct (map fst (gw_resources w))" using Cons.prems by simp
  have skip: "does (\<lambda>r _. \<forall>st. r = Inr st \<longrightarrow> counted (w # ws) st0 st) (classify_loop api cx cfg ws s)"
    if "gw_phase w \<noteq> PhasePendingGpu" "gw_phase w \<noteq> PhasePreempting" "\<And>st. counted ws s st = counted ws st0 st" for s
    by (rule does_mono [OF IH [of s]]) (use that in \<open>auto simp: counted_skip\<close>)
  show ?case
  proof (cases "gw_phase w")
    case PhasePendingGpu
    then show ?thesis using does_mono [OF IH [of "add_pending w st0"]] counted_pending [OF _ d] by auto
  next
    case PhasePreempting
    then show ?thesis using does_mono [OF IH [of "add_in_flight w st0"]] counted_in_flight [OF _ d] by auto
  next
    case PhaseIdle
    have always: "does (\<lambda>r _. \<forall>st. r = Inr st \<longrightarrow> counted (w # ws) st0 st)
       (do { err \<leftarrow> RetryOnConflict n (mark_if_idle api w c);
             (case err of Some e \<Rightarrow> ret (Inl e)
              | None \<Rightarrow> do { Eventf w t reason m; classify_loop api cx cfg ws st0 }) })" for n c t reason m
      unfolding Eventf_def
      by (rule does_bind, rule does_any [OF mark_emits], intro does_intros skip) (auto simp: PhaseIdle)
    have idle: "does (\<lambda>r _. \<forall>st. r = Inr st \<longrightarrow> counted (w # ws) st0 st) (classify_loop api cx cfg ws s)"
      if "s = st0 \<or> (\<exists>since. s = add_idle w since st0)" for s
      by (rule skip) (use that in \<open>auto simp: PhaseIdle counted_idle\<close>)
    show ?thesis
      unfolding classify_loop.simps PhaseIdle GpuWorkloadPhase.case Now_def Let_def
      by (rule does_case_option, rule idle, simp, rule does_bind, rule does_call, intro does_if;
          (rule always | rule idle)) auto
  qed (use skip [of st0] in simp_all)
qed

lemma map_get_map: "map_get [] (map (\<lambda>(r, es). (r, f es)) m) k = (if has_key m k then f (map_get [] m k) else [])"
  by (induction m) auto

lemma sort_state_get:
  "map_get [] (ps_idleByResource (sort_state st)) res = sort_key we_idleSince (map_get [] (ps_idleByResource st) res)"
  "map_get [] (ps_pendingByResource (sort_state st)) res =
     sort_key (\<lambda>e. gw_creationTimestamp (we_gw e)) (map_get [] (ps_pendingByResource st) res)"
  "ps_inFlight (sort_state st) = ps_inFlight st"
  by (auto simp: sort_state_def map_get_map map_get_no_key)

text \<open>What a classification gives, as a relation between its result and the events it caused.\<close>

definition classification_ok ::
    "GpuCtx \<Rightarrow> KaiwoGpuPreemptionConfig \<Rightarrow> GpuWorkload list \<Rightarrow> preemptionState \<Rightarrow> gpu_event list \<Rightarrow> bool" where
  "classification_ok cx cfg ws st events \<longleftrightarrow>
     idle_entries_ok cx cfg ws events st \<and>
     (\<forall>res. sorted (map we_idleSince (map_get [] (ps_idleByResource st) res))) \<and>
     (\<forall>res. map_get [] (ps_pendingByResource st) res =
        sort_key (\<lambda>e. gw_creationTimestamp (we_gw e)) (map pending_entry (filter (waits_for res) ws))) \<and>
     (\<forall>name res. name \<noteq> [] \<longrightarrow> map_get 0 (map_get [] (ps_inFlight st) name) res = freed_for name res ws)"

lemma classifyWorkloads_does:
  assumes "\<forall>w \<in> set ws. distinct (map fst (gw_resources w))"
  shows "does (\<lambda>r new. marks_ok (always_marked cx cfg ws new) new \<and>
           (\<forall>st. r = Inr st \<longrightarrow> classification_ok cx cfg ws st new)) (classifyWorkloads api cx cfg ws)"
proof -
  let ?st0 = "\<lparr>ps_pendingByResource = [], ps_idleByResource = [], ps_inFlight = []\<rparr>"
  have "idle_entries_ok cx cfg ws [] ?st0" by (simp add: idle_entries_ok_def)
  from does_conj [OF classify_loop_does [OF this subset_refl] classify_loop_counts [OF assms, of ?st0]]
  show ?thesis
    unfolding classifyWorkloads_def
  proof (rule does_seq, intro does_return)
    fix r new
    assume *: "classify_post cx cfg ws [] r new \<and> (\<forall>st. r = Inr st \<longrightarrow> counted ws ?st0 st)"
    have "classification_ok cx cfg ws (sort_state st) new" if "r = Inr st" for st
      using * that unfolding classify_post_def counted_def classification_ok_def idle_entries_ok_def sort_state_get
      by simp
    with * show "marks_ok (always_marked cx cfg ws (new @ [])) (new @ []) \<and>
       (\<forall>st. (case r of Inl e \<Rightarrow> Inl e | Inr st \<Rightarrow> Inr (sort_state st)) = Inr st \<longrightarrow>
          classification_ok cx cfg ws st (new @ []))"
      by (auto simp: classify_post_def split: sum.splits)
  qed
qed



end
