(* ===== verification/GpuLease.thy ===== *)
theory GpuLease
  imports GpuClient
begin

text \<open>
  The lease that serialises preemption evaluations across replicas: \<open>tryAcquireLease\<close> and
  \<open>releaseLease\<close> of \<^verbatim>\<open>internal/controller/gpuworkload_controller.go\<close>, as programs of one replica
  and, built from the same decisions, as a step relation of many replicas whose client calls
  interleave. Lemmas: the invariant of the reachable states, from which grants to different
  replicas are a lease duration apart, and a released lease stays locked for everybody.
\<close>

section \<open>Definitions\<close>

definition held_by :: "string \<Rightarrow> Lease \<Rightarrow> bool" where
  "held_by holder lease \<longleftrightarrow> l_holderIdentity lease = Some holder"

text \<open>\<^verbatim>\<open>int32(PreemptionEvalLeaseDur.Seconds())\<close>\<close>

definition lease_seconds :: int where
  "lease_seconds = PreemptionEvalLeaseDur div second"

text \<open>The test that keeps a lease that another replica holds and has renewed recently.\<close>

definition kept_by_other :: "string \<Rightarrow> int \<Rightarrow> Lease \<Rightarrow> bool" where
  "kept_by_other holderID sinceNow lease \<longleftrightarrow>
     (case (l_holderIdentity lease, l_renewTime lease) of
        (Some h, Some renew) \<Rightarrow>
          h \<noteq> holderID \<and>
          sinceNow - renew < (case l_leaseDurationSeconds lease of None \<Rightarrow> 0 | Some s \<Rightarrow> s * second)
      | _ \<Rightarrow> False)"

definition acquired :: "string \<Rightarrow> int \<Rightarrow> Lease \<Rightarrow> Lease" where
  "acquired holderID now lease = lease\<lparr>l_holderIdentity := Some holderID,
     l_leaseDurationSeconds := Some lease_seconds, l_acquireTime := Some now, l_renewTime := Some now\<rparr>"

definition new_lease :: "string \<Rightarrow> int \<Rightarrow> Lease" where
  "new_lease holderID now = \<lparr>l_resourceVersion = 0, l_holderIdentity = Some holderID,
     l_leaseDurationSeconds = Some lease_seconds, l_acquireTime = Some now, l_renewTime = Some now\<rparr>"

definition released :: "Lease \<Rightarrow> Lease" where
  "released lease = lease\<lparr>l_holderIdentity := Some []\<rparr>"

definition tryAcquireLease :: "GpuApi \<Rightarrow> GpuCtx \<Rightarrow> bool gpu_prog" where
  "tryAcquireLease api cx = do {
     let ns = getOperatorNamespace (cx_env cx);
     r \<leftarrow> Get_Lease api ns;
     now \<leftarrow> Now api;
     (case r of
        Inl NotFound \<Rightarrow> do {
          c \<leftarrow> Create_Lease api ns (new_lease (cx_holderID cx) now);
          ret (c = None)
        }
      | Inl _ \<Rightarrow> ret False
      | Inr lease \<Rightarrow> do {
          sinceNow \<leftarrow> (if (case l_holderIdentity lease of None \<Rightarrow> False | Some h \<Rightarrow> h \<noteq> cx_holderID cx)
                          \<and> l_renewTime lease \<noteq> None
                       then Now api else ret now);
          (if kept_by_other (cx_holderID cx) sinceNow lease then ret False
           else do {
             u \<leftarrow> Update_Lease api ns (acquired (cx_holderID cx) now lease);
             ret (u = None)
           })
        })
   }"

definition releaseLease :: "GpuApi \<Rightarrow> GpuCtx \<Rightarrow> unit gpu_prog" where
  "releaseLease api cx = do {
     let ns = getOperatorNamespace (cx_env cx);
     r \<leftarrow> Get_Lease api ns;
     (case r of
        Inl _ \<Rightarrow> ret ()
      | Inr lease \<Rightarrow>
          if \<not> held_by (cx_holderID cx) lease then ret ()
          else do {
            _ \<leftarrow> Update_Lease api ns (released lease);
            ret ()
          })
   }"

section \<open>Many replicas\<close>

text \<open>
  Where a replica stands between two client calls: before the first call, after reading the lease,
  after reading the clock, about to write the lease it decided to take, evaluating, and about to
  give the lease back.
\<close>

datatype pc =
    Ready
  | AfterGet "Lease option"
  | AfterNow "Lease option" int
  | Taking Lease int
  | Holding
  | Releasing Lease

record grant =
  g_holder :: string
  g_clock :: int
  g_renew :: int

text \<open>
  The server keeps the versions of the lease, newest first; a read may return any of them (caches
  lag), a write succeeds only on the newest (optimistic concurrency). \<open>w_grants\<close> records the
  successful acquisitions, newest first, with the time of the write.
\<close>

record world =
  w_versions :: "Lease list"
  w_clock :: int
  w_pc :: "nat \<Rightarrow> pc"
  w_grants :: "grant list"

definition store_version :: "Lease \<Rightarrow> world \<Rightarrow> world" where
  "store_version l w = w\<lparr>w_versions := l\<lparr>l_resourceVersion := length (w_versions w)\<rparr> # w_versions w\<rparr>"

definition goto :: "nat \<Rightarrow> pc \<Rightarrow> world \<Rightarrow> world" where
  "goto r p w = w\<lparr>w_pc := (w_pc w)(r := p)\<rparr>"

definition add_grant :: "string \<Rightarrow> int \<Rightarrow> world \<Rightarrow> world" where
  "add_grant h now w = w\<lparr>w_grants := \<lparr>g_holder = h, g_clock = w_clock w, g_renew = now\<rparr> # w_grants w\<rparr>"

definition is_current :: "Lease \<Rightarrow> world \<Rightarrow> bool" where
  "is_current l w \<longleftrightarrow> w_versions w \<noteq> [] \<and> l_resourceVersion l = l_resourceVersion (hd (w_versions w))"

inductive lease_step :: "(nat \<Rightarrow> string) \<Rightarrow> world \<Rightarrow> world \<Rightarrow> bool" for hid where
  tick: "t > 0 \<Longrightarrow> lease_step hid w (w\<lparr>w_clock := w_clock w + t\<rparr>)"
| get_found: "w_pc w r = Ready \<Longrightarrow> l \<in> set (w_versions w) \<Longrightarrow> lease_step hid w (goto r (AfterGet (Some l)) w)"
| get_missing: "w_pc w r = Ready \<Longrightarrow> lease_step hid w (goto r (AfterGet None) w)"
| read_clock: "w_pc w r = AfterGet l \<Longrightarrow> lease_step hid w (goto r (AfterNow l (w_clock w)) w)"
| create: "w_pc w r = AfterNow None now \<Longrightarrow> w_versions w = [] \<Longrightarrow>
    lease_step hid w (goto r Holding (add_grant (hid r) now (store_version (new_lease (hid r) now) w)))"
| create_fails: "w_pc w r = AfterNow None now \<Longrightarrow> lease_step hid w (goto r Ready w)"
| refuse: "w_pc w r = AfterNow (Some l) now \<Longrightarrow> kept_by_other (hid r) (w_clock w) l \<Longrightarrow>
    lease_step hid w (goto r Ready w)"
| decide: "w_pc w r = AfterNow (Some l) now \<Longrightarrow> \<not> kept_by_other (hid r) (w_clock w) l \<Longrightarrow>
    lease_step hid w (goto r (Taking l now) w)"
| take: "w_pc w r = Taking l now \<Longrightarrow> is_current l w \<Longrightarrow>
    lease_step hid w (goto r Holding (add_grant (hid r) now (store_version (acquired (hid r) now l) w)))"
| take_fails: "w_pc w r = Taking l now \<Longrightarrow> lease_step hid w (goto r Ready w)"
| release_get: "w_pc w r = Holding \<Longrightarrow> l \<in> set (w_versions w) \<Longrightarrow> held_by (hid r) l \<Longrightarrow>
    lease_step hid w (goto r (Releasing l) w)"
| release_skip: "w_pc w r = Holding \<Longrightarrow> lease_step hid w (goto r Ready w)"
| release: "w_pc w r = Releasing l \<Longrightarrow> is_current l w \<Longrightarrow>
    lease_step hid w (goto r Ready (store_version (released l) w))"
| release_fails: "w_pc w r = Releasing l \<Longrightarrow> lease_step hid w (goto r Ready w)"

inductive lease_reachable :: "(nat \<Rightarrow> string) \<Rightarrow> world \<Rightarrow> bool" for hid where
  start: "lease_reachable hid \<lparr>w_versions = [], w_clock = t, w_pc = (\<lambda>_. Ready), w_grants = []\<rparr>"
| step: "lease_reachable hid w \<Longrightarrow> lease_step hid w w' \<Longrightarrow> lease_reachable hid w'"

section \<open>The invariant\<close>

definition renew_of :: "Lease \<Rightarrow> int" where
  "renew_of l = (case l_renewTime l of None \<Rightarrow> 0 | Some t \<Rightarrow> t)"

definition version_ok :: "int \<Rightarrow> Lease \<Rightarrow> bool" where
  "version_ok clock l \<longleftrightarrow> l_holderIdentity l \<noteq> None \<and> l_leaseDurationSeconds l = Some lease_seconds \<and>
     l_renewTime l \<noteq> None \<and> renew_of l \<le> clock"

definition open_for :: "string \<Rightarrow> int \<Rightarrow> Lease \<Rightarrow> bool" where
  "open_for h clock l \<longleftrightarrow> l_holderIdentity l = Some h \<or> renew_of l + PreemptionEvalLeaseDur \<le> clock"

fun pc_ok :: "string \<Rightarrow> Lease set \<Rightarrow> int \<Rightarrow> pc \<Rightarrow> bool" where
  "pc_ok h vs clock (AfterGet (Some l)) = (l \<in> vs)"
| "pc_ok h vs clock (AfterNow (Some l) now) = (l \<in> vs \<and> renew_of l \<le> now \<and> now \<le> clock)"
| "pc_ok h vs clock (AfterNow None now) = (now \<le> clock)"
| "pc_ok h vs clock (Taking l now) = (l \<in> vs \<and> renew_of l \<le> now \<and> now \<le> clock \<and> open_for h clock l)"
| "pc_ok h vs clock (Releasing l) = (l \<in> vs)"
| "pc_ok h vs clock _ = True"

definition versions_ok :: "int \<Rightarrow> Lease list \<Rightarrow> bool" where
  "versions_ok clock vs \<longleftrightarrow> list_all (version_ok clock) vs \<and>
     map l_resourceVersion vs = rev [0..<length vs] \<and>
     sorted_wrt (\<lambda>new old. renew_of old \<le> renew_of new) vs"

text \<open>Grants to different holders are apart: newer one first.\<close>

definition apart :: "grant \<Rightarrow> grant \<Rightarrow> bool" where
  "apart new old \<longleftrightarrow> g_renew old \<le> g_renew new \<and> g_clock old \<le> g_clock new \<and>
     (g_holder old \<noteq> g_holder new \<longrightarrow> g_renew old + PreemptionEvalLeaseDur \<le> g_clock new)"

definition grants_ok :: "int \<Rightarrow> Lease list \<Rightarrow> grant list \<Rightarrow> bool" where
  "grants_ok clock vs gs \<longleftrightarrow> sorted_wrt apart gs \<and>
     (case (vs, gs) of
        ([], []) \<Rightarrow> True
      | (v # _, g # _) \<Rightarrow> renew_of v = g_renew g \<and> g_clock g \<le> clock \<and>
          (l_holderIdentity v = Some (g_holder g) \<or> l_holderIdentity v = Some [])
      | _ \<Rightarrow> False)"

definition world_ok :: "(nat \<Rightarrow> string) \<Rightarrow> world \<Rightarrow> bool" where
  "world_ok hid w \<longleftrightarrow> versions_ok (w_clock w) (w_versions w) \<and>
     grants_ok (w_clock w) (w_versions w) (w_grants w) \<and>
     (\<forall>r. pc_ok (hid r) (set (w_versions w)) (w_clock w) (w_pc w r))"

lemmas world_upd_defs = goto_def store_version_def add_grant_def

lemma second_pos: "0 < second" by (simp add: second_def)

lemma lease_seconds_duration: "lease_seconds * second = PreemptionEvalLeaseDur"
  by (simp add: lease_seconds_def PreemptionEvalLeaseDur_def second_def)

lemma kept_by_other_iff:
  "version_ok clock l \<Longrightarrow> kept_by_other h clock l \<longleftrightarrow> \<not> open_for h clock l"
  by (auto simp: version_ok_def kept_by_other_def open_for_def renew_of_def lease_seconds_duration
      split: option.splits)

lemma pc_ok_mono:
  "pc_ok h vs c p \<Longrightarrow> vs \<subseteq> vs' \<Longrightarrow> c \<le> c' \<Longrightarrow> pc_ok h vs' c' p"
  by (cases "(h, vs, c, p)" rule: pc_ok.cases) (auto simp: open_for_def)

lemma current_version:
  assumes "versions_ok c vs" and "l \<in> set vs" and "vs \<noteq> []" and "l_resourceVersion l = l_resourceVersion (hd vs)"
  shows "l = hd vs"
proof -
  have "distinct (map l_resourceVersion vs)" using assms(1) by (simp add: versions_ok_def)
  then have "inj_on l_resourceVersion (set vs)" by (simp add: distinct_map)
  with assms show ?thesis by (auto dest!: inj_onD)
qed

lemma versions_ok_Cons:
  assumes "versions_ok c vs" and "version_ok c l" and "\<forall>v \<in> set vs. renew_of v \<le> renew_of l"
  shows "versions_ok c (l\<lparr>l_resourceVersion := length vs\<rparr> # vs)"
  using assms by (simp add: versions_ok_def version_ok_def renew_of_def)

lemma versions_hd_newest:
  assumes "versions_ok c vs" and "v \<in> set vs"
  shows "renew_of v \<le> renew_of (hd vs)"
  using assms by (cases vs) (auto simp: versions_ok_def)

lemma world_ok_goto:
  "world_ok hid w \<Longrightarrow> pc_ok (hid r) (set (w_versions w)) (w_clock w) p \<Longrightarrow> world_ok hid (goto r p w)"
  by (simp add: world_ok_def goto_def)

lemma world_ok_tick:
  assumes "world_ok hid w" and "t > 0"
  shows "world_ok hid (w\<lparr>w_clock := w_clock w + t\<rparr>)"
proof -
  have "version_ok (w_clock w) v \<Longrightarrow> version_ok (w_clock w + t) v" for v
    using assms(2) by (simp add: version_ok_def)
  with assms show ?thesis
    by (auto simp: world_ok_def versions_ok_def grants_ok_def list_all_iff
        split: list.splits intro: pc_ok_mono [of _ "set (w_versions w)" "w_clock w"])
qed

text \<open>The common part of the three writes: a new version, and a grant when the lease is taken.\<close>

lemma world_ok_store:
  assumes ok: "world_ok hid w" and l: "version_ok (w_clock w) l"
    and newest: "\<forall>v \<in> set (w_versions w). renew_of v \<le> renew_of l"
    and gs: "grants_ok (w_clock w) (l\<lparr>l_resourceVersion := length (w_versions w)\<rparr> # w_versions w) gs"
    and p: "\<And>vs. pc_ok (hid r) vs (w_clock w) p"
  shows "world_ok hid (goto r p (w\<lparr>w_versions := l\<lparr>l_resourceVersion := length (w_versions w)\<rparr> # w_versions w,
           w_grants := gs\<rparr>))"
  using versions_ok_Cons [of "w_clock w" "w_versions w" l] ok l newest gs p
  by (auto simp: world_ok_def goto_def intro: pc_ok_mono)

lemma grants_ok_take:
  assumes gs: "grants_ok clock vs gs" and ne: "vs \<noteq> []" and h: "h \<noteq> []"
    and opn: "open_for h clock (hd vs)" and now: "renew_of (hd vs) \<le> now" "now \<le> clock"
    and v: "renew_of v = now" "l_holderIdentity v = Some h"
  shows "grants_ok clock (v # vs) (\<lparr>g_holder = h, g_clock = clock, g_renew = now\<rparr> # gs)"
proof -
  obtain cur vs' where vs: "vs = cur # vs'" using ne by (cases vs) auto
  then obtain g gs' where g: "gs = g # gs'" "renew_of cur = g_renew g" "g_clock g \<le> clock"
      "l_holderIdentity cur = Some (g_holder g) \<or> l_holderIdentity cur = Some []"
    using gs by (auto simp: grants_ok_def split: list.splits)
  let ?n = "\<lparr>g_holder = h, g_clock = clock, g_renew = now\<rparr>"
  have new: "apart ?n g" using opn now g vs h by (auto simp: apart_def open_for_def)
  have "apart ?n old" if "old \<in> set gs'" for old
  proof -
    have "apart g old" using gs g(1) that by (auto simp: grants_ok_def)
    with opn now g vs h show ?thesis by (auto simp: apart_def open_for_def)
  qed
  with new show ?thesis using gs g v by (auto simp: grants_ok_def vs)
qed

lemma version_ok_acquired: "now \<le> c \<Longrightarrow> version_ok c (acquired h now l) \<and> renew_of (acquired h now l) = now"
  by (simp add: version_ok_def acquired_def renew_of_def)

lemma version_ok_released: "version_ok c l \<Longrightarrow> version_ok c (released l) \<and> renew_of (released l) = renew_of l"
  by (simp add: version_ok_def released_def renew_of_def)

lemma world_ok_create:
  assumes ok: "world_ok hid w" and pc: "w_pc w r = AfterNow None now" and empty: "w_versions w = []"
  shows "world_ok hid (goto r Holding (add_grant (hid r) now (store_version (new_lease (hid r) now) w)))"
proof -
  have now: "now \<le> w_clock w" using ok pc unfolding world_ok_def by (metis pc_ok.simps(3))
  have "w_grants w = []" using ok empty by (auto simp: world_ok_def grants_ok_def split: list.splits)
  then show ?thesis
    using world_ok_store [OF ok, of "new_lease (hid r) now"
        "[\<lparr>g_holder = hid r, g_clock = w_clock w, g_renew = now\<rparr>]" r Holding] now empty
    by (simp add: store_version_def add_grant_def version_ok_def new_lease_def renew_of_def grants_ok_def)
qed

lemma world_ok_take:
  assumes ok: "world_ok hid w" and hid: "hid r \<noteq> []" and pc: "w_pc w r = Taking l now" and cur: "is_current l w"
  shows "world_ok hid (goto r Holding (add_grant (hid r) now (store_version (acquired (hid r) now l) w)))"
proof -
  have ver: "versions_ok (w_clock w) (w_versions w)" and gs: "grants_ok (w_clock w) (w_versions w) (w_grants w)"
    and t: "l \<in> set (w_versions w)" "renew_of l \<le> now" "now \<le> w_clock w" "open_for (hid r) (w_clock w) l"
    using ok pc unfolding world_ok_def by (metis pc_ok.simps(4))+
  have l: "l = hd (w_versions w)" using current_version [OF ver t(1)] cur by (auto simp: is_current_def)
  have ne: "w_versions w \<noteq> []" using cur by (simp add: is_current_def)
  let ?a = "acquired (hid r) now l"
  let ?v = "?a\<lparr>l_resourceVersion := length (w_versions w)\<rparr>"
  have "grants_ok (w_clock w) (?v # w_versions w)
      (\<lparr>g_holder = hid r, g_clock = w_clock w, g_renew = now\<rparr> # w_grants w)"
    using grants_ok_take [OF gs ne hid, of now ?v] t l by (simp add: acquired_def renew_of_def)
  moreover have "\<forall>v \<in> set (w_versions w). renew_of v \<le> renew_of ?a"
    using versions_hd_newest [OF ver] t(2) l version_ok_acquired [OF t(3)] by (fastforce intro: order_trans)
  ultimately show ?thesis
    using world_ok_store [OF ok, of ?a _ r Holding] version_ok_acquired [OF t(3)]
    by (simp add: store_version_def add_grant_def)
qed

lemma world_ok_release:
  assumes ok: "world_ok hid w" and pc: "w_pc w r = Releasing l" and cur: "is_current l w"
  shows "world_ok hid (goto r Ready (store_version (released l) w))"
proof -
  have ver: "versions_ok (w_clock w) (w_versions w)" and gs: "grants_ok (w_clock w) (w_versions w) (w_grants w)"
    and t: "l \<in> set (w_versions w)"
    using ok pc unfolding world_ok_def by (metis pc_ok.simps(5))+
  have l: "l = hd (w_versions w)" using current_version [OF ver t] cur by (auto simp: is_current_def)
  have lv: "version_ok (w_clock w) l" using ver t by (simp add: versions_ok_def list_all_iff)
  let ?v = "released l\<lparr>l_resourceVersion := length (w_versions w)\<rparr>"
  have "grants_ok (w_clock w) (?v # w_versions w) (w_grants w)"
    using gs l cur by (auto simp: grants_ok_def is_current_def released_def renew_of_def split: list.splits)
  moreover have "\<forall>v \<in> set (w_versions w). renew_of v \<le> renew_of (released l)"
    using versions_hd_newest [OF ver] l version_ok_released [OF lv] by simp
  ultimately show ?thesis
    using world_ok_store [OF ok, of "released l" "w_grants w" r Ready] version_ok_released [OF lv]
    by (simp add: store_version_def)
qed

lemma version_in_world: "world_ok hid w \<Longrightarrow> l \<in> set (w_versions w) \<Longrightarrow> version_ok (w_clock w) l"
  by (auto simp: world_ok_def versions_ok_def list_all_iff)

lemma world_ok_step:
  assumes "lease_step hid w w'" and "world_ok hid w" and "\<forall>r. hid r \<noteq> []"
  shows "world_ok hid w'"
  using assms
proof (induction rule: lease_step.induct)
  case (read_clock w r l)
  then have "pc_ok (hid r) (set (w_versions w)) (w_clock w) (AfterGet l)" unfolding world_ok_def by metis
  with read_clock version_in_world [of hid w] show ?case
    by (cases l) (auto intro!: world_ok_goto simp: version_ok_def)
next
  case (decide w r l now)
  then have "pc_ok (hid r) (set (w_versions w)) (w_clock w) (AfterNow (Some l) now)" unfolding world_ok_def by metis
  with decide version_in_world [of hid w l] kept_by_other_iff [of "w_clock w" l "hid r"] show ?case
    by (auto intro!: world_ok_goto)
qed (auto intro: world_ok_tick world_ok_goto world_ok_create world_ok_take world_ok_release)

lemma world_ok_reachable: "lease_reachable hid w \<Longrightarrow> \<forall>r. hid r \<noteq> [] \<Longrightarrow> world_ok hid w"
proof (induction rule: lease_reachable.induct)
  case (start t)
  then show ?case by (simp add: world_ok_def versions_ok_def grants_ok_def)
qed (rule world_ok_step)


text \<open>A run of two replicas: the first creates the lease, the second takes it over 31 seconds later.\<close>

definition ex_hid :: "nat \<Rightarrow> string" where "ex_hid r = (if r = 0 then ''a'' else ''b'')"
definition ex_lease :: Lease where "ex_lease = (new_lease ''a'' 0)\<lparr>l_resourceVersion := 0\<rparr>"
definition ex_w0 :: world where "ex_w0 = \<lparr>w_versions = [], w_clock = 0, w_pc = (\<lambda>_. Ready), w_grants = []\<rparr>"
definition ex_w1 :: world where "ex_w1 = goto 0 (AfterNow None 0) (goto 0 (AfterGet None) ex_w0)"
definition ex_w2 :: world where
  "ex_w2 = goto 0 Holding (add_grant ''a'' 0 (store_version (new_lease ''a'' 0) ex_w1))"
definition ex_w3 :: world where "ex_w3 = ex_w2\<lparr>w_clock := w_clock ex_w2 + 31 * second\<rparr>"
definition ex_w4 :: world where "ex_w4 = goto 1 (AfterGet (Some ex_lease)) ex_w3"
definition ex_w5 :: world where "ex_w5 = goto 1 (AfterNow (Some ex_lease) (31 * second)) ex_w4"
definition ex_w6 :: world where "ex_w6 = goto 1 (Taking ex_lease (31 * second)) ex_w5"
definition ex_w7 :: world where
  "ex_w7 = goto 1 Holding (add_grant ''b'' (31 * second) (store_version (acquired ''b'' (31 * second) ex_lease) ex_w6))"

lemmas ex_w_defs = ex_hid_def ex_lease_def ex_w0_def ex_w1_def ex_w2_def ex_w3_def ex_w4_def ex_w5_def
  ex_w6_def ex_w7_def world_upd_defs new_lease_def acquired_def

lemma ex_w2_reachable: "lease_reachable ex_hid ex_w2"
proof -
  have "lease_reachable ex_hid ex_w0" unfolding ex_w0_def by (rule lease_reachable.start)
  moreover have "lease_step ex_hid ex_w0 (goto 0 (AfterGet None) ex_w0)"
    by (rule lease_step.get_missing) (simp add: ex_w0_def)
  moreover have "lease_step ex_hid (goto 0 (AfterGet None) ex_w0) ex_w1"
    using lease_step.read_clock [of "goto 0 (AfterGet None) ex_w0" 0 None ex_hid] by (simp add: ex_w_defs)
  moreover have "lease_step ex_hid ex_w1 ex_w2"
    using lease_step.create [of ex_w1 0 0 ex_hid] by (simp add: ex_w_defs)
  ultimately show ?thesis by (meson lease_reachable.step)
qed

lemma ex_w7_reachable: "lease_reachable ex_hid ex_w7"
proof -
  have "lease_step ex_hid ex_w2 ex_w3"
    unfolding ex_w3_def by (rule lease_step.tick) (simp add: second_def)
  moreover have "lease_step ex_hid ex_w3 ex_w4"
    unfolding ex_w4_def by (rule lease_step.get_found) (simp_all add: ex_w_defs)
  moreover have "lease_step ex_hid ex_w4 ex_w5"
    using lease_step.read_clock [of ex_w4 1 "Some ex_lease" ex_hid] by (simp add: ex_w_defs)
  moreover have "lease_step ex_hid ex_w5 ex_w6"
    unfolding ex_w6_def by (rule lease_step.decide [where now = "31 * second"])
      (simp_all add: ex_w_defs kept_by_other_def lease_seconds_def PreemptionEvalLeaseDur_def second_def)
  moreover have "lease_step ex_hid ex_w6 ex_w7"
    using lease_step.take [of ex_w6 1 ex_lease "31 * second" ex_hid] by (simp add: ex_w_defs is_current_def)
  ultimately show ?thesis using ex_w2_reachable by (meson lease_reachable.step)
qed


inductive_cases lease_stepE: "lease_step hid w w'"

text \<open>
  Releasing the lease does not free it. A released lease keeps its renew time, and its empty
  holder differs from every replica's identity, so until thirty seconds after that renew time no
  replica, the one that released it included, is granted the lease.
\<close>

theorem released_lease_locks_out:
  assumes "lease_reachable hid w" and "\<forall>r. hid r \<noteq> []"
    and "w_versions w = v # vs" and "l_holderIdentity v = Some []"
    and "lease_step hid w w'" and "w_clock w < renew_of v + 30 * second"
  shows "w_grants w' = w_grants w"
proof -
  have ok: "world_ok hid w" by (rule world_ok_reachable [OF assms(1,2)])
  have no: "\<not> (w_pc w r = Taking l now \<and> is_current l w)" for r l now
  proof
    assume *: "w_pc w r = Taking l now \<and> is_current l w"
    then have t: "l \<in> set (w_versions w)" "open_for (hid r) (w_clock w) l"
      using ok unfolding world_ok_def by (metis pc_ok.simps(4))+
    moreover have "l = v" using current_version [of "w_clock w", OF _ t(1)] ok * assms(3)
      by (auto simp: world_ok_def is_current_def)
    moreover have "hid r \<noteq> []" using assms(2) by blast
    ultimately show False
      using assms(4,6) by (auto simp: open_for_def PreemptionEvalLeaseDur_def)
  qed
  from assms(5) show ?thesis
    by (cases rule: lease_stepE) (use no assms(3) in \<open>auto simp: world_upd_defs\<close>)
qed

definition ex_w8 :: world where
  "ex_w8 = goto 0 Ready (store_version (released ex_lease) (goto 0 (Releasing ex_lease) ex_w2))"

lemma ex_w8_reachable: "lease_reachable ex_hid ex_w8"
proof -
  have "lease_step ex_hid ex_w2 (goto 0 (Releasing ex_lease) ex_w2)"
    by (rule lease_step.release_get) (simp_all add: ex_w_defs held_by_def)
  moreover have "lease_step ex_hid (goto 0 (Releasing ex_lease) ex_w2) ex_w8"
    unfolding ex_w8_def by (rule lease_step.release) (simp_all add: ex_w_defs is_current_def)
  ultimately show ?thesis using ex_w2_reachable by (meson lease_reachable.step)
qed

theorem released_lease_locks_out_witness:
  "w_grants (goto 0 (AfterGet (Some (hd (w_versions ex_w8)))) ex_w8) = w_grants ex_w8"
proof (rule released_lease_locks_out [OF ex_w8_reachable, where v = "hd (w_versions ex_w8)" and vs = "tl (w_versions ex_w8)"])
  show "lease_step ex_hid ex_w8 (goto 0 (AfterGet (Some (hd (w_versions ex_w8)))) ex_w8)"
    by (rule lease_step.get_found) (simp_all add: ex_w_defs ex_w8_def)
qed (simp_all add: ex_w_defs ex_w8_def released_def renew_of_def second_def)

section \<open>The programs take these steps\<close>

text \<open>
  The calls of one \<open>tryAcquireLease\<close> are those of the step relation, in its order and under its
  conditions: read, clock, then create, refuse or write what \<open>acquired\<close> gives.
\<close>

inductive acquire_trace :: "string \<Rightarrow> string \<Rightarrow> bool \<Rightarrow> gpu_event list \<Rightarrow> bool" for ns h where
  created: "acquire_trace ns h (c = None)
     [EvGetLease ns (Inl NotFound), EvNow now, EvCreateLease ns (new_lease h now) c]"
| failed: "e \<noteq> NotFound \<Longrightarrow> acquire_trace ns h False [EvGetLease ns (Inl e), EvNow now]"
| kept: "kept_by_other h now l \<Longrightarrow> acquire_trace ns h False [EvGetLease ns (Inr l), EvNow now]"
| kept_later: "kept_by_other h s l \<Longrightarrow> acquire_trace ns h False [EvGetLease ns (Inr l), EvNow now, EvNow s]"
| taken: "\<not> kept_by_other h now l \<Longrightarrow> acquire_trace ns h (u = None)
     [EvGetLease ns (Inr l), EvNow now, EvUpdateLease ns (acquired h now l) u]"
| taken_later: "\<not> kept_by_other h s l \<Longrightarrow> acquire_trace ns h (u = None)
     [EvGetLease ns (Inr l), EvNow now, EvNow s, EvUpdateLease ns (acquired h now l) u]"

lemma tryAcquireLease_trace:
  "does (acquire_trace (getOperatorNamespace (cx_env cx)) (cx_holderID cx)) (tryAcquireLease api cx)"
  unfolding tryAcquireLease_def client_defs Let_def
  by (intro does_intros; simp split: api_error.split)
     (auto intro!: does_intros intro: acquire_trace.intros)

lemma releaseLease_trace:
  "does (\<lambda>_ new. \<forall>l u. EvUpdateLease ns l u \<in> set new \<longrightarrow>
      (\<exists>l0. l = released l0 \<and> held_by (cx_holderID cx) l0 \<and> EvGetLease ns (Inr l0) \<in> set new))
     (releaseLease api cx)"
  unfolding releaseLease_def client_defs Let_def
  by (intro does_intros) auto

end
