(* ===== verification/GpuReconcile.thy ===== *)
theory GpuReconcile
  imports GpuPhase GpuResolver GpuPreemption GpuLease
begin

text \<open>
  The handlers of \<^verbatim>\<open>internal/controller/gpuworkload_controller.go\<close>: \<open>Reconcile\<close> with
  \<open>handlePreempting\<close>, \<open>handleTerminal\<close>, \<open>ownerExists\<close>, \<open>syncOwnedPods\<close> and the preemption
  evaluation, and the watch handlers that create GpuWorkloads (\<open>podToGpuWorkload\<close>,
  \<open>workloadToGpuWorkload\<close>, \<open>upsertGpuWorkloadForPreemption\<close>). A handler is a program that calls
  the server; its result is the request for requeueing, or an error.
\<close>

section \<open>Helpers\<close>

definition IgnoreNotFound :: "api_error \<Rightarrow> api_error + requeue" where
  "IgnoreNotFound e = (if e = NotFound then Inr NoRequeue else Inl e)"

text \<open>The common tail of a status update: a conflict asks for a requeue, another error is returned.\<close>

definition conflict_requeue :: "api_error \<Rightarrow> api_error + requeue" where
  "conflict_requeue e = (if e = Conflict then Inr RequeueNow else Inl e)"

definition deleteWorkload :: "GpuApi \<Rightarrow> GpuCtx \<Rightarrow> GpuWorkload \<Rightarrow> api_error option gpu_prog" where
  "deleteWorkload api cx gw =
     Delete_Object api (gvkFromAPIVersionKind cx (ref_apiVersion (gw_ref gw)) (ref_kind (gw_ref gw)))
       (gw_namespace gw) (ref_name (gw_ref gw))"

definition ownerExists :: "GpuApi \<Rightarrow> GpuCtx \<Rightarrow> GpuWorkload \<Rightarrow> (api_error + bool) gpu_prog" where
  "ownerExists api cx gw = do {
     r \<leftarrow> Get_Object api (gvkFromAPIVersionKind cx (ref_apiVersion (gw_ref gw)) (ref_kind (gw_ref gw)))
            (gw_namespace gw) (ref_name (gw_ref gw));
     ret (case r of
            Inl e \<Rightarrow> if e = NotFound then Inr False else Inl e
          | Inr obj \<Rightarrow> Inr (ob_uid obj = ref_uid (gw_ref gw)))
   }"

definition ref_string :: "GpuWorkload \<Rightarrow> string" where
  "ref_string gw = ref_kind (gw_ref gw) @ ''/'' @ ref_name (gw_ref gw)"

definition emitPhaseTransitionEvent :: "GoEnv \<Rightarrow> GpuWorkload \<Rightarrow> GpuWorkloadPhase \<Rightarrow> unit gpu_prog" where
  "emitPhaseTransitionEvent env gw newPhase =
     (case newPhase of
        PhaseIdle \<Rightarrow> Eventf gw EventTypeNormal ''WorkloadIdle''
          (case st_aggregatedUtilization (gw_status gw) of
             Some u \<Rightarrow> ''GPU utilization dropped to '' @ formatFloat1 env u @ ''%, workload is now considered idle''
           | None \<Rightarrow> ''GPU utilization is below threshold, workload is now considered idle'')
      | PhaseActive \<Rightarrow> Eventf gw EventTypeNormal ''WorkloadActive''
          (case st_aggregatedUtilization (gw_status gw) of
             Some u \<Rightarrow> ''GPU utilization is '' @ formatFloat1 env u @ ''%, workload is actively using GPUs''
           | None \<Rightarrow> ''Workload is actively using GPUs'')
      | PhasePendingGpu \<Rightarrow> Eventf gw EventTypeWarning ''WorkloadPendingGpu''
          ''Pods cannot be scheduled due to insufficient GPU resources''
      | PhasePendingOther \<Rightarrow> Eventf gw EventTypeNormal ''WorkloadPending''
          ''Waiting for pods to become ready (image pull, volume binding, init containers, etc.)''
      | PhasePreempting \<Rightarrow> Eventf gw EventTypeWarning ''PreemptionStarted''
          (''Preemption initiated: '' @ st_preemptionReason (gw_status gw))
      | PhasePreempted \<Rightarrow> Eventf gw EventTypeWarning ''WorkloadPreempted''
          (''Workload '' @ ref_string gw @ '' was preempted'' @
             (if st_preemptedFor (gw_status gw) \<noteq> []
              then '' to free GPUs for '' @ st_preemptedFor (gw_status gw) else []))
      | PhaseDeleted \<Rightarrow> Eventf gw EventTypeNormal ''WorkloadDeleted''
          (''Underlying '' @ ref_string gw @ '' no longer exists'')
      | PhaseUnset \<Rightarrow> ret ())"

section \<open>Preemption\<close>

text \<open>The deferred \<open>releaseLease\<close> runs after the body, whatever it returns.\<close>

definition tryRunPreemptionEvaluation ::
    "GpuApi \<Rightarrow> GpuCtx \<Rightarrow> KaiwoGpuPreemptionConfig \<Rightarrow> api_error option gpu_prog" where
  "tryRunPreemptionEvaluation api cx cfg = do {
     got \<leftarrow> tryAcquireLease api cx;
     (if \<not> got then ret None
      else do {
        err \<leftarrow> (do {
          l \<leftarrow> List_GpuWorkloads api;
          (case l of
             Inl e \<Rightarrow> ret (Some e)
           | Inr allWorkloads \<Rightarrow> do {
               s \<leftarrow> classifyWorkloads api cx cfg allWorkloads;
               (case s of
                  Inl e \<Rightarrow> ret (Some e)
                | Inr st \<Rightarrow> matchAndMarkVictims api cx st)
             })
        });
        releaseLease api cx;
        ret err
      })
   }"

definition revert_to_idle :: "GpuWorkload \<Rightarrow> GpuWorkload" where
  "revert_to_idle gw = gw\<lparr>gw_status := (gw_status gw)\<lparr>st_phase := PhaseIdle, st_preemptedFor := [],
     st_preemptionReason := []\<rparr>\<rparr>"

definition preempted_at :: "int \<Rightarrow> GpuWorkload \<Rightarrow> GpuWorkload" where
  "preempted_at now gw = gw\<lparr>gw_status := (gw_status gw)\<lparr>st_phase := PhasePreempted,
     st_preemptedAt := Some now, st_finishedAt := Some now, st_idleSince := None,
     st_aggregatedUtilization := None, st_trackedPods := []\<rparr>\<rparr>"

definition handlePreempting :: "GpuApi \<Rightarrow> GpuCtx \<Rightarrow> GpuWorkload \<Rightarrow> (api_error + requeue) gpu_prog" where
  "handlePreempting api cx gw = do {
     d \<leftarrow> deleteWorkload api cx gw;
     (if d = Some Forbidden then do {
        Eventf gw EventTypeWarning ''PreemptionFailed''
          (''Cannot delete '' @ ref_string gw @ '': the operator lacks RBAC delete permission for ''
             @ ref_kind (gw_ref gw) @ '' resources'');
        u \<leftarrow> Status_Update api (revert_to_idle gw);
        ret (case u of Inl e \<Rightarrow> conflict_requeue e | Inr _ \<Rightarrow> Inr (RequeueAfter IdleRequeueInterval))
      }
      else if d \<noteq> None \<and> d \<noteq> Some NotFound then ret (Inl (the d))
      else do {
        now \<leftarrow> Now api;
        let gw' = preempted_at now gw;
        Eventf gw' EventTypeWarning ''WorkloadPreempted''
          (ref_string gw' @ '' was deleted to free GPU resources; reason: '' @ st_preemptionReason (gw_status gw'));
        u \<leftarrow> Status_Update api gw';
        ret (case u of Inl e \<Rightarrow> conflict_requeue e | Inr _ \<Rightarrow> Inr (RequeueAfter IdleRequeueInterval))
      })
   }"

definition handleTerminal ::
    "GpuApi \<Rightarrow> GpuCtx \<Rightarrow> GpuWorkload \<Rightarrow> KaiwoGpuPreemptionConfig \<Rightarrow> (api_error + requeue) gpu_prog" where
  "handleTerminal api cx gw cfg =
     (let ttl = getTTL (cx_env cx) gw cfg
      in if ttl = 0 then ret (Inr NoRequeue)
         else (case st_finishedAt (gw_status gw) of
                 None \<Rightarrow> ret (Inr NoRequeue)
               | Some finishedAt \<Rightarrow> do {
                   now \<leftarrow> Now api;
                   let elapsed = now - finishedAt;
                   (if elapsed \<ge> ttl then do {
                      d \<leftarrow> Delete_GpuWorkload api gw;
                      ret (case d of Some e \<Rightarrow> IgnoreNotFound e | None \<Rightarrow> Inr NoRequeue)
                    }
                    else ret (Inr (RequeueAfter (ttl - elapsed))))
                 }))"

section \<open>Pods\<close>

fun filter_owned :: "GpuApi \<Rightarrow> GpuCtx \<Rightarrow> GpuWorkload \<Rightarrow> Pod list \<Rightarrow> Pod list gpu_prog" where
  "filter_owned api cx gw [] = ret []"
| "filter_owned api cx gw (p # ps) = do {
     b \<leftarrow> isPodOwnedByWorkload api cx p gw;
     rest \<leftarrow> filter_owned api cx gw ps;
     ret (if b then p # rest else rest)
   }"

text \<open>
  The result of \<open>syncOwnedPods\<close>: an error, a request to requeue, or the owned pods with the workload
  as it is afterwards. When the workload is gone on the second read there are no pods and no error.
\<close>

datatype sync_result = SyncError api_error | SyncRequeue | SyncPods "Pod list" GpuWorkload

definition syncOwnedPods :: "GpuApi \<Rightarrow> GpuCtx \<Rightarrow> string \<Rightarrow> string \<Rightarrow> GpuWorkload \<Rightarrow> sync_result gpu_prog" where
  "syncOwnedPods api cx reqNs reqName gw = do {
     l \<leftarrow> List_Pods api (gw_namespace gw);
     (case l of
        Inl e \<Rightarrow> ret (SyncError e)
      | Inr items \<Rightarrow> do {
          ownedPods \<leftarrow> filter_owned api cx gw items;
          (let totalGpu = computeTotalGpuResources ownedPods
           in if ownedPods = [] \<or> gpuResourcesEqual (gw_resources gw) totalGpu
              then ret (SyncPods ownedPods gw)
              else do {
                u \<leftarrow> Update_GpuWorkload api (gw\<lparr>gw_spec := (gw_spec gw)\<lparr>sp_gpuResources := totalGpu\<rparr>\<rparr>);
                (case u of
                   Inl e \<Rightarrow> ret (if e = Conflict then SyncRequeue else SyncError e)
                 | Inr updated \<Rightarrow> do {
                     g \<leftarrow> Get_GpuWorkload api reqNs reqName;
                     ret (case g of
                            Inl e \<Rightarrow> if e = NotFound then SyncPods [] updated else SyncError e
                          | Inr fresh \<Rightarrow> SyncPods ownedPods fresh)
                   })
              })
        })
   }"

definition index_by_owner :: "KueueWorkload list \<Rightarrow> KueueWorkload gomap" where
  "index_by_owner wls = fold (\<lambda>wl m. fold (\<lambda>owner m. AList.update (o_uid owner) wl m)
     (wl_ownerReferences wl) m) wls []"

definition index_by_pod :: "KueueWorkload list \<Rightarrow> KueueWorkload gomap" where
  "index_by_pod wls = fold (\<lambda>wl m. fold (\<lambda>owner m. if o_kind owner = ''Pod'' then AList.update (o_uid owner) wl m else m)
     (wl_ownerReferences wl) m) wls []"

definition existing_metrics :: "TrackedPod list \<Rightarrow> GpuMetric list gomap" where
  "existing_metrics tps = fold (\<lambda>tp m. if tp_gpuMetrics tp \<noteq> [] then AList.update (tp_podName tp) (tp_gpuMetrics tp) m else m) tps []"

definition track_pods :: "TrackedPod list \<Rightarrow> Pod list \<Rightarrow> TrackedPod list" where
  "track_pods old ownedPods = sort_key tp_podName
     (map (\<lambda>p. \<lparr>tp_podName = pod_name p, tp_gpuMetrics = map_get [] (existing_metrics old) (pod_name p)\<rparr>) ownedPods)"

section \<open>Reconcile\<close>

definition deleted_at :: "int \<Rightarrow> GpuWorkload \<Rightarrow> GpuWorkload" where
  "deleted_at now gw = gw\<lparr>gw_status := (gw_status gw)\<lparr>st_phase := PhaseDeleted, st_finishedAt := Some now,
     st_idleSince := None, st_aggregatedUtilization := None, st_trackedPods := []\<rparr>\<rparr>"

text \<open>From the listed pods to the status that is written: tracked pods, phase and \<open>idleSince\<close>.\<close>

definition set_idle_since :: "GpuApi \<Rightarrow> GpuWorkloadPhase \<Rightarrow> GpuWorkload \<Rightarrow> GpuWorkload gpu_prog" where
  "set_idle_since api phase gw =
     (if phase = PhaseIdle then
        (case st_idleSince (gw_status gw) of
           Some _ \<Rightarrow> ret gw
         | None \<Rightarrow> do {
             now \<leftarrow> Now api;
             ret (gw\<lparr>gw_status := (gw_status gw)\<lparr>st_idleSince := Some now\<rparr>\<rparr>)
           })
      else ret (gw\<lparr>gw_status := (gw_status gw)\<lparr>st_idleSince := None\<rparr>\<rparr>))"

definition reconcile_pods ::
    "GpuApi \<Rightarrow> GpuCtx \<Rightarrow> KaiwoGpuPreemptionConfig \<Rightarrow> GpuWorkload \<Rightarrow> Pod list \<Rightarrow> KueueWorkload list \<Rightarrow>
     (api_error + requeue) gpu_prog" where
  "reconcile_pods api cx cfg gw ownedPods wls = do {
     let gw1 = gw\<lparr>gw_status := (gw_status gw)\<lparr>st_trackedPods :=
                 track_pods (st_trackedPods (gw_status gw)) ownedPods\<rparr>\<rparr>;
     let oldPhase = gw_phase gw1;
     let (phase, gw2) = computePhase (cx_env cx) (cx_kueue cx) gw1 ownedPods (index_by_pod wls)
                          (index_by_owner wls) cfg;
     gw3 \<leftarrow> set_idle_since api phase (gw2\<lparr>gw_status := (gw_status gw2)\<lparr>st_phase := phase\<rparr>\<rparr>);
     u \<leftarrow> Status_Update api gw3;
     (case u of
        Inl e \<Rightarrow> ret (conflict_requeue e)
      | Inr gw4 \<Rightarrow> do {
          (if oldPhase \<noteq> phase then emitPhaseTransitionEvent (cx_env cx) gw4 phase else ret ());
          e1 \<leftarrow> (if oldPhase \<noteq> phase \<and> phase \<in> {PhaseIdle, PhasePendingGpu, PhaseActive}
                 then tryRunPreemptionEvaluation api cx cfg else ret None);
          (case e1 of
             Some e \<Rightarrow> ret (Inl e)
           | None \<Rightarrow>
               if phase = PhaseIdle then do {
                 e2 \<leftarrow> tryRunPreemptionEvaluation api cx cfg;
                 ret (case e2 of Some e \<Rightarrow> Inl e | None \<Rightarrow> Inr (RequeueAfter IdleRequeueInterval))
               }
               else ret (Inr NoRequeue))
        })
   }"

definition empty_gpu_config :: KaiwoGpuPreemptionConfig where
  "empty_gpu_config = \<lparr>cfg_defaultThreshold = None, cfg_defaultGracePeriod = None, cfg_defaultPolicy = [],
     cfg_defaultAggregation = [], cfg_defaultTTL = None\<rparr>"

text \<open>The branch for a workload whose object is gone, and the one for a workload that exists.\<close>

definition reconcile_gone :: "GpuApi \<Rightarrow> GpuWorkload \<Rightarrow> (api_error + requeue) gpu_prog" where
  "reconcile_gone api gw = do {
     now \<leftarrow> Now api;
     u \<leftarrow> Status_Update api (deleted_at now gw);
     (case u of
        Inl e \<Rightarrow> ret (conflict_requeue e)
      | Inr gw' \<Rightarrow> do {
          Eventf gw' EventTypeNormal ''WorkloadDeleted''
            (''Underlying '' @ ref_string gw' @ '' no longer exists; tracking will be retained until TTL expires'');
          ret (Inr (RequeueAfter IdleRequeueInterval))
        })
   }"

definition reconcile_live ::
    "GpuApi \<Rightarrow> GpuCtx \<Rightarrow> KaiwoGpuPreemptionConfig \<Rightarrow> string \<Rightarrow> string \<Rightarrow> GpuWorkload \<Rightarrow> (api_error + requeue) gpu_prog" where
  "reconcile_live api cx cfg ns name gw = do {
     s \<leftarrow> syncOwnedPods api cx ns name gw;
     (case s of
        SyncRequeue \<Rightarrow> ret (Inr RequeueNow)
      | SyncError e \<Rightarrow> ret (Inl e)
      | SyncPods ownedPods gw' \<Rightarrow> do {
          l \<leftarrow> List_KueueWorkloads api ns;
          (case l of
             Inl e \<Rightarrow> ret (Inl e)
           | Inr wls \<Rightarrow> reconcile_pods api cx cfg gw' ownedPods wls)
        })
   }"

definition Reconcile :: "GpuApi \<Rightarrow> GpuCtx \<Rightarrow> string \<Rightarrow> string \<Rightarrow> (api_error + requeue) gpu_prog" where
  "Reconcile api cx ns name = do {
     g \<leftarrow> Get_GpuWorkload api ns name;
     (case g of
        Inl e \<Rightarrow> ret (IgnoreNotFound e)
      | Inr gw \<Rightarrow> do {
          c \<leftarrow> Get_Config api;
          let cfg = (case c of Inl _ \<Rightarrow> empty_gpu_config | Inr cfg \<Rightarrow> cfg);
          (if gw_phase gw = PhasePreempting then handlePreempting api cx gw
           else if gw_phase gw = PhasePreempted \<or> gw_phase gw = PhaseDeleted then handleTerminal api cx gw cfg
           else do {
             ex \<leftarrow> ownerExists api cx gw;
             (case ex of
                Inl e \<Rightarrow> ret (Inl e)
              | Inr exists \<Rightarrow>
                  if \<not> exists then reconcile_gone api gw
                  else reconcile_live api cx cfg ns name gw)
           })
        })
   }"

section \<open>Writes under a guard\<close>

text \<open>
  \<open>guarded ok b m\<close>: run after the events \<open>b\<close>, every status write \<open>g\<close> of the program satisfies
  \<open>ok pre g\<close>, where \<open>pre\<close> are all events before the write.
\<close>

definition writes_ok :: "(gpu_event list \<Rightarrow> GpuWorkload \<Rightarrow> bool) \<Rightarrow> gpu_event list \<Rightarrow> gpu_event list \<Rightarrow> bool" where
  "writes_ok ok b new \<longleftrightarrow> (\<forall>pre g u post. new = pre @ EvUpdateStatus g u # post \<longrightarrow> ok (b @ pre) g)"

definition guarded :: "(gpu_event list \<Rightarrow> GpuWorkload \<Rightarrow> bool) \<Rightarrow> gpu_event list \<Rightarrow> 'a gpu_prog \<Rightarrow> bool" where
  "guarded ok b m \<longleftrightarrow> does (\<lambda>_ new. writes_ok ok b new) m"

definition no_write :: "gpu_event list \<Rightarrow> bool" where
  "no_write new \<longleftrightarrow> (\<forall>g u. EvUpdateStatus g u \<notin> set new)"

lemma writes_ok_append: "writes_ok ok b xs \<Longrightarrow> writes_ok ok (b @ xs) ys \<Longrightarrow> writes_ok ok b (xs @ ys)"
  unfolding writes_ok_def
proof (intro allI impI)
  fix pre g u post
  assume xs: "\<forall>pre g u post. xs = pre @ EvUpdateStatus g u # post \<longrightarrow> ok (b @ pre) g"
    and ys: "\<forall>pre g u post. ys = pre @ EvUpdateStatus g u # post \<longrightarrow> ok ((b @ xs) @ pre) g"
    and eq: "xs @ ys = pre @ EvUpdateStatus g u # post"
  from eq consider (left) post' where "xs = pre @ EvUpdateStatus g u # post'"
    | (right) pre2 where "pre = xs @ pre2" "ys = pre2 @ EvUpdateStatus g u # post"
    by (auto simp: append_eq_append_conv2 append_eq_Cons_conv)
  then show "ok (b @ pre) g" by cases (use xs ys in auto)
qed

lemma writes_ok_no_write: "no_write new \<Longrightarrow> writes_ok ok b new"
  unfolding writes_ok_def no_write_def by (metis in_set_conv_decomp)

lemma no_write_simps [simp]:
  "no_write []" "no_write (e # es) \<longleftrightarrow> (\<forall>g u. e \<noteq> EvUpdateStatus g u) \<and> no_write es"
  "no_write (xs @ ys) \<longleftrightarrow> no_write xs \<and> no_write ys"
  by (auto simp: no_write_def)

interpretation quiet: trace_property no_write
  by unfold_locales simp_all

lemma guarded_return: "guarded ok b (ret x)"
  by (simp add: guarded_def does_return writes_ok_no_write)

lemma guarded_bind:
  assumes "does (\<lambda>x n. writes_ok ok b n \<and> guarded ok (b @ n) (f x)) m"
  shows "guarded ok b (State_Monad.bind m f)"
  unfolding guarded_def
proof (rule does_seq [OF assms])
  fix x n1
  assume *: "writes_ok ok b n1 \<and> guarded ok (b @ n1) (f x)"
  show "does (\<lambda>_ n2. writes_ok ok b (n1 @ n2)) (f x)"
    by (rule does_mono [of "\<lambda>_. writes_ok ok (b @ n1)"]) (use * in \<open>auto simp: guarded_def writes_ok_append\<close>)
qed

lemma guarded_call:
  assumes "\<And>r g u. event r \<noteq> EvUpdateStatus g u" and "\<And>r. guarded ok (b @ [event r]) (f r)"
  shows "guarded ok b (State_Monad.bind (call answer event) f)"
  by (intro guarded_bind does_call conjI writes_ok_no_write) (use assms in auto)

lemma guarded_emit:
  assumes "\<And>g u. event \<noteq> EvUpdateStatus g u" and "guarded ok (b @ [event]) (f ())"
  shows "guarded ok b (State_Monad.bind (emit event) f)"
  by (intro guarded_bind does_emit conjI writes_ok_no_write) (use assms in auto)

lemma guarded_emit_last: "(\<And>g u. event \<noteq> EvUpdateStatus g u) \<Longrightarrow> guarded ok b (emit event)"
  unfolding guarded_def by (intro does_emit writes_ok_no_write) simp

lemma guarded_update:
  assumes "ok b g" and "\<And>r. guarded ok (b @ [EvUpdateStatus g r]) (f r)"
  shows "guarded ok b (State_Monad.bind (Status_Update api g) f)"
  unfolding Status_Update_def
  by (intro guarded_bind does_call conjI) (use assms in \<open>auto simp: writes_ok_def Cons_eq_append_conv\<close>)

lemma guarded_if: "(c \<Longrightarrow> guarded ok b m) \<Longrightarrow> (\<not> c \<Longrightarrow> guarded ok b n) \<Longrightarrow> guarded ok b (if c then m else n)"
  by simp

lemma guarded_quiet:
  assumes "does (\<lambda>x n. no_write n \<and> R x) m" and "\<And>x n. R x \<Longrightarrow> guarded ok (b @ n) (f x)"
  shows "guarded ok b (State_Monad.bind m f)"
  by (rule guarded_bind) (rule does_mono [OF assms(1)], use assms(2) writes_ok_no_write in blast)

lemma guarded_then:
  assumes "guarded ok b m" and "\<And>x n. guarded ok (b @ n) (f x)"
  shows "guarded ok b (State_Monad.bind m f)"
  by (rule guarded_bind) (rule does_mono [OF assms(1) [unfolded guarded_def]], use assms(2) in auto)

lemma guarded_case_sum:
  "(\<And>e. r = Inl e \<Longrightarrow> guarded ok b (f e)) \<Longrightarrow> (\<And>x. r = Inr x \<Longrightarrow> guarded ok b (g x)) \<Longrightarrow> guarded ok b (case r of Inl e \<Rightarrow> f e | Inr x \<Rightarrow> g x)"
  by (cases r) simp_all

lemma guarded_case_option:
  "(r = None \<Longrightarrow> guarded ok b m) \<Longrightarrow> (\<And>x. r = Some x \<Longrightarrow> guarded ok b (g x)) \<Longrightarrow> guarded ok b (case r of None \<Rightarrow> m | Some x \<Rightarrow> g x)"
  by (cases r) simp_all

text \<open>The parts that write no status.\<close>

lemma quiet_emits: "quiet.always m \<Longrightarrow> does (\<lambda>_ n. no_write n \<and> True) m"
  by (simp add: quiet.always_def)

lemma quiet_tryAcquireLease: "quiet.always (tryAcquireLease api cx)"
  unfolding quiet.always_def
  by (rule does_mono [OF tryAcquireLease_trace]) (auto elim: acquire_trace.cases)

lemma quiet_releaseLease: "quiet.always (releaseLease api cx)"
  unfolding releaseLease_def client_defs by (intro quiet.always_intros) auto

lemma quiet_ancestor_loop: "quiet.always (ancestor_loop api cx ns uid n seen ref)"
  by (induction n arbitrary: seen ref) (auto simp: client_defs intro!: quiet.always_intros)

lemma quiet_isPodOwned: "quiet.always (isPodOwnedByWorkload api cx pod gw)"
  unfolding isPodOwnedByWorkload_def isAncestorOf_def
  by (intro quiet.always_intros quiet_ancestor_loop)

lemma quiet_filter_owned: "quiet.always (filter_owned api cx gw ps)"
  by (induction ps) (auto intro!: quiet.always_intros quiet_isPodOwned)

lemma quiet_emitPhase: "quiet.always (emitPhaseTransitionEvent env gw phase)"
  unfolding emitPhaseTransitionEvent_def Eventf_def
  by (cases phase) (auto intro!: quiet.always_intros)

section \<open>A preemption evaluation\<close>

text \<open>Objects as the server keeps them: a name, and no key of a map twice.\<close>

definition listed_ok :: "GpuWorkload list \<Rightarrow> bool" where
  "listed_ok ws \<longleftrightarrow> (\<forall>w \<in> set ws. gw_name w \<noteq> [] \<and> distinct (map fst (gw_resources w)))"

definition lists_ok :: "GpuApi \<Rightarrow> bool" where
  "lists_ok api \<longleftrightarrow> (\<forall>h ws. a_listGpuWorkloads api h = Inr ws \<longrightarrow> listed_ok ws)"

text \<open>
  Why a workload \<open>w\<close> may be marked with \<open>change\<close> after the events: it was listed, idle beyond its
  grace period, and either its policy is Always, or it holds a resource of which a listed pending
  workload still lacks \<open>d > 0\<close> beyond what is being freed for it.
\<close>

definition victim_justified ::
    "GpuCtx \<Rightarrow> KaiwoGpuPreemptionConfig \<Rightarrow> gpu_event list \<Rightarrow> GpuWorkload \<Rightarrow> (GpuWorkload \<Rightarrow> GpuWorkload) \<Rightarrow> bool" where
  "victim_justified cx cfg events w change \<longleftrightarrow>
     (\<exists>ws. EvListGpuWorkloads (Inr ws) \<in> set events \<and> w \<in> set ws \<and> overdue cx cfg events w \<and>
        (case getPreemptionPolicy (cx_env cx) w cfg of
           PreemptionPolicyAlways \<Rightarrow> (\<exists>reason. change = always_change reason)
         | PreemptionPolicyOnPressure \<Rightarrow>
             (\<exists>p res d. p \<in> set ws \<and> waits_for res p \<and> 0 < map_get 0 (gw_resources w) res \<and>
                d = map_get 0 (gw_resources p) res - freed_for (gw_name p) res ws \<and> 0 < d \<and>
                change = pressure_change (gw_name p) (pressure_reason (gw_name p) d res))))"

lemma victim_justified_mono:
  "victim_justified cx cfg ev w c \<Longrightarrow> set ev \<subseteq> set ev' \<Longrightarrow> victim_justified cx cfg ev' w c"
  unfolding victim_justified_def overdue_def by blast

lemma always_marked_justified:
  "always_marked cx cfg ws ev w c \<Longrightarrow> EvListGpuWorkloads (Inr ws) \<in> set ev \<Longrightarrow> victim_justified cx cfg ev w c"
  unfolding always_marked_def victim_justified_def by auto

lemma open_demand_freed:
  assumes "open_demand inFlight res p = Some d"
  shows "d = we_count res p - map_get 0 (map_get [] inFlight (gw_name (we_gw p))) res \<and> 0 < d"
proof -
  have "map_get [] inFlight (gw_name (we_gw p)) = (case map_of inFlight (gw_name (we_gw p)) of None \<Rightarrow> [] | Some m \<Rightarrow> m)"
    by (simp add: map_get_def)
  with assms show ?thesis
    by (auto simp: open_demand_def Let_def split: if_splits option.splits)
qed

lemma plan_justified:
  assumes cls: "classification_ok cx cfg ws st ev" and ok: "listed_ok ws"
    and a: "a \<in> set (plan_victims cx st)" and v: "v \<in> set (as_victims a)"
    and ev: "EvListGpuWorkloads (Inr ws) \<in> set ev"
  shows "victim_justified cx cfg ev (we_gw v) (assignment_change a)"
proof -
  obtain pre post where "plan_victims cx st = pre @ a # post" using a by (meson split_list)
  then have a_ok: "assignment_ok (ps_inFlight st) (map_get [] (ps_idleByResource st) (as_resource a))
      (map_get [] (ps_pendingByResource st) (as_resource a)) (set (plan_uids pre)) a"
    using plan_resources_split [of st _ "[]" pre a post] by (simp add: plan_victims_def)
  define res where "res = as_resource a"
  have vin: "v \<in> set (map_get [] (ps_idleByResource st) res)" "0 < we_count res v"
    using a_ok v by (auto simp: assignment_ok_def res_def dest!: in_set_takeD)
  then have vok: "idle_entry_ok cx cfg ws ev v"
    using cls by (auto simp: classification_ok_def idle_entries_ok_def)
  obtain p where p: "as_pending a = pending_entry p" "p \<in> set ws" "waits_for res p"
    using a_ok cls by (auto simp: assignment_ok_def classification_ok_def res_def)
  have "gw_name p \<noteq> []" using ok p(2) by (simp add: listed_ok_def)
  then have "as_demand a = map_get 0 (gw_resources p) res - freed_for (gw_name p) res ws \<and> 0 < as_demand a"
    using open_demand_freed [of "ps_inFlight st" res "as_pending a"] a_ok cls p(1)
    by (simp add: assignment_ok_def classification_ok_def res_def pending_entry_def)
  then have change: "\<exists>d. d = map_get 0 (gw_resources p) res - freed_for (gw_name p) res ws \<and> 0 < d \<and>
      assignment_change a = pressure_change (gw_name p) (pressure_reason (gw_name p) d res)"
    by (auto simp: assignment_change_def res_def p(1) pending_entry_def)
  have v': "we_gw v \<in> set ws" "overdue cx cfg ev (we_gw v)" "0 < map_get 0 (gw_resources (we_gw v)) res"
      "getPreemptionPolicy (cx_env cx) (we_gw v) cfg = PreemptionPolicyOnPressure"
    using vok vin(2) by (auto simp: idle_entry_ok_def)
  show ?thesis
    unfolding victim_justified_def v'(4) PreemptionPolicy.case using v'(1-3) change p(2,3) ev by blast
qed

lemma justified_append:
  assumes "marks_ok (victim_justified cx cfg ev1) n1" and "marks_ok (victim_justified cx cfg ev2) n2"
    and "set ev1 \<subseteq> set ev" and "set ev2 \<subseteq> set ev"
  shows "marks_ok (victim_justified cx cfg ev) (n1 @ n2)"
  using assms by (intro marks_ok_append) (auto elim!: marks_ok_mono victim_justified_mono)

lemma justified_no_write: "no_write n \<Longrightarrow> marks_ok (victim_justified cx cfg ev) n"
  by (rule marks_ok_no_write) (simp add: no_write_def)

lemma justified_between:
  assumes "no_write n1" and "marks_ok (victim_justified cx cfg n2) n2" and "no_write n3"
  shows "marks_ok (victim_justified cx cfg (n1 @ n2 @ n3)) (n1 @ n2 @ n3)"
  by (rule justified_append [OF justified_no_write [OF assms(1), of _ _ "[]"]
        justified_append [OF assms(2) justified_no_write [OF assms(3), of _ _ "[]"], of "n2 @ n3"]]) auto

lemma match_does:
  assumes "classification_ok cx cfg ws st ev" and "listed_ok ws" and "EvListGpuWorkloads (Inr ws) \<in> set ev"
  shows "does (\<lambda>_ n. marks_ok (victim_justified cx cfg ev) n) (matchAndMarkVictims api cx st)"
  using execute_plan_marks [of "plan_victims cx st" api cx] plan_justified [OF assms(1,2) _ _ assms(3)]
  unfolding matchAndMarkVictims_def plan_victims_def match_resources_eq marks.always_def
  by (elim does_mono marks_ok_mono) blast

lemma classify_and_match_does:
  assumes ok: "listed_ok ws"
  shows "does (\<lambda>_ n. marks_ok (victim_justified cx cfg (EvListGpuWorkloads (Inr ws) # n)) n)
     (do { s \<leftarrow> classifyWorkloads api cx cfg ws;
           (case s of Inl e \<Rightarrow> ret (Some e) | Inr st \<Rightarrow> matchAndMarkVictims api cx st) })"
proof (rule does_seq [OF classifyWorkloads_does])
  show "\<forall>w \<in> set ws. distinct (map fst (gw_resources w))" using ok by (simp add: listed_ok_def)
next
  fix s :: "api_error + preemptionState" and n1
  let ?l = "EvListGpuWorkloads (Inr ws)"
  assume *: "marks_ok (always_marked cx cfg ws n1) n1 \<and> (\<forall>st. s = Inr st \<longrightarrow> classification_ok cx cfg ws st n1)"
  then have n1: "marks_ok (victim_justified cx cfg (?l # n1)) n1"
    by (elim conjE marks_ok_mono)
      (rule always_marked_justified, erule always_marked_mono, auto)
  show "does (\<lambda>_ n2. marks_ok (victim_justified cx cfg (?l # n1 @ n2)) (n1 @ n2))
     (case s of Inl e \<Rightarrow> ret (Some e) | Inr st \<Rightarrow> matchAndMarkVictims api cx st)"
  proof (cases s)
    case (Inr st)
    have cls: "classification_ok cx cfg ws st (?l # n1)"
      using * Inr by (auto simp: classification_ok_def elim: idle_entries_mono)
    show ?thesis unfolding Inr sum.case
      by (rule does_mono [OF match_does [OF cls ok]]) (auto intro: justified_append [OF n1])
  qed (use n1 in \<open>auto intro: does_return\<close>)
qed

lemma evaluation_marks:
  assumes "lists_ok api"
  shows "does (\<lambda>_ new. marks_ok (victim_justified cx cfg new) new) (tryRunPreemptionEvaluation api cx cfg)"
proof -
  define body where "body = do { l \<leftarrow> List_GpuWorkloads api; (case l of Inl e \<Rightarrow> ret (Some e)
       | Inr ws \<Rightarrow> do { s \<leftarrow> classifyWorkloads api cx cfg ws;
                      (case s of Inl e \<Rightarrow> ret (Some e) | Inr st \<Rightarrow> matchAndMarkVictims api cx st) }) }"
  have body: "does (\<lambda>_ n. marks_ok (victim_justified cx cfg n) n) body"
    unfolding body_def List_GpuWorkloads_def
  proof (intro does_bind does_call_answer)
    fix h
    let ?r = "a_listGpuWorkloads api h"
    show "does (\<lambda>_ n2. marks_ok (victim_justified cx cfg ([EvListGpuWorkloads ?r] @ n2)) ([EvListGpuWorkloads ?r] @ n2))
       (case ?r of Inl e \<Rightarrow> ret (Some e) | Inr ws \<Rightarrow> do { s \<leftarrow> classifyWorkloads api cx cfg ws;
          (case s of Inl e \<Rightarrow> ret (Some e) | Inr st \<Rightarrow> matchAndMarkVictims api cx st) })"
    proof (cases ?r)
      case (Inr ws)
      have "listed_ok ws" using assms Inr by (auto simp: lists_ok_def)
      then show ?thesis unfolding Inr sum.case
        by (rule does_mono [OF classify_and_match_does])
          (rule justified_append [OF justified_no_write [of _ _ _ "[]"]], auto)
    qed (auto intro!: does_return justified_no_write)
  qed
  have after: "does (\<lambda>_ n2. marks_ok (victim_justified cx cfg (n1 @ n2)) (n1 @ n2))
      (do { err \<leftarrow> body; releaseLease api cx; ret err })" if "no_write n1" for n1
    by (rule does_seq [OF body], rule does_seq [OF quiet_releaseLease [unfolded quiet.always_def]], rule does_return)
      (use justified_between [OF that] in simp)
  show ?thesis
    unfolding tryRunPreemptionEvaluation_def body_def [symmetric]
    by (rule does_seq [OF quiet_tryAcquireLease [unfolded quiet.always_def]])
      (auto intro!: after does_return justified_no_write)
qed

text \<open>
  C8: Why a preemption evaluation marks a workload, whatever the server answers and other writers do.
  Each status write directly follows a read that found the object Idle, and changes only its phase,
  idle time and preemption record; the object had been listed in this evaluation as idle for at least
  its grace period; and unless its policy is Always, a listed workload that is PendingGpu still lacks,
  beyond what is already being freed for it, a positive number of a resource the victim holds, and is
  the one recorded in the mark.
\<close>

theorem preemption_evaluation_justified:
  assumes "lists_ok api"
  shows "\<exists>new. history_of (tryRunPreemptionEvaluation api cx cfg) h = h @ new \<and>
     (\<forall>pre g u post. new = pre @ EvUpdateStatus g u # post \<longrightarrow>
        (\<exists>pre' w change fresh. pre = pre' @ [EvGetGpuWorkload (gw_namespace w) (gw_name w) (Inr fresh)] \<and>
           gw_phase fresh = PhaseIdle \<and> g = change fresh \<and> victim_justified cx cfg new w change))"
  using doesD [OF evaluation_marks [OF assms, of cx cfg], of h]
  unfolding marks_ok_def after_idle_read_def by metis

text \<open>A server with one workload: idle since the start of the clock, with policy Always.\<close>

definition idle_always_gw :: GpuWorkload where
  "idle_always_gw = example_gw ''g'' 2 (empty_status\<lparr>st_phase := PhaseIdle, st_idleSince := Some 0\<rparr>)
     \<lparr>gw_spec := (example_spec 2)\<lparr>sp_preemptionPolicy := Some PreemptionPolicyAlways\<rparr>\<rparr>"

definition one_workload_api :: "GpuWorkload \<Rightarrow> GpuApi" where
  "one_workload_api gw = empty_api\<lparr>a_getGpuWorkload := (\<lambda>_ _ _. Inr gw), a_listGpuWorkloads := (\<lambda>_. Inr [gw]),
     a_now := (\<lambda>_. 3600 * second)\<rparr>"

definition idle_always_change :: "GpuWorkload \<Rightarrow> GpuWorkload" where
  "idle_always_change = always_change (always_reason example_env (3600 * second) DefaultGracePeriod)"

definition idle_always_trace :: "gpu_event list" where
  "idle_always_trace =
     [EvGetLease DefaultOperatorNamespace (Inl NotFound), EvNow (3600 * second),
      EvCreateLease DefaultOperatorNamespace (new_lease ''replica-a'' (3600 * second)) None,
      EvListGpuWorkloads (Inr [idle_always_gw]), EvNow (3600 * second),
      EvGetGpuWorkload ''ns'' ''g'' (Inr idle_always_gw)]"

lemma idle_always_run:
  "\<exists>post. history_of (tryRunPreemptionEvaluation (one_workload_api idle_always_gw) example_ctx example_cfg) [] =
     idle_always_trace @ EvUpdateStatus (idle_always_change idle_always_gw) (Inr (idle_always_change idle_always_gw)) # post"
  by (simp add: history_of_def tryRunPreemptionEvaluation_def tryAcquireLease_def releaseLease_def client_defs
      one_workload_api_def empty_api_def classifyWorkloads_def matchAndMarkVictims_def sort_state_def
      idle_always_gw_def idle_always_trace_def example_gw_def empty_status_def example_spec_def example_cfg_def
      example_env_def example_ctx_def getOperatorNamespace_def getGracePeriod_def getPreemptionPolicy_def
      DefaultGracePeriod_def second_def mark_if_idle_def numeral_eq_Suc always_change_def idle_always_change_def Let_def)

theorem preemption_evaluation_justified_witness:
  "\<exists>new w change. victim_justified example_ctx example_cfg new w change \<and>
     idle_always_change idle_always_gw = change idle_always_gw \<and>
     history_of (tryRunPreemptionEvaluation (one_workload_api idle_always_gw) example_ctx example_cfg) [] = new"
proof -
  let ?api = "one_workload_api idle_always_gw"
  have "lists_ok ?api"
    by (simp add: lists_ok_def listed_ok_def one_workload_api_def idle_always_gw_def example_gw_def example_spec_def)
  from preemption_evaluation_justified [OF this, of example_ctx example_cfg "[]"] idle_always_run
  obtain post pre' w change fresh where
      "idle_always_trace = pre' @ [EvGetGpuWorkload (gw_namespace w) (gw_name w) (Inr fresh)]"
    and c: "idle_always_change idle_always_gw = change fresh"
      "victim_justified example_ctx example_cfg (idle_always_trace @ EvUpdateStatus (idle_always_change idle_always_gw)
         (Inr (idle_always_change idle_always_gw)) # post) w change"
    and h: "history_of (tryRunPreemptionEvaluation ?api example_ctx example_cfg) [] = idle_always_trace @
        EvUpdateStatus (idle_always_change idle_always_gw) (Inr (idle_always_change idle_always_gw)) # post"
    by (metis append_Nil)
  then have "fresh = idle_always_gw"
    by (auto simp: idle_always_trace_def Cons_eq_append_conv)
  with c h show ?thesis by metis
qed

section \<open>Status writes of Reconcile\<close>

text \<open>A spec update returns the object with its status as it was sent (the status is a subresource).\<close>

definition update_keeps_status :: "GpuApi \<Rightarrow> bool" where
  "update_keeps_status api \<longleftrightarrow> (\<forall>h gw gw'. a_update api h gw = Inr gw' \<longrightarrow> gw_status gw' = gw_status gw)"

definition workload_gvk :: "GpuCtx \<Rightarrow> GpuWorkload \<Rightarrow> GVK" where
  "workload_gvk cx gw = gvkFromAPIVersionKind cx (ref_apiVersion (gw_ref gw)) (ref_kind (gw_ref gw))"

definition preempting_write_ok :: "gpu_event list \<Rightarrow> GpuWorkload \<Rightarrow> bool" where
  "preempting_write_ok pre g \<longleftrightarrow>
     (\<exists>pre' n nm fresh. pre = pre' @ [EvGetGpuWorkload n nm (Inr fresh)] \<and> gw_phase fresh = PhaseIdle \<and>
        g = fresh\<lparr>gw_status := gw_status g\<rparr>)"

definition preempted_write_ok :: "GpuCtx \<Rightarrow> string \<Rightarrow> string \<Rightarrow> gpu_event list \<Rightarrow> GpuWorkload \<Rightarrow> bool" where
  "preempted_write_ok cx ns name pre g \<longleftrightarrow>
     (\<exists>gw now d. EvGetGpuWorkload ns name (Inr gw) \<in> set pre \<and> gw_phase gw = PhasePreempting \<and>
        g = preempted_at now gw \<and> (d = None \<or> d = Some NotFound) \<and>
        EvDeleteObject (workload_gvk cx gw) (gw_namespace gw) (ref_name (gw_ref gw)) d \<in> set pre)"

definition deleted_write_ok :: "GpuCtx \<Rightarrow> string \<Rightarrow> string \<Rightarrow> gpu_event list \<Rightarrow> GpuWorkload \<Rightarrow> bool" where
  "deleted_write_ok cx ns name pre g \<longleftrightarrow>
     (\<exists>gw now r. EvGetGpuWorkload ns name (Inr gw) \<in> set pre \<and>
        gw_phase gw \<notin> {PhasePreempting, PhasePreempted, PhaseDeleted} \<and> g = deleted_at now gw \<and>
        EvGetObject (workload_gvk cx gw) (gw_namespace gw) (ref_name (gw_ref gw)) r \<in> set pre \<and>
        (case r of Inl e \<Rightarrow> e = NotFound | Inr obj \<Rightarrow> ob_uid obj \<noteq> ref_uid (gw_ref gw)))"

definition status_write_ok :: "GpuCtx \<Rightarrow> string \<Rightarrow> string \<Rightarrow> gpu_event list \<Rightarrow> GpuWorkload \<Rightarrow> bool" where
  "status_write_ok cx ns name pre g \<longleftrightarrow>
     gw_phase g \<noteq> PhaseUnset \<and>
     (st_idleSince (gw_status g) \<noteq> None \<longrightarrow> gw_phase g = PhaseIdle) \<and>
     (gw_phase g = PhasePreempting \<longrightarrow> preempting_write_ok pre g) \<and>
     (gw_phase g = PhasePreempted \<longrightarrow> preempted_write_ok cx ns name pre g) \<and>
     (gw_phase g = PhaseDeleted \<longrightarrow> deleted_write_ok cx ns name pre g)"

lemma guarded_evaluation:
  assumes "lists_ok api"
  shows "guarded (status_write_ok cx ns name) b (tryRunPreemptionEvaluation api cx cfg)"
  unfolding guarded_def
proof (rule does_mono [OF evaluation_marks [OF assms]])
  fix r new
  assume marks: "marks_ok (victim_justified cx cfg new) new"
  show "writes_ok (status_write_ok cx ns name) b new"
    unfolding writes_ok_def
  proof (intro allI impI)
    fix pre g u post
    assume "new = pre @ EvUpdateStatus g u # post"
    with marks obtain pre' w change fresh where
        pre: "pre = pre' @ [EvGetGpuWorkload (gw_namespace w) (gw_name w) (Inr fresh)]"
      and fresh: "gw_phase fresh = PhaseIdle" "g = change fresh" "victim_justified cx cfg new w change"
      unfolding marks_ok_def after_idle_read_def by blast
    from fresh(3) have "(\<exists>reason. change = always_change reason) \<or> (\<exists>n reason. change = pressure_change n reason)"
      unfolding victim_justified_def by (cases "getPreemptionPolicy (cx_env cx) w cfg") auto
    with fresh(1,2) pre show "status_write_ok cx ns name (b @ pre) g"
      unfolding status_write_ok_def preempting_write_ok_def
      by (auto simp: always_change_def pressure_change_def)
  qed
qed

lemma guarded_handlePreempting:
  assumes "EvGetGpuWorkload ns name (Inr gw) \<in> set b" and "gw_phase gw = PhasePreempting"
  shows "guarded (status_write_ok cx ns name) b (handlePreempting api cx gw)"
  unfolding handlePreempting_def deleteWorkload_def Delete_Object_def Now_def Eventf_def Let_def
  by (intro guarded_call guarded_if guarded_emit guarded_update guarded_return)
    (use assms in \<open>auto simp: status_write_ok_def revert_to_idle_def preempted_at_def preempted_write_ok_def workload_gvk_def\<close>)

lemma guarded_handleTerminal: "guarded ok b (handleTerminal api cx gw cfg)"
  unfolding handleTerminal_def Now_def Delete_GpuWorkload_def Let_def
  by (intro guarded_call guarded_if guarded_case_option guarded_return) auto

text \<open>A phase that \<open>computePhase\<close> returns for a workload that is not being preempted or finished.\<close>

lemma computePhase_keeps:
  assumes "computePhase env k gw pods byPod byOwner cfg = (phase, gw')"
  shows "gw_spec gw' = gw_spec gw" "st_idleSince (gw_status gw') = st_idleSince (gw_status gw)" "phase \<noteq> PhaseUnset"
    "pods \<noteq> [] \<or> gw_phase gw \<notin> {PhasePreempting, PhasePreempted, PhaseDeleted} \<Longrightarrow>
       phase \<notin> {PhasePreempting, PhasePreempted, PhaseDeleted}"
  using assms by (auto simp: computePhase_def Let_def split: if_splits)

lemma guarded_reconcile_pods:
  assumes api: "lists_ok api"
    and gw: "pods \<noteq> [] \<or> gw_phase gw \<notin> {PhasePreempting, PhasePreempted, PhaseDeleted}"
  shows "guarded (status_write_ok cx ns name) b (reconcile_pods api cx cfg gw pods wls)"
proof -
  let ?gw1 = "gw\<lparr>gw_status := (gw_status gw)\<lparr>st_trackedPods := track_pods (st_trackedPods (gw_status gw)) pods\<rparr>\<rparr>"
  obtain phase gw2 where cp: "computePhase (cx_env cx) (cx_kueue cx) ?gw1 pods (index_by_pod wls)
      (index_by_owner wls) cfg = (phase, gw2)" by fastforce
  have ph: "phase \<noteq> PhaseUnset" "phase \<notin> {PhasePreempting, PhasePreempted, PhaseDeleted}"
    using computePhase_keeps(3,4) [OF cp] gw by simp_all
  let ?g = "gw2\<lparr>gw_status := (gw_status gw2)\<lparr>st_phase := phase\<rparr>\<rparr>"
  have idle: "does (\<lambda>g n. no_write n \<and> gw_phase g = phase \<and> (st_idleSince (gw_status g) \<noteq> None \<longrightarrow> phase = PhaseIdle))
      (set_idle_since api phase ?g)"
    unfolding set_idle_since_def Now_def by (intro does_intros) auto
  have tail: "guarded (status_write_ok cx ns name) b'
      (do { (if c then emitPhaseTransitionEvent (cx_env cx) gw4 phase else ret ());
            e1 \<leftarrow> (if c' then tryRunPreemptionEvaluation api cx cfg else ret None);
            (case e1 of Some e \<Rightarrow> ret (Inl e)
             | None \<Rightarrow> if phase = PhaseIdle then do {
                 e2 \<leftarrow> tryRunPreemptionEvaluation api cx cfg;
                 ret (case e2 of Some e \<Rightarrow> Inl e | None \<Rightarrow> Inr (RequeueAfter IdleRequeueInterval)) }
               else ret (Inr NoRequeue)) })" for b' gw4 c c'
    by (rule guarded_quiet [where R = "\<lambda>_. True"])
      (auto intro!: guarded_then guarded_if guarded_evaluation [OF api] guarded_return
          does_intros quiet_emitPhase [unfolded quiet.always_def, THEN does_mono]
        split: option.split)
  show ?thesis
    unfolding reconcile_pods_def Let_def cp prod.case
  proof (rule guarded_quiet [OF idle], rule guarded_update)
    fix g
    assume "gw_phase g = phase \<and> (st_idleSince (gw_status g) \<noteq> None \<longrightarrow> phase = PhaseIdle)"
    with ph show "status_write_ok cx ns name b' g" for b' by (auto simp: status_write_ok_def)
  qed (rule guarded_case_sum, rule guarded_return, rule tail)
qed

lemma syncOwnedPods_does:
  assumes "update_keeps_status api"
  shows "does (\<lambda>s n. no_write n \<and> (\<forall>g'. s = SyncPods [] g' \<longrightarrow> gw_status g' = gw_status gw))
     (syncOwnedPods api cx ns name gw)"
proof -
  have upd: "does (\<lambda>s n. no_write n \<and> (\<forall>g'. s = SyncPods [] g' \<longrightarrow> gw_status g' = gw_status gw))
     (do { u \<leftarrow> Update_GpuWorkload api (gw\<lparr>gw_spec := sp\<rparr>);
           (case u of Inl e \<Rightarrow> ret (if e = Conflict then SyncRequeue else SyncError e)
            | Inr updated \<Rightarrow> do { g \<leftarrow> Get_GpuWorkload api ns name;
                ret (case g of Inl e \<Rightarrow> if e = NotFound then SyncPods [] updated else SyncError e
                     | Inr fresh \<Rightarrow> SyncPods pods fresh) }) })" if "pods \<noteq> []" for sp pods
    unfolding Update_GpuWorkload_def Get_GpuWorkload_def
    by (intro does_bind does_call_answer does_case_sum does_call does_return)
      (use assms that in \<open>auto simp: update_keeps_status_def split: sum.splits if_splits\<close>)
  show ?thesis
    unfolding syncOwnedPods_def List_Pods_def Let_def
    by (rule does_bind, rule does_call, rule does_case_sum, rule does_return, simp,
        rule does_seq [OF quiet_filter_owned [unfolded quiet.always_def]], rule does_if)
      (auto intro!: does_return elim!: does_mono [OF upd])
qed

lemma guarded_gone:
  assumes "EvGetGpuWorkload ns name (Inr gw) \<in> set b"
    and "gw_phase gw \<notin> {PhasePreempting, PhasePreempted, PhaseDeleted}"
    and "EvGetObject (workload_gvk cx gw) (gw_namespace gw) (ref_name (gw_ref gw)) r \<in> set b"
    and "case r of Inl e \<Rightarrow> e = NotFound | Inr obj \<Rightarrow> ob_uid obj \<noteq> ref_uid (gw_ref gw)"
  shows "guarded (status_write_ok cx ns name) b (reconcile_gone api gw)"
  unfolding reconcile_gone_def Now_def Eventf_def
  by (intro guarded_call guarded_update guarded_case_sum guarded_emit guarded_return)
    (use assms in \<open>auto simp: status_write_ok_def deleted_at_def deleted_write_ok_def\<close>)

lemma guarded_live:
  assumes "lists_ok api" and "update_keeps_status api"
    and "gw_phase gw \<notin> {PhasePreempting, PhasePreempted, PhaseDeleted}"
  shows "guarded (status_write_ok cx ns name) b (reconcile_live api cx cfg ns name gw)"
  unfolding reconcile_live_def
proof (rule guarded_quiet [OF syncOwnedPods_does [OF assms(2)]])
  fix s n
  assume s: "\<forall>g'. s = SyncPods [] g' \<longrightarrow> gw_status g' = gw_status gw"
  show "guarded (status_write_ok cx ns name) (b @ n) (case s of SyncRequeue \<Rightarrow> ret (Inr RequeueNow) | SyncError e \<Rightarrow> ret (Inl e)
       | SyncPods ownedPods gw' \<Rightarrow> do {
           l \<leftarrow> List_KueueWorkloads api ns;
           (case l of Inl e \<Rightarrow> ret (Inl e) | Inr wls \<Rightarrow> reconcile_pods api cx cfg gw' ownedPods wls) })"
  proof (cases s)
    case (SyncPods pods gw')
    have "pods \<noteq> [] \<or> gw_phase gw' \<notin> {PhasePreempting, PhasePreempted, PhaseDeleted}"
      using s SyncPods assms(3) by auto
    then show ?thesis
      unfolding SyncPods sync_result.case List_KueueWorkloads_def
      by (intro guarded_call guarded_case_sum guarded_return guarded_reconcile_pods [OF assms(1)]) simp_all
  qed (simp_all add: guarded_return)
qed

lemma guarded_existing:
  assumes "lists_ok api" and "update_keeps_status api"
    and gw: "EvGetGpuWorkload ns name (Inr gw) \<in> set b" "gw_phase gw \<notin> {PhasePreempting, PhasePreempted, PhaseDeleted}"
  shows "guarded (status_write_ok cx ns name) b
     (do { ex \<leftarrow> ownerExists api cx gw;
           (case ex of Inl e \<Rightarrow> ret (Inl e)
            | Inr exists \<Rightarrow> if \<not> exists then reconcile_gone api gw else reconcile_live api cx cfg ns name gw) })"
  unfolding ownerExists_def Get_Object_def bind_assoc bind_left_identity workload_gvk_def [symmetric]
proof (rule guarded_call)
  fix r
  let ?b = "b @ [EvGetObject (workload_gvk cx gw) (gw_namespace gw) (ref_name (gw_ref gw)) r]"
  have gone: "guarded (status_write_ok cx ns name) ?b (reconcile_gone api gw)"
    if "case r of Inl e \<Rightarrow> e = NotFound | Inr obj \<Rightarrow> ob_uid obj \<noteq> ref_uid (gw_ref gw)"
    by (rule guarded_gone [where r = r]) (use gw that in auto)
  show "guarded (status_write_ok cx ns name) ?b
     (case (case r of Inl e \<Rightarrow> if e = NotFound then Inr False else Inl e | Inr obj \<Rightarrow> Inr (ob_uid obj = ref_uid (gw_ref gw)))
      of Inl e \<Rightarrow> ret (Inl e)
       | Inr exists \<Rightarrow> if \<not> exists then reconcile_gone api gw else reconcile_live api cx cfg ns name gw)"
    using gone guarded_live [OF assms(1,2) gw(2)] by (cases r) (auto simp: guarded_return)
qed simp

lemma guarded_Reconcile:
  assumes "lists_ok api" and "update_keeps_status api"
  shows "guarded (status_write_ok cx ns name) [] (Reconcile api cx ns name)"
  unfolding Reconcile_def Get_GpuWorkload_def Get_Config_def Let_def
  by (rule guarded_call, simp, rule guarded_case_sum, rule guarded_return, rule guarded_call, simp, rule guarded_if,
      rule guarded_handlePreempting, simp, simp, rule guarded_if, rule guarded_handleTerminal,
      rule guarded_existing [OF assms]) simp_all

text \<open>
  C9: The discipline of every status write that a reconciliation makes, whatever the server answers.
  An idle time is recorded only with phase Idle. Preempting is written only over an object that was
  read as Idle immediately before. Preempted is written only for a workload read as Preempting and
  after the deletion of its object was accepted or found it gone. Deleted is written only after the
  object was looked up and not found, or found with another UID.
\<close>

theorem Reconcile_status_writes:
  assumes "lists_ok api" and "update_keeps_status api"
  shows "\<exists>new. history_of (Reconcile api cx ns name) h = h @ new \<and>
     (\<forall>pre g u post. new = pre @ EvUpdateStatus g u # post \<longrightarrow> status_write_ok cx ns name pre g)"
  using doesD [OF guarded_Reconcile [OF assms, unfolded guarded_def], where h = h]
  unfolding writes_ok_def append_Nil by metis

definition preempting_gw :: GpuWorkload where
  "preempting_gw = example_gw ''g'' 2 (empty_status\<lparr>st_phase := PhasePreempting\<rparr>)"

definition preempting_trace :: "gpu_event list" where
  "preempting_trace =
     [EvGetGpuWorkload ''ns'' ''g'' (Inr preempting_gw), EvGetConfig (Inl NotFound),
      EvDeleteObject (workload_gvk example_ctx preempting_gw) ''ns'' ''train'' None, EvNow (3600 * second),
      EvRecord (preempted_at (3600 * second) preempting_gw) EventTypeWarning ''WorkloadPreempted''
        ''Job/train was deleted to free GPU resources; reason: '']"

lemma preempting_run:
  "history_of (Reconcile (one_workload_api preempting_gw) example_ctx ''ns'' ''g'') [] = preempting_trace @
     [EvUpdateStatus (preempted_at (3600 * second) preempting_gw) (Inr (preempted_at (3600 * second) preempting_gw))]"
  by (simp add: history_of_def Reconcile_def handlePreempting_def deleteWorkload_def client_defs
      one_workload_api_def empty_api_def preempting_trace_def preempting_gw_def example_gw_def empty_status_def
      example_spec_def workload_gvk_def preempted_at_def ref_string_def Let_def)

theorem Reconcile_status_writes_witness:
  "status_write_ok example_ctx ''ns'' ''g'' preempting_trace (preempted_at (3600 * second) preempting_gw)"
proof -
  let ?api = "one_workload_api preempting_gw"
  have "lists_ok ?api" "update_keeps_status ?api"
    by (simp_all add: lists_ok_def listed_ok_def update_keeps_status_def one_workload_api_def empty_api_def
        preempting_gw_def example_gw_def example_spec_def)
  from Reconcile_status_writes [OF this, of example_ctx "''ns''" "''g''" "[]"] preempting_run
  show ?thesis by (metis append_Nil)
qed

section \<open>Deletions\<close>

fun is_deletion :: "gpu_event \<Rightarrow> bool" where
  "is_deletion (EvDelete _ _) = True"
| "is_deletion (EvDeleteObject _ _ _ _) = True"
| "is_deletion _ = False"

abbreviation deletes_nothing :: "'a gpu_prog \<Rightarrow> bool" where
  "deletes_nothing \<equiv> emits (\<lambda>e. \<not> is_deletion e)"

lemma calls_delete_nothing [emits_intros]:
  "deletes_nothing (Get_GpuWorkload api n nm)" "deletes_nothing (Get_Config api)"
  "deletes_nothing (Get_Object api gvk n nm)" "deletes_nothing (List_Pods api n)"
  "deletes_nothing (List_KueueWorkloads api n)" "deletes_nothing (List_GpuWorkloads api)"
  "deletes_nothing (Update_GpuWorkload api gw)" "deletes_nothing (Status_Update api gw)"
  "deletes_nothing (Get_Lease api n)" "deletes_nothing (Create_Lease api n l)"
  "deletes_nothing (Update_Lease api n l)" "deletes_nothing (Now api)"
  "deletes_nothing (Eventf gw t reason message)"
  by (auto simp: client_defs intro!: emits_call emits_emit)

lemma lease_deletes_nothing [emits_intros]:
  "deletes_nothing (tryAcquireLease api cx)" "deletes_nothing (releaseLease api cx)"
proof -
  show "deletes_nothing (tryAcquireLease api cx)"
    unfolding emits_def by (rule does_mono [OF tryAcquireLease_trace]) (auto elim: acquire_trace.cases)
  show "deletes_nothing (releaseLease api cx)"
    unfolding releaseLease_def by (intro emits_intros)
qed

lemma mark_if_idle_deletes_nothing [emits_intros]: "deletes_nothing (mark_if_idle api w change)"
  unfolding mark_if_idle_def by (intro emits_intros)

lemma classify_loop_deletes_nothing: "deletes_nothing (classify_loop api cx cfg ws st)"
proof (induction ws arbitrary: st)
  case (Cons w ws)
  show ?case
    by (cases "gw_phase w"; simp add: Cons.IH; intro emits_intros Cons.IH)
qed (simp add: emits_return)

lemma until_error_deletes_nothing: "(\<And>m. m \<in> set ms \<Longrightarrow> deletes_nothing m) \<Longrightarrow> deletes_nothing (until_error ms)"
  by (induction ms) (auto intro!: emits_intros)

lemma match_deletes_nothing: "deletes_nothing (matchAndMarkVictims api cx st)"
  unfolding matchAndMarkVictims_def match_resources_eq execute_plan_def
  by (rule until_error_deletes_nothing) (auto simp: mark_one_def intro!: emits_intros)

lemma evaluation_deletes_nothing [emits_intros]: "deletes_nothing (tryRunPreemptionEvaluation api cx cfg)"
  unfolding tryRunPreemptionEvaluation_def classifyWorkloads_def
  by (intro emits_intros classify_loop_deletes_nothing match_deletes_nothing)

lemma ancestor_deletes_nothing: "deletes_nothing (ancestor_loop api cx ns uid n seen ref)"
  by (induction n arbitrary: seen ref) (auto intro!: emits_intros)

lemma owned_deletes_nothing: "deletes_nothing (filter_owned api cx gw ps)"
  by (induction ps) (auto simp: isPodOwnedByWorkload_def isAncestorOf_def Let_def
      intro!: emits_intros ancestor_deletes_nothing)

lemma reconcile_deletes_nothing:
  "deletes_nothing (reconcile_gone api gw)" "deletes_nothing (reconcile_pods api cx cfg gw pods wls)"
proof -
  show "deletes_nothing (reconcile_gone api gw)" unfolding reconcile_gone_def by (intro emits_intros)
  have "deletes_nothing (emitPhaseTransitionEvent env g phase)" for env g phase
    unfolding emitPhaseTransitionEvent_def by (cases phase) (auto intro!: emits_intros)
  then show "deletes_nothing (reconcile_pods api cx cfg gw pods wls)"
    unfolding reconcile_pods_def set_idle_since_def by (intro emits_intros)
qed

lemma live_deletes_nothing: "deletes_nothing (reconcile_live api cx cfg ns name gw)"
proof -
  have "deletes_nothing (case s of SyncRequeue \<Rightarrow> ret (Inr RequeueNow) | SyncError e \<Rightarrow> ret (Inl e)
      | SyncPods pods gw' \<Rightarrow> do { l \<leftarrow> List_KueueWorkloads api ns;
          (case l of Inl e \<Rightarrow> ret (Inl e) | Inr wls \<Rightarrow> reconcile_pods api cx cfg gw' pods wls) })" for s
    by (cases s) (auto intro!: emits_intros reconcile_deletes_nothing)
  then show ?thesis
    unfolding reconcile_live_def syncOwnedPods_def by (intro emits_intros owned_deletes_nothing)
qed

text \<open>What a deletion needs among the events of its reconciliation.\<close>

definition deletion_ok :: "GpuCtx \<Rightarrow> string \<Rightarrow> string \<Rightarrow> gpu_event list \<Rightarrow> gpu_event \<Rightarrow> bool" where
  "deletion_ok cx ns name events e =
     (case e of
        EvDeleteObject gvk n nm d \<Rightarrow>
          (\<exists>gw. EvGetGpuWorkload ns name (Inr gw) \<in> set events \<and> gw_phase gw = PhasePreempting \<and>
             gvk = workload_gvk cx gw \<and> n = gw_namespace gw \<and> nm = ref_name (gw_ref gw))
      | EvDelete gw d \<Rightarrow>
          EvGetGpuWorkload ns name (Inr gw) \<in> set events \<and> gw_phase gw \<in> {PhasePreempted, PhaseDeleted} \<and>
          (\<exists>c cfg now finished. EvGetConfig c \<in> set events \<and>
             cfg = (case c of Inl _ \<Rightarrow> empty_gpu_config | Inr cfg \<Rightarrow> cfg) \<and>
             st_finishedAt (gw_status gw) = Some finished \<and> EvNow now \<in> set events \<and>
             getTTL (cx_env cx) gw cfg \<noteq> 0 \<and> getTTL (cx_env cx) gw cfg \<le> now - finished)
      | _ \<Rightarrow> True)"

lemma not_deletion_ok: "\<not> is_deletion e \<Longrightarrow> deletion_ok cx ns name events e"
  by (cases e) (auto simp: deletion_ok_def)

lemma rest_deletes_nothing:
  "deletes_nothing (do { ex \<leftarrow> ownerExists api cx gw;
     (case ex of Inl e \<Rightarrow> ret (Inl e)
      | Inr exists \<Rightarrow> if \<not> exists then reconcile_gone api gw else reconcile_live api cx cfg ns name gw) })"
  unfolding ownerExists_def by (intro emits_intros reconcile_deletes_nothing live_deletes_nothing)

lemma handlePreempting_deletions:
  assumes "EvGetGpuWorkload ns name (Inr gw) \<in> set b" and "gw_phase gw = PhasePreempting"
    and "\<forall>e \<in> set b. \<not> is_deletion e"
  shows "does (\<lambda>_ n. \<forall>e \<in> set (b @ n). deletion_ok cx ns name (b @ n) e) (handlePreempting api cx gw)"
  unfolding handlePreempting_def deleteWorkload_def client_defs Let_def
  by (intro does_intros)
    (use assms not_deletion_ok in \<open>auto simp: deletion_ok_def [of _ _ _ _ "EvDeleteObject _ _ _ _"] workload_gvk_def\<close>)

lemma handleTerminal_deletions:
  assumes "EvGetGpuWorkload ns name (Inr gw) \<in> set b" and "gw_phase gw \<in> {PhasePreempted, PhaseDeleted}"
    and "EvGetConfig c \<in> set b" and "cfg = (case c of Inl _ \<Rightarrow> empty_gpu_config | Inr cfg \<Rightarrow> cfg)"
    and "\<forall>e \<in> set b. \<not> is_deletion e"
  shows "does (\<lambda>_ n. \<forall>e \<in> set (b @ n). deletion_ok cx ns name (b @ n) e) (handleTerminal api cx gw cfg)"
proof -
  have del: "deletion_ok cx ns name ev (EvDelete gw d)"
    if "set b \<subseteq> set ev" "st_finishedAt (gw_status gw) = Some finished" "EvNow now \<in> set ev"
      "getTTL (cx_env cx) gw cfg \<noteq> 0" "getTTL (cx_env cx) gw cfg \<le> now - finished" for ev d now finished
    unfolding deletion_ok_def gpu_event.case using assms that by blast
  show ?thesis
    unfolding handleTerminal_def client_defs Let_def
    by (intro does_intros) (use assms(5) not_deletion_ok in \<open>auto intro!: del\<close>)
qed

lemma Reconcile_deletions:
  "does (\<lambda>_ new. \<forall>e \<in> set new. deletion_ok cx ns name new e) (Reconcile api cx ns name)"
  unfolding Reconcile_def Get_GpuWorkload_def Get_Config_def Let_def
proof (rule does_bind, rule does_call, rule does_case_sum, rule does_return,
    rule_tac [2] does_bind, rule_tac [2] does_call, rule_tac [2] does_if, rule_tac [3] does_if)
  fix g e
  show "\<forall>e \<in> set ([EvGetGpuWorkload ns name g] @ []). deletion_ok cx ns name ([EvGetGpuWorkload ns name g] @ []) e"
    by (auto intro: not_deletion_ok)
next
  fix g :: "api_error + GpuWorkload" and gw :: GpuWorkload and c :: "api_error + KaiwoGpuPreemptionConfig"
  assume g: "g = Inr gw"
  let ?cfg = "case c of Inl _ \<Rightarrow> empty_gpu_config | Inr cfg \<Rightarrow> cfg"
  let ?P = "\<lambda>_ n. \<forall>e \<in> set ([EvGetGpuWorkload ns name g] @ [EvGetConfig c] @ n).
     deletion_ok cx ns name ([EvGetGpuWorkload ns name g] @ [EvGetConfig c] @ n) e"
  show "does ?P (handlePreempting api cx gw)" if "gw_phase gw = PhasePreempting"
    using handlePreempting_deletions [of ns name gw "[EvGetGpuWorkload ns name g, EvGetConfig c]" cx api] g that by simp
  show "does ?P (handleTerminal api cx gw ?cfg)" if "gw_phase gw = PhasePreempted \<or> gw_phase gw = PhaseDeleted"
    using handleTerminal_deletions [of ns name gw "[EvGetGpuWorkload ns name g, EvGetConfig c]" c ?cfg cx api] g that by simp
  show "does ?P (do { ex \<leftarrow> ownerExists api cx gw;
     (case ex of Inl e \<Rightarrow> ret (Inl e)
      | Inr exists \<Rightarrow> if \<not> exists then reconcile_gone api gw else reconcile_live api cx ?cfg ns name gw) })"
    by (rule does_mono [OF rest_deletes_nothing [unfolded emits_def]])
      (auto simp: list_all_iff intro: not_deletion_ok)
qed

text \<open>
  C10: What a reconciliation may delete, whatever the server answers. The object of a workload is
  deleted only when the GpuWorkload was read as Preempting, and it is the object of its workloadRef. The
  GpuWorkload itself is deleted only when it was read as Preempted or Deleted, the TTL of the
  configuration just read is not zero and has passed, by a clock reading of this reconciliation.
\<close>

theorem Reconcile_deletions_justified:
  "\<exists>new. history_of (Reconcile api cx ns name) h = h @ new \<and> (\<forall>e \<in> set new. deletion_ok cx ns name new e)"
  using doesD [OF Reconcile_deletions, where h = h] by metis

theorem Reconcile_deletions_justified_witness:
  "deletion_ok example_ctx ''ns'' ''g'' (preempting_trace @
       [EvUpdateStatus (preempted_at (3600 * second) preempting_gw) (Inr (preempted_at (3600 * second) preempting_gw))])
     (EvDeleteObject (workload_gvk example_ctx preempting_gw) ''ns'' ''train'' None)"
proof -
  have "EvDeleteObject (workload_gvk example_ctx preempting_gw) ''ns'' ''train'' None \<in> set preempting_trace"
    by (simp add: preempting_trace_def)
  with Reconcile_deletions_justified [of "one_workload_api preempting_gw" example_ctx "''ns''" "''g''" "[]"]
    preempting_run show ?thesis by fastforce
qed

end
