(* ===== verification/GpuDiscovery.thy ===== *)
theory GpuDiscovery
  imports GpuReconcile
begin

text \<open>
  The watch handlers of \<^verbatim>\<open>internal/controller/gpuworkload_controller.go\<close> that discover workloads:
  \<open>podToGpuWorkload\<close>, \<open>workloadToGpuWorkload\<close> and \<open>upsertGpuWorkloadForPreemption\<close>. Lemmas: a
  GpuWorkload is created only for a root owner with a preemption annotation, under the name derived
  from it, and an existing one only ever gets its GPU counts raised.
\<close>

section \<open>Definitions\<close>

text \<open>\<^verbatim>\<open>if existing.Spec.GpuResources[resName] < count { ... = count; updated = true }\<close>\<close>

fun raise_resources :: "int gomap \<Rightarrow> int gomap \<Rightarrow> int gomap \<times> bool" where
  "raise_resources [] res = (res, False)"
| "raise_resources ((resName, count) # rest) res =
     (if map_get 0 res resName < count
      then (fst (raise_resources rest (AList.update resName count res)), True)
      else raise_resources rest res)"

definition initial_gw :: "string \<Rightarrow> string \<Rightarrow> GpuWorkloadSpec \<Rightarrow> GpuWorkload" where
  "initial_gw ns name spec = \<lparr>gw_name = name, gw_namespace = ns, gw_resourceVersion = 0,
     gw_creationTimestamp = 0, gw_spec = spec, gw_status = empty_status\<rparr>"

definition initial_spec :: "WorkloadReference \<Rightarrow> int gomap \<Rightarrow> GpuWorkloadSpec" where
  "initial_spec ref gpuResources = \<lparr>sp_workloadRef = ref, sp_gpuResources = gpuResources,
     sp_utilizationThreshold = None, sp_gracePeriod = None, sp_preemptionPolicy = None,
     sp_aggregationPolicy = None, sp_ttlAfterFinished = None\<rparr>"

text \<open>The requests it returns are namespaced names; \<open>None\<close> is Go's \<^verbatim>\<open>nil\<close>.\<close>

definition upsertGpuWorkloadForPreemption ::
    "GpuApi \<Rightarrow> GpuCtx \<Rightarrow> RootOwnerResult \<Rightarrow> Object \<Rightarrow> int gomap \<Rightarrow> string \<Rightarrow> (string \<times> string) option gpu_prog" where
  "upsertGpuWorkloadForPreemption api cx rootResult rootObj gpuResources ns = do {
     n \<leftarrow> Get_Namespace api ns;
     let nsAnnotations = (case n of Inl _ \<Rightarrow> [] | Inr a \<Rightarrow> a);
     let annotations = mergePreemptionAnnotations nsAnnotations (ob_annotations rootObj);
     (if \<not> isGpuPreemptionAnnotated annotations then ret None
      else do {
        let ref = ro_ref rootResult;
        let gwName = GpuWorkloadName (ref_kind ref) (ref_name ref) (ref_uid ref);
        let request = Some (ro_namespace rootResult, gwName);
        r \<leftarrow> Get_GpuWorkload api (ro_namespace rootResult) gwName;
        (case r of
           Inl e \<Rightarrow>
             if e \<noteq> NotFound then ret None
             else do {
               let gw = initial_gw (ro_namespace rootResult) gwName
                          (parseAnnotationsIntoSpec (cx_env cx) annotations (initial_spec ref gpuResources));
               c \<leftarrow> Create_GpuWorkload api gw;
               (case c of
                  Inl _ \<Rightarrow> ret request
                | Inr created \<Rightarrow> do {
                    _ \<leftarrow> Status_Update api (created\<lparr>gw_status := (gw_status created)\<lparr>
                           st_phase := PhasePendingOther, st_ownerChain := ro_ownerChain rootResult\<rparr>\<rparr>);
                    ret request
                  })
             }
         | Inr existing \<Rightarrow> do {
             let (res, updated) = raise_resources gpuResources (gw_resources existing);
             (if updated then do {
                _ \<leftarrow> Update_GpuWorkload api (existing\<lparr>gw_spec := (gw_spec existing)\<lparr>sp_gpuResources := res\<rparr>\<rparr>);
                ret request
              }
              else ret request)
           })
      })
   }"

definition podToGpuWorkload :: "GpuApi \<Rightarrow> GpuCtx \<Rightarrow> Pod \<Rightarrow> (string \<times> string) option gpu_prog" where
  "podToGpuWorkload api cx pod = do {
     let gpuResources = podGpuResources pod;
     (if gpuResources = [] then ret None
      else do {
        r \<leftarrow> ResolveRootOwner api cx (pod_namespace pod) (pod_name pod) ''Pod'' ''v1'';
        (case r of
           Inl _ \<Rightarrow> ret None
         | Inr rootResult \<Rightarrow> do {
             o' \<leftarrow> Get_Object api (gvkFromAPIVersionKind cx (ref_apiVersion (ro_ref rootResult)) (ref_kind (ro_ref rootResult)))
                    (ro_namespace rootResult) (ref_name (ro_ref rootResult));
             (case o' of
                Inl _ \<Rightarrow> ret None
              | Inr rootObj \<Rightarrow>
                  upsertGpuWorkloadForPreemption api cx rootResult rootObj gpuResources (pod_namespace pod))
           })
      })
   }"

text \<open>The controller reference of the Kueue Workload, or else its first reference.\<close>

definition workload_owner :: "KueueWorkload \<Rightarrow> OwnerReference option" where
  "workload_owner wl =
     (case getControllerOwnerRef (wl_ownerReferences wl) of
        Some ref \<Rightarrow> Some ref
      | None \<Rightarrow> (case wl_ownerReferences wl of [] \<Rightarrow> None | ref # _ \<Rightarrow> Some ref))"

definition workloadToGpuWorkload :: "GpuApi \<Rightarrow> GpuCtx \<Rightarrow> KueueWorkload \<Rightarrow> (string \<times> string) option gpu_prog" where
  "workloadToGpuWorkload api cx wl =
     (case workload_owner wl of
        None \<Rightarrow> ret None
      | Some ownerRef \<Rightarrow> do {
          r \<leftarrow> ResolveRootOwner api cx (wl_namespace wl) (o_name ownerRef) (o_kind ownerRef) (o_apiVersion ownerRef);
          (case r of
             Inl _ \<Rightarrow> ret None
           | Inr rootResult \<Rightarrow> do {
               o' \<leftarrow> Get_Object api (gvkFromAPIVersionKind cx (ref_apiVersion (ro_ref rootResult)) (ref_kind (ro_ref rootResult)))
                      (ro_namespace rootResult) (ref_name (ro_ref rootResult));
               (case o' of
                  Inl _ \<Rightarrow> ret None
                | Inr rootObj \<Rightarrow>
                    let gpuResources = extractGpuResourcesFromUnstructuredOwner rootObj
                    in if gpuResources = [] then ret None
                       else upsertGpuWorkloadForPreemption api cx rootResult rootObj gpuResources (wl_namespace wl))
             })
        })"

section \<open>Properties\<close>

lemma raise_resources_get:
  "distinct (map fst kvs) \<Longrightarrow>
   map_get 0 (fst (raise_resources kvs res)) r =
     (if has_key kvs r then max (map_get 0 res r) (map_get 0 kvs r) else map_get 0 res r)"
proof (induction kvs res rule: raise_resources.induct)
  case (2 resName count rest res)
  have "\<not> has_key rest resName" using "2.prems" by (auto simp: has_key_iff)
  with 2 show ?case by (auto simp: map_get_update)
qed simp

lemma raise_resources_updated: "snd (raise_resources kvs res) \<longleftrightarrow> (\<exists>r c. (r, c) \<in> set kvs \<and> map_get 0 res r < c)"
  by (induction kvs res rule: raise_resources.induct) auto

definition upsert_event_ok ::
    "GpuCtx \<Rightarrow> RootOwnerResult \<Rightarrow> Object \<Rightarrow> int gomap \<Rightarrow> gpu_event list \<Rightarrow> gpu_event \<Rightarrow> bool" where
  "upsert_event_ok cx rootResult rootObj gpuResources events e =
     (let ref = ro_ref rootResult; gwName = GpuWorkloadName (ref_kind ref) (ref_name ref) (ref_uid ref)
      in case e of
           EvCreate gw _ \<Rightarrow>
             (\<exists>ns n. EvGetNamespace ns n \<in> set events \<and>
                isGpuPreemptionAnnotated (mergePreemptionAnnotations (case n of Inl _ \<Rightarrow> [] | Inr a \<Rightarrow> a) (ob_annotations rootObj))) \<and>
             EvGetGpuWorkload (ro_namespace rootResult) gwName (Inl NotFound) \<in> set events \<and>
             gw_name gw = gwName \<and> gw_namespace gw = ro_namespace rootResult \<and>
             gw_ref gw = ref \<and> gw_resources gw = gpuResources
         | EvUpdate gw _ \<Rightarrow>
             (\<exists>existing. EvGetGpuWorkload (ro_namespace rootResult) gwName (Inr existing) \<in> set events \<and>
                gw_status gw = gw_status existing \<and> gw_ref gw = gw_ref existing \<and>
                (\<forall>r. map_get 0 (gw_resources gw) r =
                   (if has_key gpuResources r then max (map_get 0 (gw_resources existing) r) (map_get 0 gpuResources r)
                    else map_get 0 (gw_resources existing) r)) \<and>
                (\<exists>r. map_get 0 (gw_resources existing) r < map_get 0 (gw_resources gw) r))
         | EvUpdateStatus gw _ \<Rightarrow> gw_phase gw = PhasePendingOther \<and> (\<exists>g c. EvCreate g c \<in> set events)
         | EvDelete _ _ \<Rightarrow> False
         | EvDeleteObject _ _ _ _ \<Rightarrow> False
         | _ \<Rightarrow> True)"

lemma upsert_does:
  assumes "distinct (map fst gpuResources)"
  shows "does (\<lambda>_ new. \<forall>e \<in> set new. upsert_event_ok cx rootResult rootObj gpuResources new e)
     (upsertGpuWorkloadForPreemption api cx rootResult rootObj gpuResources ns)"
proof -
  have raised: "(\<forall>r. map_get 0 res r = (if has_key gpuResources r then max (map_get 0 old r) (map_get 0 gpuResources r)
        else map_get 0 old r)) \<and> (\<exists>r. map_get 0 old r < map_get 0 res r)"
    if "raise_resources gpuResources old = (res, True)" for old res
  proof -
    have get: "map_get 0 res r = (if has_key gpuResources r then max (map_get 0 old r) (map_get 0 gpuResources r)
        else map_get 0 old r)" for r
      using raise_resources_get [OF assms, of old r] that by simp
    have "snd (raise_resources gpuResources old)" using that by simp
    then obtain r c where "(r, c) \<in> set gpuResources" "map_get 0 old r < c"
      unfolding raise_resources_updated by blast
    moreover from this have "has_key gpuResources r" "map_get 0 gpuResources r = c"
      using assms by (auto simp: has_key_iff map_get_def rev_image_eqI)
    ultimately have "map_get 0 old r < map_get 0 res r" by (simp add: get)
    with get show ?thesis by blast
  qed
  show ?thesis
    unfolding upsertGpuWorkloadForPreemption_def client_defs Let_def
    by (intro does_intros)
      (auto simp: upsert_event_ok_def Let_def initial_gw_def initial_spec_def parseAnnotationsIntoSpec_frame
         dest!: raised)
qed

text \<open>
  What discovery writes, whatever the server answers. A GpuWorkload is created only when the root
  owner or its namespace carries a preemption annotation and no GpuWorkload of the derived name was
  found; it refers to the root owner and requests the given GPU counts. An existing GpuWorkload is
  updated only when a count grows: each count becomes the larger of the old and the new one, and neither
  its status nor its reference change. Nothing is deleted.
\<close>

theorem upsert_writes:
  assumes "distinct (map fst gpuResources)"
  shows "\<exists>new. history_of (upsertGpuWorkloadForPreemption api cx rootResult rootObj gpuResources ns) h = h @ new \<and>
     (\<forall>e \<in> set new. upsert_event_ok cx rootResult rootObj gpuResources new e)"
  using doesD [OF upsert_does [OF assms], where h = h] by metis

definition example_root :: RootOwnerResult where
  "example_root = \<lparr>ro_ref = \<lparr>ref_apiVersion = ''v1'', ref_kind = ''Job'', ref_name = ''train'', ref_uid = ''u1''\<rparr>,
     ro_ownerChain = ''Pod/p -> Job/train'', ro_namespace = ''ns''\<rparr>"

definition example_rootObj :: Object where
  "example_rootObj = (example_object ''Job'' ''train'' ''u1'' [])\<lparr>ob_annotations := [(AnnotationPolicy, ''Always'')]\<rparr>"

lemma upsert_run:
  "\<exists>pre gw c post. history_of (upsertGpuWorkloadForPreemption empty_api example_ctx example_root example_rootObj
     [(''amd.com/gpu'', 2)] ''ns'') [] = pre @ EvCreate gw c # post \<and> gw_name gw = ''job-train-u1''"
  by (rule exI [of _ "[EvGetNamespace ''ns'' (Inl NotFound), EvGetGpuWorkload ''ns'' ''job-train-u1'' (Inl NotFound)]"])
    (simp add: history_of_def upsertGpuWorkloadForPreemption_def client_defs empty_api_def example_root_def
      example_rootObj_def example_object_def mergePreemptionAnnotations_def put_all_def isGpuPreemptionAnnotated_def
      AnnotationPolicy_def HasPrefix_def GpuWorkloadName_def ToLower_def to_lower_char_def is_upper_def between_def
      initial_gw_def Let_def char_of_eq_iff)

theorem upsert_writes_witness:
  "\<exists>new gw c. EvCreate gw c \<in> set new \<and> gw_name gw = ''job-train-u1'' \<and>
     upsert_event_ok example_ctx example_root example_rootObj [(''amd.com/gpu'', 2)] new (EvCreate gw c)"
proof -
  obtain pre gw c post where h: "history_of (upsertGpuWorkloadForPreemption empty_api example_ctx example_root
      example_rootObj [(''amd.com/gpu'', 2)] ''ns'') [] = pre @ EvCreate gw c # post" "gw_name gw = ''job-train-u1''"
    using upsert_run by blast
  have "EvCreate gw c \<in> set (pre @ EvCreate gw c # post)" by simp
  moreover have "\<forall>e \<in> set (pre @ EvCreate gw c # post).
      upsert_event_ok example_ctx example_root example_rootObj [(''amd.com/gpu'', 2)] (pre @ EvCreate gw c # post) e"
    using upsert_writes [of "[(''amd.com/gpu'', 2)]" empty_api example_ctx example_root example_rootObj "''ns''" "[]"] h(1)
    by simp
  ultimately show ?thesis using h(2) by blast
qed

end
