(* ===== verification/GpuScraper.thy ===== *)
theory GpuScraper
  imports GpuClient
begin

text \<open>
  The metrics scraper, \<^verbatim>\<open>internal/controller/gpuworkload_scraper.go\<close>: parsing of the samples, their
  assignment to tracked pods and the status writes of one polling cycle. The HTTP request and the
  Prometheus text parser are outside the repository: what they return is an argument of \<open>poll\<close>. The
  workloads of a cycle are shared through pointers, so the cycle threads the list of them as an
  explicit store. Lemmas: what a write may change, that samples are recorded to within their
  rounding, and that a repeated sample set writes nothing.
\<close>

section \<open>Definitions\<close>

text \<open>\<^verbatim>\<open>dto.Metric\<close>: label pairs and values are pointers; a gauge or untyped value may be absent.\<close>

record Metric =
  mt_labels :: "(string option \<times> string option) list"
  mt_gauge :: "rat option option"
  mt_untyped :: "rat option option"

record gpuSample =
  sa_namespace :: string
  sa_podName :: string
  sa_gpuID :: string
  sa_utilization :: rat

definition gpuActivityMetric :: string where "gpuActivityMetric = ''gpu_gfx_activity''"
definition utilizationEpsilon :: rat where "utilizationEpsilon = 1 / 100"

definition prometheusSampleValue :: "Metric option \<Rightarrow> rat option" where
  "prometheusSampleValue m =
     (case m of None \<Rightarrow> None
      | Some m \<Rightarrow> (case mt_gauge m of Some (Some v) \<Rightarrow> Some v
                  | _ \<Rightarrow> (case mt_untyped m of Some (Some v) \<Rightarrow> Some v | _ \<Rightarrow> None)))"

fun firstNonEmpty :: "string gomap \<Rightarrow> string list \<Rightarrow> string" where
  "firstNonEmpty labels [] = []"
| "firstNonEmpty labels (k # ks) =
     (let v = map_get [] labels k in if v \<noteq> [] then v else firstNonEmpty labels ks)"

definition label_map :: "(string option \<times> string option) list \<Rightarrow> string gomap" where
  "label_map lps = fold (\<lambda>lp m. case lp of (Some n, Some v) \<Rightarrow> AList.update n v m | _ \<Rightarrow> m) lps []"

definition parse_metric :: "Metric \<Rightarrow> gpuSample option" where
  "parse_metric m =
     (let labels = label_map (mt_labels m);
          ns = firstNonEmpty labels [''namespace'', ''kubernetes_namespace'', ''k8s_namespace_name'', ''k8s.namespace.name''];
          pod = firstNonEmpty labels [''pod'', ''pod_name'', ''kubernetes_pod_name'', ''k8s_pod_name'', ''k8s.pod.name''];
          gpuID = firstNonEmpty labels [''gpu_id'', ''gpu'']
      in if ns = [] \<or> pod = [] then None
         else (case prometheusSampleValue (Some m) of
                 None \<Rightarrow> None
               | Some util \<Rightarrow> Some \<lparr>sa_namespace = ns, sa_podName = pod, sa_gpuID = gpuID, sa_utilization = util\<rparr>))"

definition parseGpuSamples :: "Metric list \<Rightarrow> gpuSample list" where
  "parseGpuSamples family = List.map_filter parse_metric family"

text \<open>The inner loop over the metrics of a pod: \<open>None\<close> when the GPU is not listed yet.\<close>

fun update_metric :: "string \<Rightarrow> rat \<Rightarrow> int \<Rightarrow> GpuMetric list \<Rightarrow> (GpuMetric list \<times> bool) option" where
  "update_metric gpuID rounded now [] = None"
| "update_metric gpuID rounded now (gm # gms) =
     (if gm_gpuID gm = gpuID then
        (if \<bar>gm_utilization gm - rounded\<bar> > utilizationEpsilon
         then Some (gm\<lparr>gm_utilization := rounded, gm_lastUpdate := now\<rparr> # gms, True)
         else Some (gm # gms, False))
      else (case update_metric gpuID rounded now gms of
              None \<Rightarrow> None
            | Some (gms', c) \<Rightarrow> Some (gm # gms', c)))"

definition apply_sample :: "int \<Rightarrow> gpuSample \<Rightarrow> GpuMetric list \<times> bool \<Rightarrow> GpuMetric list \<times> bool" where
  "apply_sample now sample s =
     (case s of (gms, changed) \<Rightarrow>
        let rounded = round2 (sa_utilization sample)
        in case update_metric (sa_gpuID sample) rounded now gms of
             Some (gms', c) \<Rightarrow> (gms', changed \<or> c)
           | None \<Rightarrow> (gms @ [\<lparr>gm_gpuID = sa_gpuID sample, gm_utilization = rounded, gm_lastUpdate = now\<rparr>], True))"

text \<open>The first tracked pod of the name is the one that is changed; \<open>None\<close> when there is none.\<close>

fun apply_to_pod :: "(GpuMetric list \<Rightarrow> GpuMetric list \<times> bool) \<Rightarrow> string \<Rightarrow> TrackedPod list \<Rightarrow> (TrackedPod list \<times> bool) option" where
  "apply_to_pod f podName [] = None"
| "apply_to_pod f podName (tp # tps) =
     (if tp_podName tp = podName
      then (case f (tp_gpuMetrics tp) of (gms, c) \<Rightarrow> Some (tp\<lparr>tp_gpuMetrics := gms\<rparr> # tps, c))
      else (case apply_to_pod f podName tps of
              None \<Rightarrow> None
            | Some (tps', c) \<Rightarrow> Some (tp # tps', c)))"

definition applyUtilizationSamples ::
    "GpuWorkload \<Rightarrow> string \<Rightarrow> gpuSample list \<Rightarrow> int \<Rightarrow> GpuWorkload \<times> bool" where
  "applyUtilizationSamples gw podName samples now =
     (case apply_to_pod (\<lambda>gms. fold (apply_sample now) samples (gms, False)) podName (st_trackedPods (gw_status gw)) of
        None \<Rightarrow> (gw, False)
      | Some (tps, changed) \<Rightarrow>
          (gw\<lparr>gw_status := (gw_status gw)\<lparr>st_trackedPods := tps,
             st_lastMetricsUpdate := (if changed then Some now else st_lastMetricsUpdate (gw_status gw))\<rparr>\<rparr>, changed))"

text \<open>The workload the pointer holds afterwards, and whether an update was stored.\<close>

definition updatePodMetrics ::
    "GpuApi \<Rightarrow> GpuWorkload \<Rightarrow> string \<Rightarrow> gpuSample list \<Rightarrow> (GpuWorkload \<times> bool) gpu_prog" where
  "updatePodMetrics api gw podName samples = do {
     now \<leftarrow> Now api;
     let (gw1, changed) = applyUtilizationSamples gw podName samples now;
     (if \<not> changed then ret (gw1, False)
      else do {
        u \<leftarrow> Status_Update api gw1;
        (case u of
           Inr gw2 \<Rightarrow> ret (gw2, True)
         | Inl e \<Rightarrow>
             if e \<noteq> Conflict then ret (gw1, False)
             else do {
               g \<leftarrow> Get_GpuWorkload api (gw_namespace gw1) (gw_name gw1);
               (case g of
                  Inl _ \<Rightarrow> ret (gw1, False)
                | Inr fresh \<Rightarrow>
                    (let (fresh1, changed') = applyUtilizationSamples fresh podName samples now
                     in if \<not> changed' then ret (gw1, False)
                        else do {
                          u' \<leftarrow> Status_Update api fresh1;
                          ret (gw1, (case u' of Inl _ \<Rightarrow> False | Inr _ \<Rightarrow> True))
                        }))
             })
      })
   }"

type_synonym podKey = "string \<times> string"

definition group_samples :: "gpuSample list \<Rightarrow> (podKey \<times> gpuSample list) list" where
  "group_samples samples = fold (\<lambda>s m.
     let key = (sa_namespace s, sa_podName s);
         old = (case map_of m key of None \<Rightarrow> [] | Some l \<Rightarrow> l)
     in AList.update key (old @ [s]) m) samples []"

text \<open>The reverse map from pods to workloads: the value is the index in the listed items.\<close>

definition gw_by_pod :: "GpuWorkload list \<Rightarrow> (podKey \<times> nat) list" where
  "gw_by_pod items = fold (\<lambda>i m.
     if gw_phase (items ! i) = PhasePreempted \<or> gw_phase (items ! i) = PhaseDeleted then m
     else fold (\<lambda>tp m. AList.update (gw_namespace (items ! i), tp_podName tp) i m)
            (st_trackedPods (gw_status (items ! i))) m) [0..<length items] []"

fun poll_pods ::
    "GpuApi \<Rightarrow> (podKey \<times> nat) list \<Rightarrow> (podKey \<times> gpuSample list) list \<Rightarrow> GpuWorkload list \<Rightarrow> nat \<Rightarrow> nat gpu_prog" where
  "poll_pods api gwByPod [] items updated = ret updated"
| "poll_pods api gwByPod ((pk, podSamples) # rest) items updated =
     (case map_of gwByPod pk of
        None \<Rightarrow> poll_pods api gwByPod rest items updated
      | Some i \<Rightarrow> do {
          r \<leftarrow> updatePodMetrics api (items ! i) (snd pk) podSamples;
          poll_pods api gwByPod rest (items[i := fst r]) (if snd r then Suc updated else updated)
        })"

text \<open>
  \<open>metrics\<close> is what \<^verbatim>\<open>scrape\<close> returns, \<open>order\<close> the order in which the map of pods is visited. The
  result is an error or the number of stored updates.
\<close>

definition poll ::
    "GpuApi \<Rightarrow> ((podKey \<times> gpuSample list) list \<Rightarrow> (podKey \<times> gpuSample list) list) \<Rightarrow>
     (api_error + Metric list gomap) \<Rightarrow> (api_error + nat) gpu_prog" where
  "poll api order metrics =
     (case metrics of
        Inl e \<Rightarrow> ret (Inl e)
      | Inr families \<Rightarrow>
          (case map_of families gpuActivityMetric of
             None \<Rightarrow> ret (Inr 0)
           | Some family \<Rightarrow>
               let samples = parseGpuSamples family
               in if samples = [] then ret (Inr 0)
                  else do {
                    l \<leftarrow> List_GpuWorkloads api;
                    (case l of
                       Inl e \<Rightarrow> ret (Inl e)
                     | Inr items \<Rightarrow> do {
                         n \<leftarrow> poll_pods api (gw_by_pod items) (order (group_samples samples)) items 0;
                         ret (Inr n)
                       })
                  }))"

section \<open>One set of samples\<close>

lemma update_metric_None: "update_metric g r now gms = None \<longleftrightarrow> g \<notin> gm_gpuID ` set gms"
  by (induction gms) (auto split: option.splits)

lemma update_metric_ids: "update_metric g r now gms = Some (gms', c) \<Longrightarrow> map gm_gpuID gms' = map gm_gpuID gms"
  by (induction gms arbitrary: gms' c) (auto split: option.splits if_splits)

lemma update_metric_same: "update_metric g r now gms = Some (gms', False) \<Longrightarrow> gms' = gms"
  by (induction gms arbitrary: gms') (auto split: option.splits if_splits)

text \<open>The recorded value of a GPU: the first metric with its identifier.\<close>

definition recorded :: "GpuMetric list \<Rightarrow> string \<Rightarrow> rat option" where
  "recorded gms g = map_option gm_utilization (List.find (\<lambda>gm. gm_gpuID gm = g) gms)"

lemma recorded_simps [simp]:
  "recorded [] g = None"
  "recorded (gm # gms) g = (if gm_gpuID gm = g then Some (gm_utilization gm) else recorded gms g)"
  by (simp_all add: recorded_def)

lemma recorded_append: "recorded (gms @ gms') g = (case recorded gms g of None \<Rightarrow> recorded gms' g | Some u \<Rightarrow> Some u)"
  by (induction gms) auto

lemma recorded_None: "recorded gms g = None \<longleftrightarrow> g \<notin> gm_gpuID ` set gms"
  by (induction gms) auto

lemma update_metric_recorded:
  assumes "update_metric g r now gms = Some (gms', c)"
  shows "recorded gms' g' = (if g' = g \<and> c then Some r else recorded gms g') \<and>
    (\<exists>u. recorded gms' g = Some u \<and> \<bar>u - r\<bar> \<le> utilizationEpsilon)"
  using assms
proof (induction gms arbitrary: gms' c)
  case (Cons gm gms)
  show ?case
  proof (cases "gm_gpuID gm = g")
    case True
    then show ?thesis using Cons.prems by (auto simp: utilizationEpsilon_def split: if_splits)
  next
    case False
    then obtain gms1 where "update_metric g r now gms = Some (gms1, c)" "gms' = gm # gms1"
      using Cons.prems by (auto split: option.splits)
    with Cons.IH False show ?thesis by auto
  qed
qed simp

lemma apply_sample_recorded:
  assumes "apply_sample now s (gms, b) = (gms', b')"
  shows "\<exists>u. recorded gms' (sa_gpuID s) = Some u \<and> \<bar>u - round2 (sa_utilization s)\<bar> \<le> utilizationEpsilon"
    and "g \<noteq> sa_gpuID s \<Longrightarrow> recorded gms' g = recorded gms g"
    and "b' = b \<Longrightarrow> \<not> b \<Longrightarrow> gms' = gms"
    and "b \<Longrightarrow> b'"
proof -
  let ?r = "round2 (sa_utilization s)"
  consider (new) "update_metric (sa_gpuID s) ?r now gms = None"
      "gms' = gms @ [\<lparr>gm_gpuID = sa_gpuID s, gm_utilization = ?r, gm_lastUpdate = now\<rparr>]" "b'"
    | (old) c where "update_metric (sa_gpuID s) ?r now gms = Some (gms', c)" "b' = (b \<or> c)"
    using assms by (auto simp: apply_sample_def Let_def split: option.splits)
  note cs = this
  show "\<exists>u. recorded gms' (sa_gpuID s) = Some u \<and> \<bar>u - ?r\<bar> \<le> utilizationEpsilon"
    using cs
  proof cases
    case new
    then have "recorded gms (sa_gpuID s) = None" by (simp add: update_metric_None recorded_None)
    with new show ?thesis by (simp add: recorded_append utilizationEpsilon_def)
  qed (use update_metric_recorded in blast)
  show "recorded gms' g = recorded gms g" if "g \<noteq> sa_gpuID s"
    using cs
  proof cases
    case new
    with that show ?thesis by (simp add: recorded_append split: option.splits)
  next
    case old
    with update_metric_recorded [OF old(1), of g] that show ?thesis by simp
  qed
  show "gms' = gms" if "b' = b" "\<not> b" using cs that by cases (auto dest: update_metric_same)
  show "b'" if "b" using cs that by cases auto
qed

lemma fold_samples:
  assumes "distinct (map sa_gpuID samples)" and "fold (apply_sample now) samples (gms, b) = (gms', b')"
  shows "(\<forall>s \<in> set samples. \<exists>u. recorded gms' (sa_gpuID s) = Some u \<and>
            \<bar>u - round2 (sa_utilization s)\<bar> \<le> utilizationEpsilon) \<and>
    (\<forall>g. g \<notin> sa_gpuID ` set samples \<longrightarrow> recorded gms' g = recorded gms g) \<and>
    (\<not> b' \<longrightarrow> gms' = gms) \<and> (b \<longrightarrow> b')"
  using assms
proof (induction samples arbitrary: gms b)
  case (Cons s samples)
  obtain gms1 b1 where s1: "apply_sample now s (gms, b) = (gms1, b1)" by fastforce
  note one = apply_sample_recorded [OF s1]
  have IH: "(\<forall>s \<in> set samples. \<exists>u. recorded gms' (sa_gpuID s) = Some u \<and>
            \<bar>u - round2 (sa_utilization s)\<bar> \<le> utilizationEpsilon) \<and>
    (\<forall>g. g \<notin> sa_gpuID ` set samples \<longrightarrow> recorded gms' g = recorded gms1 g) \<and>
    (\<not> b' \<longrightarrow> gms' = gms1) \<and> (b1 \<longrightarrow> b')"
    using Cons.IH [of gms1 b1] Cons.prems s1 by simp
  have "sa_gpuID s \<notin> sa_gpuID ` set samples" using Cons.prems(1) by auto
  then have "recorded gms' (sa_gpuID s) = recorded gms1 (sa_gpuID s)" using IH by blast
  then show ?case using one IH by (cases b) auto
qed simp

lemma update_metric_settled:
  "recorded gms g = Some u \<Longrightarrow> \<bar>u - r\<bar> \<le> utilizationEpsilon \<Longrightarrow> update_metric g r now gms = Some (gms, False)"
  by (induction gms) (auto split: if_splits)

lemma fold_samples_settled:
  "\<forall>s \<in> set samples. \<exists>u. recorded gms (sa_gpuID s) = Some u \<and> \<bar>u - round2 (sa_utilization s)\<bar> \<le> utilizationEpsilon \<Longrightarrow>
   fold (apply_sample now) samples (gms, b) = (gms, b)"
  by (induction samples) (auto simp: apply_sample_def update_metric_settled)

lemma apply_to_pod_Some:
  assumes "apply_to_pod f podName tps = Some (tps', c)"
  obtains xs tp ys where "tps = xs @ tp # ys" and "tp_podName tp = podName" and "podName \<notin> tp_podName ` set xs"
    and "tps' = xs @ tp\<lparr>tp_gpuMetrics := fst (f (tp_gpuMetrics tp))\<rparr> # ys" and "c = snd (f (tp_gpuMetrics tp))"
  using assms
proof (induction tps arbitrary: tps' thesis)
  case (Cons tp tps)
  show ?case
  proof (cases "tp_podName tp = podName")
    case True
    then show ?thesis using Cons.prems by (intro Cons.prems(1) [of "[]" tp tps]) (auto split: prod.splits)
  next
    case False
    then obtain tps1 where rec: "apply_to_pod f podName tps = Some (tps1, c)" "tps' = tp # tps1"
      using Cons.prems(2) by (auto split: option.splits)
    from Cons.IH [OF _ rec(1)] obtain xs tp' ys where "tps = xs @ tp' # ys" "tp_podName tp' = podName"
        "podName \<notin> tp_podName ` set xs" "tps1 = xs @ tp'\<lparr>tp_gpuMetrics := fst (f (tp_gpuMetrics tp'))\<rparr> # ys"
        "c = snd (f (tp_gpuMetrics tp'))" by blast
    with False rec(2) show ?thesis by (intro Cons.prems(1) [of "tp # xs" tp' ys]) auto
  qed
qed simp

lemma apply_to_pod_at:
  "podName \<notin> tp_podName ` set xs \<Longrightarrow> tp_podName tp = podName \<Longrightarrow>
   apply_to_pod f podName (xs @ tp # ys) =
     Some (xs @ tp\<lparr>tp_gpuMetrics := fst (f (tp_gpuMetrics tp))\<rparr> # ys, snd (f (tp_gpuMetrics tp)))"
  by (induction xs) (auto split: prod.splits)

definition pod_metrics :: "GpuWorkload \<Rightarrow> string \<Rightarrow> GpuMetric list" where
  "pod_metrics gw podName =
     (case List.find (\<lambda>tp. tp_podName tp = podName) (st_trackedPods (gw_status gw)) of
        None \<Rightarrow> [] | Some tp \<Rightarrow> tp_gpuMetrics tp)"

lemma find_at:
  "podName \<notin> tp_podName ` set xs \<Longrightarrow> tp_podName tp = podName \<Longrightarrow>
   List.find (\<lambda>tp. tp_podName tp = podName) (xs @ tp # ys) = Some tp"
  by (induction xs) auto

lemma apply_to_pod_None: "apply_to_pod f podName tps = None \<longleftrightarrow> podName \<notin> tp_podName ` set tps"
  by (induction tps) (auto split: option.splits prod.splits)

text \<open>
  What one set of samples does to the tracked pod it belongs to, if it names a GPU once. After it
  each sampled GPU is recorded within 0.015 of its sample (0.01 of hysteresis and the rounding), other
  GPUs of the pod keep their value; a report of no change means nothing was changed, and applying the
  same samples again, at any time, reports no change.
\<close>

theorem applyUtilizationSamples_records:
  assumes "distinct (map sa_gpuID samples)" and "podName \<in> tp_podName ` set (st_trackedPods (gw_status gw))"
    and "applyUtilizationSamples gw podName samples now = (gw', changed)"
  shows "(\<forall>s \<in> set samples. \<exists>u. recorded (pod_metrics gw' podName) (sa_gpuID s) = Some u \<and>
            \<bar>u - sa_utilization s\<bar> \<le> 15 / 1000) \<and>
    (\<forall>g. g \<notin> sa_gpuID ` set samples \<longrightarrow> recorded (pod_metrics gw' podName) g = recorded (pod_metrics gw podName) g) \<and>
    (\<not> changed \<longrightarrow> gw' = gw) \<and>
    (\<forall>later. applyUtilizationSamples gw' podName samples later = (gw', False))"
proof -
  let ?f = "\<lambda>now gms. fold (apply_sample now) samples (gms, False)"
  obtain tps where ap: "apply_to_pod (?f now) podName (st_trackedPods (gw_status gw)) = Some (tps, changed)"
    and gw': "gw' = gw\<lparr>gw_status := (gw_status gw)\<lparr>st_trackedPods := tps,
             st_lastMetricsUpdate := (if changed then Some now else st_lastMetricsUpdate (gw_status gw))\<rparr>\<rparr>"
  proof (cases "apply_to_pod (?f now) podName (st_trackedPods (gw_status gw))")
    case None
    then have False using assms(2) unfolding apply_to_pod_None by blast
    then show ?thesis ..
  next
    case (Some r)
    with assms(3) that show ?thesis by (cases r) (auto simp: applyUtilizationSamples_def)
  qed
  from ap obtain xs tp ys where tp: "st_trackedPods (gw_status gw) = xs @ tp # ys" "tp_podName tp = podName"
      "podName \<notin> tp_podName ` set xs" "tps = xs @ tp\<lparr>tp_gpuMetrics := fst (?f now (tp_gpuMetrics tp))\<rparr> # ys"
      "changed = snd (?f now (tp_gpuMetrics tp))" by (rule apply_to_pod_Some)
  obtain gms where gms: "?f now (tp_gpuMetrics tp) = (gms, changed)" using tp(5) by (metis prod.collapse)
  note all = fold_samples [OF assms(1) gms]
  have old: "pod_metrics gw podName = tp_gpuMetrics tp"
    by (simp add: pod_metrics_def tp(1) find_at [OF tp(3,2)])
  have new: "pod_metrics gw' podName = gms"
    using find_at [OF tp(3), of "tp\<lparr>tp_gpuMetrics := gms\<rparr>" ys] tp(2) gms
    by (simp add: pod_metrics_def gw' tp(4))
  have again: "applyUtilizationSamples gw' podName samples later = (gw', False)" for later
  proof -
    have "?f later gms = (gms, False)" using all by (intro fold_samples_settled) blast
    then have "apply_to_pod (?f later) podName tps = Some (tps, False)"
      using apply_to_pod_at [OF tp(3), of "tp\<lparr>tp_gpuMetrics := gms\<rparr>" "?f later" ys] tp(2,4) gms by simp
    then show ?thesis by (simp add: applyUtilizationSamples_def gw')
  qed
  have close: "\<bar>u - sa_utilization s\<bar> \<le> 15 / 1000" if "\<bar>u - round2 (sa_utilization s)\<bar> \<le> utilizationEpsilon" for u s
    using that round2_error [of "sa_utilization s"] unfolding utilizationEpsilon_def by linarith
  have "gw' = gw" if "\<not> changed"
  proof -
    have "tps = st_trackedPods (gw_status gw)" using all that tp(1,4) gms by simp
    with that gw' show ?thesis by simp
  qed
  with all close again old new show ?thesis by (auto; blast)
qed

theorem applyUtilizationSamples_records_witness:
  "\<exists>u. recorded (pod_metrics (fst (applyUtilizationSamples
       (example_gw ''g'' 1 (empty_status\<lparr>st_trackedPods := [example_tracked 80]\<rparr>)) ''p''
       [\<lparr>sa_namespace = ''ns'', sa_podName = ''p'', sa_gpuID = ''0'', sa_utilization = 7\<rparr>] 5)) ''p'') ''0'' = Some u \<and>
     \<bar>u - 7\<bar> \<le> 15 / 1000"
proof -
  let ?gw = "example_gw ''g'' 1 (empty_status\<lparr>st_trackedPods := [example_tracked 80]\<rparr>)"
  let ?ss = "[\<lparr>sa_namespace = ''ns'', sa_podName = ''p'', sa_gpuID = ''0'', sa_utilization = 7\<rparr>]"
  obtain gw' c where run: "applyUtilizationSamples ?gw ''p'' ?ss 5 = (gw', c)" by fastforce
  have "''p'' \<in> tp_podName ` set (st_trackedPods (gw_status ?gw))"
    by (simp add: example_gw_def example_tracked_def)
  from applyUtilizationSamples_records [OF _ this run] run show ?thesis by simp
qed

section \<open>One polling cycle\<close>

text \<open>The part of a workload the scraper never touches.\<close>

definition frame_of :: "GpuWorkload \<Rightarrow> GpuWorkload \<times> string list" where
  "frame_of gw = (gw\<lparr>gw_status := (gw_status gw)\<lparr>st_trackedPods := [], st_lastMetricsUpdate := None\<rparr>\<rparr>,
     map tp_podName (st_trackedPods (gw_status gw)))"

lemma apply_to_pod_names: "apply_to_pod f podName tps = Some (tps', c) \<Longrightarrow> map tp_podName tps' = map tp_podName tps"
  by (erule apply_to_pod_Some) simp

lemma applyUtilizationSamples_frame:
  "frame_of (fst (applyUtilizationSamples gw podName samples now)) = frame_of gw"
  by (auto simp: applyUtilizationSamples_def frame_of_def dest: apply_to_pod_names split: option.splits)

lemma applyUtilizationSamples_name:
  "gw_name (fst (applyUtilizationSamples gw podName samples now)) = gw_name gw"
  "gw_namespace (fst (applyUtilizationSamples gw podName samples now)) = gw_namespace gw"
  by (auto simp: applyUtilizationSamples_def split: option.splits)

text \<open>The objects the server has handed out in a trace, and the writes that keep one's frame.\<close>

definition sources :: "gpu_event list \<Rightarrow> GpuWorkload set" where
  "sources events = {gw. (\<exists>ws. EvListGpuWorkloads (Inr ws) \<in> set events \<and> gw \<in> set ws) \<or>
     (\<exists>n nm. EvGetGpuWorkload n nm (Inr gw) \<in> set events) \<or> (\<exists>g. EvUpdateStatus g (Inr gw) \<in> set events)}"

definition frames_kept :: "gpu_event list \<Rightarrow> gpu_event list \<Rightarrow> bool" where
  "frames_kept before new \<longleftrightarrow>
     (\<forall>e \<in> set new. case e of
         EvUpdateStatus g _ \<Rightarrow> (\<exists>src \<in> sources (before @ new). frame_of g = frame_of src)
       | EvListGpuWorkloads _ \<Rightarrow> True
       | EvGetGpuWorkload _ _ _ \<Rightarrow> True
       | EvNow _ \<Rightarrow> True
       | _ \<Rightarrow> False)"

lemma sources_mono: "set a \<subseteq> set b \<Longrightarrow> sources a \<subseteq> sources b"
  by (auto simp: sources_def)

lemma frames_kept_append:
  assumes "frames_kept b n1" and "frames_kept (b @ n1) n2"
  shows "frames_kept b (n1 @ n2)"
proof -
  have "sources (b @ n1) \<subseteq> sources (b @ n1 @ n2)" by (rule sources_mono) auto
  with assms show ?thesis unfolding frames_kept_def by (fastforce split: gpu_event.splits)
qed

definition known :: "gpu_event list \<Rightarrow> GpuWorkload \<Rightarrow> bool" where
  "known events gw \<longleftrightarrow> (\<exists>src \<in> sources events. frame_of gw = frame_of src)"

lemma known_mono: "known a gw \<Longrightarrow> set a \<subseteq> set b \<Longrightarrow> known b gw"
  unfolding known_def using sources_mono by blast

lemma updatePodMetrics_does:
  assumes "known b gw"
  shows "does (\<lambda>r n. frames_kept b n \<and> known (b @ n) (fst r)) (updatePodMetrics api gw podName samples)"
proof -
  have gw1: "known (b @ n) (fst (applyUtilizationSamples gw podName samples now))" for n now
    using known_mono [OF assms, of "b @ n"] by (simp add: known_def applyUtilizationSamples_frame)
  have fresh1: "known (b @ [e1, e2, EvGetGpuWorkload ns nm (Inr fresh), e3])
      (fst (applyUtilizationSamples fresh podName samples now))" for e1 e2 e3 now fresh ns nm
    by (auto simp: known_def sources_def applyUtilizationSamples_frame)
  have stored: "known (b @ n) gw2" if "EvUpdateStatus g (Inr gw2) \<in> set n" for g gw2 n
    using that by (auto simp: known_def sources_def)
  show ?thesis
    unfolding updatePodMetrics_def client_defs
    by (intro does_intros)
      (auto simp: frames_kept_def known_def [symmetric] intro: gw1 [unfolded fst_conv] fresh1 stored
        dest!: arg_cong [of _ _ fst])
qed

lemma poll_pods_does:
  "list_all (known b) items \<Longrightarrow> \<forall>pk i. map_of gwByPod pk = Some i \<longrightarrow> i < length items \<Longrightarrow>
   does (\<lambda>_ n. frames_kept b n) (poll_pods api gwByPod pods items updated)"
proof (induction pods arbitrary: b items updated)
  case Nil
  then show ?case by (auto intro!: does_return simp: frames_kept_def)
next
  case (Cons p pods)
  obtain pk podSamples where p: "p = (pk, podSamples)" by fastforce
  show ?case
  proof (cases "map_of gwByPod pk")
    case None
    with Cons p show ?thesis by simp
  next
    case (Some i)
    then have i: "i < length items" using Cons.prems(2) by blast
    then have "known b (items ! i)" using Cons.prems(1) by (simp add: list_all_length)
    then show ?thesis
      unfolding p poll_pods.simps Some option.case
    proof (rule does_seq [OF updatePodMetrics_does])
      fix r :: "GpuWorkload \<times> bool" and n1
      assume r: "frames_kept b n1 \<and> known (b @ n1) (fst r)"
      have "list_all (known (b @ n1)) items"
        using Cons.prems(1) by (auto simp: list_all_iff intro: known_mono)
      then have "list_all (known (b @ n1)) (items[i := fst r])"
        using r by (auto simp: list_all_iff dest: set_update_subset_insert [THEN subsetD])
      then have "does (\<lambda>_ n2. frames_kept (b @ n1) n2)
          (poll_pods api gwByPod pods (items[i := fst r]) (if snd r then Suc updated else updated))"
        using Cons.IH Cons.prems(2) by simp
      then show "does (\<lambda>_ n2. frames_kept b (n1 @ n2))
          (poll_pods api gwByPod pods (items[i := fst r]) (if snd r then Suc updated else updated))"
        by (rule does_mono) (use r frames_kept_append in blast)
    qed
  qed
qed

lemma gw_by_pod_index: "map_of (gw_by_pod items) pk = Some i \<Longrightarrow> i < length items"
proof -
  have inner: "(\<forall>pk i. map_of m pk = Some i \<longrightarrow> i < n) \<Longrightarrow> k < n \<Longrightarrow>
      \<forall>pk i. map_of (fold (\<lambda>tp m. AList.update (f k, tp_podName tp) k m) tps m) pk = Some i \<longrightarrow> i < n"
    for m :: "(podKey \<times> nat) list" and n k tps and f :: "nat \<Rightarrow> string"
  proof (induction tps arbitrary: m)
    case (Cons tp tps)
    have "\<forall>pk i. map_of (AList.update (f k, tp_podName tp) k m) pk = Some i \<longrightarrow> i < n"
      using Cons.prems by (simp add: update_conv')
    from Cons.IH [OF this Cons.prems(2)] show ?case by simp
  qed simp
  have "\<forall>pk i. map_of m pk = Some i \<longrightarrow> i < length items \<Longrightarrow> set ks \<subseteq> {..<length items} \<Longrightarrow>
     \<forall>pk i. map_of (fold (\<lambda>i m. if gw_phase (items ! i) = PhasePreempted \<or> gw_phase (items ! i) = PhaseDeleted then m
       else fold (\<lambda>tp m. AList.update (gw_namespace (items ! i), tp_podName tp) i m)
            (st_trackedPods (gw_status (items ! i))) m) ks m) pk = Some i \<longrightarrow> i < length items" for ks m
  proof (induction ks arbitrary: m)
    case (Cons k ks)
    have "\<forall>pk i. map_of (fold (\<lambda>tp m. AList.update (gw_namespace (items ! k), tp_podName tp) k m)
        (st_trackedPods (gw_status (items ! k))) m) pk = Some i \<longrightarrow> i < length items"
      using inner [of m "length items" k "\<lambda>i. gw_namespace (items ! i)"] Cons.prems by simp
    with Cons show ?case by simp
  qed simp
  from this [of "[]" "[0..<length items]"] show "map_of (gw_by_pod items) pk = Some i \<Longrightarrow> i < length items"
    unfolding gw_by_pod_def by (cases pk) (simp add: subset_iff)
qed

text \<open>
  The scraper and the reconciler share the status but not its fields. Every status that a polling
  cycle writes agrees with an object the server had handed out in the same cycle in everything except
  the metrics of its tracked pods and the time of the last metrics update: phase, idle time,
  preemption record, the set of tracked pods, spec and resource version are kept. The cycle performs
  no other write.
\<close>

theorem poll_keeps_frames:
  "\<exists>new. history_of (poll api order metrics) h = h @ new \<and> frames_kept [] new"
proof -
  have "does (\<lambda>_ n. frames_kept [] n) (poll api order metrics)"
  proof (cases metrics)
    case (Inr families)
    have pods: "does (\<lambda>_ n. frames_kept [EvListGpuWorkloads (Inr items)] n)
        (poll_pods api (gw_by_pod items) pods items 0)" for items pods
      by (rule poll_pods_does) (auto simp: known_def sources_def list_all_iff gw_by_pod_index)
    have first: "frames_kept [] [EvListGpuWorkloads l]" for l by (simp add: frames_kept_def)
    have tail: "does (\<lambda>_ n2. frames_kept [] ([EvListGpuWorkloads l] @ n2))
        (case l of Inl e \<Rightarrow> ret (Inl e) | Inr items \<Rightarrow>
           do { n \<leftarrow> poll_pods api (gw_by_pod items) (order ps) items 0; ret (Inr n) })" for l ps
    proof (cases l)
      case (Inr items)
      then show ?thesis
        using frames_kept_append [OF first]
        by (auto intro!: does_seq [OF pods] does_return)
    qed (use first in \<open>auto intro!: does_return\<close>)
    show ?thesis
      unfolding poll_def Inr sum.case List_GpuWorkloads_def Let_def
      by (intro does_case_option does_if does_return does_bind does_call tail) (simp_all add: frames_kept_def)
  qed (auto simp: poll_def frames_kept_def intro!: does_return)
  from doesD [OF this, where h = h] show ?thesis by metis
qed

end
