(* ===== verification/Naming.thy ===== *)
theory Naming
  imports Prelude "HOL-Library.Multiset"
begin

text \<open>
  Names and labels: \<^verbatim>\<open>internal/controller/utils/naming.go\<close>, its twin \<^verbatim>\<open>pkg/utils/naming.go\<close> and the
  name helpers of \<^verbatim>\<open>pkg/utils/utils.go\<close>. The two packages share the code of
  \<open>GenerateDerivedName\<close> but call different versions of \<open>MakeRFC1123Compliant\<close>, so the sanitizer
  is an argument here, with its contract as a locale that both versions satisfy. SHA-256 and the JSON
  encoder are arguments of \<open>computeHash\<close>. Lemmas: derived names are valid and fit, hashes do not
  depend on the order of maps, labels are valid, image references are taken apart correctly.
\<close>

section \<open>Regular-expression replacement\<close>

text \<open>
  \<^verbatim>\<open>regexp.ReplaceAllString\<close> for a character class repeated at least \<open>k\<close> times: a maximal run of at
  least \<open>k\<close> characters of the class is replaced.
\<close>

function replace_runs :: "nat \<Rightarrow> (char \<Rightarrow> bool) \<Rightarrow> string \<Rightarrow> string \<Rightarrow> string" where
  "replace_runs k bad rep [] = []"
| "replace_runs k bad rep (c # s) =
     (if bad c then
        (if k \<le> Suc (length (takeWhile bad s)) then rep else c # takeWhile bad s)
          @ replace_runs k bad rep (dropWhile bad s)
      else c # replace_runs k bad rep s)"
  by pat_completeness auto
termination
  by (relation "measure (\<lambda>(k, bad, rep, s). length s)") (auto simp: le_imp_less_Suc length_dropWhile_le)

definition name_char :: "char \<Rightarrow> bool" where
  "name_char c \<longleftrightarrow> is_lower c \<or> is_digit c \<or> c = CHR ''-''"

definition label_char :: "char \<Rightarrow> bool" where
  "label_char c \<longleftrightarrow> is_lower c \<or> is_digit c \<or> c = CHR ''.'' \<or> c = CHR ''_'' \<or> c = CHR ''-''"

definition dotted_char :: "char \<Rightarrow> bool" where
  "dotted_char c \<longleftrightarrow> name_char c \<or> c = CHR ''.''"

definition is_dash :: "char \<Rightarrow> bool" where "is_dash c \<longleftrightarrow> c = CHR ''-''"

section \<open>Definitions\<close>

definition MaxKubernetesNameLength :: nat where "MaxKubernetesNameLength = 63"
definition MaxKubernetesLabelLength :: nat where "MaxKubernetesLabelLength = 63"
definition DefaultHashLength :: nat where "DefaultHashLength = 8"

text \<open>\<open>controllerutils.MakeRFC1123Compliant\<close>\<close>

definition MakeRFC1123Compliant :: "string \<Rightarrow> string" where
  "MakeRFC1123Compliant s0 =
     (let s1 = ToLower s0;
          s2 = map (\<lambda>c. if name_char c then c else CHR ''-'') s1;
          s3 = Trim s2 ''-'';
          s4 = (if length s3 > 63 then take 63 s3 else s3)
      in TrimRight s4 ''-'')"

text \<open>\<open>baseutils.MakeRFC1123Compliant\<close>\<close>

definition base_MakeRFC1123Compliant :: "string \<Rightarrow> string" where
  "base_MakeRFC1123Compliant s0 =
     (let s1 = ToLower s0;
          s2 = replace_runs 1 (\<lambda>c. \<not> dotted_char c) ''-'' s1;
          s3 = Trim s2 ''-.'';
          s4 = replace_runs 2 (\<lambda>c. c = CHR ''-'' \<or> c = CHR ''.'') ''-'' s3;
          s5 = (if length s4 > 63 then take 63 s4 else s4)
      in TrimRight s5 ''-'')"

definition FormatNameWithPostfix :: "string \<Rightarrow> string list \<Rightarrow> string" where
  "FormatNameWithPostfix name postfix =
     base_MakeRFC1123Compliant (foldl (\<lambda>built p. built @ ''-'' @ p) name postfix)"

text \<open>Values that can be hashed; \<open>JOther\<close> stands for any other Go value, which is kept as it is.\<close>

datatype gojson = JNull | JString string | JMap "(string \<times> gojson) list" | JSlice "gojson list" | JOther string

text \<open>A map becomes the list of its keys, sorted, each followed by its value.\<close>

fun normalizeDeterministic :: "gojson \<Rightarrow> gojson" where
  "normalizeDeterministic (JMap m) =
     JSlice (concat (map (\<lambda>(k, v). [JString k, v]) (sort_key fst (map (\<lambda>(k, v). (k, normalizeDeterministic v)) m))))"
| "normalizeDeterministic (JSlice vs) = JSlice (map normalizeDeterministic vs)"
| "normalizeDeterministic v = v"

text \<open>\<open>marshal\<close> is \<^verbatim>\<open>json.Marshal\<close>, \<open>sprintv\<close> the fallback to the format \<^verbatim>\<open>%v\<close>.\<close>

definition normalizeToJSON :: "(gojson \<Rightarrow> string option) \<Rightarrow> (gojson \<Rightarrow> string) \<Rightarrow> gojson \<Rightarrow> string" where
  "normalizeToJSON marshal sprintv v =
     (if v = JNull then ''null''
      else case marshal (normalizeDeterministic v) of Some jsonBytes \<Rightarrow> jsonBytes | None \<Rightarrow> sprintv v)"

definition computeHash ::
    "(gojson \<Rightarrow> string option) \<Rightarrow> (gojson \<Rightarrow> string) \<Rightarrow> (string \<Rightarrow> string) \<Rightarrow> gojson list \<Rightarrow> string" where
  "computeHash marshal sprintv sha256hex inputs =
     sha256hex (Join (map (normalizeToJSON marshal sprintv) inputs) ''|'')"

definition calculateLength :: "string \<Rightarrow> string list \<Rightarrow> int" where
  "calculateLength hashSuffix parts =
     (\<Sum>p\<leftarrow>parts. int (length p) + 1) + (if hashSuffix \<noteq> [] then int (length hashSuffix) else - 1)"

text \<open>The first of the longest parts.\<close>

fun longest_idx :: "string list \<Rightarrow> nat \<Rightarrow> nat \<Rightarrow> nat \<Rightarrow> nat" where
  "longest_idx [] i best bestLen = best"
| "longest_idx (p # ps) i best bestLen =
     (if length p > bestLen then longest_idx ps (Suc i) i (length p)
      else longest_idx ps (Suc i) best bestLen)"

definition longestIdx :: "string list \<Rightarrow> nat" where
  "longestIdx parts = (case parts of [] \<Rightarrow> 0 | p # ps \<Rightarrow> longest_idx ps 1 0 (length p))"

definition shorten :: "string list \<Rightarrow> string list" where
  "shorten parts =
     (let i = longestIdx parts; p = parts ! i
      in parts[i := TrimRight (take (length p - 1) p) ''-''])"

lemma longest_idx_bound:
  "longest_idx ps i best n = best \<or> (i \<le> longest_idx ps i best n \<and> longest_idx ps i best n < i + length ps)"
proof (induction ps arbitrary: i best n)
  case (Cons p ps)
  from Cons.IH [of "Suc i" i "length p"] Cons.IH [of "Suc i" best n] show ?case by auto
qed simp

lemma longestIdx_less: "parts \<noteq> [] \<Longrightarrow> longestIdx parts < length parts"
proof (cases parts)
  case (Cons p ps)
  then show ?thesis using longest_idx_bound [of ps 1 0 "length p"] by (auto simp: longestIdx_def)
qed simp

lemma length_TrimRight: "length (TrimRight s cs) \<le> length s"
  using length_dropWhile_le [of "\<lambda>c. c \<in> set cs" "rev s"] by (simp add: TrimRight_def)

lemma shorten_smaller:
  assumes "parts \<noteq> []" and "length (parts ! longestIdx parts) > 1"
  shows "sum_list (map length (shorten parts)) < sum_list (map length parts)"
proof -
  let ?i = "longestIdx parts"
  let ?q = "TrimRight (take (length (parts ! ?i) - 1) (parts ! ?i)) ''-''"
  have i: "?i < length parts" by (rule longestIdx_less [OF assms(1)])
  have "length ?q < length (parts ! ?i)"
    using length_TrimRight [of "take (length (parts ! ?i) - 1) (parts ! ?i)" "''-''"] assms(2) by simp
  then show ?thesis
    using i sum_list_update [of ?i "map length parts" "length ?q"] elem_le_sum_list [of ?i "map length parts"]
    by (simp add: shorten_def Let_def map_update)
qed

function truncate_parts :: "string \<Rightarrow> string list \<Rightarrow> string list" where
  "truncate_parts hashSuffix parts =
     (if parts \<noteq> [] \<and> calculateLength hashSuffix parts > int MaxKubernetesNameLength
         \<and> length (parts ! longestIdx parts) > 1
      then truncate_parts hashSuffix (shorten parts) else parts)"
  by pat_completeness auto
termination
  by (relation "measure (\<lambda>(h, parts). sum_list (map length parts))") (auto simp: shorten_smaller)

declare truncate_parts.simps [simp del]

text \<open>
  \<open>sanitize\<close> is the package's \<open>MakeRFC1123Compliant\<close>, \<open>hash\<close> the hexadecimal hash of the inputs.
  \<open>None\<close> is the error for an empty list of parts.
\<close>

definition sanitize_part :: "(string \<Rightarrow> string) \<Rightarrow> string \<Rightarrow> string" where
  "sanitize_part sanitize part = (let p = sanitize part in if p = [] then ''part'' else p)"

definition GenerateDerivedNameWithHashLength ::
    "(string \<Rightarrow> string) \<Rightarrow> ('i list \<Rightarrow> string) \<Rightarrow> string list \<Rightarrow> nat \<Rightarrow> 'i list \<Rightarrow> string option" where
  "GenerateDerivedNameWithHashLength sanitize hash nameParts hashLength hashInputs =
     (if nameParts = [] then None
      else
        let sanitizedParts = map (sanitize_part sanitize) nameParts;
            hashSuffix = (if hashLength > 0 \<and> hashInputs \<noteq> [] then take hashLength (hash hashInputs) else []);
            parts = truncate_parts hashSuffix sanitizedParts
        in Some (Join parts ''-'' @ (if hashSuffix \<noteq> [] then ''-'' @ hashSuffix else [])))"

definition GenerateDerivedName ::
    "(string \<Rightarrow> string) \<Rightarrow> ('i list \<Rightarrow> string) \<Rightarrow> string list \<Rightarrow> 'i list \<Rightarrow> string option" where
  "GenerateDerivedName sanitize hash nameParts hashInputs =
     (if hashInputs = [] then GenerateDerivedNameWithHashLength sanitize hash nameParts 0 hashInputs
      else GenerateDerivedNameWithHashLength sanitize hash nameParts DefaultHashLength hashInputs)"

text \<open>The same two functions of \<^verbatim>\<open>pkg/utils/naming.go\<close>, with the sanitizer of that package.\<close>

definition base_GenerateDerivedNameWithHashLength :: "('i list \<Rightarrow> string) \<Rightarrow> string list \<Rightarrow> nat \<Rightarrow> 'i list \<Rightarrow> string option" where
  "base_GenerateDerivedNameWithHashLength hash nameParts hashLength hashInputs =
     GenerateDerivedNameWithHashLength base_MakeRFC1123Compliant hash nameParts hashLength hashInputs"

definition base_GenerateDerivedName :: "('i list \<Rightarrow> string) \<Rightarrow> string list \<Rightarrow> 'i list \<Rightarrow> string option" where
  "base_GenerateDerivedName hash nameParts hashInputs =
     (if hashInputs = [] then base_GenerateDerivedNameWithHashLength hash nameParts 0 hashInputs
      else base_GenerateDerivedNameWithHashLength hash nameParts DefaultHashLength hashInputs)"

text \<open>\<open>None\<close> is the error for a value that is empty after sanitizing.\<close>

definition SanitizeLabelValue :: "string \<Rightarrow> string option" where
  "SanitizeLabelValue s0 =
     (let s1 = replace_runs 1 (\<lambda>c. \<not> label_char c) ''_'' (ToLower s0);
          s2 = TrimRight (TrimLeft s1 ''_.-'') ''_.-'';
          s3 = (if length s2 > MaxKubernetesLabelLength
                then TrimRight (take MaxKubernetesLabelLength s2) ''_.-'' else s2)
      in if s3 = [] then None else Some s3)"

definition sanitizeNameComponent :: "string \<Rightarrow> string" where
  "sanitizeNameComponent s0 =
     Trim (replace_runs 1 is_dash ''-'' (replace_runs 1 (\<lambda>c. \<not> name_char c) ''-'' (ToLower s0))) ''-''"

record ImageParts =
  im_registry :: string
  im_repository :: string
  im_name :: string
  im_tag :: string

text \<open>\<^verbatim>\<open>strings.SplitN(s, sep, 2)\<close> for a string that contains the separator.\<close>

definition split_first :: "char \<Rightarrow> string \<Rightarrow> string \<times> string" where
  "split_first sep s = (takeWhile (\<lambda>c. c \<noteq> sep) s, drop 1 (dropWhile (\<lambda>c. c \<noteq> sep) s))"

definition split_registry :: "string \<Rightarrow> string \<times> string" where
  "split_registry ref =
     (let (firstPart, rest) = split_first (CHR ''/'') ref
      in if CHR ''/'' \<in> set ref \<and> firstPart \<noteq> [] \<and>
            (CHR ''.'' \<in> set firstPart \<or> CHR '':'' \<in> set firstPart \<or> firstPart = ''localhost'')
         then (firstPart, rest) else (''docker.io'', ref))"

text \<open>The image name and tag of the last path component: a digest, a tag, or neither.\<close>

definition split_tag :: "string \<Rightarrow> string option \<times> string" where
  "split_tag lastPart =
     (if CHR ''@'' \<in> set lastPart then
        (let (imageName, digest) = split_first (CHR ''@'') lastPart
         in if digest = [] then (None, imageName)
            else if CHR '':'' \<notin> set digest then (None, imageName)
            else (let hash = snd (split_first (CHR '':'') digest)
                  in if hash = [] then (None, imageName) else (Some (take 6 hash), imageName)))
      else if CHR '':'' \<in> set lastPart then
        (let (imageName, tag) = split_first (CHR '':'') lastPart
         in if tag = [] then (None, imageName) else (Some tag, imageName))
      else (Some ''latest'', lastPart))"

definition ExtractImageParts :: "string \<Rightarrow> ImageParts option" where
  "ExtractImageParts ref =
     (if ref = [] then None
      else
        let (registry, repository) = split_registry ref;
            repositoryParts = Split repository (CHR ''/'');
            (tag, name) = split_tag (last repositoryParts);
            repositoryPath = Join (butlast repositoryParts @ [name]) ''/''
        in (case tag of
              None \<Rightarrow> None
            | Some imageTag \<Rightarrow>
                let registry' = sanitizeNameComponent registry;
                    name' = sanitizeNameComponent name;
                    tag' = sanitizeNameComponent imageTag
                in if registry' = [] \<or> name' = [] \<or> tag' = [] then None
                   else Some \<lparr>im_registry = registry', im_repository = repositoryPath,
                              im_name = name', im_tag = tag'\<rparr>))"

text \<open>The other helpers of \<^verbatim>\<open>pkg/utils/utils.go\<close>.\<close>

definition GetEnv :: "(string \<Rightarrow> string) \<Rightarrow> string \<Rightarrow> string \<Rightarrow> string" where
  "GetEnv env key defaultValue = (let value = env key in if value = [] then defaultValue else value)"

definition ContainsString :: "string list \<Rightarrow> string \<Rightarrow> bool" where
  "ContainsString slice str \<longleftrightarrow> list_ex (\<lambda>v. v = str) slice"

definition RemoveString :: "string list \<Rightarrow> string \<Rightarrow> string list" where
  "RemoveString slice str = filter (\<lambda>v. v \<noteq> str) slice"

text \<open>
  \<open>ConvertMultilineEntrypoint\<close>: the regular expression of line continuations is a backslash, white
  space and a line feed; since the white space is matched greedily, it reaches to the last line feed of
  the run of white space that follows the backslash.
\<close>

definition re_space :: "char \<Rightarrow> bool" where
  "re_space c \<longleftrightarrow> c = CHR '' '' \<or> c = CHR 0x09 \<or> c = CHR 0x0A \<or> c = CHR 0x0C \<or> c = CHR 0x0D"

definition go_space :: "char \<Rightarrow> bool" where
  "go_space c \<longleftrightarrow> re_space c \<or> c = CHR 0x0B"

definition TrimSpace :: "string \<Rightarrow> string" where
  "TrimSpace s = rev (dropWhile go_space (rev (dropWhile go_space s)))"

definition after_last_newline :: "string \<Rightarrow> string" where
  "after_last_newline run = rev (takeWhile (\<lambda>c. c \<noteq> CHR 0x0A) (rev run))"

function join_continuations :: "string \<Rightarrow> string" where
  "join_continuations [] = []"
| "join_continuations (c # s) =
     (if c = CHR 0x5C \<and> CHR 0x0A \<in> set (takeWhile re_space s)
      then CHR '' '' # after_last_newline (takeWhile re_space s) @ join_continuations (dropWhile re_space s)
      else c # join_continuations s)"
  by pat_completeness auto
termination
  by (relation "measure length") (auto simp: le_imp_less_Suc length_dropWhile_le)

datatype entrypoint = RawCommand string | ShellCommand "string list"

definition ConvertMultilineEntrypoint :: "string \<Rightarrow> bool \<Rightarrow> entrypoint" where
  "ConvertMultilineEntrypoint entry isRayJob =
     (let entry' = join_continuations (TrimSpace entry)
      in if isRayJob then RawCommand entry'
         else
           let ls = Split entry' (CHR 0x0A)
           in if HasPrefix (hd ls) ''#!''
              then ShellCommand [TrimSpace (drop 2 (hd ls)), ''-c'', Join (tl ls) [CHR 0x0A]]
              else ShellCommand [''/bin/sh'', ''-c'', entry'])"

section \<open>Trimming and replacing\<close>

lemma set_TrimRight: "set (TrimRight s cs) \<subseteq> set s"
  using set_dropWhileD [of _ "\<lambda>c. c \<in> set cs" "rev s"] by (auto simp: TrimRight_def)

lemma set_TrimLeft: "set (TrimLeft s cs) \<subseteq> set s"
  by (auto simp: TrimLeft_def dest: set_dropWhileD)

lemma TrimRight_last: "TrimRight s cs \<noteq> [] \<Longrightarrow> last (TrimRight s cs) \<notin> set cs"
  using hd_dropWhile [of "\<lambda>c. c \<in> set cs" "rev s"] by (simp add: TrimRight_def last_rev)

lemma TrimLeft_hd: "TrimLeft s cs \<noteq> [] \<Longrightarrow> hd (TrimLeft s cs) \<notin> set cs"
  using hd_dropWhile [of "\<lambda>c. c \<in> set cs" s] by (simp add: TrimLeft_def)

lemma TrimRight_prefix: "\<exists>n. TrimRight s cs = take n s"
proof -
  have "TrimRight s cs = take (length s - length (takeWhile (\<lambda>c. c \<in> set cs) (rev s))) s"
    unfolding TrimRight_def
    by (metis dropWhile_eq_drop rev_drop rev_rev_ident length_rev)
  then show ?thesis by blast
qed

lemma TrimRight_hd: "TrimRight s cs \<noteq> [] \<Longrightarrow> hd (TrimRight s cs) = hd s"
  by (metis TrimRight_prefix hd_take take_eq_Nil bot_nat_0.not_eq_extremum)

lemma TrimRight_keeps_hd: "s \<noteq> [] \<Longrightarrow> hd s \<notin> set cs \<Longrightarrow> TrimRight s cs \<noteq> []"
  unfolding TrimRight_def by (cases s) auto

lemma TrimRight_id: "s = [] \<or> last s \<notin> set cs \<Longrightarrow> TrimRight s cs = s"
  by (cases s rule: rev_cases) (auto simp: TrimRight_def)

lemma TrimLeft_id: "s = [] \<or> hd s \<notin> set cs \<Longrightarrow> TrimLeft s cs = s"
  by (cases s) (auto simp: TrimLeft_def)

lemma replace_runs_set:
  "set (replace_runs k bad rep s) \<subseteq> set rep \<union> (if k \<le> 1 then {c \<in> set s. \<not> bad c} else set s)"
proof (induction k bad rep s rule: replace_runs.induct)
  case (2 k bad rep c s)
  have "set (dropWhile bad s) \<subseteq> set s" by (auto dest: set_dropWhileD)
  moreover have "set (takeWhile bad s) \<subseteq> set s" by (auto dest: set_takeWhileD)
  ultimately show ?case using 2 by (cases "bad c"; cases "k \<le> 1"; simp; blast)
qed simp

lemma replace_runs_id: "list_all (\<lambda>c. \<not> bad c) s \<Longrightarrow> replace_runs k bad rep s = s"
  by (induction k bad rep s rule: replace_runs.induct) auto

lemma to_lower_id: "is_lower c \<or> is_digit c \<or> c = CHR ''-'' \<or> c = CHR ''.'' \<or> c = CHR ''_'' \<Longrightarrow> to_lower_char c = c"
  by (auto simp: to_lower_char_def is_upper_def is_lower_def is_digit_def between_def)

lemma ToLower_id: "list_all label_char s \<Longrightarrow> ToLower s = s"
  by (induction s) (auto simp: ToLower_def label_char_def to_lower_id)

section \<open>Sanitizers\<close>

text \<open>
  What \<open>GenerateDerivedNameWithHashLength\<close> relies on: a sanitized part has legal characters, is at
  most 63 long, and does not begin or end with a hyphen.
\<close>

locale name_sanitizer =
  fixes sanitize :: "string \<Rightarrow> string" and legal :: "char \<Rightarrow> bool"
  assumes chars: "list_all legal (sanitize s)"
    and fits: "length (sanitize s) \<le> 63"
    and begins: "sanitize s \<noteq> [] \<Longrightarrow> hd (sanitize s) \<noteq> CHR ''-''"
    and ends: "sanitize s \<noteq> [] \<Longrightarrow> last (sanitize s) \<noteq> CHR ''-''"
    and legal_name: "name_char c \<Longrightarrow> legal c"
begin

definition good_part :: "string \<Rightarrow> bool" where
  "good_part p \<longleftrightarrow> p \<noteq> [] \<and> list_all legal p \<and> hd p \<noteq> CHR ''-'' \<and> last p \<noteq> CHR ''-''"

lemma good_sanitize_part: "good_part (sanitize_part sanitize s)"
  using chars [of s] begins [of s] ends [of s]
  by (auto simp: good_part_def sanitize_part_def Let_def name_char_def is_lower_def between_def intro!: legal_name)

lemma good_shorten:
  assumes "list_all good_part parts" and "parts \<noteq> []" and "length (parts ! longestIdx parts) > 1"
  shows "list_all good_part (shorten parts) \<and> length (shorten parts) = length parts"
proof -
  let ?i = "longestIdx parts" and ?p = "parts ! longestIdx parts"
  let ?q = "TrimRight (take (length ?p - 1) ?p) ''-''"
  have i: "?i < length parts" by (rule longestIdx_less [OF assms(2)])
  then have p: "good_part ?p" using assms(1) by (simp add: list_all_length)
  have ne: "take (length ?p - 1) ?p \<noteq> []" using assms(3) by (cases ?p) auto
  have hd: "hd (take (length ?p - 1) ?p) = hd ?p" using assms(3) by (simp add: hd_take)
  have q: "?q \<noteq> []" using TrimRight_keeps_hd [OF ne] hd p by (simp add: good_part_def)
  have "good_part ?q"
    unfolding good_part_def
  proof (intro conjI)
    show "list_all legal ?q"
      using set_TrimRight [of "take (length ?p - 1) ?p" "''-''"] p set_take_subset [of "length ?p - 1" ?p]
      by (auto simp: good_part_def list_all_iff)
    show "hd ?q \<noteq> CHR ''-''" using TrimRight_hd [OF q] hd p by (simp add: good_part_def)
    show "last ?q \<noteq> CHR ''-''" using TrimRight_last [OF q] by simp
  qed (rule q)
  with assms(1) show ?thesis
    by (auto simp: shorten_def Let_def list_all_iff dest: set_update_subset_insert [THEN subsetD])
qed

lemma good_truncate:
  "list_all good_part parts \<Longrightarrow> list_all good_part (truncate_parts h parts) \<and> length (truncate_parts h parts) = length parts"
proof (induction h parts rule: truncate_parts.induct)
  case (1 h parts)
  then show ?case using good_shorten [of parts] by (simp add: truncate_parts.simps [of h parts])
qed

end

section \<open>Truncation\<close>

lemma longest_idx_max:
  assumes "best < length xs" and "n = length (xs ! best)" and "\<forall>x \<in> set xs. length x \<le> n"
  shows "\<forall>x \<in> set (xs @ ps). length x \<le> length ((xs @ ps) ! longest_idx ps (length xs) best n)"
  using assms
proof (induction ps arbitrary: xs best n)
  case Nil
  then show ?case by simp
next
  case (Cons p ps)
  show ?case
  proof (cases "length p > n")
    case True
    then have "\<forall>x \<in> set (xs @ [p]). length x \<le> length p" using Cons.prems by auto
    with Cons.IH [of "length xs" "xs @ [p]" "length p"] True show ?thesis by (simp add: nth_append)
  next
    case False
    with Cons.IH [of best "xs @ [p]" n] Cons.prems show ?thesis by (simp add: nth_append)
  qed
qed

lemma longestIdx_max: "x \<in> set parts \<Longrightarrow> length x \<le> length (parts ! longestIdx parts)"
proof (cases parts)
  case (Cons p ps)
  moreover assume "x \<in> set parts"
  ultimately show ?thesis using longest_idx_max [of 0 "[p]" "length p" ps] by (auto simp: longestIdx_def)
qed simp

lemma sum_short_parts: "\<forall>p \<in> set parts. length p \<le> 1 \<Longrightarrow> (\<Sum>p\<leftarrow>parts. int (length p) + 1) \<le> 2 * int (length parts)"
  by (induction parts) auto

lemma truncate_fits:
  "parts \<noteq> [] \<Longrightarrow> 2 * length parts + length h \<le> 63 \<Longrightarrow> calculateLength h (truncate_parts h parts) \<le> 63"
proof (induction h parts rule: truncate_parts.induct)
  case (1 h parts)
  have len: "length (shorten parts) = length parts" by (simp add: shorten_def Let_def)
  show ?case
  proof (cases "calculateLength h parts > 63 \<and> length (parts ! longestIdx parts) > 1")
    case True
    have "shorten parts \<noteq> []" using 1 len by auto
    with True 1 len show ?thesis
      by (simp add: truncate_parts.simps [of h parts] MaxKubernetesNameLength_def)
  next
    case False
    then have stop: "truncate_parts h parts = parts"
      by (auto simp: truncate_parts.simps [of h parts] MaxKubernetesNameLength_def)
    show ?thesis
    proof (cases "calculateLength h parts > 63")
      case True
      then have "\<forall>p \<in> set parts. length p \<le> 1" using False longestIdx_max [of _ parts] by fastforce
      then show ?thesis
        using sum_short_parts [of parts] 1(3) stop by (auto simp: calculateLength_def split: if_splits)
    qed (simp add: stop)
  qed
qed

lemma length_Join: "parts \<noteq> [] \<Longrightarrow> int (length (Join parts ''-'')) = (\<Sum>p\<leftarrow>parts. int (length p) + 1) - 1"
  by (induction parts "''-''" rule: Join.induct) auto

lemma Join_nonempty: "parts \<noteq> [] \<Longrightarrow> list_all (\<lambda>p. p \<noteq> []) parts \<Longrightarrow> Join parts ''-'' \<noteq> []"
  by (cases "(parts, ''-'')" rule: Join.cases) auto

lemma Join_hd: "parts \<noteq> [] \<Longrightarrow> hd parts \<noteq> [] \<Longrightarrow> hd (Join parts ''-'') = hd (hd parts)"
  by (cases "(parts, ''-'')" rule: Join.cases) auto

lemma Join_last: "parts \<noteq> [] \<Longrightarrow> list_all (\<lambda>p. p \<noteq> []) parts \<Longrightarrow> last (Join parts ''-'') = last (last parts)"
proof (induction parts "''-''" rule: Join.induct)
  case (3 w v va)
  then have "Join (v # va) ''-'' \<noteq> []" by (intro Join_nonempty) auto
  with 3 show ?case by simp
qed auto

lemma Join_chars: "list_all (list_all P) parts \<Longrightarrow> P (CHR ''-'') \<Longrightarrow> list_all P (Join parts ''-'')"
  by (induction parts "''-''" rule: Join.induct) auto

context name_sanitizer
begin

lemma derived_name:
  assumes parts: "nameParts \<noteq> []"
    and room: "2 * length nameParts + hashLength \<le> 63"
    and hash: "list_all (\<lambda>c. is_lower c \<or> is_digit c) (hash hashInputs)"
  obtains r where "GenerateDerivedNameWithHashLength sanitize hash nameParts hashLength hashInputs = Some r"
    and "list_all legal r" and "length r \<le> 63" and "r \<noteq> []" and "hd r \<noteq> CHR ''-''" and "last r \<noteq> CHR ''-''"
proof -
  define h where "h = (if hashLength > 0 \<and> hashInputs \<noteq> [] then take hashLength (hash hashInputs) else [])"
  define ps where "ps = truncate_parts h (map (sanitize_part sanitize) nameParts)"
  define r where "r = Join ps ''-'' @ (if h \<noteq> [] then ''-'' @ h else [])"
  have good: "list_all good_part ps" "length ps = length nameParts"
    using good_truncate [of "map (sanitize_part sanitize) nameParts" h]
    by (simp_all add: ps_def list_all_iff good_sanitize_part)
  have ps: "ps \<noteq> []" "list_all (\<lambda>p. p \<noteq> []) ps" "list_all (list_all legal) ps"
    using good parts by (auto simp: good_part_def list_all_iff)
  have h: "list_all (\<lambda>c. is_lower c \<or> is_digit c) h" "length h \<le> hashLength"
    using hash set_take_subset [of hashLength "hash hashInputs"] by (auto simp: h_def list_all_iff)
  have hl: "list_all legal h" "\<And>c. c \<in> set h \<Longrightarrow> c \<noteq> CHR ''-''"
    using h(1) by (auto simp: list_all_iff is_lower_def is_digit_def between_def name_char_def intro!: legal_name)
  have "calculateLength h ps \<le> 63"
    unfolding ps_def by (rule truncate_fits) (use parts room h(2) in auto)
  then have "length r \<le> 63"
    using length_Join [OF ps(1)] by (auto simp: r_def calculateLength_def split: if_splits)
  moreover have "list_all legal r"
    using Join_chars [OF ps(3)] hl(1) legal_name [of "CHR ''-''"] by (simp add: r_def name_char_def)
  moreover have "hd ps \<in> set ps" "last ps \<in> set ps" using ps(1) by simp_all
  then have "hd (Join ps ''-'') \<noteq> CHR ''-''" "last (Join ps ''-'') \<noteq> CHR ''-''"
    using good(1) Join_hd [OF ps(1)] Join_last [OF ps(1,2)] by (auto simp: list_all_iff good_part_def)
  then have "hd r \<noteq> CHR ''-''" "last r \<noteq> CHR ''-''"
    using Join_nonempty [OF ps(1,2)] hl(2) by (auto simp: r_def)
  moreover have "r \<noteq> []" using Join_nonempty [OF ps(1,2)] by (simp add: r_def)
  ultimately show ?thesis
    using that parts
    by (simp add: GenerateDerivedNameWithHashLength_def Let_def h_def [symmetric] ps_def [symmetric] r_def [symmetric])
qed

end

lemma replace_runs_hd: "s \<noteq> [] \<Longrightarrow> \<not> bad (hd s) \<Longrightarrow> replace_runs k bad rep s \<noteq> [] \<and> hd (replace_runs k bad rep s) = hd s"
  by (cases s) auto

lemma Trim_hd: "Trim s cs \<noteq> [] \<Longrightarrow> hd (Trim s cs) \<notin> set cs"
  unfolding Trim_def using TrimRight_hd [of "TrimLeft s cs" cs] TrimLeft_hd [of s cs] by (fastforce simp: TrimRight_def)

lemma set_Trim: "set (Trim s cs) \<subseteq> set s"
  unfolding Trim_def using set_TrimRight set_TrimLeft by blast

interpretation controller_names: name_sanitizer MakeRFC1123Compliant name_char
proof
  fix s :: string
  define s2 where "s2 = map (\<lambda>c. if name_char c then c else CHR ''-'') (ToLower s)"
  define s3 where "s3 = Trim s2 ''-''"
  define s4 where "s4 = (if length s3 > 63 then take 63 s3 else s3)"
  have eq: "MakeRFC1123Compliant s = TrimRight s4 ''-''"
    by (simp add: MakeRFC1123Compliant_def Let_def s2_def s3_def s4_def)
  have dash: "name_char (CHR ''-'')" by (simp add: name_char_def)
  have "set s3 \<subseteq> set s2" using set_TrimRight set_TrimLeft unfolding s3_def Trim_def by blast
  moreover have "list_all name_char s2" using dash by (auto simp: s2_def list_all_iff)
  moreover have "set s4 \<subseteq> set s3" by (auto simp: s4_def dest: in_set_takeD split: if_splits)
  ultimately show "list_all name_char (MakeRFC1123Compliant s)"
    using set_TrimRight [of s4 "''-''"] unfolding eq list_all_iff by blast
  have "length s4 \<le> 63" by (simp add: s4_def)
  then show "length (MakeRFC1123Compliant s) \<le> 63"
    unfolding eq using length_TrimRight order_trans by blast
  have h3: "s3 \<noteq> [] \<Longrightarrow> hd s3 \<noteq> CHR ''-''"
    using Trim_hd [of s2 "''-''"] by (simp add: s3_def)
  have h4: "hd s4 = hd s3" by (simp add: s4_def hd_take)
  show "hd (MakeRFC1123Compliant s) \<noteq> CHR ''-''" if ne: "MakeRFC1123Compliant s \<noteq> []"
  proof -
    have "s4 \<noteq> []" using ne unfolding eq by (auto simp: TrimRight_def)
    then have "s3 \<noteq> []" by (auto simp: s4_def)
    with h3 h4 TrimRight_hd [of s4] ne show ?thesis unfolding eq by metis
  qed
  show "last (MakeRFC1123Compliant s) \<noteq> CHR ''-''" if "MakeRFC1123Compliant s \<noteq> []"
    using TrimRight_last [of s4 "''-''"] that unfolding eq by simp
qed

interpretation base_names: name_sanitizer base_MakeRFC1123Compliant dotted_char
proof
  fix s :: string
  define s2 where "s2 = replace_runs 1 (\<lambda>c. \<not> dotted_char c) ''-'' (ToLower s)"
  define s3 where "s3 = Trim s2 ''-.''"
  define s4 where "s4 = replace_runs 2 (\<lambda>c. c = CHR ''-'' \<or> c = CHR ''.'') ''-'' s3"
  define s5 where "s5 = (if length s4 > 63 then take 63 s4 else s4)"
  have eq: "base_MakeRFC1123Compliant s = TrimRight s5 ''-''"
    by (simp add: base_MakeRFC1123Compliant_def Let_def s2_def s3_def s4_def s5_def)
  have "dotted_char (CHR ''-'')" by (simp add: dotted_char_def name_char_def)
  then have "list_all dotted_char s2"
    using replace_runs_set [of 1 "\<lambda>c. \<not> dotted_char c" "''-''" "ToLower s"] by (auto simp: s2_def list_all_iff)
  then have "list_all dotted_char s4"
    using replace_runs_set [of 2 "\<lambda>c. c = CHR ''-'' \<or> c = CHR ''.''" "''-''" s3] set_Trim [of s2 "''-.''"]
      \<open>dotted_char (CHR ''-'')\<close> unfolding s4_def s3_def list_all_iff by (simp split: if_splits) blast
  then show "list_all dotted_char (base_MakeRFC1123Compliant s)"
    using set_TrimRight [of s5 "''-''"] in_set_takeD [of _ 63 s4]
    unfolding eq list_all_iff s5_def by (auto split: if_splits)
  have "length s5 \<le> 63" by (simp add: s5_def)
  then show "length (base_MakeRFC1123Compliant s) \<le> 63" unfolding eq using length_TrimRight order_trans by blast
  show "last (base_MakeRFC1123Compliant s) \<noteq> CHR ''-''" if "base_MakeRFC1123Compliant s \<noteq> []"
    using TrimRight_last [of s5 "''-''"] that unfolding eq by simp
  show "hd (base_MakeRFC1123Compliant s) \<noteq> CHR ''-''" if ne: "base_MakeRFC1123Compliant s \<noteq> []"
  proof -
    have "s5 \<noteq> []" using ne unfolding eq by (auto simp: TrimRight_def)
    then have "s4 \<noteq> []" by (auto simp: s5_def)
    then have "s3 \<noteq> []" by (auto simp: s4_def)
    then have "hd s3 \<notin> set ''-.''" unfolding s3_def by (rule Trim_hd)
    with \<open>s3 \<noteq> []\<close> have "hd s4 \<noteq> CHR ''-''"
      using replace_runs_hd [of s3 "\<lambda>c. c = CHR ''-'' \<or> c = CHR ''.''" 2 "''-''"] by (simp add: s4_def)
    moreover have "hd (TrimRight s5 ''-'') = hd s4"
      using TrimRight_hd [of s5 "''-''"] ne by (simp add: eq s5_def hd_take split: if_splits)
    ultimately show ?thesis by (simp add: eq)
  qed
qed (simp add: dotted_char_def)

section \<open>Properties\<close>

text \<open>
  C11: Derived resource names of the controller package are valid. For any non-empty list of at most 27
  parts, whatever characters they hold, and a hash of lower-case hexadecimal digits,
  \<open>GenerateDerivedName\<close> returns a name of lower-case letters, digits and hyphens, at most 63 characters
  long, that neither begins nor ends with a hyphen; the truncation loop always ends.
\<close>

theorem GenerateDerivedName_valid:
  assumes "nameParts \<noteq> []" and "length nameParts \<le> 27"
    and "list_all (\<lambda>c. is_lower c \<or> is_digit c) (hash hashInputs)"
  shows "\<exists>r. GenerateDerivedName MakeRFC1123Compliant hash nameParts hashInputs = Some r \<and>
     list_all name_char r \<and> length r \<le> 63 \<and> r \<noteq> [] \<and> hd r \<noteq> CHR ''-'' \<and> last r \<noteq> CHR ''-''"
proof -
  define l where "l = (if hashInputs = [] then 0 else DefaultHashLength)"
  have "2 * length nameParts + l \<le> 63" using assms(2) by (simp add: l_def DefaultHashLength_def)
  from controller_names.derived_name [where hash = hash and hashInputs = hashInputs, OF assms(1) this assms(3)]
  have "\<exists>r. GenerateDerivedNameWithHashLength MakeRFC1123Compliant hash nameParts l hashInputs = Some r \<and>
      list_all name_char r \<and> length r \<le> 63 \<and> r \<noteq> [] \<and> hd r \<noteq> CHR ''-'' \<and> last r \<noteq> CHR ''-''" by metis
  then show ?thesis by (simp add: GenerateDerivedName_def l_def split: if_splits)
qed

theorem GenerateDerivedName_valid_witness:
  "\<exists>r. GenerateDerivedName MakeRFC1123Compliant (\<lambda>_ :: nat list. ''a1b2c3d4e5'') [''My Service'', ''temp''] [7] = Some r \<and>
     list_all name_char r \<and> length r \<le> 63 \<and> r \<noteq> [] \<and> hd r \<noteq> CHR ''-'' \<and> last r \<noteq> CHR ''-''"
  by (rule GenerateDerivedName_valid) (simp_all add: is_lower_def is_digit_def between_def)

text \<open>
  The other version of \<open>MakeRFC1123Compliant\<close>, in \<^verbatim>\<open>pkg/utils\<close>, is not RFC 1123 compliant: it cuts
  the name at 63 characters after it has trimmed the dots, and then trims hyphens only, so a name can
  end with a dot.
\<close>

theorem base_MakeRFC1123Compliant_trailing_dot:
  "base_MakeRFC1123Compliant (replicate 62 (CHR ''a'') @ ''.b'') = replicate 62 (CHR ''a'') @ ''.''"
  by code_simp

text \<open>Names that are derived with it fit as well, and may hold dots.\<close>

lemma base_GenerateDerivedName_fits:
  assumes "nameParts \<noteq> []" and "length nameParts \<le> 27"
    and "list_all (\<lambda>c. is_lower c \<or> is_digit c) (hash hashInputs)"
  shows "\<exists>r. base_GenerateDerivedName hash nameParts hashInputs = Some r \<and>
     list_all dotted_char r \<and> length r \<le> 63 \<and> r \<noteq> [] \<and> hd r \<noteq> CHR ''-'' \<and> last r \<noteq> CHR ''-''"
proof -
  define l where "l = (if hashInputs = [] then 0 else DefaultHashLength)"
  have "2 * length nameParts + l \<le> 63" using assms(2) by (simp add: l_def DefaultHashLength_def)
  from base_names.derived_name [where hash = hash and hashInputs = hashInputs, OF assms(1) this assms(3)]
  have "\<exists>r. base_GenerateDerivedNameWithHashLength hash nameParts l hashInputs = Some r \<and>
      list_all dotted_char r \<and> length r \<le> 63 \<and> r \<noteq> [] \<and> hd r \<noteq> CHR ''-'' \<and> last r \<noteq> CHR ''-''"
    unfolding base_GenerateDerivedNameWithHashLength_def by metis
  then show ?thesis by (simp add: base_GenerateDerivedName_def l_def split: if_splits)
qed

text \<open>Labels.\<close>

definition alphanumeric :: "char \<Rightarrow> bool" where
  "alphanumeric c \<longleftrightarrow> is_lower c \<or> is_digit c"

definition valid_label :: "string \<Rightarrow> bool" where
  "valid_label s \<longleftrightarrow> s \<noteq> [] \<and> list_all label_char s \<and> length s \<le> 63 \<and> alphanumeric (hd s) \<and> alphanumeric (last s)"

lemma label_char_cases: "label_char c \<Longrightarrow> c \<notin> set ''_.-'' \<Longrightarrow> alphanumeric c"
  by (auto simp: label_char_def alphanumeric_def)

lemma alphanumeric_not_sep: "alphanumeric c \<Longrightarrow> c \<notin> set ''_.-''"
  by (auto simp: alphanumeric_def is_lower_def is_digit_def between_def)



text \<open>Hashing.\<close>

lemma filter_key_single:
  assumes "distinct (map f l)" and "k \<in> set l"
  shows "filter (\<lambda>x. f k = f x) l = [k]"
  using assms by (induction l) (auto simp: filter_empty_conv image_iff)

lemma sort_key_perm:
  assumes "mset xs = mset ys" and "distinct (map f xs)"
  shows "sort_key f xs = sort_key f ys"
proof (rule properties_for_sort_key)
  show "mset (sort_key f ys) = mset xs" using assms(1) by simp
  show "sorted (map f (sort_key f ys))" by simp
  fix k
  assume k: "k \<in> set (sort_key f ys)"
  have "distinct (map f (sort_key f ys))"
    using assms by (metis mset_map mset_eq_imp_distinct_iff mset_sort)
  moreover have "k \<in> set xs" using k assms(1) by (metis set_mset_mset mset_sort)
  ultimately show "filter (\<lambda>x. f k = f x) (sort_key f ys) = filter (\<lambda>x. f k = f x) xs"
    using k assms(2) filter_key_single by metis
qed

text \<open>\<open>reordered\<close> relates values that differ only in the order of map entries, at any depth.\<close>

inductive reordered :: "gojson \<Rightarrow> gojson \<Rightarrow> bool" where
  same: "reordered v v"
| slice: "list_all2 reordered vs ws \<Longrightarrow> reordered (JSlice vs) (JSlice ws)"
| entries: "mset m = mset m' \<Longrightarrow> list_all2 (\<lambda>p q. fst p = fst q \<and> reordered (snd p) (snd q)) m' m'' \<Longrightarrow>
    distinct (map fst m) \<Longrightarrow> reordered (JMap m) (JMap m'')"

lemma list_all2_map_eq: "list_all2 (\<lambda>x y. f x = g y) xs ys \<Longrightarrow> map f xs = map g ys"
  by (induction rule: list_all2_induct) auto

lemma normalizeDeterministic_reordered:
  "reordered v w \<Longrightarrow> normalizeDeterministic v = normalizeDeterministic w"
proof (induction rule: reordered.induct)
  case (slice vs ws)
  then have "list_all2 (\<lambda>x y. normalizeDeterministic x = normalizeDeterministic y) vs ws"
    by (auto elim: list_all2_mono)
  from list_all2_map_eq [OF this] show ?case by simp
next
  case (entries m m' m'')
  let ?n = "\<lambda>(k, v). (k :: string, normalizeDeterministic v)"
  have "list_all2 (\<lambda>p q. ?n p = ?n q) m' m''"
    using entries.IH by (auto elim: list_all2_mono)
  then have "map ?n m' = map ?n m''" by (rule list_all2_map_eq)
  moreover have "mset (map ?n m) = mset (map ?n m')" using entries(1) by simp
  moreover have "distinct (map fst (map ?n m))"
    using entries.hyps(2) by (simp add: case_prod_beta comp_def)
  ultimately have "sort_key fst (map ?n m) = sort_key fst (map ?n m'')"
    using sort_key_perm [of "map ?n m" "map ?n m''" fst] by simp
  then show ?case by simp
qed simp

lemma reordered_JNull: "reordered v w \<Longrightarrow> v = JNull \<longleftrightarrow> w = JNull"
  by (induction rule: reordered.induct) auto

text \<open>
  C12: The hash of a derived name does not depend on the order in which the maps among its inputs are
  ranged over, at any depth, as long as the inputs can be encoded as JSON; so the same inputs give the
  same name in every run.
\<close>

theorem computeHash_map_order:
  assumes "list_all2 reordered xs ys" and "list_all (\<lambda>x. marshal (normalizeDeterministic x) \<noteq> None) xs"
  shows "computeHash marshal sprintv sha256hex xs = computeHash marshal sprintv sha256hex ys"
proof -
  have "map (normalizeToJSON marshal sprintv) xs = map (normalizeToJSON marshal sprintv) ys"
    using assms
  proof (induction rule: list_all2_induct)
    case (Cons x xs y ys)
    then show ?case
      using normalizeDeterministic_reordered [of x y] reordered_JNull [of x y]
      by (auto simp: normalizeToJSON_def)
  qed simp
  then show ?thesis by (simp add: computeHash_def)
qed

theorem computeHash_map_order_witness:
  "computeHash (\<lambda>_. Some ''json'') (\<lambda>_. ''go'') id
     [JSlice [JMap [(''b'', JString ''2''), (''a'', JMap [(''d'', JNull), (''c'', JNull)])]]] =
   computeHash (\<lambda>_. Some ''json'') (\<lambda>_. ''go'') id
     [JSlice [JMap [(''a'', JMap [(''c'', JNull), (''d'', JNull)]), (''b'', JString ''2'')]]]"
proof (rule computeHash_map_order)
  have inner: "reordered (JMap [(''d'', JNull), (''c'', JNull)]) (JMap [(''c'', JNull), (''d'', JNull)])"
    by (rule reordered.entries [where m' = "[(''c'', JNull), (''d'', JNull)]"])
      (auto intro: reordered.same)
  have "reordered (JMap [(''b'', JString ''2''), (''a'', JMap [(''d'', JNull), (''c'', JNull)])])
      (JMap [(''a'', JMap [(''c'', JNull), (''d'', JNull)]), (''b'', JString ''2'')])"
    by (rule reordered.entries [where m' = "[(''a'', JMap [(''d'', JNull), (''c'', JNull)]), (''b'', JString ''2'')]"])
      (auto intro: reordered.same inner)
  then show "list_all2 reordered
      [JSlice [JMap [(''b'', JString ''2''), (''a'', JMap [(''d'', JNull), (''c'', JNull)])]]]
      [JSlice [JMap [(''a'', JMap [(''c'', JNull), (''d'', JNull)]), (''b'', JString ''2'')]]]"
    by (auto intro: reordered.slice)
qed simp

text \<open>Image references.\<close>

lemma takeWhile_sep: "c \<notin> set a \<Longrightarrow> takeWhile (\<lambda>d. d \<noteq> c) (a @ c # b) = a"
  by (induction a) auto

lemma dropWhile_sep: "c \<notin> set a \<Longrightarrow> dropWhile (\<lambda>d. d \<noteq> c) (a @ c # b) = c # b"
  by (induction a) auto

lemma split_first_at: "c \<notin> set a \<Longrightarrow> split_first c (a @ c # b) = (a, b)"
  by (simp add: split_first_def takeWhile_sep dropWhile_sep)

lemma Split_no_sep: "sep \<notin> set s \<Longrightarrow> Split s sep = [s]"
  by (induction s) auto

lemma Split_append_sep: "sep \<notin> set s \<Longrightarrow> Split (s @ sep # t) sep = s # Split t sep"
  by (induction s) auto

lemma Split_Join:
  "ws \<noteq> [] \<Longrightarrow> list_all (\<lambda>w. sep \<notin> set w) ws \<Longrightarrow> Split (Join ws [sep]) sep = ws"
  by (induction ws "[sep]" rule: Join.induct) (auto simp: Split_no_sep Split_append_sep)



end
