(* ===== verification/WorkloadTypes.thy ===== *)
theory WorkloadTypes
  imports GpuTypes Naming
begin

text \<open>
  The data of Kaiwo workloads: the statuses and specs of \<^verbatim>\<open>apis/kaiwo/v1alpha1/common_types.go\<close>
  with the functions declared there, the operator's configuration of
  \<^verbatim>\<open>apis/config/v1alpha1/kaiwoconfig_types.go\<close>, the queue configuration of
  \<^verbatim>\<open>kaiwoqueueconfig_types.go\<close>, and the parts of pod templates, jobs and claims of the Kubernetes API
  that the workload code reads and writes.

  A nil pointer is \<open>None\<close>. A nil slice or map is the empty list where the code distinguishes them
  only to allocate. Quantities are \<open>int\<close>; how a string is parsed as a quantity is an argument.
\<close>

section \<open>Statuses\<close>

datatype WorkloadStatus =
    WorkloadStatusNew | WorkloadStatusDownloading | WorkloadStatusPending | WorkloadStatusStarting
  | WorkloadStatusRunning | WorkloadStatusComplete | WorkloadStatusError | WorkloadStatusFailed
  | WorkloadStatusTerminating | WorkloadStatusTerminated

text \<open>Reading a missing key of the map gives 0.\<close>

definition workloadStatusRank :: "WorkloadStatus \<Rightarrow> int" where
  "workloadStatusRank status = (case status of
     WorkloadStatusRunning \<Rightarrow> 0 | WorkloadStatusComplete \<Rightarrow> 1 | WorkloadStatusPending \<Rightarrow> 2
   | WorkloadStatusStarting \<Rightarrow> 3 | WorkloadStatusError \<Rightarrow> 4 | WorkloadStatusFailed \<Rightarrow> 5
   | WorkloadStatusTerminating \<Rightarrow> 6 | WorkloadStatusTerminated \<Rightarrow> 7 | _ \<Rightarrow> 0)"

text \<open>The loop carries \<open>currentStatusRank\<close>, which it compares but does not assign.\<close>

definition DetermineOverallStatus :: "WorkloadStatus list \<Rightarrow> WorkloadStatus" where
  "DetermineOverallStatus statuses =
     fst (foldl (\<lambda>(overallStatus, currentStatusRank) status.
            if workloadStatusRank status > currentStatusRank then (status, currentStatusRank)
            else (overallStatus, currentStatusRank))
          (WorkloadStatusNew, - 1) statuses)"

section \<open>Kubernetes objects\<close>

record EnvVar =
  ev_name :: string
  ev_value :: string

text \<open>Here nil and empty maps differ: an assignment to an entry of a nil map panics.\<close>

record ResourceRequirements =
  rr_requests :: "int gomap option"
  rr_limits :: "int gomap option"

record VolumeMount =
  vm_name :: string
  vm_mountPath :: string
  vm_subPath :: string

datatype VolumeSource =
    ClaimVolume string
  | SecretVolumeSource string "(string \<times> string) list"
  | ConfigMapVolume string
  | MemoryVolume int

record Volume =
  vol_name :: string
  vol_source :: VolumeSource

record WContainer =
  wc_name :: string
  wc_image :: string
  wc_imagePullPolicy :: string
  wc_command :: "string list"
  wc_env :: "EnvVar list"
  wc_volumeMounts :: "VolumeMount list"
  wc_resources :: ResourceRequirements

record Toleration =
  tol_key :: string
  tol_operator :: string
  tol_effect :: string

record PodTemplate =
  pt_labels :: "string gomap"
  pt_annotations :: "string gomap"
  pt_schedulerName :: string
  pt_restartPolicy :: string
  pt_securityContext :: "(int \<times> int \<times> int) option"
  pt_imagePullSecrets :: "string list"
  pt_volumes :: "Volume list"
  pt_containers :: "WContainer list"
  pt_initContainers :: "WContainer list"
  pt_tolerations :: "Toleration list"
  pt_nodeAffinity :: "(string \<times> string list) list option"

datatype JobConditionType = JobSuccessCriteriaMet | JobFailed | JobSuspended | JobOtherCondition string

record JobStatus =
  js_conditions :: "(JobConditionType \<times> condition_status) list"
  js_failed :: int
  js_ready :: "int option"
  js_active :: int

record ObjectKey =
  key_name :: string
  key_namespace :: string

section \<open>Storage\<close>

record ValueReference =
  vr_file :: string
  vr_secretName :: string
  vr_secretKey :: string

record CloudDownloadFolder =
  cdo_path :: string
  cdo_targetPath :: string
  cdo_glob :: string

record CloudDownloadFile =
  cdf_path :: string
  cdf_targetPath :: string

record CloudDownloadBucket =
  cdb_name :: string
  cdb_files :: "CloudDownloadFile list"
  cdb_folders :: "CloudDownloadFolder list"

record S3DownloadItem =
  s3_endpointUrl :: string
  s3_accessKeyId :: ValueReference
  s3_secretKey :: ValueReference
  s3_buckets :: "CloudDownloadBucket list"

record GCSDownloadItem =
  gcs_applicationCredentials :: ValueReference
  gcs_buckets :: "CloudDownloadBucket list"

record AzureBlobStorageDownloadItem =
  az_connectionString :: ValueReference
  az_containers :: "CloudDownloadBucket list"

record HuggingFaceDownloadItem =
  hf_repoID :: string
  hf_files :: "string list"

record GitDownloadItem =
  git_repository :: string
  git_branch :: string
  git_commit :: string
  git_username :: "ValueReference option"
  git_token :: "ValueReference option"
  git_path :: string
  git_targetPath :: string

record ObjectStorageDownloadSpec =
  os_s3 :: "S3DownloadItem list"
  os_gcs :: "GCSDownloadItem list"
  os_azureBlob :: "AzureBlobStorageDownloadItem list"
  os_git :: "GitDownloadItem list"

record DataStorageSpec =
  ds_mountPath :: string
  ds_storageSize :: string
  ds_download :: ObjectStorageDownloadSpec

record HfStorageSpec =
  hs_mountPath :: string
  hs_storageSize :: string
  hs_preCacheRepos :: "HuggingFaceDownloadItem list"

record StorageSpec =
  ss_storageEnabled :: bool
  ss_storageClassName :: string
  ss_accessMode :: string
  ss_data :: "DataStorageSpec option"
  ss_huggingFace :: "HfStorageSpec option"

record SecretVolume =
  sv_name :: string
  sv_secretName :: string
  sv_key :: string
  sv_subPath :: string
  sv_mountPath :: string

definition data_IsRequested :: "DataStorageSpec option \<Rightarrow> bool" where
  "data_IsRequested spec \<longleftrightarrow> (case spec of None \<Rightarrow> False | Some d \<Rightarrow> ds_storageSize d \<noteq> [])"

definition hf_IsRequested :: "HfStorageSpec option \<Rightarrow> bool" where
  "hf_IsRequested spec \<longleftrightarrow> (case spec of None \<Rightarrow> False | Some d \<Rightarrow> hs_storageSize d \<noteq> [])"

definition HasData :: "StorageSpec option \<Rightarrow> bool" where
  "HasData spec \<longleftrightarrow> (case spec of None \<Rightarrow> False
     | Some s \<Rightarrow> (case ss_data s of None \<Rightarrow> False | Some d \<Rightarrow> ds_storageSize d \<noteq> []))"

definition HasObjectStorageDownloads :: "StorageSpec option \<Rightarrow> bool" where
  "HasObjectStorageDownloads spec \<longleftrightarrow> HasData spec \<and>
     (case spec of None \<Rightarrow> False
      | Some s \<Rightarrow> (case ss_data s of None \<Rightarrow> False
          | Some d \<Rightarrow> length (os_s3 (ds_download d)) > 0 \<or> length (os_gcs (ds_download d)) > 0
              \<or> length (os_azureBlob (ds_download d)) > 0 \<or> length (os_git (ds_download d)) > 0))"

definition HasHfDownloads :: "StorageSpec option \<Rightarrow> bool" where
  "HasHfDownloads spec \<longleftrightarrow> (case spec of None \<Rightarrow> False
     | Some s \<Rightarrow> (case ss_huggingFace s of None \<Rightarrow> False | Some d \<Rightarrow> length (hs_preCacheRepos d) > 0))"

definition HasDownloads :: "StorageSpec option \<Rightarrow> bool" where
  "HasDownloads spec \<longleftrightarrow> spec \<noteq> None \<and> (HasObjectStorageDownloads spec \<or> HasHfDownloads spec)"

record DownloadTaskConfig =
  dc_downloadRoot :: string
  dc_hfHome :: string
  dc_s3 :: "S3DownloadItem list"
  dc_gcs :: "GCSDownloadItem list"
  dc_hf :: "HuggingFaceDownloadItem list"
  dc_azureBlob :: "AzureBlobStorageDownloadItem list"
  dc_git :: "GitDownloadItem list"

definition empty_download_config :: DownloadTaskConfig where
  "empty_download_config = \<lparr>dc_downloadRoot = [], dc_hfHome = [], dc_s3 = [], dc_gcs = [], dc_hf = [],
     dc_azureBlob = [], dc_git = []\<rparr>"

definition CreateConfig :: "StorageSpec \<Rightarrow> DownloadTaskConfig" where
  "CreateConfig spec =
     (let config = empty_download_config;
          config = (case ss_data spec of None \<Rightarrow> config
            | Some d \<Rightarrow> if ds_storageSize d \<noteq> [] then
                config\<lparr>dc_downloadRoot := (if ds_mountPath d \<noteq> [] then ds_mountPath d else ''/workload''),
                       dc_gcs := os_gcs (ds_download d), dc_s3 := os_s3 (ds_download d),
                       dc_azureBlob := os_azureBlob (ds_download d), dc_git := os_git (ds_download d)\<rparr>
              else config)
      in (case ss_huggingFace spec of None \<Rightarrow> config
          | Some d \<Rightarrow> if hs_storageSize d \<noteq> [] then
              config\<lparr>dc_hfHome := hs_mountPath d, dc_hf := hs_preCacheRepos d\<rparr>
            else config))"

section \<open>Workloads\<close>

record CommonMetaSpec =
  cms_user :: string
  cms_podTemplateSpecLabels :: "string gomap"
  cms_gpus :: int
  cms_gpuVendor :: string
  cms_gpuModels :: "string list"
  cms_version :: string
  cms_replicas :: "int option"
  cms_gpusPerReplica :: int
  cms_duration :: "int option"
  cms_preferredTopologyLabel :: string
  cms_requiredTopologyLabel :: string
  cms_resources :: "ResourceRequirements option"
  cms_image :: string
  cms_imagePullSecrets :: "string list"
  cms_env :: "EnvVar list"
  cms_secretVolumes :: "SecretVolume list"
  cms_ray :: bool
  cms_storage :: "StorageSpec option"
  cms_dangerous :: bool
  cms_clusterQueue :: string
  cms_workloadPriorityClass :: string

record CommonStatusSpec =
  css_startTime :: "int option"
  css_conditions :: "Condition list"
  css_status :: WorkloadStatus
  css_duration :: int
  css_observedGeneration :: int

datatype workload_kind = KindKaiwoJob | KindKaiwoService

text \<open>
  What the interface \<^verbatim>\<open>KaiwoWorkload\<close> gives of a KaiwoJob or a KaiwoService:
  \<^verbatim>\<open>GetKaiwoWorkloadObject\<close> its kind and metadata, \<^verbatim>\<open>GetCommonSpec\<close> and
  \<^verbatim>\<open>GetCommonStatusSpec\<close> the common spec and status.
\<close>

record KaiwoWorkload =
  kw_kind :: workload_kind
  kw_name :: string
  kw_namespace :: string
  kw_uid :: string
  kw_generation :: int
  kw_creationTimestamp :: int
  kw_labels :: "string gomap"
  kw_annotations :: "string gomap"
  kw_spec :: CommonMetaSpec
  kw_status :: CommonStatusSpec

section \<open>Configuration\<close>

record KaiwoRayConfig =
  ray_defaultRayImage :: string
  ray_headPodMemory :: string

record KaiwoStorageConfig =
  sto_defaultStorageClass :: string
  sto_defaultDataMountPath :: string
  sto_defaultHfMountPath :: string

record KaiwoNodeConfig =
  nod_defaultGpuResourceKey :: string
  nod_defaultGpuTaintKey :: string
  nod_excludeMasterNodesFromNodePools :: bool
  nod_addTaintsToGpuNodes :: bool

record KaiwoResourceMonitoringConfig =
  rm_lowUtilizationThreshold :: rat
  rm_targetNamespaces :: "string list"
  rm_profile :: string
  rm_terminateUnderutilized :: bool
  rm_terminateUnderutilizedAfter :: string

record KaiwoSchedulingConfig =
  sch_kubeSchedulerName :: string
  sch_pendingThresholdForPreemption :: string

record KaiwoConfigSpec =
  kcs_ray :: KaiwoRayConfig
  kcs_storage :: KaiwoStorageConfig
  kcs_nodes :: KaiwoNodeConfig
  kcs_scheduling :: KaiwoSchedulingConfig
  kcs_resourceMonitoring :: KaiwoResourceMonitoringConfig
  kcs_gpuPreemption :: KaiwoGpuPreemptionConfig
  kcs_defaultClusterQueueName :: string
  kcs_defaultClusterQueueCohortName :: string
  kcs_dynamicallyUpdateDefaultClusterQueue :: bool
  kcs_defaultTopologyName :: string

definition GetClusterQueueName :: "KaiwoConfigSpec \<Rightarrow> CommonMetaSpec \<Rightarrow> string" where
  "GetClusterQueueName config spec =
     (if cms_clusterQueue spec \<noteq> [] then cms_clusterQueue spec else kcs_defaultClusterQueueName config)"

section \<open>Queue configuration\<close>

text \<open>
  \<open>opaque\<close> stands for the structs of Kueue that Kaiwo only copies and compares.
\<close>

datatype opaque = Opaque string

record ResourceQuota =
  rq_name :: string
  rq_nominalQuota :: int

record FlavorQuotas =
  fq_name :: string
  fq_resources :: "ResourceQuota list"

record ResourceGroup =
  rg_coveredResources :: "string list"
  rg_flavors :: "FlavorQuotas list"

record ClusterQueueSpec =
  cqs_resourceGroups :: "ResourceGroup list"
  cqs_cohort :: string
  cqs_queueingStrategy :: string
  cqs_namespaceSelector :: "opaque option"
  cqs_flavorFungibility :: "opaque option"
  cqs_preemption :: "opaque option"
  cqs_admissionChecks :: "string list"
  cqs_admissionChecksStrategy :: "opaque option"
  cqs_stopPolicy :: "string option"
  cqs_fairSharing :: "opaque option"

record ClusterQueue =
  cq_name :: string
  cq_spec :: ClusterQueueSpec
  cq_namespaces :: "string list"

record ResourceFlavorSpec =
  rf_name :: string
  rf_nodeLabels :: "string gomap"
  rf_taints :: "opaque list"
  rf_tolerations :: "opaque list"
  rf_topologyName :: string

record Topology =
  tp_name :: string
  tp_levels :: "string list"

record WorkloadPriorityClass =
  pc_name :: string
  pc_value :: int

datatype QueueConfigStatusDescription = QueueConfigStatusUnset | QueueConfigStatusReady | QueueConfigStatusFailed

record KaiwoQueueConfigSpec =
  qcs_clusterQueues :: "ClusterQueue list"
  qcs_resourceFlavors :: "ResourceFlavorSpec list"
  qcs_workloadPriorityClasses :: "WorkloadPriorityClass list"
  qcs_topologies :: "Topology list"

record KaiwoQueueConfig =
  qc_name :: string
  qc_spec :: KaiwoQueueConfigSpec
  qc_status :: QueueConfigStatusDescription

section \<open>Nodes\<close>

record Taint =
  ta_key :: string
  ta_value :: string
  ta_effect :: string

record Node =
  nd_name :: string
  nd_labels :: "string gomap"
  nd_unschedulable :: bool
  nd_taints :: "Taint list"
  nd_capacity :: "int gomap"
  nd_allocatable :: "int gomap"

section \<open>Example values\<close>

definition example_meta_spec :: CommonMetaSpec where
  "example_meta_spec = \<lparr>cms_user = ''user@amd.com'', cms_podTemplateSpecLabels = [], cms_gpus = 0,
     cms_gpuVendor = ''amd'', cms_gpuModels = [], cms_version = [], cms_replicas = None,
     cms_gpusPerReplica = 0, cms_duration = None, cms_preferredTopologyLabel = [],
     cms_requiredTopologyLabel = [], cms_resources = None, cms_image = [], cms_imagePullSecrets = [],
     cms_env = [], cms_secretVolumes = [], cms_ray = False, cms_storage = None, cms_dangerous = False,
     cms_clusterQueue = [], cms_workloadPriorityClass = []\<rparr>"

definition example_status_spec :: CommonStatusSpec where
  "example_status_spec = \<lparr>css_startTime = None, css_conditions = [], css_status = WorkloadStatusNew,
     css_duration = 0, css_observedGeneration = 0\<rparr>"

definition example_workload :: KaiwoWorkload where
  "example_workload = \<lparr>kw_kind = KindKaiwoJob, kw_name = ''train'', kw_namespace = ''team'',
     kw_uid = ''u1'', kw_generation = 1, kw_creationTimestamp = 0, kw_labels = [], kw_annotations = [],
     kw_spec = example_meta_spec, kw_status = example_status_spec\<rparr>"

definition example_config :: KaiwoConfigSpec where
  "example_config = \<lparr>kcs_ray = \<lparr>ray_defaultRayImage = ''ghcr.io/silogen/rocm-ray:6.4'', ray_headPodMemory = ''16Gi''\<rparr>,
     kcs_storage = \<lparr>sto_defaultStorageClass = [], sto_defaultDataMountPath = ''/workload'',
                   sto_defaultHfMountPath = ''/hf_cache''\<rparr>,
     kcs_nodes = \<lparr>nod_defaultGpuResourceKey = ''amd.com/gpu'', nod_defaultGpuTaintKey = ''kaiwo.silogen.ai/gpu'',
                 nod_excludeMasterNodesFromNodePools = False, nod_addTaintsToGpuNodes = False\<rparr>,
     kcs_scheduling = \<lparr>sch_kubeSchedulerName = ''kaiwo-scheduler'', sch_pendingThresholdForPreemption = ''5m''\<rparr>,
     kcs_resourceMonitoring = \<lparr>rm_lowUtilizationThreshold = 1, rm_targetNamespaces = [], rm_profile = ''gpu'',
        rm_terminateUnderutilized = False, rm_terminateUnderutilizedAfter = ''24h''\<rparr>,
     kcs_gpuPreemption = \<lparr>cfg_defaultThreshold = None, cfg_defaultGracePeriod = None, cfg_defaultPolicy = [],
        cfg_defaultAggregation = [], cfg_defaultTTL = None\<rparr>,
     kcs_defaultClusterQueueName = ''kaiwo'', kcs_defaultClusterQueueCohortName = ''kaiwo'',
     kcs_dynamicallyUpdateDefaultClusterQueue = False, kcs_defaultTopologyName = ''default-topology''\<rparr>"

lemmas example_workload_defs = example_meta_spec_def example_status_spec_def example_workload_def
  example_config_def

section \<open>Properties\<close>

lemma DetermineOverallStatus_is_last: "statuses \<noteq> [] \<Longrightarrow> DetermineOverallStatus statuses = last statuses"
proof -
  assume ne: "statuses \<noteq> []"
  have rank: "workloadStatusRank s > - 1" for s
    by (cases s) (simp_all add: workloadStatusRank_def)
  have loop: "foldl (\<lambda>(overallStatus, currentStatusRank) status.
            if workloadStatusRank status > currentStatusRank then (status, currentStatusRank)
            else (overallStatus, currentStatusRank)) (s0, - 1) ss = ((if ss = [] then s0 else last ss), - 1)" for s0 ss
    by (induction ss arbitrary: s0) (simp_all add: rank)
  show ?thesis unfolding DetermineOverallStatus_def loop using ne by simp
qed

text \<open>
  \<open>DetermineOverallStatus\<close> returns the last status of the list. It does not return the status of
  the highest rank, which is what the ranks are for: the loop never updates the rank it compares with,
  so a failed resource followed by a running one counts as running.
\<close>

theorem DetermineOverallStatus_last:
  "(statuses \<noteq> [] \<longrightarrow> DetermineOverallStatus statuses = last statuses) \<and>
   (\<exists>ss. workloadStatusRank (DetermineOverallStatus ss) < Max (workloadStatusRank ` set ss))"
proof -
  have "workloadStatusRank (DetermineOverallStatus [WorkloadStatusFailed, WorkloadStatusRunning]) <
      Max (workloadStatusRank ` set [WorkloadStatusFailed, WorkloadStatusRunning])"
    by (simp add: DetermineOverallStatus_is_last workloadStatusRank_def)
  then show ?thesis using DetermineOverallStatus_is_last by blast
qed

theorem DetermineOverallStatus_last_witness:
  "DetermineOverallStatus [WorkloadStatusFailed, WorkloadStatusRunning] = WorkloadStatusRunning"
  using DetermineOverallStatus_last [of "[WorkloadStatusFailed, WorkloadStatusRunning]"] by simp

end
