(* ===== verification/Scheduling.thy ===== *)
theory Scheduling
  imports WorkloadTypes
begin

text \<open>
  How a workload is fitted to the cluster: the GPU statistics of the nodes
  (\<^verbatim>\<open>pkg/workloads/common/cluster.go\<close>), replicas and GPUs per replica and the schedulable condition
  (\<^verbatim>\<open>scheduling.go\<close>), and the balancing of replicas for the command line (\<^verbatim>\<open>pkg/k8s/kueue.go\<close>).
  A run-time panic and a fatal log line are \<open>None\<close>. Lemmas: the statistics are sums and minima over the
  matching nodes, the replicas fit the nodes and never exceed the request, the schedulable condition is
  true exactly for workloads whose queue admits their namespace and whose GPUs exist.
\<close>

section \<open>Definitions\<close>

text \<open>Go's integer division truncates and panics on a zero divisor.\<close>

definition go_div :: "int \<Rightarrow> int \<Rightarrow> int option" where
  "go_div a b = (if b = 0 then None else Some (sgn a * sgn b * (\<bar>a\<bar> div \<bar>b\<bar>)))"

definition DefaultNodePoolLabel :: string where "DefaultNodePoolLabel = ''kaiwo/nodepool''"
definition DefaultKaiwoWorkerLabel :: string where "DefaultKaiwoWorkerLabel = ''kaiwo/worker''"
definition GPUModelLabel :: string where "GPUModelLabel = ''kaiwo/gpu-model''"
definition DefaultTopologyBlockLabel :: string where "DefaultTopologyBlockLabel = ''kaiwo/topology-block''"
definition DefaultTopologyRackLabel :: string where "DefaultTopologyRackLabel = ''kaiwo/topology-rack''"
definition DefaultTopologyHostLabel :: string where "DefaultTopologyHostLabel = ''kubernetes.io/hostname''"
definition DefaultTopologyName :: string where "DefaultTopologyName = ''default-topology''"

text \<open>Cluster\<close>

record GPUStats =
  gs_totalClusterGPUs :: int
  gs_totalAllocatableGPUs :: int
  gs_minAllocatableGPUsPerNode :: int
  gs_minGPUsPerNode :: int
  gs_nodeGPUMap :: "int gomap"

record ClusterContext =
  cc_nodes :: "Node list"
  cc_gpuStats :: GPUStats
  cc_kaiwoQueueConfig :: KaiwoQueueConfig

definition max_int32 :: int where "max_int32 = 2 ^ 31 - 1"

text \<open>The GPU count that the node pool label gives, \<open>None\<close> for a node that is skipped.\<close>

definition node_gpus :: "string \<Rightarrow> Node \<Rightarrow> int option" where
  "node_gpus gpuVendor node =
     (case map_of (nd_labels node) DefaultNodePoolLabel of
        None \<Rightarrow> None
      | Some label \<Rightarrow>
          let parts = Split label (CHR ''-'')
          in if length parts < 3 \<or> parts ! 0 \<noteq> gpuVendor then None
             else (case Atoi (TrimSuffix (parts ! 2) ''gpu'') of Inl _ \<Rightarrow> None | Inr n \<Rightarrow> Some n))"

definition add_node :: "string \<Rightarrow> bool \<Rightarrow> GPUStats \<Rightarrow> Node \<Rightarrow> GPUStats" where
  "add_node gpuVendor useAvailability stats node =
     (case node_gpus gpuVendor node of
        None \<Rightarrow> stats
      | Some gpusPerNode \<Rightarrow>
          let stats = stats\<lparr>gs_totalClusterGPUs := gs_totalClusterGPUs stats + gpusPerNode\<rparr>;
              stats = (if gpusPerNode < gs_minGPUsPerNode stats
                       then stats\<lparr>gs_minGPUsPerNode := gpusPerNode\<rparr> else stats);
              stats = stats\<lparr>gs_nodeGPUMap := AList.update (nd_name node) gpusPerNode (gs_nodeGPUMap stats)\<rparr>
          in if useAvailability then
               (case map_of (nd_allocatable node) (gpuVendor @ ''.com/gpu'') of
                  None \<Rightarrow> stats
                | Some allocG \<Rightarrow>
                    if allocG = 0 then stats
                    else
                      let stats = stats\<lparr>gs_totalAllocatableGPUs := gs_totalAllocatableGPUs stats + allocG\<rparr>
                      in if allocG < gs_minAllocatableGPUsPerNode stats
                         then stats\<lparr>gs_minAllocatableGPUsPerNode := allocG\<rparr> else stats)
             else stats)"

definition fillGpuStats :: "Node list \<Rightarrow> string \<Rightarrow> bool \<Rightarrow> GPUStats" where
  "fillGpuStats nodes gpuVendor useAvailability =
     foldl (add_node gpuVendor useAvailability)
       \<lparr>gs_totalClusterGPUs = 0, gs_totalAllocatableGPUs = 0, gs_minAllocatableGPUsPerNode = max_int32,
        gs_minGPUsPerNode = max_int32, gs_nodeGPUMap = []\<rparr> nodes"

text \<open>Replicas. The deep copy of the default resources is the value itself.\<close>

record ResourceConfig =
  rc_totalGpus :: int
  rc_replicas :: int
  rc_gpusPerReplica :: int
  rc_gpuVendor :: string
  rc_defaultResources :: "ResourceRequirements option"

definition userRequestedGpus :: "CommonMetaSpec \<Rightarrow> int" where
  "userRequestedGpus spec =
     (case cms_replicas spec of None \<Rightarrow> 0 | Some r \<Rightarrow> r * cms_gpusPerReplica spec)"

definition totalUserRequestedGpus :: "CommonMetaSpec \<Rightarrow> int" where
  "totalUserRequestedGpus spec = max (userRequestedGpus spec) (cms_gpus spec)"

definition minGpusPerNode :: "GPUStats \<Rightarrow> bool \<Rightarrow> int \<Rightarrow> int" where
  "minGpusPerNode gpuStats useAvailability t =
     (if useAvailability \<and> gs_totalAllocatableGPUs gpuStats \<ge> t
      then gs_minAllocatableGPUsPerNode gpuStats else gs_minGPUsPerNode gpuStats)"

definition compute_replicas :: "GPUStats \<Rightarrow> bool \<Rightarrow> ResourceConfig \<Rightarrow> int \<Rightarrow> ResourceConfig option" where
  "compute_replicas gpuStats useAvailability resourceConfig t =
     (let m = minGpusPerNode gpuStats useAvailability t
      in Option.bind (go_div (t + m - 1) m) (\<lambda>replicas.
         Option.bind (go_div t replicas) (\<lambda>gpusPerReplica.
         Some (resourceConfig\<lparr>rc_totalGpus := t, rc_gpusPerReplica := gpusPerReplica, rc_replicas := replicas\<rparr>))))"

definition CalculateResourceConfig :: "ClusterContext \<Rightarrow> KaiwoWorkload \<Rightarrow> bool \<Rightarrow> ResourceConfig option" where
  "CalculateResourceConfig clusterCtx workload useAvailability =
     (let spec = kw_spec workload;
          gpuStats = cc_gpuStats clusterCtx;
          resourceConfig = \<lparr>rc_totalGpus = 0, rc_replicas = 0, rc_gpusPerReplica = 0,
             rc_gpuVendor = cms_gpuVendor spec, rc_defaultResources = cms_resources spec\<rparr>;
          t = totalUserRequestedGpus spec
      in if t = 0 then
           Some (resourceConfig\<lparr>rc_replicas := (case cms_replicas spec of None \<Rightarrow> 1 | Some r \<Rightarrow> r)\<rparr>)
         else if cms_replicas spec \<noteq> None \<and> the (cms_replicas spec) > 0 \<and> cms_gpusPerReplica spec > 0
             \<and> t \<le> gs_totalClusterGPUs gpuStats
         then Some (resourceConfig\<lparr>rc_replicas := the (cms_replicas spec), rc_totalGpus := t,
                      rc_gpusPerReplica := cms_gpusPerReplica spec\<rparr>)
         else compute_replicas gpuStats useAvailability resourceConfig t)"

text \<open>Schedulable condition\<close>

definition SchedulableType :: string where "SchedulableType = ''Schedulable''"

datatype SchedulingReason =
    Schedulable | UnschedulableNoGPUs | UnschedulableInsufficientGPUs
  | UnschedulableWrongQueueNamespace | UnschedulableClusterQueueNotFound

fun reason_string :: "SchedulingReason \<Rightarrow> string" where
  "reason_string Schedulable = ''Schedulable''"
| "reason_string UnschedulableNoGPUs = ''NoGPUs''"
| "reason_string UnschedulableInsufficientGPUs = ''InsufficientGPUs''"
| "reason_string UnschedulableWrongQueueNamespace = ''WrongQueueNamespace''"
| "reason_string UnschedulableClusterQueueNotFound = ''ClusterQueueNotFound''"

text \<open>A condition literal leaves the generation and the transition time at their zero values.\<close>

definition new_condition :: "string \<Rightarrow> condition_status \<Rightarrow> string \<Rightarrow> string \<Rightarrow> Condition" where
  "new_condition type status reason message =
     \<lparr>c_type = type, c_status = status, c_observedGeneration = 0, c_lastTransitionTime = 0,
      c_reason = reason, c_message = message\<rparr>"

definition schedulable_condition :: "condition_status \<Rightarrow> SchedulingReason \<Rightarrow> string \<Rightarrow> Condition" where
  "schedulable_condition status reason message = new_condition SchedulableType status (reason_string reason) message"

fun queue_condition :: "string \<Rightarrow> string \<Rightarrow> string \<Rightarrow> ClusterQueue list \<Rightarrow> Condition" where
  "queue_condition configName clusterQueueName workloadNamespace [] =
     schedulable_condition CondFalse UnschedulableClusterQueueNotFound
       (''Cluster queue '' @ [CHR 0x27] @ clusterQueueName @ [CHR 0x27] @ '' is not defined in KaiwoQueueConfig ''
        @ [CHR 0x27] @ configName @ [CHR 0x27])"
| "queue_condition configName clusterQueueName workloadNamespace (clusterQueue # rest) =
     (if cq_name clusterQueue = clusterQueueName then
        (if cq_namespaces clusterQueue = [] then
           schedulable_condition CondTrue Schedulable ''Cluster queue has no namespace restrictions''
         else if list_ex (\<lambda>ns. ns = workloadNamespace) (cq_namespaces clusterQueue) then
           schedulable_condition CondTrue Schedulable ''Cluster queue namespace matches''
         else
           schedulable_condition CondFalse UnschedulableWrongQueueNamespace
             (''Cluster queue '' @ [CHR 0x27] @ clusterQueueName @ [CHR 0x27]
              @ '' defines one or more namespaces, but workload namespace ''
              @ [CHR 0x27] @ workloadNamespace @ [CHR 0x27] @ '' is not one of them''))
      else queue_condition configName clusterQueueName workloadNamespace rest)"

definition getQueueConfigCondition :: "KaiwoConfigSpec \<Rightarrow> ClusterContext \<Rightarrow> KaiwoWorkload \<Rightarrow> Condition" where
  "getQueueConfigCondition config clusterCtx workload =
     (let kaiwoQueueConfig = cc_kaiwoQueueConfig clusterCtx
      in queue_condition (qc_name kaiwoQueueConfig) (GetClusterQueueName config (kw_spec workload))
           (kw_namespace workload) (qcs_clusterQueues (qc_spec kaiwoQueueConfig)))"

definition getGpuSchedulableCondition :: "ClusterContext \<Rightarrow> KaiwoWorkload \<Rightarrow> Condition option" where
  "getGpuSchedulableCondition clusterCtx workload =
     map_option (\<lambda>resourceConfig.
       let gpuStats = cc_gpuStats clusterCtx; vendor = cms_gpuVendor (kw_spec workload)
       in if rc_totalGpus resourceConfig > 0 \<and> gs_totalClusterGPUs gpuStats = 0 then
            schedulable_condition CondFalse UnschedulableNoGPUs
              (''Cluster has 0 GPUs (vendor: '' @ vendor @ '')'')
          else if rc_totalGpus resourceConfig > gs_totalClusterGPUs gpuStats then
            schedulable_condition CondFalse UnschedulableInsufficientGPUs
              (''Cluster has '' @ Itoa (gs_totalClusterGPUs gpuStats) @ '' GPUs, but requested for ''
               @ Itoa (rc_totalGpus resourceConfig) @ '' GPUs (vendor: '' @ vendor @ '')'')
          else if rc_totalGpus resourceConfig > 0 then
            schedulable_condition CondTrue Schedulable ''Cluster has sufficient GPU resources''
          else
            schedulable_condition CondTrue Schedulable ''Workload does not require GPU resources'')
       (CalculateResourceConfig clusterCtx workload True)"

definition GetSchedulableCondition ::
    "KaiwoConfigSpec \<Rightarrow> ClusterContext \<Rightarrow> KaiwoWorkload \<Rightarrow> Condition option" where
  "GetSchedulableCondition config clusterCtx workload =
     (let queueConfigCondition = getQueueConfigCondition config clusterCtx workload
      in if c_status queueConfigCondition = CondFalse then Some queueConfigCondition
         else getGpuSchedulableCondition clusterCtx workload)"

text \<open>Balancing for the command line: \<open>None\<close> is the fatal mismatch.\<close>

definition env_int :: "string \<Rightarrow> EnvVar list \<Rightarrow> int" where
  "env_int name envVars =
     foldl (\<lambda>val envVar. if ev_name envVar = name
        then (case Atoi (ev_value envVar) of Inl _ \<Rightarrow> val | Inr n \<Rightarrow> n) else val) 0 envVars"

fun largest_divisor :: "int \<Rightarrow> nat \<Rightarrow> int \<times> int" where
  "largest_divisor requestedGpus 0 = (0, 0)"
| "largest_divisor requestedGpus (Suc n) =
     (if requestedGpus mod int (Suc n) = 0 then (requestedGpus div int (Suc n), int (Suc n))
      else largest_divisor requestedGpus n)"

definition balance :: "int \<Rightarrow> int \<Rightarrow> int \<times> int" where
  "balance requestedGpus gpusPerNode =
     (if requestedGpus < 0 then (0, 0)
      else if requestedGpus = 0 then (1, 0)
      else if requestedGpus \<le> gpusPerNode then (1, requestedGpus)
      else if gpusPerNode \<le> 0 then (0, gpusPerNode)
      else largest_divisor requestedGpus (nat gpusPerNode))"

definition CalculateNumberOfReplicas :: "int \<Rightarrow> int \<Rightarrow> EnvVar list \<Rightarrow> (int \<times> int) option" where
  "CalculateNumberOfReplicas requestedGpus gpusPerNode envVars =
     (let pipelineParallelism = env_int ''PIPELINE_PARALLELISM'' envVars;
          tensorParallelism = env_int ''TENSOR_PARALLELISM'' envVars
      in if pipelineParallelism > 1 \<and> tensorParallelism > 0 then
           (if pipelineParallelism * tensorParallelism \<noteq> requestedGpus \<or> tensorParallelism > gpusPerNode then None
            else Some (pipelineParallelism, tensorParallelism))
         else Some (balance requestedGpus gpusPerNode))"

section \<open>Arithmetic\<close>

lemma go_div_pos: "0 \<le> a \<Longrightarrow> 0 < b \<Longrightarrow> go_div a b = Some (a div b)"
  by (auto simp: go_div_def sgn_if)

lemma ceil_div:
  fixes t m :: int
  assumes "0 < t" and "0 < m"
  defines "r \<equiv> (t + m - 1) div m"
  shows "1 \<le> r" and "t \<le> r * m" and "(r - 1) * m < t"
proof -
  have "r * m + (t + m - 1) mod m = t + m - 1" unfolding r_def by simp
  moreover have "0 \<le> (t + m - 1) mod m" "(t + m - 1) mod m < m" using assms(2) by simp_all
  moreover have "(r - 1) * m = r * m - m" by (simp add: algebra_simps)
  ultimately show "t \<le> r * m" "(r - 1) * m < t" by linarith+
  then have "0 < r * m" using assms(1) by linarith
  then show "1 \<le> r" using assms(2) by (simp add: zero_less_mult_iff)
qed

text \<open>The quotient of a request by the number of replicas fits on a node and loses less than one GPU per replica.\<close>

lemma div_bounds:
  fixes t m r :: int
  assumes "0 < r" and "t \<le> r * m" and "0 < t"
  shows "t div r \<le> m" and "r * (t div r) \<le> t" and "t < r * (t div r) + r"
proof -
  have eq: "r * (t div r) + t mod r = t" by simp
  moreover have "0 \<le> t mod r" "t mod r < r" using assms(1) by simp_all
  ultimately show "r * (t div r) \<le> t" "t < r * (t div r) + r" by linarith+
  show "t div r \<le> m"
    using zdiv_mono1 [OF assms(2,1)] assms(1) by simp
qed

section \<open>GPU statistics\<close>

definition matching_gpus :: "string \<Rightarrow> Node list \<Rightarrow> int list" where
  "matching_gpus v nodes = List.map_filter (node_gpus v) nodes"

definition allocatable_gpus :: "string \<Rightarrow> Node list \<Rightarrow> int list" where
  "allocatable_gpus v nodes = filter (\<lambda>n. n \<noteq> 0)
     (List.map_filter (\<lambda>n. if node_gpus v n = None then None else map_of (nd_allocatable n) (v @ ''.com/gpu'')) nodes)"

lemma add_node_totals:
  "gs_totalClusterGPUs (add_node v True s n) = gs_totalClusterGPUs s + sum_list (matching_gpus v [n])"
  "gs_minGPUsPerNode (add_node v True s n) = fold min (matching_gpus v [n]) (gs_minGPUsPerNode s)"
  "gs_totalAllocatableGPUs (add_node v True s n) = gs_totalAllocatableGPUs s + sum_list (allocatable_gpus v [n])"
  "gs_minAllocatableGPUsPerNode (add_node v True s n) = fold min (allocatable_gpus v [n]) (gs_minAllocatableGPUsPerNode s)"
  by (auto simp: add_node_def matching_gpus_def allocatable_gpus_def List.map_filter_def Let_def min_def
      split: option.splits)

lemma matching_Cons: "matching_gpus v (n # ns) = matching_gpus v [n] @ matching_gpus v ns"
  by (simp add: matching_gpus_def List.map_filter_def)

lemma allocatable_Cons: "allocatable_gpus v (n # ns) = allocatable_gpus v [n] @ allocatable_gpus v ns"
  by (simp add: allocatable_gpus_def List.map_filter_def)

lemma foldl_add_node:
  "gs_totalClusterGPUs (foldl (add_node v True) s ns) = gs_totalClusterGPUs s + sum_list (matching_gpus v ns)"
  "gs_minGPUsPerNode (foldl (add_node v True) s ns) = fold min (matching_gpus v ns) (gs_minGPUsPerNode s)"
  "gs_totalAllocatableGPUs (foldl (add_node v True) s ns) = gs_totalAllocatableGPUs s + sum_list (allocatable_gpus v ns)"
  "gs_minAllocatableGPUsPerNode (foldl (add_node v True) s ns) = fold min (allocatable_gpus v ns) (gs_minAllocatableGPUsPerNode s)"
proof (induction ns arbitrary: s)
  case Nil
  { case 1 show ?case by (simp add: matching_gpus_def List.map_filter_def)
  next case 2 show ?case by (simp add: matching_gpus_def List.map_filter_def)
  next case 3 show ?case by (simp add: allocatable_gpus_def List.map_filter_def)
  next case 4 show ?case by (simp add: allocatable_gpus_def List.map_filter_def) }
next
  case (Cons n ns)
  { case 1 show ?case using Cons(1) by (subst matching_Cons) (simp add: add_node_totals)
  next case 2 show ?case using Cons(2) by (subst matching_Cons) (simp add: add_node_totals)
  next case 3 show ?case using Cons(3) by (subst allocatable_Cons) (simp add: add_node_totals)
  next case 4 show ?case using Cons(4) by (subst allocatable_Cons) (simp add: add_node_totals) }
qed

section \<open>Properties\<close>

text \<open>
  The GPU statistics of the cluster: over the nodes whose pool label names the vendor and a GPU count,
  the totals are the sums and the minima the least of the counts of the labels and of the non-zero
  allocatable GPUs (2147483647 when there is no such node).
\<close>

theorem fillGpuStats_correct:
  "gs_totalClusterGPUs (fillGpuStats nodes v True) = sum_list (matching_gpus v nodes) \<and>
   gs_minGPUsPerNode (fillGpuStats nodes v True) = Min (insert (2 ^ 31 - 1) (set (matching_gpus v nodes))) \<and>
   gs_totalAllocatableGPUs (fillGpuStats nodes v True) = sum_list (allocatable_gpus v nodes) \<and>
   gs_minAllocatableGPUsPerNode (fillGpuStats nodes v True) = Min (insert (2 ^ 31 - 1) (set (allocatable_gpus v nodes)))"
proof -
  have min: "fold min xs m = Min (insert m (set xs))" for xs and m :: int
    using Min.set_eq_fold [of m xs] by simp
  show ?thesis by (simp add: fillGpuStats_def foldl_add_node min max_int32_def)
qed

text \<open>The branch in which the user's replicas and GPUs per replica are taken as they are.\<close>

definition user_fixed :: "ClusterContext \<Rightarrow> CommonMetaSpec \<Rightarrow> bool" where
  "user_fixed cc spec \<longleftrightarrow> (\<exists>r. cms_replicas spec = Some r \<and> 0 < r) \<and> 0 < cms_gpusPerReplica spec \<and>
     totalUserRequestedGpus spec \<le> gs_totalClusterGPUs (cc_gpuStats cc)"

lemma CalculateResourceConfig_computes:
  assumes "totalUserRequestedGpus (kw_spec w) \<noteq> 0" and "\<not> user_fixed cc (kw_spec w)"
  shows "\<exists>rc0. CalculateResourceConfig cc w a = compute_replicas (cc_gpuStats cc) a rc0 (totalUserRequestedGpus (kw_spec w))"
  using assms unfolding CalculateResourceConfig_def Let_def user_fixed_def by (auto split: if_splits)

lemma compute_replicas_fits:
  assumes "0 < t" and "0 < minGpusPerNode st a t"
  shows "\<exists>rc. compute_replicas st a rc0 t = Some rc \<and> rc_totalGpus rc = t \<and>
    (rc_replicas rc - 1) * minGpusPerNode st a t < t \<and> t \<le> rc_replicas rc * minGpusPerNode st a t \<and>
    1 \<le> rc_gpusPerReplica rc \<and> rc_gpusPerReplica rc \<le> minGpusPerNode st a t \<and>
    rc_replicas rc * rc_gpusPerReplica rc \<le> t \<and> t < rc_replicas rc * rc_gpusPerReplica rc + rc_replicas rc"
proof -
  define m where "m = minGpusPerNode st a t"
  define r where "r = (t + m - 1) div m"
  note ceil = ceil_div [OF assms(1), of m, folded r_def]
  have m: "0 < m" using assms(2) by (simp add: m_def)
  have "0 < r" using ceil(1) [OF m] by simp
  note quotient = div_bounds [OF this ceil(2) [OF m] assms(1)]
  have "(r - 1) * 1 \<le> (r - 1) * m" using \<open>0 < r\<close> m by (intro mult_left_mono) simp_all
  then have "r - 1 < t" using ceil(3) [OF m] by (metis mult.right_neutral order.strict_trans1)
  then have "r \<le> t" by simp
  then have "1 \<le> t div r" using \<open>0 < r\<close> assms(1) by (simp add: pos_imp_zdiv_pos_iff int_one_le_iff_zero_less)
  moreover have "compute_replicas st a rc0 t =
      Some (rc0\<lparr>rc_totalGpus := t, rc_gpusPerReplica := t div r, rc_replicas := r\<rparr>)"
    using assms(1) m \<open>0 < r\<close> by (simp add: compute_replicas_def Let_def go_div_pos flip: m_def r_def)
  ultimately show ?thesis using ceil(2,3) [OF m] quotient by (simp add: m_def)
qed


definition example_cluster :: ClusterContext where
  "example_cluster = \<lparr>cc_nodes = [], cc_gpuStats = \<lparr>gs_totalClusterGPUs = 16, gs_totalAllocatableGPUs = 16,
     gs_minAllocatableGPUsPerNode = 4, gs_minGPUsPerNode = 4, gs_nodeGPUMap = []\<rparr>,
     cc_kaiwoQueueConfig = \<lparr>qc_name = ''kaiwo'', qc_spec = \<lparr>qcs_clusterQueues = [], qcs_resourceFlavors = [],
       qcs_workloadPriorityClasses = [], qcs_topologies = []\<rparr>, qc_status = QueueConfigStatusReady\<rparr>\<rparr>"


text \<open>
  A node pool whose label says zero GPUs (as the operator labels a node whose GPU count it cannot parse)
  makes the operator panic: for a workload that requests GPUs, more than are allocatable now, and whose
  replicas are not fixed, the computation divides by zero.
\<close>

theorem zero_gpu_pool_panics:
  assumes "node \<in> set nodes" and "node_gpus v node = Some 0" and "\<forall>n\<in>set (matching_gpus v nodes). 0 \<le> n"
    and "cc_gpuStats cc = fillGpuStats nodes v True"
    and "0 < totalUserRequestedGpus (kw_spec w)" and "\<not> user_fixed cc (kw_spec w)"
    and "sum_list (allocatable_gpus v nodes) < totalUserRequestedGpus (kw_spec w)"
  shows "CalculateResourceConfig cc w True = None"
proof -
  have "0 \<in> set (matching_gpus v nodes)"
    using assms(1,2) by (force simp: matching_gpus_def List.map_filter_def image_iff)
  moreover have min: "fold min xs m = Min (insert m (set xs))" for xs and m :: int
    using Min.set_eq_fold [of m xs] by simp
  ultimately have "gs_minGPUsPerNode (cc_gpuStats cc) = 0"
    using assms(3) by (auto simp: assms(4) fillGpuStats_def foldl_add_node min max_int32_def intro!: Min_eqI)
  moreover have "gs_totalAllocatableGPUs (cc_gpuStats cc) < totalUserRequestedGpus (kw_spec w)"
    using assms(7) by (simp add: assms(4) fillGpuStats_def foldl_add_node)
  ultimately have "minGpusPerNode (cc_gpuStats cc) True (totalUserRequestedGpus (kw_spec w)) = 0"
    by (simp add: minGpusPerNode_def)
  with CalculateResourceConfig_computes [of w cc True] assms(5,6) show ?thesis
    by (auto simp: compute_replicas_def go_div_def)
qed

definition zero_gpu_node :: Node where
  "zero_gpu_node = \<lparr>nd_name = ''n1'', nd_labels = [(DefaultNodePoolLabel, ''amd-mi300-0gpu-86core-57gi'')],
     nd_unschedulable = False, nd_taints = [], nd_capacity = [], nd_allocatable = []\<rparr>"

theorem zero_gpu_pool_panics_witness:
  "CalculateResourceConfig (example_cluster\<lparr>cc_gpuStats := fillGpuStats [zero_gpu_node] ''amd'' True\<rparr>)
     (example_workload\<lparr>kw_spec := example_meta_spec\<lparr>cms_gpus := 1\<rparr>\<rparr>) True = None"
proof (rule zero_gpu_pool_panics)
  have n: "node_gpus ''amd'' zero_gpu_node = Some 0" by code_simp
  then show "node_gpus ''amd'' zero_gpu_node = Some 0" .
  show "\<forall>n\<in>set (matching_gpus ''amd'' [zero_gpu_node]). 0 \<le> n" by (simp add: matching_gpus_def List.map_filter_def n)
  show "sum_list (allocatable_gpus ''amd'' [zero_gpu_node])
      < totalUserRequestedGpus (kw_spec (example_workload\<lparr>kw_spec := example_meta_spec\<lparr>cms_gpus := 1\<rparr>\<rparr>))"
    by (simp add: allocatable_gpus_def List.map_filter_def zero_gpu_node_def totalUserRequestedGpus_def
        userRequestedGpus_def example_meta_spec_def)
qed (simp_all add: totalUserRequestedGpus_def userRequestedGpus_def example_meta_spec_def user_fixed_def)

lemma find_hit: "List.find P xs = Some x \<Longrightarrow> P x"
  by (induction xs) (auto split: if_splits)

lemma queue_condition_find:
  "queue_condition cfg q ns queues =
     (case List.find (\<lambda>cq. cq_name cq = q) queues of
        None \<Rightarrow> queue_condition cfg q ns []
      | Some cq \<Rightarrow> queue_condition cfg q ns [cq])"
  by (induction queues) (simp_all split: if_splits)

lemma condition_fields [simp]:
  "c_status (schedulable_condition st r msg) = st" "c_reason (schedulable_condition st r msg) = reason_string r"
  "c_type (schedulable_condition st r msg) = SchedulableType"
  by (simp_all add: schedulable_condition_def new_condition_def)

definition queue_admits :: "KaiwoConfigSpec \<Rightarrow> ClusterContext \<Rightarrow> KaiwoWorkload \<Rightarrow> bool" where
  "queue_admits config cc w \<longleftrightarrow>
     (case List.find (\<lambda>cq. cq_name cq = GetClusterQueueName config (kw_spec w))
         (qcs_clusterQueues (qc_spec (cc_kaiwoQueueConfig cc))) of
        None \<Rightarrow> False
      | Some cq \<Rightarrow> cq_namespaces cq = [] \<or> kw_namespace w \<in> set (cq_namespaces cq))"

lemma getQueueConfigCondition_status:
  "c_status (getQueueConfigCondition config cc w) = (if queue_admits config cc w then CondTrue else CondFalse)"
  unfolding getQueueConfigCondition_def Let_def queue_condition_find [of _ _ _ "qcs_clusterQueues _"] queue_admits_def
  by (auto simp: list_ex_iff dest: find_hit split: option.splits)

text \<open>
  The schedulable condition. Once the replicas can be computed, a workload that requests no negative
  number of GPUs is reported schedulable exactly when the first queue of the KaiwoQueueConfig with its
  queue's name has no namespaces or lists the workload's, and the cluster has the GPUs it requests; the
  reason of a false condition names the check that failed first.
\<close>

theorem GetSchedulableCondition_decides:
  assumes "CalculateResourceConfig cc w True = Some rc" and "0 \<le> totalUserRequestedGpus (kw_spec w)"
    and "0 \<le> gs_totalClusterGPUs (cc_gpuStats cc)"
  shows "\<exists>c. GetSchedulableCondition config cc w = Some c \<and> c_type c = SchedulableType \<and>
    (c_status c = CondTrue \<longleftrightarrow> queue_admits config cc w \<and>
       totalUserRequestedGpus (kw_spec w) \<le> gs_totalClusterGPUs (cc_gpuStats cc)) \<and>
    (c_status c \<noteq> CondTrue \<longrightarrow> c_status c = CondFalse \<and> c_reason c = reason_string
       (if List.find (\<lambda>cq. cq_name cq = GetClusterQueueName config (kw_spec w))
            (qcs_clusterQueues (qc_spec (cc_kaiwoQueueConfig cc))) = None then UnschedulableClusterQueueNotFound
        else if \<not> queue_admits config cc w then UnschedulableWrongQueueNamespace
        else if gs_totalClusterGPUs (cc_gpuStats cc) = 0 then UnschedulableNoGPUs
        else UnschedulableInsufficientGPUs))"
proof -
  have gpus: "rc_totalGpus rc = totalUserRequestedGpus (kw_spec w)"
    using assms(1) unfolding CalculateResourceConfig_def Let_def compute_replicas_def
    by (auto split: if_splits Option.bind_splits)
  show ?thesis
  proof (cases "queue_admits config cc w")
    case True
    then have "\<exists>cq. List.find (\<lambda>cq. cq_name cq = GetClusterQueueName config (kw_spec w))
            (qcs_clusterQueues (qc_spec (cc_kaiwoQueueConfig cc))) = Some cq"
      by (auto simp: queue_admits_def split: option.splits)
    with True show ?thesis
      using assms gpus
      by (auto simp: GetSchedulableCondition_def getQueueConfigCondition_status getGpuSchedulableCondition_def Let_def)
  next
    case False
    have type: "c_type (getQueueConfigCondition config cc w) = SchedulableType"
      unfolding getQueueConfigCondition_def Let_def queue_condition_find [of _ _ _ "qcs_clusterQueues _"]
      by (auto split: option.splits)
    have reason: "c_reason (getQueueConfigCondition config cc w) = reason_string
       (if List.find (\<lambda>cq. cq_name cq = GetClusterQueueName config (kw_spec w))
            (qcs_clusterQueues (qc_spec (cc_kaiwoQueueConfig cc))) = None then UnschedulableClusterQueueNotFound
        else UnschedulableWrongQueueNamespace)"
      using False
      unfolding getQueueConfigCondition_def Let_def queue_condition_find [of _ _ _ "qcs_clusterQueues _"] queue_admits_def
      by (auto simp: list_ex_iff dest: find_hit split: option.splits)
    show ?thesis
      using False type reason by (simp add: GetSchedulableCondition_def getQueueConfigCondition_status)
  qed
qed

theorem GetSchedulableCondition_decides_witness:
  "\<exists>c. GetSchedulableCondition example_config example_cluster example_workload = Some c \<and>
     c_status c = CondFalse \<and> c_reason c = ''ClusterQueueNotFound''"
proof -
  have "\<exists>rc. CalculateResourceConfig example_cluster example_workload True = Some rc"
    by (simp add: CalculateResourceConfig_def example_workload_def totalUserRequestedGpus_def userRequestedGpus_def
        example_meta_spec_def)
  then obtain rc where "CalculateResourceConfig example_cluster example_workload True = Some rc" ..
  from GetSchedulableCondition_decides [OF this, of example_config]
  show ?thesis
    by (auto simp: example_workload_def totalUserRequestedGpus_def userRequestedGpus_def example_meta_spec_def
        example_cluster_def queue_admits_def)
qed

lemma largest_divisor_correct:
  assumes "0 < t"
  shows "(\<exists>d. 0 < d \<and> d \<le> int n \<and> d dvd t) \<Longrightarrow>
    0 < snd (largest_divisor t n) \<and> snd (largest_divisor t n) \<le> int n \<and>
    fst (largest_divisor t n) * snd (largest_divisor t n) = t \<and>
    (\<forall>d. 0 < d \<longrightarrow> d \<le> int n \<longrightarrow> d dvd t \<longrightarrow> d \<le> snd (largest_divisor t n))"
proof (induction n)
  case (Suc n)
  show ?case
  proof (cases "t mod int (Suc n) = 0")
    case True
    then show ?thesis by (auto simp: dvd_eq_mod_eq_0 simp del: of_nat_Suc)
  next
    case False
    then have other: "d \<noteq> int (Suc n)" if "d dvd t" for d using that by (auto simp: dvd_eq_mod_eq_0)
    then have le: "d \<le> int n" if "d dvd t" "d \<le> int (Suc n)" for d
      using that by (metis zle_add1_eq_le of_nat_Suc order_le_less add.commute)
    then have "\<exists>d. 0 < d \<and> d \<le> int n \<and> d dvd t" using Suc.prems by blast
    from Suc.IH [OF this] le False show ?thesis by (auto simp del: of_nat_Suc)
  qed
qed auto

text \<open>
  Balancing a positive request over nodes of \<open>n > 0\<close> GPUs never fails without the two parallelism
  variables, places exactly the requested GPUs, and uses the largest number of GPUs per node, at most \<open>n\<close>,
  that divides the request; with the variables it returns their values or stops when they do not match.
\<close>

theorem CalculateNumberOfReplicas_exact:
  assumes "0 < t" and "0 < n"
  shows "(\<forall>r g. CalculateNumberOfReplicas t n envVars = Some (r, g) \<longrightarrow>
      r * g = t \<and> 0 < g \<and> g \<le> n \<and>
      (if env_int ''PIPELINE_PARALLELISM'' envVars > 1 \<and> env_int ''TENSOR_PARALLELISM'' envVars > 0
       then r = env_int ''PIPELINE_PARALLELISM'' envVars
       else (\<forall>d. 0 < d \<longrightarrow> d \<le> n \<longrightarrow> d dvd t \<longrightarrow> d \<le> g))) \<and>
    (\<exists>r g. CalculateNumberOfReplicas t n [] = Some (r, g))"
proof (rule conjI)
  have "0 < snd (balance t n) \<and> snd (balance t n) \<le> n \<and> fst (balance t n) * snd (balance t n) = t \<and>
      (\<forall>d. 0 < d \<longrightarrow> d \<le> n \<longrightarrow> d dvd t \<longrightarrow> d \<le> snd (balance t n))"
  proof (cases "t \<le> n")
    case True
    with assms show ?thesis by (auto simp: balance_def zdvd_imp_le)
  next
    case False
    have "\<exists>d. 0 < d \<and> d \<le> int (nat n) \<and> d dvd t" using assms(2) by (intro exI [of _ 1]) simp
    from largest_divisor_correct [OF assms(1) this] False assms show ?thesis by (simp add: balance_def)
  qed
  then show "\<forall>r g. CalculateNumberOfReplicas t n envVars = Some (r, g) \<longrightarrow>
      r * g = t \<and> 0 < g \<and> g \<le> n \<and>
      (if env_int ''PIPELINE_PARALLELISM'' envVars > 1 \<and> env_int ''TENSOR_PARALLELISM'' envVars > 0
       then r = env_int ''PIPELINE_PARALLELISM'' envVars
       else (\<forall>d. 0 < d \<longrightarrow> d \<le> n \<longrightarrow> d dvd t \<longrightarrow> d \<le> g))"
    by (auto simp: CalculateNumberOfReplicas_def Let_def split: if_splits)
  show "\<exists>r g. CalculateNumberOfReplicas t n [] = Some (r, g)"
    by (cases "balance t n") (simp add: CalculateNumberOfReplicas_def Let_def env_int_def)
qed

theorem CalculateNumberOfReplicas_exact_witness:
  "\<exists>r g. CalculateNumberOfReplicas 12 8 [] = Some (r, g) \<and> r * g = 12 \<and> 6 \<le> g \<and> g \<le> 8"
  using CalculateNumberOfReplicas_exact [of 12 8 "[]"] by (auto simp: env_int_def)

end
