(* ===== verification/PodSpec.thy ===== *)
theory PodSpec
  imports Scheduling
begin

text \<open>
  What Kaiwo writes into pod templates: labels (\<^verbatim>\<open>pkg/workloads/common/labels.go\<close>), resource requirements
  (\<^verbatim>\<open>resources.go\<close>), the pod template itself (\<^verbatim>\<open>podspec.go\<close>), entrypoints and environment variables
  (\<^verbatim>\<open>utils.go\<close>) and the groups of a Ray cluster (\<^verbatim>\<open>pkg/workloads/utils/ray.go\<close>).

  \<open>CreateResourceRequirements\<close> writes through the maps that its argument's default resources share
  with the caller, so the model returns the caller's configuration as it is afterwards, and the callers
  thread it from one container and one pod group to the next.
\<close>

section \<open>Labels\<close>

definition KaiwoUserLabel :: string where "KaiwoUserLabel = ''kaiwo.silogen.ai/user''"
definition KaiwoNameLabel :: string where "KaiwoNameLabel = ''kaiwo.silogen.ai/name''"
definition KaiwoTypeLabel :: string where "KaiwoTypeLabel = ''kaiwo.silogen.ai/type''"
definition KaiwoRunIdLabel :: string where "KaiwoRunIdLabel = ''kaiwo.silogen.ai/run-id''"
definition KaiwoManagedLabel :: string where "KaiwoManagedLabel = ''kaiwo.silogen.ai/managed''"
definition QueueLabel :: string where "QueueLabel = ''kueue.x-k8s.io/queue-name''"
definition WorkloaddPriorityClassLabel :: string where "WorkloaddPriorityClassLabel = ''kueue.x-k8s.io/priority-class''"
definition CPUOnly :: string where "CPUOnly = ''cpu-only''"
definition KueueRequiredTopologyKey :: string where
  "KueueRequiredTopologyKey = ''kueue.x-k8s.io/podset-required-topology''"
definition KueuePreferredTopologyKey :: string where
  "KueuePreferredTopologyKey = ''kueue.x-k8s.io/podset-preferred-topology''"

lemmas label_defs = KaiwoUserLabel_def KaiwoNameLabel_def KaiwoTypeLabel_def KaiwoRunIdLabel_def
  KaiwoManagedLabel_def QueueLabel_def

record KaiwoLabelContext =
  lc_user :: string
  lc_name :: string
  lc_type :: string
  lc_runId :: string
  lc_managed :: string

definition GetKaiwoLabelContext :: "KaiwoWorkload \<Rightarrow> KaiwoLabelContext" where
  "GetKaiwoLabelContext k =
     \<lparr>lc_user = cms_user (kw_spec k), lc_name = kw_name k,
      lc_type = (if kw_kind k = KindKaiwoService then ''service'' else ''job''),
      lc_runId = kw_uid k, lc_managed = map_get [] (kw_labels k) KaiwoManagedLabel\<rparr>"

definition SetKaiwoSystemLabels :: "KaiwoLabelContext \<Rightarrow> string gomap \<Rightarrow> string gomap" where
  "SetKaiwoSystemLabels ctx labels =
     (let labels = AList.update KaiwoUserLabel (base_MakeRFC1123Compliant (lc_user ctx)) labels;
          labels = AList.update KaiwoNameLabel (lc_name ctx) labels;
          labels = AList.update KaiwoTypeLabel (lc_type ctx) labels;
          labels = AList.update KaiwoRunIdLabel (lc_runId ctx) labels
      in if lc_managed ctx \<noteq> [] then AList.update KaiwoManagedLabel (lc_managed ctx) labels else labels)"

definition CopyLabels :: "string gomap \<Rightarrow> string gomap \<Rightarrow> string gomap" where
  "CopyLabels kaiwoLabels labels =
     foldl (\<lambda>labels (k, v). if k = QueueLabel then labels
        else if has_key labels k then labels else AList.update k v labels) labels kaiwoLabels"

definition UpdateLabels :: "KaiwoWorkload \<Rightarrow> string gomap \<Rightarrow> string gomap" where
  "UpdateLabels workload labels =
     SetKaiwoSystemLabels (GetKaiwoLabelContext workload) (CopyLabels (kw_labels workload) labels)"

section \<open>Resources\<close>

text \<open>
  \<open>qa_literal\<close> is \<^verbatim>\<open>resource.MustParse\<close> on the well-formed literals of the source, \<open>qa_parse\<close> the
  parser on strings of the user (\<open>None\<close> where \<^verbatim>\<open>MustParse\<close> panics).
\<close>

record QuantityApi =
  qa_literal :: "string \<Rightarrow> int"
  qa_parse :: "string \<Rightarrow> int option"

definition to_upper_char :: "char \<Rightarrow> char" where
  "to_upper_char c = (if is_lower c then char_of ((of_char c :: nat) - 32) else c)"

definition getGpuResourceKey :: "string \<Rightarrow> string \<Rightarrow> string" where
  "getGpuResourceKey vendor defaultVendor =
     (let vendor = map to_upper_char vendor
      in if vendor = ''NVIDIA'' then ''nvidia.com/gpu''
         else if vendor = ''AMD'' then ''amd.com/gpu'' else defaultVendor)"

definition updateResourceList :: "QuantityApi \<Rightarrow> int \<Rightarrow> int gomap \<Rightarrow> int gomap" where
  "updateResourceList qa gpuCount m =
     (let m = (if has_key m ''cpu'' then m
               else AList.update ''cpu'' (qa_literal qa (if gpuCount > 0 then Itoa (gpuCount * 4) else ''2'')) m)
      in if has_key m ''memory'' then m
         else AList.update ''memory''
           (qa_literal qa (if gpuCount > 0 then Itoa (gpuCount * 32) @ ''Gi'' else ''16Gi'')) m)"

definition set_gpus :: "QuantityApi \<Rightarrow> string \<Rightarrow> int \<Rightarrow> int gomap \<Rightarrow> int gomap" where
  "set_gpus qa key gpuCount m =
     (if gpuCount > 0 then AList.update key (qa_literal qa (Itoa gpuCount)) m else m)"

definition CreateResourceRequirements ::
    "QuantityApi \<Rightarrow> KaiwoConfigSpec \<Rightarrow> ResourceConfig \<Rightarrow> bool \<Rightarrow> ResourceRequirements \<times> ResourceConfig" where
  "CreateResourceRequirements qa config resourceConfig rayhead =
     (let base = (case rc_defaultResources resourceConfig of
                    None \<Rightarrow> \<lparr>rr_requests = None, rr_limits = None\<rparr> | Some d \<Rightarrow> d);
          gpuCount = (if rayhead then 0 else rc_gpusPerReplica resourceConfig);
          key = getGpuResourceKey (rc_gpuVendor resourceConfig) (nod_defaultGpuResourceKey (kcs_nodes config));
          fill = (\<lambda>m. updateResourceList qa gpuCount (set_gpus qa key gpuCount m));
          requests = fill (case rr_requests base of None \<Rightarrow> [] | Some m \<Rightarrow> m);
          limits = fill (case rr_limits base of None \<Rightarrow> [] | Some m \<Rightarrow> m)
      in (\<lparr>rr_requests = Some requests, rr_limits = Some limits\<rparr>,
          resourceConfig\<lparr>rc_defaultResources := map_option
            (\<lambda>d. d\<lparr>rr_requests := map_option (\<lambda>_. requests) (rr_requests d),
                   rr_limits := map_option (\<lambda>_. limits) (rr_limits d)\<rparr>)
            (rc_defaultResources resourceConfig)\<rparr>))"

definition fillResourceList :: "int gomap option \<Rightarrow> int gomap \<Rightarrow> bool \<Rightarrow> int gomap option" where
  "fillResourceList dest src override =
     Some (foldl (\<lambda>dest (k, v). if override \<or> \<not> has_key dest k then AList.update k v dest else dest)
       (case dest of None \<Rightarrow> [] | Some m \<Rightarrow> m) src)"

definition fillContainerResources :: "WContainer \<Rightarrow> ResourceRequirements option \<Rightarrow> bool \<Rightarrow> WContainer" where
  "fillContainerResources container resources override =
     (case resources of
        None \<Rightarrow> container
      | Some r \<Rightarrow> container\<lparr>wc_resources :=
          \<lparr>rr_requests = fillResourceList (rr_requests (wc_resources container))
             (case rr_requests r of None \<Rightarrow> [] | Some m \<Rightarrow> m) override,
           rr_limits = fillResourceList (rr_limits (wc_resources container))
             (case rr_limits r of None \<Rightarrow> [] | Some m \<Rightarrow> m) override\<rparr>\<rparr>)"

section \<open>Pod templates\<close>

definition DataStoragePostfix :: string where "DataStoragePostfix = ''data''"
definition HfStoragePostfix :: string where "HfStoragePostfix = ''hf''"

definition storage_of :: "CommonMetaSpec \<Rightarrow> StorageSpec option" where
  "storage_of spec = (case cms_storage spec of
     None \<Rightarrow> None | Some st \<Rightarrow> if ss_storageEnabled st then Some st else None)"

definition updateContainerBase :: "CommonMetaSpec \<Rightarrow> WContainer \<Rightarrow> WContainer" where
  "updateContainerBase spec container =
     (let data = (case storage_of spec of None \<Rightarrow> None | Some st \<Rightarrow> if data_IsRequested (ss_data st) then ss_data st else None);
          hf = (case storage_of spec of None \<Rightarrow> None | Some st \<Rightarrow> if hf_IsRequested (ss_huggingFace st) then ss_huggingFace st else None);
          mounts = (case data of None \<Rightarrow> [] | Some d \<Rightarrow>
                      [\<lparr>vm_name = DataStoragePostfix, vm_mountPath = ds_mountPath d, vm_subPath = []\<rparr>])
                 @ (case hf of None \<Rightarrow> [] | Some d \<Rightarrow>
                      [\<lparr>vm_name = HfStoragePostfix, vm_mountPath = hs_mountPath d, vm_subPath = []\<rparr>]);
          envVars = cms_env spec
                 @ (case hf of None \<Rightarrow> [] | Some d \<Rightarrow> [\<lparr>ev_name = ''HF_HOME'', ev_value = hs_mountPath d\<rparr>])
      in container\<lparr>wc_env := wc_env container @ envVars,
                   wc_volumeMounts := wc_volumeMounts container @ mounts
                     @ map (\<lambda>v. \<lparr>vm_name = sv_name v, vm_mountPath = sv_mountPath v, vm_subPath = sv_subPath v\<rparr>)
                         (cms_secretVolumes spec)\<rparr>)"

definition updateMainContainer ::
    "QuantityApi \<Rightarrow> KaiwoConfigSpec \<Rightarrow> CommonMetaSpec \<Rightarrow> ResourceConfig \<Rightarrow> WContainer \<Rightarrow> bool \<Rightarrow> WContainer \<times> ResourceConfig" where
  "updateMainContainer qa config spec resourceConfig container rayHead =
     (let container = updateContainerBase spec container;
          container = (if wc_image container = [] then container\<lparr>wc_image := cms_image spec\<rparr> else container);
          container = container\<lparr>wc_env := wc_env container @
            [\<lparr>ev_name = ''NUM_GPUS'', ev_value = Itoa (rc_totalGpus resourceConfig)\<rparr>,
             \<lparr>ev_name = ''NUM_REPLICAS'', ev_value = Itoa (rc_replicas resourceConfig)\<rparr>,
             \<lparr>ev_name = ''NUM_GPUS_PER_REPLICA'', ev_value = Itoa (rc_gpusPerReplica resourceConfig)\<rparr>]\<rparr>;
          (requirements, resourceConfig) = CreateResourceRequirements qa config resourceConfig rayHead
      in (fillContainerResources container (Some requirements) False, resourceConfig))"

definition updateInitContainer :: "CommonMetaSpec \<Rightarrow> WContainer \<Rightarrow> WContainer" where
  "updateInitContainer spec container = updateContainerBase spec container"

fun update_main_containers ::
    "QuantityApi \<Rightarrow> KaiwoConfigSpec \<Rightarrow> CommonMetaSpec \<Rightarrow> bool \<Rightarrow> ResourceConfig \<Rightarrow> WContainer list \<Rightarrow> WContainer list \<times> ResourceConfig" where
  "update_main_containers qa config spec rayHead resourceConfig [] = ([], resourceConfig)"
| "update_main_containers qa config spec rayHead resourceConfig (c # cs) =
     (let (c', resourceConfig) = updateMainContainer qa config spec resourceConfig c rayHead;
          (cs', resourceConfig) = update_main_containers qa config spec rayHead resourceConfig cs
      in (c' # cs', resourceConfig))"

definition UpdatePodSpecWithGPUModelAffinity :: "PodTemplate \<Rightarrow> string list \<Rightarrow> string \<Rightarrow> PodTemplate" where
  "UpdatePodSpecWithGPUModelAffinity template gpuModels gpuModelLabel =
     (if gpuModels = [] then template
      else template\<lparr>pt_nodeAffinity := Some [(gpuModelLabel, gpuModels)]\<rparr>)"

definition storage_volumes :: "CommonMetaSpec \<Rightarrow> string \<Rightarrow> Volume list" where
  "storage_volumes spec workloadName =
     (case storage_of spec of
        None \<Rightarrow> []
      | Some st \<Rightarrow>
          (if data_IsRequested (ss_data st)
           then [\<lparr>vol_name = DataStoragePostfix,
                  vol_source = ClaimVolume (FormatNameWithPostfix workloadName [DataStoragePostfix])\<rparr>] else [])
          @ (if hf_IsRequested (ss_huggingFace st)
             then [\<lparr>vol_name = HfStoragePostfix,
                    vol_source = ClaimVolume (FormatNameWithPostfix workloadName [HfStoragePostfix])\<rparr>] else []))"

definition requests_gpu :: "WContainer \<Rightarrow> bool" where
  "requests_gpu container \<longleftrightarrow> (case rr_requests (wc_resources container) of
     None \<Rightarrow> False | Some m \<Rightarrow> has_key m ''nvidia.com/gpu'' \<or> has_key m ''amd.com/gpu'')"

definition UpdatePodSpec ::
    "QuantityApi \<Rightarrow> KaiwoConfigSpec \<Rightarrow> KaiwoWorkload \<Rightarrow> ResourceConfig \<Rightarrow> PodTemplate \<Rightarrow> bool \<Rightarrow> PodTemplate \<times> ResourceConfig" where
  "UpdatePodSpec qa config workload resourceConfig template rayHead =
     (let spec = kw_spec workload;
          template = template\<lparr>pt_labels :=
            UpdateLabels workload (put_all (cms_podTemplateSpecLabels spec) (pt_labels template))\<rparr>;
          annotations = put_all (kw_annotations workload) (pt_annotations template);
          annotations = (if cms_requiredTopologyLabel spec \<noteq> []
              then AList.update KueueRequiredTopologyKey (cms_requiredTopologyLabel spec) annotations
            else if cms_preferredTopologyLabel spec \<noteq> []
              then AList.update KueuePreferredTopologyKey (cms_preferredTopologyLabel spec) annotations
            else annotations);
          template = template\<lparr>pt_annotations := annotations,
            pt_imagePullSecrets := pt_imagePullSecrets template @ cms_imagePullSecrets spec,
            pt_volumes := pt_volumes template @ storage_volumes spec (kw_name workload)
              @ map (\<lambda>v. \<lparr>vol_name = sv_name v, vol_source = SecretVolumeSource (sv_secretName v) []\<rparr>)
                  (cms_secretVolumes spec)\<rparr>;
          template = (if cms_gpuModels spec \<noteq> [] \<and> rc_gpusPerReplica resourceConfig > 0
            then UpdatePodSpecWithGPUModelAffinity template (cms_gpuModels spec) GPUModelLabel else template);
          (containers, resourceConfig) =
            update_main_containers qa config spec rayHead resourceConfig (pt_containers template);
          template = template\<lparr>pt_containers := containers,
            pt_initContainers := map (updateInitContainer spec) (pt_initContainers template)\<rparr>;
          template = (if nod_addTaintsToGpuNodes (kcs_nodes config) \<and> list_ex requests_gpu containers
            then template\<lparr>pt_tolerations := pt_tolerations template @
              [\<lparr>tol_key = nod_defaultGpuTaintKey (kcs_nodes config), tol_operator = ''Exists'', tol_effect = ''NoSchedule''\<rparr>]\<rparr>
            else template)
      in (template, resourceConfig))"

definition GetPodTemplate :: "KaiwoConfigSpec \<Rightarrow> int \<Rightarrow> bool \<Rightarrow> string \<Rightarrow> PodTemplate" where
  "GetPodTemplate config dshmSize dangerous workloadContainerName =
     \<lparr>pt_labels = [], pt_annotations = [], pt_schedulerName = sch_kubeSchedulerName (kcs_scheduling config),
      pt_restartPolicy = ''Never'',
      pt_securityContext = (if dangerous then None else Some (1000, 1000, 1000)),
      pt_imagePullSecrets = [],
      pt_volumes = [\<lparr>vol_name = ''dshm'', vol_source = MemoryVolume dshmSize\<rparr>],
      pt_containers = [\<lparr>wc_name = workloadContainerName, wc_image = [], wc_imagePullPolicy = ''Always'',
        wc_command = [], wc_env = [],
        wc_volumeMounts = [\<lparr>vm_name = ''dshm'', vm_mountPath = ''/dev/shm'', vm_subPath = []\<rparr>],
        wc_resources = \<lparr>rr_requests = None, rr_limits = None\<rparr>\<rparr>],
      pt_initContainers = [], pt_tolerations = [], pt_nodeAffinity = None\<rparr>"

text \<open>\<open>None\<close> is the error for a template without containers.\<close>

definition AddEntrypoint :: "string \<Rightarrow> PodTemplate \<Rightarrow> PodTemplate option" where
  "AddEntrypoint entry template =
     (if entry = [] then Some template
      else (case pt_containers template of
              [] \<Rightarrow> None
            | c # cs \<Rightarrow> (case ConvertMultilineEntrypoint entry False of
                ShellCommand command \<Rightarrow> Some (template\<lparr>pt_containers := c\<lparr>wc_command := command\<rparr> # cs\<rparr>)
              | RawCommand _ \<Rightarrow> None)))"

definition addEnvVars :: "EnvVar list \<Rightarrow> PodTemplate \<Rightarrow> PodTemplate option" where
  "addEnvVars userEnvVars template =
     (case pt_containers template of
        [] \<Rightarrow> None
      | c # cs \<Rightarrow> Some (template\<lparr>pt_containers := c\<lparr>wc_env := wc_env c @ userEnvVars\<rparr> # cs\<rparr>))"

section \<open>Ray clusters\<close>

record WorkerGroup =
  wg_groupName :: string
  wg_replicas :: int
  wg_minReplicas :: int
  wg_maxReplicas :: int
  wg_template :: PodTemplate

record RayClusterSpec =
  ry_headTemplate :: PodTemplate
  ry_workerGroups :: "WorkerGroup list"

definition to_int32 :: "int \<Rightarrow> int" where
  "to_int32 n = (n + 2 ^ 31) mod 2 ^ 32 - 2 ^ 31"

definition GetRayClusterTemplate :: "QuantityApi \<Rightarrow> KaiwoConfigSpec \<Rightarrow> bool \<Rightarrow> RayClusterSpec" where
  "GetRayClusterTemplate qa config dangerous =
     \<lparr>ry_headTemplate = GetPodTemplate config (qa_literal qa ''1Gi'') dangerous ''ray-head'',
      ry_workerGroups = [\<lparr>wg_groupName = ''default-worker-group'', wg_replicas = 1, wg_minReplicas = 1,
        wg_maxReplicas = 1, wg_template = GetPodTemplate config (qa_literal qa ''200Gi'') dangerous ''ray-worker''\<rparr>]\<rparr>"

fun update_groups ::
    "QuantityApi \<Rightarrow> KaiwoConfigSpec \<Rightarrow> KaiwoWorkload \<Rightarrow> ResourceConfig \<Rightarrow> WorkerGroup list \<Rightarrow> WorkerGroup list \<times> ResourceConfig" where
  "update_groups qa config workload resourceConfig [] = ([], resourceConfig)"
| "update_groups qa config workload resourceConfig (g # gs) =
     (let (template, resourceConfig) = UpdatePodSpec qa config workload resourceConfig (wg_template g) False;
          n = to_int32 (rc_replicas resourceConfig);
          (gs', resourceConfig) = update_groups qa config workload resourceConfig gs
      in (g\<lparr>wg_template := template, wg_replicas := n, wg_minReplicas := n, wg_maxReplicas := n\<rparr> # gs', resourceConfig))"

definition ensureImage :: "KaiwoConfigSpec \<Rightarrow> PodTemplate \<Rightarrow> PodTemplate" where
  "ensureImage config template = template\<lparr>pt_containers :=
     map (\<lambda>c. if wc_image c = [] then c\<lparr>wc_image := ray_defaultRayImage (kcs_ray config)\<rparr> else c) (pt_containers template)\<rparr>"

text \<open>
  The memory of the head pod is written into the default resources: \<open>None\<close> is the panic of
  \<^verbatim>\<open>MustParse\<close>, or of the assignment to an entry of a nil map.
\<close>

definition override_memory :: "QuantityApi \<Rightarrow> KaiwoConfigSpec \<Rightarrow> ResourceConfig \<Rightarrow> ResourceConfig option" where
  "override_memory qa config resourceConfig =
     (case qa_parse qa (ray_headPodMemory (kcs_ray config)) of
        None \<Rightarrow> None
      | Some headMemoryOverride \<Rightarrow>
          if headMemoryOverride > 0 then
            (let d = (case rc_defaultResources resourceConfig of
                        None \<Rightarrow> \<lparr>rr_requests = Some [], rr_limits = Some []\<rparr> | Some d \<Rightarrow> d)
             in (case (rr_limits d, rr_requests d) of
                   (Some limits, Some requests) \<Rightarrow>
                     Some (resourceConfig\<lparr>rc_defaultResources := Some
                       \<lparr>rr_requests = Some (AList.update ''memory'' headMemoryOverride requests),
                        rr_limits = Some (AList.update ''memory'' headMemoryOverride limits)\<rparr>\<rparr>)
                 | _ \<Rightarrow> None))
          else Some resourceConfig)"

definition UpdateRayClusterSpec ::
    "QuantityApi \<Rightarrow> KaiwoConfigSpec \<Rightarrow> ClusterContext \<Rightarrow> KaiwoWorkload \<Rightarrow> RayClusterSpec \<Rightarrow> RayClusterSpec option" where
  "UpdateRayClusterSpec qa config clusterCtx workload rayClusterSpec =
     Option.bind (CalculateResourceConfig clusterCtx workload True) (\<lambda>resourceConfig.
       let (groups, resourceConfig) = update_groups qa config workload resourceConfig (ry_workerGroups rayClusterSpec)
       in Option.bind (override_memory qa config resourceConfig) (\<lambda>resourceConfig.
         let (head, resourceConfig) = UpdatePodSpec qa config workload resourceConfig (ry_headTemplate rayClusterSpec) True
         in Some \<lparr>ry_headTemplate = ensureImage config head,
                  ry_workerGroups = map (\<lambda>g. g\<lparr>wg_template := ensureImage config (wg_template g)\<rparr>) groups\<rparr>))"

section \<open>Maps that are filled\<close>

lemma CopyLabels_Cons:
  "CopyLabels ((k, v) # src) l =
     CopyLabels src (if k = QueueLabel \<or> has_key l k then l else AList.update k v l)"
  by (simp add: CopyLabels_def)

lemma map_of_CopyLabels:
  "distinct (map fst src) \<Longrightarrow> map_of (CopyLabels src l) k =
     (case map_of l k of Some v \<Rightarrow> Some v | None \<Rightarrow> if k = QueueLabel then None else map_of src k)"
proof (induction src arbitrary: l)
  case Nil
  then show ?case by (simp add: CopyLabels_def split: option.splits)
next
  case (Cons p src)
  obtain k' v where p: "p = (k', v)" by force
  have "map_of src k' = None" using Cons.prems by (simp add: p map_of_eq_None_iff)
  then show ?case
    using Cons by (auto simp: p CopyLabels_Cons update_conv' has_key_def split: option.splits)
qed

definition or_empty :: "'v gomap option \<Rightarrow> 'v gomap" where
  "or_empty m = (case m of None \<Rightarrow> [] | Some x \<Rightarrow> x)"

lemma or_empty_simps [simp]: "or_empty None = []" "or_empty (Some m) = m"
  by (simp_all add: or_empty_def)

lemma map_of_fillResourceList:
  "distinct (map fst src) \<Longrightarrow> map_of (or_empty (fillResourceList dest src False)) k =
     (case map_of (or_empty dest) k of Some v \<Rightarrow> Some v | None \<Rightarrow> map_of src k)"
proof -
  assume "distinct (map fst src)"
  then have "map_of (foldl (\<lambda>dest (k, v). if False \<or> \<not> has_key dest k then AList.update k v dest else dest) d src) k =
     (case map_of d k of Some v \<Rightarrow> Some v | None \<Rightarrow> map_of src k)" for d
  proof (induction src arbitrary: d)
    case (Cons p src)
    obtain k' v where p: "p = (k', v)" by force
    have "map_of src k' = None" using Cons.prems by (simp add: p map_of_eq_None_iff)
    then show ?case using Cons by (auto simp: p update_conv' has_key_def split: option.splits)
  qed (simp split: option.splits)
  then show ?thesis by (simp add: fillResourceList_def or_empty_def)
qed

lemma map_of_updateResourceList:
  "map_of (updateResourceList qa g m) k = (case map_of m k of Some v \<Rightarrow> Some v
     | None \<Rightarrow> if k = ''cpu'' then Some (qa_literal qa (if g > 0 then Itoa (g * 4) else ''2''))
              else if k = ''memory'' then Some (qa_literal qa (if g > 0 then Itoa (g * 32) @ ''Gi'' else ''16Gi''))
              else None)"
  by (auto simp: updateResourceList_def Let_def update_conv' has_key_def split: option.splits)

lemma map_of_set_gpus:
  "map_of (set_gpus qa key g m) k = (if g > 0 \<and> k = key then Some (qa_literal qa (Itoa g)) else map_of m k)"
  by (simp add: set_gpus_def update_conv')

lemma distinct_filled:
  "distinct (map fst m) \<Longrightarrow> distinct (map fst (updateResourceList qa g (set_gpus qa key g m)))"
  by (simp add: updateResourceList_def set_gpus_def Let_def distinct_update)

text \<open>What one list of resources becomes: the GPU count, then the given resources, then the defaults.\<close>

definition filled :: "QuantityApi \<Rightarrow> string \<Rightarrow> int \<Rightarrow> int gomap \<Rightarrow> string \<Rightarrow> int option" where
  "filled qa key g m k =
     (if g > 0 \<and> k = key then Some (qa_literal qa (Itoa g))
      else case map_of m k of Some v \<Rightarrow> Some v
        | None \<Rightarrow> if k = ''cpu'' then Some (qa_literal qa (if g > 0 then Itoa (g * 4) else ''2''))
                 else if k = ''memory'' then Some (qa_literal qa (if g > 0 then Itoa (g * 32) @ ''Gi'' else ''16Gi''))
                 else None)"

lemma map_of_filled: "map_of (updateResourceList qa g (set_gpus qa key g m)) k = filled qa key g m k"
  by (simp add: map_of_updateResourceList map_of_set_gpus filled_def)

abbreviation gpu_key :: "KaiwoConfigSpec \<Rightarrow> ResourceConfig \<Rightarrow> string" where
  "gpu_key config rc \<equiv> getGpuResourceKey (rc_gpuVendor rc) (nod_defaultGpuResourceKey (kcs_nodes config))"

lemma CreateResourceRequirements_fst:
  fixes config rc rh
  defines "g \<equiv> if rh then 0 else rc_gpusPerReplica rc"
  shows "rr_requests (fst (CreateResourceRequirements qa config rc rh)) =
       Some (updateResourceList qa g (set_gpus qa (gpu_key config rc) g
         (case rc_defaultResources rc of None \<Rightarrow> [] | Some d \<Rightarrow> or_empty (rr_requests d))))"
    and "rr_limits (fst (CreateResourceRequirements qa config rc rh)) =
       Some (updateResourceList qa g (set_gpus qa (gpu_key config rc) g
         (case rc_defaultResources rc of None \<Rightarrow> [] | Some d \<Rightarrow> or_empty (rr_limits d))))"
  by (auto simp: CreateResourceRequirements_def Let_def g_def or_empty_def split: option.splits)

section \<open>Properties\<close>

lemma map_of_UpdateLabels:
  assumes "distinct (map fst (kw_labels w))"
  shows "map_of (UpdateLabels w l) k =
    (if k = KaiwoUserLabel then Some (base_MakeRFC1123Compliant (cms_user (kw_spec w)))
     else if k = KaiwoNameLabel then Some (kw_name w)
     else if k = KaiwoTypeLabel then Some (if kw_kind w = KindKaiwoService then ''service'' else ''job'')
     else if k = KaiwoRunIdLabel then Some (kw_uid w)
     else if k = KaiwoManagedLabel \<and> map_get [] (kw_labels w) KaiwoManagedLabel \<noteq> []
       then Some (map_get [] (kw_labels w) KaiwoManagedLabel)
     else case map_of l k of Some v \<Rightarrow> Some v
        | None \<Rightarrow> if k = QueueLabel then None else map_of (kw_labels w) k)"
  unfolding UpdateLabels_def SetKaiwoSystemLabels_def Let_def
  by (simp add: update_conv' map_of_CopyLabels [OF assms] GetKaiwoLabelContext_def label_defs)

text \<open>
  Labels. The system labels (user, name, type, run id, and managed when the workload has it) always
  hold the workload's values; a label that is set already is kept; the other labels of the workload are
  copied, except the queue label.
\<close>

theorem UpdateLabels_precedence:
  assumes "distinct (map fst (kw_labels w))"
  shows "map_of (UpdateLabels w l) k =
    (if k = KaiwoUserLabel then Some (base_MakeRFC1123Compliant (cms_user (kw_spec w)))
     else if k = KaiwoNameLabel then Some (kw_name w)
     else if k = KaiwoTypeLabel then Some (if kw_kind w = KindKaiwoService then ''service'' else ''job'')
     else if k = KaiwoRunIdLabel then Some (kw_uid w)
     else if k = KaiwoManagedLabel \<and> map_get [] (kw_labels w) KaiwoManagedLabel \<noteq> []
       then Some (map_get [] (kw_labels w) KaiwoManagedLabel)
     else case map_of l k of Some v \<Rightarrow> Some v
        | None \<Rightarrow> if k = QueueLabel then None else map_of (kw_labels w) k)"
  using assms by (rule map_of_UpdateLabels)

theorem UpdateLabels_precedence_witness:
  "map_of (UpdateLabels (example_workload\<lparr>kw_labels := [(''team'', ''a''), (QueueLabel, ''q'')]\<rparr>) [(''team'', ''b'')]) ''team''
     = Some ''b'' \<and>
   map_of (UpdateLabels (example_workload\<lparr>kw_labels := [(''team'', ''a''), (QueueLabel, ''q'')]\<rparr>) []) QueueLabel = None"
  using UpdateLabels_precedence [of "example_workload\<lparr>kw_labels := [(''team'', ''a''), (QueueLabel, ''q'')]\<rparr>" "[(''team'', ''b'')]" "''team''"]
    UpdateLabels_precedence [of "example_workload\<lparr>kw_labels := [(''team'', ''a''), (QueueLabel, ''q'')]\<rparr>" "[]" QueueLabel]
  by (simp add: label_defs)

text \<open>
  Resources of a main container. A request or limit that the container states is kept; otherwise the
  GPU resource is the number of GPUs per replica, CPU and memory are those of the workload's \<open>resources\<close>
  field, or 4 cores and 32 Gi per GPU, or 2 cores and 16 Gi without GPUs, and every other resource is that of
  the \<open>resources\<close> field.
\<close>

theorem updateMainContainer_resources:
  assumes "\<forall>d. rc_defaultResources rc = Some d \<longrightarrow>
      distinct (map fst (or_empty (rr_requests d))) \<and> distinct (map fst (or_empty (rr_limits d)))"
  shows "map_of (or_empty (rr_requests (wc_resources (fst (updateMainContainer qa config spec rc c False))))) k =
      (case map_of (or_empty (rr_requests (wc_resources c))) k of Some v \<Rightarrow> Some v
       | None \<Rightarrow> filled qa (gpu_key config rc) (rc_gpusPerReplica rc)
           (case rc_defaultResources rc of None \<Rightarrow> [] | Some d \<Rightarrow> or_empty (rr_requests d)) k) \<and>
    map_of (or_empty (rr_limits (wc_resources (fst (updateMainContainer qa config spec rc c False))))) k =
      (case map_of (or_empty (rr_limits (wc_resources c))) k of Some v \<Rightarrow> Some v
       | None \<Rightarrow> filled qa (gpu_key config rc) (rc_gpusPerReplica rc)
           (case rc_defaultResources rc of None \<Rightarrow> [] | Some d \<Rightarrow> or_empty (rr_limits d)) k)"
proof -
  have base: "wc_resources (updateContainerBase spec c) = wc_resources c"
    by (simp add: updateContainerBase_def Let_def)
  have d: "distinct (map fst (case rc_defaultResources rc of None \<Rightarrow> [] | Some d \<Rightarrow> or_empty (rr_requests d)))"
    "distinct (map fst (case rc_defaultResources rc of None \<Rightarrow> [] | Some d \<Rightarrow> or_empty (rr_limits d)))"
    using assms by (auto split: option.splits)
  show ?thesis
    by (simp add: updateMainContainer_def Let_def case_prod_beta fillContainerResources_def base
        CreateResourceRequirements_fst map_of_fillResourceList distinct_filled d map_of_filled cong: option.case_cong)
qed

definition example_rc :: ResourceConfig where
  "example_rc = \<lparr>rc_totalGpus = 2, rc_replicas = 1, rc_gpusPerReplica = 2, rc_gpuVendor = ''amd'', rc_defaultResources = None\<rparr>"

definition example_container :: WContainer where
  "example_container = \<lparr>wc_name = ''workload'', wc_image = [], wc_imagePullPolicy = ''Always'', wc_command = [],
     wc_env = [], wc_volumeMounts = [], wc_resources = \<lparr>rr_requests = Some [(''cpu'', 3)], rr_limits = None\<rparr>\<rparr>"

theorem updateMainContainer_resources_witness:
  "map_of (or_empty (rr_requests (wc_resources (fst (updateMainContainer
      \<lparr>qa_literal = (\<lambda>s. int (length s)), qa_parse = (\<lambda>_. None)\<rparr> example_config example_meta_spec example_rc
      example_container False))))) ''cpu'' = Some 3"
  using updateMainContainer_resources [of example_rc "\<lparr>qa_literal = (\<lambda>s. int (length s)), qa_parse = (\<lambda>_. None)\<rparr>"
      example_config example_meta_spec example_container "''cpu''"]
  by (simp add: example_rc_def example_container_def)

text \<open>The resource configuration as it passes from one container to the next.\<close>

lemma updateMainContainer_snd:
  "snd (updateMainContainer qa config spec rc c rh) = snd (CreateResourceRequirements qa config rc rh)"
  by (simp add: updateMainContainer_def Let_def case_prod_beta)

lemma update_main_containers_snd:
  "snd (update_main_containers qa config spec rh rc (c # cs)) =
     snd (update_main_containers qa config spec rh (snd (CreateResourceRequirements qa config rc rh)) cs)"
  by (simp add: Let_def case_prod_beta updateMainContainer_snd)

lemma UpdatePodSpec_containers:
  "snd (UpdatePodSpec qa config w rc t rh) = snd (update_main_containers qa config (kw_spec w) rh rc (pt_containers t))"
  "pt_containers (fst (UpdatePodSpec qa config w rc t rh)) = fst (update_main_containers qa config (kw_spec w) rh rc (pt_containers t))"
  by (simp_all add: UpdatePodSpec_def Let_def case_prod_beta UpdatePodSpecWithGPUModelAffinity_def)

text \<open>A property that one call keeps, all calls keep.\<close>

lemma containers_keep:
  assumes "\<And>rc. P rc \<Longrightarrow> P (snd (CreateResourceRequirements qa config rc rh))" and "P rc"
  shows "P (snd (update_main_containers qa config spec rh rc cs))"
  using assms(2) by (induction cs arbitrary: rc) (simp_all only: update_main_containers_snd assms(1), simp)

lemma groups_keep:
  assumes "\<And>rc. P rc \<Longrightarrow> P (snd (CreateResourceRequirements qa config rc False))" and "P rc"
  shows "P (snd (update_groups qa config w rc gs))"
  using assms(2)
proof (induction gs arbitrary: rc)
  case (Cons g gs)
  then show ?case
    using containers_keep [where P = P and rh = False, OF assms(1)]
    by (simp add: Let_def case_prod_beta UpdatePodSpec_containers)
qed simp

text \<open>Default resources that share both maps, and that hold GPUs.\<close>

definition shared_maps :: "string \<Rightarrow> int \<Rightarrow> ResourceConfig \<Rightarrow> bool" where
  "shared_maps vendor g rc \<longleftrightarrow> rc_gpuVendor rc = vendor \<and> rc_gpusPerReplica rc = g \<and>
     (\<exists>r l. rc_defaultResources rc = Some \<lparr>rr_requests = Some r, rr_limits = Some l\<rparr> \<and>
        distinct (map fst r) \<and> distinct (map fst l))"

definition holds_gpus :: "QuantityApi \<Rightarrow> KaiwoConfigSpec \<Rightarrow> string \<Rightarrow> int \<Rightarrow> ResourceConfig \<Rightarrow> bool" where
  "holds_gpus qa config vendor g rc \<longleftrightarrow> shared_maps vendor g rc \<and>
     (\<forall>d. rc_defaultResources rc = Some d \<longrightarrow>
        map_of (or_empty (rr_requests d)) (getGpuResourceKey vendor (nod_defaultGpuResourceKey (kcs_nodes config)))
          = Some (qa_literal qa (Itoa g)))"

lemma CreateResourceRequirements_shares:
  assumes "shared_maps vendor g rc" and "0 < g"
  shows "holds_gpus qa config vendor g (snd (CreateResourceRequirements qa config rc False))"
  using assms unfolding shared_maps_def holds_gpus_def
  by (auto simp: CreateResourceRequirements_def Let_def map_of_filled filled_def distinct_filled)

lemma groups_share:
  assumes "shared_maps vendor g rc" and "0 < g" and "gs \<noteq> []" and "pt_containers (wg_template (hd gs)) \<noteq> []"
  shows "holds_gpus qa config vendor g (snd (update_groups qa config w rc gs))"
proof -
  have step: "holds_gpus qa config vendor g (snd (CreateResourceRequirements qa config rc False))"
    if "shared_maps vendor g rc" for rc
    using that assms(2) by (rule CreateResourceRequirements_shares)
  have keep: "holds_gpus qa config vendor g (snd (CreateResourceRequirements qa config rc False))"
    if "holds_gpus qa config vendor g rc" for rc
    using that step [of rc] by (simp add: holds_gpus_def)
  obtain h gs' c cs where gs: "gs = h # gs'" "pt_containers (wg_template h) = c # cs"
    using assms(3,4) by (metis list.exhaust list.sel(1))
  let ?rc = "snd (UpdatePodSpec qa config w rc (wg_template h) False)"
  have "holds_gpus qa config vendor g ?rc"
    unfolding UpdatePodSpec_containers gs(2) update_main_containers_snd
    by (rule containers_keep [where P = "holds_gpus qa config vendor g"], erule keep, rule step [OF assms(1)])
  note first = this
  have "holds_gpus qa config vendor g (snd (update_groups qa config w ?rc gs'))"
    by (rule groups_keep [where P = "holds_gpus qa config vendor g"], erule keep, rule first)
  then show ?thesis by (simp add: gs(1) Let_def case_prod_beta)
qed

lemma override_memory_keeps_gpus:
  assumes "holds_gpus qa config vendor g rc" and "override_memory qa config rc = Some rc'"
    and "getGpuResourceKey vendor (nod_defaultGpuResourceKey (kcs_nodes config)) \<noteq> ''memory''"
  shows "holds_gpus qa config vendor g rc'"
  using assms unfolding override_memory_def holds_gpus_def shared_maps_def
  by (auto simp: update_conv' distinct_update Let_def split: option.splits if_splits)

lemma override_memory_returns:
  assumes "shared_maps vendor g rc" and "qa_parse qa (ray_headPodMemory (kcs_ray config)) \<noteq> None"
  shows "\<exists>rc'. override_memory qa config rc = Some rc'"
proof -
  obtain r l m where "rc_defaultResources rc = Some \<lparr>rr_requests = Some r, rr_limits = Some l\<rparr>"
      "qa_parse qa (ray_headPodMemory (kcs_ray config)) = Some m"
    using assms by (auto simp: shared_maps_def)
  then show ?thesis by (simp add: override_memory_def)
qed

lemma head_container_gpus:
  assumes "holds_gpus qa config vendor g rc" and "key = getGpuResourceKey vendor (nod_defaultGpuResourceKey (kcs_nodes config))"
    and "\<not> has_key (or_empty (rr_requests (wc_resources c))) key"
  shows "map_of (or_empty (rr_requests (wc_resources (fst (updateMainContainer qa config spec rc c True))))) key
      = Some (qa_literal qa (Itoa g))"
proof -
  obtain r l where rc: "rc_defaultResources rc = Some \<lparr>rr_requests = Some r, rr_limits = Some l\<rparr>" "distinct (map fst r)"
    and r: "map_of r key = Some (qa_literal qa (Itoa g))"
    using assms(1,2) by (auto simp: holds_gpus_def shared_maps_def)
  have base: "wc_resources (updateContainerBase spec c) = wc_resources c"
    by (simp add: updateContainerBase_def Let_def)
  show ?thesis
    using assms(3) rc r
    by (simp add: updateMainContainer_def Let_def case_prod_beta fillContainerResources_def base has_key_def
        CreateResourceRequirements_fst map_of_fillResourceList distinct_filled map_of_filled filled_def)
qed

text \<open>
  The head pod of a Ray cluster requests the GPUs of a worker. When the workload gives default
  \<open>resources\<close> with requests and limits, updating the workers writes their GPU count into the map that the
  head pod is filled from afterwards, so every first head container that does not state the GPU resource
  itself requests as many GPUs as a worker, although a head pod is meant to have none.
\<close>

theorem ray_head_requests_gpus:
  fixes w config
  defines "key \<equiv> getGpuResourceKey (cms_gpuVendor (kw_spec w)) (nod_defaultGpuResourceKey (kcs_nodes config))"
  assumes rc: "CalculateResourceConfig cc w True = Some rc" "0 < rc_gpusPerReplica rc"
    and res: "cms_resources (kw_spec w) = Some \<lparr>rr_requests = Some r, rr_limits = Some l\<rparr>"
      "distinct (map fst r)" "distinct (map fst l)"
    and groups: "ry_workerGroups ray \<noteq> []" "pt_containers (wg_template (hd (ry_workerGroups ray))) \<noteq> []"
    and head: "pt_containers (ry_headTemplate ray) = c # cs" "\<not> has_key (or_empty (rr_requests (wc_resources c))) key"
    and mem: "qa_parse qa (ray_headPodMemory (kcs_ray config)) \<noteq> None" and key: "key \<noteq> ''memory''"
  shows "\<exists>ray'. UpdateRayClusterSpec qa config cc w ray = Some ray' \<and>
    map_of (or_empty (rr_requests (wc_resources (hd (pt_containers (ry_headTemplate ray')))))) key
      = Some (qa_literal qa (Itoa (rc_gpusPerReplica rc)))"
proof -
  define vendor g where "vendor = cms_gpuVendor (kw_spec w)" and "g = rc_gpusPerReplica rc"
  have vendor: "rc_gpuVendor rc = vendor" and default: "rc_defaultResources rc = cms_resources (kw_spec w)"
    using rc(1) unfolding CalculateResourceConfig_def Let_def compute_replicas_def vendor_def
    by (auto split: if_splits Option.bind_splits)
  have "shared_maps vendor g rc" using vendor default res by (simp add: shared_maps_def g_def)
  then have groups': "holds_gpus qa config vendor g (snd (update_groups qa config w rc (ry_workerGroups ray)))"
    using rc(2) groups by (intro groups_share) (simp_all add: g_def)
  then obtain rc' where rc': "override_memory qa config (snd (update_groups qa config w rc (ry_workerGroups ray))) = Some rc'"
    using mem override_memory_returns [of vendor g] by (metis holds_gpus_def)
  have "holds_gpus qa config vendor g rc'"
    using override_memory_keeps_gpus [OF groups' rc'] key by (simp add: key_def vendor_def)
  then have "map_of (or_empty (rr_requests (wc_resources (fst (updateMainContainer qa config (kw_spec w) rc' c True))))) key
      = Some (qa_literal qa (Itoa g))"
    using head(2) by (intro head_container_gpus) (simp_all add: key_def vendor_def)
  then have "map_of (or_empty (rr_requests (wc_resources (hd (pt_containers
      (ensureImage config (fst (UpdatePodSpec qa config w rc' (ry_headTemplate ray) True)))))))) key = Some (qa_literal qa (Itoa g))"
    by (simp add: ensureImage_def UpdatePodSpec_containers head(1) Let_def case_prod_beta)
  then show ?thesis by (simp add: UpdateRayClusterSpec_def rc(1) Let_def case_prod_beta rc' g_def)
qed

definition example_qa :: QuantityApi where
  "example_qa = \<lparr>qa_literal = (\<lambda>s. int (length s)), qa_parse = (\<lambda>_. Some 16)\<rparr>"

definition ray_example :: KaiwoWorkload where
  "ray_example = example_workload\<lparr>kw_spec := example_meta_spec\<lparr>cms_gpus := 4,
     cms_resources := Some \<lparr>rr_requests = Some [], rr_limits = Some []\<rparr>\<rparr>\<rparr>"

lemmas ray_example_simps = ray_example_def example_meta_spec_def totalUserRequestedGpus_def userRequestedGpus_def

theorem ray_head_requests_gpus_witness:
  "\<exists>rc ray'. CalculateResourceConfig example_cluster ray_example True = Some rc \<and>
     UpdateRayClusterSpec example_qa example_config example_cluster ray_example
       (GetRayClusterTemplate example_qa example_config False) = Some ray' \<and>
     map_of (or_empty (rr_requests (wc_resources (hd (pt_containers (ry_headTemplate ray'))))))
       (getGpuResourceKey (cms_gpuVendor (kw_spec ray_example)) (nod_defaultGpuResourceKey (kcs_nodes example_config)))
       = Some (qa_literal example_qa (Itoa (rc_gpusPerReplica rc)))"
proof -
  obtain rc where rc: "CalculateResourceConfig example_cluster ray_example True = Some rc" "rc_gpusPerReplica rc = 4"
    by (simp add: CalculateResourceConfig_def ray_example_simps compute_replicas_def go_div_def minGpusPerNode_def
        example_cluster_def Let_def)
  have key: "getGpuResourceKey (cms_gpuVendor (kw_spec ray_example)) (nod_defaultGpuResourceKey (kcs_nodes example_config))
      \<noteq> ''memory''"
    by (simp add: getGpuResourceKey_def example_config_def Let_def)
  have "\<exists>ray'. UpdateRayClusterSpec example_qa example_config example_cluster ray_example
       (GetRayClusterTemplate example_qa example_config False) = Some ray' \<and>
     map_of (or_empty (rr_requests (wc_resources (hd (pt_containers (ry_headTemplate ray'))))))
       (getGpuResourceKey (cms_gpuVendor (kw_spec ray_example)) (nod_defaultGpuResourceKey (kcs_nodes example_config)))
       = Some (qa_literal example_qa (Itoa (rc_gpusPerReplica rc)))"
    by (rule ray_head_requests_gpus [OF rc(1), where r = "[]" and l = "[]"
          and c = "hd (pt_containers (ry_headTemplate (GetRayClusterTemplate example_qa example_config False)))" and cs = "[]"])
      (use rc key in \<open>simp_all add: ray_example_simps GetRayClusterTemplate_def GetPodTemplate_def example_qa_def\<close>)
  with rc show ?thesis by blast
qed

lemma CreateResourceRequirements_nil:
  "(\<exists>d. rc_defaultResources rc = Some d \<and> (rr_requests d = None \<or> rr_limits d = None)) \<Longrightarrow>
   (\<exists>d. rc_defaultResources (snd (CreateResourceRequirements qa config rc rh)) = Some d \<and>
      (rr_requests d = None \<or> rr_limits d = None))"
  by (auto simp: CreateResourceRequirements_def Let_def)

text \<open>
  C16: A Ray workload whose \<open>resources\<close> give only requests, or only limits, makes the operator panic: the
  memory of the head pod is assigned to an entry of the missing map.
\<close>

theorem ray_partial_resources_panic:
  assumes "cms_resources (kw_spec w) = Some d" and "rr_requests d = None \<or> rr_limits d = None"
    and "qa_parse qa (ray_headPodMemory (kcs_ray config)) = Some m" and "0 < m"
  shows "UpdateRayClusterSpec qa config cc w ray = None"
proof (cases "CalculateResourceConfig cc w True")
  case (Some rc)
  let ?nil = "\<lambda>rc. \<exists>d. rc_defaultResources rc = Some d \<and> (rr_requests d = None \<or> rr_limits d = None)"
  have "rc_defaultResources rc = cms_resources (kw_spec w)"
    using Some unfolding CalculateResourceConfig_def Let_def compute_replicas_def
    by (auto split: if_splits Option.bind_splits)
  then have "?nil rc" using assms(1,2) by auto
  then have "?nil (snd (update_groups qa config w rc (ry_workerGroups ray)))"
    by (intro groups_keep [where P = ?nil]) (erule CreateResourceRequirements_nil)
  then have "override_memory qa config (snd (update_groups qa config w rc (ry_workerGroups ray))) = None"
    using assms(3,4) by (auto simp: override_memory_def split: option.splits)
  with Some show ?thesis by (simp add: UpdateRayClusterSpec_def Let_def case_prod_beta)
qed (simp add: UpdateRayClusterSpec_def)

theorem ray_partial_resources_panic_witness:
  "UpdateRayClusterSpec example_qa example_config example_cluster
     (example_workload\<lparr>kw_spec := example_meta_spec\<lparr>cms_resources := Some \<lparr>rr_requests = Some [(''cpu'', 8)], rr_limits = None\<rparr>\<rparr>\<rparr>)
     (GetRayClusterTemplate example_qa example_config False) = None"
  by (rule ray_partial_resources_panic [where d = "\<lparr>rr_requests = Some [(''cpu'', 8)], rr_limits = None\<rparr>" and m = 16])
    (simp_all add: example_qa_def)

end
