(* ===== verification/Storage.thy ===== *)
theory Storage
  imports PodSpec
begin

text \<open>
  Storage of a workload: the claims (\<^verbatim>\<open>pkg/workloads/common/pvc.go\<close>), the storage handler that lists the
  resources to create (\<^verbatim>\<open>storage.go\<close>), the config map and the job of the downloader (\<^verbatim>\<open>download.go\<close>) and how
  the status of a batch job is read (\<^verbatim>\<open>observability.go\<close>). A panic is \<open>None\<close>. Lemmas: which claims are
  created against which claims are mounted, that the secrets of the download configuration are mounted
  where the configuration says, how batch jobs are classified.
\<close>

section \<open>Claims\<close>

datatype ClaimPhase = ClaimBound | ClaimPending | ClaimLost

fun phase_string :: "ClaimPhase \<Rightarrow> string" where
  "phase_string ClaimBound = ''Bound''"
| "phase_string ClaimPending = ''Pending''"
| "phase_string ClaimLost = ''Lost''"

record PvcReconciler =
  pv_objectKey :: ObjectKey
  pv_amount :: int
  pv_storageClassName :: string
  pv_accessMode :: string

definition NewPvcReconciler :: "QuantityApi \<Rightarrow> ObjectKey \<Rightarrow> string \<Rightarrow> string \<Rightarrow> string \<Rightarrow> PvcReconciler option" where
  "NewPvcReconciler qa objectKey amount storageClassName accessMode =
     map_option (\<lambda>q. \<lparr>pv_objectKey = objectKey, pv_amount = q, pv_storageClassName = storageClassName,
                     pv_accessMode = accessMode\<rparr>) (qa_parse qa amount)"

record PersistentVolumeClaim =
  pvc_key :: ObjectKey
  pvc_accessModes :: "string list"
  pvc_storageClassName :: string
  pvc_requests :: "int gomap"

definition pvc_BuildDesired :: "PvcReconciler \<Rightarrow> PersistentVolumeClaim" where
  "pvc_BuildDesired r = \<lparr>pvc_key = pv_objectKey r, pvc_accessModes = [pv_accessMode r],
     pvc_storageClassName = pv_storageClassName r, pvc_requests = [(''storage'', pv_amount r)]\<rparr>"

definition PvcReadyConditionType :: string where "PvcReadyConditionType = ''PvcReady''"

definition pvc_ObserveStatus :: "ClaimPhase \<Rightarrow> WorkloadStatus option \<times> Condition list" where
  "pvc_ObserveStatus phase =
     (let (workloadStatus, conditionStatus) = (case phase of
            ClaimBound \<Rightarrow> (WorkloadStatusComplete, CondTrue)
          | ClaimPending \<Rightarrow> (WorkloadStatusPending, CondFalse)
          | ClaimLost \<Rightarrow> (WorkloadStatusFailed, CondFalse))
      in (Some workloadStatus, [new_condition PvcReadyConditionType conditionStatus (phase_string phase) []]))"

section \<open>Storage handler\<close>

record StorageHandler =
  sh_objectKey :: ObjectKey
  sh_commonMetaSpec :: CommonMetaSpec

definition NewStorageHandler :: "KaiwoWorkload \<Rightarrow> StorageHandler option" where
  "NewStorageHandler workload =
     (case cms_storage (kw_spec workload) of
        None \<Rightarrow> None
      | Some st \<Rightarrow>
          if \<not> ss_storageEnabled st then None
          else Some \<lparr>sh_objectKey = \<lparr>key_name = kw_name workload, key_namespace = kw_namespace workload\<rparr>,
                     sh_commonMetaSpec = kw_spec workload\<rparr>)"

datatype StorageReconciler =
    PvcRec PvcReconciler
  | DownloadConfigMapRec ObjectKey StorageSpec
  | DownloadJobRec ObjectKey StorageSpec "EnvVar list"

definition data_reconcilers :: "QuantityApi \<Rightarrow> ObjectKey \<Rightarrow> StorageSpec \<Rightarrow> StorageReconciler list option" where
  "data_reconcilers qa objectKey st =
     (case ss_data st of
        None \<Rightarrow> Some []
      | Some d \<Rightarrow>
          if HasData (Some st) then
            map_option (\<lambda>r. [PvcRec r]) (NewPvcReconciler qa
              \<lparr>key_name = FormatNameWithPostfix (key_name objectKey) [DataStoragePostfix], key_namespace = key_namespace objectKey\<rparr>
              (ds_storageSize d) (ss_storageClassName st) (ss_accessMode st))
          else Some [])"

definition hf_reconcilers :: "QuantityApi \<Rightarrow> ObjectKey \<Rightarrow> StorageSpec \<Rightarrow> StorageReconciler list option" where
  "hf_reconcilers qa objectKey st =
     (case ss_huggingFace st of
        None \<Rightarrow> Some []
      | Some d \<Rightarrow>
          if HasHfDownloads (Some st) then
            map_option (\<lambda>r. [PvcRec r]) (NewPvcReconciler qa
              \<lparr>key_name = FormatNameWithPostfix (key_name objectKey) [HfStoragePostfix], key_namespace = key_namespace objectKey\<rparr>
              (hs_storageSize d) (ss_storageClassName st) (ss_accessMode st))
          else Some [])"

definition storage_GetResourceReconcilers :: "QuantityApi \<Rightarrow> StorageHandler \<Rightarrow> StorageReconciler list option" where
  "storage_GetResourceReconcilers qa h =
     (case cms_storage (sh_commonMetaSpec h) of
        None \<Rightarrow> Some []
      | Some st \<Rightarrow>
          Option.bind (data_reconcilers qa (sh_objectKey h) st) (\<lambda>data.
          Option.bind (hf_reconcilers qa (sh_objectKey h) st) (\<lambda>hf.
          Some (data @ hf @
            (if HasDownloads (Some st)
             then [DownloadConfigMapRec (sh_objectKey h) st,
                   DownloadJobRec (sh_objectKey h) st (cms_env (sh_commonMetaSpec h))]
             else [])))))"

section \<open>Downloads\<close>

definition configMapFilename :: string where "configMapFilename = ''config.yaml''"
definition secretsMount :: string where "secretsMount = ''/app/secrets''"

text \<open>
  \<^verbatim>\<open>filepath.Join\<close> of a rooted path and further elements: the empty ones are dropped, and the result is
  cleaned component by component.
\<close>

definition clean_step :: "string list \<Rightarrow> string \<Rightarrow> string list" where
  "clean_step stack part =
     (if part = [] \<or> part = ''.'' then stack else if part = ''..'' then butlast stack else stack @ [part])"

definition clean_rooted :: "string \<Rightarrow> string" where
  "clean_rooted path = CHR ''/'' # Join (foldl clean_step [] (Split path (CHR ''/''))) ''/''"

definition path_join :: "string list \<Rightarrow> string" where
  "path_join elems = clean_rooted (Join (filter (\<lambda>e. e \<noteq> []) elems) ''/'')"

definition setSecretPath :: "ValueReference \<Rightarrow> ValueReference" where
  "setSecretPath ref =
     (if vr_file ref = [] then ref\<lparr>vr_file := path_join [secretsMount, vr_secretName ref, vr_secretKey ref]\<rparr> else ref)"

definition s3_has_secret :: "S3DownloadItem \<Rightarrow> bool" where
  "s3_has_secret i \<longleftrightarrow> vr_secretName (s3_accessKeyId i) \<noteq> [] \<or> vr_secretName (s3_secretKey i) \<noteq> []"

definition set_secret_paths :: "ObjectStorageDownloadSpec \<Rightarrow> ObjectStorageDownloadSpec" where
  "set_secret_paths dl =
     dl\<lparr>os_s3 := map (\<lambda>i. if s3_has_secret i
          then i\<lparr>s3_accessKeyId := setSecretPath (s3_accessKeyId i), s3_secretKey := setSecretPath (s3_secretKey i)\<rparr>
          else i) (os_s3 dl),
        os_gcs := map (\<lambda>i. i\<lparr>gcs_applicationCredentials := setSecretPath (gcs_applicationCredentials i)\<rparr>) (os_gcs dl),
        os_azureBlob := map (\<lambda>i. i\<lparr>az_connectionString := setSecretPath (az_connectionString i)\<rparr>) (os_azureBlob dl),
        os_git := map (\<lambda>i. i\<lparr>git_username := map_option setSecretPath (git_username i),
                            git_token := map_option setSecretPath (git_token i)\<rparr>) (os_git dl)\<rparr>"

record ConfigMap =
  cm_key :: ObjectKey
  cm_data :: "string gomap"

text \<open>\<open>marshal\<close> is \<^verbatim>\<open>yaml.Marshal\<close>, \<open>None\<close> its error.\<close>

definition with_secret_paths :: "StorageSpec \<Rightarrow> StorageSpec" where
  "with_secret_paths st =
     (if HasObjectStorageDownloads (Some st)
      then st\<lparr>ss_data := map_option (\<lambda>d. d\<lparr>ds_download := set_secret_paths (ds_download d)\<rparr>) (ss_data st)\<rparr>
      else st)"

definition configmap_BuildDesired :: "(DownloadTaskConfig \<Rightarrow> string option) \<Rightarrow> ObjectKey \<Rightarrow> StorageSpec \<Rightarrow> ConfigMap option" where
  "configmap_BuildDesired marshal objectKey st =
     map_option (\<lambda>yaml. \<lparr>cm_key = \<lparr>key_name = FormatNameWithPostfix (key_name objectKey) [''download''],
                                  key_namespace = key_namespace objectKey\<rparr>,
                        cm_data = [(configMapFilename, yaml)]\<rparr>)
       (marshal (CreateConfig (with_secret_paths st)))"

text \<open>The references to secrets, in the order in which the job adds them.\<close>

definition secret_refs :: "ObjectStorageDownloadSpec \<Rightarrow> ValueReference list" where
  "secret_refs dl =
     concat (map (\<lambda>i. if s3_has_secret i then [s3_accessKeyId i, s3_secretKey i] else []) (os_s3 dl))
     @ map gcs_applicationCredentials (os_gcs dl)
     @ map az_connectionString (os_azureBlob dl)
     @ concat (map (\<lambda>i. (case git_username i of None \<Rightarrow> [] | Some r \<Rightarrow> [r])
                      @ (case git_token i of None \<Rightarrow> [] | Some r \<Rightarrow> [r])) (os_git dl))"

text \<open>The map of secret volumes: secret name to the items (key and path) of its volume.\<close>

definition addSecret :: "(string \<times> string) list gomap \<Rightarrow> ValueReference \<Rightarrow> (string \<times> string) list gomap" where
  "addSecret secretVolumes ref =
     append_at (vr_secretName ref) (vr_secretKey ref, vr_secretKey ref) secretVolumes"

definition secret_volumes :: "ObjectStorageDownloadSpec \<Rightarrow> (string \<times> string) list gomap" where
  "secret_volumes dl = foldl addSecret [] (secret_refs dl)"

record DownloadJob =
  dj_key :: ObjectKey
  dj_labels :: "string gomap"
  dj_backoffLimit :: int
  dj_template :: PodTemplate

text \<open>\<open>order\<close> is the order in which \<^verbatim>\<open>range\<close> visits the secret names.\<close>

definition data_download_mounts ::
    "(string list \<Rightarrow> string list) \<Rightarrow> ObjectKey \<Rightarrow> StorageSpec \<Rightarrow> Volume list \<times> VolumeMount list" where
  "data_download_mounts order objectKey st =
     (case ss_data st of
        None \<Rightarrow> ([], [])
      | Some d \<Rightarrow>
          if HasObjectStorageDownloads (Some st) then
            let sv = secret_volumes (ds_download d); names = order (map fst sv)
            in (\<lparr>vol_name = ''data'', vol_source = ClaimVolume (FormatNameWithPostfix (key_name objectKey) [DataStoragePostfix])\<rparr>
                 # map (\<lambda>n. \<lparr>vol_name = ''secret-'' @ n, vol_source = SecretVolumeSource n (map_get [] sv n)\<rparr>) names,
                \<lparr>vm_name = ''data'', vm_mountPath = dc_downloadRoot (CreateConfig st), vm_subPath = []\<rparr>
                 # map (\<lambda>n. \<lparr>vm_name = ''secret-'' @ n, vm_mountPath = secretsMount @ ''/'' @ n, vm_subPath = []\<rparr>) names)
          else ([], []))"

definition hf_download_mounts :: "ObjectKey \<Rightarrow> StorageSpec \<Rightarrow> Volume list \<times> VolumeMount list \<times> EnvVar list" where
  "hf_download_mounts objectKey st =
     (case ss_huggingFace st of
        None \<Rightarrow> ([], [], [])
      | Some d \<Rightarrow>
          if HasHfDownloads (Some st) then
            ([\<lparr>vol_name = ''hf'', vol_source = ClaimVolume (FormatNameWithPostfix (key_name objectKey) [HfStoragePostfix])\<rparr>],
             [\<lparr>vm_name = ''hf'', vm_mountPath = dc_hfHome (CreateConfig st), vm_subPath = []\<rparr>],
             [\<lparr>ev_name = ''HF_HOME'', ev_value = hs_mountPath d\<rparr>])
          else ([], [], []))"

definition KaiwoDownloadTypeLabelValue :: string where "KaiwoDownloadTypeLabelValue = ''downloader''"

definition downloadjob_BuildDesired ::
    "QuantityApi \<Rightarrow> (string list \<Rightarrow> string list) \<Rightarrow> ObjectKey \<Rightarrow> StorageSpec \<Rightarrow> EnvVar list \<Rightarrow> DownloadJob option" where
  "downloadjob_BuildDesired qa order objectKey st userEnvVars =
     (let (dataVolumes, dataMounts) = data_download_mounts order objectKey st;
          (hfVolumes, hfMounts, envs) = hf_download_mounts objectKey st;
          template =
            \<lparr>pt_labels = [], pt_annotations = [], pt_schedulerName = [], pt_restartPolicy = ''Never'',
             pt_securityContext = Some (1000, 1000, 1000), pt_imagePullSecrets = [],
             pt_volumes = \<lparr>vol_name = ''config'', vol_source = ConfigMapVolume
                 (FormatNameWithPostfix (key_name objectKey) [''download''])\<rparr> # dataVolumes @ hfVolumes,
             pt_containers = [\<lparr>wc_name = ''data-downloader'', wc_image = ''ghcr.io/silogen/kaiwo-python:0.6'',
               wc_imagePullPolicy = ''Always'',
               wc_command = [''python'', ''-m'', ''kaiwo.downloader'', ''--log-level=INFO'',
                 path_join [''/config'', configMapFilename]],
               wc_env = envs,
               wc_volumeMounts = \<lparr>vm_name = ''config'', vm_mountPath = ''/config'', vm_subPath = []\<rparr> # dataMounts @ hfMounts,
               wc_resources = \<lparr>rr_requests = Some [(''cpu'', qa_literal qa ''1''), (''memory'', qa_literal qa ''1Gi'')],
                 rr_limits = Some [(''cpu'', qa_literal qa ''2''), (''memory'', qa_literal qa ''4Gi'')]\<rparr>\<rparr>],
             pt_initContainers = [], pt_tolerations = [], pt_nodeAffinity = None\<rparr>
      in map_option (\<lambda>t. \<lparr>dj_key = \<lparr>key_name = FormatNameWithPostfix (key_name objectKey) [''download''],
                                     key_namespace = key_namespace objectKey\<rparr>,
                           dj_labels = [(KaiwoTypeLabel, KaiwoDownloadTypeLabelValue)],
                           dj_backoffLimit = 0, dj_template = t\<rparr>)
           (addEnvVars userEnvVars template))"

section \<open>Observing jobs\<close>

fun job_condition :: "(JobConditionType \<times> condition_status) list \<Rightarrow> WorkloadStatus option" where
  "job_condition [] = None"
| "job_condition ((type, status) # rest) =
     (if type = JobSuccessCriteriaMet \<and> status = CondTrue then Some WorkloadStatusComplete
      else if type = JobFailed \<and> status = CondTrue then Some WorkloadStatusFailed
      else if type = JobSuspended \<and> status = CondTrue then Some WorkloadStatusPending
      else job_condition rest)"

definition ObserveBatchJob :: "JobStatus \<Rightarrow> WorkloadStatus \<Rightarrow> WorkloadStatus" where
  "ObserveBatchJob job previousStatus =
     (case job_condition (js_conditions job) of
        Some s \<Rightarrow> s
      | None \<Rightarrow>
          if js_failed job > 0 then WorkloadStatusFailed
          else if (case js_ready job of None \<Rightarrow> 0 | Some n \<Rightarrow> n) > 0 then WorkloadStatusRunning
          else if previousStatus = WorkloadStatusRunning then previousStatus
          else if js_active job > 0 then WorkloadStatusStarting
          else WorkloadStatusPending)"

definition DownloadJobSucceededConditionType :: string where
  "DownloadJobSucceededConditionType = ''DownloadJobSucceeded''"

text \<open>\<open>None\<close> is the error for an unexpected status.\<close>

definition downloadjob_ObserveStatus :: "JobStatus \<Rightarrow> WorkloadStatus \<Rightarrow> (WorkloadStatus \<times> Condition list) option" where
  "downloadjob_ObserveStatus job previousWorkloadStatus =
     (let cond = new_condition DownloadJobSucceededConditionType
      in (case ObserveBatchJob job previousWorkloadStatus of
            WorkloadStatusPending \<Rightarrow> Some (WorkloadStatusRunning, [cond CondFalse ''JobPending'' ''Download job pending''])
          | WorkloadStatusRunning \<Rightarrow> Some (WorkloadStatusRunning, [cond CondFalse ''JobInProgress'' ''Download job in progress''])
          | WorkloadStatusStarting \<Rightarrow> Some (WorkloadStatusStarting, [cond CondFalse ''JobInProgress'' ''Download job starting''])
          | WorkloadStatusFailed \<Rightarrow> Some (WorkloadStatusFailed, [cond CondFalse ''JobFailed'' ''Download job failed''])
          | WorkloadStatusComplete \<Rightarrow> Some (WorkloadStatusComplete, [cond CondTrue ''JobCompleted'' ''Download job succeeded''])
          | _ \<Rightarrow> None))"

section \<open>Properties\<close>

text \<open>The claims that the reconcilers create and those that the pod template mounts.\<close>

fun claim_names :: "StorageReconciler list \<Rightarrow> string list" where
  "claim_names [] = []"
| "claim_names (PvcRec r # rs) = key_name (pv_objectKey r) # claim_names rs"
| "claim_names (_ # rs) = claim_names rs"

fun mounted_claims :: "Volume list \<Rightarrow> string list" where
  "mounted_claims [] = []"
| "mounted_claims (v # vs) = (case vol_source v of ClaimVolume n \<Rightarrow> n # mounted_claims vs | _ \<Rightarrow> mounted_claims vs)"

lemma claim_names_append: "claim_names (xs @ ys) = claim_names xs @ claim_names ys"
  by (induction xs rule: claim_names.induct) simp_all

text \<open>
  The claims of a workload. The storage handler creates a claim for the data volume exactly when the
  pods mount it; a claim for the Hugging Face cache is created when there are repositories to pre-cache, but
  mounted when a storage size is given. So the mounted and the created claims agree exactly when these two
  coincide: a cache without pre-cached repositories is mounted and never created.
\<close>

theorem storage_claims_agree_iff:
  assumes "NewStorageHandler w = Some h" and "cms_storage (kw_spec w) = Some st"
    and "storage_GetResourceReconcilers qa h = Some rs"
  shows "mounted_claims (storage_volumes (kw_spec w) (kw_name w)) = claim_names rs \<longleftrightarrow>
    (hf_IsRequested (ss_huggingFace st) \<longleftrightarrow> HasHfDownloads (Some st))"
proof -
  let ?data = "FormatNameWithPostfix (kw_name w) [DataStoragePostfix]"
  let ?hf = "FormatNameWithPostfix (kw_name w) [HfStoragePostfix]"
  have h: "h = \<lparr>sh_objectKey = \<lparr>key_name = kw_name w, key_namespace = kw_namespace w\<rparr>, sh_commonMetaSpec = kw_spec w\<rparr>"
    and enabled: "ss_storageEnabled st"
    using assms(1,2) by (auto simp: NewStorageHandler_def split: if_splits)
  obtain d f where rs: "data_reconcilers qa (sh_objectKey h) st = Some d" "hf_reconcilers qa (sh_objectKey h) st = Some f"
    "claim_names rs = claim_names d @ claim_names f"
    using assms(2,3) by (auto simp: storage_GetResourceReconcilers_def h claim_names_append split: Option.bind_splits if_splits)
  have "claim_names d = (if data_IsRequested (ss_data st) then [?data] else [])"
    using rs(1) by (auto simp: data_reconcilers_def NewPvcReconciler_def HasData_def data_IsRequested_def h
        split: option.splits if_splits)
  moreover have "claim_names f = (if HasHfDownloads (Some st) then [?hf] else [])"
    using rs(2) by (auto simp: hf_reconcilers_def NewPvcReconciler_def HasHfDownloads_def h split: option.splits if_splits)
  moreover have "mounted_claims (storage_volumes (kw_spec w) (kw_name w)) =
      (if data_IsRequested (ss_data st) then [?data] else []) @ (if hf_IsRequested (ss_huggingFace st) then [?hf] else [])"
    using assms(2) enabled by (auto simp: storage_volumes_def storage_of_def)
  ultimately show ?thesis using rs(3) by auto
qed

definition example_storage :: StorageSpec where
  "example_storage = \<lparr>ss_storageEnabled = True, ss_storageClassName = ''fast'', ss_accessMode = ''ReadWriteMany'',
     ss_data = None, ss_huggingFace = Some \<lparr>hs_mountPath = ''/hf_cache'', hs_storageSize = ''50Gi'', hs_preCacheRepos = []\<rparr>\<rparr>"

definition storage_example :: KaiwoWorkload where
  "storage_example = example_workload\<lparr>kw_spec := example_meta_spec\<lparr>cms_storage := Some example_storage\<rparr>\<rparr>"

theorem storage_claims_agree_iff_witness:
  "\<exists>h rs. NewStorageHandler storage_example = Some h \<and> storage_GetResourceReconcilers example_qa h = Some rs \<and>
     mounted_claims (storage_volumes (kw_spec storage_example) (kw_name storage_example)) \<noteq> claim_names rs"
proof -
  obtain h rs where "NewStorageHandler storage_example = Some h" "storage_GetResourceReconcilers example_qa h = Some rs"
    "cms_storage (kw_spec storage_example) = Some example_storage"
    by (simp add: NewStorageHandler_def storage_example_def example_storage_def storage_GetResourceReconcilers_def
        data_reconcilers_def hf_reconcilers_def HasHfDownloads_def)
  with storage_claims_agree_iff [of storage_example h example_storage example_qa rs] show ?thesis
    by (auto simp: example_storage_def hf_IsRequested_def HasHfDownloads_def)
qed

text \<open>
  Pre-caching Hugging Face repositories without a storage size makes the operator panic, since the empty
  string is not a quantity.
\<close>

theorem hf_precache_without_size_panics:
  assumes "qa_parse qa [] = None" and "cms_storage (sh_commonMetaSpec h) = Some st"
    and "ss_huggingFace st = Some f" and "hs_preCacheRepos f \<noteq> []" and "hs_storageSize f = []"
  shows "storage_GetResourceReconcilers qa h = None"
proof -
  have "hf_reconcilers qa (sh_objectKey h) st = None"
    using assms by (simp add: hf_reconcilers_def HasHfDownloads_def NewPvcReconciler_def)
  with assms(2) show ?thesis
    by (cases "data_reconcilers qa (sh_objectKey h) st") (simp_all add: storage_GetResourceReconcilers_def)
qed

theorem hf_precache_without_size_panics_witness:
  "storage_GetResourceReconcilers \<lparr>qa_literal = (\<lambda>_. 1), qa_parse = (\<lambda>s. if s = [] then None else Some 1)\<rparr>
     \<lparr>sh_objectKey = \<lparr>key_name = ''train'', key_namespace = ''team''\<rparr>,
      sh_commonMetaSpec = example_meta_spec\<lparr>cms_storage := Some (example_storage\<lparr>ss_huggingFace :=
        Some \<lparr>hs_mountPath = ''/hf_cache'', hs_storageSize = [], hs_preCacheRepos = [\<lparr>hf_repoID = ''a/b'', hf_files = []\<rparr>]\<rparr>\<rparr>)\<rparr>\<rparr> = None"
  by (rule hf_precache_without_size_panics
      [where st = "example_storage\<lparr>ss_huggingFace :=
        Some \<lparr>hs_mountPath = ''/hf_cache'', hs_storageSize = [], hs_preCacheRepos = [\<lparr>hf_repoID = ''a/b'', hf_files = []\<rparr>]\<rparr>\<rparr>"
        and f = "\<lparr>hs_mountPath = ''/hf_cache'', hs_storageSize = [], hs_preCacheRepos = [\<lparr>hf_repoID = ''a/b'', hf_files = []\<rparr>]\<rparr>"])
    simp_all

text \<open>Long names.\<close>

lemma replace_runs_append:
  "list_all (\<lambda>c. \<not> bad c) a \<Longrightarrow> replace_runs k bad rep (a @ b) = a @ replace_runs k bad rep b"
  by (induction a) simp_all

lemma TrimRight_append: "a \<noteq> [] \<Longrightarrow> last a \<notin> set cs \<Longrightarrow> TrimRight (a @ b) cs = a @ TrimRight b cs"
proof -
  assume "a \<noteq> []" "last a \<notin> set cs"
  then obtain a' c where a: "a = a' @ [c]" "c \<notin> set cs" by (cases a rule: rev_cases) auto
  have "dropWhile (\<lambda>x. x \<in> set cs) (rev b @ c # rev a') = dropWhile (\<lambda>x. x \<in> set cs) (rev b) @ c # rev a'"
    using a(2) by (induction "rev b") (auto simp: dropWhile_append)
  then show ?thesis by (simp add: TrimRight_def a(1))
qed

lemma base_MakeRFC1123Compliant_long:
  assumes "list_all alphanumeric name" and "length name = 63"
  shows "base_MakeRFC1123Compliant (name @ b) = name"
proof -
  have chars: "list_all (\<lambda>c. \<not> \<not> dotted_char c) name" "list_all (\<lambda>c. \<not> (c = CHR ''-'' \<or> c = CHR ''.'')) name"
      "list_all label_char name"
    using assms(1) alphanumeric_not_sep
    by (auto simp: list_all_iff alphanumeric_def dotted_char_def name_char_def label_char_def
        is_lower_def is_digit_def between_def)
  have ne: "name \<noteq> []" using assms(2) by auto
  then have ends: "hd name \<notin> set ''-.''" "last name \<notin> set ''-.''"
    using assms(1) alphanumeric_not_sep by (auto simp: list_all_iff)
  have "ToLower (name @ b) = name @ ToLower b" using ToLower_id [OF chars(3)] by (simp add: ToLower_def)
  moreover have "Trim (name @ x) ''-.'' = name @ TrimRight x ''-.''" for x
    using ends ne TrimLeft_id [of "name @ x" "''-.''"] by (simp add: Trim_def TrimRight_append)
  moreover have "replace_runs k (\<lambda>c. \<not> dotted_char c) rep (name @ x) = name @ replace_runs k (\<lambda>c. \<not> dotted_char c) rep x"
      "replace_runs k (\<lambda>c. c = CHR ''-'' \<or> c = CHR ''.'') rep (name @ x)
        = name @ replace_runs k (\<lambda>c. c = CHR ''-'' \<or> c = CHR ''.'') rep x" for k rep x
    using chars(1,2) by (blast intro: replace_runs_append)+
  ultimately show ?thesis
    using assms(2) ends ne by (simp add: base_MakeRFC1123Compliant_def Let_def TrimRight_id)
qed

text \<open>
  Long names collide. For a workload name whose first 63 characters are lower-case letters and digits,
  \<open>FormatNameWithPostfix\<close> drops every postfix: the data claim, the Hugging Face claim and the download
  job all get the same name.
\<close>

theorem FormatNameWithPostfix_collides:
  assumes "list_all alphanumeric (take 63 name)" and "63 \<le> length name"
  shows "FormatNameWithPostfix name postfix = take 63 name"
proof -
  have "foldl (\<lambda>built p. built @ ''-'' @ p) x ps = x @ concat (map (\<lambda>p. ''-'' @ p) ps)" for x and ps :: "string list"
    by (induction ps arbitrary: x) simp_all
  then have "FormatNameWithPostfix name postfix =
      base_MakeRFC1123Compliant (take 63 name @ drop 63 name @ concat (map (\<lambda>p. ''-'' @ p) postfix))"
    unfolding FormatNameWithPostfix_def by (metis append.assoc append_take_drop_id)
  with base_MakeRFC1123Compliant_long [OF assms(1)] assms(2) show ?thesis by simp
qed

theorem FormatNameWithPostfix_collides_witness:
  "FormatNameWithPostfix (replicate 63 (CHR ''a'')) [''data''] = FormatNameWithPostfix (replicate 63 (CHR ''a'')) [''hf'']"
proof -
  have "list_all alphanumeric (take 63 (replicate 63 (CHR ''a'')))"
    by (simp add: list_all_iff alphanumeric_def is_lower_def between_def)
  with FormatNameWithPostfix_collides [of "replicate 63 (CHR ''a'')"] show ?thesis by simp
qed

text \<open>Secrets of the downloads.\<close>

definition plain :: "string \<Rightarrow> bool" where
  "plain s \<longleftrightarrow> s \<noteq> [] \<and> CHR ''/'' \<notin> set s \<and> s \<noteq> ''.'' \<and> s \<noteq> ''..''"

lemma path_join_plain:
  assumes "plain a" and "plain b"
  shows "path_join [secretsMount, a, b] = secretsMount @ ''/'' @ a @ ''/'' @ b"
proof -
  have "Join (filter (\<lambda>e. e \<noteq> []) [secretsMount, a, b]) ''/'' = Join [[], ''app'', ''secrets'', a, b] ''/''"
    using assms by (simp add: plain_def secretsMount_def)
  moreover have "Split (Join [[], ''app'', ''secrets'', a, b] ''/'') (CHR ''/'') = [[], ''app'', ''secrets'', a, b]"
    using assms by (intro Split_Join) (simp_all add: plain_def)
  ultimately show ?thesis
    using assms by (simp add: path_join_def clean_rooted_def clean_step_def plain_def secretsMount_def)
qed

lemma secret_volumes_items:
  "ref \<in> set refs \<Longrightarrow> (vr_secretKey ref, vr_secretKey ref) \<in> set (map_get [] (foldl addSecret m refs) (vr_secretName ref))
     \<and> has_key (foldl addSecret m refs) (vr_secretName ref)"
proof (induction refs rule: rev_induct)
  case (snoc r refs)
  then show ?case
    by (auto simp: addSecret_def append_at_def map_get_update)
qed simp

lemma secret_refs_paths: "secret_refs (set_secret_paths dl) = map setSecretPath (secret_refs dl)"
proof -
  have name: "vr_secretName (setSecretPath r) = vr_secretName r" for r by (simp add: setSecretPath_def)
  have s3: "concat (map (\<lambda>i. if s3_has_secret i then [s3_accessKeyId i, s3_secretKey i] else [])
      (map (\<lambda>i. if s3_has_secret i
          then i\<lparr>s3_accessKeyId := setSecretPath (s3_accessKeyId i), s3_secretKey := setSecretPath (s3_secretKey i)\<rparr>
          else i) xs)) =
    map setSecretPath (concat (map (\<lambda>i. if s3_has_secret i then [s3_accessKeyId i, s3_secretKey i] else []) xs))" for xs
    by (induction xs) (simp_all add: s3_has_secret_def name)
  have git: "concat (map (\<lambda>i. (case git_username i of None \<Rightarrow> [] | Some r \<Rightarrow> [r]) @ (case git_token i of None \<Rightarrow> [] | Some r \<Rightarrow> [r]))
      (map (\<lambda>i. i\<lparr>git_username := map_option setSecretPath (git_username i), git_token := map_option setSecretPath (git_token i)\<rparr>) xs)) =
    map setSecretPath (concat (map (\<lambda>i. (case git_username i of None \<Rightarrow> [] | Some r \<Rightarrow> [r])
      @ (case git_token i of None \<Rightarrow> [] | Some r \<Rightarrow> [r])) xs))" for xs
    by (induction xs) (simp_all split: option.splits)
  show ?thesis
    unfolding secret_refs_def map_append s3 [symmetric] git [symmetric] by (simp add: set_secret_paths_def comp_def)
qed

lemma downloadjob_shape:
  "\<exists>job c. downloadjob_BuildDesired qa order key st envs = Some job \<and> pt_containers (dj_template job) = [c] \<and>
     set (fst (data_download_mounts order key st)) \<subseteq> set (pt_volumes (dj_template job)) \<and>
     set (snd (data_download_mounts order key st)) \<subseteq> set (wc_volumeMounts c)"
  by (auto simp: downloadjob_BuildDesired_def addEnvVars_def Let_def case_prod_beta)

text \<open>
  The download job finds its secrets. Every secret reference of the object storage downloads that has no
  file yet is given the path, in the configuration of the downloader, under which the job mounts that key of
  that secret, in whatever order the secret volumes are listed.
\<close>

theorem download_secrets_mounted:
  assumes "HasObjectStorageDownloads (Some st)" and "ss_data st = Some d" and "\<And>xs. set (order xs) = set xs"
    and "ref \<in> set (secret_refs (ds_download d))"
    and "vr_file ref = []" and "plain (vr_secretName ref)" and "plain (vr_secretKey ref)"
  shows "\<exists>job c ref' v m items p.
    downloadjob_BuildDesired qa order key st envs = Some job \<and> pt_containers (dj_template job) = [c] \<and>
    ref' \<in> set (secret_refs (ds_download (the (ss_data (with_secret_paths st))))) \<and>
    vr_secretName ref' = vr_secretName ref \<and> vr_secretKey ref' = vr_secretKey ref \<and>
    v \<in> set (pt_volumes (dj_template job)) \<and> m \<in> set (wc_volumeMounts c) \<and> vm_name m = vol_name v \<and>
    vol_source v = SecretVolumeSource (vr_secretName ref) items \<and> (vr_secretKey ref, p) \<in> set items \<and>
    vr_file ref' = vm_mountPath m @ ''/'' @ p"
proof -
  let ?n = "vr_secretName ref" and ?k = "vr_secretKey ref"
  let ?sv = "secret_volumes (ds_download d)"
  have sv: "(?k, ?k) \<in> set (map_get [] ?sv ?n)" "has_key ?sv ?n"
    using secret_volumes_items [OF assms(4), of "[]"] by (simp_all add: secret_volumes_def)
  then have "?n \<in> set (order (map fst ?sv))" by (simp add: assms(3) has_key_iff)
  then have vm: "\<lparr>vol_name = ''secret-'' @ ?n, vol_source = SecretVolumeSource ?n (map_get [] ?sv ?n)\<rparr>
        \<in> set (fst (data_download_mounts order key st))"
      "\<lparr>vm_name = ''secret-'' @ ?n, vm_mountPath = secretsMount @ ''/'' @ ?n, vm_subPath = []\<rparr>
        \<in> set (snd (data_download_mounts order key st))"
    by (simp_all add: data_download_mounts_def assms(1,2) Let_def)
  have "setSecretPath ref \<in> set (secret_refs (ds_download (the (ss_data (with_secret_paths st)))))"
    using assms(4) by (simp add: with_secret_paths_def assms(1,2) secret_refs_paths)
  moreover have "vr_file (setSecretPath ref) = (secretsMount @ ''/'' @ ?n) @ ''/'' @ ?k"
    using assms(5-7) by (simp add: setSecretPath_def path_join_plain)
  moreover obtain job c where job: "downloadjob_BuildDesired qa order key st envs = Some job"
      "pt_containers (dj_template job) = [c]"
      "set (fst (data_download_mounts order key st)) \<subseteq> set (pt_volumes (dj_template job))"
      "set (snd (data_download_mounts order key st)) \<subseteq> set (wc_volumeMounts c)"
    using downloadjob_shape [of qa order key st envs] by blast
  moreover have "vr_secretName (setSecretPath ref) = ?n" "vr_secretKey (setSecretPath ref) = ?k"
    by (simp_all add: setSecretPath_def)
  ultimately show ?thesis
    using subsetD [OF job(3) vm(1)] subsetD [OF job(4) vm(2)] sv(1)
    by (metis VolumeMount.select_convs(1,2) Volume.select_convs(1,2))
qed

definition example_ref :: ValueReference where
  "example_ref = \<lparr>vr_file = [], vr_secretName = ''gcs'', vr_secretKey = ''creds''\<rparr>"

definition example_data :: DataStorageSpec where
  "example_data = \<lparr>ds_mountPath = ''/workload'', ds_storageSize = ''1Gi'', ds_download = \<lparr>os_s3 = [],
     os_gcs = [\<lparr>gcs_applicationCredentials = example_ref, gcs_buckets = []\<rparr>], os_azureBlob = [], os_git = []\<rparr>\<rparr>"

theorem download_secrets_mounted_witness:
  "\<exists>job c ref' v m items p.
    downloadjob_BuildDesired example_qa rev \<lparr>key_name = ''train'', key_namespace = ''team''\<rparr>
      (example_storage\<lparr>ss_data := Some example_data\<rparr>) [] = Some job \<and> pt_containers (dj_template job) = [c] \<and>
    ref' \<in> set (secret_refs (ds_download (the (ss_data (with_secret_paths (example_storage\<lparr>ss_data := Some example_data\<rparr>)))))) \<and>
    vr_secretName ref' = vr_secretName example_ref \<and> vr_secretKey ref' = vr_secretKey example_ref \<and>
    v \<in> set (pt_volumes (dj_template job)) \<and> m \<in> set (wc_volumeMounts c) \<and> vm_name m = vol_name v \<and>
    vol_source v = SecretVolumeSource (vr_secretName example_ref) items \<and> (vr_secretKey example_ref, p) \<in> set items \<and>
    vr_file ref' = vm_mountPath m @ ''/'' @ p"
  by (rule download_secrets_mounted [where d = example_data])
    (simp_all add: HasObjectStorageDownloads_def HasData_def example_data_def example_storage_def secret_refs_def
      example_ref_def plain_def)

lemma job_condition_cases:
  "job_condition cs \<in> {None, Some WorkloadStatusComplete, Some WorkloadStatusFailed, Some WorkloadStatusPending}"
  by (induction cs rule: job_condition.induct) simp_all

text \<open>
  A batch job that was seen running is never seen starting again: unless a condition says that the job
  is suspended, it stays running until it is complete or failed; and a job that has failed pods and no
  success or suspension is failed.
\<close>

theorem ObserveBatchJob_no_regress:
  assumes "(JobSuspended, CondTrue) \<notin> set (js_conditions job)"
  shows "ObserveBatchJob job WorkloadStatusRunning \<in> {WorkloadStatusRunning, WorkloadStatusComplete, WorkloadStatusFailed} \<and>
    (0 < js_failed job \<and> (JobSuccessCriteriaMet, CondTrue) \<notin> set (js_conditions job) \<longrightarrow>
      ObserveBatchJob job s = WorkloadStatusFailed)"
proof -
  have "(JobSuspended, CondTrue) \<notin> set cs \<Longrightarrow> job_condition cs \<noteq> Some WorkloadStatusPending" for cs
    by (induction cs rule: job_condition.induct) (auto split: if_splits)
  moreover have "(JobSuccessCriteriaMet, CondTrue) \<notin> set cs \<Longrightarrow> job_condition cs \<noteq> Some WorkloadStatusComplete" for cs
    by (induction cs rule: job_condition.induct) (auto split: if_splits)
  ultimately show ?thesis
    using assms job_condition_cases [of "js_conditions job"] by (auto simp: ObserveBatchJob_def split: option.splits)
qed

theorem ObserveBatchJob_no_regress_witness:
  "ObserveBatchJob \<lparr>js_conditions = [], js_failed = 1, js_ready = None, js_active = 1\<rparr> WorkloadStatusNew = WorkloadStatusFailed"
  using ObserveBatchJob_no_regress [of "\<lparr>js_conditions = [], js_failed = 1, js_ready = None, js_active = 1\<rparr>" WorkloadStatusNew]
  by simp

end
