(* ===== verification/Handlers.thy ===== *)
theory Handlers
  imports Storage
begin

text \<open>
  The four handlers behind the interface \<^verbatim>\<open>WorkloadReconciler\<close>: batch jobs and Ray jobs of a KaiwoJob
  (\<^verbatim>\<open>pkg/workloads/job\<close>), deployments and Ray services of a KaiwoService (\<^verbatim>\<open>pkg/workloads/service\<close>): the
  object that each builds and how each reads the status of the object in the cluster. \<open>None\<close> is a panic,
  \<open>Inl\<close> an error. Where two objects share a label map, the model writes the labels into both. The raw
  JSON of an AppWrapper is represented by the RayService it encodes.
\<close>

section \<open>Objects\<close>

record JobSpec =
  jb_backoffLimit :: "int option"
  jb_ttlSecondsAfterFinished :: "int option"
  jb_suspend :: "bool option"
  jb_template :: PodTemplate

record BatchJob =
  bj_key :: ObjectKey
  bj_labels :: "string gomap"
  bj_spec :: JobSpec

record RayJobSpec =
  rj_backoffLimit :: "int option"
  rj_entrypoint :: string
  rj_shutdownAfterJobFinishes :: bool
  rj_rayClusterSpec :: "RayClusterSpec option"

record RayJob =
  ryj_key :: ObjectKey
  ryj_labels :: "string gomap"
  ryj_spec :: RayJobSpec

text \<open>The match labels of a selector may be a nil map.\<close>

record DeploymentSpec =
  dp_replicas :: "int option"
  dp_matchLabels :: "string gomap option option"
  dp_template :: PodTemplate

record Deployment =
  dep_key :: ObjectKey
  dep_labels :: "string gomap"
  dep_spec :: DeploymentSpec

record RayServiceSpec =
  rys_serveConfigV2 :: string
  rys_rayClusterSpec :: RayClusterSpec

record RayService =
  ry_key :: ObjectKey
  ry_labels :: "string gomap"
  ry_spec :: RayServiceSpec

record AppWrapper =
  aw_key :: ObjectKey
  aw_labels :: "string gomap"
  aw_podSets :: "(int \<times> string) list"
  aw_template :: RayService

datatype build_error = EntrypointWithoutContainers

section \<open>Specs of KaiwoJob and KaiwoService\<close>

text \<open>What the two kinds add to the common spec.\<close>

record KaiwoJobSpec =
  kj_entryPoint :: string
  kj_rayJob :: "RayJobSpec option"
  kj_job :: "JobSpec option"

record KaiwoServiceSpec =
  ks_entryPoint :: string
  ks_serveConfigV2 :: string
  ks_rayService :: "RayServiceSpec option"
  ks_deployment :: "DeploymentSpec option"

definition IsRayJob :: "KaiwoJobSpec \<Rightarrow> CommonMetaSpec \<Rightarrow> bool" where
  "IsRayJob spec common \<longleftrightarrow> kj_rayJob spec \<noteq> None \<or> cms_ray common"

definition IsBatchJob :: "KaiwoJobSpec \<Rightarrow> CommonMetaSpec \<Rightarrow> bool" where
  "IsBatchJob spec common \<longleftrightarrow> \<not> IsRayJob spec common"

definition IsRayService :: "KaiwoServiceSpec \<Rightarrow> CommonMetaSpec \<Rightarrow> bool" where
  "IsRayService spec common \<longleftrightarrow> ks_rayService spec \<noteq> None \<or> cms_ray common"

definition workload_key :: "KaiwoWorkload \<Rightarrow> ObjectKey" where
  "workload_key w = \<lparr>key_name = kw_name w, key_namespace = kw_namespace w\<rparr>"

text \<open>The queue label and, when there is one, the priority class label.\<close>

definition queue_labels :: "KaiwoConfigSpec \<Rightarrow> KaiwoWorkload \<Rightarrow> string gomap \<Rightarrow> string gomap" where
  "queue_labels config w labels =
     (let labels = AList.update QueueLabel (GetClusterQueueName config (kw_spec w)) labels;
          priorityclass = cms_workloadPriorityClass (kw_spec w)
      in if priorityclass \<noteq> [] then AList.update WorkloaddPriorityClassLabel priorityclass labels else labels)"

section \<open>Batch jobs\<close>

definition defaultTTLSecondsAfterFinished :: int where "defaultTTLSecondsAfterFinished = 3600"

definition GetDefaultJobSpec :: "KaiwoConfigSpec \<Rightarrow> bool \<Rightarrow> JobSpec" where
  "GetDefaultJobSpec config dangerous =
     \<lparr>jb_backoffLimit = Some 0, jb_ttlSecondsAfterFinished = Some defaultTTLSecondsAfterFinished, jb_suspend = None,
      jb_template = GetPodTemplate config (1 * 1024 * 1024 * 1024) dangerous ''workload''\<rparr>"

definition no_backoff :: "int option \<Rightarrow> int option" where
  "no_backoff limit = (if (case limit of None \<Rightarrow> 0 | Some n \<Rightarrow> n) > 0 then Some 0 else limit)"

definition batchjob_BuildDesired ::
    "QuantityApi \<Rightarrow> KaiwoConfigSpec \<Rightarrow> ClusterContext \<Rightarrow> KaiwoWorkload \<Rightarrow> KaiwoJobSpec \<Rightarrow> (build_error + BatchJob) option" where
  "batchjob_BuildDesired qa config clusterCtx w spec =
     (let jobSpec = (case kj_job spec of None \<Rightarrow> GetDefaultJobSpec config (cms_dangerous (kw_spec w)) | Some s \<Rightarrow> s);
          jobSpec = jobSpec\<lparr>jb_backoffLimit := no_backoff (jb_backoffLimit jobSpec)\<rparr>;
          jobSpec = (if jb_ttlSecondsAfterFinished jobSpec = None
                     then jobSpec\<lparr>jb_ttlSecondsAfterFinished := Some defaultTTLSecondsAfterFinished\<rparr> else jobSpec)
      in (case AddEntrypoint (kj_entryPoint spec) (jb_template jobSpec) of
            None \<Rightarrow> Some (Inl EntrypointWithoutContainers)
          | Some template \<Rightarrow>
              Option.bind (CalculateResourceConfig clusterCtx w True) (\<lambda>resourceConfig.
                let template = fst (UpdatePodSpec qa config w resourceConfig template False);
                    template = template\<lparr>pt_labels := UpdateLabels w (pt_labels template)\<rparr>
                in Some (Inr \<lparr>bj_key = workload_key w,
                              bj_labels = queue_labels config w (UpdateLabels w []),
                              bj_spec = jobSpec\<lparr>jb_suspend := Some True, jb_template := template\<rparr>\<rparr>))))"

definition batchjob_ObserveStatus :: "JobStatus \<Rightarrow> WorkloadStatus \<Rightarrow> WorkloadStatus option \<times> Condition list" where
  "batchjob_ObserveStatus job previousStatus = (Some (ObserveBatchJob job previousStatus), [])"

section \<open>Ray jobs\<close>

definition GetDefaultRayJobSpec :: "QuantityApi \<Rightarrow> KaiwoConfigSpec \<Rightarrow> bool \<Rightarrow> RayJobSpec" where
  "GetDefaultRayJobSpec qa config dangerous =
     \<lparr>rj_backoffLimit = None, rj_entrypoint = [], rj_shutdownAfterJobFinishes = True,
      rj_rayClusterSpec = Some (GetRayClusterTemplate qa config dangerous)\<rparr>"

definition rayjob_BuildDesired ::
    "QuantityApi \<Rightarrow> KaiwoConfigSpec \<Rightarrow> ClusterContext \<Rightarrow> KaiwoWorkload \<Rightarrow> KaiwoJobSpec \<Rightarrow> RayJob option" where
  "rayjob_BuildDesired qa config clusterCtx w spec =
     (let rayJobSpec = (case kj_rayJob spec of
            None \<Rightarrow> GetDefaultRayJobSpec qa config (cms_dangerous (kw_spec w)) | Some s \<Rightarrow> s);
          rayJobSpec = rayJobSpec\<lparr>rj_backoffLimit := no_backoff (rj_backoffLimit rayJobSpec)\<rparr>;
          rayJobSpec = (if kj_entryPoint spec \<noteq> [] then
              (case ConvertMultilineEntrypoint (kj_entryPoint spec) True of
                 RawCommand e \<Rightarrow> rayJobSpec\<lparr>rj_entrypoint := e\<rparr> | ShellCommand _ \<Rightarrow> rayJobSpec)
            else rayJobSpec)
      in Option.bind (rj_rayClusterSpec rayJobSpec) (\<lambda>cluster.
         Option.bind (UpdateRayClusterSpec qa config clusterCtx w cluster) (\<lambda>cluster.
           let labels = queue_labels config w (UpdateLabels w (pt_labels (ry_headTemplate cluster)));
               cluster = cluster\<lparr>ry_headTemplate := (ry_headTemplate cluster)\<lparr>pt_labels := labels\<rparr>\<rparr>
           in Some \<lparr>ryj_key = workload_key w, ryj_labels = labels,
                    ryj_spec = rayJobSpec\<lparr>rj_rayClusterSpec := Some cluster\<rparr>\<rparr>)))"

datatype RayJobStatus =
    JobStatusNew | JobStatusPending | JobStatusRunning | JobStatusFailed | JobStatusSucceeded
  | JobStatusStopped | JobStatusOther string

text \<open>\<open>None\<close> is the error for an unexpected status.\<close>

definition rayjob_ObserveStatus :: "RayJobStatus \<Rightarrow> WorkloadStatus option" where
  "rayjob_ObserveStatus status = (case status of
     JobStatusNew \<Rightarrow> Some WorkloadStatusStarting | JobStatusPending \<Rightarrow> Some WorkloadStatusStarting
   | JobStatusRunning \<Rightarrow> Some WorkloadStatusRunning | JobStatusFailed \<Rightarrow> Some WorkloadStatusFailed
   | JobStatusSucceeded \<Rightarrow> Some WorkloadStatusComplete | JobStatusStopped \<Rightarrow> Some WorkloadStatusTerminated
   | JobStatusOther _ \<Rightarrow> None)"

section \<open>Deployments\<close>

definition GetDefaultDeploymentSpec :: "KaiwoConfigSpec \<Rightarrow> bool \<Rightarrow> DeploymentSpec" where
  "GetDefaultDeploymentSpec config dangerous =
     \<lparr>dp_replicas = Some 1, dp_matchLabels = Some (Some []),
      dp_template = GetPodTemplate config (1 * 1024 * 1024 * 1024) dangerous ''workload''\<rparr>"

definition deployment_BuildDesired ::
    "QuantityApi \<Rightarrow> KaiwoConfigSpec \<Rightarrow> ClusterContext \<Rightarrow> KaiwoWorkload \<Rightarrow> KaiwoServiceSpec \<Rightarrow> (build_error + Deployment) option" where
  "deployment_BuildDesired qa config clusterCtx w spec =
     (let depSpec = (case ks_deployment spec of
            None \<Rightarrow> GetDefaultDeploymentSpec config (cms_dangerous (kw_spec w)) | Some s \<Rightarrow> s);
          template = (dp_template depSpec)\<lparr>pt_restartPolicy := ''Always''\<rparr>
      in (case dp_matchLabels depSpec of
            Some (Some matchLabels) \<Rightarrow>
              Option.bind (CalculateResourceConfig clusterCtx w True) (\<lambda>resourceConfig.
                let depSpec = depSpec\<lparr>dp_matchLabels := Some (Some (AList.update ''app'' (kw_name w) matchLabels)),
                      dp_replicas := (if cms_replicas (kw_spec w) \<noteq> None
                        then Some (to_int32 (rc_replicas resourceConfig)) else dp_replicas depSpec)\<rparr>
                in (case AddEntrypoint (ks_entryPoint spec) template of
                      None \<Rightarrow> Some (Inl EntrypointWithoutContainers)
                    | Some template \<Rightarrow>
                        let template = fst (UpdatePodSpec qa config w resourceConfig template False);
                            labels = queue_labels config w (AList.update ''app'' (kw_name w) (pt_labels template));
                            labels = UpdateLabels w labels
                        in Some (Inr \<lparr>dep_key = workload_key w, dep_labels = labels,
                             dep_spec = depSpec\<lparr>dp_template := template\<lparr>pt_labels := labels\<rparr>\<rparr>\<rparr>)))
          | _ \<Rightarrow> None))"

record DeploymentStatus =
  dps_conditions :: "Condition list"
  dps_observedGeneration :: int
  dps_generation :: int
  dps_specReplicas :: "int option"
  dps_availableReplicas :: int

text \<open>\<open>progressing\<close> is the constant \<^verbatim>\<open>appsv1.DeploymentProgressing\<close>.\<close>

definition deployment_ObserveStatus :: "string \<Rightarrow> DeploymentStatus \<Rightarrow> WorkloadStatus" where
  "deployment_ObserveStatus progressing d =
     (if list_ex (\<lambda>c. c_type c = progressing \<and> c_status c = CondFalse \<and> c_reason c = ''ProgressDeadlineExceeded'')
           (dps_conditions d) then WorkloadStatusError
      else if dps_observedGeneration d < dps_generation d then WorkloadStatusStarting
      else if dps_availableReplicas d < (case dps_specReplicas d of None \<Rightarrow> 1 | Some n \<Rightarrow> n) then WorkloadStatusStarting
      else WorkloadStatusRunning)"

section \<open>Ray services\<close>

definition GetDefaultRayServiceSpec :: "QuantityApi \<Rightarrow> KaiwoConfigSpec \<Rightarrow> bool \<Rightarrow> RayServiceSpec" where
  "GetDefaultRayServiceSpec qa config dangerous =
     \<lparr>rys_serveConfigV2 = [], rys_rayClusterSpec = GetRayClusterTemplate qa config dangerous\<rparr>"

definition buildRayService ::
    "QuantityApi \<Rightarrow> KaiwoConfigSpec \<Rightarrow> ClusterContext \<Rightarrow> KaiwoWorkload \<Rightarrow> KaiwoServiceSpec \<Rightarrow> RayService option" where
  "buildRayService qa config clusterCtx w spec =
     (let s = (case ks_rayService spec of
            None \<Rightarrow> GetDefaultRayServiceSpec qa config (cms_dangerous (kw_spec w)) | Some s \<Rightarrow> s);
          s = (if ks_serveConfigV2 spec \<noteq> [] then s\<lparr>rys_serveConfigV2 := ks_serveConfigV2 spec\<rparr> else s)
      in Option.bind (UpdateRayClusterSpec qa config clusterCtx w (rys_rayClusterSpec s)) (\<lambda>cluster.
           let labels = UpdateLabels w (pt_labels (ry_headTemplate cluster));
               cluster = cluster\<lparr>ry_headTemplate := (ry_headTemplate cluster)\<lparr>pt_labels := labels\<rparr>\<rparr>
           in Some \<lparr>ry_key = workload_key w, ry_labels = labels, ry_spec = s\<lparr>rys_rayClusterSpec := cluster\<rparr>\<rparr>))"

definition rayservice_BuildDesired ::
    "QuantityApi \<Rightarrow> KaiwoConfigSpec \<Rightarrow> ClusterContext \<Rightarrow> KaiwoWorkload \<Rightarrow> KaiwoServiceSpec \<Rightarrow> AppWrapper option" where
  "rayservice_BuildDesired qa config clusterCtx w spec =
     Option.bind (buildRayService qa config clusterCtx w spec) (\<lambda>rayService.
     Option.bind (CalculateResourceConfig clusterCtx w True) (\<lambda>resourceConfig.
       Some \<lparr>aw_key = workload_key w, aw_labels = UpdateLabels w (queue_labels config w []),
             aw_podSets = [(1, ''template.spec.rayClusterConfig.headGroupSpec.template''),
               (to_int32 (rc_replicas resourceConfig), ''template.spec.rayClusterConfig.workerGroupSpecs[0].template'')],
             aw_template = rayService\<rparr>))"

record RayServiceStatus =
  rss_ready :: bool
  rss_applications :: "string gomap"

text \<open>\<open>None\<close>: the RayService does not exist yet. \<open>rss_ready\<close> is the truth of its ready condition.\<close>

definition rayservice_ObserveStatus :: "RayServiceStatus option \<Rightarrow> WorkloadStatus" where
  "rayservice_ObserveStatus rayService = (case rayService of
     None \<Rightarrow> WorkloadStatusStarting
   | Some s \<Rightarrow>
       if rss_ready s then WorkloadStatusRunning
       else if list_ex (\<lambda>(_, status). status = ''UNHEALTHY'' \<or> status = ''DEPLOY_FAILED'') (rss_applications s)
       then WorkloadStatusFailed else WorkloadStatusStarting)"

section \<open>Properties\<close>

lemma queue_labels_queue: "map_of (queue_labels config w l) QueueLabel = Some (GetClusterQueueName config (kw_spec w))"
  by (simp add: queue_labels_def Let_def update_conv' QueueLabel_def WorkloaddPriorityClassLabel_def)

lemma queue_label_kept:
  assumes "distinct (map fst (kw_labels w))"
  shows "map_of (UpdateLabels w (queue_labels config w l)) QueueLabel = Some (GetClusterQueueName config (kw_spec w))"
  by (simp add: map_of_UpdateLabels [OF assms] queue_labels_queue) (simp add: label_defs)



text \<open>A deployment of the user whose selector or match labels are missing makes the operator panic.\<close>

lemma deployment_without_match_labels_panics:
  assumes "ks_deployment spec = Some d" and "dp_matchLabels d = None \<or> dp_matchLabels d = Some None"
  shows "deployment_BuildDesired qa config cc w spec = None"
  using assms by (auto simp: deployment_BuildDesired_def)

end
