(* ===== verification/WorkloadClient.thy ===== *)
theory WorkloadClient
  imports Handlers GpuClient
begin

text \<open>
  The surroundings of the workload controllers (\<^verbatim>\<open>pkg/workloads/common\<close>, \<^verbatim>\<open>internal/controller\<close>): the calls
  they make on the API server, the clock and the event recorder, one event per call with its arguments and
  its answer, and the record of the answers, each a function of the history of all events so far. What the
  code takes from the Kubernetes packages (conditions of a status, owner references, the kinds of the
  scheme, duration strings, constants) is the record \<open>WlCtx\<close>; \<open>meta_laws\<close> states the documented behaviour of
  the functions on conditions.
\<close>

section \<open>Objects\<close>

text \<open>What the controllers read of a batch job, a Ray job and an AppWrapper.\<close>

record JobObject =
  jo_namespace :: string
  jo_uid :: string
  jo_status :: JobStatus

record RayJobObject =
  rjo_namespace :: string
  rjo_uid :: string
  rjo_status :: RayJobStatus

record AppWrapperObject =
  awo_namespace :: string
  awo_uid :: string

text \<open>The kinds of objects that a workload may own, and what termination reads of one.\<close>

datatype owned_kind = OwnedDeployment | OwnedRayService | OwnedAppWrapper | OwnedJob | OwnedRayJob | OwnedPvc

record OwnedObject =
  oo_name :: string
  oo_namespace :: string
  oo_ownerReferences :: "OwnerReference list"

text \<open>The objects that the reconcilers build.\<close>

datatype desired =
    DesiredPvc PersistentVolumeClaim
  | DesiredConfigMap ConfigMap
  | DesiredDownloadJob DownloadJob
  | DesiredBatchJob BatchJob
  | DesiredRayJob RayJob
  | DesiredDeployment Deployment
  | DesiredAppWrapper AppWrapper

definition desired_key :: "desired \<Rightarrow> ObjectKey" where
  "desired_key d = (case d of
     DesiredPvc x \<Rightarrow> pvc_key x | DesiredConfigMap x \<Rightarrow> cm_key x | DesiredDownloadJob x \<Rightarrow> dj_key x
   | DesiredBatchJob x \<Rightarrow> bj_key x | DesiredRayJob x \<Rightarrow> ryj_key x | DesiredDeployment x \<Rightarrow> dep_key x
   | DesiredAppWrapper x \<Rightarrow> aw_key x)"

datatype operation_result = OperationResultNone | OperationResultCreated | OperationResultUpdated

record LocalQueue =
  lq_name :: string
  lq_namespace :: string
  lq_clusterQueue :: string

text \<open>A sample of a metric family: its labels and the value of its gauge, when it is one.\<close>

record MetricSample =
  ms_labels :: "(string \<times> string) list"
  ms_gauge :: "rat option"

text \<open>An error that is returned, or a panic.\<close>

datatype wl_error = Panicked | Failed api_error

section \<open>Events and answers\<close>

datatype wl_event =
    WGetKaiwoJob ObjectKey "api_error + (KaiwoWorkload \<times> KaiwoJobSpec)"
  | WGetKaiwoService ObjectKey "api_error + (KaiwoWorkload \<times> KaiwoServiceSpec)"
  | WGetConfig "api_error + KaiwoConfigSpec"
  | WListNodes "api_error + Node list"
  | WGetQueueConfig "api_error + KaiwoQueueConfig"
  | WGetPvc ObjectKey "api_error + ClaimPhase"
  | WGetConfigMap ObjectKey "api_error option"
  | WGetJob ObjectKey "api_error + JobObject"
  | WGetRayJob ObjectKey "api_error + RayJobObject"
  | WGetDeployment ObjectKey "api_error + DeploymentStatus"
  | WGetAppWrapper ObjectKey "api_error + AppWrapperObject"
  | WGetRayService ObjectKey "api_error + RayServiceStatus"
  | WListKueueWorkloads string string "api_error + Condition list list"
  | WListPodUids string "api_error + (string \<times> string) list"
  | WListWorkloads workload_kind "api_error + KaiwoWorkload list"
  | WUpdateStatus KaiwoWorkload "api_error + KaiwoWorkload"
  | WListOwned owned_kind string "api_error + OwnedObject list"
  | WDeleteOwned owned_kind OwnedObject "api_error option"
  | WCreateOrPatch desired "api_error + operation_result"
  | WGetLocalQueue ObjectKey "api_error option"
  | WGetClusterQueue string "api_error option"
  | WCreateLocalQueue LocalQueue "api_error option"
  | WNow int
  | WRecord ObjectKey event_type string string
  | WScrape string "api_error + MetricSample list gomap"
  | WGetPod ObjectKey "api_error + Pod"

type_synonym 'a wl_prog = "(wl_event, wl_error + 'a) prog"

record WlApi =
  w_getKaiwoJob :: "wl_event list \<Rightarrow> ObjectKey \<Rightarrow> api_error + (KaiwoWorkload \<times> KaiwoJobSpec)"
  w_getKaiwoService :: "wl_event list \<Rightarrow> ObjectKey \<Rightarrow> api_error + (KaiwoWorkload \<times> KaiwoServiceSpec)"
  w_getConfig :: "wl_event list \<Rightarrow> api_error + KaiwoConfigSpec"
  w_listNodes :: "wl_event list \<Rightarrow> api_error + Node list"
  w_getQueueConfig :: "wl_event list \<Rightarrow> api_error + KaiwoQueueConfig"
  w_getPvc :: "wl_event list \<Rightarrow> ObjectKey \<Rightarrow> api_error + ClaimPhase"
  w_getConfigMap :: "wl_event list \<Rightarrow> ObjectKey \<Rightarrow> api_error option"
  w_getJob :: "wl_event list \<Rightarrow> ObjectKey \<Rightarrow> api_error + JobObject"
  w_getRayJob :: "wl_event list \<Rightarrow> ObjectKey \<Rightarrow> api_error + RayJobObject"
  w_getDeployment :: "wl_event list \<Rightarrow> ObjectKey \<Rightarrow> api_error + DeploymentStatus"
  w_getAppWrapper :: "wl_event list \<Rightarrow> ObjectKey \<Rightarrow> api_error + AppWrapperObject"
  w_getRayService :: "wl_event list \<Rightarrow> ObjectKey \<Rightarrow> api_error + RayServiceStatus"
  w_listKueueWorkloads :: "wl_event list \<Rightarrow> string \<Rightarrow> string \<Rightarrow> api_error + Condition list list"
  w_listPodUids :: "wl_event list \<Rightarrow> string \<Rightarrow> api_error + (string \<times> string) list"
  w_listWorkloads :: "wl_event list \<Rightarrow> workload_kind \<Rightarrow> api_error + KaiwoWorkload list"
  w_updateStatus :: "wl_event list \<Rightarrow> KaiwoWorkload \<Rightarrow> api_error + KaiwoWorkload"
  w_listOwned :: "wl_event list \<Rightarrow> owned_kind \<Rightarrow> string \<Rightarrow> api_error + OwnedObject list"
  w_deleteOwned :: "wl_event list \<Rightarrow> owned_kind \<Rightarrow> OwnedObject \<Rightarrow> api_error option"
  w_createOrPatch :: "wl_event list \<Rightarrow> desired \<Rightarrow> api_error + operation_result"
  w_getLocalQueue :: "wl_event list \<Rightarrow> ObjectKey \<Rightarrow> api_error option"
  w_getClusterQueue :: "wl_event list \<Rightarrow> string \<Rightarrow> api_error option"
  w_createLocalQueue :: "wl_event list \<Rightarrow> LocalQueue \<Rightarrow> api_error option"
  w_now :: "wl_event list \<Rightarrow> int"
  w_scrape :: "wl_event list \<Rightarrow> string \<Rightarrow> api_error + MetricSample list gomap"
  w_getPod :: "wl_event list \<Rightarrow> ObjectKey \<Rightarrow> api_error + Pod"

section \<open>Kubernetes packages\<close>

text \<open>
  \<open>mt_find\<close> is \<^verbatim>\<open>meta.FindStatusCondition\<close>: the pointer it returns into the slice is an index. \<open>mt_set\<close> is
  \<^verbatim>\<open>meta.SetStatusCondition\<close> with the time of its clock as first argument.
\<close>

record WlCtx =
  mt_find :: "Condition list \<Rightarrow> string \<Rightarrow> nat option"
  mt_set :: "int \<Rightarrow> Condition list \<Rightarrow> Condition \<Rightarrow> Condition list"
  wx_quantities :: QuantityApi
  wx_marshal :: "DownloadTaskConfig \<Rightarrow> string option"
  wx_mapOrder :: "string list \<Rightarrow> string list"
  wx_setControllerReference :: "KaiwoWorkload \<Rightarrow> desired \<Rightarrow> api_error option"
  wx_setOwnerReference :: "string \<Rightarrow> LocalQueue \<Rightarrow> api_error option"
  wx_objectKinds :: "desired \<Rightarrow> api_error + string list"
  wx_parseDuration :: "string \<Rightarrow> int option"
  wx_workloadAdmitted :: string
  wx_deploymentProgressing :: string

text \<open>
  Documented behaviour: the first condition of the type is found; setting a condition replaces the one of
  its type, keeping its place, or appends it; only the transition time may differ from what was given.
\<close>

definition cond_types :: "Condition list \<Rightarrow> string set" where
  "cond_types cs = c_type ` set cs"

definition meta_laws :: "WlCtx \<Rightarrow> bool" where
  "meta_laws cx \<longleftrightarrow>
     (\<forall>cs t. (case mt_find cx cs t of
        None \<Rightarrow> t \<notin> cond_types cs
      | Some i \<Rightarrow> i < length cs \<and> c_type (cs ! i) = t \<and> (\<forall>j < i. c_type (cs ! j) \<noteq> t))) \<and>
     (\<forall>now cs c. \<exists>time. mt_set cx now cs c = (case mt_find cx cs (c_type c) of
        None \<Rightarrow> cs @ [c\<lparr>c_lastTransitionTime := time\<rparr>]
      | Some i \<Rightarrow> cs[i := c\<lparr>c_lastTransitionTime := time\<rparr>]))"

text \<open>\<^verbatim>\<open>meta.IsStatusConditionTrue\<close>\<close>

definition condition_true :: "WlCtx \<Rightarrow> Condition list \<Rightarrow> string \<Rightarrow> bool" where
  "condition_true cx cs t = (case mt_find cx cs t of None \<Rightarrow> False | Some i \<Rightarrow> c_status (cs ! i) = CondTrue)"

section \<open>Calls\<close>

text \<open>A call whose error is returned, wrapped, by the caller.\<close>

definition try_call :: "(wl_event list \<Rightarrow> api_error + 'r) \<Rightarrow> (api_error + 'r \<Rightarrow> wl_event) \<Rightarrow> 'r wl_prog" where
  "try_call answer event = do {
     r \<leftarrow> call answer event;
     ret (case r of Inl e \<Rightarrow> Inl (Failed e) | Inr x \<Rightarrow> Inr x)
   }"

definition try_unit :: "(wl_event list \<Rightarrow> api_error option) \<Rightarrow> (api_error option \<Rightarrow> wl_event) \<Rightarrow> unit wl_prog" where
  "try_unit answer event = do {
     r \<leftarrow> call answer event;
     ret (case r of None \<Rightarrow> Inr () | Some e \<Rightarrow> Inl (Failed e))
   }"

definition W_Now :: "WlApi \<Rightarrow> int wl_prog" where
  "W_Now api = do { now \<leftarrow> call (w_now api) WNow; ret (Inr now) }"

definition W_UpdateStatus :: "WlApi \<Rightarrow> KaiwoWorkload \<Rightarrow> KaiwoWorkload wl_prog" where
  "W_UpdateStatus api w = try_call (\<lambda>h. w_updateStatus api h w) (WUpdateStatus w)"

definition W_Event :: "KaiwoWorkload \<Rightarrow> event_type \<Rightarrow> string \<Rightarrow> string \<Rightarrow> unit wl_prog" where
  "W_Event w etype reason message = do { emit (WRecord (workload_key w) etype reason message); ret (Inr ()) }"

text \<open>The value of a pure computation: a panic, an error or a value.\<close>

definition or_panic :: "'a option \<Rightarrow> 'a wl_prog" where
  "or_panic v = ret (case v of None \<Rightarrow> Inl Panicked | Some x \<Rightarrow> Inr x)"

definition or_error :: "string \<Rightarrow> 'a option \<Rightarrow> 'a wl_prog" where
  "or_error message v = ret (case v of None \<Rightarrow> Inl (Failed (OtherError message)) | Some x \<Rightarrow> Inr x)"

definition SetStatusCondition :: "WlApi \<Rightarrow> WlCtx \<Rightarrow> Condition list \<Rightarrow> Condition \<Rightarrow> Condition list wl_prog" where
  "SetStatusCondition api cx cs c = bindE (W_Now api) (\<lambda>now. ret (Inr (mt_set cx now cs c)))"

fun SetStatusConditions :: "WlApi \<Rightarrow> WlCtx \<Rightarrow> Condition list \<Rightarrow> Condition list \<Rightarrow> Condition list wl_prog" where
  "SetStatusConditions api cx cs [] = ret (Inr cs)"
| "SetStatusConditions api cx cs (c # rest) =
     bindE (SetStatusCondition api cx cs c) (\<lambda>cs'. SetStatusConditions api cx cs' rest)"

lemmas wl_client_defs = try_call_def try_unit_def W_Now_def W_UpdateStatus_def W_Event_def or_panic_def or_error_def
  SetStatusCondition_def

section \<open>Conditions\<close>

lemma cond_types_simps [simp]:
  "cond_types [] = {}" "cond_types (c # cs) = insert (c_type c) (cond_types cs)"
  "cond_types (xs @ ys) = cond_types xs \<union> cond_types ys"
  by (auto simp: cond_types_def)

lemma find_type:
  assumes "meta_laws cx"
  shows "mt_find cx cs t = None \<longleftrightarrow> t \<notin> cond_types cs"
    and "mt_find cx cs t = Some i \<Longrightarrow> i < length cs \<and> c_type (cs ! i) = t"
proof -
  have law: "case mt_find cx cs t of None \<Rightarrow> t \<notin> cond_types cs
      | Some i \<Rightarrow> i < length cs \<and> c_type (cs ! i) = t \<and> (\<forall>j < i. c_type (cs ! j) \<noteq> t)"
    using assms unfolding meta_laws_def by blast
  show some: "i < length cs \<and> c_type (cs ! i) = t" if "mt_find cx cs t = Some i" for i
    using law that by simp
  show "mt_find cx cs t = None \<longleftrightarrow> t \<notin> cond_types cs"
  proof (cases "mt_find cx cs t")
    case None
    with law show ?thesis by simp
  next
    case (Some i)
    from some [OF Some] have "t \<in> cond_types cs" unfolding cond_types_def by (metis image_eqI nth_mem)
    with Some show ?thesis by simp
  qed
qed

lemma set_types:
  assumes "meta_laws cx"
  shows "cond_types (mt_set cx now cs c) = insert (c_type c) (cond_types cs)"
proof -
  obtain time where set: "mt_set cx now cs c = (case mt_find cx cs (c_type c) of
      None \<Rightarrow> cs @ [c\<lparr>c_lastTransitionTime := time\<rparr>] | Some i \<Rightarrow> cs[i := c\<lparr>c_lastTransitionTime := time\<rparr>])"
    using assms unfolding meta_laws_def by blast
  show ?thesis
  proof (cases "mt_find cx cs (c_type c)")
    case None
    with set show ?thesis by (simp add: cond_types_def)
  next
    case (Some i)
    have i: "i < length cs" "c_type (cs ! i) = c_type c" using find_type(2) [OF assms Some] by auto
    with set Some have "map c_type (mt_set cx now cs c) = map c_type cs"
      by (simp add: map_update list_update_same_conv)
    then have "cond_types (mt_set cx now cs c) = cond_types cs"
      unfolding cond_types_def by (metis list.set_map)
    moreover have "c_type c \<in> cond_types cs" using i unfolding cond_types_def by (metis image_eqI nth_mem)
    ultimately show ?thesis by blast
  qed
qed

definition only_clock :: "wl_event list \<Rightarrow> bool" where
  "only_clock = list_all (\<lambda>e. case e of WNow _ \<Rightarrow> True | _ \<Rightarrow> False)"

lemma only_clock_simps [simp]:
  "only_clock []" "only_clock (WNow t # new) = only_clock new" "only_clock (n1 @ n2) \<longleftrightarrow> only_clock n1 \<and> only_clock n2"
  by (simp_all add: only_clock_def)

lemma does_SetStatusCondition:
  "(\<And>now. Q (Inr (mt_set cx now cs c)) [WNow now]) \<Longrightarrow> does Q (SetStatusCondition api cx cs c)"
  by (simp add: SetStatusCondition_def W_Now_def does_def)

lemma does_SetStatusConditions:
  "does (\<lambda>r new. (\<exists>cs'. r = Inr cs' \<and> (meta_laws cx \<longrightarrow> cond_types cs' = cond_types cs \<union> cond_types conds)) \<and> only_clock new)
     (SetStatusConditions api cx cs conds)"
proof (induction conds arbitrary: cs)
  case Nil
  show ?case by (simp add: does_return)
next
  case (Cons c conds)
  have rest: "does (\<lambda>r new. (\<exists>cs'. r = Inr cs' \<and> (meta_laws cx \<longrightarrow> cond_types cs' = cond_types cs \<union> cond_types (c # conds))) \<and>
      only_clock ([WNow now] @ new)) (SetStatusConditions api cx (mt_set cx now cs c) conds)" for now
    by (rule does_mono [OF Cons]) (auto simp: set_types)
  show ?case
    by (simp only: SetStatusConditions.simps) (intro does_bindE does_SetStatusCondition, simp only: sum.case, rule rest)
qed

section \<open>Events of the calls\<close>

text \<open>\<open>reads e\<close>: the event neither writes to the server nor records a Kubernetes event.\<close>

definition reads :: "wl_event \<Rightarrow> bool" where
  "reads e = (case e of
     WUpdateStatus _ _ \<Rightarrow> False | WDeleteOwned _ _ _ \<Rightarrow> False | WCreateOrPatch _ _ \<Rightarrow> False
   | WCreateLocalQueue _ _ \<Rightarrow> False | WRecord _ _ _ _ \<Rightarrow> False | _ \<Rightarrow> True)"

lemma reads_simps [simp]:
  "reads (WGetKaiwoJob k r1)" "reads (WGetKaiwoService k r2)" "reads (WGetConfig r3)" "reads (WListNodes r4)"
  "reads (WGetQueueConfig r5)" "reads (WGetPvc k r6)" "reads (WGetConfigMap k r7)" "reads (WGetJob k r8)"
  "reads (WGetRayJob k r9)" "reads (WGetDeployment k r10)" "reads (WGetAppWrapper k r11)" "reads (WGetRayService k r12)"
  "reads (WListKueueWorkloads s u r13)" "reads (WListPodUids u r14)" "reads (WListWorkloads kd r15)"
  "reads (WListOwned ok s r16)" "reads (WGetLocalQueue k r17)" "reads (WGetClusterQueue s r18)" "reads (WNow t)"
  "reads (WScrape s r23)" "reads (WGetPod k r24)"
  "\<not> reads (WUpdateStatus w r19)" "\<not> reads (WDeleteOwned ok obj r20)" "\<not> reads (WCreateOrPatch d r21)"
  "\<not> reads (WCreateLocalQueue lq r22)" "\<not> reads (WRecord k et s u)"
  by (simp_all add: reads_def)

lemma only_clock_reads: "only_clock new \<Longrightarrow> list_all reads new"
  unfolding only_clock_def by (induction new) (auto split: wl_event.splits)

lemma emits_try_call [emits_intros]: "(\<And>r. P (event r)) \<Longrightarrow> emits P (try_call answer event)"
  unfolding try_call_def by (intro emits_intros)

lemma emits_try_unit [emits_intros]: "(\<And>r. P (event r)) \<Longrightarrow> emits P (try_unit answer event)"
  unfolding try_unit_def by (intro emits_intros)

lemma emits_or_panic [emits_intros]: "emits P (or_panic v)" "emits P (or_error m v)"
  unfolding or_panic_def or_error_def by (intro emits_intros)+

lemma emits_W_Now [emits_intros]: "(\<And>t. P (WNow t)) \<Longrightarrow> emits P (W_Now api)"
  unfolding W_Now_def by (intro emits_intros)

lemma emits_W_UpdateStatus [emits_intros]: "(\<And>r. P (WUpdateStatus w r)) \<Longrightarrow> emits P (W_UpdateStatus api w)"
  unfolding W_UpdateStatus_def by (intro emits_intros)

lemma emits_W_Event [emits_intros]: "P (WRecord (workload_key w) et r m) \<Longrightarrow> emits P (W_Event w et r m)"
  unfolding W_Event_def by (intro emits_intros)

lemma emits_SetStatusCondition [emits_intros]: "(\<And>t. P (WNow t)) \<Longrightarrow> emits P (SetStatusCondition api cx cs c)"
  unfolding SetStatusCondition_def by (intro emits_intros)

lemma emits_SetStatusConditions [emits_intros]: "(\<And>t. P (WNow t)) \<Longrightarrow> emits P (SetStatusConditions api cx cs conds)"
  by (induction conds arbitrary: cs) (simp_all add: emits_intros)

lemma does_try_call:
  "(\<And>e. Q (Inl (Failed e)) [event (Inl e)]) \<Longrightarrow> (\<And>x. Q (Inr x) [event (Inr x)]) \<Longrightarrow> does Q (try_call answer event)"
  unfolding try_call_def by (intro does_intros) (auto intro!: does_intros split: sum.splits)

lemma does_try_unit:
  "(\<And>e. Q (Inl (Failed e)) [event (Some e)]) \<Longrightarrow> Q (Inr ()) [event None] \<Longrightarrow> does Q (try_unit answer event)"
  unfolding try_unit_def by (intro does_intros) (auto intro!: does_intros split: option.splits)

lemma does_or_panic: "(v = None \<Longrightarrow> Q (Inl Panicked) []) \<Longrightarrow> (\<And>x. v = Some x \<Longrightarrow> Q (Inr x) []) \<Longrightarrow> does Q (or_panic v)"
  unfolding or_panic_def by (intro does_intros) (auto split: option.splits)

lemma does_W_Now: "(\<And>t. Q (Inr t) [WNow t]) \<Longrightarrow> does Q (W_Now api)"
  unfolding W_Now_def by (intro does_intros) simp

lemma does_W_UpdateStatus:
  "(\<And>e. Q (Inl (Failed e)) [WUpdateStatus w (Inl e)]) \<Longrightarrow> (\<And>x. Q (Inr x) [WUpdateStatus w (Inr x)]) \<Longrightarrow>
   does Q (W_UpdateStatus api w)"
  unfolding W_UpdateStatus_def by (rule does_try_call)

text \<open>From a bound on the events to a statement about the events of one run.\<close>

lemma does_emits: "emits P m \<Longrightarrow> does (\<lambda>_ new. list_all P new) m"
  by (simp add: emits_def)

end
