(* ===== verification/WorkloadObserve.thy ===== *)
theory WorkloadObserve
  imports WorkloadClient
begin

text \<open>
  How a workload is observed: admission by Kueue (\<^verbatim>\<open>admission.go\<close> and the \<open>GetKueueWorkloads\<close> of the four
  handlers), the cluster context (\<^verbatim>\<open>cluster.go\<close>), the status of the underlying resources (\<^verbatim>\<open>utils.go\<close>,
  \<^verbatim>\<open>storage.go\<close>, \<^verbatim>\<open>workload.go\<close>), and preemption after the requested duration (\<^verbatim>\<open>preempting.go\<close>).
\<close>

section \<open>Handlers\<close>

text \<open>\<^verbatim>\<open>WorkloadReconciler\<close>: the four implementations, with the part of the spec that is theirs.\<close>

datatype WorkloadImpl =
    BatchJobHandler KaiwoJobSpec | RayJobHandler KaiwoJobSpec
  | DeploymentHandler KaiwoServiceSpec | RayServiceHandler KaiwoServiceSpec

definition NewKaiwoJobHandler :: "KaiwoWorkload \<Rightarrow> KaiwoJobSpec \<Rightarrow> WorkloadImpl" where
  "NewKaiwoJobHandler job spec = (if IsBatchJob spec (kw_spec job) then BatchJobHandler spec else RayJobHandler spec)"

definition NewKaiwoServiceHandler :: "KaiwoWorkload \<Rightarrow> KaiwoServiceSpec \<Rightarrow> WorkloadImpl" where
  "NewKaiwoServiceHandler service spec =
     (if IsRayService spec (kw_spec service) then RayServiceHandler spec else DeploymentHandler spec)"

section \<open>Admission\<close>

text \<open>The conditions of a Kueue workload are all that is read of it.\<close>

definition GetKueueWorkload :: "WlApi \<Rightarrow> string \<Rightarrow> string \<Rightarrow> Condition list option wl_prog" where
  "GetKueueWorkload api ns uid =
     bindE (try_call (\<lambda>h. w_listKueueWorkloads api h ns uid) (WListKueueWorkloads ns uid)) (\<lambda>items.
       ret (case items of
              [] \<Rightarrow> Inr None
            | [wl] \<Rightarrow> Inr (Some wl)
            | _ \<Rightarrow> Inl (Failed (OtherError ''expected a single workload''))))"

definition kueue_of :: "WlApi \<Rightarrow> string \<Rightarrow> string \<Rightarrow> Condition list list wl_prog" where
  "kueue_of api ns uid =
     bindE (GetKueueWorkload api ns uid) (\<lambda>wl. ret (Inr (case wl of None \<Rightarrow> [] | Some wl \<Rightarrow> [wl])))"

fun kueue_of_pods :: "WlApi \<Rightarrow> (string \<times> string) list \<Rightarrow> Condition list list wl_prog" where
  "kueue_of_pods api [] = ret (Inr [])"
| "kueue_of_pods api ((ns, uid) # pods) =
     bindE (GetKueueWorkload api ns uid) (\<lambda>wl.
     bindE (kueue_of_pods api pods) (\<lambda>rest. ret (Inr (case wl of None \<Rightarrow> rest | Some wl \<Rightarrow> wl # rest))))"

definition batchjob_GetKueueWorkloads :: "WlApi \<Rightarrow> KaiwoWorkload \<Rightarrow> Condition list list wl_prog" where
  "batchjob_GetKueueWorkloads api w = (let key = workload_key w in
     bindE (try_call (\<lambda>h. w_getJob api h key) (WGetJob key)) (\<lambda>job. kueue_of api (jo_namespace job) (jo_uid job)))"

definition rayjob_GetKueueWorkloads :: "WlApi \<Rightarrow> KaiwoWorkload \<Rightarrow> Condition list list wl_prog" where
  "rayjob_GetKueueWorkloads api w = (let key = workload_key w in
     bindE (try_call (\<lambda>h. w_getRayJob api h key) (WGetRayJob key)) (\<lambda>rayJob. kueue_of api (rjo_namespace rayJob) (rjo_uid rayJob)))"

text \<open>The pods of a deployment are found by the label with the workload's UID, in all namespaces.\<close>

definition deployment_GetKueueWorkloads :: "WlApi \<Rightarrow> KaiwoWorkload \<Rightarrow> Condition list list wl_prog" where
  "deployment_GetKueueWorkloads api w =
     bindE (try_call (\<lambda>h. w_listPodUids api h (kw_uid w)) (WListPodUids (kw_uid w))) (kueue_of_pods api)"

definition rayservice_GetKueueWorkloads :: "WlApi \<Rightarrow> KaiwoWorkload \<Rightarrow> Condition list list wl_prog" where
  "rayservice_GetKueueWorkloads api w = (let key = workload_key w in
     bindE (try_call (\<lambda>h. w_getAppWrapper api h key) (WGetAppWrapper key)) (\<lambda>appWrapper.
       kueue_of api (awo_namespace appWrapper) (awo_uid appWrapper)))"

definition GetKueueWorkloads :: "WlApi \<Rightarrow> KaiwoWorkload \<Rightarrow> WorkloadImpl \<Rightarrow> Condition list list wl_prog" where
  "GetKueueWorkloads api w impl = (case impl of
     BatchJobHandler _ \<Rightarrow> batchjob_GetKueueWorkloads api w
   | RayJobHandler _ \<Rightarrow> rayjob_GetKueueWorkloads api w
   | DeploymentHandler _ \<Rightarrow> deployment_GetKueueWorkloads api w
   | RayServiceHandler _ \<Rightarrow> rayservice_GetKueueWorkloads api w)"

definition is_admitted :: "WlCtx \<Rightarrow> Condition list \<Rightarrow> bool" where
  "is_admitted cx conditions = (case mt_find cx conditions (wx_workloadAdmitted cx) of
     None \<Rightarrow> False | Some i \<Rightarrow> c_status (conditions ! i) \<noteq> CondFalse)"

definition IsAdmitted :: "WlApi \<Rightarrow> WlCtx \<Rightarrow> KaiwoWorkload \<Rightarrow> WorkloadImpl \<Rightarrow> bool wl_prog" where
  "IsAdmitted api cx w impl = do {
     r \<leftarrow> GetKueueWorkloads api w impl;
     ret (case r of
            Inl e \<Rightarrow> if e = Failed NotFound then Inr False else Inl e
          | Inr workloads \<Rightarrow> Inr (workloads \<noteq> [] \<and> list_all (is_admitted cx) workloads))
   }"

section \<open>Cluster context\<close>

definition GetClusterContext :: "WlApi \<Rightarrow> KaiwoWorkload \<Rightarrow> ClusterContext wl_prog" where
  "GetClusterContext api w =
     bindE (try_call (w_listNodes api) WListNodes) (\<lambda>nodes.
     bindE (try_call (w_getQueueConfig api) WGetQueueConfig) (\<lambda>queueConfig.
       ret (Inr \<lparr>cc_nodes = nodes, cc_gpuStats = fillGpuStats nodes (cms_gpuVendor (kw_spec w)) True,
                 cc_kaiwoQueueConfig = queueConfig\<rparr>)))"

section \<open>Status of the resources\<close>

text \<open>\<^verbatim>\<open>ResourceReconciler\<close>\<close>

datatype ResourceReconciler = StorageRes StorageReconciler | WorkloadRes WorkloadImpl

definition download_key :: "ObjectKey \<Rightarrow> ObjectKey" where
  "download_key key = \<lparr>key_name = FormatNameWithPostfix (key_name key) [''download''], key_namespace = key_namespace key\<rparr>"

text \<open>
  Fetching the object of a reconciler and its \<open>ObserveStatus\<close>: the outer error is that of the fetch, the
  inner one that of the observation.
\<close>

type_synonym observation = "wl_error + (WorkloadStatus option \<times> Condition list)"

definition observe_RayService :: "WlApi \<Rightarrow> ObjectKey \<Rightarrow> (wl_event, observation) prog" where
  "observe_RayService api key = do {
     r \<leftarrow> call (\<lambda>h. w_getRayService api h key) (WGetRayService key);
     ret (case r of
            Inl e \<Rightarrow> if e = NotFound then Inr (Some (rayservice_ObserveStatus None), []) else Inl (Failed e)
          | Inr s \<Rightarrow> Inr (Some (rayservice_ObserveStatus (Some s)), []))
   }"

fun observe_resource ::
    "WlApi \<Rightarrow> WlCtx \<Rightarrow> KaiwoWorkload \<Rightarrow> WorkloadStatus \<Rightarrow> ResourceReconciler \<Rightarrow> (wl_event, api_error + observation) prog" where
  "observe_resource api cx w prev (StorageRes (PvcRec r)) = do {
     r \<leftarrow> call (\<lambda>h. w_getPvc api h (pv_objectKey r)) (WGetPvc (pv_objectKey r));
     ret (case r of Inl e \<Rightarrow> Inl e | Inr phase \<Rightarrow> Inr (Inr (pvc_ObserveStatus phase)))
   }"
| "observe_resource api cx w prev (StorageRes (DownloadConfigMapRec key st)) = do {
     r \<leftarrow> call (\<lambda>h. w_getConfigMap api h (download_key key)) (WGetConfigMap (download_key key));
     ret (case r of Some e \<Rightarrow> Inl e | None \<Rightarrow> Inr (Inr (None, [])))
   }"
| "observe_resource api cx w prev (StorageRes (DownloadJobRec key st env)) = do {
     r \<leftarrow> call (\<lambda>h. w_getJob api h (download_key key)) (WGetJob (download_key key));
     ret (case r of Inl e \<Rightarrow> Inl e | Inr job \<Rightarrow> Inr (case downloadjob_ObserveStatus (jo_status job) prev of
            None \<Rightarrow> Inl (Failed (OtherError ''unexpected job status''))
          | Some (s, cs) \<Rightarrow> Inr (Some s, cs)))
   }"
| "observe_resource api cx w prev (WorkloadRes (BatchJobHandler spec)) = do {
     r \<leftarrow> call (\<lambda>h. w_getJob api h (workload_key w)) (WGetJob (workload_key w));
     ret (case r of Inl e \<Rightarrow> Inl e | Inr job \<Rightarrow> Inr (Inr (batchjob_ObserveStatus (jo_status job) prev)))
   }"
| "observe_resource api cx w prev (WorkloadRes (RayJobHandler spec)) = do {
     r \<leftarrow> call (\<lambda>h. w_getRayJob api h (workload_key w)) (WGetRayJob (workload_key w));
     ret (case r of Inl e \<Rightarrow> Inl e | Inr job \<Rightarrow> Inr (case rayjob_ObserveStatus (rjo_status job) of
            None \<Rightarrow> Inl (Failed (OtherError ''unexpected job status''))
          | Some s \<Rightarrow> Inr (Some s, [])))
   }"
| "observe_resource api cx w prev (WorkloadRes (DeploymentHandler spec)) = do {
     r \<leftarrow> call (\<lambda>h. w_getDeployment api h (workload_key w)) (WGetDeployment (workload_key w));
     ret (case r of Inl e \<Rightarrow> Inl e
          | Inr d \<Rightarrow> Inr (Inr (Some (deployment_ObserveStatus (wx_deploymentProgressing cx) d), [])))
   }"
| "observe_resource api cx w prev (WorkloadRes (RayServiceHandler spec)) = do {
     r \<leftarrow> call (\<lambda>h. w_getAppWrapper api h (workload_key w)) (WGetAppWrapper (workload_key w));
     (case r of Inl e \<Rightarrow> ret (Inl e)
      | Inr _ \<Rightarrow> do { o' \<leftarrow> observe_RayService api (workload_key w); ret (Inr o') })
   }"

fun observe_loop ::
    "WlApi \<Rightarrow> WlCtx \<Rightarrow> KaiwoWorkload \<Rightarrow> WorkloadStatus \<Rightarrow> ResourceReconciler list \<Rightarrow> WorkloadStatus list \<Rightarrow> Condition list
     \<Rightarrow> (WorkloadStatus \<times> Condition list) wl_prog" where
  "observe_loop api cx w prev [] statuses conditions =
     ret (Inr (if statuses = [] then (WorkloadStatusNew, []) else (DetermineOverallStatus statuses, conditions)))"
| "observe_loop api cx w prev (r # rs) statuses conditions = do {
     got \<leftarrow> observe_resource api cx w prev r;
     (case got of
        Inl e \<Rightarrow> if e = NotFound then ret (Inr (WorkloadStatusNew, [])) else ret (Inl (Failed e))
      | Inr (Inl e) \<Rightarrow> ret (Inl e)
      | Inr (Inr (s, cs)) \<Rightarrow>
          observe_loop api cx w prev rs (case s of None \<Rightarrow> statuses | Some s \<Rightarrow> statuses @ [s]) (conditions @ cs))
   }"

definition ObserveOverallStatus ::
    "WlApi \<Rightarrow> WlCtx \<Rightarrow> KaiwoWorkload \<Rightarrow> ResourceReconciler list \<Rightarrow> WorkloadStatus \<Rightarrow> (WorkloadStatus \<times> Condition list) wl_prog" where
  "ObserveOverallStatus api cx w reconcilers previousWorkloadStatus =
     observe_loop api cx w previousWorkloadStatus reconcilers [] []"

text \<open>The reconcilers of the storage handler are computed first, which can panic.\<close>

definition storage_ObserveStatus ::
    "WlApi \<Rightarrow> WlCtx \<Rightarrow> KaiwoWorkload \<Rightarrow> StorageHandler \<Rightarrow> WorkloadStatus \<Rightarrow> (WorkloadStatus \<times> Condition list) wl_prog" where
  "storage_ObserveStatus api cx w h previousWorkloadStatus =
     bindE (or_panic (storage_GetResourceReconcilers (wx_quantities cx) h)) (\<lambda>rs.
       ObserveOverallStatus api cx w (map StorageRes rs) previousWorkloadStatus)"

section \<open>Preemption after the requested duration\<close>

definition PreemptableConditionType :: string where "PreemptableConditionType = ''Preemptable''"

datatype PreemptReason =
  PreemptReasonDurationNotExceeded | PreemptReasonDurationExceeded | PreemptReasonDurationExceededWithActiveGpuDemand

fun preempt_reason_string :: "PreemptReason \<Rightarrow> string" where
  "preempt_reason_string PreemptReasonDurationNotExceeded = ''DurationNotExceeded''"
| "preempt_reason_string PreemptReasonDurationExceeded = ''DurationExceeded''"
| "preempt_reason_string PreemptReasonDurationExceededWithActiveGpuDemand = ''DurationExceededWithActiveGpuDemand''"

abbreviation status_of :: "KaiwoWorkload \<Rightarrow> WorkloadStatus" where
  "status_of w \<equiv> css_status (kw_status w)"

abbreviation conditions_of :: "KaiwoWorkload \<Rightarrow> Condition list" where
  "conditions_of w \<equiv> css_conditions (kw_status w)"

definition GetRemainingTimeBeforeBecomingPreemptable :: "WlApi \<Rightarrow> KaiwoWorkload \<Rightarrow> int option wl_prog" where
  "GetRemainingTimeBeforeBecomingPreemptable api w =
     (if status_of w \<noteq> WorkloadStatusRunning then ret (Inr None)
      else (case (cms_duration (kw_spec w), css_startTime (kw_status w)) of
              (Some duration, Some startTime) \<Rightarrow> bindE (W_Now api) (\<lambda>now. ret (Inr (Some (duration - (now - startTime)))))
            | _ \<Rightarrow> ret (Inr None)))"

definition GetPreemptableCondition :: "WlApi \<Rightarrow> KaiwoWorkload \<Rightarrow> Condition option wl_prog" where
  "GetPreemptableCondition api w =
     bindE (GetRemainingTimeBeforeBecomingPreemptable api w) (\<lambda>remaining.
       ret (Inr (map_option (\<lambda>r.
         (if r > 0
          then new_condition PreemptableConditionType CondFalse (preempt_reason_string PreemptReasonDurationNotExceeded)
                 ''Workload is running and the duration has not been exceeded''
          else new_condition PreemptableConditionType CondTrue (preempt_reason_string PreemptReasonDurationExceeded)
                 ''Workload duration has exceeded'')\<lparr>c_observedGeneration := kw_generation w\<rparr>) remaining)))"

definition isPendingForLong :: "WlApi \<Rightarrow> WlCtx \<Rightarrow> KaiwoConfigSpec \<Rightarrow> KaiwoWorkload \<Rightarrow> bool wl_prog" where
  "isPendingForLong api cx config w =
     bindE (W_Now api) (\<lambda>now.
       ret (Inr (case wx_parseDuration cx (sch_pendingThresholdForPreemption (kcs_scheduling config)) of
                   None \<Rightarrow> False
                 | Some duration \<Rightarrow> now - kw_creationTimestamp w > duration)))"

text \<open>The part of the demand test before \<open>isPendingForLong\<close>, on one listed workload.\<close>

definition demands :: "KaiwoConfigSpec \<Rightarrow> string \<Rightarrow> string \<Rightarrow> KaiwoWorkload \<Rightarrow> bool" where
  "demands config clusterQueue gpuVendor w \<longleftrightarrow>
     status_of w = WorkloadStatusPending \<and> cms_gpus (kw_spec w) > 0 \<and>
     (if cms_clusterQueue (kw_spec w) = [] then kcs_defaultClusterQueueName config else cms_clusterQueue (kw_spec w)) = clusterQueue \<and>
     cms_gpuVendor (kw_spec w) = gpuVendor"

fun any_demand ::
    "WlApi \<Rightarrow> WlCtx \<Rightarrow> KaiwoConfigSpec \<Rightarrow> string \<Rightarrow> string \<Rightarrow> KaiwoWorkload list \<Rightarrow> bool wl_prog" where
  "any_demand api cx config queue vendor [] = ret (Inr False)"
| "any_demand api cx config queue vendor (w # ws) =
     (if demands config queue vendor w
      then bindE (isPendingForLong api cx config w) (\<lambda>b. if b then ret (Inr True) else any_demand api cx config queue vendor ws)
      else any_demand api cx config queue vendor ws)"

definition ClusterHasGpuDemand :: "WlApi \<Rightarrow> WlCtx \<Rightarrow> string \<Rightarrow> string \<Rightarrow> KaiwoConfigSpec \<Rightarrow> bool wl_prog" where
  "ClusterHasGpuDemand api cx clusterQueue gpuVendor config =
     bindE (try_call (\<lambda>h. w_listWorkloads api h KindKaiwoJob) (WListWorkloads KindKaiwoJob)) (\<lambda>jobs.
     bindE (any_demand api cx config clusterQueue gpuVendor jobs) (\<lambda>b.
       if b then ret (Inr True)
       else bindE (try_call (\<lambda>h. w_listWorkloads api h KindKaiwoService) (WListWorkloads KindKaiwoService)) (\<lambda>services.
              any_demand api cx config clusterQueue gpuVendor services)))"

definition ShouldPreempt :: "WlApi \<Rightarrow> WlCtx \<Rightarrow> KaiwoConfigSpec \<Rightarrow> KaiwoWorkload \<Rightarrow> bool wl_prog" where
  "ShouldPreempt api cx config w =
     (case (cms_duration (kw_spec w), css_startTime (kw_status w)) of
        (Some duration, Some startTime) \<Rightarrow>
          if status_of w \<noteq> WorkloadStatusRunning then ret (Inr False)
          else bindE (W_Now api) (\<lambda>now.
                 if now > startTime + duration
                 then ClusterHasGpuDemand api cx (GetClusterQueueName config (kw_spec w)) (cms_gpuVendor (kw_spec w)) config
                 else ret (Inr False))
      | _ \<Rightarrow> ret (Inr False))"

section \<open>Status of the workload\<close>

definition WorkloadAdmittedType :: string where "WorkloadAdmittedType = ''Admitted''"
definition WorkloadEarlyTerminationConditionType :: string where
  "WorkloadEarlyTerminationConditionType = ''WorkloadTerminatedEarly''"

definition workload_ObserveStatus ::
    "WlApi \<Rightarrow> WlCtx \<Rightarrow> KaiwoConfigSpec \<Rightarrow> KaiwoWorkload \<Rightarrow> WorkloadImpl \<Rightarrow> WorkloadStatus \<Rightarrow>
     (WorkloadStatus \<times> Condition list) wl_prog" where
  "workload_ObserveStatus api cx config w impl previousWorkloadStatus =
     bindE (IsAdmitted api cx w impl) (\<lambda>isAdmitted.
     bindE (ObserveOverallStatus api cx w [WorkloadRes impl] previousWorkloadStatus) (\<lambda>(workloadStatus, workloadConditions).
       if isAdmitted then
         let workloadStatus = (if workloadStatus = WorkloadStatusNew then WorkloadStatusStarting else workloadStatus);
             conditions = new_condition WorkloadAdmittedType CondTrue ''Admitted'' ''Workload is admitted'' # workloadConditions
         in if cms_duration (kw_spec w) = None then ret (Inr (workloadStatus, conditions))
            else bindE (GetPreemptableCondition api w) (\<lambda>preemptCondition. case preemptCondition of
              None \<Rightarrow> ret (Inr (workloadStatus, conditions))
            | Some c \<Rightarrow>
                bindE (ShouldPreempt api cx config w) (\<lambda>shouldPreempt.
                  if shouldPreempt then
                    ret (Inr (WorkloadStatusTerminating, conditions @ [c,
                      new_condition WorkloadEarlyTerminationConditionType CondFalse
                        (preempt_reason_string PreemptReasonDurationExceededWithActiveGpuDemand)
                        ''Terminated since duration was exceeded and there is active GPU demand'']))
                  else ret (Inr (workloadStatus, conditions @ [c]))))
       else
         ret (Inr (WorkloadStatusPending, [new_condition WorkloadAdmittedType CondFalse ''Pending''
           (''Workload is pending admission into '' @ [CHR 0x27] @ GetClusterQueueName config (kw_spec w) @ [CHR 0x27])]))))"

section \<open>What an observation does\<close>

text \<open>Observing only reads.\<close>

named_theorems observe_reads \<open>that the parts of an observation only read\<close>

lemma GetKueueWorkload_reads [observe_reads]: "emits reads (GetKueueWorkload api ns uid)"
  unfolding GetKueueWorkload_def by (intro emits_intros) simp_all

lemma kueue_of_reads [observe_reads]: "emits reads (kueue_of api ns uid)" "emits reads (kueue_of_pods api pods)"
  unfolding kueue_of_def
  by (intro emits_intros observe_reads)
     (induction pods rule: kueue_of_pods.induct, auto intro!: emits_intros observe_reads)

lemma IsAdmitted_reads [observe_reads]: "emits reads (IsAdmitted api cx w impl)"
  unfolding IsAdmitted_def GetKueueWorkloads_def batchjob_GetKueueWorkloads_def rayjob_GetKueueWorkloads_def
    deployment_GetKueueWorkloads_def rayservice_GetKueueWorkloads_def Let_def
  by (cases impl) (auto intro!: emits_intros observe_reads)

lemma GetClusterContext_reads [observe_reads]: "emits reads (GetClusterContext api w)"
  unfolding GetClusterContext_def by (intro emits_intros) simp_all

lemma observe_resource_reads [observe_reads]: "emits reads (observe_resource api cx w prev r)"
  by (cases r rule: observe_resource.cases [of "(api, cx, w, prev, r)" for r])
     (auto simp: observe_RayService_def intro!: emits_intros)

lemma observe_loop_reads [observe_reads]: "emits reads (observe_loop api cx w prev rs statuses conditions)"
  by (induction rs arbitrary: statuses conditions) (auto intro!: emits_intros observe_reads)

lemma preemption_reads [observe_reads]:
  "emits reads (GetRemainingTimeBeforeBecomingPreemptable api w)" "emits reads (GetPreemptableCondition api w)"
  "emits reads (isPendingForLong api cx config w)"
  unfolding GetPreemptableCondition_def GetRemainingTimeBeforeBecomingPreemptable_def isPendingForLong_def
  by (auto intro!: emits_intros split: option.splits)

lemma any_demand_reads [observe_reads]: "emits reads (any_demand api cx config queue vendor ws)"
  by (induction ws) (auto intro!: emits_intros observe_reads)

lemma ShouldPreempt_reads [observe_reads]: "emits reads (ShouldPreempt api cx config w)"
  unfolding ShouldPreempt_def ClusterHasGpuDemand_def
  by (auto intro!: emits_intros observe_reads split: option.splits)

lemma workload_ObserveStatus_reads [observe_reads]: "emits reads (workload_ObserveStatus api cx config w impl prev)"
  unfolding workload_ObserveStatus_def ObserveOverallStatus_def Let_def
  by (intro emits_intros observe_reads; simp)

text \<open>The conditions that the resources report, and when the download job counts as complete.\<close>

definition resource_types :: "string set" where
  "resource_types = {PvcReadyConditionType, DownloadJobSucceededConditionType}"

definition download_seen_complete :: "ObjectKey \<Rightarrow> WorkloadStatus \<Rightarrow> wl_event list \<Rightarrow> bool" where
  "download_seen_complete key prev new \<longleftrightarrow>
     (\<exists>job. WGetJob (download_key key) (Inr job) \<in> set new \<and> ObserveBatchJob (jo_status job) prev = WorkloadStatusComplete)"

lemma download_seen_complete_mono:
  "download_seen_complete key prev n \<Longrightarrow> set n \<subseteq> set m \<Longrightarrow> download_seen_complete key prev m"
  unfolding download_seen_complete_def by blast

lemma pvc_ObserveStatus_facts:
  "pvc_ObserveStatus phase = (s, cs) \<Longrightarrow>
   cond_types cs \<subseteq> resource_types \<and> s \<in> {Some WorkloadStatusComplete, Some WorkloadStatusPending, Some WorkloadStatusFailed}"
  by (auto simp: pvc_ObserveStatus_def Let_def resource_types_def new_condition_def split: prod.splits ClaimPhase.splits)

lemma downloadjob_ObserveStatus_facts:
  "downloadjob_ObserveStatus job prev = Some (s, cs) \<Longrightarrow>
   cond_types cs \<subseteq> resource_types \<and> s \<noteq> WorkloadStatusTerminating \<and>
   (s = WorkloadStatusComplete \<longrightarrow> ObserveBatchJob job prev = WorkloadStatusComplete)"
  by (auto simp: downloadjob_ObserveStatus_def Let_def resource_types_def new_condition_def
      split: WorkloadStatus.splits)

lemma job_condition_not_terminating: "job_condition cs \<noteq> Some WorkloadStatusTerminating"
  by (induction cs rule: job_condition.induct) auto

lemma ObserveBatchJob_not_terminating: "ObserveBatchJob job prev \<noteq> WorkloadStatusTerminating"
  using job_condition_not_terminating [of "js_conditions job"]
  by (auto simp: ObserveBatchJob_def split: option.splits if_splits)

lemma handler_statuses_not_terminating:
  "rayjob_ObserveStatus s \<noteq> Some WorkloadStatusTerminating" "deployment_ObserveStatus p d \<noteq> WorkloadStatusTerminating"
  "rayservice_ObserveStatus r \<noteq> WorkloadStatusTerminating"
  by (auto simp: rayjob_ObserveStatus_def deployment_ObserveStatus_def rayservice_ObserveStatus_def
      split: RayJobStatus.splits option.splits)

text \<open>What one observed resource reports.\<close>

definition resource_report ::
    "WorkloadStatus \<Rightarrow> ResourceReconciler \<Rightarrow> WorkloadStatus option \<Rightarrow> Condition list \<Rightarrow> wl_event list \<Rightarrow> bool" where
  "resource_report prev r s cs new \<longleftrightarrow> cond_types cs \<subseteq> resource_types \<and> s \<noteq> Some WorkloadStatusTerminating \<and>
     (\<forall>key st env. r = StorageRes (DownloadJobRec key st env) \<longrightarrow>
        s \<noteq> None \<and> (s = Some WorkloadStatusComplete \<longrightarrow> download_seen_complete key prev new))"

lemma observe_resource_reports:
  "does (\<lambda>got new. \<forall>s cs. got = Inr (Inr (s, cs)) \<longrightarrow> resource_report prev r s cs new) (observe_resource api cx w prev r)"
proof (cases r rule: observe_resource.cases [of "(api, cx, w, prev, r)" for r])
  case (1 r')
  then show ?thesis
    by (simp, intro does_intros) (auto simp: resource_report_def dest!: pvc_ObserveStatus_facts split: sum.splits)
next
  case (2 key st)
  then show ?thesis
    by (simp, intro does_intros) (auto simp: resource_report_def split: option.splits)
next
  case (3 key st env)
  then show ?thesis
    by (simp, intro does_intros)
       (auto simp: resource_report_def download_seen_complete_def dest!: downloadjob_ObserveStatus_facts
          split: sum.splits option.splits)
next
  case (4 spec)
  then show ?thesis
    by (simp, intro does_intros)
       (auto simp: resource_report_def batchjob_ObserveStatus_def ObserveBatchJob_not_terminating split: sum.splits)
next
  case (5 spec)
  then show ?thesis
    by (simp, intro does_intros)
       (auto simp: resource_report_def handler_statuses_not_terminating split: sum.splits option.splits)
next
  case (6 spec)
  then show ?thesis
    by (simp, intro does_intros) (auto simp: resource_report_def handler_statuses_not_terminating split: sum.splits)
next
  case (7 spec)
  then show ?thesis
    by (simp add: observe_RayService_def, intro does_intros)
       (auto simp: resource_report_def handler_statuses_not_terminating split: sum.splits)
qed

text \<open>
  The overall status is the last one reported; so when the download job comes last, a complete overall
  status means that it was seen complete.
\<close>

definition overall_report ::
    "WorkloadStatus \<Rightarrow> ResourceReconciler list \<Rightarrow> Condition list \<Rightarrow> (WorkloadStatus \<times> Condition list) \<Rightarrow> wl_event list \<Rightarrow> bool" where
  "overall_report prev rs conditions result new \<longleftrightarrow>
     cond_types (snd result) \<subseteq> cond_types conditions \<union> resource_types \<and> fst result \<noteq> WorkloadStatusTerminating \<and>
     (\<forall>key st env. rs \<noteq> [] \<and> last rs = StorageRes (DownloadJobRec key st env) \<and> fst result = WorkloadStatusComplete \<longrightarrow>
        download_seen_complete key prev new)"

lemma observe_loop_reports:
  assumes "WorkloadStatusTerminating \<notin> set statuses"
  shows "does (\<lambda>got new. \<forall>result. got = Inr result \<longrightarrow> overall_report prev rs conditions result new)
           (observe_loop api cx w prev rs statuses conditions)"
  using assms
proof (induction rs arbitrary: statuses conditions)
  case Nil
  then show ?case
    by (auto intro!: does_return simp: overall_report_def DetermineOverallStatus_is_last dest: last_in_set)
next
  case (Cons r rs)
  have step: "does (\<lambda>got new. \<forall>result. got = Inr result \<longrightarrow> overall_report prev (r # rs) conditions result (n1 @ new))
      (observe_loop api cx w prev rs (case s of None \<Rightarrow> statuses | Some s \<Rightarrow> statuses @ [s]) (conditions @ cs))"
    if report: "resource_report prev r s cs n1" for s cs n1
  proof -
    let ?statuses = "case s of None \<Rightarrow> statuses | Some s \<Rightarrow> statuses @ [s]"
    have ok: "WorkloadStatusTerminating \<notin> set ?statuses"
      using report Cons.prems by (auto simp: resource_report_def split: option.splits)
    show ?thesis
    proof (cases "rs = []")
      case True
      show ?thesis unfolding True
        by (simp only: observe_loop.simps, rule does_return)
           (use report ok in \<open>auto simp: overall_report_def resource_report_def DetermineOverallStatus_is_last
              split: option.splits if_splits dest: last_in_set\<close>)
    next
      case False
      show ?thesis
      proof (rule does_mono [OF Cons.IH [OF ok]], intro allI impI)
        fix got new result
        assume IH: "\<forall>result. got = Inr result \<longrightarrow> overall_report prev rs (conditions @ cs) result new" and got: "got = Inr result"
        then have "overall_report prev rs (conditions @ cs) result new" by blast
        moreover have "cond_types cs \<subseteq> resource_types" using report by (simp add: resource_report_def)
        ultimately show "overall_report prev (r # rs) conditions result (n1 @ new)"
          unfolding overall_report_def using False download_seen_complete_mono [of _ prev new "n1 @ new"]
          by (simp add: subset_iff) blast
      qed
    qed
  qed
  show ?case
  proof (simp only: observe_loop.simps, rule does_seq [OF observe_resource_reports], goal_cases)
    case (1 got n1)
    show ?case
    proof (cases got)
      case (Inl e)
      then show ?thesis by (auto intro: does_return simp: overall_report_def)
    next
      case (Inr observation)
      with 1 step show ?thesis by (cases observation) (auto simp del: split_paired_All intro: does_return split del: option.splits)
    qed
  qed
qed

text \<open>The demand for GPUs that makes a workload be preempted was read from the server.\<close>

definition waiting_workload :: "WlCtx \<Rightarrow> KaiwoConfigSpec \<Rightarrow> KaiwoWorkload \<Rightarrow> KaiwoWorkload \<Rightarrow> int \<Rightarrow> bool" where
  "waiting_workload cx config w p now \<longleftrightarrow>
     demands config (GetClusterQueueName config (kw_spec w)) (cms_gpuVendor (kw_spec w)) p \<and>
     (\<exists>t. wx_parseDuration cx (sch_pendingThresholdForPreemption (kcs_scheduling config)) = Some t \<and>
          now - kw_creationTimestamp p > t)"

lemma isPendingForLong_evidence:
  "does (\<lambda>got new. \<exists>now. new = [WNow now] \<and> got = Inr
      (\<exists>t. wx_parseDuration cx (sch_pendingThresholdForPreemption (kcs_scheduling config)) = Some t \<and> now - kw_creationTimestamp p > t))
     (isPendingForLong api cx config p)"
  unfolding isPendingForLong_def by (intro does_bindE does_W_Now) (auto intro!: does_return split: option.splits)

definition saw_waiting :: "WlCtx \<Rightarrow> KaiwoConfigSpec \<Rightarrow> KaiwoWorkload \<Rightarrow> KaiwoWorkload list \<Rightarrow> wl_event list \<Rightarrow> bool" where
  "saw_waiting cx config w ws new \<longleftrightarrow> (\<exists>p now. p \<in> set ws \<and> WNow now \<in> set new \<and> waiting_workload cx config w p now)"

lemma saw_waiting_mono:
  "saw_waiting cx config w ws new \<Longrightarrow> set ws \<subseteq> set ws' \<Longrightarrow> set new \<subseteq> set new' \<Longrightarrow> saw_waiting cx config w ws' new'"
  unfolding saw_waiting_def by blast

lemma any_demand_evidence:
  "does (\<lambda>got new. got = Inr True \<longrightarrow> saw_waiting cx config w ws new)
     (any_demand api cx config (GetClusterQueueName config (kw_spec w)) (cms_gpuVendor (kw_spec w)) ws)"
proof (induction ws)
  case Nil
  show ?case by (simp add: does_return)
next
  case (Cons p ws)
  have rest: "does (\<lambda>got new. got = Inr True \<longrightarrow> saw_waiting cx config w (p # ws) (n1 @ new))
     (any_demand api cx config (GetClusterQueueName config (kw_spec w)) (cms_gpuVendor (kw_spec w)) ws)" for n1
    by (rule does_mono [OF Cons]) (auto elim!: saw_waiting_mono)
  show ?case
  proof (cases "demands config (GetClusterQueueName config (kw_spec w)) (cms_gpuVendor (kw_spec w)) p")
    case True
    then have found: "saw_waiting cx config w (p # ws) [WNow now]"
      if "\<exists>t. wx_parseDuration cx (sch_pendingThresholdForPreemption (kcs_scheduling config)) = Some t \<and> now - kw_creationTimestamp p > t" for now
      using that unfolding saw_waiting_def waiting_workload_def by auto
    show ?thesis
      unfolding any_demand.simps if_P [OF True]
    proof (rule does_seqE [OF isPendingForLong_evidence], goal_cases)
      case (1 e n)
      then show ?case by simp
    next
      case (2 b n1)
      then show ?case using found rest by (cases b) (auto intro: does_return)
    qed
  next
    case False
    show ?thesis unfolding any_demand.simps if_not_P [OF False] using rest [of "[]"] by simp
  qed
qed

definition saw_demand :: "WlCtx \<Rightarrow> KaiwoConfigSpec \<Rightarrow> KaiwoWorkload \<Rightarrow> wl_event list \<Rightarrow> bool" where
  "saw_demand cx config w new \<longleftrightarrow> (\<exists>kind ws. WListWorkloads kind (Inr ws) \<in> set new \<and> saw_waiting cx config w ws new)"

lemma saw_demand_mono: "saw_demand cx config w new \<Longrightarrow> set new \<subseteq> set new' \<Longrightarrow> saw_demand cx config w new'"
  unfolding saw_demand_def by (meson saw_waiting_mono subset_iff subset_refl)

lemma ClusterHasGpuDemand_evidence:
  "does (\<lambda>got new. got = Inr True \<longrightarrow> saw_demand cx config w new)
     (ClusterHasGpuDemand api cx (GetClusterQueueName config (kw_spec w)) (cms_gpuVendor (kw_spec w)) config)"
proof -
  let ?any = "any_demand api cx config (GetClusterQueueName config (kw_spec w)) (cms_gpuVendor (kw_spec w))"
  have any: "does (\<lambda>got new. got = Inr True \<longrightarrow> saw_demand cx config w (n @ [WListWorkloads kind (Inr ws)] @ new)) (?any ws)" for n kind ws
    by (rule does_mono [OF any_demand_evidence]) (force simp: saw_demand_def elim: saw_waiting_mono)
  have services: "does (\<lambda>got new. got = Inr True \<longrightarrow> saw_demand cx config w (n @ new))
      (bindE (try_call (\<lambda>h. w_listWorkloads api h kind) (WListWorkloads kind)) ?any)" for n kind
    by (intro does_bindE does_try_call) (use any in simp_all)
  have jobs: "does (\<lambda>got new. got = Inr True \<longrightarrow> saw_demand cx config w ([WListWorkloads KindKaiwoJob (Inr jobs)] @ new))
      (bindE (?any jobs) (\<lambda>b. if b then ret (Inr True)
         else bindE (try_call (\<lambda>h. w_listWorkloads api h KindKaiwoService) (WListWorkloads KindKaiwoService)) ?any))" for jobs
  proof (rule does_seqE [OF any [of "[]" KindKaiwoJob jobs]], goal_cases)
    case (1 e n)
    then show ?case by simp
  next
    case (2 b n1)
    then show ?case using services [of "[WListWorkloads KindKaiwoJob (Inr jobs)] @ n1"]
      by (cases b) (auto intro: does_return)
  qed
  show ?thesis
    unfolding ClusterHasGpuDemand_def by (intro does_bindE does_try_call) (use jobs in simp_all)
qed

definition preemption_evidence :: "WlCtx \<Rightarrow> KaiwoConfigSpec \<Rightarrow> KaiwoWorkload \<Rightarrow> wl_event list \<Rightarrow> bool" where
  "preemption_evidence cx config w new \<longleftrightarrow> status_of w = WorkloadStatusRunning \<and>
     (\<exists>duration startTime now. cms_duration (kw_spec w) = Some duration \<and> css_startTime (kw_status w) = Some startTime \<and>
        WNow now \<in> set new \<and> now > startTime + duration) \<and>
     saw_demand cx config w new"

lemma preemption_evidence_mono: "preemption_evidence cx config w n \<Longrightarrow> set n \<subseteq> set m \<Longrightarrow> preemption_evidence cx config w m"
  unfolding preemption_evidence_def by (meson saw_demand_mono subset_iff)

lemma GetPreemptableCondition_result:
  "does (\<lambda>got new. \<exists>c. got = Inr c \<and> (\<forall>c'. c = Some c' \<longrightarrow> c_type c' = PreemptableConditionType)) (GetPreemptableCondition api w)"
  unfolding GetPreemptableCondition_def GetRemainingTimeBeforeBecomingPreemptable_def
  by (auto intro!: does_bindE does_return does_W_Now simp: new_condition_def split: option.splits)

lemma ShouldPreempt_evidence:
  "does (\<lambda>got new. got = Inr True \<longrightarrow> preemption_evidence cx config w new) (ShouldPreempt api cx config w)"
proof (cases "status_of w = WorkloadStatusRunning \<and> cms_duration (kw_spec w) \<noteq> None \<and> css_startTime (kw_status w) \<noteq> None")
  case False
  then show ?thesis
    unfolding ShouldPreempt_def by (auto intro!: does_return split: option.splits)
next
  case True
  then obtain duration startTime where d: "cms_duration (kw_spec w) = Some duration" "css_startTime (kw_status w) = Some startTime"
    and running: "status_of w = WorkloadStatusRunning" by blast
  have "does (\<lambda>got new. got = Inr True \<longrightarrow> preemption_evidence cx config w ([WNow now] @ new))
      (ClusterHasGpuDemand api cx (GetClusterQueueName config (kw_spec w)) (cms_gpuVendor (kw_spec w)) config)"
    if "now > startTime + duration" for now
    by (rule does_mono [OF ClusterHasGpuDemand_evidence])
       (use that d running in \<open>auto simp: preemption_evidence_def elim: saw_demand_mono\<close>)
  then show ?thesis
    unfolding ShouldPreempt_def d using running
    by (auto intro!: does_bindE does_W_Now does_return)
qed

definition workload_types :: "string set" where
  "workload_types = {WorkloadAdmittedType, PreemptableConditionType, WorkloadEarlyTerminationConditionType}"

text \<open>What the observation of a workload returns: which conditions, and \<open>TERMINATING\<close> only with evidence.\<close>

lemma workload_ObserveStatus_reports:
  "does (\<lambda>got new. \<forall>s cs. got = Inr (s, cs) \<longrightarrow> cond_types cs \<subseteq> resource_types \<union> workload_types \<and>
       (s = WorkloadStatusTerminating \<longrightarrow> preemption_evidence cx config w new))
     (workload_ObserveStatus api cx config w impl prev)"
proof -
  let ?Q = "\<lambda>n got new. \<forall>s cs. got = Inr (s, cs) \<longrightarrow> cond_types cs \<subseteq> resource_types \<union> workload_types \<and>
       (s = WorkloadStatusTerminating \<longrightarrow> preemption_evidence cx config w (n @ new))"
  have preempt: "does (?Q n) (bindE (ShouldPreempt api cx config w) (\<lambda>shouldPreempt.
      if shouldPreempt then ret (Inr (WorkloadStatusTerminating, conditions @ [c,
          new_condition WorkloadEarlyTerminationConditionType CondFalse r m]))
      else ret (Inr (s, conditions @ [c]))))"
    if "cond_types conditions \<subseteq> resource_types \<union> workload_types" "c_type c = PreemptableConditionType"
      "s \<noteq> WorkloadStatusTerminating" for n conditions c r m s
    by (rule does_seqE [OF ShouldPreempt_evidence])
       (use that in \<open>auto intro!: does_if does_return elim: preemption_evidence_mono simp: workload_types_def new_condition_def\<close>)
  have admitted: "does (?Q n) (if cms_duration (kw_spec w) = None then ret (Inr (s, conditions))
      else bindE (GetPreemptableCondition api w) (\<lambda>preemptCondition. case preemptCondition of
              None \<Rightarrow> ret (Inr (s, conditions))
            | Some c \<Rightarrow> bindE (ShouldPreempt api cx config w) (\<lambda>shouldPreempt.
                if shouldPreempt then ret (Inr (WorkloadStatusTerminating, conditions @ [c,
                    new_condition WorkloadEarlyTerminationConditionType CondFalse r m]))
                else ret (Inr (s, conditions @ [c])))))"
    if "cond_types conditions \<subseteq> resource_types \<union> workload_types" "s \<noteq> WorkloadStatusTerminating" for n conditions r m s
  proof (intro does_if)
    show "does (?Q n) (ret (Inr (s, conditions)))" using that by (auto intro: does_return)
    show "does (?Q n) (bindE (GetPreemptableCondition api w) (\<lambda>preemptCondition. case preemptCondition of
              None \<Rightarrow> ret (Inr (s, conditions))
            | Some c \<Rightarrow> bindE (ShouldPreempt api cx config w) (\<lambda>shouldPreempt.
                if shouldPreempt then ret (Inr (WorkloadStatusTerminating, conditions @ [c,
                    new_condition WorkloadEarlyTerminationConditionType CondFalse r m]))
                else ret (Inr (s, conditions @ [c])))))"
    proof (rule does_seqE [OF GetPreemptableCondition_result], goal_cases)
      case (1 e n1) then show ?case by simp
    next
      case (2 c n1)
      then show ?case
        using that preempt [OF that(1) _ that(2), of _ "n @ n1"]
        by (cases c) (auto intro: does_return)
    qed
  qed
  show ?thesis
    unfolding workload_ObserveStatus_def ObserveOverallStatus_def Let_def
  proof (rule does_seqE [OF does_emits [OF IsAdmitted_reads]], goal_cases)
    case (1 e n) then show ?case by simp
  next
    case (2 isAdmitted n1)
    show ?case
    proof (rule does_seqE [OF observe_loop_reports], goal_cases)
      case 1 show ?case by simp
    next
      case (2 e n) then show ?case by simp
    next
      case (3 result n2)
      obtain s cs where result: "result = (s, cs)" by fastforce
      let ?conditions = "new_condition WorkloadAdmittedType CondTrue ''Admitted'' ''Workload is admitted'' # cs"
      from 3 have ok: "cond_types ?conditions \<subseteq> resource_types \<union> workload_types" and s: "s \<noteq> WorkloadStatusTerminating"
        by (auto simp: overall_report_def workload_types_def new_condition_def result)
      show ?case
        using admitted [OF ok, of "if s = WorkloadStatusNew then WorkloadStatusStarting else s" "n1 @ n2"] s
        by (auto simp: result workload_types_def new_condition_def intro!: does_return)
    qed
  qed
qed

end
