(* ===== verification/WorkloadActions.thy ===== *)
theory WorkloadActions
  imports WorkloadObserve
begin

text \<open>
  What the reconciliation of a workload does to the cluster: the termination of a workload
  (\<^verbatim>\<open>termination.go\<close> of \<^verbatim>\<open>pkg/workloads/common\<close>), the clean-up of expired workloads (\<^verbatim>\<open>preempting.go\<close>), early
  termination after low utilization (\<^verbatim>\<open>utilization.go\<close>), the local queue (\<^verbatim>\<open>localqueue.go\<close>) and the resources
  of a workload (second half of \<^verbatim>\<open>reconciler.go\<close>).
\<close>

section \<open>Conditions of a status\<close>

text \<open>
  \<open>ConditionsEqual\<close> sorts its two arguments in place, so it returns them too. \<^verbatim>\<open>sort.Slice\<close> is the stable
  insertion sort for fewer than twelve elements.
\<close>

definition strip_condition :: "Condition \<Rightarrow> Condition" where
  "strip_condition c = c\<lparr>c_lastTransitionTime := 0, c_observedGeneration := 0\<rparr>"

definition ConditionsEqual :: "Condition list \<Rightarrow> Condition list \<Rightarrow> bool \<times> Condition list \<times> Condition list" where
  "ConditionsEqual a b =
     (let a = sort_key c_type a; b = sort_key c_type b
      in (map strip_condition a = map strip_condition b, a, b))"

abbreviation with_conditions :: "KaiwoWorkload \<Rightarrow> Condition list \<Rightarrow> KaiwoWorkload" where
  "with_conditions w cs \<equiv> w\<lparr>kw_status := (kw_status w)\<lparr>css_conditions := cs\<rparr>\<rparr>"

abbreviation with_status :: "KaiwoWorkload \<Rightarrow> WorkloadStatus \<Rightarrow> KaiwoWorkload" where
  "with_status w s \<equiv> w\<lparr>kw_status := (kw_status w)\<lparr>css_status := s\<rparr>\<rparr>"

definition isActiveStatus :: "WorkloadStatus \<Rightarrow> bool" where
  "isActiveStatus status \<longleftrightarrow> status \<in> {WorkloadStatusNew, WorkloadStatusDownloading, WorkloadStatusPending,
     WorkloadStatusStarting, WorkloadStatusRunning}"

definition isTerminalStatus :: "WorkloadStatus \<Rightarrow> bool" where
  "isTerminalStatus status \<longleftrightarrow> status \<in> {WorkloadStatusComplete, WorkloadStatusTerminated, WorkloadStatusFailed}"

section \<open>Termination\<close>

definition owned_kinds :: "owned_kind list" where
  "owned_kinds = [OwnedDeployment, OwnedRayService, OwnedAppWrapper, OwnedJob, OwnedRayJob, OwnedPvc]"

definition controlled_by :: "string \<Rightarrow> OwnerReference \<Rightarrow> bool" where
  "controlled_by uid owner \<longleftrightarrow> o_uid owner = uid \<and> o_controller owner = Some True"

text \<open>One deletion per matching owner reference; the result says whether anything was deleted.\<close>

fun delete_times :: "WlApi \<Rightarrow> owned_kind \<Rightarrow> OwnedObject \<Rightarrow> OwnerReference list \<Rightarrow> unit wl_prog" where
  "delete_times api kind obj [] = ret (Inr ())"
| "delete_times api kind obj (owner # owners) =
     bindE (try_unit (\<lambda>h. w_deleteOwned api h kind obj) (WDeleteOwned kind obj)) (\<lambda>_. delete_times api kind obj owners)"

fun delete_items :: "WlApi \<Rightarrow> string \<Rightarrow> owned_kind \<Rightarrow> OwnedObject list \<Rightarrow> bool \<Rightarrow> bool wl_prog" where
  "delete_items api uid kind [] deletedAny = ret (Inr deletedAny)"
| "delete_items api uid kind (obj # items) deletedAny =
     (let owners = filter (controlled_by uid) (oo_ownerReferences obj)
      in bindE (delete_times api kind obj owners) (\<lambda>_. delete_items api uid kind items (deletedAny \<or> owners \<noteq> [])))"

fun delete_kinds :: "WlApi \<Rightarrow> string \<Rightarrow> string \<Rightarrow> owned_kind list \<Rightarrow> bool \<Rightarrow> bool wl_prog" where
  "delete_kinds api uid ns [] deletedAny = ret (Inr deletedAny)"
| "delete_kinds api uid ns (kind # kinds) deletedAny =
     bindE (try_call (\<lambda>h. w_listOwned api h kind ns) (WListOwned kind ns)) (\<lambda>items.
     bindE (delete_items api uid kind items deletedAny) (\<lambda>deletedAny. delete_kinds api uid ns kinds deletedAny))"

definition DeleteUnderlyingResources :: "WlApi \<Rightarrow> string \<Rightarrow> string \<Rightarrow> string \<Rightarrow> unit wl_prog" where
  "DeleteUnderlyingResources api uid name namespace =
     bindE (delete_kinds api uid namespace owned_kinds False) (\<lambda>deletedAny.
       ret (if deletedAny then Inr ()
            else Inl (Failed (OtherError (''no owned resources found to delete for '' @ name)))))"

text \<open>
  When the condition exists, the pointer to it is into the slice, and its status is set in place before
  \<open>SetStatusCondition\<close> sees it.
\<close>

definition terminated_condition :: "WlCtx \<Rightarrow> Condition list \<Rightarrow> Condition \<times> Condition list" where
  "terminated_condition cx cs = (case mt_find cx cs WorkloadEarlyTerminationConditionType of
     None \<Rightarrow> (new_condition WorkloadEarlyTerminationConditionType CondTrue ''EarlyTermination''
               ''Workload terminated early (check events and other conditions for likely causes)'', cs)
   | Some i \<Rightarrow> (let c = (cs ! i)\<lparr>c_status := CondTrue\<rparr> in (c, cs[i := c])))"

definition TerminateWorkload :: "WlApi \<Rightarrow> WlCtx \<Rightarrow> KaiwoWorkload \<Rightarrow> unit wl_prog" where
  "TerminateWorkload api cx w =
     (let w = with_status w WorkloadStatusTerminated;
          (condition, cs) = terminated_condition cx (conditions_of w)
      in bindE (SetStatusCondition api cx cs condition) (\<lambda>cs.
         bindE (W_UpdateStatus api (with_conditions w cs)) (\<lambda>obj.
         bindE (DeleteUnderlyingResources api (kw_uid obj) (kw_name obj) (kw_namespace obj)) (\<lambda>_.
         W_Event obj EventTypeWarning (c_reason condition) (c_message condition)))))"

definition SetEarlyTermination :: "WlApi \<Rightarrow> WlCtx \<Rightarrow> KaiwoWorkload \<Rightarrow> string \<Rightarrow> string \<Rightarrow> KaiwoWorkload wl_prog" where
  "SetEarlyTermination api cx w reason message =
     bindE (SetStatusCondition api cx (conditions_of w)
              (new_condition WorkloadEarlyTerminationConditionType CondFalse reason message)) (\<lambda>cs.
       ret (Inr (with_conditions (with_status w WorkloadStatusTerminating) cs)))"

text \<open>Expired workloads are flagged while another workload is pending; a failed write is only logged.\<close>

definition flag_expired :: "WlApi \<Rightarrow> WlCtx \<Rightarrow> KaiwoWorkload \<Rightarrow> bool wl_prog" where
  "flag_expired api cx w =
     (if status_of w = WorkloadStatusRunning \<and> condition_true cx (conditions_of w) PreemptableConditionType
      then bindE (SetEarlyTermination api cx w (preempt_reason_string PreemptReasonDurationExceeded)
                    ''Workload is terminating due to exceeding its duration and active GPU demand'') (\<lambda>w.
             do { r \<leftarrow> W_UpdateStatus api w; ret (Inr (case r of Inl _ \<Rightarrow> False | Inr _ \<Rightarrow> True)) })
      else ret (Inr False))"

fun flag_all_expired :: "WlApi \<Rightarrow> WlCtx \<Rightarrow> KaiwoWorkload list \<Rightarrow> bool \<Rightarrow> bool wl_prog" where
  "flag_all_expired api cx [] workloadsCleaned = ret (Inr workloadsCleaned)"
| "flag_all_expired api cx (w # ws) workloadsCleaned =
     bindE (flag_expired api cx w) (\<lambda>b. flag_all_expired api cx ws (workloadsCleaned \<or> b))"

definition CleanupExpiredWorkloads :: "WlApi \<Rightarrow> WlCtx \<Rightarrow> bool wl_prog" where
  "CleanupExpiredWorkloads api cx =
     bindE (try_call (\<lambda>h. w_listWorkloads api h KindKaiwoJob) (WListWorkloads KindKaiwoJob)) (\<lambda>jobs.
     bindE (try_call (\<lambda>h. w_listWorkloads api h KindKaiwoService) (WListWorkloads KindKaiwoService)) (\<lambda>services.
     flag_all_expired api cx (jobs @ services) False))"

definition ShouldRequeueAfter :: "WlApi \<Rightarrow> WlCtx \<Rightarrow> KaiwoWorkload \<Rightarrow> int option wl_prog" where
  "ShouldRequeueAfter api cx w =
     (case mt_find cx (conditions_of w) PreemptableConditionType of
        None \<Rightarrow> ret (Inr None)
      | Some i \<Rightarrow>
          let condition = conditions_of w ! i
          in if c_status condition = CondFalse \<and> c_observedGeneration condition = kw_generation w
             then GetRemainingTimeBeforeBecomingPreemptable api w
             else ret (Inr None))"

section \<open>Low utilization\<close>

definition KaiwoResourceUtilizationType :: string where "KaiwoResourceUtilizationType = ''ResourceUnderutilization''"

text \<open>The configured duration must parse: otherwise one function reports an error in the log, the other panics.\<close>

definition low_utilization_since :: "WlCtx \<Rightarrow> KaiwoWorkload \<Rightarrow> Condition option" where
  "low_utilization_since cx w =
     (case mt_find cx (conditions_of w) KaiwoResourceUtilizationType of
        None \<Rightarrow> None
      | Some i \<Rightarrow> if c_status (conditions_of w ! i) = CondFalse then None else Some (conditions_of w ! i))"

definition CheckKaiwoWorkloadShouldBeTerminatedForUnderutilization ::
    "WlApi \<Rightarrow> WlCtx \<Rightarrow> KaiwoConfigSpec \<Rightarrow> KaiwoWorkload \<Rightarrow> (bool \<times> string) wl_prog" where
  "CheckKaiwoWorkloadShouldBeTerminatedForUnderutilization api cx config w =
     (if \<not> rm_terminateUnderutilized (kcs_resourceMonitoring config) then ret (Inr (False, []))
      else (case low_utilization_since cx w of
              None \<Rightarrow> ret (Inr (False, []))
            | Some condition \<Rightarrow>
                (case wx_parseDuration cx (rm_terminateUnderutilizedAfter (kcs_resourceMonitoring config)) of
                   None \<Rightarrow> ret (Inr (False, []))
                 | Some terminateAfter \<Rightarrow> bindE (W_Now api) (\<lambda>now.
                     ret (Inr (if now - c_lastTransitionTime condition > terminateAfter
                               then (True, c_reason condition) else (False, [])))))))"

definition SetEarlyTerminationIfLowUtilizationThresholdExceeded ::
    "WlApi \<Rightarrow> WlCtx \<Rightarrow> KaiwoConfigSpec \<Rightarrow> KaiwoWorkload \<Rightarrow> (bool \<times> KaiwoWorkload) wl_prog" where
  "SetEarlyTerminationIfLowUtilizationThresholdExceeded api cx config w =
     (case low_utilization_since cx w of
        None \<Rightarrow> ret (Inr (False, w))
      | Some condition \<Rightarrow>
          bindE (or_panic (wx_parseDuration cx (rm_terminateUnderutilizedAfter (kcs_resourceMonitoring config)))) (\<lambda>terminateAfter.
          bindE (W_Now api) (\<lambda>now.
            if now - c_lastTransitionTime condition > terminateAfter
            then bindE (SetEarlyTermination api cx w (c_reason condition) ''Terminating workload due to underutilized GPU resources'')
                   (\<lambda>w. ret (Inr (True, w)))
            else ret (Inr (False, w)))))"

section \<open>Ensuring resources\<close>

text \<open>
  \<open>EnsureLocalQueue\<close> compares the namespaces of the queue with the name of the queue (the parameter
  \<open>namespace\<close> is not used there).
\<close>

definition ensure_in_queue :: "WlApi \<Rightarrow> WlCtx \<Rightarrow> string \<Rightarrow> string \<Rightarrow> string \<Rightarrow> ClusterQueue \<Rightarrow> unit wl_prog" where
  "ensure_in_queue api cx clusterQueueName name namespace clusterQueueConfig =
     (if cq_namespaces clusterQueueConfig = [] then
        bindE (try_unit (\<lambda>h. w_getClusterQueue api h clusterQueueName) (WGetClusterQueue clusterQueueName)) (\<lambda>_.
          let localQueue = \<lparr>lq_name = name, lq_namespace = namespace, lq_clusterQueue = clusterQueueName\<rparr>
          in (case wx_setOwnerReference cx clusterQueueName localQueue of
                Some e \<Rightarrow> ret (Inl (Failed e))
              | None \<Rightarrow> try_unit (\<lambda>h. w_createLocalQueue api h localQueue) (WCreateLocalQueue localQueue)))
      else if list_ex (\<lambda>ns. ns = clusterQueueName) (cq_namespaces clusterQueueConfig) then ret (Inr ())
      else ret (Inl (Failed (OtherError ''cluster queue defines one or more namespaces''))))"

definition EnsureLocalQueue :: "WlApi \<Rightarrow> WlCtx \<Rightarrow> string \<Rightarrow> string \<Rightarrow> string \<Rightarrow> unit wl_prog" where
  "EnsureLocalQueue api cx clusterQueueName name namespace = (let key = \<lparr>key_name = name, key_namespace = namespace\<rparr> in do {
     r \<leftarrow> call (\<lambda>h. w_getLocalQueue api h key) (WGetLocalQueue key);
     (case r of
        None \<Rightarrow> ret (Inr ())
      | Some e \<Rightarrow>
          if e \<noteq> NotFound then ret (Inl (Failed e))
          else bindE (try_call (w_getQueueConfig api) WGetQueueConfig) (\<lambda>kaiwoQueueConfig.
            (case List.find (\<lambda>q. clusterQueueName = cq_name q) (qcs_clusterQueues (qc_spec kaiwoQueueConfig)) of
               None \<Rightarrow> ret (Inl (Failed (OtherError ''the referenced cluster queue does not exist within the KaiwoQueueConfig object'')))
             | Some clusterQueueConfig \<Rightarrow> ensure_in_queue api cx clusterQueueName name namespace clusterQueueConfig)))
   })"

fun built :: "(build_error + 'a) option \<Rightarrow> 'a wl_prog" where
  "built None = ret (Inl Panicked)"
| "built (Some (Inl EntrypointWithoutContainers)) = ret (Inl (Failed (OtherError ''entrypoint without containers'')))"
| "built (Some (Inr x)) = ret (Inr x)"

fun BuildDesired :: "WlCtx \<Rightarrow> KaiwoConfigSpec \<Rightarrow> ClusterContext \<Rightarrow> KaiwoWorkload \<Rightarrow> ResourceReconciler \<Rightarrow> desired wl_prog" where
  "BuildDesired cx config cc w (StorageRes (PvcRec r)) = ret (Inr (DesiredPvc (pvc_BuildDesired r)))"
| "BuildDesired cx config cc w (StorageRes (DownloadConfigMapRec key st)) =
     bindE (or_error ''failed to marshal yaml'' (configmap_BuildDesired (wx_marshal cx) key st)) (\<lambda>x. ret (Inr (DesiredConfigMap x)))"
| "BuildDesired cx config cc w (StorageRes (DownloadJobRec key st env)) =
     bindE (or_error ''failed to add env vars'' (downloadjob_BuildDesired (wx_quantities cx) (wx_mapOrder cx) key st env))
       (\<lambda>x. ret (Inr (DesiredDownloadJob x)))"
| "BuildDesired cx config cc w (WorkloadRes (BatchJobHandler spec)) =
     bindE (built (batchjob_BuildDesired (wx_quantities cx) config cc w spec)) (\<lambda>x. ret (Inr (DesiredBatchJob x)))"
| "BuildDesired cx config cc w (WorkloadRes (RayJobHandler spec)) =
     bindE (or_panic (rayjob_BuildDesired (wx_quantities cx) config cc w spec)) (\<lambda>x. ret (Inr (DesiredRayJob x)))"
| "BuildDesired cx config cc w (WorkloadRes (DeploymentHandler spec)) =
     bindE (built (deployment_BuildDesired (wx_quantities cx) config cc w spec)) (\<lambda>x. ret (Inr (DesiredDeployment x)))"
| "BuildDesired cx config cc w (WorkloadRes (RayServiceHandler spec)) =
     bindE (or_panic (rayservice_BuildDesired (wx_quantities cx) config cc w spec)) (\<lambda>x. ret (Inr (DesiredAppWrapper x)))"

text \<open>The kind with which the object is stamped appears in the recorded event.\<close>

definition stampGVK :: "WlCtx \<Rightarrow> desired \<Rightarrow> string wl_prog" where
  "stampGVK cx d = ret (case wx_objectKinds cx d of
     Inl e \<Rightarrow> Inl (Failed e)
   | Inr [] \<Rightarrow> Inl (Failed (OtherError ''no GVK registered''))
   | Inr (gvk # _) \<Rightarrow> Inr gvk)"

definition apply_desired :: "WlApi \<Rightarrow> WlCtx \<Rightarrow> KaiwoConfigSpec \<Rightarrow> ClusterContext \<Rightarrow> KaiwoWorkload \<Rightarrow> ResourceReconciler \<Rightarrow> unit wl_prog" where
  "apply_desired api cx config cc w reconciler =
     bindE (BuildDesired cx config cc w reconciler) (\<lambda>desired.
       (case wx_setControllerReference cx w desired of
          Some e \<Rightarrow> ret (Inl (Failed e))
        | None \<Rightarrow>
            bindE (try_call (\<lambda>h. w_createOrPatch api h desired) (WCreateOrPatch desired)) (\<lambda>result.
            bindE (stampGVK cx desired) (\<lambda>gvk.
              (case result of
                 OperationResultCreated \<Rightarrow> W_Event w EventTypeNormal ''ResourceCreated''
                   (''Created '' @ gvk @ '': '' @ key_name (desired_key desired))
               | OperationResultUpdated \<Rightarrow> W_Event w EventTypeNormal ''ResourceUpdated''
                   (''Updated '' @ gvk @ '': '' @ key_name (desired_key desired))
               | OperationResultNone \<Rightarrow> ret (Inr ()))))))"

fun reconcileHandler ::
    "WlApi \<Rightarrow> WlCtx \<Rightarrow> KaiwoConfigSpec \<Rightarrow> ClusterContext \<Rightarrow> KaiwoWorkload \<Rightarrow> ResourceReconciler list \<Rightarrow> unit wl_prog" where
  "reconcileHandler api cx config cc w [] = ret (Inr ())"
| "reconcileHandler api cx config cc w (r # rs) =
     bindE (apply_desired api cx config cc w r) (\<lambda>_. reconcileHandler api cx config cc w rs)"

definition ensureStorageResources ::
    "WlApi \<Rightarrow> WlCtx \<Rightarrow> KaiwoConfigSpec \<Rightarrow> ClusterContext \<Rightarrow> KaiwoWorkload \<Rightarrow> unit wl_prog" where
  "ensureStorageResources api cx config cc w =
     (case NewStorageHandler w of
        None \<Rightarrow> ret (Inr ())
      | Some h \<Rightarrow>
          bindE (or_panic (storage_GetResourceReconcilers (wx_quantities cx) h)) (\<lambda>rs.
            reconcileHandler api cx config cc w (map StorageRes rs)))"

definition ensureWorkloadResources ::
    "WlApi \<Rightarrow> WlCtx \<Rightarrow> KaiwoConfigSpec \<Rightarrow> ClusterContext \<Rightarrow> KaiwoWorkload \<Rightarrow> WorkloadImpl \<Rightarrow> unit wl_prog" where
  "ensureWorkloadResources api cx config cc w impl =
     (let clusterQueueName = GetClusterQueueName config (kw_spec w)
      in bindE (EnsureLocalQueue api cx clusterQueueName clusterQueueName (kw_namespace w)) (\<lambda>_.
         reconcileHandler api cx config cc w [WorkloadRes impl]))"

definition storage_only :: "WlCtx \<Rightarrow> KaiwoWorkload \<Rightarrow> WorkloadStatus \<Rightarrow> Condition list \<Rightarrow> bool" where
  "storage_only cx w observedStatus conditions = (case observedStatus of
     WorkloadStatusNew \<Rightarrow> HasDownloads (cms_storage (kw_spec w)) \<and>
       \<not> condition_true cx conditions DownloadJobSucceededConditionType
   | WorkloadStatusDownloading \<Rightarrow> True
   | _ \<Rightarrow> False)"

definition ensureAllResources ::
    "WlApi \<Rightarrow> WlCtx \<Rightarrow> KaiwoConfigSpec \<Rightarrow> ClusterContext \<Rightarrow> KaiwoWorkload \<Rightarrow> WorkloadImpl \<Rightarrow> WorkloadStatus \<Rightarrow> Condition list \<Rightarrow>
     unit wl_prog" where
  "ensureAllResources api cx config cc w impl observedStatus conditions =
     bindE (ensureStorageResources api cx config cc w) (\<lambda>_.
       if storage_only cx w observedStatus conditions then ret (Inr ())
       else ensureWorkloadResources api cx config cc w impl)"

section \<open>What termination does\<close>

text \<open>An object may be deleted for a workload when a reference to the workload controls it.\<close>

abbreviation owned_by :: "string \<Rightarrow> OwnedObject \<Rightarrow> bool" where
  "owned_by uid obj \<equiv> list_ex (controlled_by uid) (oo_ownerReferences obj)"

definition deletions_ok :: "string \<Rightarrow> string \<Rightarrow> wl_event list \<Rightarrow> bool" where
  "deletions_ok uid ns new \<longleftrightarrow> (\<forall>e \<in> set new. (\<exists>kind r. e = WListOwned kind ns r) \<or>
     (\<exists>kind obj r items. e = WDeleteOwned kind obj r \<and> owned_by uid obj \<and> WListOwned kind ns (Inr items) \<in> set new \<and> obj \<in> set items))"

lemma delete_times_events: "emits (\<lambda>e. \<exists>r. e = WDeleteOwned kind obj r) (delete_times api kind obj owners)"
  by (induction owners) (auto intro!: emits_intros)

lemma delete_items_events:
  "emits (\<lambda>e. \<exists>obj r. e = WDeleteOwned kind obj r \<and> obj \<in> set items \<and> owned_by uid obj) (delete_items api uid kind items d)"
proof (induction items arbitrary: d)
  case Nil
  show ?case by (simp add: emits_return)
next
  case (Cons obj items)
  let ?P = "\<lambda>e. \<exists>o' r. e = WDeleteOwned kind o' r \<and> o' \<in> set (obj # items) \<and> owned_by uid o'"
  have "emits ?P (delete_times api kind obj (filter (controlled_by uid) (oo_ownerReferences obj)))"
  proof (cases "owned_by uid obj")
    case True
    then show ?thesis by (intro emits_mono [OF delete_times_events]) auto
  next
    case False
    then have "filter (controlled_by uid) (oo_ownerReferences obj) = []" by (auto simp: list_ex_iff filter_empty_conv)
    then show ?thesis by (simp only: delete_times.simps emits_return)
  qed
  moreover have "emits ?P (delete_items api uid kind items d')" for d'
    by (rule emits_mono [OF Cons]) auto
  ultimately show ?case by (simp add: Let_def emits_bindE)
qed

lemma deletions_ok_append: "deletions_ok uid ns n1 \<Longrightarrow> deletions_ok uid ns n2 \<Longrightarrow> deletions_ok uid ns (n1 @ n2)"
  unfolding deletions_ok_def by (simp only: set_append) blast

lemma delete_kinds_events: "does (\<lambda>_. deletions_ok uid ns) (delete_kinds api uid ns kinds d)"
proof (induction kinds arbitrary: d)
  case Nil
  show ?case by (auto intro!: does_return simp: deletions_ok_def)
next
  case (Cons kind kinds)
  have items: "does (\<lambda>_ new. deletions_ok uid ns ([WListOwned kind ns (Inr items)] @ new)) (delete_items api uid kind items d)" for items
    using delete_items_events [of kind items uid api d] unfolding emits_def
    by (rule does_mono) (force simp: deletions_ok_def list_all_iff)
  have kind: "does (\<lambda>_ new. deletions_ok uid ns ([WListOwned kind ns (Inr items)] @ new))
      (bindE (delete_items api uid kind items d) (\<lambda>deletedAny. delete_kinds api uid ns kinds deletedAny))" for items
  proof (rule does_seqE [OF items], assumption)
    fix x n1
    assume "deletions_ok uid ns ([WListOwned kind ns (Inr items)] @ n1)"
    then show "does (\<lambda>_ n2. deletions_ok uid ns ([WListOwned kind ns (Inr items)] @ n1 @ n2)) (delete_kinds api uid ns kinds x)"
      using does_mono [OF Cons, of "\<lambda>_ n2. deletions_ok uid ns ([WListOwned kind ns (Inr items)] @ n1 @ n2)" x]
        deletions_ok_append by (metis append_assoc)
  qed
  show ?case
    unfolding delete_kinds.simps by (intro does_bindE does_try_call) (use kind in \<open>simp_all add: deletions_ok_def\<close>)
qed

definition terminated_workload :: "KaiwoWorkload \<Rightarrow> KaiwoWorkload \<Rightarrow> bool" where
  "terminated_workload w w' \<longleftrightarrow> (\<exists>cs. w' = with_conditions (with_status w WorkloadStatusTerminated) cs)"

text \<open>
  The trace of a termination: the status is written first, and only when the server has accepted it are
  objects deleted, each of them owned by the object that the server returned.
\<close>

definition termination_trace :: "KaiwoWorkload \<Rightarrow> wl_event list \<Rightarrow> bool" where
  "termination_trace w new \<longleftrightarrow> (\<exists>now w0 r deletions records. new = [WNow now, WUpdateStatus w0 r] @ deletions @ records \<and>
     terminated_workload w w0 \<and> (case r of Inl _ \<Rightarrow> deletions = [] | Inr w1 \<Rightarrow> deletions_ok (kw_uid w1) (kw_namespace w1) deletions) \<and>
     list_all (\<lambda>e. \<exists>k t r m. e = WRecord k t r m) records)"

lemma DeleteUnderlyingResources_events: "does (\<lambda>_. deletions_ok uid ns) (DeleteUnderlyingResources api uid name ns)"
  unfolding DeleteUnderlyingResources_def
  by (rule does_seqE [OF delete_kinds_events], assumption) (auto intro: does_return)

lemma TerminateWorkload_events: "does (\<lambda>_. termination_trace w) (TerminateWorkload api cx w)"
proof -
  obtain condition cs where tc: "terminated_condition cx (conditions_of (with_status w WorkloadStatusTerminated)) = (condition, cs)"
    by fastforce
  have finished: "termination_trace w ([WNow now] @ [WUpdateStatus w0 (Inr w1)] @ n @ records)"
    if "deletions_ok (kw_uid w1) (kw_namespace w1) n" "terminated_workload w w0" "list_all (\<lambda>e. \<exists>k t r m. e = WRecord k t r m) records"
    for now w0 w1 n records
    using that unfolding termination_trace_def by (intro exI conjI) auto
  have rejected: "termination_trace w ([WNow now] @ [WUpdateStatus w0 (Inl e)])" if "terminated_workload w w0" for now w0 e
    using that unfolding termination_trace_def by (auto intro!: exI [of _ "[]"])
  have tw: "terminated_workload w (with_conditions (with_status w WorkloadStatusTerminated) cs)" for cs
    unfolding terminated_workload_def by blast
  have delete: "does (\<lambda>_ new. termination_trace w ([WNow now] @ [WUpdateStatus w0 (Inr w1)] @ new))
      (bindE (DeleteUnderlyingResources api (kw_uid w1) (kw_name w1) (kw_namespace w1)) (\<lambda>_.
         W_Event w1 EventTypeWarning (c_reason condition) (c_message condition)))" if "terminated_workload w w0" for now w0 w1
    unfolding W_Event_def
    by (rule does_seqE [OF DeleteUnderlyingResources_events])
       (use finished [OF _ that, of _ _ "[]"] finished [OF _ that] in \<open>auto intro!: does_bind does_emit does_return\<close>)
  show ?thesis
    unfolding TerminateWorkload_def Let_def tc prod.case
    by (intro does_bindE does_SetStatusCondition)
       (simp only: sum.case, intro does_bindE does_W_UpdateStatus, simp_all only: sum.case, rule rejected [OF tw], rule delete [OF tw])
qed

text \<open>
  Against a server that answers every list with the same objects and accepts every deletion, exactly the
  owned objects are deleted.
\<close>

definition delete_events :: "string \<Rightarrow> owned_kind \<Rightarrow> OwnedObject \<Rightarrow> wl_event list" where
  "delete_events uid kind obj = map (\<lambda>_. WDeleteOwned kind obj None) (filter (controlled_by uid) (oo_ownerReferences obj))"

lemma delete_times_run:
  assumes "\<And>h. w_deleteOwned api h kind obj = None"
  shows "run_state (delete_times api kind obj owners) h = (Inr (), h @ map (\<lambda>_. WDeleteOwned kind obj None) owners)"
  by (induction owners arbitrary: h) (simp_all add: try_unit_def assms)

lemma delete_items_run:
  assumes "\<And>h obj. w_deleteOwned api h kind obj = None"
  shows "run_state (delete_items api uid kind items d) h =
    (Inr (d \<or> list_ex (owned_by uid) items), h @ concat (map (delete_events uid kind) items))"
  by (induction items arbitrary: d h)
     (auto simp: Let_def delete_times_run [OF assms] delete_events_def filter_empty_conv list_ex_iff)

lemma delete_kinds_run:
  assumes "\<And>h kind obj. w_deleteOwned api h kind obj = None" and "\<And>h kind. w_listOwned api h kind ns = Inr (items kind)"
  shows "run_state (delete_kinds api uid ns kinds d) h =
    (Inr (d \<or> list_ex (\<lambda>kind. list_ex (owned_by uid) (items kind)) kinds),
     h @ concat (map (\<lambda>kind. WListOwned kind ns (Inr (items kind)) # concat (map (delete_events uid kind) (items kind))) kinds))"
  by (induction kinds arbitrary: d h) (simp_all add: try_call_def assms delete_items_run)

lemma owned_kinds_all: "kind \<in> set owned_kinds"
  by (cases kind) (simp_all add: owned_kinds_def)

lemma delete_events_mem: "WDeleteOwned kind obj r \<in> set (delete_events uid kind' obj') \<longleftrightarrow>
    kind = kind' \<and> obj = obj' \<and> r = None \<and> owned_by uid obj"
  unfolding delete_events_def by (auto simp: list_ex_iff)

lemma DeleteUnderlyingResources_run:
  assumes "\<And>h kind obj. w_deleteOwned api h kind obj = None" and "\<And>h kind. w_listOwned api h kind ns = Inr (items kind)"
  shows "\<exists>new. run_state (DeleteUnderlyingResources api uid name ns) h =
      ((if \<exists>kind obj. obj \<in> set (items kind) \<and> owned_by uid obj then Inr ()
        else Inl (Failed (OtherError (''no owned resources found to delete for '' @ name)))), h @ new) \<and>
    (\<forall>kind obj r. WDeleteOwned kind obj r \<in> set new \<longleftrightarrow> r = None \<and> obj \<in> set (items kind) \<and> owned_by uid obj)"
  unfolding DeleteUnderlyingResources_def using owned_kinds_all
  by (auto simp: delete_kinds_run [OF assms] list_ex_iff delete_events_mem)

section \<open>What clean-up and provisioning do\<close>

definition flagged :: "WlCtx \<Rightarrow> KaiwoWorkload \<Rightarrow> KaiwoWorkload \<Rightarrow> bool" where
  "flagged cx p w' \<longleftrightarrow> status_of p = WorkloadStatusRunning \<and> condition_true cx (conditions_of p) PreemptableConditionType \<and>
     (\<exists>cs. w' = with_conditions (with_status p WorkloadStatusTerminating) cs)"

lemma flag_expired_events:
  "emits (\<lambda>e. (\<exists>t. e = WNow t) \<or> (\<exists>w' r. e = WUpdateStatus w' r \<and> flagged cx w w')) (flag_expired api cx w)"
  unfolding flag_expired_def
proof (intro emits_if emits_return, goal_cases)
  case 1
  have early: "does (\<lambda>r new. (\<forall>w'. r = Inr w' \<longrightarrow> flagged cx w w') \<and> list_all (\<lambda>e. \<exists>t. e = WNow t) new)
      (SetEarlyTermination api cx w reason message)" for reason message
    unfolding SetEarlyTermination_def using 1
    by (intro does_bindE does_SetStatusCondition) (auto intro!: does_return simp: flagged_def)
  show ?case
    by (rule emits_bindE_result, rule does_mono [OF early])
       (auto simp: list_all_iff intro!: emits_intros)
qed

lemma flag_all_expired_events:
  "emits (\<lambda>e. (\<exists>t. e = WNow t) \<or> (\<exists>p w' r. e = WUpdateStatus w' r \<and> p \<in> set ws \<and> flagged cx p w')) (flag_all_expired api cx ws d)"
proof (induction ws arbitrary: d)
  case Nil
  show ?case by (simp add: emits_return)
next
  case (Cons w ws)
  show ?case
    unfolding flag_all_expired.simps
  proof (rule emits_bindE)
    show "emits (\<lambda>e. (\<exists>t. e = WNow t) \<or> (\<exists>p w' r. e = WUpdateStatus w' r \<and> p \<in> set (w # ws) \<and> flagged cx p w')) (flag_expired api cx w)"
      by (rule emits_mono [OF flag_expired_events]) auto
    show "emits (\<lambda>e. (\<exists>t. e = WNow t) \<or> (\<exists>p w' r. e = WUpdateStatus w' r \<and> p \<in> set (w # ws) \<and> flagged cx p w')) (flag_all_expired api cx ws (d \<or> b))" for b
      by (rule emits_mono [OF Cons]) auto
  qed
qed

definition cleanup_ok :: "WlCtx \<Rightarrow> wl_event list \<Rightarrow> bool" where
  "cleanup_ok cx new \<longleftrightarrow> (\<forall>e \<in> set new. reads e \<or>
     (\<exists>w' r p kind ws. e = WUpdateStatus w' r \<and> WListWorkloads kind (Inr ws) \<in> set new \<and> p \<in> set ws \<and> flagged cx p w'))"

lemma CleanupExpiredWorkloads_events: "does (\<lambda>_. cleanup_ok cx) (CleanupExpiredWorkloads api cx)"
proof -
  have flag: "does (\<lambda>_ new. cleanup_ok cx ([WListWorkloads KindKaiwoJob (Inr jobs)] @ [WListWorkloads KindKaiwoService (Inr services)] @ new))
      (flag_all_expired api cx (jobs @ services) False)" for jobs services
  proof (rule does_mono [OF does_emits [OF flag_all_expired_events]])
    fix new
    assume ev: "list_all (\<lambda>e. (\<exists>t. e = WNow t) \<or> (\<exists>p w' r. e = WUpdateStatus w' r \<and> p \<in> set (jobs @ services) \<and> flagged cx p w')) new"
    let ?all = "[WListWorkloads KindKaiwoJob (Inr jobs)] @ [WListWorkloads KindKaiwoService (Inr services)] @ new"
    have "reads e \<or> (\<exists>w' r p kind ws. e = WUpdateStatus w' r \<and> WListWorkloads kind (Inr ws) \<in> set ?all \<and> p \<in> set ws \<and> flagged cx p w')"
      if "e \<in> set new" for e
    proof -
      from ev that consider t where "e = WNow t" | p w' r where "e = WUpdateStatus w' r" "p \<in> set jobs \<or> p \<in> set services" "flagged cx p w'"
        unfolding list_all_iff set_append Un_iff by blast
      then show ?thesis by cases (simp, auto)
    qed
    then show "cleanup_ok cx ?all" unfolding cleanup_ok_def by auto
  qed
  have services: "does (\<lambda>_ new. cleanup_ok cx ([WListWorkloads KindKaiwoJob (Inr jobs)] @ new))
      (bindE (try_call (\<lambda>h. w_listWorkloads api h KindKaiwoService) (WListWorkloads KindKaiwoService)) (\<lambda>services.
         flag_all_expired api cx (jobs @ services) False))" for jobs
    by (intro does_bindE does_try_call) (use flag in \<open>simp_all add: cleanup_ok_def\<close>)
  show ?thesis
    unfolding CleanupExpiredWorkloads_def
    by (intro does_bindE does_try_call) (use services in \<open>simp_all add: cleanup_ok_def\<close>)
qed

text \<open>Provisioning never updates a status or deletes anything.\<close>

definition provisions :: "(desired \<Rightarrow> bool) \<Rightarrow> wl_event \<Rightarrow> bool" where
  "provisions D e \<longleftrightarrow> reads e \<or> (\<exists>k t r m. e = WRecord k t r m) \<or> (\<exists>lq r. e = WCreateLocalQueue lq r) \<or>
     (\<exists>d r. e = WCreateOrPatch d r \<and> D d)"

lemma provisions_simps [simp]:
  "reads e \<Longrightarrow> provisions D e" "provisions D (WRecord k t r m)" "provisions D (WCreateLocalQueue lq r')"
  "provisions D (WCreateOrPatch d r'') \<longleftrightarrow> D d" "\<not> provisions D (WUpdateStatus w s)" "\<not> provisions D (WDeleteOwned kind obj q)"
  unfolding provisions_def by auto

lemma provisions_mono: "provisions D e \<Longrightarrow> (\<And>d. D d \<Longrightarrow> D' d) \<Longrightarrow> provisions D' e"
  unfolding provisions_def by blast

fun storage_object :: "desired \<Rightarrow> bool" where
  "storage_object (DesiredPvc _) = True"
| "storage_object (DesiredConfigMap _) = True"
| "storage_object (DesiredDownloadJob _) = True"
| "storage_object _ = False"

lemma does_built: "(\<And>e. Q (Inl e) []) \<Longrightarrow> (\<And>x. Q (Inr x) []) \<Longrightarrow> does Q (built v)"
  by (cases v rule: built.cases) (auto intro: does_return)

lemma BuildDesired_result:
  "does (\<lambda>got new. new = [] \<and> (\<forall>d. got = Inr d \<longrightarrow> (storage_object d \<longleftrightarrow> (\<exists>s. r = StorageRes s)))) (BuildDesired cx config cc w r)"
  by (cases r rule: BuildDesired.cases [of "(cx, config, cc, w, r)" for r])
     (auto intro!: does_return does_bindE does_or_panic does_built simp: or_error_def split: option.splits)

lemma apply_desired_events:
  "emits (provisions (\<lambda>d. storage_object d \<longleftrightarrow> (\<exists>s. r = StorageRes s))) (apply_desired api cx config cc w r)"
  unfolding apply_desired_def stampGVK_def
  by (rule emits_bindE_result [OF does_mono [OF BuildDesired_result], where R = "\<lambda>d. storage_object d \<longleftrightarrow> (\<exists>s. r = StorageRes s)"])
     (auto intro!: emits_intros split: operation_result.splits)

lemma reconcileHandler_events:
  assumes "list_all (\<lambda>r. storage \<longleftrightarrow> (\<exists>s. r = StorageRes s)) rs"
  shows "emits (provisions (\<lambda>d. storage_object d \<longleftrightarrow> storage)) (reconcileHandler api cx config cc w rs)"
  using assms
proof (induction rs)
  case Nil
  show ?case by (simp add: emits_return)
next
  case (Cons r rs)
  then have "(\<exists>s. r = StorageRes s) = storage" by simp
  with Cons apply_desired_events [of r api cx config cc w] show ?case by (simp add: emits_bindE)
qed

lemma ensureStorageResources_events: "emits (provisions storage_object) (ensureStorageResources api cx config cc w)"
proof -
  have "emits (provisions (\<lambda>d. storage_object d \<longleftrightarrow> True)) (reconcileHandler api cx config cc w (map StorageRes rs))" for rs
    by (rule reconcileHandler_events) (simp add: list_all_iff)
  then show ?thesis
    unfolding ensureStorageResources_def by (auto intro!: emits_intros split: option.split)
qed

lemma EnsureLocalQueue_events: "emits (provisions D) (EnsureLocalQueue api cx queue name ns)"
  unfolding EnsureLocalQueue_def ensure_in_queue_def Let_def
  by (auto intro!: emits_intros split: option.split)

lemma ensureWorkloadResources_events: "emits (provisions (\<lambda>d. \<not> storage_object d)) (ensureWorkloadResources api cx config cc w impl)"
proof -
  have "emits (provisions (\<lambda>d. storage_object d \<longleftrightarrow> False)) (reconcileHandler api cx config cc w [WorkloadRes impl])"
    by (rule reconcileHandler_events) simp
  then show ?thesis
    unfolding ensureWorkloadResources_def Let_def by (intro emits_bindE EnsureLocalQueue_events) simp
qed

text \<open>Before the downloads are complete only storage is provisioned.\<close>

lemma ensureAllResources_events:
  "emits (provisions (\<lambda>d. storage_object d \<or> \<not> storage_only cx w s conditions)) (ensureAllResources api cx config cc w impl s conditions)"
  unfolding ensureAllResources_def
  by (intro emits_bindE emits_if emits_return)
     (rule emits_mono [OF ensureStorageResources_events], auto simp: provisions_def,
      rule emits_mono [OF ensureWorkloadResources_events], auto simp: provisions_def)

end
