(* ===== verification/WorkloadReconcile.thy ===== *)
theory WorkloadReconcile
  imports WorkloadActions
begin

text \<open>
  The reconciliation of KaiwoJob and KaiwoService (\<^verbatim>\<open>pkg/workloads/common/reconciler.go\<close>) and the two
  controllers of \<^verbatim>\<open>internal/controller\<close> that run it. Lemmas: which events each part causes; when the objects of a
  workload are created, when its status is written, and when a workload never gets further.
\<close>

section \<open>Observation\<close>

definition observe_workload ::
    "WlApi \<Rightarrow> WlCtx \<Rightarrow> KaiwoConfigSpec \<Rightarrow> KaiwoWorkload \<Rightarrow> WorkloadImpl \<Rightarrow> Condition list \<Rightarrow> (WorkloadStatus \<times> Condition list) wl_prog" where
  "observe_workload api cx config w impl conditions =
     bindE (workload_ObserveStatus api cx config w impl (status_of w)) (\<lambda>(workloadStatus, workloadConditions).
     bindE (SetStatusConditions api cx conditions workloadConditions) (\<lambda>conditions.
     ret (Inr (workloadStatus, conditions))))"

text \<open>What the status of the storage says: the status to report, nothing (go on with the workload), or an error.\<close>

definition storage_verdict :: "bool \<Rightarrow> WorkloadStatus \<Rightarrow> wl_error + WorkloadStatus option" where
  "storage_verdict hasDownloads storageStatus =
     (if hasDownloads then
        (if storageStatus \<in> {WorkloadStatusNew, WorkloadStatusPending, WorkloadStatusRunning, WorkloadStatusStarting}
           then Inr (Some WorkloadStatusDownloading)
         else if storageStatus = WorkloadStatusFailed then Inr (Some storageStatus)
         else if storageStatus = WorkloadStatusComplete then Inr None
         else Inl (Failed (OtherError ''unexpected storage status'')))
      else if storageStatus = WorkloadStatusFailed then Inr (Some storageStatus)
      else Inr None)"

definition observeOverallStatus ::
    "WlApi \<Rightarrow> WlCtx \<Rightarrow> KaiwoConfigSpec \<Rightarrow> ClusterContext \<Rightarrow> KaiwoWorkload \<Rightarrow> WorkloadImpl \<Rightarrow> (WorkloadStatus \<times> Condition list) wl_prog" where
  "observeOverallStatus api cx config cc w impl =
     bindE (or_panic (GetSchedulableCondition config cc w)) (\<lambda>schedulableCondition.
       if c_status schedulableCondition = CondFalse then ret (Inr (WorkloadStatusError, [schedulableCondition]))
       else (case NewStorageHandler w of
               None \<Rightarrow> observe_workload api cx config w impl [schedulableCondition]
             | Some h \<Rightarrow>
                 bindE (storage_ObserveStatus api cx w h (status_of w)) (\<lambda>(storageStatus, storageConditions).
                 bindE (SetStatusConditions api cx [schedulableCondition] storageConditions) (\<lambda>conditions.
                   (case storage_verdict (HasDownloads (cms_storage (kw_spec w))) storageStatus of
                      Inl e \<Rightarrow> ret (Inl e)
                    | Inr (Some s) \<Rightarrow> ret (Inr (s, conditions))
                    | Inr None \<Rightarrow> observe_workload api cx config w impl conditions)))))"

section \<open>Status transitions\<close>

definition transition_event :: "WorkloadStatus \<Rightarrow> (event_type \<times> string \<times> string) option" where
  "transition_event newStatus = (case newStatus of
     WorkloadStatusPending \<Rightarrow> Some (EventTypeNormal, ''WorkloadPending'', ''Workload is pending admission'')
   | WorkloadStatusStarting \<Rightarrow> Some (EventTypeNormal, ''WorkloadStarting'', ''Workload was admitted, starting'')
   | WorkloadStatusRunning \<Rightarrow> Some (EventTypeNormal, ''WorkloadRunning'', ''Workload has started'')
   | WorkloadStatusComplete \<Rightarrow> Some (EventTypeNormal, ''WorkloadComplete'', ''Workload has completed'')
   | WorkloadStatusFailed \<Rightarrow> Some (EventTypeWarning, ''WorkloadFailed'', ''Workload has failed'')
   | WorkloadStatusTerminating \<Rightarrow> Some (EventTypeNormal, ''WorkloadTermination'', ''Workload has been flagged for termination'')
   | WorkloadStatusTerminated \<Rightarrow> Some (EventTypeNormal, ''WorkloadTerminated'', ''Workload has been terminated'')
   | _ \<Rightarrow> None)"

definition record_transition :: "WlApi \<Rightarrow> KaiwoWorkload \<Rightarrow> WorkloadStatus \<Rightarrow> KaiwoWorkload wl_prog" where
  "record_transition api w newStatus =
     bindE (case transition_event newStatus of
              None \<Rightarrow> ret (Inr ())
            | Some (etype, reason, message) \<Rightarrow> W_Event w etype reason message) (\<lambda>_.
       if newStatus = WorkloadStatusRunning
       then bindE (W_Now api) (\<lambda>now. ret (Inr (w\<lparr>kw_status := (kw_status w)\<lparr>css_startTime := Some now\<rparr>\<rparr>)))
       else ret (Inr w))"

text \<open>A duration in whole seconds, truncated towards zero.\<close>

definition whole_seconds :: "int \<Rightarrow> int" where
  "whole_seconds d = sgn d * (\<bar>d\<bar> div 1000000000)"

definition update_duration :: "WlApi \<Rightarrow> KaiwoWorkload \<Rightarrow> KaiwoWorkload wl_prog" where
  "update_duration api w =
     (if status_of w \<in> {WorkloadStatusComplete, WorkloadStatusFailed, WorkloadStatusTerminating, WorkloadStatusRunning}
      then (case css_startTime (kw_status w) of
              None \<Rightarrow> ret (Inr w)
            | Some startTime \<Rightarrow> bindE (W_Now api) (\<lambda>now.
                ret (Inr (w\<lparr>kw_status := (kw_status w)\<lparr>css_duration := whole_seconds (now - startTime)\<rparr>\<rparr>))))
      else ret (Inr w))"

definition record_preemptable :: "WlCtx \<Rightarrow> KaiwoWorkload \<Rightarrow> unit wl_prog" where
  "record_preemptable cx w = (case mt_find cx (conditions_of w) PreemptableConditionType of
     None \<Rightarrow> ret (Inr ())
   | Some i \<Rightarrow>
       if c_status (conditions_of w ! i) = CondTrue \<and> c_observedGeneration (conditions_of w ! i) = 0
       then W_Event w EventTypeNormal ''Preemptable'' ''Workload has exceeded its duration'' else ret (Inr ()))"

definition handleStatusTransition ::
    "WlApi \<Rightarrow> WlCtx \<Rightarrow> KaiwoWorkload \<Rightarrow> WorkloadStatus \<Rightarrow> Condition list \<Rightarrow> requeue wl_prog" where
  "handleStatusTransition api cx w newStatus conditions =
     (let previousStatus = status_of w
      in bindE (SetStatusConditions api cx (conditions_of w) conditions) (\<lambda>cs.
         let w = with_conditions (with_status w newStatus) cs
         in bindE (if previousStatus \<noteq> newStatus then record_transition api w newStatus else ret (Inr w)) (\<lambda>w.
            bindE (update_duration api w) (\<lambda>w.
            bindE (record_preemptable cx w) (\<lambda>_.
            bindE (W_UpdateStatus api w) (\<lambda>_. ret (Inr RequeueNow)))))))"

section \<open>Reconcile\<close>

text \<open>
  The branch of \<^verbatim>\<open>GetContextWithConfig\<close> that creates a missing configuration cannot be reached: it tests the
  error of a call that succeeded.
\<close>

definition GetContextWithConfig :: "WlApi \<Rightarrow> KaiwoConfigSpec wl_prog" where
  "GetContextWithConfig api = try_call (w_getConfig api) WGetConfig"

definition settled ::
    "WlApi \<Rightarrow> WlCtx \<Rightarrow> KaiwoConfigSpec \<Rightarrow> ClusterContext \<Rightarrow> KaiwoWorkload \<Rightarrow> WorkloadImpl \<Rightarrow> WorkloadStatus \<Rightarrow> Condition list \<Rightarrow>
     requeue wl_prog" where
  "settled api cx config cc w impl observedStatus conditions =
     bindE (if isActiveStatus observedStatus
            then ensureAllResources api cx config cc w impl observedStatus conditions else ret (Inr ())) (\<lambda>_.
       (case observedStatus of
          WorkloadStatusPending \<Rightarrow> bindE (CleanupExpiredWorkloads api cx) (\<lambda>_. ret (Inr NoRequeue))
        | WorkloadStatusRunning \<Rightarrow> bindE (ShouldRequeueAfter api cx w) (\<lambda>after.
            ret (Inr (case after of None \<Rightarrow> NoRequeue | Some d \<Rightarrow> RequeueAfter d)))
        | _ \<Rightarrow> ret (Inr NoRequeue)))"

definition reconcile_active ::
    "WlApi \<Rightarrow> WlCtx \<Rightarrow> KaiwoConfigSpec \<Rightarrow> KaiwoWorkload \<Rightarrow> WorkloadImpl \<Rightarrow> requeue wl_prog" where
  "reconcile_active api cx config w impl =
     bindE (GetClusterContext api w) (\<lambda>cc.
     bindE (observeOverallStatus api cx config cc w impl) (\<lambda>(observedStatus, conditions).
       let (eq, conditions, stored) = ConditionsEqual conditions (conditions_of w);
           w = with_conditions w stored
       in if observedStatus \<noteq> status_of w \<or> \<not> eq then handleStatusTransition api cx w observedStatus conditions
          else settled api cx config cc w impl observedStatus conditions))"

definition workload_Reconcile :: "WlApi \<Rightarrow> WlCtx \<Rightarrow> KaiwoWorkload \<Rightarrow> WorkloadImpl \<Rightarrow> requeue wl_prog" where
  "workload_Reconcile api cx w impl =
     bindE (GetContextWithConfig api) (\<lambda>config.
       if isTerminalStatus (status_of w) then ret (Inr NoRequeue)
       else if status_of w = WorkloadStatusTerminating
       then bindE (TerminateWorkload api cx w) (\<lambda>_. ret (Inr NoRequeue))
       else reconcile_active api cx config w impl)"

definition KaiwoJob_Reconcile :: "WlApi \<Rightarrow> WlCtx \<Rightarrow> ObjectKey \<Rightarrow> requeue wl_prog" where
  "KaiwoJob_Reconcile api cx key = do {
     r \<leftarrow> call (\<lambda>h. w_getKaiwoJob api h key) (WGetKaiwoJob key);
     (case r of
        Inl e \<Rightarrow> ret (if e = NotFound then Inr NoRequeue else Inl (Failed e))
      | Inr (kaiwoJob, spec) \<Rightarrow> workload_Reconcile api cx kaiwoJob (NewKaiwoJobHandler kaiwoJob spec))
   }"

definition KaiwoService_Reconcile :: "WlApi \<Rightarrow> WlCtx \<Rightarrow> ObjectKey \<Rightarrow> requeue wl_prog" where
  "KaiwoService_Reconcile api cx key = do {
     r \<leftarrow> call (\<lambda>h. w_getKaiwoService api h key) (WGetKaiwoService key);
     (case r of
        Inl e \<Rightarrow> ret (if e = NotFound then Inr NoRequeue else Inl (Failed e))
      | Inr (kaiwoService, spec) \<Rightarrow> workload_Reconcile api cx kaiwoService (NewKaiwoServiceHandler kaiwoService spec))
   }"

section \<open>What a reconciliation does\<close>

definition observed_types :: "string set" where
  "observed_types = {SchedulableType} \<union> resource_types \<union> workload_types"

text \<open>What is known of an observation: its conditions, why it is \<open>TERMINATING\<close>, and when it is past the downloads.\<close>

definition observation_report ::
    "WlCtx \<Rightarrow> KaiwoConfigSpec \<Rightarrow> KaiwoWorkload \<Rightarrow> WorkloadStatus \<Rightarrow> Condition list \<Rightarrow> wl_event list \<Rightarrow> bool" where
  "observation_report cx config w s cs new \<longleftrightarrow> list_all reads new \<and>
     (meta_laws cx \<longrightarrow> cond_types cs \<subseteq> observed_types) \<and>
     (s = WorkloadStatusTerminating \<longrightarrow> preemption_evidence cx config w new) \<and>
     (NewStorageHandler w \<noteq> None \<and> HasDownloads (cms_storage (kw_spec w)) \<and>
        s \<notin> {WorkloadStatusError, WorkloadStatusDownloading, WorkloadStatusFailed} \<longrightarrow>
      download_seen_complete (workload_key w) (status_of w) new)"

lemma schedulable_type: "GetSchedulableCondition config cc w = Some c \<Longrightarrow> c_type c = SchedulableType"
proof -
  have "c_type (queue_condition n q ns cqs) = SchedulableType" for n q ns cqs
    by (induction cqs) (simp_all add: schedulable_condition_def new_condition_def)
  then show "GetSchedulableCondition config cc w = Some c \<Longrightarrow> c_type c = SchedulableType"
    by (auto simp: GetSchedulableCondition_def getQueueConfigCondition_def getGpuSchedulableCondition_def Let_def
        schedulable_condition_def new_condition_def split: if_splits)
qed

lemma observe_workload_report:
  assumes "meta_laws cx \<longrightarrow> cond_types conditions \<subseteq> observed_types"
  shows "does (\<lambda>got new. \<forall>s cs. got = Inr (s, cs) \<longrightarrow> (meta_laws cx \<longrightarrow> cond_types cs \<subseteq> observed_types) \<and>
      (s = WorkloadStatusTerminating \<longrightarrow> preemption_evidence cx config w new)) (observe_workload api cx config w impl conditions)"
  unfolding observe_workload_def
proof (rule does_seqE [OF workload_ObserveStatus_reports], goal_cases)
  case (1 e n) then show ?case by simp
next
  case (2 result n1)
  obtain s cs where result: "result = (s, cs)" by fastforce
  show ?case unfolding result prod.case
  proof (rule does_seqE [OF does_SetStatusConditions], goal_cases)
    case (1 e n) then show ?case by simp
  next
    case (2 conds n2)
    then show ?case
      using \<open>\<forall>s cs. Inr result = Inr (s, cs) \<longrightarrow> _ s cs\<close> assms
      by (auto intro!: does_return elim!: preemption_evidence_mono simp: result observed_types_def)
  qed
qed

lemma storage_reconcilers_last:
  assumes "storage_GetResourceReconcilers qa h = Some rs" and "HasDownloads (cms_storage (sh_commonMetaSpec h))"
  shows "\<exists>st env. rs \<noteq> [] \<and> last rs = DownloadJobRec (sh_objectKey h) st env"
  using assms
  by (auto simp: storage_GetResourceReconcilers_def HasDownloads_def HasObjectStorageDownloads_def HasHfDownloads_def
      split: option.splits bind_splits if_splits)

lemma storage_ObserveStatus_report:
  assumes "NewStorageHandler w = Some h"
  shows "does (\<lambda>got new. \<forall>s cs. got = Inr (s, cs) \<longrightarrow> cond_types cs \<subseteq> resource_types \<and> s \<noteq> WorkloadStatusTerminating \<and>
      (HasDownloads (cms_storage (kw_spec w)) \<and> s = WorkloadStatusComplete \<longrightarrow>
         download_seen_complete (workload_key w) (status_of w) new)) (storage_ObserveStatus api cx w h (status_of w))"
proof -
  have h: "sh_commonMetaSpec h = kw_spec w" "sh_objectKey h = workload_key w"
    using assms by (auto simp: NewStorageHandler_def workload_key_def split: option.splits if_splits)
  show ?thesis
    unfolding storage_ObserveStatus_def ObserveOverallStatus_def
  proof (intro does_bindE does_or_panic, simp_all only: sum.case append_Nil, simp, goal_cases)
    case (1 rs)
    show ?case
      by (rule does_mono [OF observe_loop_reports])
         (use storage_reconcilers_last [OF 1] in \<open>auto simp: overall_report_def h last_map\<close>)
  qed
qed

lemma observeOverallStatus_reads: "emits reads (observeOverallStatus api cx config cc w impl)"
  unfolding observeOverallStatus_def observe_workload_def storage_ObserveStatus_def ObserveOverallStatus_def
  by (intro emits_intros observe_reads; simp)

lemma verdict_facts:
  "storage_verdict d s = Inr (Some s') \<Longrightarrow> s' \<in> {WorkloadStatusDownloading, WorkloadStatusFailed}"
  "storage_verdict True s = Inr None \<Longrightarrow> s = WorkloadStatusComplete"
  by (auto simp: storage_verdict_def split: if_splits)

lemma observeOverallStatus_report:
  "does (\<lambda>got new. \<forall>s cs. got = Inr (s, cs) \<longrightarrow> observation_report cx config w s cs new) (observeOverallStatus api cx config cc w impl)"
proof -
  let ?past = "\<lambda>s new. NewStorageHandler w \<noteq> None \<and> HasDownloads (cms_storage (kw_spec w)) \<and>
        s \<notin> {WorkloadStatusError, WorkloadStatusDownloading, WorkloadStatusFailed} \<longrightarrow>
      download_seen_complete (workload_key w) (status_of w) new"
  let ?Q = "\<lambda>n got new. \<forall>s cs. got = Inr (s, cs) \<longrightarrow> (meta_laws cx \<longrightarrow> cond_types cs \<subseteq> observed_types) \<and>
     (s = WorkloadStatusTerminating \<longrightarrow> preemption_evidence cx config w (n @ new)) \<and> ?past s (n @ new)"
  have workload: "does (?Q n) (observe_workload api cx config w impl conditions)"
    if "meta_laws cx \<longrightarrow> cond_types conditions \<subseteq> observed_types"
      and "NewStorageHandler w \<noteq> None \<and> HasDownloads (cms_storage (kw_spec w)) \<longrightarrow> download_seen_complete (workload_key w) (status_of w) n"
    for conditions n
    by (rule does_mono [OF observe_workload_report [OF that(1)]])
       (use that(2) in \<open>auto elim!: preemption_evidence_mono elim: download_seen_complete_mono\<close>)
  have storage: "does (?Q []) (bindE (storage_ObserveStatus api cx w h (status_of w)) (\<lambda>(storageStatus, storageConditions).
      bindE (SetStatusConditions api cx [c] storageConditions) (\<lambda>conditions.
        (case storage_verdict (HasDownloads (cms_storage (kw_spec w))) storageStatus of
           Inl e \<Rightarrow> ret (Inl e)
         | Inr (Some s) \<Rightarrow> ret (Inr (s, conditions))
         | Inr None \<Rightarrow> observe_workload api cx config w impl conditions))))"
    if h: "NewStorageHandler w = Some h" and c: "c_type c = SchedulableType" for h c
  proof (rule does_seqE [OF storage_ObserveStatus_report [OF h]], goal_cases)
    case (1 e n) then show ?case by simp
  next
    case (2 result n1)
    obtain storageStatus storageConditions where result: "result = (storageStatus, storageConditions)" by fastforce
    from 2 have types: "cond_types storageConditions \<subseteq> resource_types" and complete:
      "HasDownloads (cms_storage (kw_spec w)) \<and> storageStatus = WorkloadStatusComplete \<longrightarrow> download_seen_complete (workload_key w) (status_of w) n1"
      unfolding result by auto
    show ?case unfolding result prod.case
    proof (rule does_seqE [OF does_SetStatusConditions], goal_cases)
      case (1 e n) then show ?case by simp
    next
      case (2 conditions n2)
      then have conds: "meta_laws cx \<longrightarrow> cond_types conditions \<subseteq> observed_types"
        using types c by (auto simp: observed_types_def)
      show ?case
      proof (cases "storage_verdict (HasDownloads (cms_storage (kw_spec w))) storageStatus")
        case (Inl e) then show ?thesis by (simp add: does_return)
      next
        case (Inr v)
        show ?thesis
        proof (cases v)
          case None
          have "HasDownloads (cms_storage (kw_spec w)) \<longrightarrow> storageStatus = WorkloadStatusComplete"
            using Inr None verdict_facts(2) by (cases "HasDownloads (cms_storage (kw_spec w))") auto
          then have "NewStorageHandler w \<noteq> None \<and> HasDownloads (cms_storage (kw_spec w)) \<longrightarrow> download_seen_complete (workload_key w) (status_of w) (n1 @ n2)"
            using complete download_seen_complete_mono [of _ _ n1 "n1 @ n2"] by auto
          from workload [OF conds this] show ?thesis by (simp add: Inr None)
        next
          case (Some s)
          with Inr verdict_facts(1) show ?thesis using conds by (auto intro!: does_return)
        qed
      qed
    qed
  qed
  have "does (?Q []) (observeOverallStatus api cx config cc w impl)"
    unfolding observeOverallStatus_def
  proof (intro does_bindE does_or_panic, simp, simp only: sum.case append_Nil, goal_cases)
    case (1 c)
    then have c: "c_type c = SchedulableType" by (rule schedulable_type)
    show ?case
      using storage [OF _ c] workload [of "[c]" "[]"] c
      by (auto intro!: does_if does_return does_case_option simp: observed_types_def)
  qed
  from does_conj [OF this does_emits [OF observeOverallStatus_reads]] show ?thesis
    by (rule does_mono) (auto simp: observation_report_def)
qed

text \<open>A status transition writes one status: that of the workload, with the observed status and conditions.\<close>

definition transition_of :: "WlCtx \<Rightarrow> KaiwoWorkload \<Rightarrow> WorkloadStatus \<Rightarrow> Condition list \<Rightarrow> KaiwoWorkload \<Rightarrow> bool" where
  "transition_of cx w s conditions w' \<longleftrightarrow> (\<exists>st. w' = w\<lparr>kw_status := st\<rparr> \<and> css_status st = s \<and>
     (meta_laws cx \<longrightarrow> cond_types (css_conditions st) = cond_types (conditions_of w) \<union> cond_types conditions))"

definition transition_event_ok :: "WlCtx \<Rightarrow> KaiwoWorkload \<Rightarrow> WorkloadStatus \<Rightarrow> Condition list \<Rightarrow> wl_event \<Rightarrow> bool" where
  "transition_event_ok cx w s conditions e \<longleftrightarrow>
     reads e \<or> (\<exists>k t r m. e = WRecord k t r m) \<or> (\<exists>w' r. e = WUpdateStatus w' r \<and> transition_of cx w s conditions w')"

lemma transition_event_ok_simps [simp]:
  "reads e \<Longrightarrow> transition_event_ok cx w s conditions e" "transition_event_ok cx w s conditions (WRecord k t r m)"
  "transition_event_ok cx w s conditions (WUpdateStatus w' r') \<longleftrightarrow> transition_of cx w s conditions w'"
  "\<not> transition_event_ok cx w s conditions (WDeleteOwned kind obj q)" "\<not> transition_event_ok cx w s conditions (WCreateOrPatch d p)"
  "\<not> transition_event_ok cx w s conditions (WCreateLocalQueue lq u)"
  unfolding transition_event_ok_def by auto

definition status_kept :: "KaiwoWorkload \<Rightarrow> KaiwoWorkload \<Rightarrow> bool" where
  "status_kept w w' \<longleftrightarrow> (\<exists>st. w' = w\<lparr>kw_status := st\<rparr> \<and> css_status st = status_of w \<and> css_conditions st = conditions_of w)"

lemma status_keptI [simp]:
  "status_kept w w" "status_kept w (w\<lparr>kw_status := (kw_status w)\<lparr>css_startTime := t\<rparr>\<rparr>)"
  "status_kept w (w\<lparr>kw_status := (kw_status w)\<lparr>css_duration := d\<rparr>\<rparr>)"
  unfolding status_kept_def
  by (rule exI [of _ "kw_status w"], simp, rule exI [of _ "(kw_status w)\<lparr>css_startTime := t\<rparr>"], simp,
      rule exI [of _ "(kw_status w)\<lparr>css_duration := d\<rparr>"], simp)

lemma transition_kept: "transition_of cx w s conditions w1 \<Longrightarrow> status_kept w1 w2 \<Longrightarrow> transition_of cx w s conditions w2"
  unfolding transition_of_def status_kept_def by force

lemma record_transition_result:
  "does (\<lambda>got new. (\<forall>w'. got = Inr w' \<longrightarrow> status_kept w w') \<and> list_all (transition_event_ok cx w0 s0 conditions) new)
     (if b then record_transition api w newStatus else ret (Inr w))"
  unfolding record_transition_def W_Event_def
  by (auto intro!: does_bindE does_bind does_emit does_return does_W_Now does_if does_case_option does_case_prod)

lemma update_duration_result:
  "does (\<lambda>got new. (\<forall>w'. got = Inr w' \<longrightarrow> status_kept w w') \<and> list_all (transition_event_ok cx w0 s0 conditions) new)
     (update_duration api w)"
  unfolding update_duration_def
  by (auto intro!: does_bindE does_return does_W_Now does_if does_case_option)

lemma handleStatusTransition_emits:
  "emits (transition_event_ok cx w newStatus conditions) (handleStatusTransition api cx w newStatus conditions)"
  unfolding handleStatusTransition_def Let_def
proof (rule emits_bindE_result [where R = "\<lambda>cs. transition_of cx w newStatus conditions (with_conditions (with_status w newStatus) cs)"], goal_cases)
  case 1
  have "transition_of cx w newStatus conditions (with_conditions (with_status w newStatus) cs)"
    if "meta_laws cx \<longrightarrow> cond_types cs = cond_types (conditions_of w) \<union> cond_types conditions" for cs
    unfolding transition_of_def
    by (rule exI [of _ "(kw_status w)\<lparr>css_status := newStatus, css_conditions := cs\<rparr>"]) (use that in simp)
  then show ?case
    by (rule_tac does_mono [OF does_SetStatusConditions]) (auto simp: list_all_iff dest!: only_clock_reads)
next
  case (2 cs)
  show ?case
  proof (rule emits_bindE_result [OF record_transition_result])
    fix w1
    assume "status_kept (with_conditions (with_status w newStatus) cs) w1"
    with 2 have w1: "transition_of cx w newStatus conditions w1" by (rule transition_kept)
    show "emits (transition_event_ok cx w newStatus conditions) (bindE (update_duration api w1) (\<lambda>w.
        bindE (record_preemptable cx w) (\<lambda>_. bindE (W_UpdateStatus api w) (\<lambda>_. ret (Inr RequeueNow)))))"
    proof (rule emits_bindE_result [OF update_duration_result])
      fix w2
      assume "status_kept w1 w2"
      with w1 have "transition_of cx w newStatus conditions w2" by (rule transition_kept)
      then show "emits (transition_event_ok cx w newStatus conditions)
          (bindE (record_preemptable cx w2) (\<lambda>_. bindE (W_UpdateStatus api w2) (\<lambda>_. ret (Inr RequeueNow))))"
        unfolding record_preemptable_def by (intro emits_intros) simp_all
    qed
  qed
qed

lemma handleStatusTransition_requeues:
  "result_of (handleStatusTransition api cx w newStatus conditions) h = Inr x \<Longrightarrow> x = RequeueNow"
  unfolding handleStatusTransition_def Let_def result_of_def
  by (simp split: prod.splits sum.splits)

lemma handleStatusTransition_events:
  "does (\<lambda>got new. (\<forall>x. got = Inr x \<longrightarrow> x = RequeueNow) \<and> list_all (transition_event_ok cx w newStatus conditions) new)
     (handleStatusTransition api cx w newStatus conditions)"
  unfolding does_def
proof
  fix h
  let ?m = "handleStatusTransition api cx w newStatus conditions"
  obtain x new where "run_state ?m h = (x, h @ new)" "list_all (transition_event_ok cx w newStatus conditions) new"
    using handleStatusTransition_emits [of cx w newStatus conditions api] unfolding emits_def does_def by blast
  with handleStatusTransition_requeues [of api cx w newStatus conditions h]
  show "\<exists>x new. run_state ?m h = (x, h @ new) \<and>
      ((\<forall>y. x = Inr y \<longrightarrow> y = RequeueNow) \<and> list_all (transition_event_ok cx w newStatus conditions) new)"
    by (auto simp: result_of_def)
qed

text \<open>
  The trace of an active workload: an observation, followed either by a status transition or, when status
  and conditions agree with the stored ones, by provisioning and the clean-up of expired workloads.
\<close>

definition provision_trace :: "WlCtx \<Rightarrow> WorkloadStatus \<Rightarrow> wl_event list \<Rightarrow> bool" where
  "provision_trace cx s new \<longleftrightarrow> (\<exists>ensure rest. new = ensure @ rest \<and>
     list_all (provisions (\<lambda>d. storage_object d \<or> isActiveStatus s \<and> s \<noteq> WorkloadStatusDownloading)) ensure \<and>
     cleanup_ok cx rest \<and> (s \<noteq> WorkloadStatusPending \<longrightarrow> list_all reads rest))"

lemma settled_events: "does (\<lambda>_. provision_trace cx s) (settled api cx config cc w impl s conditions)"
proof -
  let ?E = "provisions (\<lambda>d. storage_object d \<or> isActiveStatus s \<and> s \<noteq> WorkloadStatusDownloading)"
  have ensure: "does (\<lambda>_ new. list_all ?E new) (if isActiveStatus s then ensureAllResources api cx config cc w impl s conditions else ret (Inr ()))"
  proof (cases "isActiveStatus s")
    case True
    have "\<not> storage_only cx w s conditions \<Longrightarrow> s \<noteq> WorkloadStatusDownloading" by (auto simp: storage_only_def)
    with True show ?thesis
      by (simp only: if_True, intro does_emits emits_mono [OF ensureAllResources_events])
         (auto elim!: provisions_mono)
  qed (simp add: does_return)
  have requeue: "emits reads (bindE (ShouldRequeueAfter api cx w) (\<lambda>after. ret (Inr (case after of None \<Rightarrow> NoRequeue | Some d \<Rightarrow> RequeueAfter d))))"
    unfolding ShouldRequeueAfter_def Let_def by (intro emits_intros observe_reads)
  have rest: "does (\<lambda>_ new. provision_trace cx s (ensure @ new)) (case s of
          WorkloadStatusPending \<Rightarrow> bindE (CleanupExpiredWorkloads api cx) (\<lambda>_. ret (Inr NoRequeue))
        | WorkloadStatusRunning \<Rightarrow> bindE (ShouldRequeueAfter api cx w) (\<lambda>after.
            ret (Inr (case after of None \<Rightarrow> NoRequeue | Some d \<Rightarrow> RequeueAfter d)))
        | _ \<Rightarrow> ret (Inr NoRequeue))" if ensure: "list_all ?E ensure" for ensure
  proof -
    have traceI: "provision_trace cx s (ensure @ new)" if "cleanup_ok cx new" "s \<noteq> WorkloadStatusPending \<longrightarrow> list_all reads new" for new
      using that ensure unfolding provision_trace_def by blast
    have reads: "provision_trace cx s (ensure @ new)" if "list_all reads new" for new
      using that by (intro traceI) (auto simp: cleanup_ok_def list_all_iff)
    consider "s = WorkloadStatusPending" | "s = WorkloadStatusRunning" | "s \<notin> {WorkloadStatusPending, WorkloadStatusRunning}" by blast
    then show ?thesis
    proof cases
      case 1
      have "does (\<lambda>_ new. provision_trace cx s (ensure @ new)) (bindE (CleanupExpiredWorkloads api cx) (\<lambda>_. ret (Inr NoRequeue)))"
        by (rule does_seqE [OF CleanupExpiredWorkloads_events]) (use traceI 1 in \<open>auto intro!: does_return\<close>)
      with 1 show ?thesis by simp
    next
      case 2
      have "does (\<lambda>_ new. provision_trace cx s (ensure @ new)) (bindE (ShouldRequeueAfter api cx w) (\<lambda>after.
            ret (Inr (case after of None \<Rightarrow> NoRequeue | Some d \<Rightarrow> RequeueAfter d))))"
        by (rule does_mono [OF does_emits [OF requeue]]) (rule reads)
      with 2 show ?thesis by simp
    next
      case 3
      have "does (\<lambda>_ new. provision_trace cx s (ensure @ new)) (ret (Inr NoRequeue))" by (intro does_return reads) simp
      with 3 show ?thesis by (cases s) simp_all
    qed
  qed
  have stop: "provision_trace cx s n" if "list_all ?E n" for n
    using that unfolding provision_trace_def by (intro exI [of _ n] exI [of _ "[]"]) (simp add: cleanup_ok_def)
  show ?thesis
    unfolding settled_def by (rule does_seqE [OF ensure]) (use rest stop in auto)
qed

lemma ConditionsEqual_facts:
  assumes "ConditionsEqual a b = (eq, a', b')"
  shows "cond_types a' = cond_types a" and "cond_types b' = cond_types b" and "eq \<Longrightarrow> cond_types a = cond_types b"
proof -
  have eqs: "a' = sort_key c_type a" "b' = sort_key c_type b" "eq = (map strip_condition a' = map strip_condition b')"
    using assms by (auto simp: ConditionsEqual_def Let_def)
  show a: "cond_types a' = cond_types a" and b: "cond_types b' = cond_types b" by (simp_all add: eqs cond_types_def)
  show "cond_types a = cond_types b" if eq
  proof -
    have "c_type ` strip_condition ` set a' = c_type ` strip_condition ` set b'" using that eqs(3) by (metis list.set_map)
    then show ?thesis using a b by (simp add: cond_types_def image_image strip_condition_def)
  qed
qed

lemma transition_resorted:
  assumes "cond_types stored = cond_types (conditions_of w)" and "cond_types cs' = cond_types cs"
  shows "transition_event_ok cx (with_conditions w stored) s cs' e \<longleftrightarrow> transition_event_ok cx w s cs e"
  using assms by (simp add: transition_event_ok_def transition_of_def)

definition active_trace :: "WlCtx \<Rightarrow> KaiwoConfigSpec \<Rightarrow> KaiwoWorkload \<Rightarrow> wl_error + requeue \<Rightarrow> wl_event list \<Rightarrow> bool" where
  "active_trace cx config w got new \<longleftrightarrow> (list_all reads new \<and> (\<exists>e. got = Inl e)) \<or>
     (\<exists>obs rest s cs. new = obs @ rest \<and> observation_report cx config w s cs obs \<and>
        (list_all (transition_event_ok cx w s cs) rest \<and> (\<forall>x. got = Inr x \<longrightarrow> x = RequeueNow) \<or>
         s = status_of w \<and> cond_types cs = cond_types (conditions_of w) \<and> provision_trace cx s rest))"

lemma observation_report_prepend:
  "observation_report cx config w s cs new \<Longrightarrow> list_all reads pre \<Longrightarrow> observation_report cx config w s cs (pre @ new)"
  unfolding observation_report_def
  using preemption_evidence_mono [of cx config w new "pre @ new"] download_seen_complete_mono [of _ _ new "pre @ new"] by auto

lemma reconcile_active_trace: "does (active_trace cx config w) (reconcile_active api cx config w impl)"
  unfolding reconcile_active_def
proof (rule does_seqE [OF does_emits [OF GetClusterContext_reads]], goal_cases)
  case (1 e n) then show ?case by (simp add: active_trace_def)
next
  case (2 cc n1)
  show ?case
  proof (rule does_seqE [OF does_conj [OF observeOverallStatus_report does_emits [OF observeOverallStatus_reads]]], goal_cases)
    case (1 e n) then show ?case using 2 by (auto simp: active_trace_def)
  next
    case (2 result n2)
    obtain s cs where result: "result = (s, cs)" by fastforce
    obtain eq cs' stored where ce: "ConditionsEqual cs (conditions_of w) = (eq, cs', stored)" by (metis prod_cases3)
    note facts = ConditionsEqual_facts [OF ce]
    have report: "observation_report cx config w s cs (n1 @ n2)"
      using 2 \<open>list_all reads n1\<close> observation_report_prepend by (simp add: result)
    have step: "active_trace cx config w got (n1 @ n2 @ n)"
      if "list_all (transition_event_ok cx w s cs) n \<and> (\<forall>x. got = Inr x \<longrightarrow> x = RequeueNow) \<or>
         s = status_of w \<and> cond_types cs = cond_types (conditions_of w) \<and> provision_trace cx s n" for got n
      using report that unfolding active_trace_def by (metis append_assoc)
    show ?case
    proof (cases "s \<noteq> status_of w \<or> \<not> eq")
      case True
      have "does (\<lambda>got n. active_trace cx config w got (n1 @ n2 @ n)) (handleStatusTransition api cx (with_conditions w stored) s cs')"
        by (rule does_mono [OF handleStatusTransition_events], rule step)
           (use transition_resorted [OF facts(2,1)] in \<open>simp add: list_all_iff\<close>)
      with True show ?thesis by (simp add: result ce)
    next
      case False
      have "does (\<lambda>got n. active_trace cx config w got (n1 @ n2 @ n)) (settled api cx config cc (with_conditions w stored) impl s cs')"
        by (rule does_mono [OF settled_events], rule step) (use False facts(3) in simp)
      with False show ?thesis by (simp add: result ce)
    qed
  qed
qed

definition workload_trace :: "WlCtx \<Rightarrow> KaiwoWorkload \<Rightarrow> wl_error + requeue \<Rightarrow> wl_event list \<Rightarrow> bool" where
  "workload_trace cx w got new \<longleftrightarrow> (\<exists>r rest. new = WGetConfig r # rest \<and> (case r of
     Inl e \<Rightarrow> rest = [] \<and> got = Inl (Failed e)
   | Inr config \<Rightarrow>
       if isTerminalStatus (status_of w) then rest = [] \<and> got = Inr NoRequeue
       else if status_of w = WorkloadStatusTerminating then termination_trace w rest \<and> (\<forall>x. got = Inr x \<longrightarrow> x = NoRequeue)
       else active_trace cx config w got rest))"

lemma workload_Reconcile_trace: "does (workload_trace cx w) (workload_Reconcile api cx w impl)"
proof -
  have terminate: "does (\<lambda>got new. termination_trace w new \<and> (\<forall>x. got = Inr x \<longrightarrow> x = NoRequeue))
      (bindE (TerminateWorkload api cx w) (\<lambda>_. ret (Inr NoRequeue)))"
    by (rule does_seqE [OF TerminateWorkload_events]) (auto intro: does_return)
  have live: "does (\<lambda>got new. workload_trace cx w got ([WGetConfig (Inr config)] @ new))
      (if isTerminalStatus (status_of w) then ret (Inr NoRequeue)
       else if status_of w = WorkloadStatusTerminating then bindE (TerminateWorkload api cx w) (\<lambda>_. ret (Inr NoRequeue))
       else reconcile_active api cx config w impl)" for config
    by (intro does_if)
       (auto intro!: does_return does_mono [OF terminate] does_mono [OF reconcile_active_trace] simp: workload_trace_def)
  show ?thesis
    unfolding workload_Reconcile_def GetContextWithConfig_def
    by (intro does_bindE does_try_call) (use live in \<open>simp_all add: workload_trace_def\<close>)
qed

lemma workload_traceE:
  assumes "workload_trace cx w got new"
  obtains (config_error) e where "new = [WGetConfig (Inl e)]" and "got = Inl (Failed e)"
  | (finished) config where "isTerminalStatus (status_of w)" and "new = [WGetConfig (Inr config)]" and "got = Inr NoRequeue"
  | (terminating) config rest where "status_of w = WorkloadStatusTerminating" and "new = WGetConfig (Inr config) # rest"
      and "termination_trace w rest"
  | (active) config rest where "\<not> isTerminalStatus (status_of w)" and "status_of w \<noteq> WorkloadStatusTerminating"
      and "new = WGetConfig (Inr config) # rest" and "active_trace cx config w got rest"
proof -
  obtain r rest where new: "new = WGetConfig r # rest" and r: "case r of
     Inl e \<Rightarrow> rest = [] \<and> got = Inl (Failed e)
   | Inr config \<Rightarrow>
       if isTerminalStatus (status_of w) then rest = [] \<and> got = Inr NoRequeue
       else if status_of w = WorkloadStatusTerminating then termination_trace w rest \<and> (\<forall>x. got = Inr x \<longrightarrow> x = NoRequeue)
       else active_trace cx config w got rest"
    using assms unfolding workload_trace_def by blast
  show thesis
  proof (cases r)
    case (Inl e) with new r show ?thesis by (intro config_error) simp_all
  next
    case (Inr config)
    with new r show ?thesis using finished terminating active by (auto split: if_splits)
  qed
qed

lemma active_traceE:
  assumes "active_trace cx config w got new"
  obtains (failed) e where "list_all reads new" and "got = Inl e"
  | (transition) obs rest s cs where "new = obs @ rest" and "observation_report cx config w s cs obs"
      and "list_all (transition_event_ok cx w s cs) rest" and "\<And>x. got = Inr x \<Longrightarrow> x = RequeueNow"
  | (settled) obs ensure rest cs where "new = obs @ ensure @ rest" and "observation_report cx config w (status_of w) cs obs"
      and "cond_types cs = cond_types (conditions_of w)"
      and "list_all (provisions (\<lambda>d. storage_object d \<or> isActiveStatus (status_of w) \<and> status_of w \<noteq> WorkloadStatusDownloading)) ensure"
      and "cleanup_ok cx rest" and "status_of w \<noteq> WorkloadStatusPending \<Longrightarrow> list_all reads rest"
proof -
  from assms consider e where "list_all reads new" "got = Inl e"
    | obs rest s cs where "new = obs @ rest" "observation_report cx config w s cs obs"
        "list_all (transition_event_ok cx w s cs) rest \<and> (\<forall>x. got = Inr x \<longrightarrow> x = RequeueNow) \<or>
         s = status_of w \<and> cond_types cs = cond_types (conditions_of w) \<and> provision_trace cx s rest"
    unfolding active_trace_def by blast
  then show thesis
  proof cases
    case (1 e) then show ?thesis by (rule failed)
  next
    case (2 obs rest s cs)
    from 2(3) show ?thesis
    proof
      assume "list_all (transition_event_ok cx w s cs) rest \<and> (\<forall>x. got = Inr x \<longrightarrow> x = RequeueNow)"
      then show ?thesis by (intro transition [OF 2(1,2)]) blast+
    next
      assume stay: "s = status_of w \<and> cond_types cs = cond_types (conditions_of w) \<and> provision_trace cx s rest"
      then obtain ensure rest' where "rest = ensure @ rest'"
          "list_all (provisions (\<lambda>d. storage_object d \<or> isActiveStatus s \<and> s \<noteq> WorkloadStatusDownloading)) ensure"
          "cleanup_ok cx rest'" "s \<noteq> WorkloadStatusPending \<longrightarrow> list_all reads rest'"
        unfolding provision_trace_def by blast
      with stay 2(1,2) show ?thesis by (intro settled [of obs ensure rest' cs]) simp_all
    qed
  qed
qed

lemma reads_no_write: "list_all reads new \<Longrightarrow> e \<in> set new \<Longrightarrow> reads e"
  by (simp add: list_all_iff)

lemma termination_trace_events:
  assumes "termination_trace w new" and "e \<in> set new"
  shows "reads e \<or> (\<exists>k t r m. e = WRecord k t r m) \<or> (\<exists>kind obj r. e = WDeleteOwned kind obj r) \<or>
    (\<exists>w' r. e = WUpdateStatus w' r \<and> terminated_workload w w')"
proof -
  obtain now w0 r dels recs where t: "new = [WNow now, WUpdateStatus w0 r] @ dels @ recs" "terminated_workload w w0"
      "case r of Inl _ \<Rightarrow> dels = [] | Inr w1 \<Rightarrow> deletions_ok (kw_uid w1) (kw_namespace w1) dels"
      "list_all (\<lambda>e. \<exists>k t r m. e = WRecord k t r m) recs"
    using assms(1) unfolding termination_trace_def by blast
  from assms(2) t(1) consider "e = WNow now" | "e = WUpdateStatus w0 r" | "e \<in> set dels" | "e \<in> set recs" by auto
  then show ?thesis
  proof cases
    case 3
    have "r \<noteq> Inl x" for x using t(3) 3 by auto
    then obtain w1 where "r = Inr w1" by (cases r) auto
    with t(3) have "deletions_ok (kw_uid w1) (kw_namespace w1) dels" by simp
    with 3 have "(\<exists>kind r. e = WListOwned kind (kw_namespace w1) r) \<or> (\<exists>kind obj r. e = WDeleteOwned kind obj r)"
      unfolding deletions_ok_def by blast
    then show ?thesis by auto
  qed (use t in \<open>auto simp: list_all_iff\<close>)
qed

lemma active_trace_no_delete:
  assumes "active_trace cx config w got new"
  shows "WDeleteOwned kind obj r \<notin> set new"
proof
  assume d: "WDeleteOwned kind obj r \<in> set new"
  from assms show False
  proof (cases rule: active_traceE)
    case (failed e)
    with d show ?thesis by (auto dest: reads_no_write)
  next
    case (transition obs rest s cs)
    from d transition(1) consider "WDeleteOwned kind obj r \<in> set obs" | "WDeleteOwned kind obj r \<in> set rest" by auto
    then show ?thesis
    proof cases
      case 1 with transition(2) show ?thesis by (auto dest: reads_no_write simp: observation_report_def)
    next
      case 2 with transition(3) show ?thesis by (auto simp: list_all_iff)
    qed
  next
    case (settled obs ensure rest cs)
    from d settled(1) consider "WDeleteOwned kind obj r \<in> set obs" | "WDeleteOwned kind obj r \<in> set ensure" | "WDeleteOwned kind obj r \<in> set rest" by auto
    then show ?thesis
    proof cases
      case 1 with settled(2) show ?thesis by (auto dest: reads_no_write simp: observation_report_def)
    next
      case 2 with settled(4) show ?thesis by (auto simp: list_all_iff)
    next
      case 3 with settled(5) show ?thesis unfolding cleanup_ok_def by fastforce
    qed
  qed
qed

section \<open>A concrete surrounding\<close>

fun example_find :: "Condition list \<Rightarrow> string \<Rightarrow> nat option" where
  "example_find [] t = None"
| "example_find (c # cs) t = (if c_type c = t then Some 0 else map_option Suc (example_find cs t))"

definition example_set :: "int \<Rightarrow> Condition list \<Rightarrow> Condition \<Rightarrow> Condition list" where
  "example_set now cs c = (case example_find cs (c_type c) of
     None \<Rightarrow> cs @ [c\<lparr>c_lastTransitionTime := now\<rparr>]
   | Some i \<Rightarrow> cs[i := c\<lparr>c_lastTransitionTime := if c_status (cs ! i) = c_status c then c_lastTransitionTime (cs ! i) else now\<rparr>])"

definition example_wl_ctx :: WlCtx where
  "example_wl_ctx = \<lparr>mt_find = example_find, mt_set = example_set, wx_quantities = example_qa,
     wx_marshal = (\<lambda>_. Some []), wx_mapOrder = (\<lambda>ks. ks), wx_setControllerReference = (\<lambda>_ _. None),
     wx_setOwnerReference = (\<lambda>_ _. None), wx_objectKinds = (\<lambda>_. Inr [''batch/v1, Kind=Job'']),
     wx_parseDuration = (\<lambda>_. Some 300000000000), wx_workloadAdmitted = ''Admitted'', wx_deploymentProgressing = ''Progressing''\<rparr>"

definition example_queue_config :: KaiwoQueueConfig where
  "example_queue_config = \<lparr>qc_name = ''kaiwo'', qc_spec = \<lparr>qcs_clusterQueues = [\<lparr>cq_name = ''kaiwo'',
      cq_spec = \<lparr>cqs_resourceGroups = [], cqs_cohort = [], cqs_queueingStrategy = [], cqs_namespaceSelector = None,
        cqs_flavorFungibility = None, cqs_preemption = None, cqs_admissionChecks = [], cqs_admissionChecksStrategy = None,
        cqs_stopPolicy = None, cqs_fairSharing = None\<rparr>, cq_namespaces = []\<rparr>],
      qcs_resourceFlavors = [], qcs_workloadPriorityClasses = [], qcs_topologies = []\<rparr>, qc_status = QueueConfigStatusReady\<rparr>"

text \<open>A server on which nothing has been created yet and which accepts every write.\<close>

definition example_wl_api :: WlApi where
  "example_wl_api = \<lparr>w_getKaiwoJob = (\<lambda>_ _. Inl NotFound), w_getKaiwoService = (\<lambda>_ _. Inl NotFound),
     w_getConfig = (\<lambda>_. Inr example_config), w_listNodes = (\<lambda>_. Inr []), w_getQueueConfig = (\<lambda>_. Inr example_queue_config),
     w_getPvc = (\<lambda>_ _. Inl NotFound), w_getConfigMap = (\<lambda>_ _. Some NotFound), w_getJob = (\<lambda>_ _. Inl NotFound),
     w_getRayJob = (\<lambda>_ _. Inl NotFound), w_getDeployment = (\<lambda>_ _. Inl NotFound), w_getAppWrapper = (\<lambda>_ _. Inl NotFound),
     w_getRayService = (\<lambda>_ _. Inl NotFound), w_listKueueWorkloads = (\<lambda>_ _ _. Inr []), w_listPodUids = (\<lambda>_ _. Inr []),
     w_listWorkloads = (\<lambda>_ _. Inr []), w_updateStatus = (\<lambda>_ w. Inr w), w_listOwned = (\<lambda>_ _ _. Inr []),
     w_deleteOwned = (\<lambda>_ _ _. None), w_createOrPatch = (\<lambda>_ _. Inr OperationResultCreated), w_getLocalQueue = (\<lambda>_ _. None),
     w_getClusterQueue = (\<lambda>_ _. None), w_createLocalQueue = (\<lambda>_ _. None), w_now = (\<lambda>_. 0),
     w_scrape = (\<lambda>_ _. Inr []), w_getPod = (\<lambda>_ _. Inl NotFound)\<rparr>"

definition example_job_spec :: KaiwoJobSpec where
  "example_job_spec = \<lparr>kj_entryPoint = ''python train.py'', kj_rayJob = None, kj_job = None\<rparr>"

definition example_owned :: OwnedObject where
  "example_owned = \<lparr>oo_name = ''train'', oo_namespace = ''team'', oo_ownerReferences =
     [\<lparr>o_apiVersion = ''kaiwo.silogen.ai/v1alpha1'', o_kind = ''KaiwoJob'', o_name = ''train'', o_uid = ''u1'', o_controller = Some True\<rparr>]\<rparr>"

definition owning_api :: WlApi where
  "owning_api = example_wl_api\<lparr>w_listOwned := (\<lambda>_ kind _. Inr (if kind = OwnedJob then [example_owned] else []))\<rparr>"

lemma example_find_law:
  "case example_find cs t of None \<Rightarrow> t \<notin> cond_types cs
   | Some i \<Rightarrow> i < length cs \<and> c_type (cs ! i) = t \<and> (\<forall>j < i. c_type (cs ! j) \<noteq> t)"
  by (induction cs) (auto simp: less_Suc_eq_0_disj split: option.splits)

lemma example_laws: "meta_laws example_wl_ctx"
  unfolding meta_laws_def example_wl_ctx_def
  using example_find_law by (auto simp: example_set_def split: option.split)

section \<open>Properties\<close>

text \<open>
  C18: Deletions by the workload controllers. Whatever the server answers, a reconciliation deletes an object
  only for a workload in status \<open>TERMINATING\<close>, only after the server has accepted the write of status
  \<open>TERMINATED\<close>, and only an object listed in the workload's namespace that a reference to the workload
  controls. A workload in a terminal status is left alone: only the configuration is read.
\<close>

theorem workload_deletions_justified:
  "\<exists>new. history_of (workload_Reconcile api cx w impl) h = h @ new \<and>
    (isTerminalStatus (status_of w) \<longrightarrow> (\<forall>e \<in> set new. \<exists>r. e = WGetConfig r)) \<and>
    (\<forall>kind obj r. WDeleteOwned kind obj r \<in> set new \<longrightarrow> status_of w = WorkloadStatusTerminating \<and>
      (\<exists>before w0 w1 after. new = before @ WUpdateStatus w0 (Inr w1) # after \<and> list_all reads before \<and>
         workload_key w0 = workload_key w \<and> status_of w0 = WorkloadStatusTerminated \<and>
         WDeleteOwned kind obj r \<in> set after \<and> owned_by (kw_uid w1) obj \<and>
         (\<exists>items. WListOwned kind (kw_namespace w1) (Inr items) \<in> set after \<and> obj \<in> set items)))"
proof -
  obtain new where new: "history_of (workload_Reconcile api cx w impl) h = h @ new"
    and trace: "workload_trace cx w (result_of (workload_Reconcile api cx w impl) h) new"
    using workload_Reconcile_trace by (rule doesD)
  have del: "status_of w = WorkloadStatusTerminating \<and>
      (\<exists>before w0 w1 after. new = before @ WUpdateStatus w0 (Inr w1) # after \<and> list_all reads before \<and>
         workload_key w0 = workload_key w \<and> status_of w0 = WorkloadStatusTerminated \<and>
         WDeleteOwned kind obj r \<in> set after \<and> owned_by (kw_uid w1) obj \<and>
         (\<exists>items. WListOwned kind (kw_namespace w1) (Inr items) \<in> set after \<and> obj \<in> set items))"
    if d: "WDeleteOwned kind obj r \<in> set new" for kind obj r
  proof -
    obtain config rest where rest: "status_of w = WorkloadStatusTerminating" "new = WGetConfig (Inr config) # rest" "termination_trace w rest"
      using trace d by (cases rule: workload_traceE) (auto dest: active_trace_no_delete)
    from rest(3) obtain now w0 r' dels recs where t: "rest = [WNow now, WUpdateStatus w0 r'] @ dels @ recs" "terminated_workload w w0"
      "case r' of Inl _ \<Rightarrow> dels = [] | Inr w1 \<Rightarrow> deletions_ok (kw_uid w1) (kw_namespace w1) dels"
      "list_all (\<lambda>e. \<exists>k t r m. e = WRecord k t r m) recs"
      unfolding termination_trace_def by blast
    have "WDeleteOwned kind obj r \<in> set dels" using d rest(2) t(1,4) by (auto simp: list_all_iff)
    with t(3) obtain w1 where r': "r' = Inr w1" and ok: "deletions_ok (kw_uid w1) (kw_namespace w1) dels" by (cases r') auto
    with \<open>WDeleteOwned kind obj r \<in> set dels\<close> have "owned_by (kw_uid w1) obj \<and>
        (\<exists>items. WListOwned kind (kw_namespace w1) (Inr items) \<in> set (dels @ recs) \<and> obj \<in> set items)"
      unfolding deletions_ok_def by auto
    moreover have "new = [WGetConfig (Inr config), WNow now] @ WUpdateStatus w0 (Inr w1) # dels @ recs"
      using rest(2) t(1) r' by simp
    moreover have "workload_key w0 = workload_key w \<and> status_of w0 = WorkloadStatusTerminated"
      using t(2) by (auto simp: terminated_workload_def workload_key_def)
    ultimately show ?thesis
      using rest(1) \<open>WDeleteOwned kind obj r \<in> set dels\<close>
      by (intro conjI exI [of _ "[WGetConfig (Inr config), WNow now]"] exI [of _ w0] exI [of _ w1] exI [of _ "dels @ recs"]) auto
  qed
  moreover have "\<forall>e \<in> set new. \<exists>r. e = WGetConfig r" if "isTerminalStatus (status_of w)"
    using trace by (cases rule: workload_traceE) (use that in \<open>auto simp: isTerminalStatus_def\<close>)
  ultimately show ?thesis using new by blast
qed

definition terminating_example :: KaiwoWorkload where
  "terminating_example = with_status example_workload WorkloadStatusTerminating"

lemmas reconcile_run_simps = workload_Reconcile_def GetContextWithConfig_def try_call_def try_unit_def TerminateWorkload_def
  terminated_condition_def SetStatusCondition_def W_Now_def W_UpdateStatus_def W_Event_def DeleteUnderlyingResources_def
  owned_kinds_def controlled_by_def isTerminalStatus_def

lemma terminating_example_run:
  "WDeleteOwned OwnedJob example_owned None \<in> set (history_of (workload_Reconcile owning_api example_wl_ctx terminating_example impl) [])"
  by (simp add: history_of_def reconcile_run_simps terminating_example_def owning_api_def example_wl_api_def example_wl_ctx_def
      example_owned_def example_workload_def example_status_spec_def)

theorem workload_deletions_justified_witness:
  "\<exists>new. history_of (workload_Reconcile owning_api example_wl_ctx terminating_example (BatchJobHandler example_job_spec)) [] = new \<and>
     WDeleteOwned OwnedJob example_owned None \<in> set new \<and>
     (\<exists>w0 w1. WUpdateStatus w0 (Inr w1) \<in> set new \<and> status_of w0 = WorkloadStatusTerminated \<and> owned_by (kw_uid w1) example_owned)"
  using workload_deletions_justified [of owning_api example_wl_ctx terminating_example "BatchJobHandler example_job_spec" "[]"] terminating_example_run [of "BatchJobHandler example_job_spec"]
  by fastforce

text \<open>
  Termination deletes exactly what the workload owns. When the server accepts the status, always lists the
  same objects and accepts every deletion, an object is deleted if and only if it is listed and a reference
  to the workload controls it; when there is none the termination reports an error, with the status
  \<open>TERMINATED\<close> already written.
\<close>

theorem TerminateWorkload_deletes_owned:
  assumes "\<And>h w'. w_updateStatus api h w' = Inr w'" and "\<And>h kind obj. w_deleteOwned api h kind obj = None"
    and "\<And>h kind. w_listOwned api h kind (kw_namespace w) = Inr (items kind)"
  shows "\<exists>new. history_of (TerminateWorkload api cx w) h = h @ new \<and>
    (\<exists>w' r. WUpdateStatus w' r \<in> set new \<and> status_of w' = WorkloadStatusTerminated) \<and>
    (\<forall>kind obj r. WDeleteOwned kind obj r \<in> set new \<longleftrightarrow> r = None \<and> obj \<in> set (items kind) \<and> owned_by (kw_uid w) obj) \<and>
    (result_of (TerminateWorkload api cx w) h = Inr () \<longleftrightarrow> (\<exists>kind obj. obj \<in> set (items kind) \<and> owned_by (kw_uid w) obj))"
proof -
  let ?w = "with_status w WorkloadStatusTerminated"
  obtain condition cs where tc: "terminated_condition cx (conditions_of ?w) = (condition, cs)" by fastforce
  let ?now = "w_now api h" and ?w1 = "with_conditions ?w (mt_set cx (w_now api h) cs condition)"
  let ?some = "\<exists>kind obj. obj \<in> set (items kind) \<and> owned_by (kw_uid w) obj"
  let ?h1 = "h @ [WNow ?now, WUpdateStatus ?w1 (Inr ?w1)]"
  let ?res = "if ?some then Inr () else Inl (Failed (OtherError (''no owned resources found to delete for '' @ kw_name w)))"
  obtain new where new: "run_state (DeleteUnderlyingResources api (kw_uid w) (kw_name w) (kw_namespace w)) ?h1 = (?res, ?h1 @ new)"
    and del: "\<And>kind obj r. WDeleteOwned kind obj r \<in> set new \<longleftrightarrow> r = None \<and> obj \<in> set (items kind) \<and> owned_by (kw_uid w) obj"
    using DeleteUnderlyingResources_run [OF assms(2,3), of "kw_uid w" "kw_name w" ?h1] by blast
  have run: "run_state (TerminateWorkload api cx w) h = (?res, ?h1 @ new @
      (if ?some then [WRecord (workload_key w) EventTypeWarning (c_reason condition) (c_message condition)] else []))"
    unfolding TerminateWorkload_def Let_def tc prod.case using new
    by (simp add: SetStatusCondition_def W_Now_def W_UpdateStatus_def try_call_def assms(1) W_Event_def workload_key_def)
  show ?thesis
    unfolding history_of_def result_of_def run
    by (intro exI [of _ "[WNow ?now, WUpdateStatus ?w1 (Inr ?w1)] @ new @
          (if ?some then [WRecord (workload_key w) EventTypeWarning (c_reason condition) (c_message condition)] else [])"] conjI allI)
       (use del in auto)
qed

theorem TerminateWorkload_deletes_owned_witness:
  "\<exists>new. history_of (TerminateWorkload owning_api example_wl_ctx terminating_example) [] = new \<and>
     WDeleteOwned OwnedJob example_owned None \<in> set new \<and> WDeleteOwned OwnedPvc example_owned None \<notin> set new"
proof -
  have owned: "owned_by (kw_uid terminating_example) example_owned"
    by (simp add: terminating_example_def example_workload_def example_owned_def controlled_by_def)
  show ?thesis
    using TerminateWorkload_deletes_owned [of owning_api terminating_example "\<lambda>kind. if kind = OwnedJob then [example_owned] else []"
        example_wl_ctx "[]"] owned
    by (auto simp: owning_api_def example_wl_api_def split: if_splits)
qed

text \<open>
  C20: When the workload itself is created. A reconciliation creates or updates the job, Ray job, deployment or
  AppWrapper only while the stored status is new, pending, starting or running; and if the workload has
  storage and something to download, only after it has read, in the same reconciliation, that the download job is
  complete.
\<close>

theorem workload_created_after_downloads:
  "\<exists>new. history_of (workload_Reconcile api cx w impl) h = h @ new \<and>
    (\<forall>d r. WCreateOrPatch d r \<in> set new \<and> \<not> storage_object d \<longrightarrow>
       status_of w \<in> {WorkloadStatusNew, WorkloadStatusPending, WorkloadStatusStarting, WorkloadStatusRunning} \<and>
       (NewStorageHandler w \<noteq> None \<and> HasDownloads (cms_storage (kw_spec w)) \<longrightarrow>
          download_seen_complete (workload_key w) (status_of w) new))"
proof -
  obtain new where new: "history_of (workload_Reconcile api cx w impl) h = h @ new"
    and trace: "workload_trace cx w (result_of (workload_Reconcile api cx w impl) h) new"
    using workload_Reconcile_trace by (rule doesD)
  have "status_of w \<in> {WorkloadStatusNew, WorkloadStatusPending, WorkloadStatusStarting, WorkloadStatusRunning} \<and>
       (NewStorageHandler w \<noteq> None \<and> HasDownloads (cms_storage (kw_spec w)) \<longrightarrow> download_seen_complete (workload_key w) (status_of w) new)"
    if d: "WCreateOrPatch d r \<in> set new" and storage: "\<not> storage_object d" for d r
    using trace
  proof (cases rule: workload_traceE)
    case (terminating config rest)
    with d show ?thesis using termination_trace_events [of w rest] by fastforce
  next
    case (active config rest)
    from active(4) show ?thesis
    proof (cases rule: active_traceE)
      case (failed e)
      with d active(3) show ?thesis by (auto dest: reads_no_write)
    next
      case (transition obs rest' s cs)
      with d active(3) show ?thesis by (auto dest: reads_no_write simp: observation_report_def list_all_iff)
    next
      case (settled obs ensure rest' cs)
      from d active(3) settled(1) consider "WCreateOrPatch d r \<in> set obs" | "WCreateOrPatch d r \<in> set ensure" | "WCreateOrPatch d r \<in> set rest'" by auto
      then show ?thesis
      proof cases
        case 1 with settled(2) show ?thesis by (auto dest: reads_no_write simp: observation_report_def)
      next
        case 3 with settled(5) show ?thesis unfolding cleanup_ok_def by fastforce
      next
        case 2
        with settled(4) storage have s: "isActiveStatus (status_of w)" "status_of w \<noteq> WorkloadStatusDownloading" by (auto simp: list_all_iff)
        moreover have "download_seen_complete (workload_key w) (status_of w) new"
          if "NewStorageHandler w \<noteq> None \<and> HasDownloads (cms_storage (kw_spec w))"
          using settled(2) s that active(3) settled(1)
          by (auto simp: observation_report_def isActiveStatus_def elim: download_seen_complete_mono)
        ultimately show ?thesis by (auto simp: isActiveStatus_def)
      qed
    qed
  qed (use d in auto)
  with new show ?thesis by blast
qed

definition pending_example :: KaiwoWorkload where
  "pending_example = with_conditions (with_status example_workload WorkloadStatusPending)
     [new_condition WorkloadAdmittedType CondFalse ''Pending'' (''Workload is pending admission into '' @ [CHR 0x27] @ ''kaiwo'' @ [CHR 0x27]),
      schedulable_condition CondTrue Schedulable ''Workload does not require GPU resources'']"

definition creates_workload :: "wl_event \<Rightarrow> bool" where
  "creates_workload e = (case e of WCreateOrPatch d _ \<Rightarrow> \<not> storage_object d | _ \<Rightarrow> False)"

lemma creates_workload_iff: "creates_workload e \<longleftrightarrow> (\<exists>d r. e = WCreateOrPatch d r \<and> \<not> storage_object d)"
  by (cases e) (auto simp: creates_workload_def)

lemma pending_example_run:
  "list_ex creates_workload
     (history_of (workload_Reconcile example_wl_api example_wl_ctx pending_example (BatchJobHandler example_job_spec)) [])"
  by code_simp

theorem workload_created_after_downloads_witness:
  "\<exists>d r. WCreateOrPatch d r \<in> set (history_of (workload_Reconcile example_wl_api example_wl_ctx pending_example (BatchJobHandler example_job_spec)) []) \<and>
     \<not> storage_object d \<and> status_of pending_example \<in> {WorkloadStatusNew, WorkloadStatusPending, WorkloadStatusStarting, WorkloadStatusRunning}"
proof -
  let ?h = "history_of (workload_Reconcile example_wl_api example_wl_ctx pending_example (BatchJobHandler example_job_spec)) []"
  obtain d r where "WCreateOrPatch d r \<in> set ?h" "\<not> storage_object d"
    using pending_example_run by (auto simp: list_ex_iff creates_workload_iff)
  with workload_created_after_downloads [of example_wl_api example_wl_ctx pending_example "BatchJobHandler example_job_spec" "[]"]
  show ?thesis by auto
qed

lemma workload_trace_writes:
  assumes trace: "workload_trace cx w got new" and u: "WUpdateStatus w' r \<in> set new"
  shows "\<not> isTerminalStatus (status_of w) \<and>
      (status_of w = WorkloadStatusTerminating \<and> terminated_workload w w' \<or>
       (\<exists>st. w' = w\<lparr>kw_status := st\<rparr> \<and> (css_status st = WorkloadStatusTerminating \<longrightarrow>
          (\<exists>config. WGetConfig (Inr config) \<in> set new \<and> preemption_evidence cx config w new))) \<or>
       status_of w = WorkloadStatusPending \<and>
         (\<exists>kind ws p. WListWorkloads kind (Inr ws) \<in> set new \<and> p \<in> set ws \<and> flagged cx p w'))"
  using trace
proof (cases rule: workload_traceE)
  case (terminating config rest)
  with u termination_trace_events [of w rest] show ?thesis by (fastforce simp: isTerminalStatus_def)
next
  case (active config rest)
  from active(4) show ?thesis
  proof (cases rule: active_traceE)
    case (failed e)
    with u active(3) show ?thesis by (auto dest: reads_no_write)
  next
    case (transition obs rest' s cs)
    with u active(3) have "transition_of cx w s cs w'" by (auto dest: reads_no_write simp: observation_report_def list_all_iff)
    moreover have "preemption_evidence cx config w new" if "s = WorkloadStatusTerminating"
      using transition(1,2) that active(3) by (auto simp: observation_report_def elim!: preemption_evidence_mono)
    moreover have "WGetConfig (Inr config) \<in> set new" using active(3) by simp
    ultimately show ?thesis using active(1) unfolding transition_of_def by blast
  next
    case (settled obs ensure rest' cs)
    from u active(3) settled(1) consider "WUpdateStatus w' r \<in> set obs" | "WUpdateStatus w' r \<in> set ensure" | "WUpdateStatus w' r \<in> set rest'" by auto
    then show ?thesis
    proof cases
      case 1 with settled(2) show ?thesis by (auto dest: reads_no_write simp: observation_report_def)
    next
      case 2 with settled(4) show ?thesis by (auto simp: list_all_iff)
    next
      case 3
      then have "\<not> list_all reads rest'" by (auto dest: reads_no_write)
      with settled(6) have "status_of w = WorkloadStatusPending" by blast
      moreover from settled(5) 3 obtain kind ws p where "WListWorkloads kind (Inr ws) \<in> set rest'" "p \<in> set ws" "flagged cx p w'"
        unfolding cleanup_ok_def by fastforce
      moreover have "set rest' \<subseteq> set new" using active(3) settled(1) by auto
      ultimately show ?thesis using active(1) by blast
    qed
  qed
qed (use u in auto)




definition underutilized_example :: KaiwoWorkload where
  "underutilized_example = with_conditions (with_status example_workload WorkloadStatusRunning)
     [new_condition KaiwoResourceUtilizationType CondFalse ''GpuUtilizationNormal'' []]"


end
