(* ===== verification/MetricsWatcher.thy ===== *)
theory MetricsWatcher
  imports WorkloadReconcile
begin

text \<open>
  The resource monitor, \<^verbatim>\<open>pkg/utils/monitoring/metrics.go\<close>: it scrapes the GPU activity of all pods, finds the Kaiwo
  workloads behind them, records in a condition whether their GPUs are underutilized and flags a workload for
  termination when that has lasted too long. The HTTP request with the Prometheus parser is one call
  (\<open>WScrape\<close>, whose answer maps the names of the metric families to their samples); the ticker is not modelled, one
  tick is.
\<close>

section \<open>Configuration\<close>

definition EnvMonitoringEnabled :: string where "EnvMonitoringEnabled = ''RESOURCE_MONITORING_ENABLED''"
definition EnvMetricsEndpoint :: string where "EnvMetricsEndpoint = ''RESOURCE_MONITORING_METRICS_ENDPOINT''"
definition EnvPollingInterval :: string where "EnvPollingInterval = ''RESOURCE_MONITORING_POLLING_INTERVAL''"

text \<open>\<^verbatim>\<open>os.Getenv\<close> returns the empty string for a variable that is not set.\<close>

definition IsMetricsMonitoringEnabled :: "(string \<Rightarrow> string) \<Rightarrow> bool" where
  "IsMetricsMonitoringEnabled env_of \<longleftrightarrow> env_of EnvMonitoringEnabled = ''true''"

definition ParseIntervalFromEnv :: "(string \<Rightarrow> string) \<Rightarrow> (string \<Rightarrow> int option) \<Rightarrow> string \<Rightarrow> int option" where
  "ParseIntervalFromEnv env_of parse_duration envVar =
     (let interval = env_of envVar in if interval = [] then None else parse_duration interval)"

record MetricsWatcher =
  mw_metricsEndpoint :: string
  mw_pollInterval :: int

definition NewMetricsWatcher :: "string \<Rightarrow> int \<Rightarrow> MetricsWatcher" where
  "NewMetricsWatcher endpoint pollInterval = \<lparr>mw_metricsEndpoint = endpoint, mw_pollInterval = pollInterval\<rparr>"

definition NewMetricsWatcherFromEnv :: "(string \<Rightarrow> string) \<Rightarrow> (string \<Rightarrow> int option) \<Rightarrow> MetricsWatcher option" where
  "NewMetricsWatcherFromEnv env_of parse_duration =
     (let endpoint = env_of EnvMetricsEndpoint in
      if endpoint = [] then None
      else map_option (NewMetricsWatcher endpoint) (ParseIntervalFromEnv env_of parse_duration EnvPollingInterval))"

section \<open>Samples\<close>

record GpuMetricsEntry =
  me_namespace :: string
  me_podName :: string
  me_containerName :: string
  me_gpuID :: string
  me_gpuPartitionID :: string
  me_utilization :: rat
  me_associatedPod :: "Pod option"

definition entry_key :: "GpuMetricsEntry \<Rightarrow> string" where
  "entry_key entry = me_namespace entry @ ''/'' @ me_podName entry"

definition entry_IsValid :: "GpuMetricsEntry \<Rightarrow> bool" where
  "entry_IsValid entry \<longleftrightarrow> me_namespace entry \<noteq> [] \<and> me_podName entry \<noteq> [] \<and> me_gpuID entry \<noteq> [] \<and>
     me_gpuPartitionID entry \<noteq> [] \<and> me_containerName entry \<noteq> []"

definition parseLabels :: "MetricSample \<Rightarrow> string gomap" where
  "parseLabels metric = foldl (\<lambda>m (k, v). AList.update k v m) [] (ms_labels metric)"

text \<open>A sample that is no gauge makes the code dereference a nil pointer.\<close>

definition sample_entry :: "MetricSample \<Rightarrow> GpuMetricsEntry option" where
  "sample_entry m = map_option (\<lambda>u. (let labels = parseLabels m in
     \<lparr>me_namespace = map_get [] labels ''namespace'', me_podName = map_get [] labels ''pod'',
      me_containerName = map_get [] labels ''container'', me_gpuID = map_get [] labels ''gpu_id'',
      me_gpuPartitionID = map_get [] labels ''gpu_partition_id'', me_utilization = u, me_associatedPod = None\<rparr>)) (ms_gauge m)"

definition targeted :: "KaiwoConfigSpec \<Rightarrow> GpuMetricsEntry \<Rightarrow> bool" where
  "targeted config entry \<longleftrightarrow> entry_IsValid entry \<and>
     (let targetNamespaces = rm_targetNamespaces (kcs_resourceMonitoring config)
      in targetNamespaces = [] \<or> me_namespace entry \<in> set targetNamespaces)"

text \<open>One entry per pod: of several GPUs of a pod the last sample stays.\<close>

fun filter_pods :: "KaiwoConfigSpec \<Rightarrow> MetricSample list \<Rightarrow> GpuMetricsEntry gomap \<Rightarrow> GpuMetricsEntry gomap option" where
  "filter_pods config [] kaiwoPods = Some kaiwoPods"
| "filter_pods config (m # ms) kaiwoPods = (case sample_entry m of
      None \<Rightarrow> None
    | Some entry \<Rightarrow> filter_pods config ms
        (if targeted config entry then AList.update (entry_key entry) entry kaiwoPods else kaiwoPods))"

text \<open>\<open>None\<close> is a panic; a missing metric family is a nil pointer, whose samples cannot be read.\<close>

definition filterForKaiwoPods :: "KaiwoConfigSpec \<Rightarrow> MetricSample list option \<Rightarrow> GpuMetricsEntry gomap option" where
  "filterForKaiwoPods config metrics = Option.bind metrics (\<lambda>ms. filter_pods config ms [])"

section \<open>Workloads\<close>

text \<open>The entry is appended to what is stored under the key of the pod, not under the identifier of the workload.\<close>

fun fetch_loop :: "WlApi \<Rightarrow> GpuMetricsEntry list \<Rightarrow> GpuMetricsEntry list gomap \<Rightarrow> GpuMetricsEntry list gomap wl_prog" where
  "fetch_loop api [] kaiwoWorkloads = ret (Inr kaiwoWorkloads)"
| "fetch_loop api (entry # rest) kaiwoWorkloads = (
     let key = \<lparr>key_name = me_podName entry, key_namespace = me_namespace entry\<rparr> in do {
       r \<leftarrow> call (\<lambda>h. w_getPod api h key) (WGetPod key);
       (case r of
          Inl e \<Rightarrow> if e = NotFound then fetch_loop api rest kaiwoWorkloads else ret (Inl (Failed e))
        | Inr pod \<Rightarrow> (case map_of (pod_labels pod) KaiwoRunIdLabel of
            None \<Rightarrow> fetch_loop api rest kaiwoWorkloads
          | Some kaiwoWorkloadId \<Rightarrow> (
              let entry' = entry\<lparr>me_associatedPod := Some pod\<rparr>;
                  ws = (if has_key kaiwoWorkloads kaiwoWorkloadId then kaiwoWorkloads
                        else AList.update kaiwoWorkloadId [] kaiwoWorkloads)
              in fetch_loop api rest (AList.update kaiwoWorkloadId (map_get [] ws (entry_key entry) @ [entry']) ws))))
     })"

definition fetchKaiwoWorkloads :: "WlApi \<Rightarrow> WlCtx \<Rightarrow> GpuMetricsEntry gomap \<Rightarrow> GpuMetricsEntry list gomap wl_prog" where
  "fetchKaiwoWorkloads api cx kaiwoPods =
     fetch_loop api (List.map_filter (map_of kaiwoPods) (wx_mapOrder cx (map fst kaiwoPods))) []"

definition GetKaiwoWorkload :: "WlApi \<Rightarrow> string \<Rightarrow> string \<Rightarrow> string \<Rightarrow> KaiwoWorkload wl_prog" where
  "GetKaiwoWorkload api name namespace workloadType = (
     let key = \<lparr>key_name = name, key_namespace = namespace\<rparr> in
     if workloadType = ''job''
     then bindE (try_call (\<lambda>h. w_getKaiwoJob api h key) (WGetKaiwoJob key)) (\<lambda>(w, _). ret (Inr w))
     else if workloadType = ''service''
     then bindE (try_call (\<lambda>h. w_getKaiwoService api h key) (WGetKaiwoService key)) (\<lambda>(w, _). ret (Inr w))
     else ret (Inl (Failed (OtherError (''workload type '' @ workloadType @ '' not recognized'')))))"

definition GpuResourceUtilizationNormal :: string where "GpuResourceUtilizationNormal = ''GpuUtilizationNormal''"
definition GpuResourceUtilizationLow :: string where "GpuResourceUtilizationLow = ''GpuUtilizationLow''"

text \<open>The condition is false when the workload is healthy.\<close>

definition healthyString :: "bool \<Rightarrow> condition_status" where
  "healthyString healthy = (if healthy then CondFalse else CondTrue)"

text \<open>The type switch over jobs and services has no other case here. An accepted write replaces the object.\<close>

definition syncKaiwoStatus :: "WlApi \<Rightarrow> WlCtx \<Rightarrow> KaiwoWorkload \<Rightarrow> string \<Rightarrow> string \<Rightarrow> bool \<Rightarrow> KaiwoWorkload wl_prog" where
  "syncKaiwoStatus api cx w reason msg healthy =
     bindE (W_Now api) (\<lambda>now.
     bindE (SetStatusCondition api cx (conditions_of w)
              ((new_condition KaiwoResourceUtilizationType (healthyString healthy) reason msg)\<lparr>c_lastTransitionTime := now\<rparr>)) (\<lambda>cs.
     W_UpdateStatus api (with_conditions w cs)))"

definition flagIfUnderutilized :: "WlApi \<Rightarrow> WlCtx \<Rightarrow> KaiwoConfigSpec \<Rightarrow> KaiwoWorkload \<Rightarrow> unit wl_prog" where
  "flagIfUnderutilized api cx config w =
     bindE (SetEarlyTerminationIfLowUtilizationThresholdExceeded api cx config w) (\<lambda>(_, w').
     bindE (W_UpdateStatus api w') (\<lambda>_. ret (Inr ())))"

definition underutilizing :: "KaiwoConfigSpec \<Rightarrow> GpuMetricsEntry \<Rightarrow> bool" where
  "underutilizing config entry \<longleftrightarrow> me_utilization entry < rm_lowUtilizationThreshold (kcs_resourceMonitoring config)"

fun report_underutilizing :: "KaiwoWorkload \<Rightarrow> GpuMetricsEntry list \<Rightarrow> unit wl_prog" where
  "report_underutilizing w [] = ret (Inr ())"
| "report_underutilizing w (entry # rest) =
     bindE (W_Event w EventTypeWarning GpuResourceUtilizationLow
       (''Pod '' @ [CHR 0x27] @ me_podName entry @ [CHR 0x27] @ '' is underutilizing GPU '' @ me_gpuID entry @ ''/'' @ me_gpuPartitionID entry))
       (\<lambda>_. report_underutilizing w rest)"

definition is_finishing :: "WorkloadStatus \<Rightarrow> bool" where
  "is_finishing s \<longleftrightarrow> s = WorkloadStatusTerminating \<or> s = WorkloadStatusTerminated \<or> s = WorkloadStatusFailed \<or> s = WorkloadStatusComplete"

definition handle_found :: "WlApi \<Rightarrow> WlCtx \<Rightarrow> KaiwoConfigSpec \<Rightarrow> GpuMetricsEntry list \<Rightarrow> KaiwoWorkload \<Rightarrow> unit wl_prog" where
  "handle_found api cx config entries w =
     (if is_finishing (status_of w) then ret (Inr ())
      else let low = filter (underutilizing config) entries in
        bindE (report_underutilizing w low) (\<lambda>_.
        bindE (if low \<noteq> []
               then syncKaiwoStatus api cx w GpuResourceUtilizationLow ''One or more GPUs are underutilizing requested resources'' False
               else syncKaiwoStatus api cx w GpuResourceUtilizationNormal ''GPU utilization is normal'' True) (\<lambda>w'.
          if rm_terminateUnderutilized (kcs_resourceMonitoring config) then flagIfUnderutilized api cx config w' else ret (Inr ()))))"

text \<open>A workload that is gone is passed over; any other failure ends the loop.\<close>

definition handle_workload :: "WlApi \<Rightarrow> WlCtx \<Rightarrow> KaiwoConfigSpec \<Rightarrow> GpuMetricsEntry list \<Rightarrow> unit wl_prog" where
  "handle_workload api cx config entries = (case entries of
      [] \<Rightarrow> ret (Inl Panicked)
    | entry # _ \<Rightarrow> (case me_associatedPod entry of
        None \<Rightarrow> ret (Inl Panicked)
      | Some pod \<Rightarrow> do {
          r \<leftarrow> GetKaiwoWorkload api (map_get [] (pod_labels pod) KaiwoNameLabel) (pod_namespace pod)
                 (map_get [] (pod_labels pod) KaiwoTypeLabel);
          (case r of
             Inl e \<Rightarrow> ret (if e = Failed NotFound then Inr () else Inl e)
           | Inr w \<Rightarrow> handle_found api cx config entries w)
        }))"

fun handle_loop :: "WlApi \<Rightarrow> WlCtx \<Rightarrow> KaiwoConfigSpec \<Rightarrow> GpuMetricsEntry list list \<Rightarrow> unit wl_prog" where
  "handle_loop api cx config [] = ret (Inr ())"
| "handle_loop api cx config (entries # rest) =
     bindE (handle_workload api cx config entries) (\<lambda>_. handle_loop api cx config rest)"

definition handleKaiwoWorkloads :: "WlApi \<Rightarrow> WlCtx \<Rightarrow> KaiwoConfigSpec \<Rightarrow> GpuMetricsEntry list gomap \<Rightarrow> unit wl_prog" where
  "handleKaiwoWorkloads api cx config kaiwoWorkloads =
     handle_loop api cx config (List.map_filter (map_of kaiwoWorkloads) (wx_mapOrder cx (map fst kaiwoWorkloads)))"

section \<open>Polling\<close>

definition pollMetrics :: "WlApi \<Rightarrow> WlCtx \<Rightarrow> MetricsWatcher \<Rightarrow> KaiwoConfigSpec \<Rightarrow> unit wl_prog" where
  "pollMetrics api cx m config =
     bindE (try_call (\<lambda>h. w_scrape api h (mw_metricsEndpoint m)) (WScrape (mw_metricsEndpoint m))) (\<lambda>metrics.
     bindE (or_panic (filterForKaiwoPods config (map_of metrics ''gpu_gfx_activity''))) (\<lambda>kaiwoPods.
     bindE (fetchKaiwoWorkloads api cx kaiwoPods) (\<lambda>kaiwoWorkloads.
     handleKaiwoWorkloads api cx config kaiwoWorkloads)))"

text \<open>One tick: errors are logged and the loop goes on; a panic ends the operator.\<close>

definition watcher_tick :: "WlApi \<Rightarrow> WlCtx \<Rightarrow> MetricsWatcher \<Rightarrow> bool wl_prog" where
  "watcher_tick api cx m = do {
     c \<leftarrow> GetContextWithConfig api;
     (case c of
        Inl _ \<Rightarrow> ret (Inr True)
      | Inr config \<Rightarrow> do {
          r \<leftarrow> pollMetrics api cx m config;
          ret (case r of Inl Panicked \<Rightarrow> Inl Panicked | _ \<Rightarrow> Inr True)
        })
   }"

section \<open>The writes of a poll\<close>

definition handed_out :: "wl_event list \<Rightarrow> KaiwoWorkload \<Rightarrow> bool" where
  "handed_out new w \<longleftrightarrow> (\<exists>k s. WGetKaiwoJob k (Inr (w, s)) \<in> set new) \<or> (\<exists>k s. WGetKaiwoService k (Inr (w, s)) \<in> set new)"

definition idle_too_long :: "WlCtx \<Rightarrow> KaiwoConfigSpec \<Rightarrow> wl_event list \<Rightarrow> KaiwoWorkload \<Rightarrow> bool" where
  "idle_too_long cx config new w \<longleftrightarrow> (\<exists>c allowed now. low_utilization_since cx w = Some c \<and>
     wx_parseDuration cx (rm_terminateUnderutilizedAfter (kcs_resourceMonitoring config)) = Some allowed \<and>
     WNow now \<in> set new \<and> now - c_lastTransitionTime c > allowed)"

text \<open>The two writes for a workload \<open>w\<close>: its utilization condition, and on what the server answered the flag.\<close>

definition monitor_write :: "WlCtx \<Rightarrow> KaiwoConfigSpec \<Rightarrow> KaiwoWorkload \<Rightarrow> wl_event list \<Rightarrow> KaiwoWorkload \<Rightarrow> bool" where
  "monitor_write cx config w new w' \<longleftrightarrow> \<not> is_finishing (status_of w) \<and>
     ((\<exists>cs. w' = with_conditions w cs) \<or>
      (rm_terminateUnderutilized (kcs_resourceMonitoring config) \<and>
       (\<exists>cs w1. WUpdateStatus (with_conditions w cs) (Inr w1) \<in> set new \<and>
          (w' = w1 \<or> idle_too_long cx config new w1 \<and> (\<exists>cs'. w' = with_conditions (with_status w1 WorkloadStatusTerminating) cs')))))"

lemma monitor_write_mono: "monitor_write cx config w n w' \<Longrightarrow> set n \<subseteq> set n' \<Longrightarrow> monitor_write cx config w n' w'"
  unfolding monitor_write_def idle_too_long_def by blast

lemma monitor_write_append:
  "monitor_write cx config w n w' \<Longrightarrow> monitor_write cx config w (n @ n') w'"
  "monitor_write cx config w n' w' \<Longrightarrow> monitor_write cx config w (n @ n') w'"
  by (erule monitor_write_mono, simp)+

text \<open>Nothing is created or deleted.\<close>

definition no_change :: "wl_event \<Rightarrow> bool" where
  "no_change e = (case e of WDeleteOwned _ _ _ \<Rightarrow> False | WCreateOrPatch _ _ \<Rightarrow> False | WCreateLocalQueue _ _ \<Rightarrow> False | _ \<Rightarrow> True)"

definition found_trace :: "WlCtx \<Rightarrow> KaiwoConfigSpec \<Rightarrow> KaiwoWorkload \<Rightarrow> wl_event list \<Rightarrow> bool" where
  "found_trace cx config w new \<longleftrightarrow>
     list_all no_change new \<and> (\<forall>w' r. WUpdateStatus w' r \<in> set new \<longrightarrow> monitor_write cx config w new w')"

definition poll_trace :: "WlCtx \<Rightarrow> KaiwoConfigSpec \<Rightarrow> wl_event list \<Rightarrow> bool" where
  "poll_trace cx config new \<longleftrightarrow>
     list_all no_change new \<and> (\<forall>w' r. WUpdateStatus w' r \<in> set new \<longrightarrow> (\<exists>w. handed_out new w \<and> monitor_write cx config w new w'))"

definition quiet_event :: "wl_event \<Rightarrow> bool" where
  "quiet_event e \<longleftrightarrow> reads e \<or> (\<exists>k et s m. e = WRecord k et s m)"

lemma quiet_event_facts: "quiet_event e \<Longrightarrow> no_change e" "quiet_event e \<Longrightarrow> e \<noteq> WUpdateStatus w r"
  unfolding quiet_event_def no_change_def reads_def by (auto split: wl_event.splits)

lemma no_change_update [simp]: "no_change (WUpdateStatus w r)"
  by (simp add: no_change_def)

lemma found_trace_quiet: "list_all quiet_event new \<Longrightarrow> found_trace cx config w new"
  unfolding found_trace_def list_all_iff using quiet_event_facts by blast

lemma poll_trace_quiet: "list_all quiet_event new \<Longrightarrow> poll_trace cx config new"
  unfolding poll_trace_def list_all_iff using quiet_event_facts by blast

lemma found_trace_append:
  "found_trace cx config w n1 \<Longrightarrow> found_trace cx config w n2 \<Longrightarrow> found_trace cx config w (n1 @ n2)"
  unfolding found_trace_def list_all_append set_append by (blast intro: monitor_write_append)

lemma handed_out_append: "handed_out n w \<Longrightarrow> handed_out (n @ n') w" "handed_out n' w \<Longrightarrow> handed_out (n @ n') w"
  unfolding handed_out_def set_append by blast+

lemma poll_trace_append: "poll_trace cx config n1 \<Longrightarrow> poll_trace cx config n2 \<Longrightarrow> poll_trace cx config (n1 @ n2)"
  unfolding poll_trace_def list_all_append set_append by (blast intro: monitor_write_append handed_out_append)

interpretation polled: trace_property "poll_trace cx config" for cx config
  by unfold_locales (simp add: poll_trace_def, rule poll_trace_append)

lemma emits_polled: "emits quiet_event m \<Longrightarrow> polled.always cx config m"
  unfolding emits_def polled.always_def by (erule does_mono) (rule poll_trace_quiet)

lemma quiet_event_simps [simp]: "quiet_event (WNow t)" "quiet_event (WRecord k et s m)" "reads e \<Longrightarrow> quiet_event e"
  by (simp_all add: quiet_event_def)

lemma report_underutilizing_events: "emits quiet_event (report_underutilizing w low)"
  by (induction low) (auto intro!: emits_intros)

lemma syncKaiwoStatus_trace:
  "does (\<lambda>r new. (\<exists>t1 t2 cs a. new = [WNow t1, WNow t2, WUpdateStatus (with_conditions w cs) a] \<and>
      (\<forall>w1. r = Inr w1 \<longrightarrow> a = Inr w1))) (syncKaiwoStatus api cx w reason msg healthy)"
  unfolding syncKaiwoStatus_def
  by (intro does_bindE does_W_Now does_SetStatusCondition does_W_UpdateStatus, simp,
      intro does_bindE does_W_Now does_SetStatusCondition does_W_UpdateStatus, simp,
      intro does_bindE does_W_Now does_SetStatusCondition does_W_UpdateStatus, simp_all) blast+

lemma SetEarlyTermination_does:
  "(\<And>now cs. Q (Inr (with_conditions (with_status w WorkloadStatusTerminating) cs)) [WNow now]) \<Longrightarrow>
   does Q (SetEarlyTermination api cx w reason message)"
  unfolding SetEarlyTermination_def by (intro does_bindE does_SetStatusCondition) (simp add: does_return)

lemma flagged_workload:
  "does (\<lambda>r new. list_all reads new \<and> (\<forall>b w'. r = Inr (b, w') \<longrightarrow>
      w' = w1 \<or> idle_too_long cx config new w1 \<and> (\<exists>cs. w' = with_conditions (with_status w1 WorkloadStatusTerminating) cs)))
    (SetEarlyTerminationIfLowUtilizationThresholdExceeded api cx config w1)"
  unfolding SetEarlyTerminationIfLowUtilizationThresholdExceeded_def
proof (intro does_case_option does_return does_bindE does_or_panic, goal_cases)
  case (3 c allowed)
  have "does (\<lambda>r new. list_all reads ([WNow now] @ new) \<and> (\<forall>b w'. r = Inr (b, w') \<longrightarrow>
      w' = w1 \<or> idle_too_long cx config ([WNow now] @ new) w1 \<and> (\<exists>cs. w' = with_conditions (with_status w1 WorkloadStatusTerminating) cs)))
    (if now - c_lastTransitionTime c > allowed
     then bindE (SetEarlyTermination api cx w1 (c_reason c) ''Terminating workload due to underutilized GPU resources'')
            (\<lambda>w. ret (Inr (True, w))) else ret (Inr (False, w1)))" for now
    using 3 by (intro does_if does_bindE SetEarlyTermination_does does_return) (auto intro!: does_return simp: idle_too_long_def)
  then show ?case by (simp only: sum.case append_Nil) (intro does_bindE does_W_Now, simp only: sum.case)
qed auto

lemma flagIfUnderutilized_trace:
  assumes "WUpdateStatus (with_conditions w cs) (Inr w1) \<in> set n1" and "\<not> is_finishing (status_of w)"
    and "rm_terminateUnderutilized (kcs_resourceMonitoring config)" and "found_trace cx config w n1"
  shows "does (\<lambda>_ n2. found_trace cx config w (n1 @ n2)) (flagIfUnderutilized api cx config w1)"
proof -
  let ?flag = "\<lambda>n w'. w' = w1 \<or> idle_too_long cx config n w1 \<and> (\<exists>cs. w' = with_conditions (with_status w1 WorkloadStatusTerminating) cs)"
  have quiet: "found_trace cx config w (n1 @ n)" if "list_all reads n" for n
    using that by (intro found_trace_append assms found_trace_quiet) (auto simp: list_all_iff)
  have final: "found_trace cx config w (n1 @ n @ [WUpdateStatus w' a])" if "list_all reads n" "?flag n w'" for n w' a
  proof -
    have "monitor_write cx config w (n1 @ n @ [WUpdateStatus w' a]) w'"
      using assms(1-3) that(2) unfolding monitor_write_def idle_too_long_def set_append by blast
    moreover have "monitor_write cx config w ((n1 @ n) @ [WUpdateStatus w' a]) w2" if "WUpdateStatus w2 b \<in> set (n1 @ n)" for w2 b
      using quiet [OF \<open>list_all reads n\<close>] that unfolding found_trace_def by (blast intro: monitor_write_append)
    ultimately show ?thesis
      using quiet [OF that(1)] unfolding found_trace_def by auto
  qed
  show ?thesis
    unfolding flagIfUnderutilized_def
  proof (rule does_seqE [OF flagged_workload], goal_cases)
    case (1 e n)
    then show ?case using quiet by blast
  next
    case (2 x n)
    obtain b w' where x: "x = (b, w')" by (cases x)
    with 2 have "?flag n w'" "list_all reads n" by blast+
    with x show ?case
      by (simp only: prod.case) (intro does_bindE does_W_UpdateStatus; simp only: sum.case; (intro does_return)?; simp add: final)
  qed
qed

lemma handle_found_trace: "does (\<lambda>_. found_trace cx config w) (handle_found api cx config entries w)"
proof -
  have sync: "does (\<lambda>_ n2. found_trace cx config w (n1 @ n2)) (bindE (syncKaiwoStatus api cx w reason msg healthy) (\<lambda>w'.
      if rm_terminateUnderutilized (kcs_resourceMonitoring config) then flagIfUnderutilized api cx config w' else ret (Inr ())))"
    if n1: "list_all quiet_event n1" and w: "\<not> is_finishing (status_of w)" for n1 reason msg healthy
  proof (rule does_seqE [OF syncKaiwoStatus_trace], goal_cases)
    case (1 e n)
    then have "found_trace cx config w n"
      using w by (auto simp: found_trace_def no_change_def monitor_write_def)
    then show ?case by (intro found_trace_append found_trace_quiet [OF n1])
  next
    case (2 w1 n)
    then obtain t1 t2 cs where n: "n = [WNow t1, WNow t2, WUpdateStatus (with_conditions w cs) (Inr w1)]" by blast
    then have "found_trace cx config w n"
      using w by (auto simp: found_trace_def no_change_def monitor_write_def)
    then have "found_trace cx config w (n1 @ n)" by (intro found_trace_append found_trace_quiet [OF n1])
    moreover have "WUpdateStatus (with_conditions w cs) (Inr w1) \<in> set (n1 @ n)" using n by simp
    ultimately show ?case
      unfolding append_assoc [symmetric] using w by (intro does_if does_return flagIfUnderutilized_trace) auto
  qed
  show ?thesis
    unfolding handle_found_def Let_def
  proof (intro does_if does_return, goal_cases)
    case 1
    show ?case by (rule found_trace_quiet) simp
  next
    case 2
    show ?case
      by (rule does_seqE [OF does_emits [OF report_underutilizing_events]])
         (auto intro: found_trace_quiet sync [OF _ 2])
  qed
qed

lemma GetKaiwoWorkload_does:
  "does (\<lambda>r new. list_all reads new \<and> (\<forall>w. r = Inr w \<longrightarrow> handed_out new w)) (GetKaiwoWorkload api name ns t)"
  unfolding GetKaiwoWorkload_def Let_def
  by (intro does_if does_bindE does_try_call does_return) (auto intro!: does_return simp: handed_out_def split: prod.splits)

lemma handle_workload_trace: "polled.always cx config (handle_workload api cx config entries)"
proof -
  have "does (\<lambda>_. poll_trace cx config) (do {
          r \<leftarrow> GetKaiwoWorkload api name ns t;
          (case r of
             Inl e \<Rightarrow> ret (if e = Failed NotFound then Inr () else Inl e)
           | Inr w \<Rightarrow> handle_found api cx config entries w)
        })" for name ns t
  proof (rule does_seq [OF GetKaiwoWorkload_does], intro does_case_sum does_return, goal_cases)
    case (1 r n e)
    then show ?case by (intro poll_trace_quiet) (auto simp: list_all_iff)
  next
    case (2 r n w)
    then have n: "list_all quiet_event n" and w: "handed_out n w" by (auto simp: list_all_iff)
    show ?case
    proof (rule does_mono [OF handle_found_trace])
      fix x n2 assume "found_trace cx config w n2"
      with w show "poll_trace cx config (n @ n2)"
        using found_trace_quiet [OF n, of cx config w] unfolding poll_trace_def found_trace_def set_append list_all_append
        by (blast intro: monitor_write_append handed_out_append)
    qed
  qed
  then show ?thesis
    unfolding handle_workload_def polled.always_def
    by (auto split: list.split option.split intro!: does_return simp: poll_trace_def)
qed

lemma handle_loop_trace: "polled.always cx config (handle_loop api cx config ws)"
  by (induction ws) (auto intro!: polled.always_return polled.always_bindE handle_workload_trace)

lemma fetch_loop_events: "emits quiet_event (fetch_loop api entries ws)"
proof (induction entries arbitrary: ws)
  case Nil
  show ?case by (simp add: emits_return)
next
  case (Cons entry rest)
  show ?case
    by (simp only: fetch_loop.simps) (intro emits_intros Cons, simp)
qed

lemma pollMetrics_trace: "polled.always cx config (pollMetrics api cx m config)"
  unfolding pollMetrics_def fetchKaiwoWorkloads_def handleKaiwoWorkloads_def
  by (intro polled.always_bindE handle_loop_trace emits_polled emits_intros fetch_loop_events) simp_all

section \<open>Properties\<close>

definition stored_as_given :: "wl_event list \<Rightarrow> bool" where
  "stored_as_given new \<longleftrightarrow> (\<forall>w1 w2. WUpdateStatus w1 (Inr w2) \<in> set new \<longrightarrow> status_of w2 = status_of w1)"

definition justified_write :: "WlCtx \<Rightarrow> KaiwoConfigSpec \<Rightarrow> wl_event list \<Rightarrow> KaiwoWorkload \<Rightarrow> bool" where
  "justified_write cx config new w' \<longleftrightarrow> (\<exists>w. handed_out new w \<and> \<not> is_finishing (status_of w) \<and>
     (status_of w' = status_of w \<or>
      status_of w' = WorkloadStatusTerminating \<and> rm_terminateUnderutilized (kcs_resourceMonitoring config) \<and>
      (\<exists>cs w1. WUpdateStatus (with_conditions w cs) (Inr w1) \<in> set new \<and> idle_too_long cx config new w1)))"


text \<open>A pod whose GPU has been idle since the start, observed long after the limit.\<close>

definition idle_sample :: "string \<Rightarrow> rat \<Rightarrow> MetricSample" where
  "idle_sample pod u = \<lparr>ms_labels = [(''namespace'', ''team''), (''pod'', pod), (''container'', ''main''), (''gpu_id'', ''0''),
     (''gpu_partition_id'', ''0'')], ms_gauge = Some u\<rparr>"

definition monitored_pod :: "string \<Rightarrow> Pod" where
  "monitored_pod name = \<lparr>pod_name = name, pod_namespace = ''team'', pod_uid = ''p1'',
     pod_labels = [(KaiwoNameLabel, ''train''), (KaiwoTypeLabel, ''job''), (KaiwoRunIdLabel, ''r1'')], pod_ownerReferences = [],
     pod_phase = PodRunning, pod_conditions = [], pod_containers = [], pod_initContainers = []\<rparr>"

definition idle_job :: KaiwoWorkload where
  "idle_job = with_conditions (with_status example_workload WorkloadStatusRunning)
     [new_condition KaiwoResourceUtilizationType CondTrue GpuResourceUtilizationLow ''idle'']"

definition monitor_api :: "MetricSample list \<Rightarrow> WlApi" where
  "monitor_api samples = example_wl_api\<lparr>w_getKaiwoJob := (\<lambda>_ _. Inr (idle_job, example_job_spec)), w_now := (\<lambda>_. 600000000000),
     w_scrape := (\<lambda>_ _. Inr [(''gpu_gfx_activity'', samples)]), w_getPod := (\<lambda>_ k. Inr (monitored_pod (key_name k)))\<rparr>"

definition monitor_config :: KaiwoConfigSpec where
  "monitor_config = example_config\<lparr>kcs_resourceMonitoring := (kcs_resourceMonitoring example_config)\<lparr>rm_terminateUnderutilized := True\<rparr>\<rparr>"

definition monitor_watcher :: MetricsWatcher where
  "monitor_watcher = NewMetricsWatcher ''http://metrics'' 15"

fun update_status :: "wl_event \<Rightarrow> (WorkloadStatus \<times> WorkloadStatus) list" where
  "update_status (WUpdateStatus w (Inr w')) = [(status_of w, status_of w')]"
| "update_status e = []"

lemma monitor_run:
  "concat (map update_status (history_of (pollMetrics (monitor_api [idle_sample ''p0'' 0]) example_wl_ctx monitor_watcher monitor_config) [])) =
     [(WorkloadStatusRunning, WorkloadStatusRunning), (WorkloadStatusTerminating, WorkloadStatusTerminating)]"
  by code_simp

lemma update_status_iff:
  "(a, b) \<in> set (concat (map update_status new)) \<longleftrightarrow> (\<exists>w w'. WUpdateStatus w (Inr w') \<in> set new \<and> status_of w = a \<and> status_of w' = b)"
proof -
  have "(a, b) \<in> set (update_status e) \<longleftrightarrow> (\<exists>w w'. e = WUpdateStatus w (Inr w') \<and> status_of w = a \<and> status_of w' = b)" for e
    by (cases e rule: update_status.cases) auto
  then show ?thesis by auto
qed


section \<open>The pods of a workload\<close>

definition run_id_ok :: "wl_event \<Rightarrow> bool" where
  "run_id_ok e = (case e of
     WGetPod _ (Inr pod) \<Rightarrow> (case map_of (pod_labels pod) KaiwoRunIdLabel of None \<Rightarrow> True | Some i \<Rightarrow> CHR ''/'' \<notin> set i)
   | _ \<Rightarrow> True)"

definition one_entry_each :: "GpuMetricsEntry list gomap \<Rightarrow> bool" where
  "one_entry_each ws \<longleftrightarrow> (\<forall>i es. map_of ws i = Some es \<longrightarrow> CHR ''/'' \<notin> set i \<and> length es = 1)"

lemma one_entry_each_update:
  assumes "one_entry_each ws" and "CHR ''/'' \<notin> set i" and "CHR ''/'' \<in> set key"
  shows "one_entry_each (AList.update i (map_get [] (if has_key ws i then ws else AList.update i [] ws) key @ [e])
           (if has_key ws i then ws else AList.update i [] ws))"
proof -
  have "map_get [] ws key = []" using assms unfolding one_entry_each_def map_get_def by (auto split: option.split)
  with assms show ?thesis
    unfolding one_entry_each_def by (auto simp: update_conv map_get_update split: if_splits)
qed

lemma fetch_loop_one_entry:
  "one_entry_each ws \<Longrightarrow> does (\<lambda>r new. list_all run_id_ok new \<longrightarrow> (\<forall>ws'. r = Inr ws' \<longrightarrow> one_entry_each ws')) (fetch_loop api entries ws)"
proof (induction entries arbitrary: ws)
  case Nil
  then show ?case by (simp add: does_return)
next
  case (Cons entry rest)
  have go: "does (\<lambda>r new. list_all run_id_ok (n @ new) \<longrightarrow> (\<forall>ws'. r = Inr ws' \<longrightarrow> one_entry_each ws')) (fetch_loop api rest ws')"
    if "list_all run_id_ok n \<longrightarrow> one_entry_each ws'" for n ws'
  proof (cases "list_all run_id_ok n")
    case True
    with that show ?thesis by (auto intro: does_mono [OF Cons.IH])
  next
    case False
    then show ?thesis using fetch_loop_events [of api rest ws'] by (auto simp: emits_def elim: does_mono)
  qed
  have slash: "CHR ''/'' \<in> set (entry_key entry)" by (simp add: entry_key_def)
  show ?case
    unfolding fetch_loop.simps Let_def
    by (intro does_bind does_call does_case_sum does_case_option does_if does_return go impI one_entry_each_update Cons.prems slash)
       (auto simp: run_id_ok_def)
qed

text \<open>
  The monitor looks at one pod of a workload. Label values contain no slash; then, whatever the server answers, the
  grouping of the monitored pods by workload has exactly one pod under every workload it finds, because a new entry
  replaces the list of its workload. So an underutilized pod is overlooked when another pod of the same workload comes later.
\<close>

theorem monitor_sees_one_pod:
  "\<exists>new. history_of (fetchKaiwoWorkloads api cx kaiwoPods) h = h @ new \<and>
     (list_all run_id_ok new \<longrightarrow>
       (\<forall>ws i es. result_of (fetchKaiwoWorkloads api cx kaiwoPods) h = Inr ws \<and> map_of ws i = Some es \<longrightarrow> length es = 1))"
proof -
  have "one_entry_each []" by (simp add: one_entry_each_def)
  then show ?thesis
    unfolding fetchKaiwoWorkloads_def
    by (rule doesD [OF fetch_loop_one_entry]) (auto simp: one_entry_each_def)
qed

definition busy_last :: "MetricSample list" where
  "busy_last = [idle_sample ''p0'' 0, idle_sample ''p1'' 90]"

fun reported_reasons :: "wl_event \<Rightarrow> string list" where
  "reported_reasons (WUpdateStatus w _) = map c_reason (conditions_of w)"
| "reported_reasons e = []"

definition busy_last_pods :: "GpuMetricsEntry gomap" where
  "busy_last_pods = the (filterForKaiwoPods monitor_config (Some busy_last))"

text \<open>One of two pods is idle, and the workload is reported to be normal.\<close>

lemma busy_last_run:
  "list_all run_id_ok (history_of (fetchKaiwoWorkloads (monitor_api busy_last) example_wl_ctx busy_last_pods) [])"
  "length busy_last_pods = 2"
  "(case result_of (fetchKaiwoWorkloads (monitor_api busy_last) example_wl_ctx busy_last_pods) [] of
      Inl _ \<Rightarrow> False | Inr ws \<Rightarrow> map_of ws ''r1'' \<noteq> None)"
  "concat (map reported_reasons (history_of (pollMetrics (monitor_api busy_last) example_wl_ctx monitor_watcher example_config) []))
     = [GpuResourceUtilizationNormal]"
  by code_simp+

theorem monitor_sees_one_pod_witness:
  "\<exists>ws es. length busy_last_pods = 2 \<and> map_of ws ''r1'' = Some es \<and> length es = 1 \<and>
     result_of (fetchKaiwoWorkloads (monitor_api busy_last) example_wl_ctx busy_last_pods) [] = Inr ws \<and>
     concat (map reported_reasons (history_of (pollMetrics (monitor_api busy_last) example_wl_ctx monitor_watcher example_config) []))
       = [GpuResourceUtilizationNormal]"
proof -
  obtain ws es where "result_of (fetchKaiwoWorkloads (monitor_api busy_last) example_wl_ctx busy_last_pods) [] = Inr ws"
      "map_of ws ''r1'' = Some es"
    using busy_last_run(3) by (auto split: sum.splits)
  moreover from this monitor_sees_one_pod [of "monitor_api busy_last" example_wl_ctx busy_last_pods "[]"] busy_last_run(1)
  have "length es = 1" unfolding append_Nil by blast
  ultimately show ?thesis using busy_last_run(2,4) by blast
qed

text \<open>
  The operator crashes on a scrape without GPU samples. When the scraped page has no family \<open>gpu_gfx_activity\<close> (an
  exporter that serves no GPU), the tick of the monitor ends in a nil dereference, with no write to the server.
\<close>

theorem monitor_panics_without_gpu_family:
  assumes "\<And>h. w_getConfig api h = Inr config" and "\<And>h url. w_scrape api h url = Inr metrics"
    and "map_of metrics ''gpu_gfx_activity'' = None"
  shows "result_of (watcher_tick api cx m) h = Inl Panicked \<and>
         history_of (watcher_tick api cx m) h = h @ [WGetConfig (Inr config), WScrape (mw_metricsEndpoint m) (Inr metrics)]"
  using assms by (simp add: result_of_def history_of_def watcher_tick_def GetContextWithConfig_def pollMetrics_def try_call_def
      or_panic_def filterForKaiwoPods_def)

theorem monitor_panics_without_gpu_family_witness:
  "result_of (watcher_tick example_wl_api example_wl_ctx monitor_watcher) [] = Inl Panicked"
  using monitor_panics_without_gpu_family [of example_wl_api example_config "[]"] by (simp add: example_wl_api_def)

end
