(* ===== verification/JobWebhook.thy ===== *)
theory JobWebhook
  imports WorkloadReconcile
begin

text \<open>
  The admission webhook for batch jobs, \<^verbatim>\<open>internal/webhook/v1/job_webhook.go\<close>: it labels jobs that reserve GPUs, wraps a
  managed job into a KaiwoJob in its local queue, rejects unlabelled GPU jobs, and on deletion removes the finalizer and
  the KaiwoJob. The webhooks for Ray jobs, Ray services and deployments accept every object as it is. The API calls
  are events as in \<open>WorkloadClient\<close>, with an event type of their own; the job is a value that is threaded through the
  calls, and the KaiwoJob that is sent holds the job as it is at the moment of the call, as the shared pointer does.
\<close>

section \<open>Objects and calls\<close>

text \<open>What the webhook reads and writes of a job. Nil and empty label maps are not told apart.\<close>

record AdmittedJob =
  aj_name :: string
  aj_namespace :: string
  aj_labels :: "string gomap"
  aj_finalizers :: "string list"
  aj_deletionTimestamp :: "int option"
  aj_terminationGracePeriodSeconds :: "int option"
  aj_containers :: "WContainer list"

record KaiwoJobObject =
  kjo_workload :: KaiwoWorkload
  kjo_finalizers :: "string list"
  kjo_job :: "AdmittedJob option"

datatype wh_event =
    HGetConfig "api_error option"
  | HGetKaiwoJob ObjectKey "api_error + KaiwoJobObject"
  | HGetLocalQueue ObjectKey "api_error option"
  | HCreateLocalQueue LocalQueue "api_error option"
  | HCreateKaiwoJob KaiwoJobObject "api_error option"
  | HGetJob ObjectKey "api_error + AdmittedJob"
  | HUpdateJob AdmittedJob "api_error option"
  | HUpdateKaiwoJob KaiwoJobObject "api_error option"
  | HDeleteKaiwoJob KaiwoJobObject "api_error option"

type_synonym 'a wh_prog = "(wh_event, api_error + 'a) prog"

record WhApi =
  h_getConfig :: "wh_event list \<Rightarrow> api_error option"
  h_getKaiwoJob :: "wh_event list \<Rightarrow> ObjectKey \<Rightarrow> api_error + KaiwoJobObject"
  h_getLocalQueue :: "wh_event list \<Rightarrow> ObjectKey \<Rightarrow> api_error option"
  h_createLocalQueue :: "wh_event list \<Rightarrow> LocalQueue \<Rightarrow> api_error option"
  h_createKaiwoJob :: "wh_event list \<Rightarrow> KaiwoJobObject \<Rightarrow> api_error option"
  h_getJob :: "wh_event list \<Rightarrow> ObjectKey \<Rightarrow> api_error + AdmittedJob"
  h_updateJob :: "wh_event list \<Rightarrow> AdmittedJob \<Rightarrow> api_error option"
  h_updateKaiwoJob :: "wh_event list \<Rightarrow> KaiwoJobObject \<Rightarrow> api_error option"
  h_deleteKaiwoJob :: "wh_event list \<Rightarrow> KaiwoJobObject \<Rightarrow> api_error option"

text \<open>A call whose error is returned, wrapped.\<close>

definition wh_unit :: "(wh_event list \<Rightarrow> api_error option) \<Rightarrow> (api_error option \<Rightarrow> wh_event) \<Rightarrow> unit wh_prog" where
  "wh_unit answer event = do { r \<leftarrow> call answer event; ret (case r of None \<Rightarrow> Inr () | Some e \<Rightarrow> Inl e) }"

text \<open>
  The settings: the environment variables \<^verbatim>\<open>ENFORCE_KAIWO_ON_GPU_WORKLOADS\<close> and \<^verbatim>\<open>DEFAULT_CLUSTER_QUEUE_NAME\<close>,
  read once, with their defaults.
\<close>

record WhCtx =
  wh_enforce :: string
  wh_defaultQueue :: string

definition webhook_settings :: "(string \<Rightarrow> string) \<Rightarrow> WhCtx" where
  "webhook_settings env_of = \<lparr>wh_enforce = GetEnv env_of ''ENFORCE_KAIWO_ON_GPU_WORKLOADS'' ''false'',
     wh_defaultQueue = GetEnv env_of ''DEFAULT_CLUSTER_QUEUE_NAME'' ''kaiwo''\<rparr>"

definition KaiwoFinalizer :: string where "KaiwoFinalizer = ''kaiwo.silogen.ai/finalizer''"
definition gpuKeys :: "string list" where "gpuKeys = [''amd.com/gpu'', ''nvidia.com/gpu'']"

definition job_key :: "AdmittedJob \<Rightarrow> ObjectKey" where
  "job_key job = \<lparr>key_name = aj_name job, key_namespace = aj_namespace job\<rparr>"

section \<open>Defaulting\<close>

definition reserves :: "int gomap option \<Rightarrow> string \<Rightarrow> bool" where
  "reserves m k = (case m of None \<Rightarrow> False | Some m \<Rightarrow> has_key m k)"

definition CheckGPUReservation :: "WContainer \<Rightarrow> bool" where
  "CheckGPUReservation container =
     list_ex (\<lambda>gpuKey. reserves (rr_limits (wc_resources container)) gpuKey \<or> reserves (rr_requests (wc_resources container)) gpuKey) gpuKeys"

definition kaiwoManages :: "AdmittedJob \<Rightarrow> bool" where
  "kaiwoManages job \<longleftrightarrow> map_get [] (aj_labels job) KaiwoManagedLabel = ''true''"

definition getAuthenticatedUser :: "string option \<Rightarrow> string" where
  "getAuthenticatedUser request = (case request of None \<Rightarrow> ''unknown-user'' | Some username \<Rightarrow> username)"

text \<open>Any error of the lookup, not only that the queue is missing, leads to its creation.\<close>

definition CreateLocalQueue :: "WhApi \<Rightarrow> string \<Rightarrow> string \<Rightarrow> unit wh_prog" where
  "CreateLocalQueue api name namespace = (
     let localQueue = \<lparr>lq_name = name, lq_namespace = namespace, lq_clusterQueue = name\<rparr>;
         key = \<lparr>key_name = name, key_namespace = namespace\<rparr>
     in do {
       r \<leftarrow> call (\<lambda>h. h_getLocalQueue api h key) (HGetLocalQueue key);
       (if r = None then ret (Inr ()) else wh_unit (\<lambda>h. h_createLocalQueue api h localQueue) (HCreateLocalQueue localQueue))
     })"

text \<open>The zero value of a \<^verbatim>\<open>CommonMetaSpec\<close> with a user.\<close>

definition user_meta_spec :: "string \<Rightarrow> CommonMetaSpec" where
  "user_meta_spec user = \<lparr>cms_user = user, cms_podTemplateSpecLabels = [], cms_gpus = 0, cms_gpuVendor = [], cms_gpuModels = [],
     cms_version = [], cms_replicas = None, cms_gpusPerReplica = 0, cms_duration = None, cms_preferredTopologyLabel = [],
     cms_requiredTopologyLabel = [], cms_resources = None, cms_image = [], cms_imagePullSecrets = [], cms_env = [],
     cms_secretVolumes = [], cms_ray = False, cms_storage = None, cms_dangerous = False, cms_clusterQueue = [],
     cms_workloadPriorityClass = []\<rparr>"

definition new_kaiwo_job :: "AdmittedJob \<Rightarrow> string gomap \<Rightarrow> string \<Rightarrow> KaiwoWorkload" where
  "new_kaiwo_job job labels user = \<lparr>kw_kind = KindKaiwoJob, kw_name = aj_name job, kw_namespace = aj_namespace job, kw_uid = [],
     kw_generation = 0, kw_creationTimestamp = 0, kw_labels = labels, kw_annotations = [], kw_spec = user_meta_spec user,
     kw_status = \<lparr>css_startTime = None, css_conditions = [], css_status = WorkloadStatusNew, css_duration = 0, css_observedGeneration = 0\<rparr>\<rparr>"

definition copy_labels :: "string gomap \<Rightarrow> string gomap" where
  "copy_labels labels = foldl (\<lambda>m (k, v). AList.update k v m) [] labels"

definition create_kaiwo_job :: "WhApi \<Rightarrow> WhCtx \<Rightarrow> AdmittedJob \<Rightarrow> string \<Rightarrow> AdmittedJob wh_prog" where
  "create_kaiwo_job api wx job authenticatedUser = (
     let kaiwoJobLabels = copy_labels (aj_labels job);
         kaiwoJobLabels = (if has_key kaiwoJobLabels QueueLabel then kaiwoJobLabels
                           else AList.update QueueLabel (wh_defaultQueue wx) kaiwoJobLabels);
         kaiwoJob = new_kaiwo_job job kaiwoJobLabels authenticatedUser;
         labelContext = GetKaiwoLabelContext kaiwoJob;
         kaiwoJobLabels = SetKaiwoSystemLabels labelContext kaiwoJobLabels;
         job = job\<lparr>aj_labels := SetKaiwoSystemLabels labelContext (aj_labels job)\<rparr>;
         kaiwoJob = \<lparr>kjo_workload = kaiwoJob\<lparr>kw_labels := kaiwoJobLabels\<rparr>, kjo_finalizers = [], kjo_job = Some job\<rparr>
     in bindE (CreateLocalQueue api (map_get [] kaiwoJobLabels QueueLabel) (aj_namespace job)) (\<lambda>_.
        bindE (wh_unit (\<lambda>h. h_createKaiwoJob api h kaiwoJob) (HCreateKaiwoJob kaiwoJob)) (\<lambda>_. ret (Inr job))))"

definition ensureKaiwoJob :: "WhApi \<Rightarrow> WhCtx \<Rightarrow> AdmittedJob \<Rightarrow> string \<Rightarrow> AdmittedJob wh_prog" where
  "ensureKaiwoJob api wx job authenticatedUser = do {
     r \<leftarrow> call (\<lambda>h. h_getKaiwoJob api h (job_key job)) (HGetKaiwoJob (job_key job));
     (case r of
        Inr _ \<Rightarrow> ret (Inr job)
      | Inl e \<Rightarrow> if e = NotFound then create_kaiwo_job api wx job authenticatedUser else ret (Inl e))
   }"

fun label_loop :: "WContainer list \<Rightarrow> AdmittedJob \<Rightarrow> AdmittedJob" where
  "label_loop [] job = job"
| "label_loop (container # containers) job =
     label_loop containers (if CheckGPUReservation container
       then job\<lparr>aj_labels := AList.update KaiwoManagedLabel ''true'' (aj_labels job)\<rparr> else job)"

definition enforce_label :: "WhCtx \<Rightarrow> AdmittedJob \<Rightarrow> AdmittedJob" where
  "enforce_label wx job = (if ToLower (wh_enforce wx) = ''true'' then label_loop (aj_containers job) job else job)"

definition default_queue_label :: "WhCtx \<Rightarrow> AdmittedJob \<Rightarrow> AdmittedJob" where
  "default_queue_label wx job = (if map_get [] (aj_labels job) QueueLabel = []
     then job\<lparr>aj_labels := AList.update QueueLabel (wh_defaultQueue wx) (aj_labels job)\<rparr> else job)"

definition default_grace :: "AdmittedJob \<Rightarrow> AdmittedJob" where
  "default_grace job = (if aj_terminationGracePeriodSeconds job = None
     then job\<lparr>aj_terminationGracePeriodSeconds := Some 0\<rparr> else job)"

definition add_finalizer :: "AdmittedJob \<Rightarrow> AdmittedJob" where
  "add_finalizer job = (if ContainsString (aj_finalizers job) KaiwoFinalizer then job
     else job\<lparr>aj_finalizers := aj_finalizers job @ [KaiwoFinalizer]\<rparr>)"

definition JobWebhook_Default :: "WhApi \<Rightarrow> WhCtx \<Rightarrow> string option \<Rightarrow> AdmittedJob \<Rightarrow> AdmittedJob wh_prog" where
  "JobWebhook_Default api wx request job =
     bindE (wh_unit (h_getConfig api) HGetConfig) (\<lambda>_.
       if aj_deletionTimestamp job \<noteq> None then ret (Inr job)
       else let authenticatedUser = getAuthenticatedUser request;
                job = enforce_label wx job
            in if kaiwoManages job
               then let job = default_grace (default_queue_label wx job)
                    in bindE (ensureKaiwoJob api wx job authenticatedUser) (\<lambda>job. ret (Inr (add_finalizer job)))
               else ret (Inr job))"

section \<open>Validation\<close>

definition ValidateCreate :: "WhCtx \<Rightarrow> AdmittedJob \<Rightarrow> bool" where
  "ValidateCreate wx job \<longleftrightarrow> \<not> (ToLower (wh_enforce wx) = ''true'' \<and>
     list_ex (\<lambda>container. CheckGPUReservation container \<and> \<not> has_key (aj_labels job) KaiwoManagedLabel) (aj_containers job))"

definition ValidateUpdate :: "AdmittedJob \<Rightarrow> AdmittedJob \<Rightarrow> bool" where
  "ValidateUpdate oldJob newJob = True"

text \<open>Conflicts are retried; when the last attempt is a conflict too the loop just ends.\<close>

fun remove_finalizer_loop :: "WhApi \<Rightarrow> nat \<Rightarrow> AdmittedJob \<Rightarrow> AdmittedJob wh_prog" where
  "remove_finalizer_loop api 0 job = ret (Inr job)"
| "remove_finalizer_loop api (Suc attempts) job = do {
     r \<leftarrow> call (\<lambda>h. h_getJob api h (job_key job)) (HGetJob (job_key job));
     (case r of
        Inl e \<Rightarrow> ret (Inl e)
      | Inr job \<Rightarrow> (let job = job\<lparr>aj_finalizers := RemoveString (aj_finalizers job) KaiwoFinalizer\<rparr> in do {
          u \<leftarrow> call (\<lambda>h. h_updateJob api h job) (HUpdateJob job);
          (case u of
             None \<Rightarrow> ret (Inr job)
           | Some e \<Rightarrow> if e = Conflict then remove_finalizer_loop api attempts job else ret (Inl e))
        }))
   }"

definition retryAttempts :: nat where "retryAttempts = 3"

definition delete_kaiwo_job :: "WhApi \<Rightarrow> AdmittedJob \<Rightarrow> unit wh_prog" where
  "delete_kaiwo_job api job = do {
     r \<leftarrow> call (\<lambda>h. h_getKaiwoJob api h (job_key job)) (HGetKaiwoJob (job_key job));
     (case r of
        Inl e \<Rightarrow> ret (if e = NotFound then Inr () else Inl e)
      | Inr kaiwoJob \<Rightarrow> (
          let trimmed = kaiwoJob\<lparr>kjo_finalizers := RemoveString (kjo_finalizers kaiwoJob) KaiwoFinalizer\<rparr>
          in if ContainsString (kjo_finalizers kaiwoJob) KaiwoFinalizer
             then bindE (wh_unit (\<lambda>h. h_updateKaiwoJob api h trimmed) (HUpdateKaiwoJob trimmed)) (\<lambda>_.
                  wh_unit (\<lambda>h. h_deleteKaiwoJob api h trimmed) (HDeleteKaiwoJob trimmed))
             else wh_unit (\<lambda>h. h_deleteKaiwoJob api h kaiwoJob) (HDeleteKaiwoJob kaiwoJob)))
   }"

definition ValidateDelete :: "WhApi \<Rightarrow> AdmittedJob \<Rightarrow> unit wh_prog" where
  "ValidateDelete api job =
     (if \<not> ContainsString (aj_finalizers job) KaiwoFinalizer then ret (Inr ())
      else bindE (remove_finalizer_loop api retryAttempts job) (delete_kaiwo_job api))"

section \<open>The other webhooks\<close>

text \<open>The defaulters for deployments, Ray jobs and Ray services: an object of another type is an error.\<close>

definition DeploymentDefault :: "'d option \<Rightarrow> string + 'd" where
  "DeploymentDefault obj = (case obj of None \<Rightarrow> Inl ''expected an Deployment object'' | Some deployment \<Rightarrow> Inr deployment)"

definition RayJobDefault :: "'d option \<Rightarrow> string + 'd" where
  "RayJobDefault obj = (case obj of None \<Rightarrow> Inl ''expected an RayJob object'' | Some rayjob \<Rightarrow> Inr rayjob)"

definition RayServiceDefault :: "'d option \<Rightarrow> string + 'd" where
  "RayServiceDefault obj = (case obj of None \<Rightarrow> Inl ''expected an RayService object'' | Some rayservice \<Rightarrow> Inr rayservice)"

section \<open>Lemmas\<close>

lemma ContainsString_iff [simp]: "ContainsString slice str \<longleftrightarrow> str \<in> set slice"
  by (auto simp: ContainsString_def list_ex_iff)

declare RemoveString_def [simp]

lemma label_loop_fields:
  "aj_name (label_loop cs job) = aj_name job" "aj_namespace (label_loop cs job) = aj_namespace job"
  "aj_finalizers (label_loop cs job) = aj_finalizers job" "aj_deletionTimestamp (label_loop cs job) = aj_deletionTimestamp job"
  "aj_terminationGracePeriodSeconds (label_loop cs job) = aj_terminationGracePeriodSeconds job"
  "aj_containers (label_loop cs job) = aj_containers job"
  by (induction cs arbitrary: job) auto

lemma label_loop_labels:
  "map_of (aj_labels (label_loop cs job)) = (if list_ex CheckGPUReservation cs
     then (map_of (aj_labels job))(KaiwoManagedLabel \<mapsto> ''true'') else map_of (aj_labels job))"
  by (induction cs arbitrary: job) (auto simp: update_conv')

lemma label_loop_id: "map_of (aj_labels job) KaiwoManagedLabel = Some ''true'' \<Longrightarrow> label_loop cs job = job"
proof (induction cs arbitrary: job)
  case (Cons c cs)
  have "AList.update k v m = m" if "map_of m k = Some v" for k :: string and v :: string and m
    using that by (induction m) (auto split: if_splits)
  with Cons show ?case by simp
qed simp

lemma foldl_update_map_of:
  "distinct (map fst labels) \<Longrightarrow> map_of (foldl (\<lambda>m (k, v). AList.update k v m) acc labels) = map_of acc ++ map_of labels"
proof (induction labels arbitrary: acc)
  case (Cons kv labels)
  obtain k v where kv: "kv = (k, v)" by (cases kv)
  with Cons.prems have "map_of labels k = None" by (simp add: map_of_eq_None_iff)
  with Cons kv show ?case by (auto simp: update_conv' map_add_def fun_eq_iff split: option.split)
qed simp

lemma copy_labels_map_of: "distinct (map fst labels) \<Longrightarrow> map_of (copy_labels labels) = map_of labels"
  by (simp add: copy_labels_def foldl_update_map_of)

definition system_label :: "string \<Rightarrow> bool" where
  "system_label k \<longleftrightarrow> k \<in> {KaiwoUserLabel, KaiwoNameLabel, KaiwoTypeLabel, KaiwoRunIdLabel, KaiwoManagedLabel}"

lemma SetKaiwoSystemLabels_other: "\<not> system_label k \<Longrightarrow> map_of (SetKaiwoSystemLabels ctx labels) k = map_of labels k"
  by (auto simp: SetKaiwoSystemLabels_def system_label_def update_conv' Let_def)

lemma SetKaiwoSystemLabels_managed:
  "map_of (SetKaiwoSystemLabels ctx labels) KaiwoManagedLabel = (if lc_managed ctx \<noteq> [] then Some (lc_managed ctx) else map_of labels KaiwoManagedLabel)"
  by (auto simp: SetKaiwoSystemLabels_def update_conv' Let_def label_defs)

lemma SetKaiwoSystemLabels_run_id: "map_of (SetKaiwoSystemLabels ctx labels) KaiwoRunIdLabel = Some (lc_runId ctx)"
  by (auto simp: SetKaiwoSystemLabels_def update_conv' Let_def label_defs)

lemma not_system_queue [simp]: "\<not> system_label QueueLabel"
  by (simp add: system_label_def label_defs)

lemmas webhook_steps = default_grace_def default_queue_label_def add_finalizer_def

text \<open>The calls that make the local queue available.\<close>

definition queue_ready :: "string \<Rightarrow> string \<Rightarrow> wh_event list \<Rightarrow> bool" where
  "queue_ready queue namespace new \<longleftrightarrow> (let key = \<lparr>key_name = queue, key_namespace = namespace\<rparr> in
     new = [HGetLocalQueue key None] \<or>
     (\<exists>e. new = [HGetLocalQueue key (Some e), HCreateLocalQueue \<lparr>lq_name = queue, lq_namespace = namespace, lq_clusterQueue = queue\<rparr> None]))"

lemma CreateLocalQueue_does:
  "does (\<lambda>r new. r = Inr () \<longrightarrow> queue_ready queue namespace new) (CreateLocalQueue api queue namespace)"
  unfolding CreateLocalQueue_def Let_def wh_unit_def
  by (intro does_intros) (auto intro!: does_return simp: queue_ready_def Let_def split: option.splits)

text \<open>The KaiwoJob \<open>kj\<close> wraps the job: same name, same queue, the job itself inside.\<close>

definition wraps :: "KaiwoJobObject \<Rightarrow> AdmittedJob \<Rightarrow> string \<Rightarrow> string \<Rightarrow> bool" where
  "wraps kj job queue user \<longleftrightarrow> kw_kind (kjo_workload kj) = KindKaiwoJob \<and> workload_key (kjo_workload kj) = job_key job \<and>
     kjo_job kj = Some job \<and> cms_user (kw_spec (kjo_workload kj)) = user \<and> map_of (kw_labels (kjo_workload kj)) QueueLabel = Some queue"

definition wrapping_trace :: "AdmittedJob \<Rightarrow> string \<Rightarrow> string \<Rightarrow> AdmittedJob \<Rightarrow> wh_event list \<Rightarrow> bool" where
  "wrapping_trace job queue user job' new \<longleftrightarrow>
     (\<exists>kj. new = [HGetKaiwoJob (job_key job) (Inr kj)] \<and> job' = job) \<or>
     (\<exists>lq kj labels. new = HGetKaiwoJob (job_key job) (Inl NotFound) # lq @ [HCreateKaiwoJob kj None] \<and>
        queue_ready queue (aj_namespace job) lq \<and> job' = job\<lparr>aj_labels := labels\<rparr> \<and> wraps kj job' queue user \<and>
        (\<forall>k. \<not> system_label k \<longrightarrow> map_of labels k = map_of (aj_labels job) k) \<and>
        map_of labels KaiwoManagedLabel = map_of (aj_labels job) KaiwoManagedLabel \<and> map_of labels KaiwoRunIdLabel = Some [])"

lemma ensureKaiwoJob_does:
  assumes labels: "distinct (map fst (aj_labels job))" and queue: "map_of (aj_labels job) QueueLabel = Some queue"
  shows "does (\<lambda>r new. \<forall>job'. r = Inr job' \<longrightarrow> wrapping_trace job queue user job' new) (ensureKaiwoJob api wx job user)"
proof -
  define copied where "copied = copy_labels (aj_labels job)"
  have copied: "map_of copied = map_of (aj_labels job)" unfolding copied_def by (rule copy_labels_map_of [OF labels])
  then have key: "has_key copied QueueLabel" using queue by (simp add: has_key_def)
  define ctx where "ctx = GetKaiwoLabelContext (new_kaiwo_job job copied user)"
  have ctx: "lc_runId ctx = []" "lc_managed ctx = map_get [] (aj_labels job) KaiwoManagedLabel"
    by (simp_all add: ctx_def GetKaiwoLabelContext_def new_kaiwo_job_def map_get_def copied)
  define job1 where "job1 = job\<lparr>aj_labels := SetKaiwoSystemLabels ctx (aj_labels job)\<rparr>"
  define kj where "kj = \<lparr>kjo_workload = (new_kaiwo_job job copied user)\<lparr>kw_labels := SetKaiwoSystemLabels ctx copied\<rparr>,
      kjo_finalizers = [], kjo_job = Some job1\<rparr>"
  have q: "map_get [] (SetKaiwoSystemLabels ctx copied) QueueLabel = queue"
    using queue by (simp add: map_get_def SetKaiwoSystemLabels_other copied)
  have wraps: "wraps kj job1 queue user"
    using queue by (simp add: wraps_def kj_def new_kaiwo_job_def workload_key_def job1_def job_key_def user_meta_spec_def
        SetKaiwoSystemLabels_other copied)
  have fine: "wrapping_trace job queue user job1 (HGetKaiwoJob (job_key job) (Inl NotFound) # lq @ [HCreateKaiwoJob kj None])"
    if "queue_ready queue (aj_namespace job) lq" for lq
    unfolding wrapping_trace_def
    using that wraps by (intro disjI2 exI [of _ lq] exI [of _ kj] exI [of _ "aj_labels job1"])
      (auto simp: job1_def SetKaiwoSystemLabels_other SetKaiwoSystemLabels_managed SetKaiwoSystemLabels_run_id ctx map_get_def split: option.splits)
  have create: "create_kaiwo_job api wx job user = bindE (CreateLocalQueue api queue (aj_namespace job)) (\<lambda>_.
      bindE (wh_unit (\<lambda>h. h_createKaiwoJob api h kj) (HCreateKaiwoJob kj)) (\<lambda>_. ret (Inr job1)))"
    using key q by (simp add: create_kaiwo_job_def copied_def ctx_def kj_def job1_def Let_def)
  have "does (\<lambda>r new. \<forall>job'. r = Inr job' \<longrightarrow> wrapping_trace job queue user job' ([HGetKaiwoJob (job_key job) (Inl NotFound)] @ new))
      (create_kaiwo_job api wx job user)"
    unfolding create wh_unit_def
    by (rule does_seqE [OF CreateLocalQueue_does], simp, intro does_intros)
       (auto intro!: does_intros fine split: option.splits)
  then show ?thesis
    unfolding ensureKaiwoJob_def
    by (intro does_bind does_call does_case_sum does_if does_return) (auto simp: wrapping_trace_def)
qed

text \<open>What the steps before the wrapping give.\<close>

definition prepared :: "WhCtx \<Rightarrow> AdmittedJob \<Rightarrow> AdmittedJob" where
  "prepared wx job = default_grace (default_queue_label wx (enforce_label wx job))"

lemma enforce_label_fields [simp]:
  "aj_name (enforce_label wx job) = aj_name job" "aj_namespace (enforce_label wx job) = aj_namespace job"
  "aj_finalizers (enforce_label wx job) = aj_finalizers job" "aj_containers (enforce_label wx job) = aj_containers job"
  by (simp_all add: enforce_label_def label_loop_fields)

lemma prepared_fields:
  "job_key (prepared wx job) = job_key job" "aj_namespace (prepared wx job) = aj_namespace job"
  "aj_finalizers (prepared wx job) = aj_finalizers job" "aj_containers (prepared wx job) = aj_containers job"
  "aj_terminationGracePeriodSeconds (prepared wx job) \<noteq> None"
  "map_of (aj_labels (prepared wx job)) KaiwoManagedLabel = map_of (aj_labels (enforce_label wx job)) KaiwoManagedLabel"
  by (simp_all add: prepared_def webhook_steps job_key_def update_conv' label_defs)

lemma distinct_label_loop: "distinct (map fst (aj_labels job)) \<Longrightarrow> distinct (map fst (aj_labels (label_loop cs job)))"
  by (induction cs arbitrary: job) (simp_all add: distinct_update)

lemma prepared_labels:
  "distinct (map fst (aj_labels job)) \<Longrightarrow> distinct (map fst (aj_labels (prepared wx job)))"
  by (simp add: prepared_def webhook_steps enforce_label_def distinct_label_loop distinct_update)

definition queue_of :: "WhCtx \<Rightarrow> AdmittedJob \<Rightarrow> string" where
  "queue_of wx job = (let q = map_get [] (aj_labels job) QueueLabel in if q = [] then wh_defaultQueue wx else q)"

lemma prepared_queue: "map_of (aj_labels (prepared wx job)) QueueLabel = Some (queue_of wx job)"
proof -
  have "map_of (aj_labels (enforce_label wx job)) QueueLabel = map_of (aj_labels job) QueueLabel"
    by (simp add: enforce_label_def label_loop_labels label_defs)
  then show ?thesis
    by (auto simp: prepared_def webhook_steps queue_of_def Let_def map_get_def update_conv' split: option.splits if_splits)
qed

lemma Default_does:
  assumes "distinct (map fst (aj_labels job))" and "aj_deletionTimestamp job = None"
  shows "does (\<lambda>r new. \<forall>job'. r = Inr job' \<longrightarrow>
      (if kaiwoManages (enforce_label wx job)
       then \<exists>job1 rest. new = HGetConfig None # rest \<and> job' = add_finalizer job1 \<and>
              wrapping_trace (prepared wx job) (queue_of wx job) (getAuthenticatedUser request) job1 rest
       else new = [HGetConfig None] \<and> job' = enforce_label wx job)) (JobWebhook_Default api wx request job)"
proof -
  have wrap: "does (\<lambda>r new. \<forall>job'. r = Inr job' \<longrightarrow> (\<exists>job1 rest. [HGetConfig None] @ new = HGetConfig None # rest \<and> job' = add_finalizer job1 \<and>
      wrapping_trace (prepared wx job) (queue_of wx job) (getAuthenticatedUser request) job1 rest))
    (bindE (ensureKaiwoJob api wx (prepared wx job) (getAuthenticatedUser request)) (\<lambda>job. ret (Inr (add_finalizer job))))"
    by (rule does_seqE [OF ensureKaiwoJob_does [OF prepared_labels [OF assms(1)] prepared_queue]], simp, rule does_return) auto
  show ?thesis
    unfolding JobWebhook_Default_def wh_unit_def Let_def prepared_def [symmetric]
    by (intro does_bindE does_bind does_call does_return)
       (auto intro!: does_return wrap [simplified] simp: assms(2) split: option.splits)
qed

lemma Default_result:
  assumes "distinct (map fst (aj_labels job))" and "aj_deletionTimestamp job = None" and "kaiwoManages (enforce_label wx job)"
    and "result_of (JobWebhook_Default api wx request job) h = Inr job'"
  obtains job1 rest where "history_of (JobWebhook_Default api wx request job) h = h @ HGetConfig None # rest"
    and "job' = add_finalizer job1"
    and "wrapping_trace (prepared wx job) (queue_of wx job) (getAuthenticatedUser request) job1 rest"
    and "aj_terminationGracePeriodSeconds job1 \<noteq> None" and "aj_containers job1 = aj_containers job"
    and "map_of (aj_labels job1) KaiwoManagedLabel = Some ''true''" and "map_of (aj_labels job1) QueueLabel = Some (queue_of wx job)"
    and "job_key job1 = job_key job" and "aj_deletionTimestamp job1 = None"
proof -
  obtain new where new: "history_of (JobWebhook_Default api wx request job) h = h @ new"
    and "\<forall>j. result_of (JobWebhook_Default api wx request job) h = Inr j \<longrightarrow>
      (if kaiwoManages (enforce_label wx job)
       then \<exists>job1 rest. new = HGetConfig None # rest \<and> j = add_finalizer job1 \<and>
              wrapping_trace (prepared wx job) (queue_of wx job) (getAuthenticatedUser request) job1 rest
       else new = [HGetConfig None] \<and> j = enforce_label wx job)"
    using Default_does [OF assms(1,2)] by (rule doesD)
  then obtain job1 rest where rest: "new = HGetConfig None # rest" "job' = add_finalizer job1"
    and trace: "wrapping_trace (prepared wx job) (queue_of wx job) (getAuthenticatedUser request) job1 rest"
    using assms(3,4) by auto
  have managed: "map_of (aj_labels (prepared wx job)) KaiwoManagedLabel = Some ''true''"
    using assms(3) by (auto simp: kaiwoManages_def prepared_fields map_get_def split: option.splits)
  have keep: "aj_deletionTimestamp (prepared wx job) = None"
    using assms(2) by (simp add: prepared_def webhook_steps enforce_label_def label_loop_fields)
  from trace have key: "job_key job1 = job_key job"
    unfolding wrapping_trace_def using prepared_fields(1) [of wx job] by (auto simp: job_key_def)
  from trace have fields: "aj_terminationGracePeriodSeconds job1 \<noteq> None" "aj_containers job1 = aj_containers job"
      "map_of (aj_labels job1) KaiwoManagedLabel = Some ''true''" "map_of (aj_labels job1) QueueLabel = Some (queue_of wx job)"
      "aj_deletionTimestamp job1 = None"
    unfolding wrapping_trace_def
    by (elim disjE exE conjE; simp add: prepared_fields(4,5) managed prepared_queue keep del: not_None_eq)+
  show ?thesis by (rule that [OF _ rest(2) trace fields(1-4) key fields(5)]) (simp add: new rest(1))
qed

section \<open>Properties\<close>

text \<open>
  C27: What the webhook does to a managed job. When the admission of a job that carries the managed label, or gets it because
  it reserves GPUs, succeeds, then the job has Kaiwo's finalizer, a termination grace period and a queue, and its KaiwoJob
  exists: either the server already has one of its name, and nothing is created, or one is created, in the job's
  namespace and queue, for the requesting user, with the job as it is then inside, after the local queue of that name has
  been found or created. In that case the run-id label of the job is empty: it is taken from a KaiwoJob that has
  no identifier yet.
\<close>

theorem Default_wraps_managed_job:
  assumes "distinct (map fst (aj_labels job))" and "aj_deletionTimestamp job = None" and "kaiwoManages (enforce_label wx job)"
    and "result_of (JobWebhook_Default api wx request job) h = Inr job'"
  shows "KaiwoFinalizer \<in> set (aj_finalizers job') \<and> aj_terminationGracePeriodSeconds job' \<noteq> None \<and> kaiwoManages job' \<and>
    map_of (aj_labels job') QueueLabel = Some (queue_of wx job) \<and> aj_containers job' = aj_containers job \<and>
    (\<exists>new. history_of (JobWebhook_Default api wx request job) h = h @ HGetConfig None # new \<and>
      ((\<exists>kj. new = [HGetKaiwoJob (job_key job) (Inr kj)]) \<or>
       (\<exists>lq kj job1. new = HGetKaiwoJob (job_key job) (Inl NotFound) # lq @ [HCreateKaiwoJob kj None] \<and>
          queue_ready (queue_of wx job) (aj_namespace job) lq \<and> wraps kj job1 (queue_of wx job) (getAuthenticatedUser request) \<and>
          job' = add_finalizer job1 \<and> map_of (aj_labels job') KaiwoRunIdLabel = Some [])))"
proof -
  obtain job1 rest where hist: "history_of (JobWebhook_Default api wx request job) h = h @ HGetConfig None # rest"
    and job': "job' = add_finalizer job1"
    and trace: "wrapping_trace (prepared wx job) (queue_of wx job) (getAuthenticatedUser request) job1 rest"
    and fields: "aj_terminationGracePeriodSeconds job1 \<noteq> None" "aj_containers job1 = aj_containers job"
      "map_of (aj_labels job1) KaiwoManagedLabel = Some ''true''" "map_of (aj_labels job1) QueueLabel = Some (queue_of wx job)"
    by (rule Default_result [OF assms])
  have "KaiwoFinalizer \<in> set (aj_finalizers job') \<and> aj_terminationGracePeriodSeconds job' \<noteq> None \<and> kaiwoManages job' \<and>
    map_of (aj_labels job') QueueLabel = Some (queue_of wx job) \<and> aj_containers job' = aj_containers job"
    using fields by (auto simp: job' add_finalizer_def kaiwoManages_def map_get_def)
  moreover from trace have "(\<exists>kj. rest = [HGetKaiwoJob (job_key job) (Inr kj)]) \<or>
       (\<exists>lq kj job1. rest = HGetKaiwoJob (job_key job) (Inl NotFound) # lq @ [HCreateKaiwoJob kj None] \<and>
          queue_ready (queue_of wx job) (aj_namespace job) lq \<and> wraps kj job1 (queue_of wx job) (getAuthenticatedUser request) \<and>
          job' = add_finalizer job1 \<and> map_of (aj_labels job') KaiwoRunIdLabel = Some [])"
    unfolding wrapping_trace_def prepared_fields(1,2)
  proof (elim disjE exE conjE, goal_cases)
    case (2 lq kj labels)
    then show ?case by (intro disjI2 exI [of _ lq] exI [of _ kj] exI [of _ job1]) (simp add: job' add_finalizer_def)
  qed blast
  ultimately show ?thesis using hist by blast
qed

definition example_admitted :: AdmittedJob where
  "example_admitted = \<lparr>aj_name = ''train'', aj_namespace = ''team'', aj_labels = [], aj_finalizers = [], aj_deletionTimestamp = None,
     aj_terminationGracePeriodSeconds = None, aj_containers = [\<lparr>wc_name = ''main'', wc_image = ''rocm'', wc_imagePullPolicy = [],
       wc_command = [], wc_env = [], wc_volumeMounts = [],
       wc_resources = \<lparr>rr_requests = None, rr_limits = Some [(''amd.com/gpu'', 1)]\<rparr>\<rparr>]\<rparr>"

definition enforcing :: WhCtx where
  "enforcing = webhook_settings (\<lambda>v. if v = ''ENFORCE_KAIWO_ON_GPU_WORKLOADS'' then ''True'' else [])"

text \<open>A server on which nothing exists and which accepts every write.\<close>

definition example_wh_api :: WhApi where
  "example_wh_api = \<lparr>h_getConfig = (\<lambda>_. None), h_getKaiwoJob = (\<lambda>_ _. Inl NotFound), h_getLocalQueue = (\<lambda>_ _. Some NotFound),
     h_createLocalQueue = (\<lambda>_ _. None), h_createKaiwoJob = (\<lambda>_ _. None), h_getJob = (\<lambda>_ _. Inr example_admitted),
     h_updateJob = (\<lambda>_ _. None), h_updateKaiwoJob = (\<lambda>_ _. None), h_deleteKaiwoJob = (\<lambda>_ _. None)\<rparr>"

fun is_Inr :: "'a + 'b \<Rightarrow> bool" where
  "is_Inr (Inr x) = True"
| "is_Inr (Inl e) = False"

lemma example_Default_run:
  "is_Inr (result_of (JobWebhook_Default example_wh_api enforcing (Some ''alice'') example_admitted) [])"
  "kaiwoManages (enforce_label enforcing example_admitted)"
  "queue_of enforcing example_admitted = ''kaiwo''"
  by code_simp+

theorem Default_wraps_managed_job_witness:
  "\<exists>job'. result_of (JobWebhook_Default example_wh_api enforcing (Some ''alice'') example_admitted) [] = Inr job' \<and>
     KaiwoFinalizer \<in> set (aj_finalizers job') \<and> map_of (aj_labels job') QueueLabel = Some ''kaiwo''"
proof -
  obtain job' where job': "result_of (JobWebhook_Default example_wh_api enforcing (Some ''alice'') example_admitted) [] = Inr job'"
    using example_Default_run(1) by (auto elim: is_Inr.elims)
  have "distinct (map fst (aj_labels example_admitted))" "aj_deletionTimestamp example_admitted = None"
    by (simp_all add: example_admitted_def)
  from Default_wraps_managed_job [OF this example_Default_run(2) job'] job' example_Default_run(3) show ?thesis by simp
qed

text \<open>
  C28: Defaulting and validation agree. The validating webhook accepts every job that the defaulting webhook returned, whatever
  the labels, the containers, the setting and the answers of the server: no job that is about to be created is rejected
  for a label that Kaiwo should have set itself.
\<close>

theorem ValidateCreate_accepts_defaulted:
  assumes "distinct (map fst (aj_labels job))" and "aj_deletionTimestamp job = None"
    and "result_of (JobWebhook_Default api wx request job) h = Inr job'"
  shows "ValidateCreate wx job'"
proof -
  have enforced: "has_key (aj_labels (enforce_label wx job)) KaiwoManagedLabel"
    if "ToLower (wh_enforce wx) = ''true''" "list_ex CheckGPUReservation (aj_containers job)"
    using that by (simp add: enforce_label_def label_loop_labels has_key_def)
  obtain new where "\<forall>j. result_of (JobWebhook_Default api wx request job) h = Inr j \<longrightarrow>
      (if kaiwoManages (enforce_label wx job)
       then \<exists>job1 rest. new = HGetConfig None # rest \<and> j = add_finalizer job1 \<and>
              wrapping_trace (prepared wx job) (queue_of wx job) (getAuthenticatedUser request) job1 rest
       else new = [HGetConfig None] \<and> j = enforce_label wx job)"
    using Default_does [OF assms(1,2)] by (rule doesD)
  with assms(3) consider (plain) "job' = enforce_label wx job" |
      (managed) job1 rest where "job' = add_finalizer job1"
        "wrapping_trace (prepared wx job) (queue_of wx job) (getAuthenticatedUser request) job1 rest"
    by (auto split: if_splits)
  then have "map_of (aj_labels job') KaiwoManagedLabel = map_of (aj_labels (enforce_label wx job)) KaiwoManagedLabel \<and>
      aj_containers job' = aj_containers job"
  proof cases
    case managed
    then show ?thesis
      unfolding wrapping_trace_def by (elim disjE exE conjE; simp add: add_finalizer_def prepared_fields(4,6))
  qed simp
  with enforced show ?thesis
    unfolding ValidateCreate_def has_key_def by (auto simp: list_ex_iff)
qed

theorem ValidateCreate_accepts_defaulted_witness:
  "\<exists>job'. result_of (JobWebhook_Default example_wh_api enforcing None example_admitted) [] = Inr job' \<and> ValidateCreate enforcing job' \<and>
     \<not> ValidateCreate enforcing example_admitted"
proof -
  have "is_Inr (result_of (JobWebhook_Default example_wh_api enforcing None example_admitted) [])"
    and rejected: "\<not> ValidateCreate enforcing example_admitted" by code_simp+
  then obtain job' where job': "result_of (JobWebhook_Default example_wh_api enforcing None example_admitted) [] = Inr job'"
    by (auto elim: is_Inr.elims)
  have "distinct (map fst (aj_labels example_admitted))" "aj_deletionTimestamp example_admitted = None"
    by (simp_all add: example_admitted_def)
  from ValidateCreate_accepts_defaulted [OF this job'] job' rejected show ?thesis by blast
qed

text \<open>
  C29: Admission is idempotent. When the job that the webhook returned is admitted again and the server has its KaiwoJob by then,
  the job comes back unchanged and the server is only read.
\<close>

theorem Default_idempotent:
  assumes "distinct (map fst (aj_labels job))" and "aj_deletionTimestamp job = None" and "kaiwoManages (enforce_label wx job)"
    and "wh_defaultQueue wx \<noteq> []" and "result_of (JobWebhook_Default api wx request job) h = Inr job'"
    and "\<And>h. h_getConfig api' h = None" and "\<And>h. h_getKaiwoJob api' h (job_key job) = Inr kj"
  shows "run_state (JobWebhook_Default api' wx request' job') h' =
           (Inr job', h' @ [HGetConfig None, HGetKaiwoJob (job_key job) (Inr kj)])"
proof -
  obtain job1 where job': "job' = add_finalizer job1"
    and fields: "aj_terminationGracePeriodSeconds job1 \<noteq> None"
      "map_of (aj_labels job1) KaiwoManagedLabel = Some ''true''" "map_of (aj_labels job1) QueueLabel = Some (queue_of wx job)"
      "job_key job1 = job_key job" "aj_deletionTimestamp job1 = None"
    using Default_result [OF assms(1-3,5)] by metis
  from fields have job'_fields: "aj_terminationGracePeriodSeconds job' \<noteq> None"
      "map_of (aj_labels job') KaiwoManagedLabel = Some ''true''" "map_of (aj_labels job') QueueLabel = Some (queue_of wx job)"
      "job_key job' = job_key job" "aj_deletionTimestamp job' = None" "KaiwoFinalizer \<in> set (aj_finalizers job')"
    by (auto simp: job' add_finalizer_def job_key_def)
  have queue: "queue_of wx job \<noteq> []" using assms(4) by (simp add: queue_of_def Let_def)
  have "enforce_label wx job' = job'" using job'_fields(2) by (simp add: enforce_label_def label_loop_id)
  moreover have "kaiwoManages job'" using job'_fields(2) by (simp add: kaiwoManages_def map_get_def)
  moreover have "default_grace (default_queue_label wx job') = job'" "add_finalizer job' = job'"
    using job'_fields queue by (auto simp: webhook_steps map_get_def)
  ultimately show ?thesis
    using assms(6,7) job'_fields(4,5) by (simp add: JobWebhook_Default_def wh_unit_def ensureKaiwoJob_def Let_def)
qed

definition existing_kaiwo_job :: KaiwoJobObject where
  "existing_kaiwo_job = \<lparr>kjo_workload = example_workload, kjo_finalizers = [KaiwoFinalizer], kjo_job = None\<rparr>"

theorem Default_idempotent_witness:
  "\<exists>job'. result_of (JobWebhook_Default example_wh_api enforcing None example_admitted) [] = Inr job' \<and>
     result_of (JobWebhook_Default (example_wh_api\<lparr>h_getKaiwoJob := \<lambda>_ _. Inr existing_kaiwo_job\<rparr>) enforcing None job') [] = Inr job'"
proof -
  have run: "is_Inr (result_of (JobWebhook_Default example_wh_api enforcing None example_admitted) [])" by code_simp
  then obtain job' where job': "result_of (JobWebhook_Default example_wh_api enforcing None example_admitted) [] = Inr job'"
    by (auto elim: is_Inr.elims)
  have "distinct (map fst (aj_labels example_admitted))" "aj_deletionTimestamp example_admitted = None" "wh_defaultQueue enforcing \<noteq> []"
    by (simp_all add: example_admitted_def enforcing_def webhook_settings_def GetEnv_def)
  with Default_idempotent [OF _ _ example_Default_run(2) _ job', of "example_wh_api\<lparr>h_getKaiwoJob := \<lambda>_ _. Inr existing_kaiwo_job\<rparr>" existing_kaiwo_job None "[]"] job'
  show ?thesis by (simp add: result_of_def example_wh_api_def)
qed

section \<open>Deletion\<close>

definition finalizer_freed :: "wh_event \<Rightarrow> bool" where
  "finalizer_freed e = (case e of HUpdateJob job r \<Rightarrow> r = None \<and> KaiwoFinalizer \<notin> set (aj_finalizers job) | _ \<Rightarrow> False)"

definition update_conflict :: "wh_event \<Rightarrow> bool" where
  "update_conflict e = (case e of HUpdateJob job r \<Rightarrow> r = Some Conflict | _ \<Rightarrow> False)"

definition kaiwo_job_event :: "wh_event \<Rightarrow> bool" where
  "kaiwo_job_event e = (case e of HUpdateKaiwoJob _ _ \<Rightarrow> True | HDeleteKaiwoJob _ _ \<Rightarrow> True | HGetKaiwoJob _ _ \<Rightarrow> True | _ \<Rightarrow> False)"

lemma delete_event_simps [simp]:
  "finalizer_freed (HUpdateJob job r) \<longleftrightarrow> r = None \<and> KaiwoFinalizer \<notin> set (aj_finalizers job)"
  "\<not> finalizer_freed (HGetJob k a)" "update_conflict (HUpdateJob job r) \<longleftrightarrow> r = Some Conflict" "\<not> update_conflict (HGetJob k a)"
  "\<not> kaiwo_job_event (HGetJob k a)" "\<not> kaiwo_job_event (HUpdateJob job r)"
  "kaiwo_job_event (HDeleteKaiwoJob kj r)" "kaiwo_job_event (HUpdateKaiwoJob kj r)" "kaiwo_job_event (HGetKaiwoJob k b)"
  by (simp_all add: finalizer_freed_def update_conflict_def kaiwo_job_event_def)

lemma remove_finalizer_loop_does:
  "does (\<lambda>r new. list_all (\<lambda>e. \<not> kaiwo_job_event e) new \<and>
      (is_Inr r \<longrightarrow> list_ex finalizer_freed new \<or> length (filter update_conflict new) = n)) (remove_finalizer_loop api n job)"
proof (induction n arbitrary: job)
  case 0
  show ?case by (simp add: does_return)
next
  case (Suc n)
  have again: "does (\<lambda>r new. list_all (\<lambda>e. \<not> kaiwo_job_event e) ([HGetJob k (Inr j), HUpdateJob j2 (Some Conflict)] @ new) \<and>
      (is_Inr r \<longrightarrow> list_ex finalizer_freed ([HGetJob k (Inr j), HUpdateJob j2 (Some Conflict)] @ new) \<or>
         length (filter update_conflict ([HGetJob k (Inr j), HUpdateJob j2 (Some Conflict)] @ new)) = Suc n)) (remove_finalizer_loop api n j2)" for k j j2
    by (rule does_mono [OF Suc]) auto
  show ?case
    unfolding remove_finalizer_loop.simps Let_def
    by (intro does_bind does_call does_case_sum does_case_option does_if does_return) (use again in simp_all)
qed

text \<open>A deletion of the KaiwoJob that the server has under the name of a job, its finalizer removed.\<close>

definition deletes_wrapper :: "wh_event list \<Rightarrow> bool" where
  "deletes_wrapper new \<longleftrightarrow> (\<forall>kj r. HDeleteKaiwoJob kj r \<in> set new \<longrightarrow>
     KaiwoFinalizer \<notin> set (kjo_finalizers kj) \<and> (\<exists>k kj0. HGetKaiwoJob k (Inr kj0) \<in> set new \<and> kj = kj0\<lparr>kjo_finalizers := kjo_finalizers kj\<rparr>))"

lemma delete_kaiwo_job_does: "does (\<lambda>_. deletes_wrapper) (delete_kaiwo_job api job)"
  unfolding delete_kaiwo_job_def wh_unit_def Let_def
  by (intro does_bind does_call does_case_sum does_if does_bindE does_return)
     (auto intro!: does_intros simp: deletes_wrapper_def split: option.splits)

text \<open>
  When the deletion of a job deletes its KaiwoJob. Only for a job that has Kaiwo's finalizer, only a KaiwoJob that the server
  returned, with the finalizer taken off, and only after an update without the finalizer was accepted for the job, or after
  three attempts at it ended in a conflict.
\<close>

theorem ValidateDelete_deletes_wrapper:
  "\<exists>new. history_of (ValidateDelete api job) h = h @ new \<and> deletes_wrapper new \<and>
     (list_ex kaiwo_job_event new \<longrightarrow> KaiwoFinalizer \<in> set (aj_finalizers job) \<and>
        (list_ex finalizer_freed new \<or> length (filter update_conflict new) \<ge> 3))"
proof -
  have "does (\<lambda>_ new. deletes_wrapper new \<and> (list_ex kaiwo_job_event new \<longrightarrow> KaiwoFinalizer \<in> set (aj_finalizers job) \<and>
      (list_ex finalizer_freed new \<or> length (filter update_conflict new) \<ge> 3))) (ValidateDelete api job)"
    unfolding ValidateDelete_def
  proof (intro does_if does_return, goal_cases)
    case 2
    have quiet: "\<not> list_ex kaiwo_job_event n" "deletes_wrapper n" if "list_all (\<lambda>e. \<not> kaiwo_job_event e) n" for n
      using that by (fastforce simp: list_all_iff list_ex_iff deletes_wrapper_def)+
    have join: "deletes_wrapper (n1 @ n2)" if "list_all (\<lambda>e. \<not> kaiwo_job_event e) n1" "deletes_wrapper n2" for n1 n2
      using that unfolding deletes_wrapper_def by (fastforce simp: list_all_iff)
    show ?case
      unfolding retryAttempts_def
      by (rule does_seqE [OF remove_finalizer_loop_does], simp add: quiet, rule does_mono [OF delete_kaiwo_job_does])
         (use 2 join in auto)
  qed (simp add: deletes_wrapper_def)
  then obtain new where "history_of (ValidateDelete api job) h = h @ new"
    "deletes_wrapper new \<and> (list_ex kaiwo_job_event new \<longrightarrow> KaiwoFinalizer \<in> set (aj_finalizers job) \<and>
      (list_ex finalizer_freed new \<or> length (filter update_conflict new) \<ge> 3))"
    by (rule doesD)
  then show ?thesis by blast
qed

definition deleting_api :: WhApi where
  "deleting_api = example_wh_api\<lparr>h_getKaiwoJob := (\<lambda>_ _. Inr existing_kaiwo_job), h_getJob := (\<lambda>_ _. Inr (add_finalizer example_admitted))\<rparr>"

lemma ValidateDelete_run:
  "list_ex kaiwo_job_event (history_of (ValidateDelete deleting_api (add_finalizer example_admitted)) [])"
  "\<not> list_ex update_conflict (history_of (ValidateDelete deleting_api (add_finalizer example_admitted)) [])"
  by code_simp+

theorem ValidateDelete_deletes_wrapper_witness:
  "list_ex finalizer_freed (history_of (ValidateDelete deleting_api (add_finalizer example_admitted)) [])"
proof -
  have "filter update_conflict (history_of (ValidateDelete deleting_api (add_finalizer example_admitted)) []) = []"
    using ValidateDelete_run(2) by (simp add: filter_empty_conv list_ex_iff)
  with ValidateDelete_deletes_wrapper [of deleting_api "add_finalizer example_admitted" "[]"] ValidateDelete_run(1)
  show ?thesis by auto
qed

text \<open>
  Conflicts are not reported. If every update of the job meets a conflict, the deletion is admitted all the same and the
  KaiwoJob is deleted, although the job keeps its finalizer.
\<close>

theorem ValidateDelete_ignores_conflicts:
  assumes "KaiwoFinalizer \<in> set (aj_finalizers job)" and "\<And>h k. h_getJob api h k = Inr job" and "\<And>h j. h_updateJob api h j = Some Conflict"
    and "\<And>h k. h_getKaiwoJob api h k = Inr kj" and "\<And>h k. h_updateKaiwoJob api h k = None" and "\<And>h k. h_deleteKaiwoJob api h k = None"
  shows "result_of (ValidateDelete api job) h = Inr () \<and>
     (\<exists>new. history_of (ValidateDelete api job) h = h @ new \<and> \<not> list_ex finalizer_freed new \<and>
        (\<exists>kj. HDeleteKaiwoJob kj None \<in> set new))"
  using assms
  by (simp add: result_of_def history_of_def ValidateDelete_def retryAttempts_def numeral_3_eq_3 delete_kaiwo_job_def wh_unit_def
      Let_def finalizer_freed_def)

theorem ValidateDelete_ignores_conflicts_witness:
  "result_of (ValidateDelete (deleting_api\<lparr>h_updateJob := \<lambda>_ _. Some Conflict\<rparr>) (add_finalizer example_admitted)) [] = Inr ()"
  using ValidateDelete_ignores_conflicts [of "add_finalizer example_admitted" "deleting_api\<lparr>h_updateJob := \<lambda>_ _. Some Conflict\<rparr>" existing_kaiwo_job]
  by (simp add: deleting_api_def example_wh_api_def add_finalizer_def)

end
