(* ===== verification/ReconcileFramework.thy ===== *)
theory ReconcileFramework
  imports WorkloadTypes Naming "HOL-Library.Product_Lexorder"
begin

text \<open>
  The generic reconciler \<^verbatim>\<open>internal/controller/utils\<close> (\<^verbatim>\<open>reconciler.go\<close>, \<^verbatim>\<open>apply.go\<close>, \<^verbatim>\<open>status.go\<close>, \<^verbatim>\<open>types.go\<close>,
  \<^verbatim>\<open>finalizer.go\<close>): observe, plan, apply, project the status, patch it. It is generic in the object, its status and the
  four callbacks of a controller, so the model is polymorphic in the status \<open>'s\<close>, the body \<open>'b\<close> of an applied object and
  the observation \<open>'obs\<close>. Observation and finalization talk to the cluster and are events with arbitrary answers; planning
  and projection are functions of the specification, as the comments of the source demand.
\<close>

section \<open>Objects, callbacks and calls\<close>

record 's FObject =
  fo_key :: ObjectKey
  fo_generation :: int
  fo_deletionTimestamp :: "int option"
  fo_finalizers :: "string list"
  fo_status :: 's

record ObjectGVK =
  gvk_group :: string
  gvk_version :: string
  gvk_kind :: string

text \<open>\<^verbatim>\<open>GroupVersionKind.String\<close>\<close>

definition gvk_String :: "ObjectGVK \<Rightarrow> string" where
  "gvk_String g = gvk_group g @ ''/'' @ gvk_version g @ '', Kind='' @ gvk_kind g"

record 'b DesiredObject =
  do_gvk :: ObjectGVK
  do_namespace :: string
  do_name :: string
  do_body :: 'b

record ReconcileErrors =
  re_observeErr :: "api_error option"
  re_planErr :: "api_error option"
  re_applyErr :: "api_error option"
  re_finalizeErr :: "api_error option"

definition no_errors :: ReconcileErrors where
  "no_errors = \<lparr>re_observeErr = None, re_planErr = None, re_applyErr = None, re_finalizeErr = None\<rparr>"

definition HasError :: "ReconcileErrors \<Rightarrow> bool" where
  "HasError e \<longleftrightarrow> re_observeErr e \<noteq> None \<or> re_planErr e \<noteq> None \<or> re_applyErr e \<noteq> None \<or> re_finalizeErr e \<noteq> None"

text \<open>
  \<open>rs_setObservedGeneration\<close> stands for the reflective write, the identity for a status without the field;
  \<open>rs_hasFinalize\<close> tells whether there is a finalization callback; \<open>rs_kinds\<close> is the scheme.
\<close>

record ('s, 'b, 'obs) ReconcileSpec =
  rs_finalizerName :: string
  rs_fieldOwner :: string
  rs_kinds :: "'b DesiredObject \<Rightarrow> api_error + ObjectGVK list"
  rs_planFn :: "'obs \<Rightarrow> 'b DesiredObject list \<times> api_error option"
  rs_projectFn :: "'obs \<Rightarrow> ReconcileErrors \<Rightarrow> 's \<Rightarrow> 's \<times> api_error option"
  rs_hasFinalize :: bool
  rs_setObservedGeneration :: "int \<Rightarrow> 's \<Rightarrow> 's"

datatype ('s, 'b, 'obs) f_event =
    FUpdate "'s FObject" "api_error + 's FObject"
  | FObserve 'obs "api_error option"
  | FFinalize 'obs "api_error option"
  | FApply "'b DesiredObject" string "api_error option"
  | FGet ObjectKey "api_error + 's FObject"
  | FUpdateStatus "'s FObject" "api_error option"

record ('s, 'b, 'obs) FApi =
  f_update :: "('s, 'b, 'obs) f_event list \<Rightarrow> 's FObject \<Rightarrow> api_error + 's FObject"
  f_observe :: "('s, 'b, 'obs) f_event list \<Rightarrow> 'obs \<times> api_error option"
  f_finalize :: "('s, 'b, 'obs) f_event list \<Rightarrow> 'obs \<Rightarrow> api_error option"
  f_apply :: "('s, 'b, 'obs) f_event list \<Rightarrow> 'b DesiredObject \<Rightarrow> string \<Rightarrow> api_error option"
  f_get :: "('s, 'b, 'obs) f_event list \<Rightarrow> ObjectKey \<Rightarrow> api_error + 's FObject"
  f_updateStatus :: "('s, 'b, 'obs) f_event list \<Rightarrow> 's FObject \<Rightarrow> api_error option"

type_synonym ('s, 'b, 'obs, 'a) f_prog = "(('s, 'b, 'obs) f_event, 'a) prog"

section \<open>Finalizers\<close>

definition HasFinalizer :: "'s FObject \<Rightarrow> string \<Rightarrow> bool" where
  "HasFinalizer obj finalizer \<longleftrightarrow> finalizer \<in> set (fo_finalizers obj)"

definition AddFinalizer :: "'s FObject \<Rightarrow> string \<Rightarrow> 's FObject" where
  "AddFinalizer obj finalizer = (if finalizer \<in> set (fo_finalizers obj) then obj
     else obj\<lparr>fo_finalizers := fo_finalizers obj @ [finalizer]\<rparr>)"

definition RemoveFinalizer :: "'s FObject \<Rightarrow> string \<Rightarrow> 's FObject" where
  "RemoveFinalizer obj finalizer = obj\<lparr>fo_finalizers := filter (\<lambda>f. f \<noteq> finalizer) (fo_finalizers obj)\<rparr>"

section \<open>Applying the desired state\<close>

definition framework_stampGVK :: "('b DesiredObject \<Rightarrow> api_error + ObjectGVK list) \<Rightarrow> 'b DesiredObject \<Rightarrow> api_error + 'b DesiredObject" where
  "framework_stampGVK kinds obj = (case kinds obj of
     Inl e \<Rightarrow> Inl e
   | Inr [] \<Rightarrow> Inl (OtherError ''no GVK registered'')
   | Inr (gvk # _) \<Rightarrow> Inr (obj\<lparr>do_gvk := gvk\<rparr>))"

fun stamp_all :: "('b DesiredObject \<Rightarrow> api_error + ObjectGVK list) \<Rightarrow> 'b DesiredObject list \<Rightarrow> api_error + 'b DesiredObject list" where
  "stamp_all kinds [] = Inr []"
| "stamp_all kinds (obj # objs) = (case framework_stampGVK kinds obj of
     Inl e \<Rightarrow> Inl e
   | Inr obj \<Rightarrow> (case stamp_all kinds objs of Inl e \<Rightarrow> Inl e | Inr objs \<Rightarrow> Inr (obj # objs)))"

definition object_order :: "'b DesiredObject \<Rightarrow> string \<times> string \<times> string" where
  "object_order obj = (gvk_String (do_gvk obj), do_namespace obj, do_name obj)"

text \<open>Objects with the same kind, namespace and name may come in any order from \<^verbatim>\<open>sort.Slice\<close>; the model keeps theirs.\<close>

definition sortObjects :: "'b DesiredObject list \<Rightarrow> 'b DesiredObject list" where
  "sortObjects objects = sort_key object_order objects"

fun apply_all :: "('s, 'b, 'obs) FApi \<Rightarrow> string \<Rightarrow> 'b DesiredObject list \<Rightarrow> ('s, 'b, 'obs, api_error option) f_prog" where
  "apply_all api owner [] = ret None"
| "apply_all api owner (obj # objs) = do {
     r \<leftarrow> call (\<lambda>h. f_apply api h obj owner) (FApply obj owner);
     (if r = None then apply_all api owner objs else ret r)
   }"

definition ApplyDesiredState ::
    "('s, 'b, 'obs) FApi \<Rightarrow> ('b DesiredObject \<Rightarrow> api_error + ObjectGVK list) \<Rightarrow> 'b DesiredObject list \<Rightarrow> string \<Rightarrow> ('s, 'b, 'obs, api_error option) f_prog" where
  "ApplyDesiredState api kinds desired owner =
     (if desired = [] then ret None
      else (case stamp_all kinds desired of
              Inl e \<Rightarrow> ret (Some e)
            | Inr stamped \<Rightarrow> apply_all api owner (sortObjects stamped)))"

section \<open>The status\<close>

text \<open>
  One attempt per step; a conflict is tried again, on the object as it was fetched. The number of steps of
  \<^verbatim>\<open>retry.DefaultRetry\<close> is an argument.
\<close>

fun patch_loop ::
    "('s, 'b, 'obs) FApi \<Rightarrow> ('s, 'b, 'obs) ReconcileSpec \<Rightarrow> nat \<Rightarrow> 's FObject \<Rightarrow> 's \<Rightarrow> 's \<Rightarrow> ('s, 'b, 'obs, api_error option) f_prog" where
  "patch_loop api spec 0 obj desiredStatus originalStatus = ret (Some Conflict)"
| "patch_loop api spec (Suc steps) obj desiredStatus originalStatus = do {
     r \<leftarrow> call (\<lambda>h. f_get api h (fo_key obj)) (FGet (fo_key obj));
     (case r of
        Inl e \<Rightarrow> if e = NotFound then ret None
                 else if e = Conflict \<and> steps \<noteq> 0 then patch_loop api spec steps obj desiredStatus originalStatus
                 else ret (Some e)
      | Inr obj \<Rightarrow> (
          let obj = obj\<lparr>fo_status := rs_setObservedGeneration spec (fo_generation obj) desiredStatus\<rparr>
          in if originalStatus = fo_status obj then ret None
             else do {
               u \<leftarrow> call (\<lambda>h. f_updateStatus api h obj) (FUpdateStatus obj);
               (if u = Some Conflict \<and> steps \<noteq> 0 then patch_loop api spec steps obj desiredStatus originalStatus else ret u)
             }))
   }"

definition PatchStatus ::
    "('s, 'b, 'obs) FApi \<Rightarrow> ('s, 'b, 'obs) ReconcileSpec \<Rightarrow> nat \<Rightarrow> 's FObject \<Rightarrow> 's \<Rightarrow> ('s, 'b, 'obs, api_error option) f_prog" where
  "PatchStatus api spec steps obj originalStatus =
     (let desiredStatus = fo_status obj in patch_loop api spec steps obj desiredStatus originalStatus)"

text \<open>Projection and patch where failures of both are only logged.\<close>

definition project_and_patch ::
    "('s, 'b, 'obs) FApi \<Rightarrow> ('s, 'b, 'obs) ReconcileSpec \<Rightarrow> nat \<Rightarrow> 's FObject \<Rightarrow> 'obs \<Rightarrow> ReconcileErrors \<Rightarrow> ('s, 'b, 'obs, api_error option) f_prog" where
  "project_and_patch api spec steps obj obs errs =
     (let originalStatus = fo_status obj;
          (status, _) = rs_projectFn spec obs errs (fo_status obj)
      in PatchStatus api spec steps (obj\<lparr>fo_status := status\<rparr>) originalStatus)"

section \<open>Reconciliation\<close>

definition remove_finalizer_step ::
    "('s, 'b, 'obs) FApi \<Rightarrow> ('s, 'b, 'obs) ReconcileSpec \<Rightarrow> 's FObject \<Rightarrow> ('s, 'b, 'obs, api_error + 's FObject) f_prog" where
  "remove_finalizer_step api spec obj =
     (if rs_finalizerName spec \<noteq> [] \<and> HasFinalizer obj (rs_finalizerName spec)
      then let obj = RemoveFinalizer obj (rs_finalizerName spec) in call (\<lambda>h. f_update api h obj) (FUpdate obj)
      else ret (Inr obj))"

definition handleDeletion ::
    "('s, 'b, 'obs) FApi \<Rightarrow> ('s, 'b, 'obs) ReconcileSpec \<Rightarrow> nat \<Rightarrow> 's FObject \<Rightarrow> ('s, 'b, 'obs, requeue \<times> api_error option) f_prog" where
  "handleDeletion api spec steps obj = do {
     ob \<leftarrow> call (f_observe api) (\<lambda>(obs, e). FObserve obs e);
     (let (obs, observeErr) = ob; errs = no_errors\<lparr>re_observeErr := observeErr\<rparr> in do {
        finalizeErr \<leftarrow> (if rs_hasFinalize spec then call (\<lambda>h. f_finalize api h obs) (FFinalize obs) else ret None);
        (if finalizeErr \<noteq> None
         then do {
           _ \<leftarrow> project_and_patch api spec steps obj obs (errs\<lparr>re_finalizeErr := finalizeErr\<rparr>);
           ret (NoRequeue, finalizeErr)
         }
         else do {
           r \<leftarrow> remove_finalizer_step api spec obj;
           (case r of
              Inl e \<Rightarrow> ret (NoRequeue, Some e)
            | Inr obj \<Rightarrow> do {
                _ \<leftarrow> project_and_patch api spec steps obj obs errs;
                ret (NoRequeue, None)
              })
         })
     })
   }"

definition apply_step ::
    "('s, 'b, 'obs) FApi \<Rightarrow> ('s, 'b, 'obs) ReconcileSpec \<Rightarrow> 'b DesiredObject list \<Rightarrow> api_error option \<Rightarrow> ('s, 'b, 'obs, api_error option) f_prog" where
  "apply_step api spec desired planErr =
     (if planErr = None \<and> desired \<noteq> [] then ApplyDesiredState api (rs_kinds spec) desired (rs_fieldOwner spec) else ret None)"

definition final_result :: "ReconcileErrors \<Rightarrow> requeue \<times> api_error option" where
  "final_result errs = (NoRequeue,
     if HasError errs then (if re_applyErr errs \<noteq> None then re_applyErr errs else re_planErr errs) else None)"

definition reconcile_observed ::
    "('s, 'b, 'obs) FApi \<Rightarrow> ('s, 'b, 'obs) ReconcileSpec \<Rightarrow> nat \<Rightarrow> 's FObject \<Rightarrow> 'obs \<Rightarrow> ('s, 'b, 'obs, requeue \<times> api_error option) f_prog" where
  "reconcile_observed api spec steps obj obs = (
     let (desired, planErr) = rs_planFn spec obs in do {
       applyErr \<leftarrow> apply_step api spec desired planErr;
       (let errs = no_errors\<lparr>re_planErr := planErr, re_applyErr := applyErr\<rparr>;
            originalStatus = fo_status obj;
            (status, projErr) = rs_projectFn spec obs errs (fo_status obj)
        in if projErr \<noteq> None then ret (NoRequeue, projErr)
           else do {
             e \<leftarrow> PatchStatus api spec steps (obj\<lparr>fo_status := status\<rparr>) originalStatus;
             (if e \<noteq> None then ret (NoRequeue, e) else ret (final_result errs))
           })
     })"

definition framework_Reconcile ::
    "('s, 'b, 'obs) FApi \<Rightarrow> ('s, 'b, 'obs) ReconcileSpec \<Rightarrow> nat \<Rightarrow> 's FObject \<Rightarrow> ('s, 'b, 'obs, requeue \<times> api_error option) f_prog" where
  "framework_Reconcile api spec steps obj =
     (if rs_finalizerName spec \<noteq> [] \<and> fo_deletionTimestamp obj = None \<and> \<not> HasFinalizer obj (rs_finalizerName spec)
      then (let obj = AddFinalizer obj (rs_finalizerName spec) in do {
        r \<leftarrow> call (\<lambda>h. f_update api h obj) (FUpdate obj);
        ret (case r of Inl e \<Rightarrow> (NoRequeue, Some e) | Inr _ \<Rightarrow> (RequeueAfter 1000000, None))
      })
      else if fo_deletionTimestamp obj \<noteq> None then handleDeletion api spec steps obj
      else do {
        ob \<leftarrow> call (f_observe api) (\<lambda>(obs, e). FObserve obs e);
        (let (obs, observeErr) = ob in
         if observeErr \<noteq> None
         then do {
           _ \<leftarrow> project_and_patch api spec steps obj obs (no_errors\<lparr>re_observeErr := observeErr\<rparr>);
           ret (NoRequeue, observeErr)
         }
         else reconcile_observed api spec steps obj obs)
      })"

text \<open>The variant for controllers without a status.\<close>

definition ReconcileWithoutStatus ::
    "('s, 'b, 'obs) FApi \<Rightarrow> ('s, 'b, 'obs) ReconcileSpec \<Rightarrow> ('s, 'b, 'obs, requeue \<times> api_error option) f_prog" where
  "ReconcileWithoutStatus api spec = do {
     ob \<leftarrow> call (f_observe api) (\<lambda>(obs, e). FObserve obs e);
     (let (obs, observeErr) = ob in
      if observeErr \<noteq> None then ret (NoRequeue, observeErr)
      else let (desired, planErr) = rs_planFn spec obs in
        if planErr \<noteq> None then ret (NoRequeue, planErr)
        else do {
          applyErr \<leftarrow> (if desired \<noteq> [] then ApplyDesiredState api (rs_kinds spec) desired (rs_fieldOwner spec) else ret None);
          ret (NoRequeue, applyErr)
        })
   }"

text \<open>The error's message decides how a failure to apply is logged.\<close>

definition IsNamespaceTerminatingError :: "string option \<Rightarrow> bool" where
  "IsNamespaceTerminatingError err = (case err of
     None \<Rightarrow> False
   | Some errMsg \<Rightarrow> Contains errMsg ''is being terminated'' \<or> Contains errMsg ''namespace is being deleted'')"

section \<open>Lemmas on the status\<close>

fun status_write :: "('s, 'b, 'obs) f_event \<Rightarrow> bool" where
  "status_write (FUpdateStatus o' r) = True"
| "status_write e = False"

fun accepted_write :: "('s, 'b, 'obs) f_event \<Rightarrow> bool" where
  "accepted_write (FUpdateStatus o' r) = (r = None)"
| "accepted_write e = False"

fun is_update :: "('s, 'b, 'obs) f_event \<Rightarrow> bool" where
  "is_update (FUpdate o' r) = True"
| "is_update e = False"

text \<open>The status written is the desired one, stamped with the generation of the object fetched just before.\<close>

definition stamped_write :: "('s, 'b, 'obs) ReconcileSpec \<Rightarrow> 's \<Rightarrow> 's \<Rightarrow> ('s, 'b, 'obs) f_event list \<Rightarrow> 's FObject \<Rightarrow> bool" where
  "stamped_write spec desired original new obj \<longleftrightarrow> fo_status obj \<noteq> original \<and>
     (\<exists>k fetched. FGet k (Inr fetched) \<in> set new \<and> obj = fetched\<lparr>fo_status := rs_setObservedGeneration spec (fo_generation fetched) desired\<rparr>)"

definition patch_trace :: "('s, 'b, 'obs) ReconcileSpec \<Rightarrow> nat \<Rightarrow> 's \<Rightarrow> 's \<Rightarrow> ('s, 'b, 'obs) f_event list \<Rightarrow> bool" where
  "patch_trace spec steps desired original new \<longleftrightarrow> length (filter status_write new) \<le> steps \<and> length (filter accepted_write new) \<le> 1 \<and>
     list_all (\<lambda>e. \<not> is_update e) new \<and>
     (\<forall>o' r. FUpdateStatus o' r \<in> set new \<longrightarrow> stamped_write spec desired original new o')"

lemma stamped_write_Cons: "stamped_write spec desired original new obj \<Longrightarrow> stamped_write spec desired original (e # new) obj"
  unfolding stamped_write_def by auto

lemma patch_trace_simps:
  "patch_trace spec steps desired original []"
  "patch_trace spec (Suc steps) desired original [FGet k r]"
  by (simp_all add: patch_trace_def)

lemma patch_trace_get: "patch_trace spec steps desired original new \<Longrightarrow> patch_trace spec (Suc steps) desired original (FGet k r # new)"
  unfolding patch_trace_def by (simp, blast intro: stamped_write_Cons)

lemma patch_trace_write:
  assumes "obj = fetched\<lparr>fo_status := rs_setObservedGeneration spec (fo_generation fetched) desired\<rparr>" and "original \<noteq> fo_status obj"
  shows "patch_trace spec (Suc steps) desired original [FGet k (Inr fetched), FUpdateStatus obj u]"
    and "patch_trace spec steps desired original new \<Longrightarrow>
      patch_trace spec (Suc steps) desired original (FGet k (Inr fetched) # FUpdateStatus obj (Some e) # new)"
proof -
  have now: "stamped_write spec desired original (FGet k (Inr fetched) # rest) obj" for rest
    using assms unfolding stamped_write_def by auto
  then show "patch_trace spec (Suc steps) desired original [FGet k (Inr fetched), FUpdateStatus obj u]"
    unfolding patch_trace_def by simp
  show "patch_trace spec (Suc steps) desired original (FGet k (Inr fetched) # FUpdateStatus obj (Some e) # new)"
    if "patch_trace spec steps desired original new"
    using now that unfolding patch_trace_def by (simp, blast intro: stamped_write_Cons)
qed

lemma patch_loop_trace: "does (\<lambda>_. patch_trace spec steps desired original) (patch_loop api spec steps obj desired original)"
proof (induction steps arbitrary: obj)
  case 0
  show ?case by (simp add: does_return patch_trace_simps)
next
  case (Suc steps)
  have retry: "does (\<lambda>_ new. patch_trace spec (Suc steps) desired original ([FGet k r] @ new)) (patch_loop api spec steps o1 desired original)" for k r o1
    by (rule does_mono [OF Suc]) (simp add: patch_trace_get)
  have again: "does (\<lambda>_ new. patch_trace spec (Suc steps) desired original ([FGet k (Inr o1)] @ [FUpdateStatus o2 (Some Conflict)] @ new))
      (patch_loop api spec steps o2 desired original)"
    if "o2 = o1\<lparr>fo_status := rs_setObservedGeneration spec (fo_generation o1) desired\<rparr>" "original \<noteq> fo_status o2" for k o1 o2
    by (rule does_mono [OF Suc]) (simp add: patch_trace_write(2) [OF that])
  show ?case
    unfolding patch_loop.simps
    by (intro does_bind does_call does_case_sum does_if does_Let does_return)
       (use retry again in \<open>auto simp: patch_trace_simps patch_trace_write(1)\<close>)
qed

lemma project_and_patch_trace:
  "does (\<lambda>_ new. \<exists>desired. patch_trace spec steps desired (fo_status obj) new) (project_and_patch api spec steps obj obs errs)"
proof -
  obtain status e where "rs_projectFn spec obs errs (fo_status obj) = (status, e)" by fastforce
  then show ?thesis
    unfolding project_and_patch_def PatchStatus_def Let_def by (auto intro: does_mono [OF patch_loop_trace])
qed

lemma apply_all_events: "emits (\<lambda>e. \<exists>d owner r. e = FApply d owner r) (apply_all api owner objs)"
  by (induction objs) (auto intro!: emits_intros)

lemma apply_step_events: "emits (\<lambda>e. \<exists>d owner r. e = FApply d owner r) (apply_step api spec desired planErr)"
  unfolding apply_step_def ApplyDesiredState_def by (intro emits_intros apply_all_events)

text \<open>
  The updates of the object before the status is patched: the finalizer is added to an object that is not being deleted,
  or removed from one that is, after the finalization callback, if there is one, has succeeded.
\<close>

definition finalizer_update :: "('s, 'b, 'obs) ReconcileSpec \<Rightarrow> 's FObject \<Rightarrow> ('s, 'b, 'obs) f_event list \<Rightarrow> 's FObject \<Rightarrow> bool" where
  "finalizer_update spec obj new o' \<longleftrightarrow>
     fo_deletionTimestamp obj = None \<and> \<not> HasFinalizer obj (rs_finalizerName spec) \<and> o' = AddFinalizer obj (rs_finalizerName spec) \<or>
     fo_deletionTimestamp obj \<noteq> None \<and> HasFinalizer obj (rs_finalizerName spec) \<and> o' = RemoveFinalizer obj (rs_finalizerName spec) \<and>
       (rs_hasFinalize spec \<longrightarrow> (\<exists>obs n1 n2. new = n1 @ FFinalize obs None # n2 \<and> list_all (\<lambda>e. \<not> is_update e) n1))"

definition reconcile_shape :: "('s, 'b, 'obs) ReconcileSpec \<Rightarrow> nat \<Rightarrow> 's FObject \<Rightarrow> ('s, 'b, 'obs) f_event list \<Rightarrow> bool" where
  "reconcile_shape spec steps obj new \<longleftrightarrow> (\<exists>pre post desired original. new = pre @ post \<and> patch_trace spec steps desired original post \<and>
     list_all (\<lambda>e. \<not> status_write e) pre \<and> (\<forall>o' r. FUpdate o' r \<in> set pre \<longrightarrow> finalizer_update spec obj pre o'))"

lemma reconcile_shapeI:
  "patch_trace spec steps desired original post \<Longrightarrow> list_all (\<lambda>e. \<not> status_write e) pre \<Longrightarrow>
   (\<And>o' r. FUpdate o' r \<in> set pre \<Longrightarrow> finalizer_update spec obj pre o') \<Longrightarrow> reconcile_shape spec steps obj (pre @ post)"
  unfolding reconcile_shape_def by blast

lemma reconcile_shape_pre:
  "list_all (\<lambda>e. \<not> status_write e) pre \<Longrightarrow>
   (\<And>o' r. FUpdate o' r \<in> set pre \<Longrightarrow> finalizer_update spec obj pre o') \<Longrightarrow> reconcile_shape spec steps obj pre"
  by (rule reconcile_shapeI [OF patch_trace_simps(1), where pre = pre, simplified])

text \<open>Projection and patch after events without a status write.\<close>

lemma patched_shape:
  assumes "list_all (\<lambda>e. \<not> status_write e) pre" "\<And>o' r. FUpdate o' r \<in> set pre \<Longrightarrow> finalizer_update spec obj pre o'"
  shows "does (\<lambda>_ new. reconcile_shape spec steps obj (pre @ new)) (do { _ \<leftarrow> project_and_patch api spec steps o1 obs errs; ret x })"
  by (rule does_seq [OF project_and_patch_trace], rule does_return) (auto intro!: reconcile_shapeI assms)

lemma reconcile_observed_shape:
  "does (\<lambda>_ new. reconcile_shape spec steps obj (FObserve obs e # new)) (reconcile_observed api spec steps obj obs)"
proof -
  obtain desired planErr where plan: "rs_planFn spec obs = (desired, planErr)" by fastforce
  have eq: "reconcile_observed api spec steps obj obs = do {
      applyErr \<leftarrow> apply_step api spec desired planErr;
      (let errs = no_errors\<lparr>re_planErr := planErr, re_applyErr := applyErr\<rparr>; originalStatus = fo_status obj;
           (status, projErr) = rs_projectFn spec obs errs (fo_status obj)
       in if projErr \<noteq> None then ret (NoRequeue, projErr)
          else do {
            e \<leftarrow> PatchStatus api spec steps (obj\<lparr>fo_status := status\<rparr>) originalStatus;
            (if e \<noteq> None then ret (NoRequeue, e) else ret (final_result errs))
          })
    }" by (simp add: reconcile_observed_def plan)
  have quiet: "list_all (\<lambda>e. \<not> status_write e) (FObserve obs e # n)" "FUpdate o' r \<notin> set (FObserve obs e # n)"
    if "list_all (\<lambda>e. \<exists>d owner r. e = FApply d owner r) n" for n and o' :: "'a FObject" and r
    using that by (auto simp: list_all_iff)
  have rest: "does (\<lambda>_ new. reconcile_shape spec steps obj (FObserve obs e # n @ new))
      (let errs = no_errors\<lparr>re_planErr := planErr, re_applyErr := applyErr\<rparr>; originalStatus = fo_status obj;
           (status, projErr) = rs_projectFn spec obs errs (fo_status obj)
       in if projErr \<noteq> None then ret (NoRequeue, projErr)
          else do {
            e \<leftarrow> PatchStatus api spec steps (obj\<lparr>fo_status := status\<rparr>) originalStatus;
            (if e \<noteq> None then ret (NoRequeue, e) else ret (final_result errs))
          })" if n: "list_all (\<lambda>e. \<exists>d owner r. e = FApply d owner r) n" for n applyErr
  proof -
    have post: "reconcile_shape spec steps obj (FObserve obs e # n @ post)" if "patch_trace spec steps d orig post" for d orig post
      using reconcile_shapeI [OF that quiet(1) [OF n], of obj] quiet(2) [OF n] by auto
    have pre: "reconcile_shape spec steps obj (FObserve obs e # n)"
      using quiet [OF n] by (intro reconcile_shape_pre) auto
    show ?thesis
      unfolding Let_def PatchStatus_def
      by (intro does_case_prod does_if does_return) (auto intro!: pre post patch_trace_simps does_bind does_mono [OF patch_loop_trace] does_return)
  qed
  show ?thesis
    unfolding eq
    by (rule does_seq [OF does_mono [of "\<lambda>_ n. list_all (\<lambda>e. \<exists>d owner r. e = FApply d owner r) n"]])
       (use apply_step_events [of api spec desired planErr] rest in \<open>auto simp: emits_def\<close>)
qed

lemma handleDeletion_shape:
  assumes "fo_deletionTimestamp obj \<noteq> None"
  shows "does (\<lambda>_. reconcile_shape spec steps obj) (handleDeletion api spec steps obj)"
proof -
  have rest: "does (\<lambda>_ new. reconcile_shape spec steps obj (pre @ new)) (do {
      r \<leftarrow> remove_finalizer_step api spec obj;
      (case r of Inl e \<Rightarrow> ret (NoRequeue, Some e)
       | Inr obj \<Rightarrow> do { _ \<leftarrow> project_and_patch api spec steps obj obs errs; ret (NoRequeue, None) })
    })"
    if pre: "list_all (\<lambda>e. \<not> status_write e \<and> \<not> is_update e) pre"
      and fin: "rs_hasFinalize spec \<longrightarrow> (\<exists>n1 n2 obs. pre = n1 @ FFinalize obs None # n2)" for pre obs errs
  proof -
    have upd: "finalizer_update spec obj (pre @ n) (RemoveFinalizer obj (rs_finalizerName spec))"
      if "HasFinalizer obj (rs_finalizerName spec)" for n
      using that assms pre fin unfolding finalizer_update_def by (fastforce simp: list_all_iff)
    have ok: "list_all (\<lambda>e. \<not> status_write e) (pre @ [FUpdate (RemoveFinalizer obj (rs_finalizerName spec)) r])" for r
      using pre by (auto simp: list_all_iff)
    have none: "FUpdate o' r \<notin> set pre" for o' r
      using pre by (fastforce simp: list_all_iff)
    have only: "finalizer_update spec obj (pre @ [FUpdate (RemoveFinalizer obj (rs_finalizerName spec)) r]) o'"
      if "HasFinalizer obj (rs_finalizerName spec)" "FUpdate o' r' \<in> set (pre @ [FUpdate (RemoveFinalizer obj (rs_finalizerName spec)) r])" for r r' o'
      using that none upd by auto
    have quiet: "list_all (\<lambda>e. \<not> status_write e) pre" using pre by (auto simp: list_all_iff)
    show ?thesis
      unfolding remove_finalizer_step_def Let_def
    proof (rule does_bind, intro does_if does_call does_case_sum does_return, goal_cases)
      case (1 r e)
      then show ?case by (simp only: append_Nil2) (intro reconcile_shape_pre ok only, auto)
    next
      case (2 r o1)
      then show ?case
        unfolding append_assoc [symmetric] by (intro patched_shape ok only) auto
    next
      case (3 e)
      then show ?case by simp
    next
      case (4 o1)
      then show ?case by (auto intro: patched_shape quiet simp: none)
    qed
  qed
  show ?thesis
    unfolding handleDeletion_def Let_def
  proof (rule does_bind, rule does_call, goal_cases)
    case (1 ob)
    obtain obs e where ob: "ob = (obs, e)" by fastforce
    let ?f = "if rs_hasFinalize spec then call (\<lambda>h. f_finalize api h obs) (FFinalize obs) else ret None"
    have fin: "does (\<lambda>r n. list_all (\<lambda>e. \<not> status_write e \<and> \<not> is_update e) (FObserve obs e # n) \<and>
        (r = None \<longrightarrow> rs_hasFinalize spec \<longrightarrow> (\<exists>n1 n2 o1. FObserve obs e # n = n1 @ FFinalize o1 None # n2))) ?f"
      by (intro does_if does_call does_return) (auto intro: exI [of _ "[FObserve obs e]"])
    show ?case
      unfolding ob prod.case
    proof (rule does_seq [OF fin], intro does_if, goal_cases)
      case (1 r n)
      then have quiet: "list_all (\<lambda>e. \<not> status_write e) (FObserve obs e # n)" by (auto simp: list_all_iff)
      have "FUpdate o' r' \<notin> set (FObserve obs e # n)" for o' r' using 1 by (auto simp: list_all_iff)
      with quiet show ?case using patched_shape [of "FObserve obs e # n"] by simp
    next
      case (2 r n)
      then show ?case using rest [of "FObserve obs e # n"] by simp
    qed
  qed
qed

lemma framework_Reconcile_shape: "does (\<lambda>_. reconcile_shape spec steps obj) (framework_Reconcile api spec steps obj)"
proof -
  have plain: "list_all (\<lambda>e. \<not> status_write e) [FObserve obs e]" "FUpdate o' r \<notin> set [FObserve obs e]" for obs e o' r
    by simp_all
  have observed: "does (\<lambda>_ new. reconcile_shape spec steps obj ([FObserve obs e] @ new))
      (if e \<noteq> None then do { _ \<leftarrow> project_and_patch api spec steps obj obs (no_errors\<lparr>re_observeErr := e\<rparr>); ret (NoRequeue, e) }
       else reconcile_observed api spec steps obj obs)" for obs e
    using patched_shape [OF plain(1)] plain(2) reconcile_observed_shape by (intro does_if) (fastforce, simp)
  show ?thesis
    unfolding framework_Reconcile_def
  proof (rule does_if, goal_cases)
    case 1
    then show ?case
      unfolding Let_def
      by (intro does_bind does_call does_return reconcile_shape_pre) (auto simp: finalizer_update_def)
  next
    case 2
    show ?case
    proof (rule does_if, erule handleDeletion_shape, rule does_bind, rule does_call, goal_cases)
      case (1 ob)
      obtain obs e where ob: "ob = (obs, e)" by fastforce
      show ?case unfolding ob Let_def prod.case by (rule observed)
    qed
  qed
qed

section \<open>Properties\<close>

text \<open>
  C31: The life of a finalizer. Whatever the callbacks and the server answer, the reconciler updates an object only to add its
  finalizer, when the object is not being deleted and lacks it, or to remove it, when the object is being deleted and has
  it, and then, if the controller has a finalization callback, only after that callback has succeeded in this
  reconciliation. At most one status write is accepted, at most \<open>steps\<close> are attempted, and each of them carries the
  object as it was fetched in this reconciliation with only the status exchanged.
\<close>

theorem framework_finalizer_and_status:
  "\<exists>new. history_of (framework_Reconcile api spec steps obj) h = h @ new \<and>
     (\<forall>o' r. FUpdate o' r \<in> set new \<longrightarrow> finalizer_update spec obj new o') \<and>
     length (filter status_write new) \<le> steps \<and> length (filter accepted_write new) \<le> 1 \<and>
     (\<forall>o' r. FUpdateStatus o' r \<in> set new \<longrightarrow> (\<exists>k fetched s. FGet k (Inr fetched) \<in> set new \<and>
        o' = fetched\<lparr>fo_status := rs_setObservedGeneration spec (fo_generation fetched) s\<rparr>))"
proof -
  obtain new where new: "history_of (framework_Reconcile api spec steps obj) h = h @ new" and shape: "reconcile_shape spec steps obj new"
    using framework_Reconcile_shape by (rule doesD)
  obtain pre post desired original where split: "new = pre @ post" and patch: "patch_trace spec steps desired original post"
    and pre: "list_all (\<lambda>e. \<not> status_write e) pre" and upd: "\<And>o' r. FUpdate o' r \<in> set pre \<Longrightarrow> finalizer_update spec obj pre o'"
    using shape unfolding reconcile_shape_def by blast
  have none: "filter status_write pre = []" using pre by (simp add: filter_empty_conv list_all_iff)
  have "accepted_write e \<Longrightarrow> status_write e" for e :: "('a, 'b, 'c) f_event" by (cases e) auto
  with none have none': "filter accepted_write pre = []" unfolding filter_empty_conv by blast
  have no: "FUpdateStatus o' r \<notin> set pre" "FUpdate o' r' \<notin> set post" for o' r r'
    using pre patch by (fastforce simp: list_all_iff patch_trace_def)+
  have mono: "finalizer_update spec obj (pre @ post) o'" if "finalizer_update spec obj pre o'" for o'
    using that unfolding finalizer_update_def by fastforce
  have "\<exists>k fetched s. FGet k (Inr fetched) \<in> set new \<and> o' = fetched\<lparr>fo_status := rs_setObservedGeneration spec (fo_generation fetched) s\<rparr>"
    if "FUpdateStatus o' r \<in> set new" for o' r
  proof -
    from that no(1) split have "FUpdateStatus o' r \<in> set post" by auto
    with patch have "stamped_write spec desired original post o'" unfolding patch_trace_def by blast
    then show ?thesis unfolding stamped_write_def split by auto
  qed
  moreover have "length (filter status_write new) \<le> steps" "length (filter accepted_write new) \<le> 1"
    using patch none none' unfolding patch_trace_def split by auto
  moreover have "finalizer_update spec obj new o'" if "FUpdate o' r \<in> set new" for o' r
    using that no(2) upd mono unfolding split by auto
  ultimately show ?thesis using new by blast
qed

definition example_fobject :: "int FObject" where
  "example_fobject = \<lparr>fo_key = \<lparr>key_name = ''m'', key_namespace = ''team''\<rparr>, fo_generation = 2, fo_deletionTimestamp = Some 5,
     fo_finalizers = [''kaiwo/f''], fo_status = 0\<rparr>"

definition example_reconcile_spec :: "(int, unit, unit) ReconcileSpec" where
  "example_reconcile_spec = \<lparr>rs_finalizerName = ''kaiwo/f'', rs_fieldOwner = ''kaiwo'',
     rs_kinds = (\<lambda>d. Inr [\<lparr>gvk_group = ''batch'', gvk_version = ''v1'', gvk_kind = ''Job''\<rparr>]),
     rs_planFn = (\<lambda>_. ([], None)), rs_projectFn = (\<lambda>_ _ s. (s + 1, None)), rs_hasFinalize = True,
     rs_setObservedGeneration = (\<lambda>g s. s)\<rparr>"

definition example_fapi :: "(int, unit, unit) FApi" where
  "example_fapi = \<lparr>f_update = (\<lambda>_ o'. Inr o'), f_observe = (\<lambda>_. ((), None)), f_finalize = (\<lambda>_ _. None), f_apply = (\<lambda>_ _ _. None),
     f_get = (\<lambda>_ _. Inr example_fobject), f_updateStatus = (\<lambda>_ _. None)\<rparr>"

lemma example_framework_run:
  "list_ex is_update (history_of (framework_Reconcile example_fapi example_reconcile_spec 5 example_fobject) [])"
  "length (filter accepted_write (history_of (framework_Reconcile example_fapi example_reconcile_spec 5 example_fobject) [])) = 1"
  by code_simp+

theorem framework_finalizer_and_status_witness:
  "\<exists>obs. FFinalize obs None \<in> set (history_of (framework_Reconcile example_fapi example_reconcile_spec 5 example_fobject) [])"
proof -
  let ?new = "history_of (framework_Reconcile example_fapi example_reconcile_spec 5 example_fobject) []"
  from example_framework_run(1) obtain e where e: "e \<in> set ?new" "is_update e" by (auto simp: list_ex_iff)
  from e(2) obtain o' r where "e = FUpdate o' r" by (cases e) auto
  with e(1) framework_finalizer_and_status [of example_fapi example_reconcile_spec 5 example_fobject "[]"]
  have "finalizer_update example_reconcile_spec example_fobject ?new o'" unfolding append_Nil by blast
  then show ?thesis
    unfolding finalizer_update_def by (auto simp: example_fobject_def example_reconcile_spec_def)
qed

section \<open>Applying\<close>

lemma stamp_all_eq:
  "stamp_all kinds objs = Inr ds \<longleftrightarrow> (\<forall>d \<in> set objs. \<exists>d'. framework_stampGVK kinds d = Inr d') \<and> ds = map (\<lambda>d. projr (framework_stampGVK kinds d)) objs"
proof (induction objs arbitrary: ds)
  case (Cons d objs)
  then show ?case by (cases "stamp_all kinds objs") (auto split: sum.splits)
qed auto

lemma apply_all_trace:
  "does (\<lambda>r new. case r of None \<Rightarrow> new = map (\<lambda>d. FApply d owner None) objs
     | Some e \<Rightarrow> \<exists>xs d ys. objs = xs @ d # ys \<and> new = map (\<lambda>d. FApply d owner None) xs @ [FApply d owner (Some e)])
   (apply_all api owner objs)"
proof (induction objs)
  case Nil
  show ?case by (simp add: does_return)
next
  case (Cons d objs)
  show ?case
    unfolding apply_all.simps
  proof (intro does_bind does_call does_if does_return, goal_cases)
    case (1 r)
    have shift: "\<exists>xs' d' ys'. d # objs = xs' @ d' # ys' \<and> FApply d owner None # new = map (\<lambda>d. FApply d owner None) xs' @ [FApply d' owner (Some e)]"
      if split: "\<exists>xs d ys. objs = xs @ d # ys \<and> new = map (\<lambda>d. FApply d owner None) xs @ [FApply d owner (Some e)]"
      for new e
    proof -
      obtain xs d1 ys where "objs = xs @ d1 # ys" "new = map (\<lambda>d. FApply d owner None) xs @ [FApply d1 owner (Some e)]"
        using split by blast
      then show ?thesis by (intro exI [of _ "d # xs"] exI [of _ d1] exI [of _ ys]) simp
    qed
    show ?case
    proof (rule does_mono [OF Cons], goal_cases)
      case (1 x n)
      then show ?case by (cases x) (use \<open>r = None\<close> shift in simp_all)
    qed
  next
    case (2 r)
    then show ?case by (auto split: option.split intro!: exI [of _ "[]"])
  qed
qed

text \<open>
  Objects are applied in one order. Two plans with the same objects, no two of which agree in kind, namespace and name,
  lead to the very same sequence of calls. The objects are applied sorted by kind, namespace and name; when the
  result is no error all of them have been accepted, and otherwise, if the scheme knows their kinds, those before the
  first refused one.
\<close>

theorem ApplyDesiredState_deterministic:
  assumes "stamp_all kinds desired = Inr objs" and "distinct (map object_order objs)" and "mset desired = mset desired'"
  shows "ApplyDesiredState api kinds desired' owner = ApplyDesiredState api kinds desired owner \<and>
    (\<exists>new. history_of (ApplyDesiredState api kinds desired owner) h = h @ new \<and>
      (case result_of (ApplyDesiredState api kinds desired owner) h of
         None \<Rightarrow> new = map (\<lambda>d. FApply d owner None) (sortObjects objs)
       | Some e \<Rightarrow> \<exists>xs d ys. sortObjects objs = xs @ d # ys \<and> new = map (\<lambda>d. FApply d owner None) xs @ [FApply d owner (Some e)]))"
proof -
  have stamped: "\<forall>d \<in> set desired. \<exists>d'. framework_stampGVK kinds d = Inr d'" and objs: "objs = map (\<lambda>d. projr (framework_stampGVK kinds d)) desired"
    using assms(1) unfolding stamp_all_eq by auto
  define objs' where "objs' = map (\<lambda>d. projr (framework_stampGVK kinds d)) desired'"
  have "stamp_all kinds desired' = Inr objs'"
    using stamped assms(3) unfolding stamp_all_eq objs'_def by (metis mset_eq_setD)
  moreover have "sortObjects objs' = sortObjects objs"
    unfolding sortObjects_def using assms(2,3) by (intro sort_key_perm [symmetric]) (simp_all add: objs objs'_def)
  moreover have empty: "desired' = [] \<longleftrightarrow> desired = []" using assms(3) by auto
  ultimately have "ApplyDesiredState api kinds desired' owner = ApplyDesiredState api kinds desired owner"
    using assms(1) by (simp add: ApplyDesiredState_def)
  moreover have eq: "ApplyDesiredState api kinds desired owner = apply_all api owner (sortObjects objs)"
    using assms(1) by (auto simp: ApplyDesiredState_def sortObjects_def)
  moreover obtain new where "history_of (apply_all api owner (sortObjects objs)) h = h @ new"
    "case result_of (apply_all api owner (sortObjects objs)) h of None \<Rightarrow> new = map (\<lambda>d. FApply d owner None) (sortObjects objs)
     | Some e \<Rightarrow> \<exists>xs d ys. sortObjects objs = xs @ d # ys \<and> new = map (\<lambda>d. FApply d owner None) xs @ [FApply d owner (Some e)]"
    using apply_all_trace by (rule doesD)
  ultimately show ?thesis unfolding eq by (intro conjI exI [of _ new]) (simp_all only:)
qed

definition example_desired :: "unit DesiredObject list" where
  "example_desired = map (\<lambda>n. \<lparr>do_gvk = \<lparr>gvk_group = [], gvk_version = [], gvk_kind = []\<rparr>, do_namespace = ''team'', do_name = n, do_body = ()\<rparr>) [''b'', ''a'']"

theorem ApplyDesiredState_deterministic_witness:
  "ApplyDesiredState example_fapi (rs_kinds example_reconcile_spec) (rev example_desired) ''kaiwo'' =
   ApplyDesiredState example_fapi (rs_kinds example_reconcile_spec) example_desired ''kaiwo''"
proof -
  obtain objs where objs: "stamp_all (rs_kinds example_reconcile_spec) example_desired = Inr objs" "distinct (map object_order objs)"
    by (simp add: example_desired_def example_reconcile_spec_def framework_stampGVK_def object_order_def)
  show ?thesis
    using ApplyDesiredState_deterministic [OF objs, of "rev example_desired" example_fapi "''kaiwo''" "[]"] by simp
qed

end
