(* ===== verification/Terminal.thy ===== *)
theory Terminal
  imports WorkloadReconcile
begin

text \<open>
  The interactive command \<^verbatim>\<open>kaiwo manage\<close>: \<^verbatim>\<open>pkg/tui\<close> and \<^verbatim>\<open>pkg/cli/list.go\<close>. A stack of steps is navigated by what
  each step returns (\<^verbatim>\<open>components/step.go\<close>); most steps show a table and read keys (\<^verbatim>\<open>components/selecttable.go\<close>). The
  user is part of the surroundings: the keys pressed at a table and the answers to a form are answers of a call, like
  those of the API server. Loops that ask until an answer is valid have a bound on the number of questions. Drawing,
  log output and the streams of \<^verbatim>\<open>exec\<close> and port forwarding are not modelled, the requests that start them are.
\<close>

section \<open>Objects, errors and calls\<close>

datatype StepResult = StepResultOk | StepResultErr | StepResultPrevious | StepResultQuit | StepResultUnset

datatype tui_error = TuiPanic | TuiFailed string | TuiApi api_error | TuiUnfinished

datatype ContainerState = StateRunning string | StateWaiting string | StateTerminated string | StateNone

record TuiContainer =
  tc_name :: string
  tc_ports :: "(string \<times> int \<times> string) list"
  tc_limits :: "string list"

record TuiPod =
  tpd_name :: string
  tpd_phase :: string
  tpd_containers :: "TuiContainer list"
  tpd_statuses :: "(string \<times> ContainerState) list"
  tpd_initStatuses :: "(string \<times> ContainerState) list"

record RunState =
  ru_workload :: "KaiwoWorkload option"
  ru_workloadType :: string
  ru_user :: string
  ru_namespace :: string
  ru_podName :: string
  ru_containerName :: string
  ru_predicates :: "(TuiPod \<Rightarrow> bool) list"

datatype TuiStep =
    SelectWorkloadType | SelectWorkload | SelectWorkloadAction | PortForward | DeleteWorkload
  | SelectPodAndContainer | SelectAndDoAction | ViewLogsAction | MonitorAction | CommandAction

text \<open>What is asked of the user: the local end of a port forward is a port, a host and a confirmation.\<close>

datatype u_event =
    UKeys "string list list" string "string list"
  | UListWorkloads workload_kind "string gomap" "api_error + KaiwoWorkload list"
  | UListPods string string "api_error + TuiPod list"
  | UConfirmDelete string "api_error + bool"
  | UDelete ObjectKey workload_kind "api_error option"
  | ULogForm "api_error + (string \<times> bool)"
  | UCommandForm "api_error + (string \<times> bool \<times> bool)"
  | UPortForm "api_error + (string \<times> bool)"
  | ULocalForm "api_error + (string \<times> string \<times> bool)"
  | UPortFree string int bool
  | ULookPath string bool
  | ULogs string string int string bool "api_error option"
  | UExec string string string "string list" bool bool "api_error option"
  | UForward string string string int int "api_error option"
  | UClients "api_error option"
  | UGetWorkload workload_kind ObjectKey "api_error + KaiwoWorkload"

record UApi =
  u_keys :: "u_event list \<Rightarrow> string list list \<Rightarrow> string \<Rightarrow> string list"
  u_listWorkloads :: "u_event list \<Rightarrow> workload_kind \<Rightarrow> string gomap \<Rightarrow> api_error + KaiwoWorkload list"
  u_listPods :: "u_event list \<Rightarrow> string \<Rightarrow> string \<Rightarrow> api_error + TuiPod list"
  u_confirmDelete :: "u_event list \<Rightarrow> string \<Rightarrow> api_error + bool"
  u_delete :: "u_event list \<Rightarrow> ObjectKey \<Rightarrow> workload_kind \<Rightarrow> api_error option"
  u_logForm :: "u_event list \<Rightarrow> api_error + (string \<times> bool)"
  u_commandForm :: "u_event list \<Rightarrow> api_error + (string \<times> bool \<times> bool)"
  u_portForm :: "u_event list \<Rightarrow> api_error + (string \<times> bool)"
  u_localForm :: "u_event list \<Rightarrow> api_error + (string \<times> string \<times> bool)"
  u_portFree :: "u_event list \<Rightarrow> string \<Rightarrow> int \<Rightarrow> bool"
  u_lookPath :: "u_event list \<Rightarrow> string \<Rightarrow> bool"
  u_logs :: "u_event list \<Rightarrow> string \<Rightarrow> string \<Rightarrow> int \<Rightarrow> string \<Rightarrow> bool \<Rightarrow> api_error option"
  u_exec :: "u_event list \<Rightarrow> string \<Rightarrow> string \<Rightarrow> string \<Rightarrow> string list \<Rightarrow> bool \<Rightarrow> bool \<Rightarrow> api_error option"
  u_forward :: "u_event list \<Rightarrow> string \<Rightarrow> string \<Rightarrow> string \<Rightarrow> int \<Rightarrow> int \<Rightarrow> api_error option"
  u_clients :: "u_event list \<Rightarrow> api_error option"
  u_getWorkload :: "u_event list \<Rightarrow> workload_kind \<Rightarrow> ObjectKey \<Rightarrow> api_error + KaiwoWorkload"

text \<open>\<open>ux_move\<close> is how the table widget moves its cursor on a key, \<open>ux_parseIP\<close> is \<^verbatim>\<open>net.ParseIP\<close>.\<close>

record UCtx =
  ux_move :: "string \<Rightarrow> nat \<Rightarrow> int \<Rightarrow> int"
  ux_parseIP :: "string \<Rightarrow> bool"
  ux_asks :: nat

text \<open>Documented behaviour of the widget: the cursor stays on the rows of a table that is not empty.\<close>

definition cursor_law :: "UCtx \<Rightarrow> bool" where
  "cursor_law ux \<longleftrightarrow> (\<forall>key n c. 0 \<le> c \<and> c < int n \<longrightarrow> 0 \<le> ux_move ux key n c \<and> ux_move ux key n c < int n)"

type_synonym 'a u_prog = "(u_event, 'a) prog"
type_synonym outcome = "(StepResult \<times> TuiStep option \<times> tui_error option) \<times> RunState"

section \<open>Tables\<close>

record TableModel =
  tm_rows :: nat
  tm_cursor :: int
  tm_selectedIndex :: int
  tm_result :: StepResult

text \<open>The second component tells whether the program quits.\<close>

definition table_Update :: "UCtx \<Rightarrow> string \<Rightarrow> TableModel \<Rightarrow> TableModel \<times> bool" where
  "table_Update ux key m =
     (if key = ''esc'' \<or> key = ''backspace'' then (m\<lparr>tm_result := StepResultPrevious\<rparr>, True)
      else if key = ''q'' \<or> key = ''ctrl+c'' then (m\<lparr>tm_result := StepResultQuit\<rparr>, True)
      else if key = ''enter'' then (m\<lparr>tm_selectedIndex := tm_cursor m, tm_result := StepResultOk\<rparr>, True)
      else (m\<lparr>tm_cursor := ux_move ux key (tm_rows m) (tm_cursor m)\<rparr>, False))"

text \<open>The keys in turn; \<open>None\<close> when none of them ends the program.\<close>

fun run_keys :: "UCtx \<Rightarrow> string list \<Rightarrow> TableModel \<Rightarrow> TableModel option" where
  "run_keys ux [] m = None"
| "run_keys ux (key # keys) m = (case table_Update ux key m of (m, stop) \<Rightarrow> if stop then Some m else run_keys ux keys m)"

definition RunSelectTable :: "UApi \<Rightarrow> UCtx \<Rightarrow> string list list \<Rightarrow> string list \<Rightarrow> string \<Rightarrow> (int \<times> StepResult \<times> tui_error option) u_prog" where
  "RunSelectTable api ux data columns title =
     (if data = [] then ret (-1, StepResultErr, Some (TuiFailed ''no data to show''))
      else if list_ex (\<lambda>row. length row \<noteq> length (hd data)) data then ret (-1, StepResultErr, Some (TuiFailed ''column count mismatch''))
      else if length columns < length (hd data) then ret (-1, StepResultErr, Some TuiPanic)
      else do {
        keys \<leftarrow> call (\<lambda>h. u_keys api h data title) (UKeys data title);
        ret (case run_keys ux keys \<lparr>tm_rows = length data, tm_cursor = 0, tm_selectedIndex = 0, tm_result = StepResultUnset\<rparr> of
               None \<Rightarrow> (-1, StepResultErr, Some (TuiFailed ''error running tea''))
             | Some m \<Rightarrow> (tm_selectedIndex m, tm_result m, None))
      })"

text \<open>An index beyond the slice is a panic.\<close>

definition row_at :: "'a list \<Rightarrow> int \<Rightarrow> 'a option" where
  "row_at xs i = (if 0 \<le> i \<and> i < int (length xs) then Some (xs ! nat i) else None)"

text \<open>A step that shows a table: an error is returned with the result, a panic is an error.\<close>

definition select_step :: "UApi \<Rightarrow> UCtx \<Rightarrow> string list list \<Rightarrow> string list \<Rightarrow> string \<Rightarrow> RunState \<Rightarrow>
    (int \<Rightarrow> StepResult \<Rightarrow> outcome u_prog) \<Rightarrow> outcome u_prog" where
  "select_step api ux data columns title st f = do {
     r \<leftarrow> RunSelectTable api ux data columns title;
     (case r of (selectedRow, result, err) \<Rightarrow>
        (case err of Some e \<Rightarrow> ret ((result, None, Some e), st) | None \<Rightarrow> f selectedRow result))
   }"

definition panic :: "RunState \<Rightarrow> outcome u_prog" where
  "panic st = ret ((StepResultErr, None, Some TuiPanic), st)"

definition api_failed :: "api_error \<Rightarrow> RunState \<Rightarrow> outcome u_prog" where
  "api_failed e st = ret ((StepResultErr, None, Some (TuiApi e)), st)"

section \<open>Workload steps\<close>

definition RunSelectWorkloadType :: "UApi \<Rightarrow> UCtx \<Rightarrow> RunState \<Rightarrow> outcome u_prog" where
  "RunSelectWorkloadType api ux st = (let data = [[''job''], [''service'']] in
     select_step api ux data [''Workload type''] ''Select the resource type'' st (\<lambda>selectedRow result.
       if result = StepResultOk
       then (case row_at data selectedRow of
               None \<Rightarrow> panic st
             | Some row \<Rightarrow> ret ((result, Some SelectWorkload, None), st\<lparr>ru_workloadType := hd row\<rparr>))
       else ret ((result, Some SelectWorkload, None), st\<lparr>ru_workloadType := []\<rparr>)))"

definition KaiwoUsernameLabel :: string where "KaiwoUsernameLabel = ''kaiwo-cli/username''"

fun workload_status_text :: "WorkloadStatus \<Rightarrow> string" where
  "workload_status_text WorkloadStatusNew = []"
| "workload_status_text WorkloadStatusDownloading = ''DOWNLOADING''"
| "workload_status_text WorkloadStatusPending = ''PENDING''"
| "workload_status_text WorkloadStatusStarting = ''STARTING''"
| "workload_status_text WorkloadStatusRunning = ''RUNNING''"
| "workload_status_text WorkloadStatusComplete = ''COMPLETE''"
| "workload_status_text WorkloadStatusError = ''ERROR''"
| "workload_status_text WorkloadStatusFailed = ''FAILED''"
| "workload_status_text WorkloadStatusTerminating = ''TERMINATING''"
| "workload_status_text WorkloadStatusTerminated = ''TERMINATED''"

definition load_references :: "UApi \<Rightarrow> string \<Rightarrow> string gomap \<Rightarrow> (api_error + KaiwoWorkload list) u_prog" where
  "load_references api type labelSelector =
     (if type = ''job'' then call (\<lambda>h. u_listWorkloads api h KindKaiwoJob labelSelector) (UListWorkloads KindKaiwoJob labelSelector)
      else if type = ''service'' then call (\<lambda>h. u_listWorkloads api h KindKaiwoService labelSelector) (UListWorkloads KindKaiwoService labelSelector)
      else ret (Inr []))"

definition workload_row :: "KaiwoWorkload \<Rightarrow> string list" where
  "workload_row w = [kw_name w, workload_status_text (status_of w), cms_user (kw_spec w)]"

definition runSelectWorkload :: "UApi \<Rightarrow> UCtx \<Rightarrow> RunState \<Rightarrow> outcome u_prog" where
  "runSelectWorkload api ux st = (
     let labelSelector = (if ru_user st \<noteq> [] then [(KaiwoUsernameLabel, ru_user st)] else []) in do {
       r \<leftarrow> load_references api (ru_workloadType st) labelSelector;
       (case r of
          Inl e \<Rightarrow> api_failed e st
        | Inr workloadReferences \<Rightarrow>
            if workloadReferences = [] then ret ((StepResultPrevious, None, None), st)
            else select_step api ux (map workload_row workloadReferences) [''Name'', ''WorkloadStatus'', ''Kaiwo user'']
              (''Select the '' @ ru_workloadType st @ '' workload'') st (\<lambda>selectedRow result.
                if result = StepResultOk
                then (case row_at workloadReferences selectedRow of
                        None \<Rightarrow> panic st
                      | Some w \<Rightarrow> ret ((result, Some SelectWorkloadAction, None), st\<lparr>ru_workload := Some w\<rparr>))
                else ret ((result, Some SelectWorkloadAction, None), st\<lparr>ru_workload := None\<rparr>)))
     })"

text \<open>A step that only offers actions: a map from the text of the chosen row to the next step.\<close>

definition choose_action :: "UApi \<Rightarrow> UCtx \<Rightarrow> (string \<times> TuiStep) list \<Rightarrow> string \<Rightarrow> RunState \<Rightarrow> outcome u_prog" where
  "choose_action api ux actions title st =
     select_step api ux (map (\<lambda>(a, _). [a]) actions) [''Action''] title st (\<lambda>selectedRow result.
       if result = StepResultOk
       then (case row_at actions selectedRow of
               None \<Rightarrow> panic st
             | Some (a, _) \<Rightarrow> ret ((result, map_of actions a, None), st))
       else ret ((result, None, None), st))"

definition runSelectWorkloadAction :: "UApi \<Rightarrow> UCtx \<Rightarrow> RunState \<Rightarrow> outcome u_prog" where
  "runSelectWorkloadAction api ux st = choose_action api ux
     [(''View pods'', SelectPodAndContainer), (''Port-forward'', PortForward), (''Delete workload'', DeleteWorkload)]
     ''Select the action you wish to take on the workload'' st"

definition delete_question :: "string \<Rightarrow> string \<Rightarrow> string \<Rightarrow> string" where
  "delete_question type name namespace =
     ''Confirm that you want to delete the '' @ type @ '' workload '' @ [CHR 0x27] @ name @ [CHR 0x27] @ '' in namespace '' @ namespace @
     ''. This will also remove any linked resources, such as automatically created PVCs and ConfigMaps''"

definition runDeleteWorkload :: "UApi \<Rightarrow> RunState \<Rightarrow> outcome u_prog" where
  "runDeleteWorkload api st = (case ru_workload st of
      None \<Rightarrow> panic st
    | Some w \<Rightarrow> (
        let description = delete_question (ru_workloadType st) (kw_name w) (ru_namespace st) in do {
          r \<leftarrow> call (\<lambda>h. u_confirmDelete api h description) (UConfirmDelete description);
          (case r of
             Inl e \<Rightarrow> api_failed e st
           | Inr confirmDelete \<Rightarrow>
               if \<not> confirmDelete then ret ((StepResultPrevious, None, None), st)
               else do {
                 d \<leftarrow> call (\<lambda>h. u_delete api h (workload_key w) (kw_kind w)) (UDelete (workload_key w) (kw_kind w));
                 (case d of Some e \<Rightarrow> api_failed e st | None \<Rightarrow> ret ((StepResultQuit, None, None), st))
               })
        }))"

section \<open>Pod steps\<close>

fun container_status_text :: "ContainerState \<Rightarrow> string" where
  "container_status_text (StateRunning startedAt) = ''Running since '' @ startedAt"
| "container_status_text (StateWaiting reason) = ''Waiting ('' @ reason @ '')''"
| "container_status_text (StateTerminated reason) = ''Terminated ('' @ reason @ '')''"
| "container_status_text StateNone = ''N/A''"

definition formatContainerRow :: "TuiPod \<Rightarrow> string \<times> ContainerState \<Rightarrow> string list" where
  "formatContainerRow pod container = [tpd_name pod, tpd_phase pod, fst container, container_status_text (snd container)]"

definition getContainerData :: "TuiPod \<Rightarrow> string list list" where
  "getContainerData pod = map (formatContainerRow pod) (tpd_statuses pod) @ map (formatContainerRow pod) (tpd_initStatuses pod)"

fun applyPredicates :: "(TuiPod \<Rightarrow> bool) list \<Rightarrow> TuiPod \<Rightarrow> bool" where
  "applyPredicates [] pod = True"
| "applyPredicates (predicate # predicates) pod = (if \<not> predicate pod then False else applyPredicates predicates pod)"

fun gatherPodData :: "TuiPod list \<Rightarrow> (TuiPod \<Rightarrow> bool) list \<Rightarrow> string list list" where
  "gatherPodData [] predicates = []"
| "gatherPodData (pod # pods) predicates =
     (if \<not> applyPredicates predicates pod then [] else getContainerData pod) @ gatherPodData pods predicates"

definition IsGPUPod :: "TuiPod \<Rightarrow> bool" where
  "IsGPUPod pod = list_ex (\<lambda>container. list_ex (\<lambda>r. r = ''nvidia.com/gpu'' \<or> r = ''amd.com/gpu'') (tc_limits container)) (tpd_containers pod)"

definition GetWorkloadPods :: "UApi \<Rightarrow> KaiwoWorkload \<Rightarrow> (api_error + TuiPod list) u_prog" where
  "GetWorkloadPods api w = call (\<lambda>h. u_listPods api h (kw_namespace w) (kw_uid w)) (UListPods (kw_namespace w) (kw_uid w))"

definition containerSelectColumns :: "string list" where
  "containerSelectColumns = [''Pod name'', ''Pod phase'', ''Container name'', ''Container status'']"

text \<open>The second and the fourth column of the chosen row are stored as the names of the pod and the container.\<close>

definition RunSelectPodAndContainer :: "UApi \<Rightarrow> UCtx \<Rightarrow> RunState \<Rightarrow> outcome u_prog" where
  "RunSelectPodAndContainer api ux st = (case ru_workload st of
      None \<Rightarrow> panic st
    | Some w \<Rightarrow> do {
        r \<leftarrow> GetWorkloadPods api w;
        (case r of
           Inl e \<Rightarrow> api_failed e st
         | Inr allPods \<Rightarrow>
             if allPods = [] then ret ((StepResultPrevious, None, None), st)
             else let data = gatherPodData allPods (ru_predicates st) in
               select_step api ux data containerSelectColumns ''Select pod and container'' st (\<lambda>selectedRow result.
                 if result = StepResultOk
                 then (case row_at data selectedRow of
                         None \<Rightarrow> panic st
                       | Some row \<Rightarrow> ret ((result, Some SelectAndDoAction, None),
                           st\<lparr>ru_podName := row ! 1, ru_containerName := row ! 3\<rparr>))
                 else ret ((result, Some SelectAndDoAction, None), st\<lparr>ru_podName := [], ru_containerName := []\<rparr>)))
      })"

text \<open>Choosing a pod for \<^verbatim>\<open>kaiwo logs\<close> and \<^verbatim>\<open>kaiwo exec\<close>: the names, the error, and whether the user gave up.\<close>

definition ChoosePodAndContainer :: "UApi \<Rightarrow> UCtx \<Rightarrow> KaiwoWorkload \<Rightarrow> (TuiPod \<Rightarrow> bool) list \<Rightarrow> (string \<times> string \<times> tui_error option \<times> bool) u_prog" where
  "ChoosePodAndContainer api ux reference predicates = do {
     r \<leftarrow> RunSelectPodAndContainer api ux \<lparr>ru_workload = Some reference, ru_workloadType = [], ru_user = [], ru_namespace = [],
            ru_podName = [], ru_containerName = [], ru_predicates = predicates\<rparr>;
     (case r of ((result, _, err), st) \<Rightarrow>
        ret (ru_podName st, ru_containerName st, err, result = StepResultQuit \<or> result = StepResultPrevious))
   }"

definition runSelectAndDoAction :: "UApi \<Rightarrow> UCtx \<Rightarrow> RunState \<Rightarrow> outcome u_prog" where
  "runSelectAndDoAction api ux st = (case ru_workload st of
      None \<Rightarrow> panic st
    | Some w \<Rightarrow> choose_action api ux
        [(''View logs'', ViewLogsAction), (''Monitor GPUs'', MonitorAction), (''Run command'', CommandAction)]
        (''Select action to perform on '' @ ru_workloadType st @ ''/'' @ kw_name w @ '', pod: '' @ ru_podName st @ '', container '' @ ru_containerName st) st)"

fun prompt_lines :: "UApi \<Rightarrow> nat \<Rightarrow> (tui_error + (int \<times> bool)) u_prog" where
  "prompt_lines api 0 = ret (Inl TuiUnfinished)"
| "prompt_lines api (Suc n) = do {
     r \<leftarrow> call (u_logForm api) ULogForm;
     (case r of
        Inl e \<Rightarrow> ret (Inl (TuiApi e))
      | Inr (text_lines, follow) \<Rightarrow> (
          let text_lines = (if text_lines = [] then ''-1'' else text_lines)
          in case Atoi text_lines of
               Inl _ \<Rightarrow> prompt_lines api n
             | Inr numLines \<Rightarrow> if numLines = 0 then prompt_lines api n else ret (Inr (numLines, follow))))
   }"

definition step_failed :: "tui_error \<Rightarrow> RunState \<Rightarrow> outcome u_prog" where
  "step_failed e st = ret ((StepResultErr, None, Some e), st)"

definition finish :: "RunState \<Rightarrow> api_error option \<Rightarrow> outcome u_prog" where
  "finish st r = (case r of Some e \<Rightarrow> api_failed e st | None \<Rightarrow> ret ((StepResultOk, None, None), st))"

definition runViewLogsAction :: "UApi \<Rightarrow> UCtx \<Rightarrow> RunState \<Rightarrow> outcome u_prog" where
  "runViewLogsAction api ux st = do {
     r \<leftarrow> prompt_lines api (ux_asks ux);
     (case r of
        Inl e \<Rightarrow> step_failed e st
      | Inr (numLines, follow) \<Rightarrow> (case ru_workload st of
          None \<Rightarrow> panic st
        | Some w \<Rightarrow> do {
            e \<leftarrow> call (\<lambda>h. u_logs api h (ru_podName st) (ru_containerName st) numLines (kw_namespace w) follow)
                   (ULogs (ru_podName st) (ru_containerName st) numLines (kw_namespace w) follow);
            finish st e
          }))
   }"

definition ParseCommand :: "string \<Rightarrow> string list" where
  "ParseCommand command = [''/bin/sh'', ''-c'', command]"

definition DefaultMonitorCommand :: string where "DefaultMonitorCommand = ''watch -n 1 rocm-smi''"

text \<open>The program is looked up on the machine that runs the command line, whatever the message says.\<close>

definition ValidateCommand :: "UApi \<Rightarrow> string \<Rightarrow> tui_error option u_prog" where
  "ValidateCommand api command = do {
     ok \<leftarrow> call (\<lambda>h. u_lookPath api h command) (ULookPath command);
     ret (if ok then None else Some (TuiFailed (''error: '' @ command @ '' not found in the container'')))
   }"

definition exec_in :: "UApi \<Rightarrow> RunState \<Rightarrow> string list \<Rightarrow> bool \<Rightarrow> bool \<Rightarrow> outcome u_prog" where
  "exec_in api st command interactive tty = (case ru_workload st of
      None \<Rightarrow> panic st
    | Some w \<Rightarrow> do {
        e \<leftarrow> call (\<lambda>h. u_exec api h (ru_podName st) (ru_containerName st) (kw_namespace w) command interactive tty)
               (UExec (ru_podName st) (ru_containerName st) (kw_namespace w) command interactive tty);
        finish st e
      })"

definition runMonitorAction :: "UApi \<Rightarrow> RunState \<Rightarrow> outcome u_prog" where
  "runMonitorAction api st = (let command = ParseCommand DefaultMonitorCommand in do {
     v \<leftarrow> ValidateCommand api (hd command);
     (case v of Some e \<Rightarrow> step_failed e st | None \<Rightarrow> exec_in api st command True True)
   })"

fun prompt_command :: "UApi \<Rightarrow> nat \<Rightarrow> (tui_error + (string list \<times> bool \<times> bool)) u_prog" where
  "prompt_command api 0 = ret (Inl TuiUnfinished)"
| "prompt_command api (Suc n) = do {
     r \<leftarrow> call (u_commandForm api) UCommandForm;
     (case r of
        Inl e \<Rightarrow> ret (Inl (TuiApi e))
      | Inr (execCommand, interactive, tty) \<Rightarrow>
          if execCommand = [] then prompt_command api n
          else let command = ParseCommand execCommand in do {
            v \<leftarrow> ValidateCommand api (hd command);
            ret (case v of Some e \<Rightarrow> Inl e | None \<Rightarrow> Inr (command, interactive, tty))
          })
   }"

definition runCommandAction :: "UApi \<Rightarrow> UCtx \<Rightarrow> RunState \<Rightarrow> outcome u_prog" where
  "runCommandAction api ux st = do {
     r \<leftarrow> prompt_command api (ux_asks ux);
     (case r of Inl e \<Rightarrow> step_failed e st | Inr (command, interactive, tty) \<Rightarrow> exec_in api st command interactive tty)
   }"

section \<open>Port forwarding\<close>

record PortForwardInfo =
  pf_podName :: string
  pf_containerName :: string
  pf_port :: int

text \<open>The list of services of a workload is always empty, so the targets are those of the containers.\<close>

datatype PortForwardTarget =
    ContainerPortForwardTarget string string int string string
  | ContainerAnyPortForwardTarget string string

definition GetTableRow :: "PortForwardTarget \<Rightarrow> string list" where
  "GetTableRow target = (case target of
     ContainerPortForwardTarget containerName podName port portName protocol \<Rightarrow>
       [''Container port'', containerName @ '' / '' @ portName @ '' (in pod: '' @ podName @ '')'', portName, Itoa port, protocol]
   | ContainerAnyPortForwardTarget containerName podName \<Rightarrow>
       [''Container'', containerName @ '' (pod: '' @ podName @ '')'', [], ''Any'', []])"

definition valid_port :: "int \<Rightarrow> bool" where
  "valid_port p \<longleftrightarrow> \<not> (p < 1 \<or> p > 65535)"

text \<open>\<open>Inr None\<close> is a cancelled prompt.\<close>

fun prompt_port :: "UApi \<Rightarrow> nat \<Rightarrow> (tui_error + int option) u_prog" where
  "prompt_port api 0 = ret (Inl TuiUnfinished)"
| "prompt_port api (Suc n) = do {
     r \<leftarrow> call (u_portForm api) UPortForm;
     (case r of
        Inl e \<Rightarrow> ret (Inl (TuiApi e))
      | Inr (port, confirm) \<Rightarrow>
          if \<not> confirm then ret (Inr None)
          else (case Atoi port of
                  Inl _ \<Rightarrow> prompt_port api n
                | Inr intPort \<Rightarrow> if valid_port intPort then ret (Inr (Some intPort)) else prompt_port api n))
   }"

definition GetInfo :: "UApi \<Rightarrow> UCtx \<Rightarrow> PortForwardTarget \<Rightarrow> (tui_error + PortForwardInfo option) u_prog" where
  "GetInfo api ux target = (case target of
     ContainerPortForwardTarget containerName podName port portName protocol \<Rightarrow>
       ret (Inr (Some \<lparr>pf_podName = podName, pf_containerName = containerName, pf_port = port\<rparr>))
   | ContainerAnyPortForwardTarget containerName podName \<Rightarrow>
       bindE (prompt_port api (ux_asks ux)) (\<lambda>p.
         ret (Inr (map_option (\<lambda>port. \<lparr>pf_podName = podName, pf_containerName = containerName, pf_port = port\<rparr>) p))))"

definition host_char :: "char \<Rightarrow> bool" where
  "host_char c \<longleftrightarrow> is_lower c \<or> is_upper c \<or> is_digit c"

text \<open>A part of a host name: letters, digits and inner hyphens.\<close>

definition host_part :: "string \<Rightarrow> bool" where
  "host_part p \<longleftrightarrow> p \<noteq> [] \<and> host_char (hd p) \<and> host_char (last p) \<and> list_all (\<lambda>c. host_char c \<or> c = CHR ''-'') p"

text \<open>The regular expression: parts between dots, the last of which starts with a letter.\<close>

definition isValidHost :: "UCtx \<Rightarrow> string \<Rightarrow> bool" where
  "isValidHost ux host \<longleftrightarrow> ux_parseIP ux host \<or>
     (let parts = Split host (CHR ''.'')
      in length host \<le> 255 \<and> list_all host_part parts \<and> \<not> is_digit (hd (last parts)))"

fun promptForLocalPort :: "UApi \<Rightarrow> UCtx \<Rightarrow> nat \<Rightarrow> (tui_error + (int \<times> string \<times> bool)) u_prog" where
  "promptForLocalPort api ux 0 = ret (Inl TuiUnfinished)"
| "promptForLocalPort api ux (Suc n) = do {
     r \<leftarrow> call (u_localForm api) ULocalForm;
     (case r of
        Inl e \<Rightarrow> ret (Inl (TuiApi e))
      | Inr (port, host, confirm) \<Rightarrow> (
          let again = (if \<not> confirm then ret (Inr (atoi_value port, host, False)) else promptForLocalPort api ux n)
          in case Atoi port of
               Inl _ \<Rightarrow> again
             | Inr intPort \<Rightarrow>
                 if \<not> valid_port intPort \<or> \<not> isValidHost ux host then again
                 else do {
                   isFree \<leftarrow> call (\<lambda>h. u_portFree api h host intPort) (UPortFree host intPort);
                   (if \<not> isFree then again else ret (Inr (intPort, host, confirm)))
                 }))
   }"

text \<open>The result is whether the user cancelled, and an error.\<close>

definition doPortForward :: "UApi \<Rightarrow> UCtx \<Rightarrow> RunState \<Rightarrow> PortForwardTarget \<Rightarrow> (bool \<times> tui_error option) u_prog" where
  "doPortForward api ux st target = do {
     i \<leftarrow> GetInfo api ux target;
     (case i of
        Inl e \<Rightarrow> ret (False, Some e)
      | Inr None \<Rightarrow> ret (True, None)
      | Inr (Some info) \<Rightarrow> do {
          l \<leftarrow> promptForLocalPort api ux (ux_asks ux);
          (case l of
             Inl e \<Rightarrow> ret (False, Some e)
           | Inr (localPort, host, confirm) \<Rightarrow>
               if \<not> confirm then ret (True, None)
               else do {
                 e \<leftarrow> call (\<lambda>h. u_forward api h (ru_namespace st) (pf_podName info) host localPort (pf_port info))
                        (UForward (ru_namespace st) (pf_podName info) host localPort (pf_port info));
                 ret (False, map_option TuiApi e)
               })
        })
   }"

definition container_targets :: "TuiPod list \<Rightarrow> PortForwardTarget list" where
  "container_targets pods = concat (map (\<lambda>pod. concat (map (\<lambda>c.
     map (\<lambda>(portName, port, protocol). ContainerPortForwardTarget (tc_name c) (tpd_name pod) port portName protocol) (tc_ports c)) (tpd_containers pod))) pods)
   @ concat (map (\<lambda>pod. map (\<lambda>c. ContainerAnyPortForwardTarget (tc_name c) (tpd_name pod)) (tpd_containers pod)) pods)"

text \<open>An error of the forwarding that is no cancellation is dropped.\<close>

definition runPortForward :: "UApi \<Rightarrow> UCtx \<Rightarrow> RunState \<Rightarrow> outcome u_prog" where
  "runPortForward api ux st = (case ru_workload st of
      None \<Rightarrow> panic st
    | Some w \<Rightarrow> do {
        r \<leftarrow> GetWorkloadPods api w;
        (case r of
           Inl e \<Rightarrow> api_failed e st
         | Inr workloadPods \<Rightarrow> (
             let targets = container_targets workloadPods in do {
               s \<leftarrow> RunSelectTable api ux (map GetTableRow targets) [''Type'', ''Name'', ''Port name'', ''Port'', ''Protocol''] ''Select the target'';
               (case s of (index, result, err) \<Rightarrow>
                  (case err of
                     Some e \<Rightarrow> step_failed e st
                   | None \<Rightarrow>
                       if result = StepResultOk
                       then (case row_at targets index of
                               None \<Rightarrow> panic st
                             | Some target \<Rightarrow> do {
                                 d \<leftarrow> doPortForward api ux st target;
                                 (case d of (cancelled, e) \<Rightarrow>
                                    if cancelled then ret ((StepResultPrevious, None, e), st) else ret ((result, None, None), st))
                               })
                       else ret ((result, None, None), st)))
             }))
      })"

section \<open>Navigation\<close>

definition run_step :: "UApi \<Rightarrow> UCtx \<Rightarrow> TuiStep \<Rightarrow> RunState \<Rightarrow> outcome u_prog" where
  "run_step api ux step st = (case step of
     SelectWorkloadType \<Rightarrow> RunSelectWorkloadType api ux st
   | SelectWorkload \<Rightarrow> runSelectWorkload api ux st
   | SelectWorkloadAction \<Rightarrow> runSelectWorkloadAction api ux st
   | PortForward \<Rightarrow> runPortForward api ux st
   | DeleteWorkload \<Rightarrow> runDeleteWorkload api st
   | SelectPodAndContainer \<Rightarrow> RunSelectPodAndContainer api ux st
   | SelectAndDoAction \<Rightarrow> runSelectAndDoAction api ux st
   | ViewLogsAction \<Rightarrow> runViewLogsAction api ux st
   | MonitorAction \<Rightarrow> runMonitorAction api st
   | CommandAction \<Rightarrow> runCommandAction api ux st)"

text \<open>One turn of the loop: the end with its error, or the next stack and state. The top of the stack is its last element.\<close>

definition steps_turn :: "UApi \<Rightarrow> UCtx \<Rightarrow> TuiStep list \<Rightarrow> RunState \<Rightarrow> (tui_error option + TuiStep list \<times> RunState) u_prog" where
  "steps_turn api ux stack st =
     (if stack = [] then ret (Inl None)
      else do {
        r \<leftarrow> run_step api ux (last stack) st;
        (case r of ((result, nextStep, err), st) \<Rightarrow>
           ret (case err of
              Some e \<Rightarrow> Inl (Some e)
            | None \<Rightarrow> (case result of
                StepResultOk \<Rightarrow> (case nextStep of Some n \<Rightarrow> Inr (stack @ [n], st) | None \<Rightarrow> Inl None)
              | StepResultPrevious \<Rightarrow> Inr (butlast stack, st)
              | StepResultQuit \<Rightarrow> Inl None
              | _ \<Rightarrow> Inl (Some (TuiFailed ''unexpected result from step'')))))
      })"

text \<open>The loop, for at most a given number of turns.\<close>

fun RunSteps :: "UApi \<Rightarrow> UCtx \<Rightarrow> nat \<Rightarrow> TuiStep list \<Rightarrow> RunState \<Rightarrow> tui_error option option u_prog" where
  "RunSteps api ux 0 stack st = ret None"
| "RunSteps api ux (Suc turns) stack st = do {
     r \<leftarrow> steps_turn api ux stack st;
     (case r of Inl e \<Rightarrow> ret (Some e) | Inr (stack, st) \<Rightarrow> RunSteps api ux turns stack st)
   }"

definition RunList :: "UApi \<Rightarrow> UCtx \<Rightarrow> nat \<Rightarrow> string \<Rightarrow> string \<Rightarrow> string \<Rightarrow> string \<Rightarrow> tui_error option option u_prog" where
  "RunList api ux turns workloadType workloadName namespace user =
     (if workloadType = [] \<and> workloadName \<noteq> [] then ret (Some (Some (TuiFailed ''cannot determine workload from name without a type'')))
      else let runState = \<lparr>ru_workload = None, ru_workloadType = workloadType, ru_user = user, ru_namespace = namespace, ru_podName = [],
                 ru_containerName = [], ru_predicates = []\<rparr>
           in do {
             err \<leftarrow> call (u_clients api) UClients;
             (case err of
                Some e \<Rightarrow> ret (Some (Some (TuiApi e)))
              | None \<Rightarrow> RunSteps api ux turns [SelectWorkloadType] runState)
           })"

text \<open>
  The command: \<open>listUser\<close> is its own flag, completed by the current user; the variable \<open>user\<close> that is passed on is the
  flag of \<^verbatim>\<open>kaiwo submit\<close>.
\<close>

definition list_command :: "UApi \<Rightarrow> UCtx \<Rightarrow> nat \<Rightarrow> string list \<Rightarrow> string \<Rightarrow> bool \<Rightarrow> string + string \<Rightarrow> string \<Rightarrow> string \<Rightarrow> tui_error option option u_prog" where
  "list_command api ux turns args listUser allUsers currentUser namespaceList user = (
     let workloadType = (case args of [] \<Rightarrow> [] | a # _ \<Rightarrow> a);
         workloadName = (case args of _ # b # _ \<Rightarrow> b | _ \<Rightarrow> []);
         listUser = (if listUser = [] \<and> \<not> allUsers then currentUser else Inr listUser)
     in case listUser of
          Inl e \<Rightarrow> ret (Some (Some (TuiFailed e)))
        | Inr _ \<Rightarrow> RunList api ux turns workloadType workloadName namespaceList user)"

end
