(* ===== verification/TerminalNav.thy ===== *)
theory TerminalNav
  imports Terminal
begin

text \<open>
  What the navigation of the interactive command guarantees: the stack of screens, the absence of panics, deletion after
  confirmation, the ports of a port forward, and what the choice of a pod stores.
\<close>

section \<open>Lemmas on tables and steps\<close>

lemma run_keys_index:
  assumes "cursor_law ux" and "run_keys ux keys m = Some m'" and "0 \<le> tm_cursor m" "tm_cursor m < int (tm_rows m)"
    and "0 \<le> tm_selectedIndex m" "tm_selectedIndex m < int (tm_rows m)"
  shows "0 \<le> tm_selectedIndex m' \<and> tm_selectedIndex m' < int (tm_rows m)"
  using assms(2-)
proof (induction keys arbitrary: m)
  case (Cons key keys)
  have move: "0 \<le> ux_move ux key (tm_rows m) (tm_cursor m)" "ux_move ux key (tm_rows m) (tm_cursor m) < int (tm_rows m)"
    using assms(1) Cons.prems(2,3) unfolding cursor_law_def by auto
  with Cons.prems Cons.IH [of "m\<lparr>tm_cursor := ux_move ux key (tm_rows m) (tm_cursor m)\<rparr>"] show ?case
    by (auto simp: table_Update_def split: if_splits)
qed simp

definition table_answer :: "UCtx \<Rightarrow> string list list \<Rightarrow> string list \<Rightarrow> int \<times> StepResult \<times> tui_error option \<Rightarrow> bool" where
  "table_answer ux data columns r = (case r of (i, res, err) \<Rightarrow>
     (if err = None then cursor_law ux \<longrightarrow> 0 \<le> i \<and> i < int (length data)
      else (\<forall>row \<in> set data. length row \<le> length columns) \<longrightarrow> err \<noteq> Some TuiPanic))"

lemma RunSelectTable_does: "does (\<lambda>r new. table_answer ux data columns r \<and> (\<forall>e \<in> set new. \<exists>keys. e = UKeys data title keys)) (RunSelectTable api ux data columns title)"
proof -
  have "table_answer ux data columns (case run_keys ux keys \<lparr>tm_rows = length data, tm_cursor = 0, tm_selectedIndex = 0, tm_result = StepResultUnset\<rparr> of
          None \<Rightarrow> (-1, StepResultErr, Some (TuiFailed ''error running tea''))
        | Some m \<Rightarrow> (tm_selectedIndex m, tm_result m, None))" if "data \<noteq> []" for keys
    using that run_keys_index [of ux keys "\<lparr>tm_rows = length data, tm_cursor = 0, tm_selectedIndex = 0, tm_result = StepResultUnset\<rparr>"]
    by (auto simp: table_answer_def split: option.split)
  moreover have "table_answer ux data columns (-1, StepResultErr, Some TuiPanic)" if "data \<noteq> []" "length columns < length (hd data)"
    using that by (auto simp: table_answer_def intro!: bexI [of _ "hd data"])
  ultimately show ?thesis
    unfolding RunSelectTable_def by (intro does_if does_bind does_call does_return) (auto simp: table_answer_def)
qed

text \<open>The rank of a step is its depth in the hierarchy of screens.\<close>

fun step_rank :: "TuiStep \<Rightarrow> nat" where
  "step_rank SelectWorkloadType = 0"
| "step_rank SelectWorkload = 1"
| "step_rank SelectWorkloadAction = 2"
| "step_rank PortForward = 3"
| "step_rank DeleteWorkload = 3"
| "step_rank SelectPodAndContainer = 3"
| "step_rank SelectAndDoAction = 4"
| "step_rank ViewLogsAction = 5"
| "step_rank MonitorAction = 5"
| "step_rank CommandAction = 5"

definition step_ok :: "UCtx \<Rightarrow> TuiStep \<Rightarrow> RunState \<Rightarrow> outcome \<Rightarrow> bool" where
  "step_ok ux step st r = (case r of ((res, next, err), st') \<Rightarrow>
     (err = None \<and> res = StepResultOk \<longrightarrow> (\<forall>n. next = Some n \<longrightarrow> step_rank n = Suc (step_rank step))) \<and>
     (step \<noteq> SelectWorkload \<longrightarrow> ru_workload st' = ru_workload st) \<and>
     (step = SelectWorkload \<and> err = None \<and> res = StepResultOk \<longrightarrow> ru_workload st' \<noteq> None) \<and>
     (cursor_law ux \<and> (step_rank step \<ge> 2 \<longrightarrow> ru_workload st \<noteq> None) \<longrightarrow> err \<noteq> Some TuiPanic))"

lemma row_at_range: "0 \<le> i \<Longrightarrow> i < int (length xs) \<Longrightarrow> row_at xs i = Some (xs ! nat i)"
  by (simp add: row_at_def)

lemma select_step_ok:
  assumes "\<forall>row \<in> set data. length row \<le> length columns"
    and "\<And>i res. (cursor_law ux \<Longrightarrow> 0 \<le> i \<and> i < int (length data)) \<Longrightarrow> does (\<lambda>r _. step_ok ux step st r) (f i res)"
  shows "does (\<lambda>r _. step_ok ux step st r) (select_step api ux data columns title st f)"
  unfolding select_step_def
proof (rule does_seq [OF RunSelectTable_does], goal_cases)
  case (1 r n)
  obtain i res err where r: "r = (i, res, err)" by (cases r)
  show ?case
  proof (cases err)
    case None
    then have "cursor_law ux \<Longrightarrow> 0 \<le> i \<and> i < int (length data)" using 1 by (simp add: r table_answer_def)
    with None show ?thesis by (simp add: r assms(2))
  next
    case (Some e)
    have "step_ok ux step st ((res, None, Some e), st)"
      using 1 Some assms(1) by (auto simp: r table_answer_def step_ok_def)
    with Some show ?thesis by (simp add: r does_return)
  qed
qed

lemma step_ok_fail: "e \<noteq> TuiPanic \<Longrightarrow> step_ok ux step st ((res, None, Some e), st)"
  by (simp add: step_ok_def)

lemma step_ok_leaf: "res \<noteq> StepResultOk \<or> step \<noteq> SelectWorkload \<Longrightarrow> step_ok ux step st ((res, None, None), st)"
  by (auto simp: step_ok_def)

lemma step_ok_panic: "step_rank step \<ge> 2 \<Longrightarrow> ru_workload st = None \<Longrightarrow> step_ok ux step st ((StepResultErr, None, Some TuiPanic), st)"
  by (auto simp: step_ok_def)

lemmas fail_defs = panic_def api_failed_def step_failed_def finish_def

lemma RunSelectWorkloadType_ok: "does (\<lambda>r _. step_ok ux SelectWorkloadType st r) (RunSelectWorkloadType api ux st)"
  unfolding RunSelectWorkloadType_def Let_def
  by (rule select_step_ok) (auto intro!: does_intros simp: fail_defs step_ok_def row_at_def)

lemma runSelectWorkload_ok: "does (\<lambda>r _. step_ok ux SelectWorkload st r) (runSelectWorkload api ux st)"
proof -
  have select: "does (\<lambda>r _. step_ok ux SelectWorkload st r) (select_step api ux (map workload_row ws) [''Name'', ''WorkloadStatus'', ''Kaiwo user''] title st
      (\<lambda>selectedRow result.
        if result = StepResultOk
        then (case row_at ws selectedRow of None \<Rightarrow> panic st | Some w \<Rightarrow> ret ((result, Some SelectWorkloadAction, None), st\<lparr>ru_workload := Some w\<rparr>))
        else ret ((result, Some SelectWorkloadAction, None), st\<lparr>ru_workload := None\<rparr>)))" for ws title
    by (rule select_step_ok) (auto intro!: does_intros simp: workload_row_def fail_defs step_ok_def row_at_def)
  show ?thesis
    unfolding runSelectWorkload_def Let_def [of "if _ then _ else _"] load_references_def
    by (intro does_bind does_if does_call does_return does_case_sum select)
       (auto intro!: does_return step_ok_fail step_ok_leaf simp: fail_defs)
qed

lemma choose_action_ok:
  assumes "step \<noteq> SelectWorkload" and "\<forall>(a, n) \<in> set actions. step_rank n = Suc (step_rank step)"
  shows "does (\<lambda>r _. step_ok ux step st r) (choose_action api ux actions title st)"
  unfolding choose_action_def
proof (rule select_step_ok, goal_cases)
  case (2 i res)
  then show ?case
    using assms by (auto intro!: does_intros simp: fail_defs step_ok_def row_at_def dest!: map_of_SomeD)
qed (auto simp: fail_defs)

lemma runDeleteWorkload_ok: "does (\<lambda>r _. step_ok ux DeleteWorkload st r) (runDeleteWorkload api st)"
  unfolding runDeleteWorkload_def Let_def fail_defs
  by (intro does_case_option does_bind does_call does_case_sum does_if does_return) (auto intro: step_ok_fail step_ok_leaf step_ok_panic)

lemma gather_rows: "row \<in> set (gatherPodData pods predicates) \<Longrightarrow> length row = 4"
  by (induction pods) (auto simp: getContainerData_def formatContainerRow_def split: if_splits)

lemma RunSelectPodAndContainer_ok: "does (\<lambda>r _. step_ok ux SelectPodAndContainer st r) (RunSelectPodAndContainer api ux st)"
proof -
  have select: "does (\<lambda>r _. step_ok ux SelectPodAndContainer st r) (select_step api ux (gatherPodData pods predicates) containerSelectColumns title st
      (\<lambda>selectedRow result.
        if result = StepResultOk
        then (case row_at (gatherPodData pods predicates) selectedRow of None \<Rightarrow> panic st
              | Some row \<Rightarrow> ret ((result, Some SelectAndDoAction, None), st\<lparr>ru_podName := row ! 1, ru_containerName := row ! 3\<rparr>))
        else ret ((result, Some SelectAndDoAction, None), st\<lparr>ru_podName := [], ru_containerName := []\<rparr>)))" for pods predicates title
    by (rule select_step_ok) (auto intro!: does_intros simp: gather_rows containerSelectColumns_def fail_defs step_ok_def row_at_def)
  show ?thesis
    unfolding RunSelectPodAndContainer_def GetWorkloadPods_def Let_def
    by (intro does_case_option does_bind does_call does_case_sum does_if does_return select)
       (auto intro!: does_return intro: step_ok_fail step_ok_leaf step_ok_panic simp: fail_defs)
qed

lemma runSelectAndDoAction_ok: "does (\<lambda>r _. step_ok ux SelectAndDoAction st r) (runSelectAndDoAction api ux st)"
  unfolding runSelectAndDoAction_def
  by (intro does_case_option choose_action_ok) (auto intro!: does_return intro: step_ok_panic simp: fail_defs)

text \<open>Prompts do not panic.\<close>

definition no_panic :: "tui_error + 'a \<Rightarrow> bool" where
  "no_panic r \<longleftrightarrow> r \<noteq> Inl TuiPanic"

lemma ValidateCommand_does: "does (\<lambda>r _. r \<noteq> Some TuiPanic) (ValidateCommand api c)"
  unfolding ValidateCommand_def by (intro does_bind does_call does_return) auto

lemma prompt_lines_does: "does (\<lambda>r _. no_panic r \<and> (\<forall>n follow. r = Inr (n, follow) \<longrightarrow> n \<noteq> 0)) (prompt_lines api asks)"
proof (induction asks)
  case (Suc asks)
  show ?case
    unfolding prompt_lines.simps Let_def
    by (intro does_bind does_call does_case_sum does_case_prod does_if does_return Suc) (auto simp: no_panic_def)
qed (simp add: does_return no_panic_def)

lemma prompt_command_does: "does (\<lambda>r _. no_panic r) (prompt_command api asks)"
proof (induction asks)
  case (Suc asks)
  have check: "does (\<lambda>r _. no_panic r) (do { v \<leftarrow> ValidateCommand api c; ret (case v of Some e \<Rightarrow> Inl e | None \<Rightarrow> Inr x) })" for c and x :: "string list \<times> bool \<times> bool"
    by (rule does_seq [OF ValidateCommand_does], rule does_return) (auto simp: no_panic_def split: option.split)
  show ?case
    unfolding prompt_command.simps Let_def
    by (rule does_bind, intro does_call does_case_sum does_case_prod does_if does_return Suc check) (simp add: no_panic_def)
qed (simp add: does_return no_panic_def)

lemma exec_in_ok: "step_rank step \<ge> 2 \<Longrightarrow> does (\<lambda>r _. step_ok ux step st r) (exec_in api st command interactive tty)"
  unfolding exec_in_def fail_defs
  by (intro does_case_option does_bind does_call does_return) (auto intro: step_ok_fail step_ok_leaf step_ok_panic)

lemma failed_ok: "no_panic (Inl e) \<Longrightarrow> does (\<lambda>r _. step_ok ux step st r) (step_failed e st)"
  unfolding step_failed_def no_panic_def by (intro does_return step_ok_fail) auto

lemma runViewLogsAction_ok: "does (\<lambda>r _. step_ok ux ViewLogsAction st r) (runViewLogsAction api ux st)"
  unfolding runViewLogsAction_def
proof (rule does_seq [OF prompt_lines_does], intro does_case_sum does_case_prod, goal_cases)
  case (1 r n e)
  then show ?case by (simp add: failed_ok)
next
  case (2 r n x lines follow)
  show ?case
    unfolding fail_defs
    by (intro does_case_option does_bind does_call does_return) (auto intro: step_ok_fail step_ok_leaf step_ok_panic)
qed

lemma runMonitorAction_ok: "does (\<lambda>r _. step_ok ux MonitorAction st r) (runMonitorAction api st)"
  unfolding runMonitorAction_def Let_def
  by (rule does_seq [OF ValidateCommand_does], intro does_case_option failed_ok exec_in_ok) (auto simp: no_panic_def)

lemma runCommandAction_ok: "does (\<lambda>r _. step_ok ux CommandAction st r) (runCommandAction api ux st)"
  unfolding runCommandAction_def
  by (rule does_seq [OF prompt_command_does], intro does_case_sum does_case_prod failed_ok exec_in_ok) auto

text \<open>A port is forwarded from a valid local port and host only; prompts forward nothing.\<close>

definition forward_ok :: "UCtx \<Rightarrow> u_event \<Rightarrow> bool" where
  "forward_ok ux e \<longleftrightarrow> (\<forall>ns pod host localPort port r. e = UForward ns pod host localPort port r \<longrightarrow> valid_port localPort \<and> isValidHost ux host)"

lemma forward_ok_simps [simp]:
  "forward_ok ux (UPortForm a1)" "forward_ok ux (ULocalForm a2)" "forward_ok ux (UPortFree s n b)" "forward_ok ux (UKeys d t ks)"
  "forward_ok ux (UListPods ns u a3)" "forward_ok ux (UForward ns p host l q a4) \<longleftrightarrow> valid_port l \<and> isValidHost ux host"
  by (auto simp: forward_ok_def)

lemma prompt_port_does: "does (\<lambda>r new. list_all (forward_ok ux) new) (prompt_port api asks)"
proof (induction asks)
  case (Suc asks)
  show ?case
    unfolding prompt_port.simps
    by (intro does_bind does_call does_case_sum does_case_prod does_if does_return) (auto intro!: does_mono [OF Suc])
qed (simp add: does_return)

lemma promptForLocalPort_does:
  "does (\<lambda>r new. list_all (forward_ok ux) new \<and> (\<forall>p host. r = Inr (p, host, True) \<longrightarrow> valid_port p \<and> isValidHost ux host)) (promptForLocalPort api ux asks)"
proof (induction asks)
  case (Suc asks)
  show ?case
    unfolding promptForLocalPort.simps Let_def
    by (intro does_bind does_call does_case_sum does_case_prod does_if does_return) (auto intro!: does_mono [OF Suc])
qed (simp add: does_return)

lemma doPortForward_does:
  "does (\<lambda>r new. (fst r \<longrightarrow> snd r = None) \<and> list_all (forward_ok ux) new) (doPortForward api ux st target)"
proof -
  have info: "does (\<lambda>r new. list_all (forward_ok ux) new) (GetInfo api ux target)"
    unfolding GetInfo_def
    by (cases target) (auto intro!: does_return does_bindE does_mono [OF prompt_port_does] split: sum.split)
  have locals: "does (\<lambda>r new. (fst r \<longrightarrow> snd r = None) \<and> list_all (forward_ok ux) (n @ new)) (do {
      l \<leftarrow> promptForLocalPort api ux (ux_asks ux);
      (case l of
         Inl e \<Rightarrow> ret (False, Some e)
       | Inr (localPort, host, confirm) \<Rightarrow>
           if \<not> confirm then ret (True, None)
           else do {
             e \<leftarrow> call (\<lambda>h. u_forward api h (ru_namespace st) (pf_podName info) host localPort (pf_port info))
                    (UForward (ru_namespace st) (pf_podName info) host localPort (pf_port info));
             ret (False, map_option TuiApi e)
           })
    })" if "list_all (forward_ok ux) n" for n info
    by (rule does_seq [OF promptForLocalPort_does], intro does_case_sum does_case_prod does_if does_return does_bind does_call)
       (use that in auto)
  show ?thesis
    unfolding doPortForward_def
    by (rule does_seq [OF info], intro does_case_sum does_case_option does_return locals) auto
qed

lemma runPortForward_ok: "does (\<lambda>r new. step_ok ux PortForward st r \<and> list_all (forward_ok ux) new) (runPortForward api ux st)"
proof -
  have row: "length row = 5" if "row \<in> set (map GetTableRow targets)" for row targets
    using that by (auto simp: GetTableRow_def split: PortForwardTarget.splits)
  have forward: "does (\<lambda>r new. step_ok ux PortForward st r \<and> list_all (forward_ok ux) (n @ new)) (do {
      d \<leftarrow> doPortForward api ux st target;
      (case d of (cancelled, e) \<Rightarrow> if cancelled then ret ((StepResultPrevious, None, e), st) else ret ((StepResultOk, None, None), st))
    })" if "list_all (forward_ok ux) n" for target n
    by (rule does_seq [OF doPortForward_does]) (use that in \<open>auto intro!: does_intros step_ok_leaf\<close>)
  have keys: "list_all (forward_ok ux) n" if "\<forall>e \<in> set n. \<exists>keys. e = UKeys data title keys" for n data title
    using that by (fastforce simp: list_all_iff)
  have table: "does (\<lambda>r new. step_ok ux PortForward st r \<and> list_all (forward_ok ux) (n @ new)) (do {
      s \<leftarrow> RunSelectTable api ux (map GetTableRow targets) [''Type'', ''Name'', ''Port name'', ''Port'', ''Protocol''] ''Select the target'';
      (case s of (index, result, err) \<Rightarrow>
         (case err of
            Some e \<Rightarrow> step_failed e st
          | None \<Rightarrow>
              if result = StepResultOk
              then (case row_at targets index of
                      None \<Rightarrow> panic st
                    | Some target \<Rightarrow> do {
                        d \<leftarrow> doPortForward api ux st target;
                        (case d of (cancelled, e) \<Rightarrow>
                           if cancelled then ret ((StepResultPrevious, None, e), st) else ret ((result, None, None), st))
                      })
              else ret ((result, None, None), st)))
    })" if n: "list_all (forward_ok ux) n" for n targets
  proof (rule does_seq [OF RunSelectTable_does], goal_cases)
    case (1 r n1)
    obtain i res err where r: "r = (i, res, err)" by (cases r)
    from 1 have n1: "list_all (forward_ok ux) (n @ n1)" and answer: "table_answer ux (map GetTableRow targets) [''Type'', ''Name'', ''Port name'', ''Port'', ''Protocol''] r"
      using keys n by auto
    show ?case
    proof (cases err)
      case (Some e)
      with answer have "e \<noteq> TuiPanic" by (auto simp: r table_answer_def row)
      with Some n1 show ?thesis by (auto simp: r step_failed_def intro!: does_return step_ok_fail)
    next
      case None
      with answer have "cursor_law ux \<Longrightarrow> 0 \<le> i \<and> i < int (length targets)" by (simp add: r table_answer_def)
      then have range: "cursor_law ux \<Longrightarrow> row_at targets i \<noteq> None" by (simp add: row_at_def)
      show ?thesis
        unfolding r prod.case None option.case append_assoc [symmetric]
        using forward [OF n1] n1 range
        by (cases "res = StepResultOk"; cases "row_at targets i")
           (auto intro!: does_return step_ok_leaf simp: panic_def step_ok_def)
    qed
  qed
  show ?thesis
    unfolding runPortForward_def GetWorkloadPods_def Let_def
    by (intro does_case_option does_bind does_call does_case_sum table)
       (auto intro!: does_return intro: step_ok_fail step_ok_panic simp: fail_defs)
qed

lemma run_step_ok: "does (\<lambda>r _. step_ok ux step st r) (run_step api ux step st)"
proof (cases step)
  case SelectWorkloadAction
  then show ?thesis unfolding run_step_def runSelectWorkloadAction_def by (simp add: choose_action_ok)
next
  case PortForward
  then show ?thesis unfolding run_step_def by (auto intro: does_mono [OF runPortForward_ok])
qed (simp_all add: run_step_def RunSelectWorkloadType_ok runSelectWorkload_ok runDeleteWorkload_ok
    RunSelectPodAndContainer_ok runSelectAndDoAction_ok runViewLogsAction_ok runMonitorAction_ok runCommandAction_ok)

section \<open>Sessions\<close>

text \<open>The stacks, states and histories that a session reaches from its first screen.\<close>

inductive session :: "UApi \<Rightarrow> UCtx \<Rightarrow> RunState \<Rightarrow> TuiStep list \<Rightarrow> RunState \<Rightarrow> u_event list \<Rightarrow> bool" for api ux st0 where
  start: "session api ux st0 [SelectWorkloadType] st0 []"
| turn: "session api ux st0 stack st h \<Longrightarrow> result_of (steps_turn api ux stack st) h = Inr (stack', st') \<Longrightarrow>
    session api ux st0 stack' st' (history_of (steps_turn api ux stack st) h)"

text \<open>Each screen is one deeper than the one below it, and from the third on a workload is chosen.\<close>

definition stack_ok :: "TuiStep list \<Rightarrow> RunState \<Rightarrow> bool" where
  "stack_ok stack st \<longleftrightarrow> map step_rank stack = [0..<length stack] \<and> (length stack \<ge> 3 \<longrightarrow> ru_workload st \<noteq> None)"

lemma stack_ok_last: "stack_ok stack st \<Longrightarrow> stack \<noteq> [] \<Longrightarrow> step_rank (last stack) = length stack - 1"
proof -
  assume ok: "stack_ok stack st" and "stack \<noteq> []"
  then have "last (map step_rank stack) = last [0..<length stack]" by (simp add: stack_ok_def)
  with \<open>stack \<noteq> []\<close> show ?thesis using last_map [of stack step_rank] by simp
qed

lemma rank_one: "step_rank s = 1 \<longleftrightarrow> s = SelectWorkload"
  by (cases s) auto

lemma steps_turn_ok:
  assumes ok: "stack_ok stack st"
  shows "does (\<lambda>r _. (\<forall>stack' st'. r = Inr (stack', st') \<longrightarrow> stack_ok stack' st') \<and> (cursor_law ux \<longrightarrow> r \<noteq> Inl (Some TuiPanic)))
    (steps_turn api ux stack st)"
  unfolding steps_turn_def
proof (intro does_if does_return, goal_cases)
  case 2
  note rank = stack_ok_last [OF ok 2]
  show ?case
  proof (rule does_seq [OF run_step_ok], goal_cases)
    case (1 x n)
    obtain res nextStep err st' where x: "x = ((res, nextStep, err), st')" by (metis prod.exhaust)
    have len: "length stack \<ge> 1" using 2 by (cases stack) auto
    have kept: "ru_workload st' = ru_workload st" if "length stack \<noteq> 2"
      using 1 that rank len rank_one [of "last stack"] by (auto simp: x step_ok_def)
    have chosen: "ru_workload st' \<noteq> None" if "length stack = 2" "err = None" "res = StepResultOk"
      using 1 that rank rank_one [of "last stack"] by (auto simp: x step_ok_def)
    have push: "stack_ok (stack @ [m]) st'" if "err = None" "res = StepResultOk" "nextStep = Some m" for m
    proof -
      have "step_rank m = length stack" using 1 that rank len by (auto simp: x step_ok_def)
      moreover have "ru_workload st' \<noteq> None" if "length stack \<ge> 2"
        using ok kept chosen that \<open>err = None\<close> \<open>res = StepResultOk\<close> by (cases "length stack = 2") (auto simp: stack_ok_def)
      ultimately show ?thesis using ok by (simp add: stack_ok_def)
    qed
    have pop: "stack_ok (butlast stack) st'"
    proof -
      have "map step_rank (butlast stack) = [0..<length stack - 1]"
        using ok len by (cases "length stack") (simp_all add: stack_ok_def map_butlast)
      moreover have "ru_workload st' \<noteq> None" if "length stack \<ge> 4" using ok kept that by (auto simp: stack_ok_def)
      ultimately show ?thesis by (auto simp: stack_ok_def)
    qed
    have safe: "err \<noteq> Some TuiPanic" if "cursor_law ux"
      using 1 ok rank len that by (auto simp: x step_ok_def stack_ok_def)
    show ?case
      unfolding x prod.case
      by (intro does_return) (use push pop safe in \<open>auto split: option.splits StepResult.splits\<close>)
  qed
qed (use ok in \<open>simp_all add: stack_ok_def\<close>)

lemma session_stack: "session api ux st0 stack st h \<Longrightarrow> stack_ok stack st"
proof (induction rule: session.induct)
  case start
  show ?case by (simp add: stack_ok_def)
next
  case (turn stack st h stack' st')
  show ?case
    by (rule doesD [OF steps_turn_ok [OF turn.IH], where h = h]) (use turn.hyps(2) in blast)
qed

lemma RunSteps_safe:
  "stack_ok stack st \<Longrightarrow> does (\<lambda>r _. cursor_law ux \<longrightarrow> r \<noteq> Some (Some TuiPanic)) (RunSteps api ux turns stack st)"
proof (induction turns arbitrary: stack st)
  case (Suc turns)
  show ?case
    unfolding RunSteps.simps
    by (rule does_seq [OF steps_turn_ok [OF Suc.prems]], intro does_case_sum does_case_prod does_return Suc.IH) auto
qed (simp add: does_return)

section \<open>Properties\<close>

text \<open>
  C34: The stack of screens. In every session the stack holds the path from the first screen to the present one: at most six
  screens, each one level below the one before it. From the third screen on, a workload is chosen; so, if the table
  widget keeps its cursor on the rows, no turn of the session panics, neither on a missing workload nor on an
  index out of range.
\<close>

theorem session_screens:
  assumes "session api ux st0 stack st h"
  shows "map step_rank stack = [0..<length stack] \<and> length stack \<le> 6 \<and> (3 \<le> length stack \<longrightarrow> ru_workload st \<noteq> None) \<and>
    (cursor_law ux \<longrightarrow> result_of (steps_turn api ux stack st) h \<noteq> Inl (Some TuiPanic))"
proof -
  note ok = session_stack [OF assms]
  have "length stack \<le> 6"
  proof (cases "stack = []")
    case False
    have "step_rank (last stack) \<le> 5" by (cases "last stack") auto
    with stack_ok_last [OF ok False] show ?thesis by simp
  qed simp
  moreover have "cursor_law ux \<longrightarrow> result_of (steps_turn api ux stack st) h \<noteq> Inl (Some TuiPanic)"
    by (rule doesD [OF steps_turn_ok [OF ok], where h = h]) blast
  ultimately show ?thesis using ok by (simp add: stack_ok_def)
qed

definition clamp_move :: "string \<Rightarrow> nat \<Rightarrow> int \<Rightarrow> int" where
  "clamp_move key n c = (if key = ''down'' then min (int n - 1) (c + 1) else if key = ''up'' then max 0 (c - 1) else c)"

definition example_ux :: UCtx where
  "example_ux = \<lparr>ux_move = clamp_move, ux_parseIP = (\<lambda>h. h = ''127.0.0.1''), ux_asks = 3\<rparr>"

definition example_tui_pod :: TuiPod where
  "example_tui_pod = \<lparr>tpd_name = ''train-abc'', tpd_phase = ''Running'',
     tpd_containers = [\<lparr>tc_name = ''main'', tc_ports = [(''http'', 8080, ''TCP'')], tc_limits = [''amd.com/gpu'']\<rparr>],
     tpd_statuses = [(''main'', StateRunning ''2025-01-01T00:00:00Z'')], tpd_initStatuses = []\<rparr>"

text \<open>A user who takes the first row of every table.\<close>

definition example_uapi :: UApi where
  "example_uapi = \<lparr>u_keys = (\<lambda>_ _ _. [''up'', ''enter'']), u_listWorkloads = (\<lambda>_ _ _. Inr [example_workload]),
     u_listPods = (\<lambda>_ _ _. Inr [example_tui_pod]), u_confirmDelete = (\<lambda>_ _. Inr True), u_delete = (\<lambda>_ _ _. None),
     u_logForm = (\<lambda>_. Inr ([], True)), u_commandForm = (\<lambda>_. Inr (''ls'', True, True)), u_portForm = (\<lambda>_. Inr (''80'', True)),
     u_localForm = (\<lambda>_. Inr (''8080'', ''localhost'', True)), u_portFree = (\<lambda>_ _ _. True), u_lookPath = (\<lambda>_ _. True),
     u_logs = (\<lambda>_ _ _ _ _ _. None), u_exec = (\<lambda>_ _ _ _ _ _ _. None), u_forward = (\<lambda>_ _ _ _ _ _. None),
     u_clients = (\<lambda>_. None), u_getWorkload = (\<lambda>_ _ _. Inr example_workload)\<rparr>"

definition fresh_state :: RunState where
  "fresh_state = \<lparr>ru_workload = None, ru_workloadType = [], ru_user = [], ru_namespace = ''kaiwo'', ru_podName = [], ru_containerName = [], ru_predicates = []\<rparr>"

lemma example_cursor_law: "cursor_law example_ux"
  by (auto simp: cursor_law_def example_ux_def clamp_move_def)

lemmas tui_eval = steps_turn_def run_step_def select_step_def RunSelectTable_def table_Update_def row_at_def result_of_def history_of_def
  example_uapi_def example_ux_def clamp_move_def

lemma example_first_turn:
  "result_of (steps_turn example_uapi example_ux [SelectWorkloadType] fresh_state) [] =
     Inr ([SelectWorkloadType, SelectWorkload], fresh_state\<lparr>ru_workloadType := ''job''\<rparr>)"
  by (simp add: tui_eval RunSelectWorkloadType_def Let_def fresh_state_def)

lemma example_second_turn:
  "result_of (steps_turn example_uapi example_ux [SelectWorkloadType, SelectWorkload] (fresh_state\<lparr>ru_workloadType := ''job''\<rparr>)) h =
     Inr ([SelectWorkloadType, SelectWorkload, SelectWorkloadAction], fresh_state\<lparr>ru_workloadType := ''job'', ru_workload := Some example_workload\<rparr>)"
  by (simp add: tui_eval runSelectWorkload_def load_references_def workload_row_def Let_def fresh_state_def)

theorem session_screens_witness:
  "\<exists>h. result_of (steps_turn example_uapi example_ux [SelectWorkloadType, SelectWorkload, SelectWorkloadAction]
     (fresh_state\<lparr>ru_workloadType := ''job'', ru_workload := Some example_workload\<rparr>)) h \<noteq> Inl (Some TuiPanic)"
proof -
  note first = session.turn [OF session.start example_first_turn]
  note reached = session.turn [OF first example_second_turn]
  show ?thesis using session_screens [OF reached] example_cursor_law by blast
qed

text \<open>
  The local end of a port forward. Whatever the user answers, a port is forwarded only from a local port between 1 and
  65535 and a host that is an IP address or a well-formed host name.
\<close>

theorem forwarded_ports_valid:
  "emits (\<lambda>e. \<forall>ns pod host localPort port r. e = UForward ns pod host localPort port r \<longrightarrow>
      1 \<le> localPort \<and> localPort \<le> 65535 \<and> (ux_parseIP ux host \<or> list_all host_part (Split host (CHR ''.'')))) (runPortForward api ux st)"
proof -
  have "list_all (forward_ok ux) new \<Longrightarrow> list_all (\<lambda>e. \<forall>ns pod host localPort port r. e = UForward ns pod host localPort port r \<longrightarrow>
      1 \<le> localPort \<and> localPort \<le> 65535 \<and> (ux_parseIP ux host \<or> list_all host_part (Split host (CHR ''.'')))) new" for new
    by (auto simp: list_all_iff forward_ok_def valid_port_def isValidHost_def Let_def)
  then show ?thesis unfolding emits_def by (auto intro: does_mono [OF runPortForward_ok])
qed

section \<open>Deletion\<close>

text \<open>Every deletion directly follows a confirmation.\<close>

definition deletes_confirmed :: "u_event list \<Rightarrow> bool" where
  "deletes_confirmed new \<longleftrightarrow> (\<forall>pre key kind r post. new = pre @ UDelete key kind r # post \<longrightarrow>
     (\<exists>pre' type ns. pre = pre' @ [UConfirmDelete (delete_question type (key_name key) ns) (Inr True)]))"

lemma deletes_confirmed_append:
  assumes "deletes_confirmed xs" and "deletes_confirmed ys"
  shows "deletes_confirmed (xs @ ys)"
  unfolding deletes_confirmed_def
proof (intro allI impI)
  fix pre key kind r post
  assume "xs @ ys = pre @ UDelete key kind r # post"
  then consider us where "xs = pre @ us" "us @ ys = UDelete key kind r # post" | us where "xs @ us = pre" "ys = us @ UDelete key kind r # post"
    unfolding append_eq_append_conv2 by blast
  then show "\<exists>pre' type ns. pre = pre' @ [UConfirmDelete (delete_question type (key_name key) ns) (Inr True)]"
  proof cases
    case (1 us)
    then show ?thesis
    proof (cases us)
      case Nil
      with 1 have "ys = [] @ UDelete key kind r # post" by simp
      with assms(2) show ?thesis unfolding deletes_confirmed_def by blast
    next
      case (Cons e us')
      with 1 have "xs = pre @ UDelete key kind r # us'" by simp
      with assms(1) show ?thesis unfolding deletes_confirmed_def by blast
    qed
  next
    case (2 us)
    with assms(2) obtain pre' type ns where "us = pre' @ [UConfirmDelete (delete_question type (key_name key) ns) (Inr True)]"
      unfolding deletes_confirmed_def by blast
    with 2 show ?thesis by (intro exI [of _ "xs @ pre'"] exI [of _ type] exI [of _ ns]) simp
  qed
qed

interpretation confirmed: trace_property deletes_confirmed
  by unfold_locales (simp add: deletes_confirmed_def, rule deletes_confirmed_append)

fun is_delete :: "u_event \<Rightarrow> bool" where
  "is_delete (UDelete key kind r) = True"
| "is_delete e = False"

lemma emits_confirmed: "emits (\<lambda>e. \<not> is_delete e) m \<Longrightarrow> confirmed.always m"
  unfolding emits_def confirmed.always_def by (erule does_mono) (auto simp: deletes_confirmed_def)

lemma RunSelectTable_quiet: "emits (\<lambda>e. \<not> is_delete e) (RunSelectTable api ux data columns title)"
  unfolding RunSelectTable_def by (intro emits_intros) simp

lemma select_step_quiet:
  "(\<And>i res. emits (\<lambda>e. \<not> is_delete e) (f i res)) \<Longrightarrow> emits (\<lambda>e. \<not> is_delete e) (select_step api ux data columns title st f)"
  unfolding select_step_def by (intro emits_intros RunSelectTable_quiet)

lemma fail_quiet:
  "emits P (panic st)" "emits P (api_failed e st)" "emits P (step_failed te st)" "emits P (finish st r)"
  unfolding fail_defs by (intro emits_intros)+

lemma ValidateCommand_quiet: "emits (\<lambda>e. \<not> is_delete e) (ValidateCommand api c)"
  unfolding ValidateCommand_def by (intro emits_intros) simp

lemma GetWorkloadPods_quiet: "emits (\<lambda>e. \<not> is_delete e) (GetWorkloadPods api w)"
  unfolding GetWorkloadPods_def by (intro emits_intros) simp

lemma exec_in_quiet: "emits (\<lambda>e. \<not> is_delete e) (exec_in api st command i t)"
  unfolding exec_in_def by (intro emits_intros fail_quiet) simp

lemma prompt_lines_quiet: "emits (\<lambda>e. \<not> is_delete e) (prompt_lines api n)"
proof (induction n)
  case (Suc n)
  show ?case unfolding prompt_lines.simps by (intro emits_intros Suc) simp
qed (simp add: emits_return)

lemma prompt_command_quiet: "emits (\<lambda>e. \<not> is_delete e) (prompt_command api n)"
proof (induction n)
  case (Suc n)
  show ?case unfolding prompt_command.simps by (intro emits_intros Suc ValidateCommand_quiet) simp
qed (simp add: emits_return)

lemma prompt_port_quiet: "emits (\<lambda>e. \<not> is_delete e) (prompt_port api n)"
proof (induction n)
  case (Suc n)
  show ?case unfolding prompt_port.simps by (intro emits_intros Suc) simp
qed (simp add: emits_return)

lemma promptForLocalPort_quiet: "emits (\<lambda>e. \<not> is_delete e) (promptForLocalPort api ux n)"
proof (induction n)
  case (Suc n)
  show ?case unfolding promptForLocalPort.simps Let_def by (intro emits_intros Suc) simp_all
qed (simp add: emits_return)

lemma GetInfo_quiet: "emits (\<lambda>e. \<not> is_delete e) (GetInfo api ux target)"
  unfolding GetInfo_def by (cases target) (auto intro!: emits_intros prompt_port_quiet)

lemma doPortForward_quiet: "emits (\<lambda>e. \<not> is_delete e) (doPortForward api ux st target)"
  unfolding doPortForward_def by (intro emits_intros GetInfo_quiet promptForLocalPort_quiet) simp

lemmas quiet_rules = emits_intros fail_quiet select_step_quiet RunSelectTable_quiet ValidateCommand_quiet GetWorkloadPods_quiet
  exec_in_quiet prompt_lines_quiet prompt_command_quiet doPortForward_quiet

lemma choose_action_quiet: "emits (\<lambda>e. \<not> is_delete e) (choose_action api ux actions title st)"
  unfolding choose_action_def by (intro quiet_rules)

lemma runSelectWorkload_quiet: "emits (\<lambda>e. \<not> is_delete e) (runSelectWorkload api ux st)"
  unfolding runSelectWorkload_def load_references_def by (intro quiet_rules) simp_all

lemma RunSelectPodAndContainer_quiet: "emits (\<lambda>e. \<not> is_delete e) (RunSelectPodAndContainer api ux st)"
  unfolding RunSelectPodAndContainer_def by (intro quiet_rules)

lemma runPortForward_quiet: "emits (\<lambda>e. \<not> is_delete e) (runPortForward api ux st)"
  unfolding runPortForward_def by (intro quiet_rules)

lemma actions_quiet:
  "emits (\<lambda>e. \<not> is_delete e) (RunSelectWorkloadType api ux st)" "emits (\<lambda>e. \<not> is_delete e) (runViewLogsAction api ux st)"
  "emits (\<lambda>e. \<not> is_delete e) (runMonitorAction api st)" "emits (\<lambda>e. \<not> is_delete e) (runCommandAction api ux st)"
  "emits (\<lambda>e. \<not> is_delete e) (runSelectAndDoAction api ux st)" "emits (\<lambda>e. \<not> is_delete e) (runSelectWorkloadAction api ux st)"
  unfolding RunSelectWorkloadType_def runViewLogsAction_def runMonitorAction_def runCommandAction_def runSelectAndDoAction_def runSelectWorkloadAction_def
  by (intro quiet_rules choose_action_quiet; simp)+

lemma runDeleteWorkload_confirmed: "confirmed.always (runDeleteWorkload api st)"
  unfolding runDeleteWorkload_def confirmed.always_def fail_defs Let_def
  by (intro does_case_option does_bind does_call does_case_sum does_if does_return) (auto simp: deletes_confirmed_def Cons_eq_append_conv workload_key_def)

lemma run_step_confirmed: "confirmed.always (run_step api ux step st)"
  by (cases step)
     (simp_all add: run_step_def emits_confirmed runDeleteWorkload_confirmed actions_quiet runPortForward_quiet RunSelectPodAndContainer_quiet runSelectWorkload_quiet)

text \<open>
  C35: Nothing is deleted without a confirmation. In a session of any length, with any keys and answers, every deletion of a
  workload comes directly after the user has confirmed the question that names this workload.
\<close>

theorem RunList_deletes_confirmed:
  "\<exists>new. history_of (RunList api ux turns workloadType workloadName namespace user) h = h @ new \<and>
     (\<forall>pre key kind r post. new = pre @ UDelete key kind r # post \<longrightarrow>
       (\<exists>pre' type ns. pre = pre' @ [UConfirmDelete (delete_question type (key_name key) ns) (Inr True)]))"
proof -
  have turn: "confirmed.always (steps_turn api ux stack st)" for stack st
    unfolding steps_turn_def by (intro confirmed.always_intros run_step_confirmed)
  have steps: "confirmed.always (RunSteps api ux turns stack st)" for stack st
  proof (induction turns arbitrary: stack st)
    case (Suc turns)
    show ?case unfolding RunSteps.simps by (intro confirmed.always_intros turn Suc)
  qed (simp add: confirmed.always_return)
  have "confirmed.always (RunList api ux turns workloadType workloadName namespace user)"
    unfolding RunList_def by (intro confirmed.always_intros steps) (simp add: deletes_confirmed_def Cons_eq_append_conv)
  then obtain new where "history_of (RunList api ux turns workloadType workloadName namespace user) h = h @ new" "deletes_confirmed new"
    unfolding confirmed.always_def by (rule doesD)
  then show ?thesis unfolding deletes_confirmed_def by blast
qed

definition deleting_user :: UApi where
  "deleting_user = example_uapi\<lparr>u_keys := (\<lambda>_ data _. if length data = 3 then [''down'', ''down'', ''enter''] else [''enter''])\<rparr>"

definition delete_session :: "u_event list" where
  "delete_session = history_of (RunList deleting_user example_ux 10 [] [] ''kaiwo'' []) []"

lemma delete_session_run: "list_ex is_delete delete_session"
  by code_simp

theorem RunList_deletes_confirmed_witness:
  "\<exists>pre type ns key kind r post. delete_session =
     pre @ [UConfirmDelete (delete_question type (key_name key) ns) (Inr True), UDelete key kind r] @ post"
proof -
  from delete_session_run obtain e where e: "e \<in> set delete_session" "is_delete e" by (auto simp: list_ex_iff)
  from e(2) obtain key kind r where "e = UDelete key kind r" by (cases e) auto
  with e(1) obtain pre post where split: "delete_session = pre @ UDelete key kind r # post" by (metis split_list)
  with RunList_deletes_confirmed [of deleting_user example_ux 10 "[]" "[]" "''kaiwo''" "[]" "[]"]
  obtain pre' type ns where "pre = pre' @ [UConfirmDelete (delete_question type (key_name key) ns) (Inr True)]"
    unfolding delete_session_def append_Nil by blast
  with split have "delete_session = pre' @ [UConfirmDelete (delete_question type (key_name key) ns) (Inr True), UDelete key kind r] @ post" by simp
  then show ?thesis by blast
qed

section \<open>The choice of a pod\<close>

lemma gather_rowE:
  assumes "row \<in> set (gatherPodData pods predicates)"
  obtains pod c where "pod \<in> set pods" "c \<in> set (tpd_statuses pod) \<union> set (tpd_initStatuses pod)" "row = formatContainerRow pod c" "applyPredicates predicates pod"
  using assms
proof (induction pods)
  case (Cons p pods)
  show ?case
  proof (cases "row \<in> set (gatherPodData pods predicates)")
    case True
    with Cons show ?thesis by (metis list.set_intros(2))
  next
    case False
    with Cons.prems(2) have "applyPredicates predicates p" "row \<in> set (getContainerData p)" by (auto split: if_splits)
    then show ?thesis using Cons.prems(1) [of p] unfolding getContainerData_def by auto
  qed
qed simp

lemma RunSelectTable_result:
  "does (\<lambda>r _. snd (snd r) = None \<or> fst (snd r) = StepResultErr) (RunSelectTable api ux data columns title)"
  unfolding RunSelectTable_def by (intro does_if does_bind does_call does_return) (auto split: option.split)

text \<open>What is stored as the names of pod and container are the phase of a listed pod and the status of one of its containers.\<close>

definition misread :: "(TuiPod \<Rightarrow> bool) list \<Rightarrow> TuiPod list \<Rightarrow> RunState \<Rightarrow> bool" where
  "misread predicates pods st \<longleftrightarrow> (\<exists>pod c. pod \<in> set pods \<and> applyPredicates predicates pod \<and>
     c \<in> set (tpd_statuses pod) \<union> set (tpd_initStatuses pod) \<and>
     ru_podName st = tpd_phase pod \<and> ru_containerName st = container_status_text (snd c))"

lemma misread_row:
  assumes "row_at (gatherPodData pods predicates) i = Some row"
  shows "misread predicates pods (st\<lparr>ru_podName := row ! Suc 0, ru_containerName := row ! 3\<rparr>)"
proof -
  have "row \<in> set (gatherPodData pods predicates)" using assms by (auto simp: row_at_def split: if_splits)
  then obtain pod c where "pod \<in> set pods" "c \<in> set (tpd_statuses pod) \<union> set (tpd_initStatuses pod)" "row = formatContainerRow pod c"
      "applyPredicates predicates pod"
    by (rule gather_rowE)
  then show ?thesis unfolding misread_def by (intro exI [of _ pod] exI [of _ c]) (simp add: formatContainerRow_def)
qed

lemma RunSelectPodAndContainer_choice:
  "does (\<lambda>r new. \<forall>next st'. r = ((StepResultOk, next, None), st') \<longrightarrow>
     (\<exists>ns uid pods. UListPods ns uid (Inr pods) \<in> set new \<and> misread (ru_predicates st) pods st')) (RunSelectPodAndContainer api ux st)"
proof -
  have select: "does (\<lambda>r new. \<forall>next st'. r = ((StepResultOk, next, None), st') \<longrightarrow>
      (\<exists>ns' uid' pods'. UListPods ns' uid' (Inr pods') \<in> set ([UListPods ns uid (Inr pods)] @ new) \<and> misread (ru_predicates st) pods' st'))
    (select_step api ux (gatherPodData pods (ru_predicates st)) containerSelectColumns title st (\<lambda>selectedRow result.
        if result = StepResultOk
        then (case row_at (gatherPodData pods (ru_predicates st)) selectedRow of None \<Rightarrow> panic st
              | Some row \<Rightarrow> ret ((result, Some SelectAndDoAction, None), st\<lparr>ru_podName := row ! 1, ru_containerName := row ! 3\<rparr>))
        else ret ((result, Some SelectAndDoAction, None), st\<lparr>ru_podName := [], ru_containerName := []\<rparr>)))" for ns uid pods title
    unfolding select_step_def panic_def
    by (rule does_seq [OF RunSelectTable_result], intro does_case_prod does_case_option does_if does_return)
       (auto dest!: misread_row [where st = st])
  show ?thesis
    unfolding RunSelectPodAndContainer_def GetWorkloadPods_def Let_def api_failed_def
    by (intro does_case_option does_bind does_call does_case_sum does_if does_return; hypsubst?; (rule select | auto intro!: does_return simp: panic_def))
qed

text \<open>
  The chosen pod is not the one that is used. When the user picks a row of the table of pods and containers, the name that is
  kept for the pod is its phase and the name that is kept for the container is the text of its status, because
  the second and fourth of the four columns are read; the logs and commands that follow are requested from a pod of
  that name.
\<close>

theorem chosen_pod_misread:
  assumes "result_of (RunSelectPodAndContainer api ux st) h = ((StepResultOk, next, None), st')"
  shows "\<exists>ns uid pods. UListPods ns uid (Inr pods) \<in> set (history_of (RunSelectPodAndContainer api ux st) h) \<and> misread (ru_predicates st) pods st'"
proof -
  obtain new where new: "history_of (RunSelectPodAndContainer api ux st) h = h @ new"
    and "\<forall>next st'. result_of (RunSelectPodAndContainer api ux st) h = ((StepResultOk, next, None), st') \<longrightarrow>
      (\<exists>ns uid pods. UListPods ns uid (Inr pods) \<in> set new \<and> misread (ru_predicates st) pods st')"
    using RunSelectPodAndContainer_choice by (rule doesD)
  with assms show ?thesis unfolding new set_append by blast
qed

definition selecting_state :: RunState where
  "selecting_state = fresh_state\<lparr>ru_workload := Some example_workload\<rparr>"

lemma chosen_run:
  "result_of (RunSelectPodAndContainer example_uapi example_ux selecting_state) [] =
     ((StepResultOk, Some SelectAndDoAction, None), selecting_state\<lparr>ru_podName := ''Running'', ru_containerName := ''Running since 2025-01-01T00:00:00Z''\<rparr>)"
  by (simp add: tui_eval RunSelectPodAndContainer_def GetWorkloadPods_def selecting_state_def fresh_state_def getContainerData_def
      formatContainerRow_def example_tui_pod_def containerSelectColumns_def Let_def)

theorem chosen_pod_misread_witness:
  "\<exists>pods. misread (ru_predicates selecting_state) pods (selecting_state\<lparr>ru_podName := ''Running'', ru_containerName := ''Running since 2025-01-01T00:00:00Z''\<rparr>)"
  using chosen_pod_misread [OF chosen_run] by blast

end
