(* ===== verification/PodCommands.thy ===== *)
theory PodCommands
  imports TerminalNav
begin

text \<open>
  The commands that work on one container of a workload: \<^verbatim>\<open>kaiwo logs\<close> (\<^verbatim>\<open>pkg/cli/logs.go\<close>), \<^verbatim>\<open>kaiwo exec\<close> and
  \<^verbatim>\<open>kaiwo monitor\<close> (\<^verbatim>\<open>pkg/cli/exec.go\<close>), with the lookup of the workload (\<^verbatim>\<open>pkg/cli/utils/select.go\<close>). They let the user
  choose a container as the interactive command does. Lemmas: what is requested after the choice, and from which pod.
\<close>

section \<open>Definitions\<close>

definition api_result :: "(api_error + 'a) u_prog \<Rightarrow> (tui_error + 'a) u_prog" where
  "api_result m = do { r \<leftarrow> m; ret (case r of Inl e \<Rightarrow> Inl (TuiApi e) | Inr x \<Rightarrow> Inr x) }"

definition get_clients :: "UApi \<Rightarrow> (tui_error + unit) u_prog" where
  "get_clients api = do { r \<leftarrow> call (u_clients api) UClients; ret (case r of Some e \<Rightarrow> Inl (TuiApi e) | None \<Rightarrow> Inr ()) }"

definition get_of_kind :: "UApi \<Rightarrow> workload_kind \<Rightarrow> string \<Rightarrow> string \<Rightarrow> (tui_error + KaiwoWorkload) u_prog" where
  "get_of_kind api kind name namespace = (let key = \<lparr>key_name = name, key_namespace = namespace\<rparr> in
     api_result (call (\<lambda>h. u_getWorkload api h kind key) (UGetWorkload kind key)))"

definition GetWorkload :: "UApi \<Rightarrow> string \<Rightarrow> string \<Rightarrow> (tui_error + KaiwoWorkload) u_prog" where
  "GetWorkload api workloadSelector namespace = (case Split workloadSelector (CHR ''/'') of
     [type, name] \<Rightarrow>
       if type = ''job'' then get_of_kind api KindKaiwoJob name namespace
       else if type = ''service'' then get_of_kind api KindKaiwoService name namespace
       else ret (Inl (TuiFailed (''invalid workload type: '' @ type)))
   | _ \<Rightarrow> ret (Inl (TuiFailed (''invalid workload selector, must be type/name: '' @ workloadSelector))))"

text \<open>What \<^verbatim>\<open>executeLogsCommand\<close> and \<^verbatim>\<open>executeContainerCommand\<close> have in common: up to the choice, \<open>None\<close> if it is cancelled.\<close>

definition choose_container :: "UApi \<Rightarrow> UCtx \<Rightarrow> string \<Rightarrow> string \<Rightarrow> (TuiPod \<Rightarrow> bool) list \<Rightarrow> (tui_error + (string \<times> string) option) u_prog" where
  "choose_container api ux selector namespace predicates =
     bindE (get_clients api) (\<lambda>_.
     bindE (GetWorkload api selector namespace) (\<lambda>workload.
     bindE (api_result (GetWorkloadPods api workload)) (\<lambda>allPods.
       if allPods = [] then ret (Inl (TuiFailed (''no pods found for workload '' @ selector)))
       else do {
         r \<leftarrow> ChoosePodAndContainer api ux workload predicates;
         ret (case r of (podName, containerName, err, cancelled) \<Rightarrow>
           (case err of Some e \<Rightarrow> Inl e | None \<Rightarrow> if cancelled then Inr None else Inr (Some (podName, containerName))))
       })))"

definition executeLogsCommand :: "UApi \<Rightarrow> UCtx \<Rightarrow> int \<Rightarrow> string \<Rightarrow> bool \<Rightarrow> string \<Rightarrow> (tui_error + unit) u_prog" where
  "executeLogsCommand api ux tailLines namespaceLogs follow selector =
     bindE (choose_container api ux selector namespaceLogs []) (\<lambda>chosen. case chosen of
       None \<Rightarrow> ret (Inr ())
     | Some (podName, containerName) \<Rightarrow> do {
         r \<leftarrow> call (\<lambda>h. u_logs api h podName containerName tailLines namespaceLogs follow)
                (ULogs podName containerName tailLines namespaceLogs follow);
         ret (case r of Some e \<Rightarrow> Inl (TuiApi e) | None \<Rightarrow> Inr ())
       })"

definition executeContainerCommand :: "UApi \<Rightarrow> UCtx \<Rightarrow> string \<Rightarrow> bool \<Rightarrow> bool \<Rightarrow> string \<Rightarrow> string list \<Rightarrow> bool \<Rightarrow> (tui_error + unit) u_prog" where
  "executeContainerCommand api ux execNamespace execInteractive execTTY selector command gpuPodsOnly =
     bindE (choose_container api ux selector execNamespace (if gpuPodsOnly then [IsGPUPod] else [])) (\<lambda>chosen. case chosen of
       None \<Rightarrow> ret (Inr ())
     | Some (podName, containerName) \<Rightarrow> do {
         r \<leftarrow> call (\<lambda>h. u_exec api h podName containerName execNamespace command execInteractive execTTY)
                (UExec podName containerName execNamespace command execInteractive execTTY);
         ret (case r of Some e \<Rightarrow> Inl (TuiApi e) | None \<Rightarrow> Inr ())
       })"

definition validated :: "UApi \<Rightarrow> string list \<Rightarrow> (tui_error + unit) u_prog" where
  "validated api command = do {
     v \<leftarrow> ValidateCommand api (hd command);
     ret (case v of Some e \<Rightarrow> Inl e | None \<Rightarrow> Inr ())
   }"

definition monitor_command :: "UApi \<Rightarrow> UCtx \<Rightarrow> string \<Rightarrow> bool \<Rightarrow> bool \<Rightarrow> string \<Rightarrow> string \<Rightarrow> (tui_error + unit) u_prog" where
  "monitor_command api ux execNamespace execInteractive execTTY selector command = (let parsedCommand = ParseCommand command in
     bindE (validated api parsedCommand) (\<lambda>_.
       executeContainerCommand api ux execNamespace execInteractive execTTY selector parsedCommand True))"

definition exec_command :: "UApi \<Rightarrow> UCtx \<Rightarrow> string \<Rightarrow> bool \<Rightarrow> bool \<Rightarrow> string \<Rightarrow> string \<Rightarrow> (tui_error + unit) u_prog" where
  "exec_command api ux execNamespace execInteractive execTTY selector execCommand =
     (if execCommand = [] then ret (Inl (TuiFailed ''--command flag is required''))
      else let command = ParseCommand execCommand in
        bindE (validated api command) (\<lambda>_.
          executeContainerCommand api ux execNamespace execInteractive execTTY selector command False))"

section \<open>Lemmas\<close>

fun is_request :: "u_event \<Rightarrow> bool" where
  "is_request (ULogs p c n ns f r) = True"
| "is_request (UExec p c ns cmd i t r) = True"
| "is_request e = False"

text \<open>A table that is left without an error was left by a key that sets the result.\<close>

lemma run_keys_result: "run_keys ux keys m = Some m' \<Longrightarrow> tm_result m' \<in> {StepResultOk, StepResultPrevious, StepResultQuit}"
  by (induction keys arbitrary: m) (auto simp: table_Update_def split: if_splits)

lemma RunSelectTable_choice:
  "does (\<lambda>r new. (snd (snd r) = None \<longrightarrow> fst (snd r) \<in> {StepResultOk, StepResultPrevious, StepResultQuit}) \<and> \<not> list_ex is_request new)
     (RunSelectTable api ux data columns title)"
  unfolding RunSelectTable_def
  by (intro does_if does_bind does_call does_return) (auto dest: run_keys_result split: option.split)

lemma RunSelectPodAndContainer_left:
  "does (\<lambda>r new. (snd (snd (fst r)) = None \<longrightarrow> fst (fst r) \<in> {StepResultOk, StepResultPrevious, StepResultQuit}) \<and> \<not> list_ex is_request new)
     (RunSelectPodAndContainer api ux st)"
proof -
  let ?P = "\<lambda>r :: outcome. snd (snd (fst r)) = None \<longrightarrow> fst (fst r) \<in> {StepResultOk, StepResultPrevious, StepResultQuit}"
  have select: "does (\<lambda>r new. ?P r \<and> \<not> list_ex is_request new) (select_step api ux data columns title st (\<lambda>selectedRow result.
      if result = StepResultOk
      then (case row_at data selectedRow of None \<Rightarrow> panic st
            | Some row \<Rightarrow> ret ((result, Some SelectAndDoAction, None), st\<lparr>ru_podName := row ! 1, ru_containerName := row ! 3\<rparr>))
      else ret ((result, Some SelectAndDoAction, None), st\<lparr>ru_podName := [], ru_containerName := []\<rparr>)))" for data columns title
    unfolding select_step_def panic_def
    by (rule does_seq [OF RunSelectTable_choice], intro does_case_prod does_case_option does_if does_return) auto
  show ?thesis
    unfolding RunSelectPodAndContainer_def GetWorkloadPods_def Let_def api_failed_def panic_def
    by (intro does_case_option does_bind does_call does_case_sum does_if does_return)
       (auto intro!: does_mono [OF select [unfolded panic_def]])
qed

text \<open>The chosen names are a phase and a status, as \<open>misread\<close> says.\<close>

definition read_from :: "(TuiPod \<Rightarrow> bool) list \<Rightarrow> u_event list \<Rightarrow> string \<Rightarrow> string \<Rightarrow> bool" where
  "read_from predicates new podName containerName \<longleftrightarrow>
     (\<exists>ns uid pods pod c. UListPods ns uid (Inr pods) \<in> set new \<and> pod \<in> set pods \<and> applyPredicates predicates pod \<and>
        c \<in> set (tpd_statuses pod) \<union> set (tpd_initStatuses pod) \<and> podName = tpd_phase pod \<and> containerName = container_status_text (snd c))"

lemma read_from_mono: "read_from ps new p c \<Longrightarrow> read_from ps (pre @ new) p c"
  unfolding read_from_def set_append by blast

lemma ChoosePodAndContainer_choice:
  "does (\<lambda>r new. \<not> list_ex is_request new \<and>
       (\<forall>podName containerName. r = (podName, containerName, None, False) \<longrightarrow> read_from predicates new podName containerName))
     (ChoosePodAndContainer api ux reference predicates)"
proof -
  let ?st = "\<lparr>ru_workload = Some reference, ru_workloadType = [], ru_user = [], ru_namespace = [],
            ru_podName = [], ru_containerName = [], ru_predicates = predicates\<rparr>"
  have read: "read_from predicates new (ru_podName st') (ru_containerName st')"
    if "\<exists>ns uid pods. UListPods ns uid (Inr pods) \<in> set new \<and> misread predicates pods st'" for new st'
    using that unfolding read_from_def misread_def by blast
  show ?thesis
    unfolding ChoosePodAndContainer_def
    by (rule does_seq [OF does_conj [OF RunSelectPodAndContainer_choice [of ?st api ux] RunSelectPodAndContainer_left]],
        intro does_case_prod does_return) (auto intro: read)
qed

lemma get_clients_quiet: "does (\<lambda>_ new. \<not> list_ex is_request new) (get_clients api)"
  unfolding get_clients_def by (intro does_bind does_call does_return) simp

lemma get_of_kind_quiet: "does (\<lambda>_ new. \<not> list_ex is_request new) (get_of_kind api kind name namespace)"
  unfolding get_of_kind_def api_result_def Let_def by (intro does_bind does_call does_return) simp

lemma GetWorkload_quiet: "does (\<lambda>_ new. \<not> list_ex is_request new) (GetWorkload api selector namespace)"
  unfolding GetWorkload_def by (auto intro!: get_of_kind_quiet does_return split: list.split)

lemma api_result_pods_quiet: "does (\<lambda>_ new. \<not> list_ex is_request new) (api_result (GetWorkloadPods api w))"
  unfolding api_result_def GetWorkloadPods_def by (intro does_bind does_call does_return) simp

lemma choose_container_choice:
  "does (\<lambda>r new. \<not> list_ex is_request new \<and>
       (\<forall>podName containerName. r = Inr (Some (podName, containerName)) \<longrightarrow> read_from predicates new podName containerName))
     (choose_container api ux selector namespace predicates)"
proof -
  show ?thesis
    unfolding choose_container_def
    by (rule does_seqE [OF get_clients_quiet], simp, rule does_seqE [OF GetWorkload_quiet], simp, rule does_seqE [OF api_result_pods_quiet], simp,
        intro does_if does_return, simp, rule does_seq [OF ChoosePodAndContainer_choice], intro does_return)
       (auto intro!: read_from_mono split: option.splits if_splits prod.splits)
qed

section \<open>Properties\<close>

text \<open>
  Where a command runs. \<^verbatim>\<open>kaiwo exec\<close> and \<^verbatim>\<open>kaiwo monitor\<close> run a command at most once, in the namespace of the flag, and
  never for a pod that their filter excludes: \<^verbatim>\<open>monitor\<close> offers only pods that ask for GPUs. But the pod and the container in
  the request are the phase of the chosen pod and the status text of the chosen container, not their names.
\<close>

theorem container_command_target:
  "\<exists>new. history_of (executeContainerCommand api ux ns interactive tty selector command gpuPodsOnly) h = h @ new \<and>
     length (filter is_request new) \<le> 1 \<and>
     (\<forall>podName containerName ns' cmd i t r. UExec podName containerName ns' cmd i t r \<in> set new \<longrightarrow>
        ns' = ns \<and> cmd = command \<and> (\<exists>ns' uid pods pod c. UListPods ns' uid (Inr pods) \<in> set new \<and> pod \<in> set pods \<and>
          (gpuPodsOnly \<longrightarrow> IsGPUPod pod) \<and> c \<in> set (tpd_statuses pod) \<union> set (tpd_initStatuses pod) \<and>
          podName = tpd_phase pod \<and> containerName = container_status_text (snd c)))"
proof -
  let ?ps = "if gpuPodsOnly then [IsGPUPod] else []"
  let ?target = "\<lambda>new. \<forall>podName containerName ns' cmd i t r. UExec podName containerName ns' cmd i t r \<in> set new \<longrightarrow>
    ns' = ns \<and> cmd = command \<and> read_from ?ps new podName containerName"
  have none: "?target new" "filter is_request new = []" if "\<not> list_ex is_request new" for new
    using that by (force simp: list_ex_iff filter_empty_conv)+
  have one: "?target (new @ [UExec p c ns command i t r])" if "\<not> list_ex is_request new" "read_from ?ps new p c" for new p c i t r
  proof -
    have "read_from ?ps (new @ [UExec p c ns command i t r]) p c" using that(2) unfolding read_from_def set_append by blast
    then show ?thesis using that(1) by (force simp: list_ex_iff)
  qed
  have "does (\<lambda>_ new. length (filter is_request new) \<le> 1 \<and> ?target new)
    (executeContainerCommand api ux ns interactive tty selector command gpuPodsOnly)"
    unfolding executeContainerCommand_def
    by (rule does_seqE [OF choose_container_choice]; (intro does_case_option does_case_prod does_bind does_call does_return)?)
       (use none one in auto)
  then obtain new where "history_of (executeContainerCommand api ux ns interactive tty selector command gpuPodsOnly) h = h @ new"
    and "length (filter is_request new) \<le> 1" and t: "?target new" by (rule doesD [where h = h]) blast
  moreover have "IsGPUPod pod" if "applyPredicates ?ps pod" "gpuPodsOnly" for pod
    using that by (simp split: if_splits)
  ultimately show ?thesis using t unfolding read_from_def by blast
qed

definition exec_session :: "u_event list" where
  "exec_session = history_of (executeContainerCommand example_uapi example_ux ''kaiwo'' True True ''job/train'' [''rocm-smi''] True) []"

fun is_exec :: "u_event \<Rightarrow> bool" where
  "is_exec (UExec p c ns cmd i t r) = True"
| "is_exec e = False"

lemma exec_session_run: "list_ex is_exec exec_session"
  by code_simp

theorem container_command_target_witness:
  "\<exists>ns uid pods pod podName containerName i t r. UListPods ns uid (Inr pods) \<in> set exec_session \<and> pod \<in> set pods \<and> IsGPUPod pod \<and>
     UExec podName containerName ''kaiwo'' [''rocm-smi''] i t r \<in> set exec_session \<and> podName = tpd_phase pod"
proof -
  from exec_session_run obtain e where e: "e \<in> set exec_session" "is_exec e" by (auto simp: list_ex_iff)
  from e(2) obtain p c ns cmd i t r where exec: "e = UExec p c ns cmd i t r" by (cases e) auto
  with e(1) container_command_target [of example_uapi example_ux "''kaiwo''" True True "''job/train''" "[''rocm-smi'']" True "[]"]
  have "ns = ''kaiwo'' \<and> cmd = [''rocm-smi''] \<and> (\<exists>ns uid pods pod. UListPods ns uid (Inr pods) \<in> set exec_session \<and> pod \<in> set pods \<and>
      IsGPUPod pod \<and> p = tpd_phase pod)"
    unfolding exec_session_def append_Nil by blast
  with e(1) exec show ?thesis by blast
qed

end
