(* ===== verification/CommandLine.thy ===== *)
theory CommandLine
  imports WorkloadReconcile
begin

text \<open>
  The commands \<^verbatim>\<open>kaiwo submit\<close> (\<^verbatim>\<open>pkg/cli/submit.go\<close>, \<^verbatim>\<open>pkg/cli/utils/config.go\<close>) and \<^verbatim>\<open>kaiwo status\<close>
  (\<^verbatim>\<open>pkg/cli/stats.go\<close>). A manifest is an unstructured object of the Kubernetes libraries: its type and the functions
  that read and write nested fields are parameters. Files, the terminal and the API server answer calls; tables are
  modelled as their rows, without the formatting of the cells.
\<close>

section \<open>Configuration of the command line\<close>

record KaiwoCliConfig =
  cc_user :: string
  cc_clusterQueue :: string

datatype cli_error = CliFailed string | CliApi api_error | CliUnfinished

datatype stat_answer = StatOk | StatNotExist | StatFailed string

text \<open>The home directory (or the error of the lookup), \<^verbatim>\<open>filepath.Join\<close>, the environment and \<^verbatim>\<open>os.Stat\<close>.\<close>

record CliEnv =
  ce_home :: "string + string"
  ce_join :: "string \<Rightarrow> string \<Rightarrow> string"
  ce_env :: "string \<Rightarrow> string"
  ce_stat :: "string \<Rightarrow> stat_answer"

definition KaiwoCliConfigPathEnv :: string where "KaiwoCliConfigPathEnv = ''KAIWOCONFIG''"

definition GetDefaultKaiwoCliConfigPath :: "CliEnv \<Rightarrow> string + string" where
  "GetDefaultKaiwoCliConfigPath env = (case ce_home env of
     Inl e \<Rightarrow> Inl e | Inr home \<Rightarrow> Inr (ce_join env home ''.config/kaiwo/kaiwoconfig.yaml''))"

definition DefaultKaiwoCliConfigFileExists :: "CliEnv \<Rightarrow> string + bool" where
  "DefaultKaiwoCliConfigFileExists env = (case GetDefaultKaiwoCliConfigPath env of
     Inl e \<Rightarrow> Inl e
   | Inr configPath \<Rightarrow> (case ce_stat env configPath of StatOk \<Rightarrow> Inr True | StatNotExist \<Rightarrow> Inr False | StatFailed e \<Rightarrow> Inl e))"

definition GetKaiwoCliConfigPath :: "CliEnv \<Rightarrow> string \<Rightarrow> string + string" where
  "GetKaiwoCliConfigPath env cliFlagsPath =
     (if cliFlagsPath \<noteq> [] then Inr cliFlagsPath
      else if ce_env env KaiwoCliConfigPathEnv \<noteq> [] then Inr (ce_env env KaiwoCliConfigPathEnv)
      else (case DefaultKaiwoCliConfigFileExists env of
              Inl e \<Rightarrow> Inl e
            | Inr True \<Rightarrow> GetDefaultKaiwoCliConfigPath env
            | Inr False \<Rightarrow> Inr []))"

section \<open>Submitting a manifest\<close>

record 'o UnstructuredOps =
  un_found :: "'o \<Rightarrow> string list \<Rightarrow> string + bool"
  un_set :: "'o \<Rightarrow> string \<Rightarrow> string list \<Rightarrow> string + 'o"
  un_text :: "'o \<Rightarrow> string list \<Rightarrow> string option"
  un_namespace :: "'o \<Rightarrow> string"
  un_name :: "'o \<Rightarrow> string"

text \<open>
  Documented behaviour: a field that has been set is found and reads as set, other fields of the same depth keep
  their values, a field with a text is found, and the namespace is the field \<^verbatim>\<open>metadata.namespace\<close>.
\<close>

definition unstructured_laws :: "'o UnstructuredOps \<Rightarrow> bool" where
  "unstructured_laws ops \<longleftrightarrow>
     (\<forall>obj v p obj'. un_set ops obj v p = Inr obj' \<longrightarrow> un_text ops obj' p = Some v \<and>
        (\<forall>q. length q = length p \<and> q \<noteq> p \<longrightarrow> un_text ops obj' q = un_text ops obj q \<and> un_found ops obj' q = un_found ops obj q)) \<and>
     (\<forall>obj p v. un_text ops obj p = Some v \<longrightarrow> un_found ops obj p = Inr True) \<and>
     (\<forall>obj. un_namespace ops obj = (case un_text ops obj [''metadata'', ''namespace''] of None \<Rightarrow> [] | Some v \<Rightarrow> v))"

datatype 'o c_event =
    CReadManifest string "string + 'o"
  | CConfirmCreate "string + bool"
  | CConfigForm "string + (string \<times> string)"
  | CWriteConfig string KaiwoCliConfig "string option"
  | CReadConfig string "string + KaiwoCliConfig"
  | CClients "string option"
  | CGet ObjectKey "api_error + 'o"
  | CUpdate 'o "api_error option"
  | CCreate 'o "api_error option"

record 'o CApi =
  c_readManifest :: "'o c_event list \<Rightarrow> string \<Rightarrow> string + 'o"
  c_confirmCreate :: "'o c_event list \<Rightarrow> string + bool"
  c_configForm :: "'o c_event list \<Rightarrow> string + (string \<times> string)"
  c_writeConfig :: "'o c_event list \<Rightarrow> string \<Rightarrow> KaiwoCliConfig \<Rightarrow> string option"
  c_readConfig :: "'o c_event list \<Rightarrow> string \<Rightarrow> string + KaiwoCliConfig"
  c_clients :: "'o c_event list \<Rightarrow> string option"
  c_get :: "'o c_event list \<Rightarrow> ObjectKey \<Rightarrow> api_error + 'o"
  c_update :: "'o c_event list \<Rightarrow> 'o \<Rightarrow> api_error option"
  c_create :: "'o c_event list \<Rightarrow> 'o \<Rightarrow> api_error option"

type_synonym ('o, 'a) c_prog = "('o c_event, cli_error + 'a) prog"

definition cli_result :: "string + 'a \<Rightarrow> cli_error + 'a" where
  "cli_result r = (case r of Inl e \<Rightarrow> Inl (CliFailed e) | Inr x \<Rightarrow> Inr x)"

definition cli_call :: "('o c_event list \<Rightarrow> string + 'a) \<Rightarrow> (string + 'a \<Rightarrow> 'o c_event) \<Rightarrow> ('o, 'a) c_prog" where
  "cli_call answer event = do { r \<leftarrow> call answer event; ret (cli_result r) }"

definition cli_unit :: "('o c_event list \<Rightarrow> string option) \<Rightarrow> (string option \<Rightarrow> 'o c_event) \<Rightarrow> ('o, unit) c_prog" where
  "cli_unit answer event = do { r \<leftarrow> call answer event; ret (case r of Some e \<Rightarrow> Inl (CliFailed e) | None \<Rightarrow> Inr ()) }"

definition email_char :: "char \<Rightarrow> bool" where
  "email_char c \<longleftrightarrow> is_lower c \<or> is_upper c \<or> is_digit c \<or> c = CHR ''.'' \<or> c = CHR ''-''"

text \<open>The regular expression for addresses: neither side of the at sign can contain one, and the last part has no dot.\<close>

definition email_match :: "string \<Rightarrow> bool" where
  "email_match s \<longleftrightarrow> (case Split s (CHR 0x40) of
     [user_part, domain] \<Rightarrow>
       (let parts = Split domain (CHR ''.''); tld = last parts; front = take (length domain - length tld - 1) domain
        in user_part \<noteq> [] \<and> list_all (\<lambda>c. email_char c \<or> c = CHR ''_'' \<or> c = CHR ''%'' \<or> c = CHR ''+'') user_part \<and>
           length parts \<ge> 2 \<and> front \<noteq> [] \<and> list_all email_char front \<and>
           length tld \<ge> 2 \<and> list_all (\<lambda>c. is_lower c \<or> is_upper c) tld)
   | _ \<Rightarrow> False)"

text \<open>The form is shown until the address is well formed, at most a given number of times.\<close>

fun prompt_config :: "'o CApi \<Rightarrow> nat \<Rightarrow> ('o, KaiwoCliConfig) c_prog" where
  "prompt_config api 0 = ret (Inl CliUnfinished)"
| "prompt_config api (Suc n) =
     bindE (cli_call (c_configForm api) CConfigForm) (\<lambda>(userEmail, queueValue).
       if \<not> email_match userEmail then prompt_config api n
       else ret (Inr \<lparr>cc_user = userEmail, cc_clusterQueue = queueValue\<rparr>))"

definition promptUserForConfig :: "'o CApi \<Rightarrow> CliEnv \<Rightarrow> nat \<Rightarrow> ('o, bool) c_prog" where
  "promptUserForConfig api env asks =
     bindE (ret (cli_result (GetDefaultKaiwoCliConfigPath env))) (\<lambda>configPath.
     bindE (cli_call (c_confirmCreate api) CConfirmCreate) (\<lambda>create.
       if \<not> create then ret (Inr False)
       else bindE (prompt_config api asks) (\<lambda>config.
            bindE (cli_unit (\<lambda>h. c_writeConfig api h configPath config) (CWriteConfig configPath config)) (\<lambda>_. ret (Inr True)))))"

definition ensureObjectNestedStringField :: "'o UnstructuredOps \<Rightarrow> 'o \<Rightarrow> string \<Rightarrow> string list \<Rightarrow> string + 'o" where
  "ensureObjectNestedStringField ops obj v path = (case un_found ops obj path of
     Inl e \<Rightarrow> Inl e
   | Inr found \<Rightarrow> if \<not> found then un_set ops obj v path else Inr obj)"

text \<open>
  The object of the lookup is the copy of the manifest itself, which the answer of the server replaces; what is then
  sent as the update is that answer.
\<close>

definition submit_Apply :: "'o CApi \<Rightarrow> 'o UnstructuredOps \<Rightarrow> string \<Rightarrow> 'o \<Rightarrow> ('o, unit) c_prog" where
  "submit_Apply api ops namespace manifest = (
     let namespace = (if namespace = [] then ''default'' else namespace) in
     bindE (ret (cli_result (ensureObjectNestedStringField ops manifest namespace [''metadata'', ''namespace'']))) (\<lambda>obj.
       if un_namespace ops obj \<noteq> namespace \<and> namespace \<noteq> ''default''
       then ret (Inl (CliFailed (''expected namespace to be '' @ namespace @ '', got '' @ un_namespace ops obj)))
       else let key = \<lparr>key_name = un_name ops obj, key_namespace = un_namespace ops obj\<rparr> in do {
         r \<leftarrow> call (\<lambda>h. c_get api h key) (CGet key);
         (case r of
            Inr obj \<Rightarrow> do {
              u \<leftarrow> call (\<lambda>h. c_update api h obj) (CUpdate obj);
              ret (case u of Some e \<Rightarrow> Inl (CliApi e) | None \<Rightarrow> Inr ())
            }
          | Inl e \<Rightarrow> if e \<noteq> NotFound then ret (Inl (CliApi e))
                     else do {
                       c \<leftarrow> call (\<lambda>h. c_create api h obj) (CCreate obj);
                       ret (case c of Some e \<Rightarrow> Inl (CliApi e) | None \<Rightarrow> Inr ())
                     })
       }))"

record SubmitFlags =
  sf_file :: string
  sf_user :: string
  sf_queue :: string
  sf_namespace :: string
  sf_config :: string

text \<open>Where the configuration comes from: an existing file, one that the user creates now, or only the flags.\<close>

definition submit_config :: "'o CApi \<Rightarrow> CliEnv \<Rightarrow> nat \<Rightarrow> SubmitFlags \<Rightarrow> ('o, KaiwoCliConfig) c_prog" where
  "submit_config api env asks flags =
     bindE (ret (cli_result (GetKaiwoCliConfigPath env (sf_config flags)))) (\<lambda>existing.
     bindE (ret (cli_result (GetDefaultKaiwoCliConfigPath env))) (\<lambda>configPath.
     bindE (if existing = [] \<and> sf_user flags = []
            then bindE (promptUserForConfig api env asks) (\<lambda>created. ret (Inr (if created then configPath else existing)))
            else ret (Inr existing)) (\<lambda>existing.
       if existing \<noteq> [] then cli_call (\<lambda>h. c_readConfig api h existing) (CReadConfig existing)
       else if sf_user flags = [] then ret (Inl (CliFailed ''kaiwo cli config file was not given''))
       else ret (Inr \<lparr>cc_user = [], cc_clusterQueue = []\<rparr>))))"

definition override_config :: "SubmitFlags \<Rightarrow> KaiwoCliConfig \<Rightarrow> KaiwoCliConfig" where
  "override_config flags config =
     (let config = (if sf_user flags \<noteq> [] then config\<lparr>cc_user := sf_user flags\<rparr> else config)
      in if sf_queue flags \<noteq> [] then config\<lparr>cc_clusterQueue := sf_queue flags\<rparr> else config)"

definition submit_command :: "'o CApi \<Rightarrow> 'o UnstructuredOps \<Rightarrow> CliEnv \<Rightarrow> nat \<Rightarrow> SubmitFlags \<Rightarrow> ('o, unit) c_prog" where
  "submit_command api ops env asks flags =
     (if sf_file flags = [] then ret (Inl (CliFailed ''--file is required''))
      else bindE (cli_call (\<lambda>h. c_readManifest api h (sf_file flags)) (CReadManifest (sf_file flags))) (\<lambda>obj.
           bindE (submit_config api env asks flags) (\<lambda>config.
             let config = override_config flags config in
             bindE (cli_unit (c_clients api) CClients) (\<lambda>_.
             bindE (ret (cli_result (ensureObjectNestedStringField ops obj (cc_user config) [''spec'', ''user'']))) (\<lambda>obj.
             bindE (ret (cli_result (ensureObjectNestedStringField ops obj (cc_clusterQueue config) [''spec'', ''clusterQueue'']))) (\<lambda>obj.
               submit_Apply api ops (sf_namespace flags) obj))))))"

section \<open>Node status\<close>

text \<open>Quantities are rational numbers; \<open>Value\<close> and \<open>MilliValue\<close> round up.\<close>

definition q_Value :: "rat \<Rightarrow> int" where "q_Value q = \<lceil>q\<rceil>"
definition q_MilliValue :: "rat \<Rightarrow> int" where "q_MilliValue q = \<lceil>1000 * q\<rceil>"

record StatNode =
  sn_name :: string
  sn_labels :: "string gomap"
  sn_allocatable :: "rat gomap"

record StatPod =
  sp_nodeName :: string
  sp_containers :: "rat gomap list"

definition extractGPUModel :: "string \<Rightarrow> string" where
  "extractGPUModel poolLabel =
     (if HasPrefix poolLabel CPUOnly then CPUOnly
      else let parts = Split poolLabel (CHR ''-'') in if length parts < 2 then ''unknown'' else parts ! 1)"

definition stat_add_quantity :: "rat gomap \<Rightarrow> string \<times> rat \<Rightarrow> rat gomap" where
  "stat_add_quantity m kv = AList.update (fst kv) (map_get 0 m (fst kv) + snd kv) m"

definition add_container :: "rat gomap \<Rightarrow> rat gomap \<Rightarrow> rat gomap" where
  "add_container m requests = foldl stat_add_quantity m requests"

record NodeUsage =
  nu_requested :: "rat gomap gomap"
  nu_podCount :: "int gomap"

definition add_pod :: "NodeUsage \<Rightarrow> StatPod \<Rightarrow> NodeUsage" where
  "add_pod u pod = (let nodeName = sp_nodeName pod in
     if nodeName = [] then u
     else u\<lparr>nu_podCount := add_at nodeName 1 (nu_podCount u),
            nu_requested := AList.update nodeName (foldl add_container (map_get [] (nu_requested u) nodeName) (sp_containers pod)) (nu_requested u)\<rparr>)"

definition node_usage :: "StatPod list \<Rightarrow> NodeUsage" where
  "node_usage pods = foldl add_pod \<lparr>nu_requested = [], nu_podCount = []\<rparr> pods"

text \<open>A quotient of floating-point numbers: zero by zero is not a number, else a quotient by zero is infinite.\<close>

datatype percentage = NaN | Infinite | Percent rat

definition percent :: "rat \<Rightarrow> rat \<Rightarrow> percentage" where
  "percent used alloc = (if alloc = 0 then (if used = 0 then NaN else Infinite) else Percent (used / alloc * 100))"

definition gpu_percent :: "rat \<Rightarrow> rat \<Rightarrow> percentage" where
  "gpu_percent used alloc = (case percent used alloc of NaN \<Rightarrow> Percent 0 | p \<Rightarrow> p)"

record NodeRow =
  nr_name :: string
  nr_gpuModel :: string
  nr_gpu :: "int \<times> int \<times> percentage"
  nr_cpu :: "int \<times> int \<times> percentage"
  nr_memory :: "rat \<times> rat \<times> percentage"
  nr_pods :: "int \<times> int \<times> percentage"

definition bytesInGi :: rat where "bytesInGi = 1024 * 1024 * 1024"

text \<open>Allocatable resources are looked up by name: of two nodes of one name the last one counts.\<close>

definition allocatable_of :: "StatNode list \<Rightarrow> rat gomap gomap" where
  "allocatable_of nodes = foldl (\<lambda>m node. AList.update (sn_name node) (sn_allocatable node) m) [] nodes"

definition node_row :: "string \<Rightarrow> rat gomap gomap \<Rightarrow> NodeUsage \<Rightarrow> StatNode \<Rightarrow> NodeRow" where
  "node_row gpuResourceName allocatable u node = (
     let name = sn_name node;
         alloc = map_get [] allocatable name;
         used = map_get [] (nu_requested u) name;
         usedGPU = q_Value (map_get 0 used gpuResourceName);
         allocGPU = q_Value (map_get 0 alloc gpuResourceName);
         usedCores = q_MilliValue (map_get 0 used ''cpu'') div 1000;
         allocCores = q_MilliValue (map_get 0 alloc ''cpu'') div 1000;
         usedGi = of_int (q_Value (map_get 0 used ''memory'')) / bytesInGi;
         allocGi = of_int (q_Value (map_get 0 alloc ''memory'')) / bytesInGi;
         usedPods = map_get 0 (nu_podCount u) name;
         allocPods = q_Value (map_get 0 alloc ''pods'')
     in \<lparr>nr_name = name, nr_gpuModel = extractGPUModel (map_get [] (sn_labels node) ''kaiwo/nodepool''),
         nr_gpu = (usedGPU, allocGPU, gpu_percent (of_int usedGPU) (of_int allocGPU)),
         nr_cpu = (usedCores, allocCores, percent (of_int usedCores) (of_int allocCores)),
         nr_memory = (usedGi, allocGi, percent usedGi allocGi),
         nr_pods = (usedPods, allocPods, percent (of_int usedPods) (of_int allocPods))\<rparr>)"

definition node_rows :: "string \<Rightarrow> StatNode list \<Rightarrow> StatPod list \<Rightarrow> NodeRow list" where
  "node_rows gpuResourceName nodes pods =
     map (node_row gpuResourceName (allocatable_of nodes) (node_usage pods)) nodes"

text \<open>
  The command, given the answers of the client set-up and of the two lists: the first error is returned before
  anything is printed.
\<close>

definition runNodesStatsCmd :: "string \<Rightarrow> api_error option \<Rightarrow> api_error + StatNode list \<Rightarrow> api_error + StatPod list \<Rightarrow> api_error + NodeRow list" where
  "runNodesStatsCmd gpuResourceName clients nodeList podList = (case clients of
     Some err \<Rightarrow> Inl err
   | None \<Rightarrow> (case nodeList of
       Inl err \<Rightarrow> Inl err
     | Inr nodes \<Rightarrow> (case podList of Inl err \<Rightarrow> Inl err | Inr pods \<Rightarrow> Inr (node_rows gpuResourceName nodes pods))))"

section \<open>Queue status\<close>

record StatWorkload =
  sw_namespace :: string
  sw_queueName :: string
  sw_finished :: bool
  sw_podSets :: "(rat gomap list \<times> rat gomap list) list"
  sw_admitted :: bool

record QueueStats =
  qs_byCluster :: "LocalQueue list gomap"
  qs_clusterAdmitted :: "int gomap"
  qs_clusterPending :: "int gomap"
  qs_localAdmitted :: "int gomap gomap"
  qs_localPending :: "int gomap gomap"
  qs_toCluster :: "string gomap gomap"

definition init_cluster :: "QueueStats \<Rightarrow> string \<Rightarrow> QueueStats" where
  "init_cluster s name = s\<lparr>qs_byCluster := AList.update name [] (qs_byCluster s), qs_clusterAdmitted := AList.update name 0 (qs_clusterAdmitted s),
     qs_clusterPending := AList.update name 0 (qs_clusterPending s), qs_localAdmitted := AList.update name [] (qs_localAdmitted s),
     qs_localPending := AList.update name [] (qs_localPending s)\<rparr>"

text \<open>An assignment through a missing inner map is a panic.\<close>

definition inner_write :: "string \<Rightarrow> string \<Rightarrow> (int \<Rightarrow> int) \<Rightarrow> int gomap gomap \<Rightarrow> int gomap gomap option" where
  "inner_write outer inner f m = (case map_of m outer of
     None \<Rightarrow> None | Some im \<Rightarrow> Some (AList.update outer (AList.update inner (f (map_get 0 im inner)) im) m))"

definition add_local_queue :: "LocalQueue \<Rightarrow> QueueStats \<Rightarrow> QueueStats option" where
  "add_local_queue lq s = (
     let clusterName = lq_clusterQueue lq;
         s = s\<lparr>qs_toCluster := AList.update (lq_namespace lq) (AList.update (lq_name lq) clusterName (map_get [] (qs_toCluster s) (lq_namespace lq))) (qs_toCluster s),
               qs_byCluster := append_at clusterName lq (qs_byCluster s)\<rparr>
     in Option.bind (inner_write clusterName (lq_name lq) (\<lambda>_. 0) (qs_localAdmitted s)) (\<lambda>a.
        Option.bind (inner_write clusterName (lq_name lq) (\<lambda>_. 0) (qs_localPending s)) (\<lambda>p.
          Some (s\<lparr>qs_localAdmitted := a, qs_localPending := p\<rparr>))))"

fun fold_option :: "('a \<Rightarrow> 's \<Rightarrow> 's option) \<Rightarrow> 'a list \<Rightarrow> 's \<Rightarrow> 's option" where
  "fold_option f [] s = Some s"
| "fold_option f (x # xs) s = Option.bind (f x s) (fold_option f xs)"

definition requests_resource :: "string \<Rightarrow> rat gomap \<Rightarrow> bool" where
  "requests_resource r m = (case map_of m r of None \<Rightarrow> False | Some qty \<Rightarrow> q_Value qty > 0)"

definition stat_requests_gpu :: "string \<Rightarrow> StatWorkload \<Rightarrow> bool" where
  "stat_requests_gpu r w = list_ex (\<lambda>(containers, initContainers).
     list_ex (requests_resource r) containers \<or> list_ex (requests_resource r) initContainers) (sw_podSets w)"

definition gpu_workloads :: "string \<Rightarrow> StatWorkload list \<Rightarrow> StatWorkload list" where
  "gpu_workloads r ws = filter (\<lambda>w. \<not> sw_finished w \<and> stat_requests_gpu r w) ws"

definition cluster_of :: "QueueStats \<Rightarrow> StatWorkload \<Rightarrow> string" where
  "cluster_of s w = (case map_of (qs_toCluster s) (sw_namespace w) of
     None \<Rightarrow> ''<unknown>''
   | Some m \<Rightarrow> (case map_of m (sw_queueName w) of None \<Rightarrow> ''<unknown>'' | Some c \<Rightarrow> c))"

definition count_workload :: "StatWorkload \<Rightarrow> QueueStats \<Rightarrow> QueueStats option" where
  "count_workload w s = (let c = cluster_of s w in
     if sw_admitted w
     then map_option (\<lambda>a. s\<lparr>qs_clusterAdmitted := add_at c 1 (qs_clusterAdmitted s), qs_localAdmitted := a\<rparr>)
            (inner_write c (sw_queueName w) (\<lambda>n. n + 1) (qs_localAdmitted s))
     else map_option (\<lambda>p. s\<lparr>qs_clusterPending := add_at c 1 (qs_clusterPending s), qs_localPending := p\<rparr>)
            (inner_write c (sw_queueName w) (\<lambda>n. n + 1) (qs_localPending s)))"

definition no_stats :: QueueStats where
  "no_stats = \<lparr>qs_byCluster = [], qs_clusterAdmitted = [], qs_clusterPending = [], qs_localAdmitted = [], qs_localPending = [], qs_toCluster = []\<rparr>"

definition queue_stats :: "string \<Rightarrow> string list \<Rightarrow> LocalQueue list \<Rightarrow> StatWorkload list \<Rightarrow> QueueStats option" where
  "queue_stats r clusterQueues localQueues ws =
     Option.bind (fold_option add_local_queue localQueues (foldl init_cluster no_stats clusterQueues)) (\<lambda>s.
       fold_option count_workload (gpu_workloads r ws) s)"

type_synonym queue_row = "string \<times> string \<times> int \<times> int"

definition queue_rows :: "QueueStats \<Rightarrow> string \<Rightarrow> queue_row list" where
  "queue_rows s c = (c, ''[TOTAL]'', map_get 0 (qs_clusterAdmitted s) c, map_get 0 (qs_clusterPending s) c) #
     map (\<lambda>lq. (c, lq_name lq, map_get 0 (map_get [] (qs_localAdmitted s) c) (lq_name lq), map_get 0 (map_get [] (qs_localPending s) c) (lq_name lq)))
       (map_get [] (qs_byCluster s) c)"

definition queue_table :: "string \<Rightarrow> string list \<Rightarrow> LocalQueue list \<Rightarrow> StatWorkload list \<Rightarrow> queue_row list option" where
  "queue_table r clusterQueues localQueues ws =
     map_option (\<lambda>s. concat (map (queue_rows s) clusterQueues)) (queue_stats r clusterQueues localQueues ws)"

text \<open>
  The command, given the answers of the client set-up and of the three lists: the first error, the rows of the
  table, or \<open>None\<close> when it panics.
\<close>

definition runQueueStatsCmd ::
    "string \<Rightarrow> api_error option \<Rightarrow> api_error + string list \<Rightarrow> api_error + LocalQueue list \<Rightarrow> api_error + StatWorkload list \<Rightarrow>
     (api_error + queue_row list) option" where
  "runQueueStatsCmd r clients clusterQueueList localQueueList workloadList = (case clients of
     Some err \<Rightarrow> Some (Inl err)
   | None \<Rightarrow> (case clusterQueueList of
       Inl err \<Rightarrow> Some (Inl err)
     | Inr clusterQueues \<Rightarrow> (case localQueueList of
         Inl err \<Rightarrow> Some (Inl err)
       | Inr localQueues \<Rightarrow> (case workloadList of
           Inl err \<Rightarrow> Some (Inl err)
         | Inr ws \<Rightarrow> map_option Inr (queue_table r clusterQueues localQueues ws)))))"

section \<open>What the queue status counts\<close>

text \<open>The cluster queue of a workload: that of the last local queue of its namespace and queue name.\<close>

definition ref_lookup :: "LocalQueue list \<Rightarrow> string \<Rightarrow> string \<Rightarrow> string option" where
  "ref_lookup lqs ns q = map_option lq_clusterQueue (find (\<lambda>lq. lq_namespace lq = ns \<and> lq_name lq = q) (rev lqs))"

definition ref_cluster :: "LocalQueue list \<Rightarrow> StatWorkload \<Rightarrow> string" where
  "ref_cluster lqs w = (case ref_lookup lqs (sw_namespace w) (sw_queueName w) of None \<Rightarrow> ''<unknown>'' | Some c \<Rightarrow> c)"

definition ref_total :: "bool \<Rightarrow> LocalQueue list \<Rightarrow> StatWorkload list \<Rightarrow> string \<Rightarrow> int" where
  "ref_total admitted lqs ws c = int (length (filter (\<lambda>w. sw_admitted w = admitted \<and> ref_cluster lqs w = c) ws))"

definition ref_local :: "bool \<Rightarrow> LocalQueue list \<Rightarrow> StatWorkload list \<Rightarrow> string \<Rightarrow> string \<Rightarrow> int" where
  "ref_local admitted lqs ws c q = int (length (filter (\<lambda>w. sw_admitted w = admitted \<and> ref_cluster lqs w = c \<and> sw_queueName w = q) ws))"

definition ref_rows :: "LocalQueue list \<Rightarrow> StatWorkload list \<Rightarrow> string \<Rightarrow> queue_row list" where
  "ref_rows lqs ws c = (c, ''[TOTAL]'', ref_total True lqs ws c, ref_total False lqs ws c) #
     map (\<lambda>lq. (c, lq_name lq, ref_local True lqs ws c (lq_name lq), ref_local False lqs ws c (lq_name lq)))
       (filter (\<lambda>lq. lq_clusterQueue lq = c) lqs)"

definition lookup2 :: "'v gomap gomap \<Rightarrow> string \<Rightarrow> string \<Rightarrow> 'v option" where
  "lookup2 m k1 k2 = Option.bind (map_of m k1) (\<lambda>im. map_of im k2)"

definition stats_inv :: "string list \<Rightarrow> LocalQueue list \<Rightarrow> StatWorkload list \<Rightarrow> QueueStats \<Rightarrow> bool" where
  "stats_inv cqs lqs ws s \<longleftrightarrow>
     (\<forall>c. has_key (qs_localAdmitted s) c \<longleftrightarrow> c \<in> set cqs) \<and> (\<forall>c. has_key (qs_localPending s) c \<longleftrightarrow> c \<in> set cqs) \<and>
     (\<forall>ns q. lookup2 (qs_toCluster s) ns q = ref_lookup lqs ns q) \<and>
     (\<forall>c. map_get [] (qs_byCluster s) c = filter (\<lambda>lq. lq_clusterQueue lq = c) lqs) \<and>
     (\<forall>c. map_get 0 (qs_clusterAdmitted s) c = ref_total True lqs ws c) \<and> (\<forall>c. map_get 0 (qs_clusterPending s) c = ref_total False lqs ws c) \<and>
     (\<forall>c q. map_get 0 (map_get [] (qs_localAdmitted s) c) q = ref_local True lqs ws c q) \<and>
     (\<forall>c q. map_get 0 (map_get [] (qs_localPending s) c) q = ref_local False lqs ws c q)"

lemma inner_write_iff: "inner_write outer inner f m = None \<longleftrightarrow> \<not> has_key m outer"
  by (simp add: inner_write_def has_key_def split: option.split)

lemma inner_write_facts:
  assumes "inner_write outer inner f m = Some m'"
  shows "has_key m' c \<longleftrightarrow> has_key m c"
    and "map_get 0 (map_get [] m' c) q = (if c = outer \<and> q = inner then f (map_get 0 (map_get [] m c) q) else map_get 0 (map_get [] m c) q)"
  using assms by (auto simp: inner_write_def map_get_update split: option.splits) (auto simp: has_key_def map_get_def)

lemma stats_inv_init: "stats_inv cqs [] [] (foldl init_cluster no_stats cqs)"
proof (induction cqs rule: rev_induct)
  case Nil
  show ?case by (simp add: stats_inv_def no_stats_def lookup2_def ref_lookup_def ref_total_def ref_local_def)
next
  case (snoc c cqs)
  then show ?case
    by (auto simp: stats_inv_def init_cluster_def map_get_update lookup2_def ref_lookup_def ref_total_def ref_local_def)
qed

lemma lookup2_update:
  "lookup2 (AList.update k1 (AList.update k2 v (map_get [] m k1)) m) a b = (if a = k1 \<and> b = k2 then Some v else lookup2 m a b)"
  by (auto simp: lookup2_def update_conv' map_get_def split: option.splits)

lemma ref_lookup_snoc: "ref_lookup (lqs @ [lq]) ns q = (if lq_namespace lq = ns \<and> lq_name lq = q then Some (lq_clusterQueue lq) else ref_lookup lqs ns q)"
  by (simp add: ref_lookup_def)

lemma add_local_queue_inv:
  assumes "stats_inv cqs lqs [] s"
  shows "case add_local_queue lq s of None \<Rightarrow> lq_clusterQueue lq \<notin> set cqs | Some s' \<Rightarrow> lq_clusterQueue lq \<in> set cqs \<and> stats_inv cqs (lqs @ [lq]) [] s'"
proof (cases "lq_clusterQueue lq \<in> set cqs")
  case False
  with assms have "inner_write (lq_clusterQueue lq) (lq_name lq) (\<lambda>_. 0) (qs_localAdmitted s) = None" by (simp add: inner_write_iff stats_inv_def)
  with False show ?thesis by (simp add: add_local_queue_def Let_def)
next
  case True
  then obtain a p where a: "inner_write (lq_clusterQueue lq) (lq_name lq) (\<lambda>_. 0) (qs_localAdmitted s) = Some a"
      and p: "inner_write (lq_clusterQueue lq) (lq_name lq) (\<lambda>_. 0) (qs_localPending s) = Some p"
    using assms inner_write_iff unfolding stats_inv_def by (metis option.exhaust)
  show ?thesis
    using True assms inner_write_facts [OF a] inner_write_facts [OF p]
    by (auto simp: add_local_queue_def Let_def a p stats_inv_def lookup2_update ref_lookup_snoc map_get_append_at ref_total_def ref_local_def)
qed

lemma inv_cluster_of: "stats_inv cqs lqs ws s \<Longrightarrow> cluster_of s w = ref_cluster lqs w"
proof -
  assume "stats_inv cqs lqs ws s"
  then have "lookup2 (qs_toCluster s) (sw_namespace w) (sw_queueName w) = ref_lookup lqs (sw_namespace w) (sw_queueName w)"
    by (simp add: stats_inv_def)
  then show ?thesis by (auto simp: cluster_of_def ref_cluster_def lookup2_def split: option.splits)
qed

lemma ref_snoc:
  "ref_total b lqs (ws @ [w]) c = ref_total b lqs ws c + (if sw_admitted w = b \<and> ref_cluster lqs w = c then 1 else 0)"
  "ref_local b lqs (ws @ [w]) c q = ref_local b lqs ws c q + (if sw_admitted w = b \<and> ref_cluster lqs w = c \<and> sw_queueName w = q then 1 else 0)"
  by (simp_all add: ref_total_def ref_local_def)

lemma count_workload_inv:
  assumes inv: "stats_inv cqs lqs ws s"
  shows "case count_workload w s of None \<Rightarrow> ref_cluster lqs w \<notin> set cqs | Some s' \<Rightarrow> ref_cluster lqs w \<in> set cqs \<and> stats_inv cqs lqs (ws @ [w]) s'"
proof -
  note c = inv_cluster_of [OF inv, of w]
  let ?m = "if sw_admitted w then qs_localAdmitted s else qs_localPending s"
  have keys: "has_key ?m (ref_cluster lqs w) \<longleftrightarrow> ref_cluster lqs w \<in> set cqs" using inv by (simp add: stats_inv_def)
  show ?thesis
  proof (cases "inner_write (ref_cluster lqs w) (sw_queueName w) (\<lambda>n. n + 1) ?m")
    case None
    with keys have "ref_cluster lqs w \<notin> set cqs" by (simp add: inner_write_iff)
    with None show ?thesis by (cases "sw_admitted w") (simp_all add: count_workload_def c Let_def)
  next
    case (Some m')
    then have key: "ref_cluster lqs w \<in> set cqs" using keys inner_write_iff by (metis option.distinct(1))
    show ?thesis
      using inv key inner_write_facts [OF Some]
      by (cases "sw_admitted w") (use Some in \<open>auto simp: count_workload_def c Let_def stats_inv_def ref_snoc map_get_add_at\<close>)
  qed
qed

lemma fold_local_queues:
  "stats_inv cqs lqs [] s \<Longrightarrow> case fold_option add_local_queue new s of
     None \<Rightarrow> \<not> list_all (\<lambda>lq. lq_clusterQueue lq \<in> set cqs) new
   | Some s' \<Rightarrow> list_all (\<lambda>lq. lq_clusterQueue lq \<in> set cqs) new \<and> stats_inv cqs (lqs @ new) [] s'"
proof (induction new arbitrary: lqs s)
  case (Cons lq new)
  note step = add_local_queue_inv [OF Cons.prems, of lq]
  show ?case
  proof (cases "add_local_queue lq s")
    case (Some s1)
    with step have "stats_inv cqs (lqs @ [lq]) [] s1" "lq_clusterQueue lq \<in> set cqs" by simp_all
    with Some Cons.IH [OF this(1)] show ?thesis by (simp split: option.splits)
  qed (use step in simp)
qed simp

lemma fold_workloads:
  "stats_inv cqs lqs ws s \<Longrightarrow> case fold_option count_workload new s of
     None \<Rightarrow> \<not> list_all (\<lambda>w. ref_cluster lqs w \<in> set cqs) new
   | Some s' \<Rightarrow> list_all (\<lambda>w. ref_cluster lqs w \<in> set cqs) new \<and> stats_inv cqs lqs (ws @ new) s'"
proof (induction new arbitrary: ws s)
  case (Cons w new)
  note step = count_workload_inv [OF Cons.prems, of w]
  show ?case
  proof (cases "count_workload w s")
    case (Some s1)
    with step have "stats_inv cqs lqs (ws @ [w]) s1" "ref_cluster lqs w \<in> set cqs" by simp_all
    with Some Cons.IH [OF this(1)] show ?thesis by (simp split: option.splits)
  qed (use step in simp)
qed simp

section \<open>Properties\<close>

text \<open>
  C33: The queue status. The rows are exactly these: for every cluster queue a total of the unfinished workloads that request the
  resource and whose local queue belongs to it, admitted and pending, and for every local queue of it those of
  its name, in whatever namespace. But the command panics if a local queue refers to a cluster queue that does not
  exist, or a workload that requests the resource to a local queue that does not exist.
\<close>

theorem queue_status_counts:
  "runQueueStatsCmd r None (Inr cqs) (Inr lqs) (Inr ws) =
     (let gpu = gpu_workloads r ws in
      if list_all (\<lambda>lq. lq_clusterQueue lq \<in> set cqs) lqs \<and> list_all (\<lambda>w. ref_cluster lqs w \<in> set cqs) gpu
      then Some (Inr (concat (map (ref_rows lqs gpu) cqs))) else None)"
proof (cases "fold_option add_local_queue lqs (foldl init_cluster no_stats cqs)")
  case None
  with fold_local_queues [OF stats_inv_init, of cqs lqs] show ?thesis
    by (simp add: runQueueStatsCmd_def queue_table_def queue_stats_def Let_def)
next
  case (Some s)
  with fold_local_queues [OF stats_inv_init, of cqs lqs]
  have lqs: "list_all (\<lambda>lq. lq_clusterQueue lq \<in> set cqs) lqs" and inv: "stats_inv cqs lqs [] s" by simp_all
  show ?thesis
  proof (cases "fold_option count_workload (gpu_workloads r ws) s")
    case None
    with fold_workloads [OF inv, of "gpu_workloads r ws"] Some show ?thesis
      by (simp add: runQueueStatsCmd_def queue_table_def queue_stats_def Let_def)
  next
    case (Some s')
    with fold_workloads [OF inv, of "gpu_workloads r ws"]
    have ws: "list_all (\<lambda>w. ref_cluster lqs w \<in> set cqs) (gpu_workloads r ws)" and inv': "stats_inv cqs lqs (gpu_workloads r ws) s'" by simp_all
    have "queue_rows s' = ref_rows lqs (gpu_workloads r ws)"
      using inv' by (auto simp: fun_eq_iff queue_rows_def ref_rows_def stats_inv_def)
    with Some lqs ws \<open>fold_option add_local_queue lqs _ = Some s\<close> show ?thesis
      by (simp add: runQueueStatsCmd_def queue_table_def queue_stats_def Let_def)
  qed
qed

text \<open>
  The node status. For every node the pods that name it are counted, and the amount of a resource that is reported as used
  is the sum of the requests of all their containers.
\<close>

theorem node_usage_sums:
  assumes "name \<noteq> []"
  shows "map_get 0 (nu_podCount (node_usage pods)) name = int (length (filter (\<lambda>p. sp_nodeName p = name) pods)) \<and>
    map_get 0 (map_get [] (nu_requested (node_usage pods)) name) res =
      (\<Sum>p \<leftarrow> filter (\<lambda>p. sp_nodeName p = name) pods. \<Sum>c \<leftarrow> sp_containers p. \<Sum>(k, q) \<leftarrow> c. if k = res then q else 0)"
proof -
  have container: "map_get 0 (add_container m c) res = map_get 0 m res + (\<Sum>(k, q) \<leftarrow> c. if k = res then q else 0)" for m c
    unfolding add_container_def
    by (induction c arbitrary: m) (auto simp: stat_add_quantity_def map_get_update)
  have containers: "map_get 0 (foldl add_container m cs) res = map_get 0 m res + (\<Sum>c \<leftarrow> cs. \<Sum>(k, q) \<leftarrow> c. if k = res then q else 0)" for m cs
    by (induction cs arbitrary: m) (simp_all add: container)
  have "map_get 0 (nu_podCount (foldl add_pod u pods)) name = map_get 0 (nu_podCount u) name + int (length (filter (\<lambda>p. sp_nodeName p = name) pods)) \<and>
    map_get 0 (map_get [] (nu_requested (foldl add_pod u pods)) name) res = map_get 0 (map_get [] (nu_requested u) name) res +
      (\<Sum>p \<leftarrow> filter (\<lambda>p. sp_nodeName p = name) pods. \<Sum>c \<leftarrow> sp_containers p. \<Sum>(k, q) \<leftarrow> c. if k = res then q else 0)" for u
    using assms by (induction pods arbitrary: u) (simp_all add: add_pod_def Let_def map_get_add_at map_get_update containers)
  then show ?thesis by (simp add: node_usage_def)
qed

definition example_stat_pods :: "StatPod list" where
  "example_stat_pods = [\<lparr>sp_nodeName = ''n1'', sp_containers = [[(''cpu'', 1 / 2), (''amd.com/gpu'', 1)], [(''amd.com/gpu'', 2)]]\<rparr>,
     \<lparr>sp_nodeName = [], sp_containers = [[(''amd.com/gpu'', 4)]]\<rparr>]"

theorem node_usage_sums_witness:
  "map_get 0 (map_get [] (nu_requested (node_usage example_stat_pods)) ''n1'') ''amd.com/gpu'' = 3"
  using node_usage_sums [of "''n1''" example_stat_pods "''amd.com/gpu''"] by (simp add: example_stat_pods_def)

section \<open>What is submitted\<close>

lemma ensured_field:
  assumes "unstructured_laws ops" and "ensureObjectNestedStringField ops obj v p = Inr obj'"
  shows "(if un_found ops obj p = Inr False then un_text ops obj' p = Some v else obj' = obj) \<and>
    (\<forall>q. length q = length p \<and> q \<noteq> p \<longrightarrow> un_text ops obj' q = un_text ops obj q \<and> un_found ops obj' q = un_found ops obj q)"
  using assms unfolding ensureObjectNestedStringField_def unstructured_laws_def by (auto split: sum.splits if_splits)

definition submit_trace :: "'o UnstructuredOps \<Rightarrow> string \<Rightarrow> 'o \<Rightarrow> 'o c_event list \<Rightarrow> bool" where
  "submit_trace ops namespace obj new \<longleftrightarrow>
     (\<forall>o' r. CUpdate o' r \<in> set new \<longrightarrow> (\<exists>k. CGet k (Inr o') \<in> set new)) \<and>
     (\<forall>o' r. CCreate o' r \<in> set new \<longrightarrow> ensureObjectNestedStringField ops obj (if namespace = [] then ''default'' else namespace) [''metadata'', ''namespace''] = Inr o')"

lemma submit_Apply_trace: "does (\<lambda>_. submit_trace ops namespace obj) (submit_Apply api ops namespace obj)"
proof (cases "ensureObjectNestedStringField ops obj (if namespace = [] then ''default'' else namespace) [''metadata'', ''namespace'']")
  case (Inl e)
  then show ?thesis by (simp add: submit_Apply_def Let_def bindE_def cli_result_def does_return submit_trace_def)
next
  case (Inr o1)
  have prog: "submit_Apply api ops namespace obj = (
     if un_namespace ops o1 \<noteq> (if namespace = [] then ''default'' else namespace) \<and> (if namespace = [] then ''default'' else namespace) \<noteq> ''default''
     then ret (Inl (CliFailed (''expected namespace to be '' @ (if namespace = [] then ''default'' else namespace) @ '', got '' @ un_namespace ops o1)))
     else let key = \<lparr>key_name = un_name ops o1, key_namespace = un_namespace ops o1\<rparr> in do {
         r \<leftarrow> call (\<lambda>h. c_get api h key) (CGet key);
         (case r of
            Inr obj \<Rightarrow> do {
              u \<leftarrow> call (\<lambda>h. c_update api h obj) (CUpdate obj);
              ret (case u of Some e \<Rightarrow> Inl (CliApi e) | None \<Rightarrow> Inr ())
            }
          | Inl e \<Rightarrow> if e \<noteq> NotFound then ret (Inl (CliApi e))
                     else do {
                       c \<leftarrow> call (\<lambda>h. c_create api h o1) (CCreate o1);
                       ret (case c of Some e \<Rightarrow> Inl (CliApi e) | None \<Rightarrow> Inr ())
                     })
       })"
    by (simp add: submit_Apply_def Inr Let_def bindE_def cli_result_def)
  show ?thesis
    unfolding prog Let_def
    by (intro does_if does_return does_bind does_call does_case_sum) (use Inr in \<open>auto simp: submit_trace_def\<close>)
qed

fun sends :: "'o c_event \<Rightarrow> bool" where
  "sends (CUpdate obj r) = True"
| "sends (CCreate obj r) = True"
| "sends e = False"

lemma cli_call_quiet: "(\<And>r. \<not> sends (event r)) \<Longrightarrow> emits (\<lambda>e. \<not> sends e) (cli_call answer event)"
  unfolding cli_call_def by (intro emits_intros)

lemma cli_unit_quiet: "(\<And>r. \<not> sends (event r)) \<Longrightarrow> emits (\<lambda>e. \<not> sends e) (cli_unit answer event)"
  unfolding cli_unit_def by (intro emits_intros)

lemma prompt_config_quiet: "emits (\<lambda>e. \<not> sends e) (prompt_config api n)"
proof (induction n)
  case (Suc n)
  show ?case unfolding prompt_config.simps by (intro emits_intros cli_call_quiet Suc) simp
qed (simp add: emits_return)

lemma submit_config_quiet: "emits (\<lambda>e. \<not> sends e) (submit_config api env asks flags)"
  unfolding submit_config_def promptUserForConfig_def
  by (intro emits_intros cli_call_quiet cli_unit_quiet prompt_config_quiet) simp_all

text \<open>A field of the object that is created: what the manifest has, or the value given for a missing field.\<close>

definition field_filled :: "'o UnstructuredOps \<Rightarrow> 'o \<Rightarrow> 'o \<Rightarrow> string list \<Rightarrow> string \<Rightarrow> bool" where
  "field_filled ops manifest obj p v \<longleftrightarrow>
     un_text ops obj p = (if un_found ops manifest p = Inr False then Some v else un_text ops manifest p)"

definition sent_ok :: "'o UnstructuredOps \<Rightarrow> SubmitFlags \<Rightarrow> 'o c_event list \<Rightarrow> bool" where
  "sent_ok ops flags new \<longleftrightarrow>
     (\<forall>o' r. CUpdate o' r \<in> set new \<longrightarrow> (\<exists>k. CGet k (Inr o') \<in> set new)) \<and>
     (\<forall>o' r. CCreate o' r \<in> set new \<longrightarrow> (\<exists>manifest config. CReadManifest (sf_file flags) (Inr manifest) \<in> set new \<and>
        field_filled ops manifest o' [''spec'', ''user''] (cc_user (override_config flags config)) \<and>
        field_filled ops manifest o' [''spec'', ''clusterQueue''] (cc_clusterQueue (override_config flags config)) \<and>
        field_filled ops manifest o' [''metadata'', ''namespace''] (if sf_namespace flags = [] then ''default'' else sf_namespace flags)))"

lemma sent_ok_quiet: "list_all (\<lambda>e. \<not> sends e) new \<Longrightarrow> sent_ok ops flags new"
  unfolding sent_ok_def list_all_iff by (metis sends.simps(1,2))

lemma field_filled_chain:
  assumes laws: "unstructured_laws ops"
    and e1: "ensureObjectNestedStringField ops m v1 [''spec'', ''user''] = Inr o1"
    and e2: "ensureObjectNestedStringField ops o1 v2 [''spec'', ''clusterQueue''] = Inr o2"
    and e3: "ensureObjectNestedStringField ops o2 v3 [''metadata'', ''namespace''] = Inr o3"
  shows "field_filled ops m o3 [''spec'', ''user''] v1 \<and> field_filled ops m o3 [''spec'', ''clusterQueue''] v2 \<and> field_filled ops m o3 [''metadata'', ''namespace''] v3"
  using ensured_field [OF laws e1] ensured_field [OF laws e2] ensured_field [OF laws e3]
  by (auto simp: field_filled_def split: if_splits)

lemma submit_command_sends:
  assumes laws: "unstructured_laws (ops :: 'o UnstructuredOps)"
  shows "does (\<lambda>_. sent_ok ops flags) (submit_command api ops env asks flags)"
proof -
  define read where "read m = [CReadManifest (sf_file flags) (Inr m)]" for m :: 'o
  have fin: "does (\<lambda>_ new. sent_ok ops flags (read m @ n @ new))
      (bindE (ret (cli_result (ensureObjectNestedStringField ops m (cc_user config) [''spec'', ''user'']))) (\<lambda>obj.
       bindE (ret (cli_result (ensureObjectNestedStringField ops obj (cc_clusterQueue config) [''spec'', ''clusterQueue'']))) (\<lambda>obj.
         submit_Apply api ops (sf_namespace flags) obj)))"
    if n: "list_all (\<lambda>e. \<not> sends e) n" and config: "config = override_config flags c" for m n config c
  proof -
    have quiet: "list_all (\<lambda>e. \<not> sends e) (read m @ n)" using n by (simp add: read_def)
    show ?thesis
    proof (cases "ensureObjectNestedStringField ops m (cc_user config) [''spec'', ''user'']")
      case (Inl e)
      then show ?thesis using sent_ok_quiet [OF quiet] by (simp add: bindE_def cli_result_def does_return)
    next
      case e1: (Inr o1)
      show ?thesis
      proof (cases "ensureObjectNestedStringField ops o1 (cc_clusterQueue config) [''spec'', ''clusterQueue'']")
        case (Inl e)
        then show ?thesis using sent_ok_quiet [OF quiet] e1 by (simp add: bindE_def cli_result_def does_return)
      next
        case e2: (Inr o2)
        have "sent_ok ops flags (read m @ n @ new)" if "submit_trace ops (sf_namespace flags) o2 new" for new
        proof -
          have none: "CUpdate o' r \<notin> set (read m @ n)" "CCreate o' r \<notin> set (read m @ n)" for o' r
            using quiet by (metis list_all_iff sends.simps(1,2))+
          have "\<exists>k. CGet k (Inr o') \<in> set (read m @ n @ new)" if "CUpdate o' r \<in> set (read m @ n @ new)" for o' r
            using that none \<open>submit_trace _ _ _ _\<close> unfolding submit_trace_def by auto
          moreover have "CReadManifest (sf_file flags) (Inr m) \<in> set (read m @ n @ new) \<and>
              field_filled ops m o' [''spec'', ''user''] (cc_user (override_config flags c)) \<and>
              field_filled ops m o' [''spec'', ''clusterQueue''] (cc_clusterQueue (override_config flags c)) \<and>
              field_filled ops m o' [''metadata'', ''namespace''] (if sf_namespace flags = [] then ''default'' else sf_namespace flags)"
            if "CCreate o' r \<in> set (read m @ n @ new)" for o' r
          proof -
            from that none have "CCreate o' r \<in> set new" by auto
            with \<open>submit_trace _ _ _ _\<close>
            have "ensureObjectNestedStringField ops o2 (if sf_namespace flags = [] then ''default'' else sf_namespace flags) [''metadata'', ''namespace''] = Inr o'"
              unfolding submit_trace_def by blast
            from field_filled_chain [OF laws e1 e2 this] show ?thesis by (simp add: config read_def)
          qed
          ultimately show ?thesis unfolding sent_ok_def by blast
        qed
        then show ?thesis
          using e1 e2 by (auto simp: bindE_def cli_result_def intro: does_mono [OF submit_Apply_trace])
      qed
    qed
  qed
  show ?thesis
    unfolding submit_command_def
  proof (rule does_if, goal_cases)
    case 1
    show ?case by (rule does_return) (simp add: sent_ok_def)
  next
    case 2
    show ?case
    proof (rule does_seqE [where P = "\<lambda>r n. (\<forall>m. r = Inr m \<longrightarrow> n = read m) \<and> list_all (\<lambda>e. \<not> sends e) n"], goal_cases)
      case 1
      show ?case
        unfolding cli_call_def by (intro does_bind does_call does_return) (auto simp: read_def cli_result_def split: sum.splits)
    next
      case (2 e n)
      then show ?case by (simp add: sent_ok_quiet)
    next
      case (3 m n)
      then have n: "n = read m" by simp
      show ?case
      proof (rule does_seqE [OF does_emits [OF submit_config_quiet]], goal_cases)
        case (1 e n1)
        then show ?case by (intro sent_ok_quiet) (simp add: n read_def)
      next
        case (2 c n1)
        show ?case
          unfolding Let_def
        proof (rule does_seqE [OF does_emits [OF cli_unit_quiet]], simp, goal_cases)
          case (1 e n2)
          then show ?case using 2 by (intro sent_ok_quiet) (simp add: n read_def)
        next
          case (2 u n2)
          then show ?case using fin [of "n1 @ n2" _ c m] \<open>list_all _ n1\<close> by (simp add: n)
        qed
      qed
    qed
  qed
qed


text \<open>Objects as maps from paths of two names to texts.\<close>

definition path_ops :: "(string list \<times> string) list UnstructuredOps" where
  "path_ops = \<lparr>un_found = (\<lambda>obj p. Inr (map_of obj p \<noteq> None)), un_set = (\<lambda>obj v p. Inr ((p, v) # obj)), un_text = map_of,
     un_namespace = (\<lambda>obj. case map_of obj [''metadata'', ''namespace''] of None \<Rightarrow> [] | Some v \<Rightarrow> v),
     un_name = (\<lambda>obj. case map_of obj [''metadata'', ''name''] of None \<Rightarrow> [] | Some v \<Rightarrow> v)\<rparr>"

definition example_cli_env :: CliEnv where
  "example_cli_env = \<lparr>ce_home = Inr ''/home/alice'', ce_join = (\<lambda>a b. a @ ''/'' @ b), ce_env = (\<lambda>_. []), ce_stat = (\<lambda>_. StatNotExist)\<rparr>"

definition stored_object :: "(string list \<times> string) list" where
  "stored_object = [([''metadata'', ''name''], ''train''), ([''metadata'', ''namespace''], ''default''), ([''spec'', ''image''], ''old'')]"

definition new_manifest :: "(string list \<times> string) list" where
  "new_manifest = [([''metadata'', ''name''], ''train''), ([''spec'', ''image''], ''new'')]"

definition example_capi :: "(string list \<times> string) list CApi" where
  "example_capi = \<lparr>c_readManifest = (\<lambda>_ _. Inr new_manifest), c_confirmCreate = (\<lambda>_. Inr False), c_configForm = (\<lambda>_. Inr ([], [])),
     c_writeConfig = (\<lambda>_ _ _. None), c_readConfig = (\<lambda>_ _. Inl []), c_clients = (\<lambda>_. None), c_get = (\<lambda>_ _. Inr stored_object),
     c_update = (\<lambda>_ _. None), c_create = (\<lambda>_ _. None)\<rparr>"

definition example_flags :: SubmitFlags where
  "example_flags = \<lparr>sf_file = ''job.yaml'', sf_user = ''alice@example.com'', sf_queue = [], sf_namespace = [], sf_config = []\<rparr>"

lemma path_laws: "unstructured_laws path_ops"
  by (auto simp: unstructured_laws_def path_ops_def)

lemma submit_example_run:
  "result_of (submit_command example_capi path_ops example_cli_env 3 example_flags) [] = Inr ()"
  "CUpdate stored_object None \<in> set (history_of (submit_command example_capi path_ops example_cli_env 3 example_flags) [])"
  by code_simp+


end
