(* ===== verification/QueueClient.thy ===== *)
theory QueueClient
  imports WorkloadClient
begin

text \<open>
  The surroundings of the queue configuration controller
  (\<^verbatim>\<open>internal/controller/kaiwoqueueconfig_controller.go\<close> and \<^verbatim>\<open>internal/controller/utils\<close>): the Kueue objects it
  manages, its calls on the API server as events with their answers, and what it takes from the Kubernetes
  packages.
\<close>

section \<open>Kueue objects\<close>

text \<open>A ResourceFlavor; the node labels may be a nil map. \<open>kf_terminating\<close>: the deletion timestamp is set.\<close>

record KueueFlavorSpec =
  kfs_nodeLabels :: "string gomap option"
  kfs_nodeTaints :: "opaque list"
  kfs_tolerations :: "opaque list"
  kfs_topologyName :: "string option"

record KueueFlavor =
  kf_name :: string
  kf_spec :: KueueFlavorSpec
  kf_terminating :: bool
  kf_finalizers :: "string list"

record KueueClusterQueue =
  kq_name :: string
  kq_spec :: ClusterQueueSpec

datatype kueue_object =
    KFlavor KueueFlavor | KClusterQueue KueueClusterQueue | KTopology Topology
  | KPriorityClass WorkloadPriorityClass | KLocalQueue LocalQueue

definition object_name :: "kueue_object \<Rightarrow> string" where
  "object_name obj = (case obj of KFlavor f \<Rightarrow> kf_name f | KClusterQueue q \<Rightarrow> kq_name q | KTopology t \<Rightarrow> tp_name t
     | KPriorityClass p \<Rightarrow> pc_name p | KLocalQueue l \<Rightarrow> lq_name l)"

definition object_namespace :: "kueue_object \<Rightarrow> string" where
  "object_namespace obj = (case obj of KLocalQueue l \<Rightarrow> lq_namespace l | _ \<Rightarrow> [])"

section \<open>Events and answers\<close>

datatype q_event =
    QGetConfig "api_error + KaiwoConfigSpec"
  | QListNodes "api_error + Node list"
  | QGetNode string "api_error + Node"
  | QPatchNode Node "api_error option"
  | QUpdateNode Node "api_error option"
  | QGetQueueConfig string "api_error + KaiwoQueueConfig"
  | QCreateQueueConfig KaiwoQueueConfig "api_error option"
  | QUpdateQueueConfig KaiwoQueueConfig "api_error + KaiwoQueueConfig"
  | QUpdateQueueConfigStatus KaiwoQueueConfig "api_error option"
  | QListFlavors "api_error + KueueFlavor list"
  | QListClusterQueues "api_error + KueueClusterQueue list"
  | QListPriorityClasses "api_error + WorkloadPriorityClass list"
  | QListLocalQueues "api_error + LocalQueue list"
  | QListTopologies "api_error + Topology list"
  | QGetFlavor string "api_error + KueueFlavor"
  | QGetClusterQueue string "api_error + KueueClusterQueue"
  | QGetLocalQueue ObjectKey "api_error option"
  | QGetPriorityClass string "api_error + WorkloadPriorityClass"
  | QCreate kueue_object "api_error option"
  | QUpdate kueue_object "api_error option"
  | QDelete kueue_object "api_error option"
  | QRecord event_type string string

type_synonym 'a q_prog = "(q_event, 'a) prog"

record QApi =
  q_getConfig :: "q_event list \<Rightarrow> api_error + KaiwoConfigSpec"
  q_listNodes :: "q_event list \<Rightarrow> api_error + Node list"
  q_getNode :: "q_event list \<Rightarrow> string \<Rightarrow> api_error + Node"
  q_patchNode :: "q_event list \<Rightarrow> Node \<Rightarrow> api_error option"
  q_updateNode :: "q_event list \<Rightarrow> Node \<Rightarrow> api_error option"
  q_getQueueConfig :: "q_event list \<Rightarrow> string \<Rightarrow> api_error + KaiwoQueueConfig"
  q_createQueueConfig :: "q_event list \<Rightarrow> KaiwoQueueConfig \<Rightarrow> api_error option"
  q_updateQueueConfig :: "q_event list \<Rightarrow> KaiwoQueueConfig \<Rightarrow> api_error + KaiwoQueueConfig"
  q_updateQueueConfigStatus :: "q_event list \<Rightarrow> KaiwoQueueConfig \<Rightarrow> api_error option"
  q_listFlavors :: "q_event list \<Rightarrow> api_error + KueueFlavor list"
  q_listClusterQueues :: "q_event list \<Rightarrow> api_error + KueueClusterQueue list"
  q_listPriorityClasses :: "q_event list \<Rightarrow> api_error + WorkloadPriorityClass list"
  q_listLocalQueues :: "q_event list \<Rightarrow> api_error + LocalQueue list"
  q_listTopologies :: "q_event list \<Rightarrow> api_error + Topology list"
  q_getFlavor :: "q_event list \<Rightarrow> string \<Rightarrow> api_error + KueueFlavor"
  q_getClusterQueue :: "q_event list \<Rightarrow> string \<Rightarrow> api_error + KueueClusterQueue"
  q_getLocalQueue :: "q_event list \<Rightarrow> ObjectKey \<Rightarrow> api_error option"
  q_getPriorityClass :: "q_event list \<Rightarrow> string \<Rightarrow> api_error + WorkloadPriorityClass"
  q_create :: "q_event list \<Rightarrow> kueue_object \<Rightarrow> api_error option"
  q_update :: "q_event list \<Rightarrow> kueue_object \<Rightarrow> api_error option"
  q_delete :: "q_event list \<Rightarrow> kueue_object \<Rightarrow> api_error option"

text \<open>
  \<open>qx_mapOrder n\<close> is the order in which the \<open>n\<close>-th \<^verbatim>\<open>range\<close> statement over a map visits its keys.
  \<open>qx_queueSpecEqual\<close> is \<^verbatim>\<open>reflect.DeepEqual\<close> on cluster queue specs (which compares the internal
  representation of quantities), \<open>qx_removeFinalizer\<close> returns \<open>None\<close> when there was nothing to remove.
\<close>

record QCtx =
  qx_mapOrder :: "nat \<Rightarrow> string list \<Rightarrow> string list"
  qx_retrySteps :: nat
  qx_backoffSteps :: nat
  qx_setControllerReference :: "string \<Rightarrow> kueue_object \<Rightarrow> api_error option"
  qx_queueSpecEqual :: "ClusterQueueSpec \<Rightarrow> ClusterQueueSpec \<Rightarrow> bool"
  qx_removeFinalizer :: "string \<Rightarrow> KueueFlavor \<Rightarrow> KueueFlavor option"
  qx_matchTaint :: "Taint \<Rightarrow> Taint \<Rightarrow> bool"
  qx_errorString :: "api_error \<Rightarrow> string"

section \<open>Calls\<close>

definition Q_Create :: "QApi \<Rightarrow> kueue_object \<Rightarrow> api_error option q_prog" where
  "Q_Create api obj = call (\<lambda>h. q_create api h obj) (QCreate obj)"

definition Q_Update :: "QApi \<Rightarrow> kueue_object \<Rightarrow> api_error option q_prog" where
  "Q_Update api obj = call (\<lambda>h. q_update api h obj) (QUpdate obj)"

definition Q_Delete :: "QApi \<Rightarrow> kueue_object \<Rightarrow> api_error option q_prog" where
  "Q_Delete api obj = call (\<lambda>h. q_delete api h obj) (QDelete obj)"

definition q_call :: "(q_event list \<Rightarrow> api_error + 'r) \<Rightarrow> (api_error + 'r \<Rightarrow> q_event) \<Rightarrow> (wl_error + 'r) q_prog" where
  "q_call answer event = do {
     r \<leftarrow> call answer event;
     ret (case r of Inl e \<Rightarrow> Inl (Failed e) | Inr x \<Rightarrow> Inr x)
   }"

lemmas q_client_defs = Q_Create_def Q_Update_def Q_Delete_def q_call_def

lemma emits_q_call [emits_intros]: "(\<And>r. P (event r)) \<Longrightarrow> emits P (q_call answer event)"
  unfolding q_call_def by (intro emits_intros)

lemma emits_Q_writes [emits_intros]:
  "(\<And>r. P (QCreate obj r)) \<Longrightarrow> emits P (Q_Create api obj)"
  "(\<And>r. P (QUpdate obj r)) \<Longrightarrow> emits P (Q_Update api obj)"
  "(\<And>r. P (QDelete obj r)) \<Longrightarrow> emits P (Q_Delete api obj)"
  unfolding q_client_defs by (intro emits_intros; simp)+

end
