(* ===== verification/QueueFlavors.thy ===== *)
theory QueueFlavors
  imports QueueClient Naming "HOL-Library.Product_Lexorder"
begin

text \<open>
  Node pools and their quotas: \<^verbatim>\<open>internal/controller/utils/scheduling.go\<close> and the first half of
  \<^verbatim>\<open>internal/controller/utils/kueue.go\<close>. The nodes of the cluster are grouped by GPU vendor, model and count and by
  the discounted CPU and memory; each group becomes a resource flavor whose quota is the sum over its nodes, the
  nodes are labelled with it, and one cluster queue offers all flavors.

  The product of a float with \<open>0.9\<close> is \<open>9/10\<close>: on whole cores and whole Gi the truncated results agree.
\<close>

section \<open>Nodes\<close>

record NodeResourceInfo =
  ni_name :: string
  ni_CPU :: int
  ni_memory :: int
  ni_labels :: "string gomap"
  ni_unschedulable :: bool

definition CleanAMDGPUName :: "string \<Rightarrow> string" where
  "CleanAMDGPUName gpuID =
     TrimSpace (foldl (\<lambda>gpuType word. ReplaceAll gpuType word []) (ToLower gpuID)
       [''instinct'', ''radeon'', ''_'', ''oam'', ''amd'', ''series'', ''gpu''])"

text \<open>The capacities are whole cores and bytes. An error of the list is the empty list.\<close>

definition node_info :: "Node \<Rightarrow> NodeResourceInfo" where
  "node_info n = \<lparr>ni_name = nd_name n, ni_CPU = map_get 0 (nd_capacity n) ''cpu'',
     ni_memory = map_get 0 (nd_capacity n) ''memory'' div (1024 * 1024 * 1024),
     ni_labels = nd_labels n, ni_unschedulable = nd_unschedulable n\<rparr>"

definition GetNodeResources :: "QApi \<Rightarrow> NodeResourceInfo list q_prog" where
  "GetNodeResources api = do {
     r \<leftarrow> call (q_listNodes api) QListNodes;
     ret (case r of Inl _ \<Rightarrow> [] | Inr nodes \<Rightarrow> map node_info nodes)
   }"

definition LabelNode :: "QApi \<Rightarrow> QCtx \<Rightarrow> string \<Rightarrow> string \<Rightarrow> string \<Rightarrow> api_error option q_prog" where
  "LabelNode api cx nodeName key value = RetryOnConflict (qx_retrySteps cx) (do {
     r \<leftarrow> call (\<lambda>h. q_getNode api h nodeName) (QGetNode nodeName);
     (case r of
        Inl e \<Rightarrow> ret (Some e)
      | Inr node \<Rightarrow>
          if nd_labels node \<noteq> [] \<and> map_get [] (nd_labels node) key = value then ret None
          else let node' = node\<lparr>nd_labels := AList.update key value (nd_labels node)\<rparr>
               in call (\<lambda>h. q_patchNode api h node') (QPatchNode node'))
   })"

definition TaintNode :: "QApi \<Rightarrow> QCtx \<Rightarrow> string \<Rightarrow> Taint \<Rightarrow> api_error option q_prog" where
  "TaintNode api cx nodeName taint = RetryOnConflict (qx_retrySteps cx) (do {
     r \<leftarrow> call (\<lambda>h. q_getNode api h nodeName) (QGetNode nodeName);
     (case r of
        Inl e \<Rightarrow> ret (Some e)
      | Inr node \<Rightarrow>
          if list_ex (\<lambda>t. qx_matchTaint cx t taint) (nd_taints node) then ret None
          else let node' = node\<lparr>nd_taints := nd_taints node @ [taint]\<rparr>
               in call (\<lambda>h. q_updateNode api h node') (QUpdateNode node'))
   })"

section \<open>Counts in a flavor name\<close>

text \<open>The number before the suffix in the first part of the name that has it; 0 when it is not a number.\<close>

definition count_with_suffix :: "string \<Rightarrow> string \<Rightarrow> int" where
  "count_with_suffix sfx flavorName =
     (case List.find (\<lambda>p. HasSuffix p sfx) (Split flavorName (CHR ''-'')) of
        None \<Rightarrow> 0
      | Some p \<Rightarrow> atoi_value (TrimSuffix p sfx))"

definition getGPUCount :: "string \<Rightarrow> int" where
  "getGPUCount flavorName =
     (if Contains flavorName ''nvidia'' \<or> Contains flavorName ''amd'' then count_with_suffix ''gpu'' flavorName else 0)"

definition getCPUCount :: "string \<Rightarrow> int" where
  "getCPUCount flavorName = count_with_suffix ''core'' flavorName"

definition getMemoryCount :: "string \<Rightarrow> int" where
  "getMemoryCount flavorName = count_with_suffix ''Gi'' flavorName"

section \<open>Node pools\<close>

definition is_control_plane :: "NodeResourceInfo \<Rightarrow> bool" where
  "is_control_plane node \<longleftrightarrow> has_key (ni_labels node) ''node-role.kubernetes.io/control-plane'' \<or>
     has_key (ni_labels node) ''node-role.kubernetes.io/master''"

text \<open>GPU count, vendor and type of a node; the labels of NVIDIA are looked at last.\<close>

definition node_gpu :: "string gomap \<Rightarrow> int \<times> string \<times> string" where
  "node_gpu labels =
     (let (gpuCount, gpuVendor, gpuType) = (case map_of labels ''amd.com/gpu.product-name'' of
            None \<Rightarrow> (0, ''cpu'', ''only'')
          | Some gpuID \<Rightarrow> (case map_of labels ''beta.amd.com/gpu.family.AI'' of
              None \<Rightarrow> (0, ''cpu'', CleanAMDGPUName gpuID)
            | Some gpus \<Rightarrow> (atoi_value gpus, ''amd'', CleanAMDGPUName gpuID)))
      in (case map_of labels ''nvidia.com/gpu.product'' of
            None \<Rightarrow> (gpuCount, gpuVendor, gpuType)
          | Some gpuProduct \<Rightarrow> (case map_of labels ''nvidia.com/gpu.count'' of
              None \<Rightarrow> (gpuCount, gpuVendor, ReplaceAll (ToLower gpuProduct) ''-'' [])
            | Some gpus \<Rightarrow> (atoi_value gpus, ''nvidia'', ReplaceAll (ToLower gpuProduct) ''-'' []))))"

definition nominalCPU :: "NodeResourceInfo \<Rightarrow> int" where
  "nominalCPU node = (ni_CPU node * 9) div 10"

definition nominalMemory :: "NodeResourceInfo \<Rightarrow> int" where
  "nominalMemory node = (ni_memory node * 9 * 1024 * 1024 * 1024) div 10"

definition flavor_name :: "NodeResourceInfo \<Rightarrow> string" where
  "flavor_name node = (let (gpuCount, gpuVendor, gpuType) = node_gpu (ni_labels node) in
     gpuVendor @ ''-'' @ gpuType @ ''-'' @ Itoa gpuCount @ ''gpu-'' @ Itoa (nominalCPU node) @ ''core-'' @
     Itoa (nominalMemory node div (1024 * 1024 * 1024)) @ ''gi'')"

definition gpu_resource :: "string \<Rightarrow> string" where
  "gpu_resource gpuVendor = (if gpuVendor = ''nvidia'' then ''nvidia.com/gpu'' else ''amd.com/gpu'')"

text \<open>Adding to a quantity that the map does not have dereferences a nil pointer.\<close>

definition add_quantity :: "string \<Rightarrow> int \<Rightarrow> int gomap \<Rightarrow> int gomap option" where
  "add_quantity r n m = map_option (\<lambda>q. AList.update r (q + n) m) (map_of m r)"

record PoolState =
  ps_nodePools :: "string list gomap"
  ps_aggregates :: "int gomap gomap"

definition add_to_pool :: "NodeResourceInfo \<Rightarrow> PoolState \<Rightarrow> PoolState option" where
  "add_to_pool node ps =
     (let (gpuCount, gpuVendor, gpuType) = node_gpu (ni_labels node);
          flavorName = flavor_name node;
          aggregate = (case map_of (ps_aggregates ps) flavorName of
             Some m \<Rightarrow> m
           | None \<Rightarrow> [(''cpu'', 0), (''memory'', 0)] @ (if gpuCount > 0 then [(gpu_resource gpuVendor, 0)] else []))
      in Option.bind (add_quantity ''cpu'' (nominalCPU node) aggregate) (\<lambda>m.
         Option.bind (add_quantity ''memory'' (nominalMemory node) m) (\<lambda>m.
         Option.bind (if gpuCount > 0 then add_quantity (gpu_resource gpuVendor) gpuCount m else Some m) (\<lambda>m.
           Some \<lparr>ps_nodePools = append_at flavorName (ni_name node) (ps_nodePools ps),
                 ps_aggregates = AList.update flavorName m (ps_aggregates ps)\<rparr>))))"

definition in_pools :: "KaiwoConfigSpec \<Rightarrow> NodeResourceInfo \<Rightarrow> bool" where
  "in_pools config node \<longleftrightarrow> \<not> ni_unschedulable node \<and>
     \<not> (nod_excludeMasterNodesFromNodePools (kcs_nodes config) \<and> is_control_plane node)"

definition collect_pools :: "KaiwoConfigSpec \<Rightarrow> NodeResourceInfo list \<Rightarrow> PoolState option" where
  "collect_pools config nodes =
     foldl (\<lambda>ps node. if in_pools config node then Option.bind ps (add_to_pool node) else ps)
       (Some \<lparr>ps_nodePools = [], ps_aggregates = []\<rparr>) nodes"

definition pool_quotas :: "QCtx \<Rightarrow> PoolState \<Rightarrow> string \<Rightarrow> FlavorQuotas" where
  "pool_quotas cx ps flavorName =
     (let m = map_get [] (ps_aggregates ps) flavorName;
          others = filter (\<lambda>r. r \<noteq> ''cpu'' \<and> r \<noteq> ''memory'') (qx_mapOrder cx 1 (map fst m))
      in \<lparr>fq_name = flavorName, fq_resources = map (\<lambda>r. \<lparr>rq_name = r, rq_nominalQuota = map_get 0 m r\<rparr>)
           ([''cpu'', ''memory''] @ others)\<rparr>)"

definition pool_flavor :: "KaiwoConfigSpec \<Rightarrow> string \<Rightarrow> ResourceFlavorSpec" where
  "pool_flavor config flavorName = \<lparr>rf_name = flavorName, rf_nodeLabels = [(DefaultNodePoolLabel, flavorName)],
     rf_taints = [], rf_tolerations = [], rf_topologyName = kcs_defaultTopologyName config\<rparr>"

definition RemoveDuplicateResourceFlavors :: "QCtx \<Rightarrow> ResourceFlavorSpec list \<Rightarrow> ResourceFlavorSpec list" where
  "RemoveDuplicateResourceFlavors cx flavors =
     (let uniqueMap = foldl (\<lambda>m flavor. AList.update (rf_name flavor) flavor m) [] flavors
      in List.map_filter (map_of uniqueMap) (qx_mapOrder cx 2 (map fst uniqueMap)))"

definition label_pool_node :: "QApi \<Rightarrow> QCtx \<Rightarrow> KaiwoConfigSpec \<Rightarrow> string \<Rightarrow> string \<Rightarrow> api_error option q_prog" where
  "label_pool_node api cx config flavorName nodeName = do {
     e1 \<leftarrow> LabelNode api cx nodeName DefaultKaiwoWorkerLabel ''true'';
     (if e1 \<noteq> None then ret e1 else do {
        e2 \<leftarrow> LabelNode api cx nodeName DefaultNodePoolLabel flavorName;
        (if e2 \<noteq> None then ret e2 else do {
           e3 \<leftarrow> (if \<not> Contains flavorName CPUOnly
                  then LabelNode api cx nodeName GPUModelLabel (Split flavorName (CHR ''-'') ! 1) else ret None);
           (if e3 \<noteq> None then ret e3 else do {
              (if nod_addTaintsToGpuNodes (kcs_nodes config) \<and> \<not> HasPrefix flavorName CPUOnly
               then do { TaintNode api cx nodeName \<lparr>ta_key = nod_defaultGpuTaintKey (kcs_nodes config), ta_value = ''true'',
                           ta_effect = ''NoSchedule''\<rparr>; ret () }
               else ret ());
              ret None
           })
        })
     })
   }"

fun label_pool_nodes :: "QApi \<Rightarrow> QCtx \<Rightarrow> KaiwoConfigSpec \<Rightarrow> (string \<times> string) list \<Rightarrow> api_error option q_prog" where
  "label_pool_nodes api cx config [] = ret None"
| "label_pool_nodes api cx config ((flavorName, nodeName) # rest) = do {
     e \<leftarrow> label_pool_node api cx config flavorName nodeName;
     (if e \<noteq> None then ret e else label_pool_nodes api cx config rest)
   }"

definition CreateDefaultResourceFlavors ::
    "QApi \<Rightarrow> QCtx \<Rightarrow> KaiwoConfigSpec \<Rightarrow> (wl_error + (ResourceFlavorSpec list \<times> FlavorQuotas gomap)) q_prog" where
  "CreateDefaultResourceFlavors api cx config = do {
     nodeList \<leftarrow> GetNodeResources api;
     (case collect_pools config nodeList of
        None \<Rightarrow> ret (Inl Panicked)
      | Some ps \<Rightarrow> (
          let names = qx_mapOrder cx 0 (map fst (ps_nodePools ps));
              nodePoolResources = map (\<lambda>f. (f, pool_quotas cx ps f)) names;
              resourceFlavors = RemoveDuplicateResourceFlavors cx (map (pool_flavor config) names)
          in do {
            e \<leftarrow> label_pool_nodes api cx config (concat (map (\<lambda>f. map (Pair f) (map_get [] (ps_nodePools ps) f))
                  (qx_mapOrder cx 3 (map fst (ps_nodePools ps)))));
            ret (case e of Some e \<Rightarrow> Inl (Failed e) | None \<Rightarrow> Inr (resourceFlavors, nodePoolResources))
          }))
   }"

section \<open>The default cluster queue\<close>

text \<open>The comparison of the sort, and the key that it orders by.\<close>

definition flavor_less :: "string \<Rightarrow> string \<Rightarrow> bool" where
  "flavor_less i j =
     (let gpuCountI = getGPUCount i; gpuCountJ = getGPUCount j
      in if gpuCountI = 0 \<and> gpuCountJ > 0 then True
         else if gpuCountJ = 0 \<and> gpuCountI > 0 then False
         else if gpuCountI \<noteq> gpuCountJ then gpuCountI < gpuCountJ
         else if getCPUCount i \<noteq> getCPUCount j then getCPUCount i < getCPUCount j
         else getMemoryCount i < getMemoryCount j)"

definition flavor_key :: "string \<Rightarrow> int \<times> int \<times> int" where
  "flavor_key n = (getGPUCount n, getCPUCount n, getMemoryCount n)"

definition add_missing :: "string list \<Rightarrow> FlavorQuotas \<Rightarrow> FlavorQuotas" where
  "add_missing coveredResources flavor =
     flavor\<lparr>fq_resources := fq_resources flavor @ map (\<lambda>r. \<lparr>rq_name = r, rq_nominalQuota = 0\<rparr>)
       (filter (\<lambda>r. \<not> list_ex (\<lambda>q. rq_name q = r) (fq_resources flavor)) coveredResources)\<rparr>"

text \<open>
  The order of flavors that compare equal is that of the map range before the sort, which is arbitrary.
\<close>

definition CreateClusterQueue :: "QCtx \<Rightarrow> FlavorQuotas gomap \<Rightarrow> string \<Rightarrow> string \<Rightarrow> ClusterQueue" where
  "CreateClusterQueue cx nodePoolResources name cohort =
     (let quotas = List.map_filter (map_of nodePoolResources) (qx_mapOrder cx 4 (map fst nodePoolResources));
          coveredResources = foldl (\<lambda>m q. foldl (\<lambda>m r. AList.update (TrimSpace (rq_name r)) () m) m (fq_resources q)) [] quotas;
          flavorQuotas = sort_key (\<lambda>q. flavor_key (fq_name q)) quotas;
          coveredResourcesSlice = qx_mapOrder cx 5 (map fst coveredResources)
      in \<lparr>cq_name = name,
          cq_spec = \<lparr>cqs_resourceGroups = [\<lparr>rg_coveredResources = coveredResourcesSlice,
                        rg_flavors = map (add_missing coveredResourcesSlice) flavorQuotas\<rparr>],
                     cqs_cohort = cohort, cqs_queueingStrategy = [], cqs_namespaceSelector = Some (Opaque []),
                     cqs_flavorFungibility = None, cqs_preemption = None, cqs_admissionChecks = [],
                     cqs_admissionChecksStrategy = None, cqs_stopPolicy = None, cqs_fairSharing = None\<rparr>,
          cq_namespaces = []\<rparr>)"

definition CreateDefaultTopology :: "KaiwoConfigSpec \<Rightarrow> Topology list" where
  "CreateDefaultTopology config =
     [\<lparr>tp_name = (if kcs_defaultTopologyName config = [] then DefaultTopologyName else kcs_defaultTopologyName config),
       tp_levels = [DefaultTopologyBlockLabel, DefaultTopologyRackLabel, DefaultTopologyHostLabel]\<rparr>]"

section \<open>Conversions\<close>

definition ConvertKaiwoToKueueResourceFlavor :: "ResourceFlavorSpec \<Rightarrow> KueueFlavor" where
  "ConvertKaiwoToKueueResourceFlavor rf =
     (let nodeLabels = foldl (\<lambda>m (k, v). AList.update k v m) [] (rf_nodeLabels rf);
          spec = (if rf_topologyName rf \<noteq> []
                  then \<lparr>kfs_nodeLabels = Some nodeLabels, kfs_nodeTaints = [], kfs_tolerations = [],
                        kfs_topologyName = Some (rf_topologyName rf)\<rparr>
                  else \<lparr>kfs_nodeLabels = Some (AList.update DefaultKaiwoWorkerLabel ''true'' nodeLabels), kfs_nodeTaints = [],
                        kfs_tolerations = [], kfs_topologyName = None\<rparr>)
      in \<lparr>kf_name = rf_name rf, kf_spec = spec, kf_terminating = False, kf_finalizers = []\<rparr>)"

definition ConvertKaiwoToKueueTopology :: "Topology \<Rightarrow> Topology" where
  "ConvertKaiwoToKueueTopology t = \<lparr>tp_name = tp_name t, tp_levels = map (\<lambda>l. l) (tp_levels t)\<rparr>"

definition ConvertKaiwoToKueueSpec :: "ClusterQueueSpec \<Rightarrow> ClusterQueueSpec" where
  "ConvertKaiwoToKueueSpec s = \<lparr>cqs_resourceGroups = cqs_resourceGroups s, cqs_cohort = cqs_cohort s,
     cqs_queueingStrategy = cqs_queueingStrategy s, cqs_namespaceSelector = cqs_namespaceSelector s,
     cqs_flavorFungibility = cqs_flavorFungibility s, cqs_preemption = cqs_preemption s,
     cqs_admissionChecks = cqs_admissionChecks s, cqs_admissionChecksStrategy = cqs_admissionChecksStrategy s,
     cqs_stopPolicy = cqs_stopPolicy s, cqs_fairSharing = cqs_fairSharing s\<rparr>"

definition ConvertKaiwoToKueueClusterQueue :: "ClusterQueue \<Rightarrow> KueueClusterQueue" where
  "ConvertKaiwoToKueueClusterQueue q = \<lparr>kq_name = cq_name q, kq_spec = ConvertKaiwoToKueueSpec (cq_spec q)\<rparr>"

text \<open>\<^verbatim>\<open>reflect.DeepEqual\<close> on flavor specs: the node labels are compared as maps, a nil map only equals a nil map.\<close>

definition same_map :: "string gomap \<Rightarrow> string gomap \<Rightarrow> bool" where
  "same_map a b \<longleftrightarrow> length a = length b \<and> list_all (\<lambda>(k, v). map_of b k = Some v) a"

definition CompareResourceFlavors :: "KueueFlavor \<Rightarrow> KueueFlavor \<Rightarrow> bool" where
  "CompareResourceFlavors a b \<longleftrightarrow>
     (case (kfs_nodeLabels (kf_spec a), kfs_nodeLabels (kf_spec b)) of
        (None, None) \<Rightarrow> True | (Some m, Some n) \<Rightarrow> same_map m n | _ \<Rightarrow> False) \<and>
     kfs_nodeTaints (kf_spec a) = kfs_nodeTaints (kf_spec b) \<and> kfs_tolerations (kf_spec a) = kfs_tolerations (kf_spec b) \<and>
     kfs_topologyName (kf_spec a) = kfs_topologyName (kf_spec b)"

definition CompareTopologies :: "Topology \<Rightarrow> Topology \<Rightarrow> bool" where
  "CompareTopologies a b \<longleftrightarrow> tp_levels a = tp_levels b"

definition ComparePriorityClasses :: "WorkloadPriorityClass \<Rightarrow> WorkloadPriorityClass \<Rightarrow> bool" where
  "ComparePriorityClasses a b \<longleftrightarrow> pc_value a = pc_value b"

definition FindFlavor :: "KueueFlavor list \<Rightarrow> string \<Rightarrow> KueueFlavor option" where
  "FindFlavor flavors name = List.find (\<lambda>f. kf_name f = name) flavors"

definition FindTopology :: "Topology list \<Rightarrow> string \<Rightarrow> Topology option" where
  "FindTopology topologies name = List.find (\<lambda>t. tp_name t = name) topologies"

section \<open>Properties of node pools\<close>

definition pool_of :: "KaiwoConfigSpec \<Rightarrow> NodeResourceInfo list \<Rightarrow> string \<Rightarrow> NodeResourceInfo list" where
  "pool_of config nodes f = filter (\<lambda>n. in_pools config n \<and> flavor_name n = f) nodes"

definition gpu_share :: "string \<Rightarrow> NodeResourceInfo \<Rightarrow> int" where
  "gpu_share r node = (case node_gpu (ni_labels node) of (gpuCount, gpuVendor, gpuType) \<Rightarrow>
     if gpuCount > 0 \<and> gpu_resource gpuVendor = r then gpuCount else 0)"

text \<open>What a node contributes to the quantity of a resource of its pool.\<close>

definition node_share :: "string \<Rightarrow> NodeResourceInfo \<Rightarrow> int" where
  "node_share r node = (if r = ''cpu'' then nominalCPU node else if r = ''memory'' then nominalMemory node else gpu_share r node)"

lemma add_quantity_get: "add_quantity r n m = Some m' \<Longrightarrow> map_get 0 m' k = map_get 0 m k + (if k = r then n else 0)"
  by (auto simp: add_quantity_def map_get_update) (simp add: map_get_def)

lemma gpu_resource_neq [simp]: "gpu_resource v \<noteq> ''cpu''" "gpu_resource v \<noteq> ''memory''"
  "''cpu'' \<noteq> gpu_resource v" "''memory'' \<noteq> gpu_resource v"
  by (simp_all add: gpu_resource_def)

lemma add_to_pool_some:
  assumes "add_to_pool node ps = Some ps'"
  shows "ps_nodePools ps' = append_at (flavor_name node) (ni_name node) (ps_nodePools ps)"
    and "\<exists>m'. ps_aggregates ps' = AList.update (flavor_name node) m' (ps_aggregates ps) \<and>
      (\<forall>r. map_get 0 m' r = map_get 0 (map_get [] (ps_aggregates ps) (flavor_name node)) r + node_share r node)"
proof -
  obtain c v t where gpu: "node_gpu (ni_labels node) = (c, v, t)" by (metis prod_cases3)
  define agg where "agg = (case map_of (ps_aggregates ps) (flavor_name node) of Some m \<Rightarrow> m
    | None \<Rightarrow> [(''cpu'', 0), (''memory'', 0)] @ (if c > 0 then [(gpu_resource v, 0)] else []))"
  obtain m1 m2 m3 where m1: "add_quantity ''cpu'' (nominalCPU node) agg = Some m1"
    and m2: "add_quantity ''memory'' (nominalMemory node) m1 = Some m2"
    and m3: "(if c > 0 then add_quantity (gpu_resource v) c m2 else Some m2) = Some m3"
    and ps': "ps' = \<lparr>ps_nodePools = append_at (flavor_name node) (ni_name node) (ps_nodePools ps),
       ps_aggregates = AList.update (flavor_name node) m3 (ps_aggregates ps)\<rparr>"
    using assms unfolding add_to_pool_def gpu Let_def prod.case agg_def [symmetric]
    by (auto simp: bind_eq_Some_conv)
  show "ps_nodePools ps' = append_at (flavor_name node) (ni_name node) (ps_nodePools ps)" by (simp add: ps')
  have start: "map_get 0 agg r = map_get 0 (map_get [] (ps_aggregates ps) (flavor_name node)) r" for r
    by (simp add: agg_def map_get_def split: option.split)
  have "map_get 0 m3 r = map_get 0 agg r + node_share r node" for r
  proof -
    have "map_get 0 m3 r = map_get 0 m2 r + (if c > 0 \<and> r = gpu_resource v then c else 0)"
      using m3 add_quantity_get [of "gpu_resource v" c m2 m3 r] by (auto split: if_splits)
    then show ?thesis
      using add_quantity_get [OF m1, of r] add_quantity_get [OF m2, of r]
      by (auto simp: node_share_def gpu_share_def gpu)
  qed
  then show "\<exists>m'. ps_aggregates ps' = AList.update (flavor_name node) m' (ps_aggregates ps) \<and>
      (\<forall>r. map_get 0 m' r = map_get 0 (map_get [] (ps_aggregates ps) (flavor_name node)) r + node_share r node)"
    using start by (auto simp: ps')
qed

lemma collect_pools_snoc:
  "collect_pools config (nodes @ [n]) =
     (if in_pools config n then Option.bind (collect_pools config nodes) (add_to_pool n) else collect_pools config nodes)"
  by (simp add: collect_pools_def)

lemma collect_pools_sums:
  assumes "collect_pools config nodes = Some ps"
  shows "map_get [] (ps_nodePools ps) f = map ni_name (pool_of config nodes f)"
    and "map_get 0 (map_get [] (ps_aggregates ps) f) r = (\<Sum>n \<leftarrow> pool_of config nodes f. node_share r n)"
  using assms
proof (induction nodes arbitrary: ps rule: rev_induct)
  case Nil
  { case 1 then show ?case by (auto simp: collect_pools_def pool_of_def map_get_def) next
    case 2 then show ?case by (auto simp: collect_pools_def pool_of_def map_get_def) }
next
  case (snoc n nodes)
  have step: "map_get [] (ps_nodePools ps) f = map ni_name (pool_of config (nodes @ [n]) f) \<and>
      map_get 0 (map_get [] (ps_aggregates ps) f) r = (\<Sum>n \<leftarrow> pool_of config (nodes @ [n]) f. node_share r n)"
    if prem: "collect_pools config (nodes @ [n]) = Some ps" for ps
  proof (cases "in_pools config n")
    case False
    with prem have "collect_pools config nodes = Some ps" by (simp add: collect_pools_snoc)
    then show ?thesis using snoc.IH False by (simp add: pool_of_def)
  next
    case True
    with prem obtain ps0 where ps0: "collect_pools config nodes = Some ps0" "add_to_pool n ps0 = Some ps"
      by (auto simp: collect_pools_snoc bind_eq_Some_conv)
    obtain m' where m': "ps_aggregates ps = AList.update (flavor_name n) m' (ps_aggregates ps0)"
      "\<And>r. map_get 0 m' r = map_get 0 (map_get [] (ps_aggregates ps0) (flavor_name n)) r + node_share r n"
      using add_to_pool_some(2) [OF ps0(2)] by blast
    show ?thesis
      using snoc.IH [OF ps0(1)] True
      by (auto simp: add_to_pool_some(1) [OF ps0(2)] map_get_append_at m' map_get_update pool_of_def)
  qed
  { case 1 with step show ?case by blast next
    case 2 with step show ?case by blast }
qed


section \<open>Flavor names\<close>

lemma char_digit_neq [simp]: "k < 10 \<Longrightarrow> char_of (48 + k :: nat) \<noteq> CHR ''-''"
proof
  assume "k < 10" "char_of (48 + k :: nat) = CHR ''-''"
  then have "of_char (char_of (48 + k) :: char) = (of_char (CHR ''-'') :: nat)" by simp
  then have "48 + k = (45 :: nat)" using \<open>k < 10\<close> by simp
  then show False by simp
qed

lemma nat_digits_props: "CHR ''-'' \<notin> set (nat_digits n)" "nat_digits n \<noteq> []" "list_all is_digit (nat_digits n)"
  "digits_value (nat_digits n) = int n"
proof (induction n rule: nat_digits.induct)
  case (1 n)
  have val: "(of_char (char_of (48 + k) :: char) :: nat) = 48 + k" if "k < 10" for k :: nat using that by simp
  have dig: "is_digit (char_of (48 + k))" if "k < 10" for k :: nat
    using that by (simp add: is_digit_def between_def)
  have snoc: "digits_value (xs @ [c]) = digits_value xs * 10 + (int (of_char c) - 48)" for xs c
    by (simp add: digits_value_def)
  { case 1 show ?case using "1.IH"(1) char_digit_neq [symmetric] by (subst nat_digits.simps) auto next
    case 2 show ?case by (subst nat_digits.simps) auto next
    case 3 show ?case using "1.IH"(3) dig by (subst nat_digits.simps) (auto simp: list_all_iff) next
    case 4 show ?case
    proof (cases "n < 10")
      case True
      then show ?thesis by (subst nat_digits.simps) (simp add: digits_value_def val)
    next
      case False
      then show ?thesis using "1.IH"(4) by (subst nat_digits.simps) (simp add: snoc val, presburger)
    qed }
qed

lemma Itoa_nonneg:
  assumes "0 \<le> n" shows "CHR ''-'' \<notin> set (Itoa n)" "Itoa n \<noteq> []" "list_all is_digit (Itoa n)" "digits_value (Itoa n) = n"
  using assms nat_digits_props by (simp_all add: Itoa_def)

lemma Atoi_Itoa: "0 \<le> n \<Longrightarrow> n \<le> max_int64 \<Longrightarrow> Atoi (Itoa n) = Inr n"
proof -
  assume n: "0 \<le> n" "n \<le> max_int64"
  obtain c cs where ds: "Itoa n = c # cs" using Itoa_nonneg(2) [OF n(1)] by (cases "Itoa n") auto
  have "is_digit c" using Itoa_nonneg(3) [OF n(1)] by (simp add: ds)
  then have "\<not> HasPrefix (Itoa n) ''-''" "\<not> HasPrefix (Itoa n) ''+''"
    by (auto simp: ds HasPrefix_def is_digit_def between_def)
  then show ?thesis using n Itoa_nonneg [OF n(1)] by (simp add: Atoi_def Let_def min_int64_def)
qed

lemma Itoa_inject: "0 \<le> m \<Longrightarrow> 0 \<le> n \<Longrightarrow> Itoa m = Itoa n \<longleftrightarrow> m = n"
  by (metis Itoa_nonneg(4))

lemma last_sep_inject:
  "c \<notin> set b \<Longrightarrow> c \<notin> set b' \<Longrightarrow> a @ c # b = a' @ c # b' \<longleftrightarrow> a = a' \<and> b = b'"
proof (induction b arbitrary: b' rule: rev_induct)
  case Nil
  then show ?case by (cases b' rule: rev_cases) auto
next
  case (snoc x b)
  then show ?case by (cases b' rule: rev_cases) auto
qed

lemma first_sep_inject:
  "c \<notin> set a \<Longrightarrow> c \<notin> set a' \<Longrightarrow> a @ c # b = a' @ c # b' \<longleftrightarrow> a = a' \<and> b = b'"
proof (induction a arbitrary: a')
  case Nil
  then show ?case by (cases a') auto
next
  case (Cons x a)
  then show ?case by (cases a') auto
qed

text \<open>Nodes with a sensible inventory, and what its flavor name says about a node.\<close>

definition sane_node :: "NodeResourceInfo \<Rightarrow> bool" where
  "sane_node n \<longleftrightarrow> 0 \<le> ni_CPU n \<and> 0 \<le> ni_memory n \<and> 0 \<le> fst (node_gpu (ni_labels n))"

definition node_class :: "NodeResourceInfo \<Rightarrow> (int \<times> string \<times> string) \<times> int \<times> int" where
  "node_class n = (node_gpu (ni_labels n), nominalCPU n, nominalMemory n div (1024 * 1024 * 1024))"

lemma node_gpu_vendor: "node_gpu labels = (c, v, t) \<Longrightarrow> v \<in> {''cpu'', ''amd'', ''nvidia''}"
  by (auto simp: node_gpu_def Let_def split: option.splits)

lemma flavor_name_class:
  assumes "sane_node m" "sane_node n"
  shows "flavor_name m = flavor_name n \<longleftrightarrow> node_class m = node_class n"
proof -
  obtain c v t where m: "node_gpu (ni_labels m) = (c, v, t)" by (metis prod_cases3)
  obtain c' v' t' where n: "node_gpu (ni_labels n) = (c', v', t')" by (metis prod_cases3)
  have nonneg: "0 \<le> c" "0 \<le> c'" "0 \<le> nominalCPU m" "0 \<le> nominalCPU n"
      "0 \<le> nominalMemory m div (1024 * 1024 * 1024)" "0 \<le> nominalMemory n div (1024 * 1024 * 1024)"
    using assms m n by (simp_all add: sane_node_def nominalCPU_def nominalMemory_def pos_imp_zdiv_nonneg_iff)
  have shape: "flavor_name k = (((v @ CHR ''-'' # t) @ CHR ''-'' # (Itoa c @ ''gpu'')) @ CHR ''-'' # (Itoa (nominalCPU k) @ ''core''))
      @ CHR ''-'' # (Itoa (nominalMemory k div (1024 * 1024 * 1024)) @ ''gi'')" if "node_gpu (ni_labels k) = (c, v, t)" for k c v t
    by (simp add: flavor_name_def that)
  note sep = last_sep_inject [of "CHR ''-''"]
  have free: "CHR ''-'' \<notin> set (Itoa i @ w)" if "0 \<le> i" "CHR ''-'' \<notin> set w" for i w
    using that Itoa_nonneg(1) by simp
  have "CHR ''-'' \<notin> set v" "CHR ''-'' \<notin> set v'" using node_gpu_vendor [OF m] node_gpu_vendor [OF n] by auto
  then show ?thesis
    using nonneg
    by (simp only: shape [OF m] shape [OF n] node_class_def m n prod.inject)
       (simp add: sep [OF free free] first_sep_inject Itoa_inject del: append_assoc append_Cons append_Nil, blast)
qed


section \<open>No panic, and the quotas of a pool\<close>

definition pool_keys :: "NodeResourceInfo \<Rightarrow> string set" where
  "pool_keys n = (case node_gpu (ni_labels n) of (gpuCount, gpuVendor, gpuType) \<Rightarrow>
     {''cpu'', ''memory''} \<union> (if gpuCount > 0 then {gpu_resource gpuVendor} else {}))"

definition has_keys :: "string set \<Rightarrow> int gomap \<Rightarrow> bool" where
  "has_keys K m \<longleftrightarrow> fst ` set m = K \<and> distinct (map fst m)"

lemma add_quantity_defined:
  assumes "has_keys K m" "r \<in> K" obtains m' where "add_quantity r n m = Some m'" "has_keys K m'"
proof -
  obtain q where "map_of m r = Some q" using assms by (metis has_keys_def map_of_eq_None_iff not_None_eq)
  then have "add_quantity r n m = Some (AList.update r (q + n) m)" by (simp add: add_quantity_def)
  moreover have "has_keys K (AList.update r (q + n) m)" using assms by (auto simp: has_keys_def dom_update distinct_update)
  ultimately show thesis by (rule that)
qed

lemma add_to_pool_defined:
  assumes "\<And>m. map_of (ps_aggregates ps) (flavor_name n) = Some m \<Longrightarrow> has_keys (pool_keys n) m"
  obtains ps' m where "add_to_pool n ps = Some ps'" "has_keys (pool_keys n) m"
    "ps_aggregates ps' = AList.update (flavor_name n) m (ps_aggregates ps)"
proof -
  obtain c v t where gpu: "node_gpu (ni_labels n) = (c, v, t)" by (metis prod_cases3)
  define agg where "agg = (case map_of (ps_aggregates ps) (flavor_name n) of Some m \<Rightarrow> m
    | None \<Rightarrow> [(''cpu'', 0), (''memory'', 0)] @ (if c > 0 then [(gpu_resource v, 0)] else []))"
  have keys: "has_keys (pool_keys n) agg"
  proof (cases "map_of (ps_aggregates ps) (flavor_name n)")
    case None
    then show ?thesis by (auto simp: agg_def pool_keys_def has_keys_def gpu)
  next
    case (Some m)
    then show ?thesis using assms by (simp add: agg_def)
  qed
  have mem: "''cpu'' \<in> pool_keys n" "''memory'' \<in> pool_keys n" "c > 0 \<Longrightarrow> gpu_resource v \<in> pool_keys n"
    by (auto simp: pool_keys_def gpu)
  obtain m1 where m1: "add_quantity ''cpu'' (nominalCPU n) agg = Some m1" "has_keys (pool_keys n) m1"
    using keys mem(1) by (rule add_quantity_defined)
  obtain m2 where m2: "add_quantity ''memory'' (nominalMemory n) m1 = Some m2" "has_keys (pool_keys n) m2"
    using m1(2) mem(2) by (rule add_quantity_defined)
  obtain m3 where m3: "(if c > 0 then add_quantity (gpu_resource v) c m2 else Some m2) = Some m3" "has_keys (pool_keys n) m3"
  proof (cases "c > 0")
    case True
    obtain m3 where "add_quantity (gpu_resource v) c m2 = Some m3" "has_keys (pool_keys n) m3"
      using m2(2) mem(3) [OF True] by (rule add_quantity_defined)
    then show thesis using True that by simp
  next
    case False
    then show thesis using m2(2) that by simp
  qed
  show thesis
  proof (rule that)
    show "add_to_pool n ps = Some \<lparr>ps_nodePools = append_at (flavor_name n) (ni_name n) (ps_nodePools ps),
        ps_aggregates = AList.update (flavor_name n) m3 (ps_aggregates ps)\<rparr>"
      unfolding add_to_pool_def gpu Let_def prod.case agg_def [symmetric] m1(1) Option.bind.simps m2(1) m3(1) ..
  qed (use m3(2) in simp_all)
qed

lemma pool_of_class:
  "list_all sane_node nodes \<Longrightarrow> m \<in> set (pool_of config nodes f) \<Longrightarrow> n \<in> set (pool_of config nodes f) \<Longrightarrow> node_class m = node_class n"
  using flavor_name_class [of m n] by (simp add: pool_of_def list_all_iff)

lemma pool_keys_class: "node_class m = node_class n \<Longrightarrow> pool_keys m = pool_keys n"
  by (simp add: node_class_def pool_keys_def)

definition aggregate_ok :: "KaiwoConfigSpec \<Rightarrow> NodeResourceInfo list \<Rightarrow> PoolState \<Rightarrow> string \<Rightarrow> bool" where
  "aggregate_ok config nodes ps f \<longleftrightarrow> (case map_of (ps_aggregates ps) f of
      None \<Rightarrow> pool_of config nodes f = []
    | Some m \<Rightarrow> pool_of config nodes f \<noteq> [] \<and> (\<forall>n \<in> set (pool_of config nodes f). has_keys (pool_keys n) m))"

lemma collect_pools_total:
  assumes "list_all sane_node nodes"
  shows "\<exists>ps. collect_pools config nodes = Some ps \<and> (\<forall>f. aggregate_ok config nodes ps f)"
  using assms
proof (induction nodes rule: rev_induct)
  case Nil
  then show ?case by (simp add: collect_pools_def aggregate_ok_def pool_of_def)
next
  case (snoc n nodes)
  then obtain ps where ps: "collect_pools config nodes = Some ps" "\<And>f. aggregate_ok config nodes ps f" by auto
  show ?case
  proof (cases "in_pools config n")
    case False
    then have "pool_of config (nodes @ [n]) f = pool_of config nodes f" for f by (simp add: pool_of_def)
    then have "aggregate_ok config (nodes @ [n]) ps f" for f
      using ps(2) [of f] by (simp only: aggregate_ok_def)
    then show ?thesis using False ps(1) by (auto simp: collect_pools_snoc)
  next
    case True
    let ?f = "flavor_name n"
    have n: "n \<in> set (pool_of config (nodes @ [n]) ?f)" using True by (simp add: pool_of_def)
    note same = pool_of_class [OF snoc.prems _ n, THEN pool_keys_class]
    have "has_keys (pool_keys n) m" if m: "map_of (ps_aggregates ps) ?f = Some m" for m
    proof -
      obtain k where "k \<in> set (pool_of config nodes ?f)" "has_keys (pool_keys k) m"
        using ps(2) [of ?f] m by (cases "pool_of config nodes ?f") (auto simp: aggregate_ok_def)
      then show ?thesis using same [of k] by (simp add: pool_of_def)
    qed
    from add_to_pool_defined [of ps n, OF this] obtain ps' m where ps': "add_to_pool n ps = Some ps'"
      "has_keys (pool_keys n) m" "ps_aggregates ps' = AList.update ?f m (ps_aggregates ps)" by blast
    have "aggregate_ok config (nodes @ [n]) ps' f" for f
    proof (cases "f = ?f")
      case f: True
      have "\<forall>k \<in> set (pool_of config (nodes @ [n]) ?f). has_keys (pool_keys k) m" using same ps'(2) by metis
      moreover have "pool_of config (nodes @ [n]) ?f \<noteq> []" using n by force
      ultimately show ?thesis by (simp add: f aggregate_ok_def ps'(3) update_conv')
    next
      case f: False
      then have "pool_of config (nodes @ [n]) f = pool_of config nodes f" by (simp add: pool_of_def)
      moreover have "map_of (ps_aggregates ps') f = map_of (ps_aggregates ps) f" using f by (simp add: ps'(3) update_conv')
      ultimately show ?thesis using ps(2) [of f] by (simp only: aggregate_ok_def)
    qed
    then show ?thesis using True ps(1) ps'(1) by (auto simp: collect_pools_snoc)
  qed
qed

definition quota_of :: "FlavorQuotas \<Rightarrow> string \<Rightarrow> int list" where
  "quota_of fq r = map rq_nominalQuota (filter (\<lambda>q. rq_name q = r) (fq_resources fq))"

definition permutes_keys :: "QCtx \<Rightarrow> bool" where
  "permutes_keys cx \<longleftrightarrow> (\<forall>i ks. set (qx_mapOrder cx i ks) = set ks \<and> distinct (qx_mapOrder cx i ks) = distinct ks)"

lemma quota_of_map:
  "distinct rs \<Longrightarrow> quota_of \<lparr>fq_name = f, fq_resources = map (\<lambda>r. \<lparr>rq_name = r, rq_nominalQuota = g r\<rparr>) rs\<rparr> r =
     (if r \<in> set rs then [g r] else [])"
  by (induction rs) (auto simp: quota_of_def)

text \<open>
  C26: The node pools. For nodes with non-negative capacities and GPU counts, grouping never dereferences a missing
  quantity; the pool of a flavor name holds exactly the schedulable (and, when so configured, not control-plane) nodes
  with that name; nodes in one pool agree in GPU vendor, model and count, discounted cores and Gi; and the flavor's
  quotas have exactly one entry for CPU, one for memory and one for the GPU resource of the vendor when the nodes
  have GPUs, each with the sum over the nodes of the pool.
\<close>

theorem node_pool_quotas:
  assumes "list_all sane_node nodes" "permutes_keys cx"
  shows "\<exists>ps. collect_pools config nodes = Some ps \<and>
     (\<forall>f. map_get [] (ps_nodePools ps) f = map ni_name (pool_of config nodes f)) \<and>
     (\<forall>f. \<forall>n \<in> set (pool_of config nodes f). in_pools config n \<and>
        (\<forall>k \<in> set (pool_of config nodes f). node_class k = node_class n) \<and>
        (\<forall>r. quota_of (pool_quotas cx ps f) r =
           (if r \<in> pool_keys n then [\<Sum>k \<leftarrow> pool_of config nodes f. node_share r k] else [])))"
proof -
  obtain ps where ps: "collect_pools config nodes = Some ps" "\<And>f. aggregate_ok config nodes ps f"
    using collect_pools_total [OF assms(1)] by blast
  have "quota_of (pool_quotas cx ps f) r = (if r \<in> pool_keys n then [\<Sum>k \<leftarrow> pool_of config nodes f. node_share r k] else [])"
    if n: "n \<in> set (pool_of config nodes f)" for f n r
  proof -
    obtain m where m: "map_of (ps_aggregates ps) f = Some m" "has_keys (pool_keys n) m"
      using ps(2) [of f] n by (cases "map_of (ps_aggregates ps) f") (auto simp: aggregate_ok_def)
    define rs where "rs = [''cpu'', ''memory''] @ filter (\<lambda>r. r \<noteq> ''cpu'' \<and> r \<noteq> ''memory'') (qx_mapOrder cx 1 (map fst m))"
    have "{''cpu'', ''memory''} \<subseteq> pool_keys n" by (auto simp: pool_keys_def)
    have "set rs = pool_keys n" "distinct rs"
      using m(2) assms(2) \<open>{''cpu'', ''memory''} \<subseteq> pool_keys n\<close> by (auto simp: rs_def has_keys_def permutes_keys_def)
    moreover have "map_get [] (ps_aggregates ps) f = m" using m(1) by (simp add: map_get_def)
    ultimately show ?thesis
      using quota_of_map [of rs f "map_get 0 m" r] collect_pools_sums(2) [OF ps(1), of f r]
      by (simp add: pool_quotas_def Let_def rs_def)
  qed
  moreover have "in_pools config n" if "n \<in> set (pool_of config nodes f)" for f n
    using that by (simp add: pool_of_def)
  ultimately show ?thesis using ps(1) collect_pools_sums(1) [OF ps(1)] pool_of_class [OF assms(1)] by blast
qed


definition example_q_ctx :: QCtx where
  "example_q_ctx = \<lparr>qx_mapOrder = (\<lambda>i ks. if even i then ks else rev ks), qx_retrySteps = 5, qx_backoffSteps = 4,
     qx_setControllerReference = (\<lambda>_ _. None), qx_queueSpecEqual = (=),
     qx_removeFinalizer = (\<lambda>s f. if s \<in> set (kf_finalizers f) then Some (f\<lparr>kf_finalizers := removeAll s (kf_finalizers f)\<rparr>) else None),
     qx_matchTaint = (\<lambda>a b. ta_key a = ta_key b \<and> ta_effect a = ta_effect b), qx_errorString = (\<lambda>_. ''error'')\<rparr>"

definition example_pool_nodes :: "NodeResourceInfo list" where
  "example_pool_nodes = [
     \<lparr>ni_name = ''n1'', ni_CPU = 10, ni_memory = 100,
      ni_labels = [(''amd.com/gpu.product-name'', ''AMD_Instinct_MI300X_OAM''), (''beta.amd.com/gpu.family.AI'', ''8'')], ni_unschedulable = False\<rparr>,
     \<lparr>ni_name = ''n2'', ni_CPU = 10, ni_memory = 100, ni_labels = [], ni_unschedulable = False\<rparr>,
     \<lparr>ni_name = ''n3'', ni_CPU = 10, ni_memory = 100,
      ni_labels = [(''amd.com/gpu.product-name'', ''AMD_Instinct_MI300X_OAM''), (''beta.amd.com/gpu.family.AI'', ''8'')], ni_unschedulable = False\<rparr>]"

lemma example_q_ctx_permutes [simp]: "permutes_keys example_q_ctx"
  by (simp add: permutes_keys_def example_q_ctx_def)

lemma example_pool_nodes_sane: "list_all sane_node example_pool_nodes"
  by code_simp

lemma example_pool: "map flavor_name example_pool_nodes = [''amd-mi300x-8gpu-9core-90gi'', ''cpu-only-0gpu-9core-90gi'', ''amd-mi300x-8gpu-9core-90gi'']"
  by code_simp


theorem node_pool_quotas_witness:
  "list_all sane_node example_pool_nodes \<and> permutes_keys example_q_ctx \<and>
   (\<exists>config ps. collect_pools config example_pool_nodes = Some ps \<and>
      map_get [] (ps_nodePools ps) ''amd-mi300x-8gpu-9core-90gi'' = [''n1'', ''n3''] \<and>
      quota_of (pool_quotas example_q_ctx ps ''amd-mi300x-8gpu-9core-90gi'') ''amd.com/gpu'' = [16])"
proof -
  let ?f = "''amd-mi300x-8gpu-9core-90gi''" and ?c = "example_config"
  obtain ps where ps: "collect_pools ?c example_pool_nodes = Some ps"
    "\<And>f. map_get [] (ps_nodePools ps) f = map ni_name (pool_of ?c example_pool_nodes f)"
    "\<And>f n r. n \<in> set (pool_of ?c example_pool_nodes f) \<Longrightarrow> quota_of (pool_quotas example_q_ctx ps f) r =
       (if r \<in> pool_keys n then [\<Sum>k \<leftarrow> pool_of ?c example_pool_nodes f. node_share r k] else [])"
    using node_pool_quotas [OF example_pool_nodes_sane example_q_ctx_permutes, of ?c] by blast
  have pool: "pool_of ?c example_pool_nodes ?f = [example_pool_nodes ! 0, example_pool_nodes ! 2]" by code_simp
  have keys: "''amd.com/gpu'' \<in> pool_keys (example_pool_nodes ! 0)"
    "(\<Sum>k \<leftarrow> [example_pool_nodes ! 0, example_pool_nodes ! 2]. node_share ''amd.com/gpu'' k) = 16" by code_simp+
  have "quota_of (pool_quotas example_q_ctx ps ?f) ''amd.com/gpu'' = [16]"
    using ps(3) [of "example_pool_nodes ! 0" ?f "''amd.com/gpu''"] keys unfolding pool by simp
  moreover have "map ni_name [example_pool_nodes ! 0, example_pool_nodes ! 2] = [''n1'', ''n3'']" by code_simp
  ultimately show ?thesis using example_pool_nodes_sane ps(1) ps(2) [of ?f] unfolding pool by auto
qed

section \<open>The cluster queue over the pools\<close>

lemma Split_parts: "p \<in> set (Split s sep) \<Longrightarrow> sep \<notin> set p"
proof (induction s arbitrary: p)
  case (Cons c s)
  then show ?case by (auto split: if_splits list.splits)
qed simp

lemma digits_value_nonneg: "list_all is_digit ds \<Longrightarrow> 0 \<le> digits_value ds"
proof (induction ds rule: rev_induct)
  case (snoc c ds)
  then show ?case by (simp add: digits_value_def is_digit_def between_def)
qed (simp add: digits_value_def)

lemma atoi_value_nonneg: "CHR ''-'' \<notin> set s \<Longrightarrow> 0 \<le> atoi_value s"
  using digits_value_nonneg [of s] digits_value_nonneg [of "drop 1 s"]
  by (cases s) (auto simp: atoi_value_def Atoi_def Let_def HasPrefix_def max_int64_def min_int64_def)

lemma set_TrimSuffix: "set (TrimSuffix s p) \<subseteq> set s"
  by (auto simp: TrimSuffix_def dest: in_set_takeD)

lemma count_nonneg: "0 \<le> count_with_suffix sfx f"
proof (cases "List.find (\<lambda>p. HasSuffix p sfx) (Split f (CHR ''-''))")
  case (Some p)
  then have "p \<in> set (Split f (CHR ''-''))" by (auto simp: find_Some_iff)
  then have "CHR ''-'' \<notin> set (TrimSuffix p sfx)" using Split_parts set_TrimSuffix by blast
  then show ?thesis using Some atoi_value_nonneg by (simp add: count_with_suffix_def)
qed (simp add: count_with_suffix_def)

text \<open>The comparison of the source orders by GPU count, then cores, then memory.\<close>

lemma flavor_less_key: "flavor_less i j \<longleftrightarrow> flavor_key i < flavor_key j"
proof -
  have "0 \<le> getGPUCount i" "0 \<le> getGPUCount j" by (simp_all add: getGPUCount_def count_nonneg)
  then show ?thesis by (auto simp: flavor_less_def flavor_key_def Let_def less_prod_def)
qed

lemma update_keys: "fst ` set (AList.update k v m) = insert k (fst ` set m)"
  "distinct (map fst m) \<Longrightarrow> distinct (map fst (AList.update k v m))"
  by (simp_all add: dom_update distinct_update)

lemma covered_inner:
  "fst ` set (foldl (\<lambda>m r. AList.update (f r) () m) m rs) = fst ` set m \<union> f ` set rs"
  "distinct (map fst m) \<Longrightarrow> distinct (map fst (foldl (\<lambda>m r. AList.update (f r) () m) m rs))"
  by (induction rs arbitrary: m) (auto simp: update_keys)

definition covered :: "FlavorQuotas list \<Rightarrow> unit gomap" where
  "covered quotas = foldl (\<lambda>m q. foldl (\<lambda>m r. AList.update (TrimSpace (rq_name r)) () m) m (fq_resources q)) [] quotas"

lemma covered_keys:
  "fst ` set (covered qs) = (\<Union>q \<in> set qs. (\<lambda>r. TrimSpace (rq_name r)) ` set (fq_resources q))" "distinct (map fst (covered qs))"
proof -
  have "fst ` set (foldl (\<lambda>m q. foldl (\<lambda>m r. AList.update (TrimSpace (rq_name r)) () m) m (fq_resources q)) m qs) =
      fst ` set m \<union> (\<Union>q \<in> set qs. (\<lambda>r. TrimSpace (rq_name r)) ` set (fq_resources q))" for m
    by (induction qs arbitrary: m) (auto simp: covered_inner)
  then show "fst ` set (covered qs) = (\<Union>q \<in> set qs. (\<lambda>r. TrimSpace (rq_name r)) ` set (fq_resources q))"
    by (simp add: covered_def)
  have "distinct (map fst m) \<Longrightarrow> distinct (map fst (foldl (\<lambda>m q. foldl (\<lambda>m r. AList.update (TrimSpace (rq_name r)) () m) m (fq_resources q)) m qs))" for m
    by (induction qs arbitrary: m) (auto simp: covered_inner)
  then show "distinct (map fst (covered qs))" by (simp add: covered_def)
qed

lemma map_filter_values:
  assumes "distinct (map fst m)" "set ks = fst ` set m"
  shows "set (List.map_filter (map_of m) ks) = snd ` set m"
proof -
  have "set (List.map_filter (map_of m) ks) = {v. \<exists>k \<in> set ks. map_of m k = Some v}"
    by (force simp: List.map_filter_def)
  also have "\<dots> = snd ` set m"
    using assms by (auto simp: map_of_eq_Some_iff image_iff) (metis fst_conv snd_conv)+
  finally show ?thesis .
qed

text \<open>A flavor map as the grouping makes it: distinct names, and each flavor names every resource once, without blanks.\<close>

definition wf_pool_resources :: "FlavorQuotas gomap \<Rightarrow> bool" where
  "wf_pool_resources m \<longleftrightarrow> distinct (map fst m) \<and>
     list_all (\<lambda>(f, q). fq_name q = f \<and> distinct (map rq_name (fq_resources q)) \<and>
       list_all (\<lambda>r. TrimSpace (rq_name r) = rq_name r) (fq_resources q)) m"

lemma add_missing_names:
  assumes "set (map rq_name (fq_resources q)) \<subseteq> set cs" "distinct cs" "distinct (map rq_name (fq_resources q))"
  shows "set (map rq_name (fq_resources (add_missing cs q))) = set cs" "distinct (map rq_name (fq_resources (add_missing cs q)))"
    "r \<in> set cs \<Longrightarrow> quota_of (add_missing cs q) r = (if quota_of q r = [] then [0] else quota_of q r)"
    "fq_name (add_missing cs q) = fq_name q"
proof -
  have ex: "list_ex (\<lambda>q. rq_name q = r) (fq_resources q) \<longleftrightarrow> r \<in> set (map rq_name (fq_resources q))" for r
    by (auto simp: list_ex_iff)
  show "set (map rq_name (fq_resources (add_missing cs q))) = set cs"
    using assms(1) by (auto simp: add_missing_def ex image_iff)
  show "distinct (map rq_name (fq_resources (add_missing cs q)))"
    using assms(2,3) by (auto simp: add_missing_def ex comp_def)
  show "fq_name (add_missing cs q) = fq_name q" by (simp add: add_missing_def)
  have zero: "map rq_nominalQuota (filter (\<lambda>x. rq_name x = r) (map (\<lambda>r. \<lparr>rq_name = r, rq_nominalQuota = 0\<rparr>) ks)) =
      (if r \<in> set ks then [0] else [])" if "distinct ks" for ks
    using that by (induction ks) auto
  show "quota_of (add_missing cs q) r = (if quota_of q r = [] then [0] else quota_of q r)" if "r \<in> set cs"
    using that assms(2) by (auto simp: add_missing_def ex quota_of_def zero filter_empty_conv)
qed


text \<open>
  The default cluster queue. Its one resource group covers exactly the resources that some flavor has a quota for,
  every flavor of the group has exactly one quota for every covered resource (its own, or zero when it had none, as
  Kueue requires), the flavors are those of the pools, and they are in the order of the source's comparison: CPU-only
  first, then by GPU count, cores and memory.
\<close>

lemma CreateClusterQueue_group:
  assumes "permutes_keys cx" "wf_pool_resources m"
  shows "\<exists>g. cqs_resourceGroups (cq_spec (CreateClusterQueue cx m name cohort)) = [g] \<and>
     distinct (rg_coveredResources g) \<and>
     set (rg_coveredResources g) = (\<Union>q \<in> snd ` set m. rq_name ` set (fq_resources q)) \<and>
     sorted_wrt (\<lambda>a b. \<not> flavor_less (fq_name b) (fq_name a)) (rg_flavors g) \<and>
     set (map fq_name (rg_flavors g)) = fst ` set m \<and>
     (\<forall>fl \<in> set (rg_flavors g). distinct (map rq_name (fq_resources fl)) \<and>
        set (map rq_name (fq_resources fl)) = set (rg_coveredResources g) \<and>
        (\<exists>q. (fq_name fl, q) \<in> set m \<and> (\<forall>r \<in> set (rg_coveredResources g).
           quota_of fl r = (if quota_of q r = [] then [0] else quota_of q r))))"
proof -
  define quotas where "quotas = List.map_filter (map_of m) (qx_mapOrder cx 4 (map fst m))"
  define cs where "cs = qx_mapOrder cx 5 (map fst (covered quotas))"
  define fls where "fls = map (add_missing cs) (sort_key (\<lambda>q. flavor_key (fq_name q)) quotas)"
  have wf: "distinct (map fst m)" "\<And>f q. (f, q) \<in> set m \<Longrightarrow> fq_name q = f \<and> distinct (map rq_name (fq_resources q)) \<and>
      (\<forall>r \<in> set (fq_resources q). TrimSpace (rq_name r) = rq_name r)"
    using assms(2) by (auto simp: wf_pool_resources_def list_all_iff)
  have quotas: "set quotas = snd ` set m"
    unfolding quotas_def using wf(1) assms(1) by (intro map_filter_values) (simp_all add: permutes_keys_def)
  have cs: "distinct cs" "set cs = (\<Union>q \<in> snd ` set m. rq_name ` set (fq_resources q))"
  proof -
    have "set cs = (\<Union>q \<in> snd ` set m. (\<lambda>r. TrimSpace (rq_name r)) ` set (fq_resources q))"
      using assms(1) covered_keys(1) [of quotas] by (simp add: cs_def permutes_keys_def quotas)
    also have "\<dots> = (\<Union>q \<in> snd ` set m. rq_name ` set (fq_resources q))"
      using wf(2) by (intro SUP_cong refl image_cong) auto
    finally show "set cs = (\<Union>q \<in> snd ` set m. rq_name ` set (fq_resources q))" .
    show "distinct cs" using assms(1) covered_keys(2) [of quotas] by (simp add: cs_def permutes_keys_def)
  qed
  have flavor: "fq_name (add_missing cs q) = f \<and> distinct (map rq_name (fq_resources (add_missing cs q))) \<and>
      set (map rq_name (fq_resources (add_missing cs q))) = set cs \<and>
      (\<forall>r \<in> set cs. quota_of (add_missing cs q) r = (if quota_of q r = [] then [0] else quota_of q r))"
    if "(f, q) \<in> set m" for f q
    using add_missing_names [of q cs] cs wf(2) [OF that] that by force
  have fls: "set fls = add_missing cs ` snd ` set m" by (simp add: fls_def quotas)
  have "sorted_wrt (\<lambda>a b. flavor_key (fq_name a) \<le> flavor_key (fq_name b)) fls"
    using sorted_sort_key [of "\<lambda>q. flavor_key (fq_name q)" quotas]
    by (simp add: fls_def sorted_wrt_map add_missing_def sorted_map)
  then have sorted: "sorted_wrt (\<lambda>a b. \<not> flavor_less (fq_name b) (fq_name a)) fls"
    by (simp add: flavor_less_key not_less)
  have names: "set (map fq_name fls) = fst ` set m"
  proof -
    have "set (map fq_name fls) = (\<lambda>(f, q). fq_name (add_missing cs q)) ` set m" by (simp add: fls image_image case_prod_unfold)
    also have "\<dots> = fst ` set m" using flavor by (intro image_cong refl) auto
    finally show ?thesis .
  qed
  have each: "\<forall>fl \<in> set fls. distinct (map rq_name (fq_resources fl)) \<and> set (map rq_name (fq_resources fl)) = set cs \<and>
        (\<exists>q. (fq_name fl, q) \<in> set m \<and> (\<forall>r \<in> set cs. quota_of fl r = (if quota_of q r = [] then [0] else quota_of q r)))"
  proof
    fix fl assume "fl \<in> set fls"
    then obtain f q where "(f, q) \<in> set m" "fl = add_missing cs q" by (auto simp: fls)
    with flavor [of f q] show "distinct (map rq_name (fq_resources fl)) \<and> set (map rq_name (fq_resources fl)) = set cs \<and>
        (\<exists>q. (fq_name fl, q) \<in> set m \<and> (\<forall>r \<in> set cs. quota_of fl r = (if quota_of q r = [] then [0] else quota_of q r)))" by blast
  qed
  have "cqs_resourceGroups (cq_spec (CreateClusterQueue cx m name cohort)) = [\<lparr>rg_coveredResources = cs, rg_flavors = fls\<rparr>]"
    by (simp add: CreateClusterQueue_def Let_def cs_def fls_def quotas_def covered_def)
  then show ?thesis using cs sorted names each by simp
qed

text \<open>
  Flavor names end in \<^verbatim>\<open>gi\<close> and are in lower case, while \<open>getMemoryCount\<close> looks for a part that ends in \<^verbatim>\<open>Gi\<close>:
  the memory never takes part in the order of the flavors.
\<close>

lemma set_replace_aux: "set (replace_aux k s p []) \<subseteq> set s"
  by (induction k s p "[] :: string" rule: replace_aux.induct) auto

lemma ToLower_no_G: "CHR ''G'' \<notin> set (ToLower s)"
proof -
  have "to_lower_char c \<noteq> CHR ''G''" for c
  proof
    assume G: "to_lower_char c = CHR ''G''"
    have "of_char (to_lower_char c) \<noteq> (71 :: nat)"
      by (auto simp: to_lower_char_def is_upper_def between_def of_char_of take_bit_eq_mod)
    then show False using G by simp
  qed
  then show ?thesis unfolding ToLower_def by fastforce
qed

lemma getMemoryCount_flavor_name:
  assumes "sane_node n" shows "getMemoryCount (flavor_name n) = 0"
proof -
  have digits: "CHR ''G'' \<notin> set (Itoa i)" if "0 \<le> i" for i
    using Itoa_nonneg(3) [OF that] by (auto simp: list_all_iff is_digit_def between_def)
  have drop: "set (ReplaceAll s w []) \<subseteq> set s" "set (TrimSpace s) \<subseteq> set s" for s w
    using set_replace_aux by (auto simp: ReplaceAll_def TrimSpace_def dest!: set_dropWhileD)
  have folded: "set (foldl (\<lambda>g w. ReplaceAll g w []) s ws) \<subseteq> set s" for s ws
    by (induction ws arbitrary: s) (use drop(1) in fastforce)+
  have "CHR ''G'' \<notin> set (CleanAMDGPUName g)" "CHR ''G'' \<notin> set (ReplaceAll (ToLower g) w [])" for g w
    unfolding CleanAMDGPUName_def using ToLower_no_G [of g] drop folded by blast+
  then have gpu: "CHR ''G'' \<notin> set v \<and> CHR ''G'' \<notin> set t" if "node_gpu (ni_labels n) = (c, v, t)" for c v t
    using that by (auto simp: node_gpu_def Let_def split: option.splits)
  obtain c v t where cvt: "node_gpu (ni_labels n) = (c, v, t)" by (metis prod_cases3)
  have "0 \<le> c" "0 \<le> nominalCPU n" "0 \<le> nominalMemory n div (1024 * 1024 * 1024)"
    using assms cvt by (simp_all add: sane_node_def nominalCPU_def nominalMemory_def pos_imp_zdiv_nonneg_iff)
  then have G: "CHR ''G'' \<notin> set (flavor_name n)"
    unfolding flavor_name_def cvt Let_def prod.case using gpu [OF cvt] digits by simp
  have parts: "p \<in> set (Split s sep) \<Longrightarrow> set p \<subseteq> set s" for p s sep
    by (induction s arbitrary: p) (auto split: if_splits list.splits, blast)
  have "\<not> HasSuffix p ''Gi''" if "p \<in> set (Split (flavor_name n) (CHR ''-''))" for p
  proof
    assume "HasSuffix p ''Gi''"
    then have "take 2 (rev p) = ''iG''" by (simp add: HasSuffix_def HasPrefix_def numeral_2_eq_2)
    then have "CHR ''G'' \<in> set (take 2 (rev p))" by simp
    then have "CHR ''G'' \<in> set p" by (auto dest: in_set_takeD)
    with parts [OF that] G show False by blast
  qed
  then have "List.find (\<lambda>p. HasSuffix p ''Gi'') (Split (flavor_name n) (CHR ''-'')) = None" by (simp add: find_None_iff)
  then show ?thesis by (simp add: getMemoryCount_def count_with_suffix_def)
qed

end
