(* ===== verification/QueueConfig.thy ===== *)
theory QueueConfig
  imports QueueFlavors
begin

text \<open>
  The queue configuration controller, \<^verbatim>\<open>internal/controller/kaiwoqueueconfig_controller.go\<close>: it keeps the
  KaiwoQueueConfig object up to date with the node pools and brings the Kueue objects (topologies, resource flavors,
  cluster queues, local queues, workload priority classes) in line with it. Every call on the API server is an event;
  a synchronisation goes on after an error and reports whether everything succeeded.
\<close>

section \<open>Events\<close>

text \<open>\<^verbatim>\<open>capitalize\<close> and \<^verbatim>\<open>ToPascalCase\<close> on ASCII text.\<close>

definition capitalize :: "string \<Rightarrow> string" where
  "capitalize s = (case s of [] \<Rightarrow> [] | c # rest \<Rightarrow> to_upper_char c # rest)"

fun fields_aux :: "string \<Rightarrow> string \<Rightarrow> string list" where
  "fields_aux word [] = (if word = [] then [] else [word])"
| "fields_aux word (c # s) =
     (if go_space c then (if word = [] then [] else [word]) @ fields_aux [] s else fields_aux (word @ [c]) s)"

definition ToPascalCase :: "string \<Rightarrow> string" where
  "ToPascalCase s = concat (map capitalize (fields_aux [] s))"

text \<open>
  An event on the queue configuration: namespace and name of the object (\<open>None\<close> for a nil object), and the error when
  there was one. The third component of \<open>QRecord\<close> is the format string that is passed on.
\<close>

definition emitEvent :: "QCtx \<Rightarrow> string \<Rightarrow> string \<Rightarrow> (string \<times> string) option \<Rightarrow> api_error option \<Rightarrow> unit q_prog" where
  "emitEvent cx target action obj err =
     (let reason = ''KaiwoQueueConfig'' @ ToPascalCase target @ ToPascalCase action;
          key = (case obj of Some (ns, name) \<Rightarrow> ns @ ''/'' @ name | None \<Rightarrow> [])
      in (case err of
            Some e \<Rightarrow> emit (QRecord EventTypeWarning (reason @ ''Failed'')
              (''Failed to '' @ action @ '' '' @ target @ '' '' @ key @ '': '' @ qx_errorString cx e))
          | None \<Rightarrow> emit (QRecord EventTypeNormal (reason @ ''d'') (action @ ''d '' @ target @ '' '' @ key))))"

definition object_key :: "kueue_object \<Rightarrow> (string \<times> string) option" where
  "object_key obj = Some (object_namespace obj, object_name obj)"

section \<open>Bringing one kind of object in line\<close>

text \<open>
  The loops over the expected objects: each step returns whether it succeeded and the names it adds to the map of
  expected objects (none when the step was left with \<^verbatim>\<open>continue\<close>).
\<close>

fun sync_each :: "('a \<Rightarrow> (bool \<times> string list) q_prog) \<Rightarrow> 'a list \<Rightarrow> (bool \<times> string list) q_prog" where
  "sync_each step [] = ret (True, [])"
| "sync_each step (x # xs) = do {
     r \<leftarrow> step x;
     rs \<leftarrow> sync_each step xs;
     ret (fst r \<and> fst rs, snd r @ snd rs)
   }"

text \<open>
  Creating an object under the queue configuration: without an owner reference it is neither created nor expected.
\<close>

definition create_owned :: "QApi \<Rightarrow> QCtx \<Rightarrow> KaiwoQueueConfig \<Rightarrow> string \<Rightarrow> kueue_object \<Rightarrow> (bool \<times> string list) q_prog" where
  "create_owned api cx queueConfig target obj = (case qx_setControllerReference cx (qc_name queueConfig) obj of
      Some e \<Rightarrow> do { emitEvent cx target ''owner reference'' (object_key obj) (Some e); ret (False, []) }
    | None \<Rightarrow> do {
        err \<leftarrow> Q_Create api obj;
        emitEvent cx target ''create'' (object_key obj) err;
        ret (err = None, [object_name obj])
      })"

definition update_existing :: "QApi \<Rightarrow> QCtx \<Rightarrow> string \<Rightarrow> kueue_object \<Rightarrow> (bool \<times> string list) q_prog" where
  "update_existing api cx target obj = do {
     err \<leftarrow> Q_Update api obj;
     emitEvent cx target ''update'' (object_key obj) err;
     ret (err = None, [object_name obj])
   }"

text \<open>The deletion of the existing objects that are not expected; \<open>tolerated\<close> errors do not count as failures.\<close>

fun delete_stale :: "QApi \<Rightarrow> QCtx \<Rightarrow> string \<Rightarrow> (api_error \<Rightarrow> bool) \<Rightarrow> string list \<Rightarrow> kueue_object list \<Rightarrow> bool q_prog" where
  "delete_stale api cx target tolerated expected [] = ret True"
| "delete_stale api cx target tolerated expected (obj # objs) =
     (if object_name obj \<in> set expected then delete_stale api cx target tolerated expected objs
      else do {
        err \<leftarrow> Q_Delete api obj;
        emitEvent cx target ''delete'' (object_key obj) err;
        rest \<leftarrow> delete_stale api cx target tolerated expected objs;
        ret ((case err of None \<Rightarrow> True | Some e \<Rightarrow> tolerated e) \<and> rest)
      })"

subsection \<open>Resource flavors\<close>

definition stripTopologyFromResourceFlavors :: "ResourceFlavorSpec list \<Rightarrow> ResourceFlavorSpec list" where
  "stripTopologyFromResourceFlavors = map (\<lambda>f. f\<lparr>rf_topologyName := []\<rparr>)"

definition recreate_flavor :: "QApi \<Rightarrow> QCtx \<Rightarrow> KaiwoQueueConfig \<Rightarrow> KueueFlavor \<Rightarrow> KueueFlavor \<Rightarrow> bool q_prog" where
  "recreate_flavor api cx queueConfig fresh desired = do {
     deleted \<leftarrow> Q_Delete api (KFlavor fresh);
     (if deleted \<noteq> None
      then do { emitEvent cx ''resource flavor'' ''delete'' (object_key (KFlavor fresh)) deleted; ret False }
      else (case qx_setControllerReference cx (qc_name queueConfig) (KFlavor desired) of
          Some e \<Rightarrow> do { emitEvent cx ''resource flavor'' ''owner reference'' (object_key (KFlavor desired)) (Some e); ret False }
        | None \<Rightarrow> do {
            err \<leftarrow> Q_Create api (KFlavor desired);
            emitEvent cx ''resource flavor'' ''recreate'' (object_key (KFlavor desired)) err;
            ret True
          }))
   }"

definition replaceResourceFlavor :: "QApi \<Rightarrow> QCtx \<Rightarrow> KaiwoQueueConfig \<Rightarrow> KueueFlavor \<Rightarrow> KueueFlavor \<Rightarrow> bool q_prog" where
  "replaceResourceFlavor api cx queueConfig existing desired =
     (if kf_terminating existing then ret True
      else let updated = existing\<lparr>kf_spec := kf_spec desired\<rparr> in do {
        updateErr \<leftarrow> Q_Update api (KFlavor updated);
        (if updateErr = None
         then do { emitEvent cx ''resource flavor'' ''update'' (object_key (KFlavor updated)) None; ret True }
         else if updateErr \<noteq> Some Invalid \<and> updateErr \<noteq> Some Forbidden
         then do { emitEvent cx ''resource flavor'' ''update'' (object_key (KFlavor updated)) updateErr; ret False }
         else do {
           r \<leftarrow> call (\<lambda>h. q_getFlavor api h (kf_name desired)) (QGetFlavor (kf_name desired));
           (case r of
              Inl _ \<Rightarrow> ret False
            | Inr fresh \<Rightarrow> (case qx_removeFinalizer cx ''kueue.x-k8s.io/resource-in-use'' fresh of
                None \<Rightarrow> recreate_flavor api cx queueConfig fresh desired
              | Some freed \<Rightarrow> do {
                  err \<leftarrow> Q_Update api (KFlavor freed);
                  (if err \<noteq> None then ret False else recreate_flavor api cx queueConfig freed desired)
                }))
         })
      })"

definition sync_flavor :: "QApi \<Rightarrow> QCtx \<Rightarrow> KaiwoQueueConfig \<Rightarrow> KueueFlavor list \<Rightarrow> KueueFlavor \<Rightarrow> (bool \<times> string list) q_prog" where
  "sync_flavor api cx queueConfig existing kueueFlavor = (case FindFlavor existing (kf_name kueueFlavor) of
      None \<Rightarrow> create_owned api cx queueConfig ''resource flavor'' (KFlavor kueueFlavor)
    | Some existingFlavor \<Rightarrow>
        if CompareResourceFlavors existingFlavor kueueFlavor then ret (True, [kf_name kueueFlavor])
        else do {
          replaced \<leftarrow> replaceResourceFlavor api cx queueConfig existingFlavor kueueFlavor;
          ret (replaced, [kf_name kueueFlavor])
        })"

definition syncResourceFlavors ::
    "QApi \<Rightarrow> QCtx \<Rightarrow> KaiwoQueueConfig \<Rightarrow> KueueFlavor list \<Rightarrow> ResourceFlavorSpec list \<Rightarrow> bool q_prog" where
  "syncResourceFlavors api cx queueConfig existingFlavors kaiwoFlavorSpecs = do {
     r \<leftarrow> sync_each (sync_flavor api cx queueConfig existingFlavors) (map ConvertKaiwoToKueueResourceFlavor kaiwoFlavorSpecs);
     d \<leftarrow> delete_stale api cx ''resource flavor'' (\<lambda>_. False) (snd r) (map KFlavor existingFlavors);
     ret (fst r \<and> d)
   }"

subsection \<open>Topologies\<close>

definition sync_topology :: "QApi \<Rightarrow> QCtx \<Rightarrow> KaiwoQueueConfig \<Rightarrow> Topology list \<Rightarrow> Topology \<Rightarrow> (bool \<times> string list) q_prog" where
  "sync_topology api cx queueConfig existing kueueTopology =
     (if tp_name kueueTopology = [] then ret (True, [])
      else (case FindTopology existing (tp_name kueueTopology) of
          None \<Rightarrow> create_owned api cx queueConfig ''topology'' (KTopology kueueTopology)
        | Some existingTopology \<Rightarrow>
            if CompareTopologies existingTopology kueueTopology then ret (True, [tp_name kueueTopology])
            else update_existing api cx ''topology'' (KTopology (existingTopology\<lparr>tp_levels := tp_levels kueueTopology\<rparr>))))"

definition syncTopologies :: "QApi \<Rightarrow> QCtx \<Rightarrow> KaiwoQueueConfig \<Rightarrow> Topology list \<Rightarrow> bool q_prog" where
  "syncTopologies api cx queueConfig existingTopologies = do {
     r \<leftarrow> sync_each (sync_topology api cx queueConfig existingTopologies)
            (map ConvertKaiwoToKueueTopology (qcs_topologies (qc_spec queueConfig)));
     d \<leftarrow> delete_stale api cx ''topology'' (\<lambda>e. e = NotFound) (snd r) (map KTopology existingTopologies);
     ret (fst r \<and> d)
   }"

subsection \<open>Cluster queues\<close>

text \<open>The quotas of a flavor in the order of the covered resources; of two quotas for one resource the last counts.\<close>

definition order_resources :: "string list \<Rightarrow> FlavorQuotas \<Rightarrow> FlavorQuotas" where
  "order_resources coveredResources flavor =
     (let resourceMap = foldl (\<lambda>m r. AList.update (rq_name r) r m) [] (fq_resources flavor)
      in flavor\<lparr>fq_resources := List.map_filter (map_of resourceMap) coveredResources\<rparr>)"

definition order_groups :: "KueueClusterQueue \<Rightarrow> KueueClusterQueue" where
  "order_groups q = q\<lparr>kq_spec := (kq_spec q)\<lparr>cqs_resourceGroups :=
     map (\<lambda>g. g\<lparr>rg_flavors := map (order_resources (rg_coveredResources g)) (rg_flavors g)\<rparr>) (cqs_resourceGroups (kq_spec q))\<rparr>\<rparr>"

definition update_queue :: "QApi \<Rightarrow> QCtx \<Rightarrow> KueueClusterQueue \<Rightarrow> api_error option q_prog" where
  "update_queue api cx kueueQueue = RetryOnConflict (qx_backoffSteps cx) (do {
     r \<leftarrow> call (\<lambda>h. q_getClusterQueue api h (kq_name kueueQueue)) (QGetClusterQueue (kq_name kueueQueue));
     (case r of
        Inl e \<Rightarrow> ret (Some e)
      | Inr latest \<Rightarrow> Q_Update api (KClusterQueue (latest\<lparr>kq_spec := kq_spec kueueQueue\<rparr>)))
   })"

definition sync_queue :: "QApi \<Rightarrow> QCtx \<Rightarrow> KaiwoQueueConfig \<Rightarrow> ClusterQueue \<Rightarrow> (bool \<times> string list) q_prog" where
  "sync_queue api cx queueConfig kaiwoQueue = (
     let kueueQueue = order_groups (ConvertKaiwoToKueueClusterQueue kaiwoQueue) in do {
       r \<leftarrow> call (\<lambda>h. q_getClusterQueue api h (kq_name kueueQueue)) (QGetClusterQueue (kq_name kueueQueue));
       (case r of
          Inl e \<Rightarrow>
            if e = NotFound then create_owned api cx queueConfig ''cluster queue'' (KClusterQueue kueueQueue)
            else do {
              emitEvent cx ''cluster queue'' ''get'' (object_key (KClusterQueue kueueQueue)) (Some e);
              ret (False, [kq_name kueueQueue])
            }
        | Inr existingQueue \<Rightarrow>
            if qx_queueSpecEqual cx (kq_spec existingQueue) (kq_spec kueueQueue) then ret (True, [kq_name kueueQueue])
            else do {
              updateErr \<leftarrow> update_queue api cx kueueQueue;
              emitEvent cx ''cluster queue'' ''update'' (object_key (KClusterQueue existingQueue)) updateErr;
              ret (updateErr = None, [kq_name kueueQueue])
            })
     })"

definition syncClusterQueues :: "QApi \<Rightarrow> QCtx \<Rightarrow> KaiwoQueueConfig \<Rightarrow> KueueClusterQueue list \<Rightarrow> bool q_prog" where
  "syncClusterQueues api cx queueConfig existingQueues = do {
     r \<leftarrow> sync_each (sync_queue api cx queueConfig) (qcs_clusterQueues (qc_spec queueConfig));
     d \<leftarrow> delete_stale api cx ''cluster queue'' (\<lambda>e. e = NotFound) (snd r) (map KClusterQueue existingQueues);
     ret (fst r \<and> d)
   }"

subsection \<open>Workload priority classes\<close>

definition sync_priority_class :: "QApi \<Rightarrow> QCtx \<Rightarrow> KaiwoQueueConfig \<Rightarrow> WorkloadPriorityClass \<Rightarrow> (bool \<times> string list) q_prog" where
  "sync_priority_class api cx queueConfig pc = do {
     r \<leftarrow> call (\<lambda>h. q_getPriorityClass api h (pc_name pc)) (QGetPriorityClass (pc_name pc));
     (case r of
        Inl e \<Rightarrow>
          if e = NotFound then create_owned api cx queueConfig ''workload priority class'' (KPriorityClass pc)
          else do {
            emitEvent cx ''workload priority class'' ''get'' (object_key (KPriorityClass pc)) (Some e);
            ret (False, [pc_name pc])
          }
      | Inr existing \<Rightarrow>
          if ComparePriorityClasses existing pc then ret (True, [pc_name pc])
          else do {
            r \<leftarrow> update_existing api cx ''workload priority class'' (KPriorityClass (existing\<lparr>pc_value := pc_value pc\<rparr>));
            ret (fst r, [pc_name pc])
          })
   }"

definition syncWorkloadPriorityClasses :: "QApi \<Rightarrow> QCtx \<Rightarrow> KaiwoQueueConfig \<Rightarrow> WorkloadPriorityClass list \<Rightarrow> bool q_prog" where
  "syncWorkloadPriorityClasses api cx queueConfig existing = do {
     r \<leftarrow> sync_each (sync_priority_class api cx queueConfig) (qcs_workloadPriorityClasses (qc_spec queueConfig));
     d \<leftarrow> delete_stale api cx ''workload priority class'' (\<lambda>e. e = NotFound) (snd r) (map KPriorityClass existing);
     ret (fst r \<and> d)
   }"

subsection \<open>Local queues\<close>

text \<open>
  \<open>staleQueues\<close>: the listed local queues by name (the name of their cluster queue) and namespace, less those found to
  be expected. A deleted key whose inner map got empty is deleted too.
\<close>

type_synonym stale_queues = "LocalQueue gomap gomap"

definition stale_queues_of :: "LocalQueue list \<Rightarrow> stale_queues" where
  "stale_queues_of queues =
     foldl (\<lambda>m q. AList.update (lq_name q) (AList.update (lq_namespace q) q (map_get [] m (lq_name q))) m) [] queues"

definition forget_queue :: "string \<Rightarrow> string \<Rightarrow> stale_queues \<Rightarrow> stale_queues" where
  "forget_queue name namespace stale = (case map_of stale name of
      None \<Rightarrow> stale
    | Some m \<Rightarrow> let m' = AList.delete namespace m
                in if m' = [] then AList.delete name stale else AList.update name m' stale)"

definition sync_namespace ::
    "QApi \<Rightarrow> QCtx \<Rightarrow> KueueClusterQueue \<Rightarrow> ClusterQueue \<Rightarrow> string \<Rightarrow> bool \<times> stale_queues \<Rightarrow> (bool \<times> stale_queues) q_prog" where
  "sync_namespace api cx actualClusterQueue clusterQueue namespace acc = (
     let localQueue = \<lparr>lq_name = cq_name clusterQueue, lq_namespace = namespace, lq_clusterQueue = cq_name clusterQueue\<rparr>;
         key = \<lparr>key_name = cq_name clusterQueue, key_namespace = namespace\<rparr> in do {
       r \<leftarrow> call (\<lambda>h. q_getLocalQueue api h key) (QGetLocalQueue key);
       (if r = None then ret (fst acc, forget_queue (cq_name clusterQueue) namespace (snd acc))
        else if r = Some NotFound then (case qx_setControllerReference cx (kq_name actualClusterQueue) (KLocalQueue localQueue) of
            Some e \<Rightarrow> do {
              emitEvent cx ''local queue'' ''owner reference'' (object_key (KLocalQueue localQueue)) (Some e);
              ret (False, snd acc)
            }
          | None \<Rightarrow> do {
              err \<leftarrow> Q_Create api (KLocalQueue localQueue);
              emitEvent cx ''local queue'' ''create'' (object_key (KLocalQueue localQueue)) err;
              ret (fst acc \<and> err = None, snd acc)
            })
        else do {
          emitEvent cx ''local queue'' ''get'' None r;
          ret (False, snd acc)
        })
     })"

fun sync_namespaces ::
    "QApi \<Rightarrow> QCtx \<Rightarrow> KueueClusterQueue \<Rightarrow> ClusterQueue \<Rightarrow> string list \<Rightarrow> bool \<times> stale_queues \<Rightarrow> (bool \<times> stale_queues) q_prog" where
  "sync_namespaces api cx actual clusterQueue [] acc = ret acc"
| "sync_namespaces api cx actual clusterQueue (namespace # rest) acc = do {
     acc \<leftarrow> sync_namespace api cx actual clusterQueue namespace acc;
     sync_namespaces api cx actual clusterQueue rest acc
   }"

definition sync_local_queue :: "QApi \<Rightarrow> QCtx \<Rightarrow> ClusterQueue \<Rightarrow> bool \<times> stale_queues \<Rightarrow> (bool \<times> stale_queues) q_prog" where
  "sync_local_queue api cx clusterQueue acc = do {
     r \<leftarrow> call (\<lambda>h. q_getClusterQueue api h (cq_name clusterQueue)) (QGetClusterQueue (cq_name clusterQueue));
     (case r of
        Inl e \<Rightarrow>
          if e = NotFound then ret acc
          else do {
            emitEvent cx ''cluster queue'' ''get'' (Some ([], [])) (Some e);
            ret (False, snd acc)
          }
      | Inr actualClusterQueue \<Rightarrow>
          if cq_namespaces clusterQueue = []
          then ret (fst acc, if map_of (snd acc) (cq_name clusterQueue) = Some []
                             then AList.delete (cq_name clusterQueue) (snd acc) else snd acc)
          else sync_namespaces api cx actualClusterQueue clusterQueue (cq_namespaces clusterQueue) acc)
   }"

fun sync_local_queues :: "QApi \<Rightarrow> QCtx \<Rightarrow> ClusterQueue list \<Rightarrow> bool \<times> stale_queues \<Rightarrow> (bool \<times> stale_queues) q_prog" where
  "sync_local_queues api cx [] acc = ret acc"
| "sync_local_queues api cx (clusterQueue # rest) acc = do {
     acc \<leftarrow> sync_local_queue api cx clusterQueue acc;
     sync_local_queues api cx rest acc
   }"

text \<open>
  The stale queues that are deleted: those of the queues in the specification that list namespaces. In
  \<^verbatim>\<open>clusterQueueLookup\<close> the last of several queues of one name counts, and a missing entry lists no namespaces.
\<close>

definition lookup_namespaces :: "ClusterQueue list \<Rightarrow> string \<Rightarrow> string list" where
  "lookup_namespaces clusterQueues name =
     map_get [] (foldl (\<lambda>m q. AList.update (cq_name q) (cq_namespaces q) m) [] clusterQueues) name"

definition stale_to_delete :: "QCtx \<Rightarrow> ClusterQueue list \<Rightarrow> stale_queues \<Rightarrow> LocalQueue list" where
  "stale_to_delete cx clusterQueues stale =
     concat (map (\<lambda>queueName. if lookup_namespaces clusterQueues queueName = [] then []
         else let m = map_get [] stale queueName in List.map_filter (map_of m) (qx_mapOrder cx 7 (map fst m)))
       (qx_mapOrder cx 6 (map fst stale)))"

definition syncLocalQueues :: "QApi \<Rightarrow> QCtx \<Rightarrow> KaiwoQueueConfig \<Rightarrow> LocalQueue list \<Rightarrow> bool q_prog" where
  "syncLocalQueues api cx queueConfig existingLocalQueues = (
     let clusterQueues = qcs_clusterQueues (qc_spec queueConfig) in do {
       r \<leftarrow> sync_local_queues api cx clusterQueues (True, stale_queues_of existingLocalQueues);
       d \<leftarrow> delete_stale api cx ''local queue'' (\<lambda>e. e = NotFound) [] (map KLocalQueue (stale_to_delete cx clusterQueues (snd r)));
       ret (fst r \<and> d)
     })"

section \<open>Synchronising everything\<close>

definition sync_rest ::
    "QApi \<Rightarrow> QCtx \<Rightarrow> KaiwoQueueConfig \<Rightarrow> bool \<Rightarrow> KueueFlavor list \<Rightarrow> ResourceFlavorSpec list \<Rightarrow> KueueClusterQueue list \<Rightarrow>
     LocalQueue list \<Rightarrow> WorkloadPriorityClass list \<Rightarrow> (wl_error + unit) q_prog" where
  "sync_rest api cx queueConfig success existingFlavors flavorSpecs existingQueues existingLocalQueues existingPriorityClasses = do {
     s1 \<leftarrow> syncResourceFlavors api cx queueConfig existingFlavors flavorSpecs;
     s2 \<leftarrow> syncClusterQueues api cx queueConfig existingQueues;
     s3 \<leftarrow> syncLocalQueues api cx queueConfig existingLocalQueues;
     s4 \<leftarrow> syncWorkloadPriorityClasses api cx queueConfig existingPriorityClasses;
     ret (if success \<and> s1 \<and> s2 \<and> s3 \<and> s4 then Inr () else Inl (Failed (OtherError ''failed to sync some Kueue resources'')))
   }"

definition SyncKueueResources :: "QApi \<Rightarrow> QCtx \<Rightarrow> KaiwoQueueConfig \<Rightarrow> (wl_error + unit) q_prog" where
  "SyncKueueResources api cx queueConfig =
     bindE (q_call (q_listFlavors api) QListFlavors) (\<lambda>existingFlavors.
     bindE (q_call (q_listClusterQueues api) QListClusterQueues) (\<lambda>existingQueues.
     bindE (q_call (q_listPriorityClasses api) QListPriorityClasses) (\<lambda>existingPriorityClasses.
     bindE (q_call (q_listLocalQueues api) QListLocalQueues) (\<lambda>existingLocalQueues. do {
       topologies \<leftarrow> call (q_listTopologies api) QListTopologies;
       (case topologies of
          Inl e \<Rightarrow>
            if e = NoMatch
            then sync_rest api cx queueConfig True existingFlavors
                   (stripTopologyFromResourceFlavors (qcs_resourceFlavors (qc_spec queueConfig)))
                   existingQueues existingLocalQueues existingPriorityClasses
            else ret (Inl (Failed e))
        | Inr existingTopologies \<Rightarrow> do {
            success \<leftarrow> syncTopologies api cx queueConfig existingTopologies;
            sync_rest api cx queueConfig success existingFlavors (qcs_resourceFlavors (qc_spec queueConfig))
              existingQueues existingLocalQueues existingPriorityClasses
          })
     }))))"

section \<open>The KaiwoQueueConfig object\<close>

definition nodeResourceChanged :: "Node \<Rightarrow> Node \<Rightarrow> bool" where
  "nodeResourceChanged oldNode newNode \<longleftrightarrow>
     nd_unschedulable oldNode \<noteq> nd_unschedulable newNode \<or>
     map_get 0 (nd_capacity oldNode) ''cpu'' \<noteq> map_get 0 (nd_capacity newNode) ''cpu'' \<or>
     map_get 0 (nd_capacity oldNode) ''memory'' \<noteq> map_get 0 (nd_capacity newNode) ''memory'' \<or>
     \<not> same_map (nd_labels oldNode) (nd_labels newNode)"

definition topology_labels :: "string gomap \<Rightarrow> string gomap" where
  "topology_labels labels =
     (let labels' = (if has_key labels DefaultTopologyBlockLabel then labels else AList.update DefaultTopologyBlockLabel ''block-a'' labels)
      in if has_key labels' DefaultTopologyRackLabel then labels' else AList.update DefaultTopologyRackLabel ''rack-a'' labels')"

fun label_topologies :: "QApi \<Rightarrow> Node list \<Rightarrow> (wl_error + unit) q_prog" where
  "label_topologies api [] = ret (Inr ())"
| "label_topologies api (node # rest) =
     (if has_key (nd_labels node) DefaultTopologyBlockLabel \<and> has_key (nd_labels node) DefaultTopologyRackLabel
      then label_topologies api rest
      else let node' = node\<lparr>nd_labels := topology_labels (nd_labels node)\<rparr> in do {
        err \<leftarrow> call (\<lambda>h. q_updateNode api h node') (QUpdateNode node');
        (case err of Some e \<Rightarrow> ret (Inl (Failed e)) | None \<Rightarrow> label_topologies api rest)
      })"

definition CreateTopology :: "QApi \<Rightarrow> (wl_error + unit) q_prog" where
  "CreateTopology api = bindE (q_call (q_listNodes api) QListNodes) (label_topologies api)"

definition sanitizeTopologies :: "Topology list \<Rightarrow> Topology list" where
  "sanitizeTopologies = filter (\<lambda>t. tp_name t \<noteq> [])"

text \<open>Two lists as a map by name, in which the entries of the second win, back to a list in the order of a range.\<close>

definition merge_by_name :: "QCtx \<Rightarrow> nat \<Rightarrow> ('a \<Rightarrow> string) \<Rightarrow> 'a list \<Rightarrow> 'a list \<Rightarrow> 'a list" where
  "merge_by_name cx site name old new =
     (let m = foldl (\<lambda>m x. AList.update (name x) x m) [] (old @ new)
      in List.map_filter (map_of m) (qx_mapOrder cx site (map fst m)))"

definition empty_queue_config :: KaiwoQueueConfig where
  "empty_queue_config = \<lparr>qc_name = [], qc_spec = \<lparr>qcs_clusterQueues = [], qcs_resourceFlavors = [],
     qcs_workloadPriorityClasses = [], qcs_topologies = []\<rparr>, qc_status = QueueConfigStatusUnset\<rparr>"

text \<open>
  The result is what the caller's variable holds afterwards: a configuration that had to be created goes into a
  variable of its own, and the caller's stays empty.
\<close>

definition EnsureKaiwoQueueConfig ::
    "QApi \<Rightarrow> QCtx \<Rightarrow> KaiwoConfigSpec \<Rightarrow> string \<Rightarrow> string \<Rightarrow> string \<Rightarrow> (wl_error + KaiwoQueueConfig) q_prog" where
  "EnsureKaiwoQueueConfig api cx config kaiwoQueueConfigName clusterQueueName cohort =
     bindE (CreateDefaultResourceFlavors api cx config) (\<lambda>(newResourceFlavors, nodePoolResources).
       let newClusterQueue = CreateClusterQueue cx nodePoolResources clusterQueueName cohort;
           newTopologies = sanitizeTopologies (CreateDefaultTopology config)
       in do {
         r \<leftarrow> call (\<lambda>h. q_getQueueConfig api h kaiwoQueueConfigName) (QGetQueueConfig kaiwoQueueConfigName);
         (case r of
            Inl e \<Rightarrow>
              if e = NotFound then (
                let newConfig = \<lparr>qc_name = kaiwoQueueConfigName, qc_spec = \<lparr>qcs_clusterQueues = [newClusterQueue],
                      qcs_resourceFlavors = newResourceFlavors, qcs_workloadPriorityClasses = [], qcs_topologies = newTopologies\<rparr>,
                      qc_status = QueueConfigStatusUnset\<rparr> in do {
                  err \<leftarrow> call (\<lambda>h. q_createQueueConfig api h newConfig) (QCreateQueueConfig newConfig);
                  ret (case err of Some e \<Rightarrow> Inl (Failed e) | None \<Rightarrow> Inr empty_queue_config)
                })
              else ret (Inl (Failed e))
          | Inr queueConfig \<Rightarrow> (
              let spec = qc_spec queueConfig;
                  merged = queueConfig\<lparr>qc_spec := spec\<lparr>
                    qcs_resourceFlavors := merge_by_name cx 8 rf_name (qcs_resourceFlavors spec) newResourceFlavors,
                    qcs_clusterQueues := merge_by_name cx 9 cq_name (qcs_clusterQueues spec) [newClusterQueue],
                    qcs_topologies := merge_by_name cx 10 tp_name (sanitizeTopologies (qcs_topologies spec)) newTopologies\<rparr>\<rparr>
              in q_call (\<lambda>h. q_updateQueueConfig api h merged) (QUpdateQueueConfig merged)))
       })"

definition KaiwoQueueConfigName :: string where "KaiwoQueueConfigName = ''kaiwo''"

definition ensure_default :: "QApi \<Rightarrow> QCtx \<Rightarrow> KaiwoConfigSpec \<Rightarrow> (wl_error + KaiwoQueueConfig) q_prog" where
  "ensure_default api cx config = EnsureKaiwoQueueConfig api cx config KaiwoQueueConfigName
     (kcs_defaultClusterQueueName config) (kcs_defaultClusterQueueCohortName config)"

section \<open>Reconcile\<close>

text \<open>The status is written only when it changes; a failed synchronisation is tried again after 30 seconds.\<close>

definition write_queue_status :: "QApi \<Rightarrow> string \<Rightarrow> QueueConfigStatusDescription \<Rightarrow> (wl_error + unit) q_prog" where
  "write_queue_status api name status =
     bindE (q_call (\<lambda>h. q_getQueueConfig api h name) (QGetQueueConfig name)) (\<lambda>latest.
       let latest' = latest\<lparr>qc_status := status\<rparr> in do {
         err \<leftarrow> call (\<lambda>h. q_updateQueueConfigStatus api h latest') (QUpdateQueueConfigStatus latest');
         ret (case err of Some e \<Rightarrow> Inl (Failed e) | None \<Rightarrow> Inr ())
       })"

definition sync_and_report :: "QApi \<Rightarrow> QCtx \<Rightarrow> string \<Rightarrow> KaiwoQueueConfig \<Rightarrow> (wl_error + requeue) q_prog" where
  "sync_and_report api cx name queueConfig = do {
     r \<leftarrow> SyncKueueResources api cx queueConfig;
     (let status = (case r of Inl _ \<Rightarrow> QueueConfigStatusFailed | Inr _ \<Rightarrow> QueueConfigStatusReady) in
      bindE (if qc_status queueConfig \<noteq> status then write_queue_status api name status else ret (Inr ())) (\<lambda>_.
        ret (Inr (if status = QueueConfigStatusFailed then RequeueAfter (30 * 1000000000) else NoRequeue))))
   }"

definition queueconfig_Reconcile :: "QApi \<Rightarrow> QCtx \<Rightarrow> string \<Rightarrow> (wl_error + requeue) q_prog" where
  "queueconfig_Reconcile api cx name =
     (if name \<noteq> ''kaiwo'' then ret (Inl (Failed (OtherError ''only a KaiwoQueueConfig named kaiwo is allowed'')))
      else bindE (q_call (q_getConfig api) QGetConfig) (\<lambda>config.
        if kcs_dynamicallyUpdateDefaultClusterQueue config
        then bindE (ensure_default api cx config) (sync_and_report api cx name)
        else do {
          r \<leftarrow> call (\<lambda>h. q_getQueueConfig api h name) (QGetQueueConfig name);
          (case r of
             Inl e \<Rightarrow>
               if e = NotFound then bindE (ensure_default api cx config) (sync_and_report api cx name)
               else ret (Inl (Failed e))
           | Inr queueConfig \<Rightarrow>
               bindE (CreateDefaultResourceFlavors api cx config) (\<lambda>_. (
                 let cleaned = sanitizeTopologies (qcs_topologies (qc_spec queueConfig)) in
                 if length cleaned \<noteq> length (qcs_topologies (qc_spec queueConfig))
                 then (let pruned = queueConfig\<lparr>qc_spec := (qc_spec queueConfig)\<lparr>qcs_topologies := cleaned\<rparr>\<rparr>
                       in bindE (q_call (\<lambda>h. q_updateQueueConfig api h pruned) (QUpdateQueueConfig pruned)) (\<lambda>_. ret (Inr RequeueNow)))
                 else sync_and_report api cx name queueConfig)))
        }))"

text \<open>What the manager runs once when it starts.\<close>

definition queueconfig_startup :: "QApi \<Rightarrow> QCtx \<Rightarrow> (wl_error + unit) q_prog" where
  "queueconfig_startup api cx =
     bindE (q_call (q_getConfig api) QGetConfig) (\<lambda>config. do {
       CreateTopology api;
       (if kcs_dynamicallyUpdateDefaultClusterQueue config
        then bindE (ensure_default api cx config) (\<lambda>_. ret (Inr ())) else ret (Inr ()))
     })"

end
