(* ===== verification/Watches.thy ===== *)
theory Watches
  imports QueueConfig WorkloadReconcile
begin

text \<open>
  What wakes the controllers: the event predicates and request functions that the three \<^verbatim>\<open>SetupWithManager\<close> of
  \<^verbatim>\<open>internal/controller/kaiwojob_controller.go\<close>, \<^verbatim>\<open>kaiwoservice_controller.go\<close> and \<^verbatim>\<open>kaiwoqueueconfig_controller.go\<close> give to the
  controller manager. Lemmas: which updates of a job reach its controller, and that the updates of a node that the queue
  controller does not see leave the node pools as they are.
\<close>

section \<open>Workload controllers\<close>

datatype 'a watch_event = CreateEvent 'a | UpdateEvent 'a 'a | DeleteEvent 'a | GenericEvent 'a

text \<open>The field \<^verbatim>\<open>Ready\<close> is a pointer: an address and what is stored there.\<close>

record WatchedJobStatus =
  js_active :: int
  js_ready :: "(nat \<times> int) option"
  js_conditions :: "Condition list"

fun JobStatusChangedPredicate :: "WatchedJobStatus watch_event \<Rightarrow> bool" where
  "JobStatusChangedPredicate (UpdateEvent oldJ newJ) =
     (if js_active oldJ \<noteq> js_active newJ then True
      else if map_option fst (js_ready oldJ) \<noteq> map_option fst (js_ready newJ) then True
      else if js_conditions oldJ \<noteq> js_conditions newJ then True
      else False)"
| "JobStatusChangedPredicate _ = False"

definition duration_request :: "KaiwoWorkload \<Rightarrow> bool" where
  "duration_request w \<longleftrightarrow> cms_duration (kw_spec w) \<noteq> None \<and> status_of w = WorkloadStatusRunning"

definition wake_running :: "WlApi \<Rightarrow> workload_kind \<Rightarrow> (wl_event, ObjectKey list) prog" where
  "wake_running api kind = do {
     r \<leftarrow> call (\<lambda>h. w_listWorkloads api h kind) (WListWorkloads kind);
     ret (case r of Inl _ \<Rightarrow> [] | Inr ws \<Rightarrow> map workload_key (filter duration_request ws))
   }"

text \<open>An event of a service wakes the jobs, an event of a job the services.\<close>

definition jobs_for_service_event :: "WlApi \<Rightarrow> (wl_event, ObjectKey list) prog" where
  "jobs_for_service_event api = wake_running api KindKaiwoJob"

definition services_for_job_event :: "WlApi \<Rightarrow> (wl_event, ObjectKey list) prog" where
  "services_for_job_event api = wake_running api KindKaiwoService"

section \<open>Queue configuration controller\<close>

definition enqueueKaiwoQueueConfig :: "ObjectKey list" where
  "enqueueKaiwoQueueConfig = [\<lparr>key_name = ''kaiwo'', key_namespace = []\<rparr>]"

fun nodePred :: "Node watch_event \<Rightarrow> bool" where
  "nodePred (CreateEvent _) = True"
| "nodePred (DeleteEvent _) = True"
| "nodePred (GenericEvent _) = False"
| "nodePred (UpdateEvent oldNode newNode) = nodeResourceChanged oldNode newNode"

text \<open>A cluster queue is given by its generation, \<open>None\<close> for a nil object.\<close>

fun cqPred :: "int option watch_event \<Rightarrow> bool" where
  "cqPred (CreateEvent _) = True"
| "cqPred (DeleteEvent _) = True"
| "cqPred (GenericEvent _) = False"
| "cqPred (UpdateEvent (Some oldGeneration) (Some newGeneration)) = (oldGeneration \<noteq> newGeneration)"
| "cqPred (UpdateEvent _ _) = False"

fun nsPred :: "'a watch_event \<Rightarrow> bool" where
  "nsPred (CreateEvent _) = True"
| "nsPred (DeleteEvent _) = True"
| "nsPred (UpdateEvent _ _) = False"
| "nsPred (GenericEvent _) = False"

section \<open>Lemmas\<close>

text \<open>Two maps with distinct keys that are the same answer every lookup alike.\<close>

lemma same_map_lookup:
  assumes same: "same_map a b" and da: "distinct (map fst a)" and db: "distinct (map fst b)"
  shows "map_of a = map_of b"
proof -
  have sub: "set a \<subseteq> set b"
    using same by (auto simp: same_map_def list_all_iff dest: map_of_SomeD)
  have "card (set a) = card (set b)"
    using same da db by (simp add: same_map_def distinct_card distinct_map)
  with sub have "set a = set b" by (simp add: card_subset_eq)
  with da db show ?thesis by (simp add: map_of_inject_set)
qed

text \<open>The pools are a function of what a node answers, not of how its label map is ordered.\<close>

lemma node_gpu_cong:
  assumes "map_of m = map_of m'"
  shows "node_gpu m = node_gpu m'"
  unfolding node_gpu_def assms ..

lemma unseen_node_step:
  assumes name: "nd_name oldNode = nd_name newNode" and unseen: "\<not> nodePred (UpdateEvent oldNode newNode)"
    and d: "distinct (map fst (nd_labels oldNode))" "distinct (map fst (nd_labels newNode))"
  shows "in_pools config (node_info oldNode) = in_pools config (node_info newNode)"
    and "add_to_pool (node_info oldNode) = add_to_pool (node_info newNode)"
proof -
  have labels: "map_of (nd_labels oldNode) = map_of (nd_labels newNode)"
    by (rule same_map_lookup [OF _ d]) (use unseen in \<open>simp add: nodeResourceChanged_def\<close>)
  then have gpu: "node_gpu (nd_labels oldNode) = node_gpu (nd_labels newNode)"
    and keys: "has_key (nd_labels oldNode) = has_key (nd_labels newNode)"
    by (rule node_gpu_cong, simp add: fun_eq_iff has_key_def)
  show "in_pools config (node_info oldNode) = in_pools config (node_info newNode)"
    using unseen by (simp add: in_pools_def is_control_plane_def node_info_def keys nodeResourceChanged_def)
  have sizes: "nominalCPU (node_info oldNode) = nominalCPU (node_info newNode)"
    "nominalMemory (node_info oldNode) = nominalMemory (node_info newNode)"
    using unseen by (simp_all add: nominalCPU_def nominalMemory_def node_info_def nodeResourceChanged_def)
  have "ni_labels (node_info n) = nd_labels n" "ni_name (node_info n) = nd_name n" for n
    by (simp_all add: node_info_def)
  with gpu sizes name show "add_to_pool (node_info oldNode) = add_to_pool (node_info newNode)"
    by (simp add: fun_eq_iff add_to_pool_def flavor_name_def)
qed

section \<open>Properties\<close>

text \<open>
  C40: No change of the node pools is missed. An update of a node that the predicate of the queue controller filters out, so
  that the controller is not woken, leaves the node pools with their members and their aggregated CPU, memory and GPUs
  exactly as they were, wherever the node stands in the list and whatever the configuration.
\<close>

theorem unseen_node_updates_keep_pools:
  assumes "nd_name oldNode = nd_name newNode" and "\<not> nodePred (UpdateEvent oldNode newNode)"
    and "distinct (map fst (nd_labels oldNode))" and "distinct (map fst (nd_labels newNode))"
  shows "collect_pools config (map node_info (xs @ oldNode # ys)) = collect_pools config (map node_info (xs @ newNode # ys))"
  using unseen_node_step [OF assms] by (simp add: collect_pools_def)

definition watched_node :: Node where
  "watched_node = \<lparr>nd_name = ''n1'', nd_labels = [(''amd.com/gpu.product-name'', ''MI300X''), (''beta.amd.com/gpu.family.AI'', ''8'')],
     nd_unschedulable = False, nd_taints = [], nd_capacity = [(''cpu'', 64), (''memory'', 512 * 1024 * 1024 * 1024)],
     nd_allocatable = [(''cpu'', 64)]\<rparr>"

definition busy_node :: Node where
  "busy_node = watched_node\<lparr>nd_labels := rev (nd_labels watched_node), nd_allocatable := [(''cpu'', 60)]\<rparr>"

theorem unseen_node_updates_keep_pools_witness:
  "\<forall>config. collect_pools config (map node_info [watched_node]) = collect_pools config (map node_info [busy_node])"
proof -
  have "nd_name watched_node = nd_name busy_node" and "\<not> nodePred (UpdateEvent watched_node busy_node)"
    and "distinct (map fst (nd_labels watched_node))" and "distinct (map fst (nd_labels busy_node))"
    by (simp_all add: watched_node_def busy_node_def nodeResourceChanged_def same_map_def)
  from unseen_node_updates_keep_pools [OF this, of _ "[]" "[]"] show ?thesis by simp
qed

text \<open>
  The predicate on jobs compares pointers: an update that changes nothing passes as soon as one of the two objects has a
  value for \<^verbatim>\<open>Ready\<close>, because different objects have different addresses.
\<close>

lemma unchanged_ready_passes:
  assumes "js_ready oldJ = Some (a, n)" and "js_ready newJ = Some (b, n)" and "a \<noteq> b"
  shows "JobStatusChangedPredicate (UpdateEvent oldJ newJ)"
  using assms by simp

end
