(* ===== verification/QueueSync.thy ===== *)
theory QueueSync
  imports QueueConfig
begin

text \<open>
  Properties of the queue configuration controller: what a synchronisation deletes and why, what happens when the
  configuration object is missing or a cluster queue cannot be read, the cluster queue that Kueue gets, that a
  synchronised cluster is left alone, and what regenerating the configuration keeps.
\<close>

lemma set_map_filter: "set (List.map_filter g ks) = {x. \<exists>k \<in> set ks. g k = Some x}"
  by (force simp: List.map_filter_def)

section \<open>What a synchronisation deletes\<close>

definition deleted_by :: "q_event \<Rightarrow> kueue_object option" where
  "deleted_by e = (case e of QDelete obj _ \<Rightarrow> Some obj | _ \<Rightarrow> None)"

text \<open>Reading calls, and the events that are recorded.\<close>

definition harmless :: "q_event \<Rightarrow> bool" where
  "harmless e = (case e of QPatchNode _ _ \<Rightarrow> False | QUpdateNode _ _ \<Rightarrow> False | QCreateQueueConfig _ _ \<Rightarrow> False
     | QUpdateQueueConfig _ _ \<Rightarrow> False | QUpdateQueueConfigStatus _ _ \<Rightarrow> False | QCreate _ _ \<Rightarrow> False | QUpdate _ _ \<Rightarrow> False
     | QDelete _ _ \<Rightarrow> False | _ \<Rightarrow> True)"

lemma deleted_by_simps [simp]:
  "deleted_by (QDelete obj r) = Some obj" "deleted_by (QCreate obj r) = None" "deleted_by (QUpdate obj r) = None"
  "deleted_by (QRecord t a m) = None" "deleted_by (QGetFlavor n g) = None" "deleted_by (QGetClusterQueue n c) = None"
  "deleted_by (QGetLocalQueue k l) = None" "deleted_by (QGetPriorityClass n pc) = None"
  "deleted_by (QListFlavors l1) = None" "deleted_by (QListClusterQueues l2) = None" "deleted_by (QListPriorityClasses l3) = None"
  "deleted_by (QListLocalQueues l4) = None" "deleted_by (QListTopologies l5) = None"
  by (simp_all add: deleted_by_def)

lemma harmless_simps [simp]:
  "harmless (QRecord t a m)" "harmless (QGetFlavor n g)" "harmless (QGetClusterQueue n c)" "harmless (QGetLocalQueue k l)"
  "harmless (QGetPriorityClass n pc)" "harmless (QListFlavors l1)" "harmless (QListClusterQueues l2)"
  "harmless (QListPriorityClasses l3)" "harmless (QListLocalQueues l4)" "harmless (QListTopologies l5)"
  "\<not> harmless (QCreate obj r)" "\<not> harmless (QUpdate obj r)" "\<not> harmless (QDelete obj r)"
  by (simp_all add: harmless_def)

lemma does_emitEvent [does_intros]:
  "(\<And>t a m. Q () [QRecord t a m]) \<Longrightarrow> does Q (emitEvent cx target action obj err)"
  unfolding emitEvent_def by (intro does_intros; simp)

lemma emits_emitEvent [emits_intros]: "(\<And>t a m. P (QRecord t a m)) \<Longrightarrow> emits P (emitEvent cx target action obj err)"
  unfolding emits_def by (rule does_emitEvent) simp

lemma does_Q_writes [does_intros]:
  "(\<And>r. Q r [QCreate obj r]) \<Longrightarrow> does Q (Q_Create api obj)"
  "(\<And>r. Q r [QUpdate obj r]) \<Longrightarrow> does Q (Q_Update api obj)"
  "(\<And>r. Q r [QDelete obj r]) \<Longrightarrow> does Q (Q_Delete api obj)"
  unfolding q_client_defs by (intro does_intros; simp)+

text \<open>
  \<open>each_delete J pre new\<close>: every deletion in \<open>new\<close> is justified by \<open>J\<close> from the events before it.
\<close>

fun each_delete :: "(q_event list \<Rightarrow> kueue_object \<Rightarrow> bool) \<Rightarrow> q_event list \<Rightarrow> q_event list \<Rightarrow> bool" where
  "each_delete J pre [] \<longleftrightarrow> True"
| "each_delete J pre (e # es) \<longleftrightarrow> (case deleted_by e of None \<Rightarrow> True | Some obj \<Rightarrow> J pre obj) \<and> each_delete J (pre @ [e]) es"

lemma each_delete_append: "each_delete J pre (a @ b) \<longleftrightarrow> each_delete J pre a \<and> each_delete J (pre @ a) b"
  by (induction a arbitrary: pre) auto

definition monotone_reason :: "(q_event list \<Rightarrow> kueue_object \<Rightarrow> bool) \<Rightarrow> bool" where
  "monotone_reason J \<longleftrightarrow> (\<forall>p q obj. set p \<subseteq> set q \<longrightarrow> J p obj \<longrightarrow> J q obj)"

lemma each_delete_mono:
  "monotone_reason J \<Longrightarrow> each_delete J p new \<Longrightarrow> set p \<subseteq> set q \<Longrightarrow> each_delete J q new"
proof (induction new arbitrary: p q)
  case (Cons e new)
  have "set (p @ [e]) \<subseteq> set (q @ [e])" using Cons.prems(3) by auto
  then have "each_delete J (q @ [e]) new" using Cons.IH [OF Cons.prems(1)] Cons.prems(2) by (auto split: option.splits)
  then show ?case using Cons.prems by (auto simp: monotone_reason_def split: option.splits)
qed simp

lemma each_delete_app:
  "monotone_reason J \<Longrightarrow> each_delete J [] a \<Longrightarrow> each_delete J [] b \<Longrightarrow> each_delete J [] (a @ b)"
  using each_delete_mono [of J "[]" b a] by (simp add: each_delete_append)

lemma each_delete_none: "list_all (\<lambda>e. deleted_by e = None) new \<Longrightarrow> each_delete J pre new"
  by (induction new arbitrary: pre) auto

text \<open>A loop over the expected objects: what every step does, all of them do; \<open>N x\<close> are the names that step \<open>x\<close> adds.\<close>

lemma does_sync_each:
  assumes "\<And>x. x \<in> set xs \<Longrightarrow> does (\<lambda>r new. (good \<longrightarrow> fst r) \<and> set (snd r) = N x \<and> T new) (step x)"
    and "T []" and "\<And>a b. T a \<Longrightarrow> T b \<Longrightarrow> T (a @ b)"
  shows "does (\<lambda>r new. (good \<longrightarrow> fst r) \<and> set (snd r) = (\<Union>x \<in> set xs. N x) \<and> T new) (sync_each step xs)"
  using assms(1)
proof (induction xs)
  case Nil
  show ?case by (simp, intro does_intros) (simp add: assms(2))
next
  case (Cons x xs)
  show ?case unfolding sync_each.simps
    apply (rule does_seq, rule Cons.prems, simp)
    apply (rule does_seq, rule Cons.IH, rule Cons.prems, simp)
    apply (intro does_intros)
    apply (auto simp: assms(3))
    done
qed

definition stale_trace :: "string list \<Rightarrow> kueue_object list \<Rightarrow> q_event list \<Rightarrow> bool" where
  "stale_trace expected objs new \<longleftrightarrow>
     list_all (\<lambda>e. case deleted_by e of None \<Rightarrow> harmless e | Some obj \<Rightarrow> obj \<in> set objs \<and> object_name obj \<notin> set expected) new \<and>
     (\<forall>obj \<in> set objs. object_name obj \<notin> set expected \<longrightarrow> (\<exists>r. QDelete obj r \<in> set new))"

lemma does_delete_stale:
  "does (\<lambda>r new. stale_trace expected objs new \<and> (object_name ` set objs \<subseteq> set expected \<longrightarrow> r))
     (delete_stale api cx target tolerated expected objs)"
proof (induction objs)
  case Nil
  show ?case by (simp, intro does_intros) (simp add: stale_trace_def)
next
  case (Cons obj objs)
  show ?case
  proof (cases "object_name obj \<in> set expected")
    case True
    then show ?thesis using Cons.IH by simp (erule does_mono, auto simp: stale_trace_def list_all_iff split: option.splits)
  next
    case False
    then show ?thesis
      apply (simp only: delete_stale.simps if_False)
      apply (intro does_bind does_Q_writes does_emitEvent)
      apply (rule does_mono [OF Cons.IH])
      apply (intro does_intros)
      apply (auto simp: stale_trace_def list_all_iff split: option.splits)
      done
  qed
qed


lemma stale_trace_justified:
  assumes "stale_trace expected objs new" "\<And>obj pre. obj \<in> set objs \<Longrightarrow> object_name obj \<notin> set expected \<Longrightarrow> J pre obj"
  shows "each_delete J pre new"
proof -
  have "list_all (\<lambda>e. case deleted_by e of None \<Rightarrow> True | Some obj \<Rightarrow> \<forall>pre. J pre obj) new"
    using assms by (auto simp: stale_trace_def list_all_iff split: option.splits)
  then show ?thesis by (induction new arbitrary: pre) (auto split: option.splits)
qed

text \<open>
  What justifies a deletion: the name is not in the specification; for a flavor also that the server refused an update
  of a flavor as invalid or forbidden before; a local queue must belong to a queue of the specification that lists
  its namespaces.
\<close>

definition deletion_reason :: "KaiwoQueueConfigSpec \<Rightarrow> q_event list \<Rightarrow> kueue_object \<Rightarrow> bool" where
  "deletion_reason spec pre obj = (case obj of
      KFlavor f \<Rightarrow> kf_name f \<notin> rf_name ` set (qcs_resourceFlavors spec) \<or>
        list_ex (\<lambda>e. case e of QUpdate (KFlavor _) (Some er) \<Rightarrow> er = Invalid \<or> er = Forbidden | _ \<Rightarrow> False) pre
    | KClusterQueue q \<Rightarrow> kq_name q \<notin> cq_name ` set (qcs_clusterQueues spec)
    | KTopology t \<Rightarrow> tp_name t \<notin> tp_name ` set (qcs_topologies spec) - {[]}
    | KPriorityClass p \<Rightarrow> pc_name p \<notin> pc_name ` set (qcs_workloadPriorityClasses spec)
    | KLocalQueue l \<Rightarrow> lookup_namespaces (qcs_clusterQueues spec) (lq_name l) \<noteq> [])"

lemma deletion_reason_mono: "monotone_reason (deletion_reason spec)"
  unfolding monotone_reason_def
proof (intro allI impI)
  fix p q obj assume "set p \<subseteq> set q" "deletion_reason spec p obj"
  then show "deletion_reason spec q obj" by (cases obj) (auto simp: deletion_reason_def list_ex_iff)
qed

definition owner_ok :: "QCtx \<Rightarrow> bool" where
  "owner_ok cx \<longleftrightarrow> (\<forall>owner obj. qx_setControllerReference cx owner obj = None)"

lemma does_create_owned:
  assumes "owner_ok cx"
  shows "does (\<lambda>r new. set (snd r) = {object_name obj} \<and> list_all (\<lambda>e. deleted_by e = None) new) (create_owned api cx qc target obj)"
  using assms unfolding create_owned_def owner_ok_def by simp (intro does_intros; simp)

lemma does_update_existing:
  "does (\<lambda>r new. set (snd r) = {object_name obj} \<and> list_all (\<lambda>e. deleted_by e = None) new) (update_existing api cx target obj)"
  unfolding update_existing_def by (intro does_intros; simp)

lemma does_sync_queue:
  assumes "owner_ok cx"
  shows "does (\<lambda>r new. set (snd r) = {cq_name q} \<and> list_all (\<lambda>e. deleted_by e = None) new) (sync_queue api cx qc q)"
proof -
  have name: "kq_name (order_groups (ConvertKaiwoToKueueClusterQueue q)) = cq_name q"
    by (simp add: order_groups_def ConvertKaiwoToKueueClusterQueue_def)
  have retry: "does (\<lambda>r new. list_all (\<lambda>e. deleted_by e = None) new) (update_queue api cx k)" for k
    unfolding update_queue_def emits_def [symmetric] by (intro emits_intros; simp)
  have create: "does (\<lambda>r new. set (snd r) = {cq_name q} \<and> list_all (\<lambda>e. deleted_by e = None) new)
      (create_owned api cx qc t (KClusterQueue (order_groups (ConvertKaiwoToKueueClusterQueue q))))" for t
    using does_create_owned [OF assms, of "KClusterQueue (order_groups (ConvertKaiwoToKueueClusterQueue q))" api qc t]
    by (simp add: object_name_def name)
  show ?thesis
    unfolding sync_queue_def Let_def name
    apply (intro does_intros)
         apply (rule does_mono [OF create], simp)
        apply simp
       apply simp
      apply simp
     apply (rule does_mono [OF retry], intro does_intros, simp)
    done
qed

lemma FindTopology_name: "FindTopology ts n = Some t \<Longrightarrow> tp_name t = n \<and> t \<in> set ts"
  by (auto simp: FindTopology_def find_Some_iff)

lemma FindFlavor_name: "FindFlavor fs n = Some f \<Longrightarrow> kf_name f = n \<and> f \<in> set fs"
  by (auto simp: FindFlavor_def find_Some_iff)

lemma does_sync_topology:
  assumes "owner_ok cx"
  shows "does (\<lambda>r new. set (snd r) = {tp_name t} - {[]} \<and> list_all (\<lambda>e. deleted_by e = None) new) (sync_topology api cx qc ts t)"
proof -
  have create: "tp_name t \<noteq> [] \<Longrightarrow> does (\<lambda>r new. set (snd r) = {tp_name t} \<and> list_all (\<lambda>e. deleted_by e = None) new)
      (create_owned api cx qc s (KTopology t))" for s
    using does_create_owned [OF assms, of "KTopology t" api qc s] by (simp add: object_name_def)
  have update: "FindTopology ts (tp_name t) = Some x \<Longrightarrow> tp_name t \<noteq> [] \<Longrightarrow>
      does (\<lambda>r new. set (snd r) = {tp_name t} \<and> list_all (\<lambda>e. deleted_by e = None) new)
      (update_existing api cx s (KTopology (x\<lparr>tp_levels := l\<rparr>)))" for s x l
    using does_update_existing [of "KTopology (x\<lparr>tp_levels := l\<rparr>)" api cx s] FindTopology_name by (simp add: object_name_def)
  show ?thesis
    unfolding sync_topology_def by (intro does_intros) (simp_all add: create update)
qed

lemma does_sync_priority_class:
  assumes "owner_ok cx"
  shows "does (\<lambda>r new. set (snd r) = {pc_name pc} \<and> list_all (\<lambda>e. deleted_by e = None) new) (sync_priority_class api cx qc pc)"
proof -
  have create: "does (\<lambda>r new. set (snd r) = {pc_name pc} \<and> list_all (\<lambda>e. deleted_by e = None) new)
      (create_owned api cx qc s (KPriorityClass pc))" for s
    using does_create_owned [OF assms, of "KPriorityClass pc" api qc s] by (simp add: object_name_def)
  show ?thesis
    unfolding sync_priority_class_def
    apply (intro does_intros)
         apply (rule does_mono [OF create], simp)
        apply simp_all
    apply (rule does_mono [OF does_update_existing])
    apply (intro does_intros, simp)
    done
qed

text \<open>The replacement of a flavor deletes only after a refused update.\<close>

lemma does_recreate_flavor:
  "(\<And>pre. J (rejected @ pre) (KFlavor fresh)) \<Longrightarrow>
   does (\<lambda>r new. each_delete J (rejected @ pre) new) (recreate_flavor api cx qc fresh desired)"
  unfolding recreate_flavor_def by (intro does_intros; simp)

lemma does_replaceResourceFlavor:
  "does (\<lambda>r new. each_delete (deletion_reason spec) [] new) (replaceResourceFlavor api cx qc existing desired)"
proof -
  have reason: "deletion_reason spec (QUpdate (KFlavor g) (Some e) # pre) (KFlavor f)" if "e = Invalid \<or> e = Forbidden" for g e pre f
    using that by (auto simp: deletion_reason_def)
  have recreate: "does (\<lambda>r new. each_delete (deletion_reason spec) (QUpdate (KFlavor g) (Some e) # pre) new)
      (recreate_flavor api cx qc fresh desired)" if "e = Invalid \<or> e = Forbidden" for g e pre fresh
    using does_recreate_flavor [of "deletion_reason spec" "[QUpdate (KFlavor g) (Some e)]" fresh pre] reason [OF that] by simp
  show ?thesis
    unfolding replaceResourceFlavor_def Let_def
    apply (intro does_intros)
    apply (auto intro!: recreate split: option.splits)
    done
qed

lemma does_sync_flavor:
  assumes "owner_ok cx"
  shows "does (\<lambda>r new. set (snd r) = {kf_name f} \<and> each_delete (deletion_reason spec) [] new) (sync_flavor api cx qc fs f)"
proof -
  have create: "does (\<lambda>r new. set (snd r) = {kf_name f} \<and> each_delete (deletion_reason spec) [] new)
      (create_owned api cx qc s (KFlavor f))" for s
    by (rule does_mono [OF does_create_owned [OF assms]]) (simp add: object_name_def each_delete_none)
  show ?thesis
    unfolding sync_flavor_def
    apply (intro does_intros)
      apply (rule create)
     apply simp
    apply (rule does_mono [OF does_replaceResourceFlavor])
    apply (intro does_intros, simp)
    done
qed

text \<open>Each kind of object: the expected objects first, then the deletion of what is stale.\<close>

lemma does_sync_phase:
  assumes "\<And>x. x \<in> set xs \<Longrightarrow> does (\<lambda>r new. set (snd r) = N x \<and> each_delete J [] new) (step x)"
    and "monotone_reason J"
    and "\<And>obj pre. obj \<in> set objs \<Longrightarrow> object_name obj \<notin> (\<Union>x \<in> set xs. N x) \<Longrightarrow> J pre obj"
  shows "does (\<lambda>r new. each_delete J [] new \<and>
       (\<forall>obj \<in> set objs. object_name obj \<notin> (\<Union>x \<in> set xs. N x) \<longrightarrow> (\<exists>r. QDelete obj r \<in> set new)))
     (do { r \<leftarrow> sync_each step xs; d \<leftarrow> delete_stale api cx target tolerated (snd r) objs; ret (fst r \<and> d) })"
proof -
  have each: "does (\<lambda>r new. set (snd r) = (\<Union>x \<in> set xs. N x) \<and> each_delete J [] new) (sync_each step xs)"
    using does_sync_each [of xs False N "each_delete J []" step] assms(1) each_delete_app [OF assms(2)] by simp
  show ?thesis
  proof (rule does_seq [OF each])
    fix r :: "bool \<times> string list" and n1 assume r: "set (snd r) = (\<Union>x \<in> set xs. N x) \<and> each_delete J [] n1"
    have stale: "each_delete J [] new \<and> (\<forall>obj \<in> set objs. object_name obj \<notin> (\<Union>x \<in> set xs. N x) \<longrightarrow> (\<exists>r. QDelete obj r \<in> set new))"
      if "stale_trace (snd r) objs new" for new
      using stale_trace_justified [OF that, of J "[]"] that assms(3) r by (simp add: stale_trace_def)
    show "does (\<lambda>y n2. each_delete J [] (n1 @ n2) \<and>
          (\<forall>obj \<in> set objs. object_name obj \<notin> (\<Union>x \<in> set xs. N x) \<longrightarrow> (\<exists>r. QDelete obj r \<in> set (n1 @ n2))))
        (do { d \<leftarrow> delete_stale api cx target tolerated (snd r) objs; ret (fst r \<and> d) })"
    proof (rule does_seq [OF does_delete_stale])
      fix d n2 assume "stale_trace (snd r) objs n2 \<and> (object_name ` set objs \<subseteq> set (snd r) \<longrightarrow> d)"
      then have st: "stale_trace (snd r) objs n2" by blast
      show "does (\<lambda>y n3. each_delete J [] (n1 @ n2 @ n3) \<and>
          (\<forall>obj \<in> set objs. object_name obj \<notin> (\<Union>x \<in> set xs. N x) \<longrightarrow> (\<exists>r. QDelete obj r \<in> set (n1 @ n2 @ n3)))) (ret (fst r \<and> d))"
        using stale [OF st] each_delete_app [OF assms(2), of n1 n2] r by (intro does_return) fastforce
    qed
  qed
qed

definition deletes_all :: "kueue_object list \<Rightarrow> string set \<Rightarrow> q_event list \<Rightarrow> bool" where
  "deletes_all objs names new \<longleftrightarrow> (\<forall>obj \<in> set objs. object_name obj \<notin> names \<longrightarrow> (\<exists>r. QDelete obj r \<in> set new))"

lemma deletes_all_append: "deletes_all objs names a \<or> deletes_all objs names b \<Longrightarrow> deletes_all objs names (a @ b)"
  unfolding deletes_all_def by auto

lemma does_syncResourceFlavors:
  assumes "owner_ok cx" "rf_name ` set specs = rf_name ` set (qcs_resourceFlavors spec)"
  shows "does (\<lambda>r new. each_delete (deletion_reason spec) [] new \<and> deletes_all (map KFlavor fs) (rf_name ` set specs) new)
    (syncResourceFlavors api cx qc fs specs)"
proof -
  have names: "(\<Union>x \<in> set (map ConvertKaiwoToKueueResourceFlavor specs). {kf_name x}) = rf_name ` set specs"
    by (auto simp: ConvertKaiwoToKueueResourceFlavor_def Let_def)
  show ?thesis
    unfolding syncResourceFlavors_def deletes_all_def names [symmetric]
    by (rule does_sync_phase [OF does_sync_flavor [OF assms(1)] deletion_reason_mono])
       (unfold names assms(2), auto simp: deletion_reason_def object_name_def)
qed

lemma none_each_delete:
  "does (\<lambda>r new. Q r \<and> list_all (\<lambda>e. deleted_by e = None) new) m \<Longrightarrow> does (\<lambda>r new. Q r \<and> each_delete J [] new) m"
  by (erule does_mono) (simp add: each_delete_none)

lemma does_syncTopologies:
  assumes "owner_ok cx"
  shows "does (\<lambda>r new. each_delete (deletion_reason (qc_spec qc)) [] new \<and>
      deletes_all (map KTopology ts) (tp_name ` set (qcs_topologies (qc_spec qc)) - {[]}) new) (syncTopologies api cx qc ts)"
proof -
  have names: "(\<Union>x \<in> set (map ConvertKaiwoToKueueTopology (qcs_topologies (qc_spec qc))). {tp_name x} - {[]}) =
      tp_name ` set (qcs_topologies (qc_spec qc)) - {[]}"
    by (auto simp: ConvertKaiwoToKueueTopology_def)
  show ?thesis
    unfolding syncTopologies_def deletes_all_def names [symmetric]
    by (rule does_sync_phase [OF none_each_delete [OF does_sync_topology [OF assms]] deletion_reason_mono])
       (use names in \<open>auto simp: deletion_reason_def object_name_def\<close>)
qed

lemma does_syncClusterQueues:
  assumes "owner_ok cx"
  shows "does (\<lambda>r new. each_delete (deletion_reason (qc_spec qc)) [] new \<and>
      deletes_all (map KClusterQueue qs) (cq_name ` set (qcs_clusterQueues (qc_spec qc))) new) (syncClusterQueues api cx qc qs)"
proof -
  have names: "(\<Union>x \<in> set (qcs_clusterQueues (qc_spec qc)). {cq_name x}) = cq_name ` set (qcs_clusterQueues (qc_spec qc))" by auto
  show ?thesis
    unfolding syncClusterQueues_def deletes_all_def names [symmetric]
    by (rule does_sync_phase [OF none_each_delete [OF does_sync_queue [OF assms]] deletion_reason_mono])
       (use names in \<open>auto simp: deletion_reason_def object_name_def\<close>)
qed

lemma does_syncWorkloadPriorityClasses:
  assumes "owner_ok cx"
  shows "does (\<lambda>r new. each_delete (deletion_reason (qc_spec qc)) [] new \<and>
      deletes_all (map KPriorityClass ps) (pc_name ` set (qcs_workloadPriorityClasses (qc_spec qc))) new)
    (syncWorkloadPriorityClasses api cx qc ps)"
proof -
  have names: "(\<Union>x \<in> set (qcs_workloadPriorityClasses (qc_spec qc)). {pc_name x}) = pc_name ` set (qcs_workloadPriorityClasses (qc_spec qc))"
    by auto
  show ?thesis
    unfolding syncWorkloadPriorityClasses_def deletes_all_def names [symmetric]
    by (rule does_sync_phase [OF none_each_delete [OF does_sync_priority_class [OF assms]] deletion_reason_mono])
       (use names in \<open>auto simp: deletion_reason_def object_name_def\<close>)
qed

lemma stale_queues_of_sound:
  "map_of (stale_queues_of qs) n = Some m \<Longrightarrow> map_of m ns = Some l \<Longrightarrow> l \<in> set qs \<and> lq_name l = n \<and> lq_namespace l = ns"
proof (induction qs arbitrary: m rule: rev_induct)
  case (snoc q qs)
  have "stale_queues_of (qs @ [q]) = AList.update (lq_name q)
      (AList.update (lq_namespace q) q (map_get [] (stale_queues_of qs) (lq_name q))) (stale_queues_of qs)"
    by (simp add: stale_queues_of_def)
  then show ?case using snoc.prems snoc.IH
    by (auto simp: update_conv' map_get_def split: if_splits option.splits)
qed (simp add: stale_queues_of_def)

text \<open>The expected local queues: nothing is deleted, and the stale map only shrinks.\<close>

definition shrinks :: "stale_queues \<Rightarrow> stale_queues \<Rightarrow> bool" where
  "shrinks a b \<longleftrightarrow> (\<forall>n m. map_of b n = Some m \<longrightarrow> (\<exists>m'. map_of a n = Some m' \<and> map_of m \<subseteq>\<^sub>m map_of m'))"

lemma shrinks_refl [simp]: "shrinks a a"
  by (auto simp: shrinks_def)

lemma shrinks_trans: "shrinks a b \<Longrightarrow> shrinks b c \<Longrightarrow> shrinks a c"
  unfolding shrinks_def by (meson map_le_trans)

lemma shrinks_delete [simp]: "shrinks a (AList.delete n a)"
  by (auto simp: shrinks_def delete_conv')

lemma shrinks_forget [simp]: "shrinks a (forget_queue n ns a)"
proof (cases "map_of a n")
  case (Some m)
  have "map_of (AList.delete ns m) \<subseteq>\<^sub>m map_of m" by (simp add: delete_conv' map_le_def)
  then show ?thesis using Some by (auto simp: forget_queue_def Let_def shrinks_def update_conv' delete_conv')
qed (simp add: forget_queue_def)

lemma does_sync_namespace:
  "does (\<lambda>r new. list_all (\<lambda>e. deleted_by e = None) new \<and> shrinks (snd acc) (snd r)) (sync_namespace api cx actual q ns acc)"
  unfolding sync_namespace_def Let_def by (intro does_intros; simp)

lemma does_sync_namespaces:
  "does (\<lambda>r new. list_all (\<lambda>e. deleted_by e = None) new \<and> shrinks (snd acc) (snd r)) (sync_namespaces api cx actual q nss acc)"
proof (induction nss arbitrary: acc)
  case (Cons ns nss)
  show ?case
    unfolding sync_namespaces.simps
    by (rule does_seq [OF does_sync_namespace]) (rule does_mono [OF Cons.IH], auto intro: shrinks_trans)
qed (simp, intro does_intros, simp)

lemma does_sync_local_queue:
  "does (\<lambda>r new. list_all (\<lambda>e. deleted_by e = None) new \<and> shrinks (snd acc) (snd r)) (sync_local_queue api cx q acc)"
  unfolding sync_local_queue_def
  by (intro does_intros; (rule does_mono [OF does_sync_namespaces])?; simp)

lemma does_sync_local_queues:
  "does (\<lambda>r new. list_all (\<lambda>e. deleted_by e = None) new \<and> shrinks (snd acc) (snd r)) (sync_local_queues api cx qs acc)"
proof (induction qs arbitrary: acc)
  case (Cons q qs)
  show ?case
    unfolding sync_local_queues.simps
    by (rule does_seq [OF does_sync_local_queue]) (rule does_mono [OF Cons.IH], auto intro: shrinks_trans)
qed (simp, intro does_intros, simp)

lemma stale_to_delete_set:
  assumes "permutes_keys cx"
  shows "l \<in> set (stale_to_delete cx qs stale) \<longleftrightarrow>
    (\<exists>n m ns. map_of stale n = Some m \<and> map_of m ns = Some l \<and> lookup_namespaces qs n \<noteq> [])"
proof -
  have vals: "set (List.map_filter (map_of m) (qx_mapOrder cx 7 (map fst m))) = {l. \<exists>ns. map_of m ns = Some l}" for m :: "LocalQueue gomap"
  proof -
    have "map_of m ns = Some l \<Longrightarrow> ns \<in> fst ` set m" for ns l by (metis domI dom_map_of_conv_image_fst)
    then have "(\<exists>ns \<in> fst ` set m. map_of m ns = Some l) \<longleftrightarrow> (\<exists>ns. map_of m ns = Some l)" for l by blast
    then show ?thesis using assms by (simp add: permutes_keys_def set_map_filter)
  qed
  have keys: "n \<in> set (qx_mapOrder cx 6 (map fst stale)) \<longleftrightarrow> (\<exists>m. map_of stale n = Some m)" for n
    using assms by (simp add: permutes_keys_def) (metis domD domI dom_map_of_conv_image_fst)
  have "l \<in> set (stale_to_delete cx qs stale) \<longleftrightarrow>
      (\<exists>n \<in> set (qx_mapOrder cx 6 (map fst stale)). lookup_namespaces qs n \<noteq> [] \<and> (\<exists>ns. map_of (map_get [] stale n) ns = Some l))"
    by (auto simp: stale_to_delete_def Let_def vals split: if_splits)
  also have "\<dots> \<longleftrightarrow> (\<exists>n m ns. map_of stale n = Some m \<and> map_of m ns = Some l \<and> lookup_namespaces qs n \<noteq> [])"
    unfolding Bex_def keys by (auto simp: map_get_def) (blast, force)
  finally show ?thesis .
qed

lemma does_syncLocalQueues:
  assumes "permutes_keys cx"
  shows "does (\<lambda>r new. each_delete (deletion_reason (qc_spec qc)) [] new) (syncLocalQueues api cx qc existing)"
  unfolding syncLocalQueues_def Let_def
proof (rule does_seq [OF does_sync_local_queues])
  fix r :: "bool \<times> stale_queues" and n1 assume r: "list_all (\<lambda>e. deleted_by e = None) n1 \<and> shrinks (snd (True, stale_queues_of existing)) (snd r)"
  let ?qs = "qcs_clusterQueues (qc_spec qc)"
  have reason: "deletion_reason (qc_spec qc) pre obj" if obj: "obj \<in> set (map KLocalQueue (stale_to_delete cx ?qs (snd r)))" for obj pre
  proof -
    obtain l n m ns where l: "obj = KLocalQueue l" "map_of (snd r) n = Some m" "map_of m ns = Some l" "lookup_namespaces ?qs n \<noteq> []"
      using obj by (auto simp: stale_to_delete_set [OF assms])
    then obtain m' where "map_of (stale_queues_of existing) n = Some m'" "map_of m' ns = Some l"
      using r by (auto simp: shrinks_def map_le_def) (metis domI)
    then have "lq_name l = n" using stale_queues_of_sound by blast
    then show ?thesis using l by (simp add: deletion_reason_def)
  qed
  show "does (\<lambda>y n2. each_delete (deletion_reason (qc_spec qc)) [] (n1 @ n2))
     (do { d \<leftarrow> delete_stale api cx ''local queue'' (\<lambda>e. e = NotFound) [] (map KLocalQueue (stale_to_delete cx ?qs (snd r)));
           ret (fst r \<and> d) })"
  proof (rule does_seq [OF does_delete_stale])
    fix d n2 assume "stale_trace [] (map KLocalQueue (stale_to_delete cx ?qs (snd r))) n2 \<and>
      (object_name ` set (map KLocalQueue (stale_to_delete cx ?qs (snd r))) \<subseteq> set [] \<longrightarrow> d)"
    then have "each_delete (deletion_reason (qc_spec qc)) [] n2" using stale_trace_justified reason by blast
    then show "does (\<lambda>y n3. each_delete (deletion_reason (qc_spec qc)) [] (n1 @ n2 @ n3)) (ret (fst r \<and> d))"
      using each_delete_app [OF deletion_reason_mono, of _ n1 n2] each_delete_none r by (intro does_return) simp
  qed
qed


lemma each_delete_cons:
  "monotone_reason J \<Longrightarrow> deleted_by e = None \<Longrightarrow> each_delete J [] new \<Longrightarrow> each_delete J [] (e # new)"
  using each_delete_app [of J "[e]" new] by simp

definition sync_deletions :: "KaiwoQueueConfigSpec \<Rightarrow> KueueFlavor list \<Rightarrow> KueueClusterQueue list \<Rightarrow> WorkloadPriorityClass list \<Rightarrow> q_event list \<Rightarrow> bool" where
  "sync_deletions spec fs qs ps new \<longleftrightarrow> each_delete (deletion_reason spec) [] new \<and>
     deletes_all (map KFlavor fs) (rf_name ` set (qcs_resourceFlavors spec)) new \<and>
     deletes_all (map KClusterQueue qs) (cq_name ` set (qcs_clusterQueues spec)) new \<and>
     deletes_all (map KPriorityClass ps) (pc_name ` set (qcs_workloadPriorityClasses spec)) new"

lemma does_sync_rest:
  assumes "owner_ok cx" "permutes_keys cx" "rf_name ` set specs = rf_name ` set (qcs_resourceFlavors (qc_spec qc))"
  shows "does (\<lambda>r new. sync_deletions (qc_spec qc) fs qs ps new) (sync_rest api cx qc success fs specs qs ls ps)"
proof -
  let ?J = "deletion_reason (qc_spec qc)"
  note app = each_delete_app [OF deletion_reason_mono]
  have "does (\<lambda>r new. sync_deletions (qc_spec qc) fs qs ps new) (do {
     s1 \<leftarrow> syncResourceFlavors api cx qc fs specs;
     s2 \<leftarrow> syncClusterQueues api cx qc qs;
     s3 \<leftarrow> syncLocalQueues api cx qc ls;
     s4 \<leftarrow> syncWorkloadPriorityClasses api cx qc ps;
     ret (f s1 s2 s3 s4) })" for f :: "bool \<Rightarrow> bool \<Rightarrow> bool \<Rightarrow> bool \<Rightarrow> wl_error + unit"
  proof (rule does_seq [OF does_syncResourceFlavors [OF assms(1,3)]], rule does_seq [OF does_syncClusterQueues [OF assms(1)]],
      rule does_seq [OF does_syncLocalQueues [OF assms(2)]], rule does_seq [OF does_syncWorkloadPriorityClasses [OF assms(1)]], rule does_return)
    fix n1 n2 n3 n4
    assume "each_delete ?J [] n1 \<and> deletes_all (map KFlavor fs) (rf_name ` set specs) n1"
      "each_delete ?J [] n2 \<and> deletes_all (map KClusterQueue qs) (cq_name ` set (qcs_clusterQueues (qc_spec qc))) n2"
      "each_delete ?J [] n3"
      "each_delete ?J [] n4 \<and> deletes_all (map KPriorityClass ps) (pc_name ` set (qcs_workloadPriorityClasses (qc_spec qc))) n4"
    then show "sync_deletions (qc_spec qc) fs qs ps (n1 @ n2 @ n3 @ n4 @ [])"
      using assms(3) by (simp add: sync_deletions_def app deletes_all_append)
  qed
  then show ?thesis unfolding sync_rest_def .
qed

text \<open>
  What \<open>SyncKueueResources\<close> does: with all lists answered, every stale object is deleted and every deletion has its
  reason; after a failed list nothing is.
\<close>

definition sync_trace :: "KaiwoQueueConfigSpec \<Rightarrow> q_event list \<Rightarrow> bool" where
  "sync_trace spec new \<longleftrightarrow> each_delete (deletion_reason spec) [] new \<and>
     (\<forall>fs qs ps ls ts rest. new = QListFlavors (Inr fs) # QListClusterQueues (Inr qs) # QListPriorityClasses (Inr ps) #
         QListLocalQueues (Inr ls) # QListTopologies (Inr ts) # rest \<longrightarrow>
       sync_deletions spec fs qs ps rest \<and> deletes_all (map KTopology ts) (tp_name ` set (qcs_topologies spec) - {[]}) rest)"

lemma does_q_call:
  "(\<And>e. Q (Inl (Failed e)) [event (Inl e)]) \<Longrightarrow> (\<And>x. Q (Inr x) [event (Inr x)]) \<Longrightarrow> does Q (q_call answer event)"
  unfolding q_call_def by (intro does_intros) (auto split: sum.splits)

lemma does_SyncKueueResources:
  assumes "owner_ok cx" "permutes_keys cx"
  shows "does (\<lambda>r new. sync_trace (qc_spec qc) new) (SyncKueueResources api cx qc)"
proof -
  have strip: "rf_name ` set (stripTopologyFromResourceFlavors fl) = rf_name ` set fl" for fl
    by (auto simp: stripTopologyFromResourceFlavors_def image_image)
  note J = deletion_reason_mono [of "qc_spec qc"]
  note none = each_delete_cons [OF J]
  have topo: "does (\<lambda>r new. sync_trace (qc_spec qc) (QListFlavors (Inr fs) # QListClusterQueues (Inr qs) #
       QListPriorityClasses (Inr ps) # QListLocalQueues (Inr ls) # QListTopologies (Inr ts) # new))
     (do { success \<leftarrow> syncTopologies api cx qc ts;
           sync_rest api cx qc success fs (qcs_resourceFlavors (qc_spec qc)) qs ls ps })" for fs qs ps ls ts
  proof (rule does_seq [OF does_syncTopologies [OF assms(1)]], rule does_mono [OF does_sync_rest [OF assms refl]])
    fix n1 n2
    assume "each_delete (deletion_reason (qc_spec qc)) [] n1 \<and> deletes_all (map KTopology ts) (tp_name ` set (qcs_topologies (qc_spec qc)) - {[]}) n1"
      "sync_deletions (qc_spec qc) fs qs ps n2"
    then show "sync_trace (qc_spec qc) (QListFlavors (Inr fs) # QListClusterQueues (Inr qs) #
       QListPriorityClasses (Inr ps) # QListLocalQueues (Inr ls) # QListTopologies (Inr ts) # n1 @ n2)"
      by (simp add: sync_trace_def sync_deletions_def none each_delete_app [OF J] deletes_all_append del: each_delete.simps(2))
  qed
  have rest: "does (\<lambda>r new. sync_trace (qc_spec qc) (QListFlavors (Inr fs) # QListClusterQueues (Inr qs) #
       QListPriorityClasses (Inr ps) # QListLocalQueues (Inr ls) # QListTopologies (Inl e) # new))
     (sync_rest api cx qc True fs (stripTopologyFromResourceFlavors (qcs_resourceFlavors (qc_spec qc))) qs ls ps)" for fs qs ps ls e
    by (rule does_mono [OF does_sync_rest [OF assms strip]]) (simp add: sync_trace_def sync_deletions_def none del: each_delete.simps(2))
  show ?thesis
    unfolding SyncKueueResources_def
    apply (intro does_bindE does_q_call; simp add: sync_trace_def [of _ "[_]"])
    apply (intro does_bindE does_q_call; simp add: sync_trace_def [of _ "[_, _]"])
    apply (intro does_bindE does_q_call; simp add: sync_trace_def [of _ "[_, _, _]"])
    apply (intro does_bindE does_q_call; simp add: sync_trace_def [of _ "[_, _, _, _]"])
    apply (rule does_bind, rule does_call, rule does_case_sum)
     apply (rule does_if)
      apply (simp add: rest)
     apply (rule does_return, simp add: sync_trace_def)
    apply (simp add: topo)
    done
qed



text \<open>The calls of a synchronisation: none of them touches nodes or the configuration object.\<close>

definition kueue_event :: "q_event \<Rightarrow> bool" where
  "kueue_event e = (case e of QGetConfig _ \<Rightarrow> False | QListNodes _ \<Rightarrow> False | QGetNode _ _ \<Rightarrow> False | QPatchNode _ _ \<Rightarrow> False
     | QUpdateNode _ _ \<Rightarrow> False | QGetQueueConfig _ _ \<Rightarrow> False | QCreateQueueConfig _ _ \<Rightarrow> False
     | QUpdateQueueConfig _ _ \<Rightarrow> False | QUpdateQueueConfigStatus _ _ \<Rightarrow> False | _ \<Rightarrow> True)"

lemma kueue_event_simps [simp]:
  "kueue_event (QRecord t a m)" "kueue_event (QGetFlavor n g)" "kueue_event (QGetClusterQueue n c)" "kueue_event (QGetLocalQueue k l)"
  "kueue_event (QGetPriorityClass n pc)" "kueue_event (QListFlavors l1)" "kueue_event (QListClusterQueues l2)"
  "kueue_event (QListPriorityClasses l3)" "kueue_event (QListLocalQueues l4)" "kueue_event (QListTopologies l5)"
  "kueue_event (QCreate obj r)" "kueue_event (QUpdate obj r)" "kueue_event (QDelete obj r)"
  "\<not> kueue_event (QCreateQueueConfig qc r)"
  by (simp_all add: kueue_event_def)

lemma emits_sync_each [emits_intros]: "(\<And>x. emits P (step x)) \<Longrightarrow> emits P (sync_each step xs)"
  by (induction xs) (auto intro!: emits_intros)

lemma emits_delete_stale: "emits kueue_event (delete_stale api cx target tolerated expected objs)"
  by (induction objs) (auto intro!: emits_intros)

lemma emits_create_owned: "emits kueue_event (create_owned api cx qc target obj)"
  unfolding create_owned_def by (intro emits_intros; simp)

lemma emits_update_existing: "emits kueue_event (update_existing api cx target obj)"
  unfolding update_existing_def by (intro emits_intros; simp)

lemma emits_syncResourceFlavors: "emits kueue_event (syncResourceFlavors api cx qc fs specs)"
  unfolding syncResourceFlavors_def sync_flavor_def replaceResourceFlavor_def recreate_flavor_def Let_def
  by (intro emits_intros emits_delete_stale emits_create_owned; simp)

lemma emits_syncTopologies: "emits kueue_event (syncTopologies api cx qc ts)"
  unfolding syncTopologies_def sync_topology_def
  by (intro emits_intros emits_delete_stale emits_create_owned emits_update_existing; simp)

lemma emits_syncClusterQueues: "emits kueue_event (syncClusterQueues api cx qc qs)"
  unfolding syncClusterQueues_def sync_queue_def update_queue_def Let_def
  by (intro emits_intros emits_delete_stale emits_create_owned; simp)

lemma emits_syncWorkloadPriorityClasses: "emits kueue_event (syncWorkloadPriorityClasses api cx qc ps)"
  unfolding syncWorkloadPriorityClasses_def sync_priority_class_def
  by (intro emits_intros emits_delete_stale emits_create_owned emits_update_existing; simp)

lemma emits_sync_namespaces: "emits kueue_event (sync_namespaces api cx actual q nss acc)"
proof (induction nss arbitrary: acc)
  case (Cons ns nss)
  show ?case unfolding sync_namespaces.simps sync_namespace_def Let_def by (intro emits_intros Cons.IH; simp)
qed (simp, intro emits_intros)

lemma emits_sync_local_queues: "emits kueue_event (sync_local_queues api cx qs acc)"
proof (induction qs arbitrary: acc)
  case (Cons q qs)
  show ?case unfolding sync_local_queues.simps sync_local_queue_def by (intro emits_intros emits_sync_namespaces Cons.IH; simp)
qed (simp, intro emits_intros)

lemma emits_SyncKueueResources: "emits kueue_event (SyncKueueResources api cx qc)"
  unfolding SyncKueueResources_def sync_rest_def syncLocalQueues_def Let_def
  by (intro emits_intros emits_syncTopologies emits_syncResourceFlavors emits_syncClusterQueues emits_sync_local_queues
      emits_syncWorkloadPriorityClasses emits_delete_stale; simp)


section \<open>A missing configuration\<close>

text \<open>A server that answers the lists of Kueue objects with the given ones.\<close>

definition lists_kueue :: "QApi \<Rightarrow> KueueFlavor list \<Rightarrow> KueueClusterQueue list \<Rightarrow> WorkloadPriorityClass list \<Rightarrow> LocalQueue list \<Rightarrow> Topology list \<Rightarrow> bool" where
  "lists_kueue api fs qs ps ls ts \<longleftrightarrow> (\<forall>h. q_listFlavors api h = Inr fs \<and> q_listClusterQueues api h = Inr qs \<and>
     q_listPriorityClasses api h = Inr ps \<and> q_listLocalQueues api h = Inr ls \<and> q_listTopologies api h = Inr ts)"

definition wiped :: "KueueFlavor list \<Rightarrow> KueueClusterQueue list \<Rightarrow> WorkloadPriorityClass list \<Rightarrow> Topology list \<Rightarrow> q_event list \<Rightarrow> bool" where
  "wiped fs qs ps ts new \<longleftrightarrow>
     (\<forall>obj \<in> KFlavor ` set fs \<union> KClusterQueue ` set qs \<union> KPriorityClass ` set ps \<union> KTopology ` set ts. \<exists>r. QDelete obj r \<in> set new)"

lemma does_trivial: "does Q m \<Longrightarrow> does (\<lambda>_ _. True) m"
  by (erule does_mono) simp

lemma emits_does: "emits P m \<Longrightarrow> does (\<lambda>_ new. list_all P new) m"
  by (simp add: emits_def)

lemma does_q_call_known: "(\<And>h. answer h = Inr v) \<Longrightarrow> Q (Inr v) [event (Inr v)] \<Longrightarrow> does Q (q_call answer event)"
  by (simp add: does_def q_call_def)

lemma does_sync_lists:
  assumes "lists_kueue api fs qs ps ls ts"
  shows "does (\<lambda>r new. \<exists>rest. new = QListFlavors (Inr fs) # QListClusterQueues (Inr qs) # QListPriorityClasses (Inr ps) #
      QListLocalQueues (Inr ls) # QListTopologies (Inr ts) # rest) (SyncKueueResources api cx qc)"
proof -
  have lists: "q_listFlavors api h = Inr fs" "q_listClusterQueues api h = Inr qs" "q_listPriorityClasses api h = Inr ps"
      "q_listLocalQueues api h = Inr ls" "q_listTopologies api h = Inr ts" for h
    using assms by (simp_all add: lists_kueue_def)
  have tail: "does (\<lambda>_ _. True) (do { success \<leftarrow> syncTopologies api cx qc ts;
        sync_rest api cx qc success fs (qcs_resourceFlavors (qc_spec qc)) qs ls ps })"
    unfolding sync_rest_def syncLocalQueues_def Let_def
    by (rule does_trivial [OF emits_does [of kueue_event]])
       (intro emits_intros emits_syncTopologies emits_syncResourceFlavors emits_syncClusterQueues emits_sync_local_queues
        emits_syncWorkloadPriorityClasses emits_delete_stale; simp)
  show ?thesis
    unfolding SyncKueueResources_def
    apply (intro does_bindE, rule does_q_call_known [OF lists(1)], simp)
    apply (intro does_bindE, rule does_q_call_known [OF lists(2)], simp)
    apply (intro does_bindE, rule does_q_call_known [OF lists(3)], simp)
    apply (intro does_bindE, rule does_q_call_known [OF lists(4)], simp)
    apply (rule does_bind, rule does_call_known [OF lists(5)], simp)
    apply (rule does_mono [OF tail], simp)
    done
qed

lemma does_sync_empty:
  assumes "lists_kueue api fs qs ps ls ts" "owner_ok cx" "permutes_keys cx" "qc_spec qc = qc_spec empty_queue_config"
  shows "does (\<lambda>r new. wiped fs qs ps ts new) (sync_and_report api cx name qc)"
proof -
  have sync: "does (\<lambda>r new. wiped fs qs ps ts new) (SyncKueueResources api cx qc)"
  proof (rule does_mono [OF does_conj [OF does_sync_lists [OF assms(1)] does_SyncKueueResources [OF assms(2,3), of qc]]])
    fix r new
    assume "(\<exists>rest. new = QListFlavors (Inr fs) # QListClusterQueues (Inr qs) # QListPriorityClasses (Inr ps) #
        QListLocalQueues (Inr ls) # QListTopologies (Inr ts) # rest) \<and> sync_trace (qc_spec qc) new"
    then obtain rest where "new = QListFlavors (Inr fs) # QListClusterQueues (Inr qs) # QListPriorityClasses (Inr ps) #
        QListLocalQueues (Inr ls) # QListTopologies (Inr ts) # rest" "sync_trace (qc_spec qc) new" by blast
    then show "wiped fs qs ps ts new"
      by (auto simp: sync_trace_def sync_deletions_def deletes_all_def wiped_def assms(4) empty_queue_config_def)
  qed
  have mono: "wiped fs qs ps ts n1 \<Longrightarrow> wiped fs qs ps ts (n1 @ n2)" for n1 n2
    by (fastforce simp: wiped_def)
  have report: "does (\<lambda>_ _. True) (if b then write_queue_status api name status else ret (Inr ()))" for b status
    unfolding write_queue_status_def Let_def
    by (rule does_trivial [OF emits_does [of "\<lambda>_. True"]]) (intro emits_intros; simp)
  show ?thesis
    unfolding sync_and_report_def Let_def
    apply (rule does_seq [OF sync])
    apply (rule does_bindE, rule does_mono [OF report])
    apply (auto intro!: does_return simp: mono split: sum.splits)
    done
qed


text \<open>Only \<open>EnsureKaiwoQueueConfig\<close> creates a configuration, and it then returns an empty one.\<close>

definition creates_config :: "q_event \<Rightarrow> bool" where
  "creates_config e = (case e of QCreateQueueConfig _ r \<Rightarrow> r = None | _ \<Rightarrow> False)"

lemma creates_config_simps [simp]:
  "\<not> creates_config (QListNodes l)" "\<not> creates_config (QGetNode n g)" "\<not> creates_config (QPatchNode nd e)"
  "\<not> creates_config (QUpdateNode nd e)" "\<not> creates_config (QGetQueueConfig n qc)" "\<not> creates_config (QUpdateQueueConfig c u)"
  "\<not> creates_config (QUpdateQueueConfigStatus c e)" "\<not> creates_config (QGetConfig cfg)"
  "creates_config (QCreateQueueConfig c e) \<longleftrightarrow> e = None"
  by (auto simp: creates_config_def)

lemma emits_LabelNode [emits_intros]:
  "(\<And>n g. P (QGetNode n g)) \<Longrightarrow> (\<And>n e. P (QPatchNode n e)) \<Longrightarrow> emits P (LabelNode api cx node key v)"
  unfolding LabelNode_def Let_def by (intro emits_intros; simp)

lemma emits_TaintNode [emits_intros]:
  "(\<And>n g. P (QGetNode n g)) \<Longrightarrow> (\<And>n e. P (QUpdateNode n e)) \<Longrightarrow> emits P (TaintNode api cx node taint)"
  unfolding TaintNode_def Let_def by (intro emits_intros; simp)

lemma emits_label_pool_nodes:
  assumes "\<And>n g. P (QGetNode n g)" "\<And>n e. P (QPatchNode n e)" "\<And>n e. P (QUpdateNode n e)"
  shows "emits P (label_pool_nodes api cx config pairs)"
proof (induction pairs)
  case (Cons p pairs)
  obtain f n where "p = (f, n)" by fastforce
  then show ?case by (simp only: label_pool_nodes.simps label_pool_node_def) (intro emits_intros Cons.IH; simp add: assms)
qed (simp, intro emits_intros)

lemma emits_CreateDefaultResourceFlavors:
  assumes "\<And>l. P (QListNodes l)" "\<And>n g. P (QGetNode n g)" "\<And>n e. P (QPatchNode n e)" "\<And>n e. P (QUpdateNode n e)"
  shows "emits P (CreateDefaultResourceFlavors api cx config)"
  unfolding CreateDefaultResourceFlavors_def GetNodeResources_def Let_def
  by (intro emits_intros emits_label_pool_nodes; simp add: assms)

lemma does_ensure_default:
  "does (\<lambda>r new. list_ex creates_config new \<longrightarrow> r = Inr empty_queue_config) (ensure_default api cx config)"
proof -
  have flavors: "does (\<lambda>_ new. \<not> list_ex creates_config new) (CreateDefaultResourceFlavors api cx config)"
    using emits_CreateDefaultResourceFlavors [of "\<lambda>e. \<not> creates_config e" api cx config]
    by (simp add: emits_def list_ex_iff list_all_iff)
  show ?thesis
    unfolding ensure_default_def EnsureKaiwoQueueConfig_def Let_def
    apply (rule does_bindE, rule does_mono [OF flavors])
    apply (auto split: sum.splits)
    apply (intro does_intros does_q_call; simp split: option.splits)
    done
qed

lemma does_queueconfig_Reconcile:
  assumes "lists_kueue api fs qs ps ls ts" "owner_ok cx" "permutes_keys cx"
  shows "does (\<lambda>r new. list_ex creates_config new \<longrightarrow> wiped fs qs ps ts new) (queueconfig_Reconcile api cx name)"
proof -
  have quiet: "emits (\<lambda>e. \<not> creates_config e) m \<Longrightarrow> does (\<lambda>_ new. \<not> list_ex creates_config new) m" for m :: "'x q_prog"
    by (simp add: emits_def list_ex_iff list_all_iff)
  have kueue: "emits (\<lambda>e. \<not> creates_config e) (SyncKueueResources api cx qc)" for qc
    using emits_SyncKueueResources by (rule emits_mono) (auto simp: creates_config_def kueue_event_def split: q_event.splits)
  have report: "emits (\<lambda>e. \<not> creates_config e) (sync_and_report api cx name qc)" for qc
    unfolding sync_and_report_def write_queue_status_def Let_def by (intro emits_intros kueue; simp)
  note sync = quiet [OF report]
  have ensured: "does (\<lambda>r new. list_ex creates_config new \<longrightarrow> wiped fs qs ps ts new)
      (bindE (ensure_default api cx config) (sync_and_report api cx name))" for config
  proof (rule does_bindE, rule does_mono [OF does_ensure_default])
    fix r n1 assume r: "list_ex creates_config n1 \<longrightarrow> r = Inr empty_queue_config"
    show "case r of Inl e \<Rightarrow> list_ex creates_config n1 \<longrightarrow> wiped fs qs ps ts n1
      | Inr qc \<Rightarrow> does (\<lambda>y n2. list_ex creates_config (n1 @ n2) \<longrightarrow> wiped fs qs ps ts (n1 @ n2)) (sync_and_report api cx name qc)"
    proof (cases "list_ex creates_config n1")
      case True
      then have "r = Inr empty_queue_config" using r by blast
      then show ?thesis using does_sync_empty [OF assms refl, of name]
        by simp (erule does_mono, fastforce simp: wiped_def)
    next
      case False
      then show ?thesis by (cases r) (auto intro!: does_mono [OF sync])
    qed
  qed
  have found: "does (\<lambda>_ new. \<not> list_ex creates_config new) (bindE (CreateDefaultResourceFlavors api cx config) (\<lambda>_.
      if b then bindE (q_call (\<lambda>h. q_updateQueueConfig api h pruned) (QUpdateQueueConfig pruned)) (\<lambda>_. ret (Inr RequeueNow))
      else sync_and_report api cx name qc))" for config b pruned qc
    by (rule quiet, intro emits_intros emits_CreateDefaultResourceFlavors report; simp)
  show ?thesis
    unfolding queueconfig_Reconcile_def Let_def
    apply (rule does_if, rule does_return, simp)
    apply (rule does_bindE, rule does_q_call, simp)
    apply (simp only: sum.case)
    apply (rule does_if)
     apply (rule does_mono [OF ensured], fastforce simp: wiped_def)
    apply (rule does_bind, rule does_call, rule does_case_sum)
     apply (rule does_if)
      apply (rule does_mono [OF ensured], fastforce simp: wiped_def)
     apply (rule does_return, simp)
    apply (rule does_mono [OF found], simp)
    done
qed

text \<open>
  A missing configuration empties the cluster. When there is no KaiwoQueueConfig, the reconciler creates one from the
  node pools but goes on with an empty one: when the lists are answered, all listed resource flavors, cluster queues,
  topologies and workload priority classes are deleted, also those that the configuration just created names.
\<close>

theorem missing_config_deletes_everything:
  assumes "lists_kueue api fs qs ps ls ts" "owner_ok cx" "permutes_keys cx"
    and "history_of (queueconfig_Reconcile api cx ''kaiwo'') h = h @ new"
    and "QCreateQueueConfig created None \<in> set new"
  shows "(\<forall>f \<in> set fs. \<exists>r. QDelete (KFlavor f) r \<in> set new) \<and> (\<forall>q \<in> set qs. \<exists>r. QDelete (KClusterQueue q) r \<in> set new) \<and>
     (\<forall>p \<in> set ps. \<exists>r. QDelete (KPriorityClass p) r \<in> set new) \<and> (\<forall>t \<in> set ts. \<exists>r. QDelete (KTopology t) r \<in> set new)"
proof -
  have "list_ex creates_config new" using assms(5) by (auto simp: list_ex_iff intro!: bexI [of _ "QCreateQueueConfig created None"])
  moreover have "list_ex creates_config new \<longrightarrow> wiped fs qs ps ts new"
    using does_queueconfig_Reconcile [OF assms(1-3), of "''kaiwo''", THEN doesD, of h] assms(4) by fastforce
  ultimately show ?thesis by (simp add: wiped_def)
qed


definition example_flavor :: KueueFlavor where
  "example_flavor = ConvertKaiwoToKueueResourceFlavor (pool_flavor example_config ''amd-mi300x-8gpu-9core-90gi'')"

definition example_topology :: Topology where
  "example_topology = \<lparr>tp_name = ''default-topology'', tp_levels = [''kaiwo/topology-block'']\<rparr>"

definition example_local_queue :: LocalQueue where
  "example_local_queue = \<lparr>lq_name = ''team-queue'', lq_namespace = ''team'', lq_clusterQueue = ''team-queue''\<rparr>"

definition example_q_api :: QApi where
  "example_q_api = \<lparr>q_getConfig = (\<lambda>_. Inr example_config), q_listNodes = (\<lambda>_. Inr []), q_getNode = (\<lambda>_ _. Inl NotFound),
     q_patchNode = (\<lambda>_ _. None), q_updateNode = (\<lambda>_ _. None), q_getQueueConfig = (\<lambda>_ _. Inl NotFound),
     q_createQueueConfig = (\<lambda>_ _. None), q_updateQueueConfig = (\<lambda>_ c. Inr c), q_updateQueueConfigStatus = (\<lambda>_ _. None),
     q_listFlavors = (\<lambda>_. Inr [example_flavor]), q_listClusterQueues = (\<lambda>_. Inr []), q_listPriorityClasses = (\<lambda>_. Inr []),
     q_listLocalQueues = (\<lambda>_. Inr [example_local_queue]), q_listTopologies = (\<lambda>_. Inr [example_topology]),
     q_getFlavor = (\<lambda>_ _. Inl NotFound), q_getClusterQueue = (\<lambda>_ _. Inl NotFound), q_getLocalQueue = (\<lambda>_ _. Some NotFound),
     q_getPriorityClass = (\<lambda>_ _. Inl NotFound), q_create = (\<lambda>_ _. None), q_update = (\<lambda>_ _. None), q_delete = (\<lambda>_ _. None)\<rparr>"

lemma example_q_api_facts:
  "owner_ok example_q_ctx"
  "lists_kueue example_q_api [example_flavor] [] [] [example_local_queue] [example_topology]"
  by (simp_all add: owner_ok_def lists_kueue_def example_q_ctx_def example_q_api_def)

lemma missing_example_run:
  "list_ex creates_config (history_of (queueconfig_Reconcile example_q_api example_q_ctx ''kaiwo'') [])"
  by code_simp

lemma creates_configE: "list_ex creates_config new \<Longrightarrow> \<exists>c. QCreateQueueConfig c None \<in> set new"
proof -
  have "creates_config e \<Longrightarrow> \<exists>c. e = QCreateQueueConfig c None" for e by (cases e) (auto simp: creates_config_def)
  then show "list_ex creates_config new \<Longrightarrow> ?thesis" by (force simp: list_ex_iff)
qed

theorem missing_config_deletes_everything_witness:
  "owner_ok example_q_ctx \<and> permutes_keys example_q_ctx \<and>
   lists_kueue example_q_api [example_flavor] [] [] [example_local_queue] [example_topology] \<and>
   (let new = history_of (queueconfig_Reconcile example_q_api example_q_ctx ''kaiwo'') [] in
      (\<exists>c. QCreateQueueConfig c None \<in> set new) \<and> (\<exists>r. QDelete (KFlavor example_flavor) r \<in> set new) \<and>
      (\<exists>r. QDelete (KTopology example_topology) r \<in> set new))"
proof -
  define new where "new = history_of (queueconfig_Reconcile example_q_api example_q_ctx ''kaiwo'') []"
  obtain c where c: "QCreateQueueConfig c None \<in> set new" using creates_configE [OF missing_example_run] by (auto simp: new_def)
  have "history_of (queueconfig_Reconcile example_q_api example_q_ctx ''kaiwo'') [] = [] @ new" by (simp add: new_def)
  from missing_config_deletes_everything [OF example_q_api_facts(2,1) example_q_ctx_permutes this c]
  have "(\<exists>r. QDelete (KFlavor example_flavor) r \<in> set new) \<and> (\<exists>r. QDelete (KTopology example_topology) r \<in> set new)" by simp
  then show ?thesis using c example_q_api_facts by (auto simp: Let_def new_def [symmetric])
qed

definition example_queue_config :: KaiwoQueueConfig where
  "example_queue_config = \<lparr>qc_name = ''kaiwo'', qc_spec = \<lparr>qcs_clusterQueues =
       [(CreateClusterQueue example_q_ctx [] ''team-queue'' ''kaiwo'')\<lparr>cq_namespaces := [''team'']\<rparr>], qcs_resourceFlavors = [],
     qcs_workloadPriorityClasses = [], qcs_topologies = [example_topology]\<rparr>, qc_status = QueueConfigStatusReady\<rparr>"

lemma example_sync_starts:
  "take 5 (history_of (SyncKueueResources example_q_api example_q_ctx example_queue_config) []) =
     [QListFlavors (Inr [example_flavor]), QListClusterQueues (Inr []), QListPriorityClasses (Inr []),
      QListLocalQueues (Inr [example_local_queue]), QListTopologies (Inr [example_topology])]"
  by code_simp



section \<open>Local queues\<close>

definition absent :: "string \<Rightarrow> string \<Rightarrow> stale_queues \<Rightarrow> bool" where
  "absent n ns stale \<longleftrightarrow> (\<forall>m. map_of stale n = Some m \<longrightarrow> map_of m ns = None)"

lemma absent_shrinks: "shrinks a b \<Longrightarrow> absent n ns a \<Longrightarrow> absent n ns b"
proof -
  assume sh: "shrinks a b" and ab: "absent n ns a"
  have "map_of m ns = None" if m: "map_of b n = Some m" for m
  proof (rule ccontr)
    assume "map_of m ns \<noteq> None"
    moreover obtain m' where "map_of a n = Some m'" "map_of m \<subseteq>\<^sub>m map_of m'" using sh m unfolding shrinks_def by blast
    ultimately have "map_of m' ns \<noteq> None" by (auto simp: map_le_def) (metis domI option.distinct(1))
    with ab \<open>map_of a n = Some m'\<close> show False by (simp add: absent_def)
  qed
  then show ?thesis by (simp add: absent_def)
qed

lemma absent_forget: "absent n ns (forget_queue n ns stale)"
  by (auto simp: absent_def forget_queue_def Let_def update_conv' delete_conv' split: option.splits if_splits)

lemma forget_other: "n \<noteq> n' \<Longrightarrow> map_of (forget_queue n' ns stale) n = map_of stale n"
  by (auto simp: forget_queue_def Let_def update_conv' delete_conv' split: option.splits)

text \<open>A queue touches the entries of its own name only.\<close>

lemma does_sync_namespaces_other:
  "n \<noteq> cq_name q \<Longrightarrow> does (\<lambda>r new. map_of (snd r) n = map_of (snd acc) n) (sync_namespaces api cx actual q nss acc)"
proof (induction nss arbitrary: acc)
  case (Cons ns nss)
  have step: "does (\<lambda>r new. map_of (snd r) n = map_of (snd acc) n) (sync_namespace api cx actual q ns acc)"
    unfolding sync_namespace_def Let_def using Cons.prems by (intro does_intros; simp add: forget_other)
  show ?case unfolding sync_namespaces.simps
    by (rule does_seq [OF step]) (rule does_mono [OF Cons.IH [OF Cons.prems]], simp)
qed (simp, intro does_intros, simp)

lemma does_sync_local_queue_other:
  "n \<noteq> cq_name q \<Longrightarrow> does (\<lambda>r new. map_of (snd r) n = map_of (snd acc) n) (sync_local_queue api cx q acc)"
  unfolding sync_local_queue_def
  by (intro does_intros; (rule does_mono [OF does_sync_namespaces_other])?; simp add: delete_conv')

text \<open>A queue that the server does not return is left out.\<close>

lemma does_sync_local_queues_deferred:
  assumes "\<And>h. q_getClusterQueue api h n = Inl e"
  shows "does (\<lambda>r new. map_of (snd r) n = map_of (snd acc) n) (sync_local_queues api cx qs acc)"
proof (induction qs arbitrary: acc)
  case (Cons q qs)
  have step: "does (\<lambda>r new. map_of (snd r) n = map_of (snd acc) n) (sync_local_queue api cx q acc)"
  proof (cases "n = cq_name q")
    case True
    show ?thesis
      unfolding sync_local_queue_def True [symmetric]
      by (rule does_bind, rule does_call_known [OF assms]) (auto intro!: does_intros)
  next
    case False
    then show ?thesis by (rule does_sync_local_queue_other)
  qed
  show ?case unfolding sync_local_queues.simps
    by (rule does_seq [OF step]) (rule does_mono [OF Cons.IH], simp)
qed (simp, intro does_intros, simp)

lemma stale_queues_of_complete:
  assumes "distinct (map (\<lambda>l. (lq_name l, lq_namespace l)) ls)" "l \<in> set ls"
  shows "\<exists>m. map_of (stale_queues_of ls) (lq_name l) = Some m \<and> map_of m (lq_namespace l) = Some l"
  using assms
proof (induction ls rule: rev_induct)
  case (snoc q qs)
  have upd: "stale_queues_of (qs @ [q]) = AList.update (lq_name q)
      (AList.update (lq_namespace q) q (map_get [] (stale_queues_of qs) (lq_name q))) (stale_queues_of qs)"
    by (simp add: stale_queues_of_def)
  show ?case
  proof (cases "l = q")
    case True
    then show ?thesis by (simp add: upd update_conv')
  next
    case False
    then have l: "l \<in> set qs" "(lq_name l, lq_namespace l) \<noteq> (lq_name q, lq_namespace q)" using snoc.prems by (force simp: image_iff)+
    then obtain m where "map_of (stale_queues_of qs) (lq_name l) = Some m" "map_of m (lq_namespace l) = Some l"
      using snoc by auto
    then show ?thesis using l(2) by (auto simp: upd update_conv' map_get_def)
  qed
qed simp

lemma lookup_namespaces_distinct:
  assumes "distinct (map cq_name qs)" "q \<in> set qs"
  shows "lookup_namespaces qs (cq_name q) = cq_namespaces q"
  using assms
proof (induction qs rule: rev_induct)
  case (snoc x qs)
  have "lookup_namespaces (qs @ [x]) n = (if n = cq_name x then cq_namespaces x else lookup_namespaces qs n)" for n
    by (simp add: lookup_namespaces_def map_get_update)
  then show ?case using snoc by (auto simp: image_iff)
qed simp

lemma lookup_namespaces_in: "lookup_namespaces qs n \<noteq> [] \<Longrightarrow> \<exists>q \<in> set qs. cq_name q = n"
proof (induction qs rule: rev_induct)
  case (snoc x qs)
  have "lookup_namespaces (qs @ [x]) n = (if n = cq_name x then cq_namespaces x else lookup_namespaces qs n)"
    by (simp add: lookup_namespaces_def map_get_update)
  then show ?case using snoc by (auto split: if_splits)
qed (simp add: lookup_namespaces_def)

text \<open>
  A cluster queue that cannot be read loses its local queues. When the server does not return a cluster queue of the
  specification that lists namespaces (it was just created, or the call failed), all its listed local queues are
  deleted in this pass, although the comment there says that their management is deferred.
\<close>

theorem unread_queue_loses_local_queues:
  assumes "permutes_keys cx" "distinct (map cq_name (qcs_clusterQueues (qc_spec queueConfig)))"
    and "distinct (map (\<lambda>l. (lq_name l, lq_namespace l)) existing)"
    and "q \<in> set (qcs_clusterQueues (qc_spec queueConfig))" "cq_namespaces q \<noteq> []"
    and "\<And>h. q_getClusterQueue api h (cq_name q) = Inl e"
    and "l \<in> set existing" "lq_name l = cq_name q"
    and "history_of (syncLocalQueues api cx queueConfig existing) h = h @ new"
  shows "\<exists>r. QDelete (KLocalQueue l) r \<in> set new"
proof -
  let ?qs = "qcs_clusterQueues (qc_spec queueConfig)"
  obtain m where m: "map_of (stale_queues_of existing) (cq_name q) = Some m" "map_of m (lq_namespace l) = Some l"
    using stale_queues_of_complete [OF assms(3,7)] assms(8) by auto
  have "does (\<lambda>r new. \<exists>r. QDelete (KLocalQueue l) r \<in> set new) (syncLocalQueues api cx queueConfig existing)"
    unfolding syncLocalQueues_def Let_def
  proof (rule does_seq [OF does_sync_local_queues_deferred [OF assms(6)]])
    fix r :: "bool \<times> stale_queues" and n1
    assume "map_of (snd r) (cq_name q) = map_of (snd (True, stale_queues_of existing)) (cq_name q)"
    then have "map_of (snd r) (cq_name q) = Some m" using m(1) by simp
    moreover have "lookup_namespaces ?qs (cq_name q) \<noteq> []" using lookup_namespaces_distinct [OF assms(2,4)] assms(5) by simp
    ultimately have "l \<in> set (stale_to_delete cx ?qs (snd r))"
      unfolding stale_to_delete_set [OF assms(1)] using m(2) by blast
    then show "does (\<lambda>y n2. \<exists>r. QDelete (KLocalQueue l) r \<in> set (n1 @ n2))
       (do { d \<leftarrow> delete_stale api cx ''local queue'' (\<lambda>e. e = NotFound) [] (map KLocalQueue (stale_to_delete cx ?qs (snd r)));
             ret (fst r \<and> d) })"
      by (intro does_seq [OF does_delete_stale] does_return) (auto simp: stale_trace_def)
  qed
  from doesD [OF this, of h] show ?thesis using assms(9) by fastforce
qed


lemma example_queue: "qcs_clusterQueues (qc_spec example_queue_config) =
    [(CreateClusterQueue example_q_ctx [] ''team-queue'' ''kaiwo'')\<lparr>cq_namespaces := [''team'']\<rparr>]"
  "cq_name (CreateClusterQueue example_q_ctx [] ''team-queue'' ''kaiwo'') = ''team-queue''"
  by (simp_all add: example_queue_config_def CreateClusterQueue_def Let_def)

theorem unread_queue_loses_local_queues_witness:
  "\<exists>q \<in> set (qcs_clusterQueues (qc_spec example_queue_config)). cq_namespaces q = [''team''] \<and> lq_name example_local_queue = cq_name q \<and>
     (\<forall>h. q_getClusterQueue example_q_api h (cq_name q) = Inl NotFound) \<and>
     (\<exists>r. QDelete (KLocalQueue example_local_queue) r \<in>
        set (history_of (syncLocalQueues example_q_api example_q_ctx example_queue_config [example_local_queue]) []))"
proof -
  define q where "q = (CreateClusterQueue example_q_ctx [] ''team-queue'' ''kaiwo'')\<lparr>cq_namespaces := [''team'']\<rparr>"
  have qs: "qcs_clusterQueues (qc_spec example_queue_config) = [q]" by (simp add: example_queue q_def)
  have q: "cq_namespaces q = [''team'']" "lq_name example_local_queue = cq_name q"
    by (simp_all add: q_def example_queue example_local_queue_def)
  have get: "q_getClusterQueue example_q_api h (cq_name q) = Inl NotFound" for h by (simp add: example_q_api_def)
  have "\<exists>r. QDelete (KLocalQueue example_local_queue) r \<in>
        set (history_of (syncLocalQueues example_q_api example_q_ctx example_queue_config [example_local_queue]) [])"
    by (rule unread_queue_loses_local_queues [OF example_q_ctx_permutes, of example_queue_config "[example_local_queue]" q
          example_q_api NotFound example_local_queue "[]"]) (simp_all add: qs q get)
  then show ?thesis using qs q get by auto
qed


section \<open>The cluster queue that Kueue gets\<close>

lemma map_of_by_name:
  assumes "distinct (map f xs)"
  shows "map_of (foldl (\<lambda>m x. AList.update (f x) x m) [] xs) k = Some x \<longleftrightarrow> x \<in> set xs \<and> f x = k"
  using assms
proof (induction xs rule: rev_induct)
  case (snoc y xs)
  then show ?case by (auto simp: update_conv' image_iff)
qed simp

lemma filter_one: "distinct (map f xs) \<Longrightarrow> x \<in> set xs \<Longrightarrow> filter (\<lambda>y. f y = f x) xs = [x]"
  by (induction xs) (auto simp: filter_empty_conv image_iff)

lemma map_filter_total: "(\<And>k. k \<in> set ks \<Longrightarrow> \<exists>x. g k = Some x \<and> f x = k) \<Longrightarrow> map f (List.map_filter g ks) = ks"
  by (induction ks) (fastforce simp: map_filter_simps)+

lemma order_resources_names:
  assumes "distinct (map rq_name (fq_resources fl))" "set (map rq_name (fq_resources fl)) = set cs" "distinct cs"
  shows "map rq_name (fq_resources (order_resources cs fl)) = cs" "fq_name (order_resources cs fl) = fq_name fl"
    "quota_of (order_resources cs fl) r = quota_of fl r"
proof -
  define g where "g = map_of (foldl (\<lambda>m r. AList.update (rq_name r) r m) [] (fq_resources fl))"
  have g: "g k = Some x \<longleftrightarrow> x \<in> set (fq_resources fl) \<and> rq_name x = k" for k x
    unfolding g_def by (rule map_of_by_name [OF assms(1)])
  have res: "fq_resources (order_resources cs fl) = List.map_filter g cs" by (simp add: order_resources_def g_def)
  have total: "\<exists>x. g k = Some x \<and> rq_name x = k" if "k \<in> set cs" for k
  proof -
    have "k \<in> rq_name ` set (fq_resources fl)" using that assms(2) by simp
    then show ?thesis by (auto simp: g)
  qed
  show names: "map rq_name (fq_resources (order_resources cs fl)) = cs"
    unfolding res using total by (rule map_filter_total)
  show "fq_name (order_resources cs fl) = fq_name fl" by (simp add: order_resources_def)
  have members: "x \<in> set (List.map_filter g cs) \<longleftrightarrow> x \<in> set (fq_resources fl)" for x
  proof -
    show ?thesis using assms(2) by (auto simp: g set_map_filter)
  qed
  show "quota_of (order_resources cs fl) r = quota_of fl r"
  proof (cases "\<exists>x \<in> set (fq_resources fl). rq_name x = r")
    case True
    then obtain x where x: "x \<in> set (fq_resources fl)" "rq_name x = r" by blast
    then show ?thesis
      using filter_one [OF assms(1) x(1)] filter_one [of rq_name "List.map_filter g cs" x] names assms(3) members [of x]
      by (simp add: quota_of_def res)
  next
    case False
    then have "filter (\<lambda>x. rq_name x = r) (fq_resources fl) = []" "filter (\<lambda>x. rq_name x = r) (List.map_filter g cs) = []"
      using members by (auto simp: filter_empty_conv)
    then show ?thesis by (simp add: quota_of_def res)
  qed
qed



definition example_pool_resources :: "FlavorQuotas gomap" where
  "example_pool_resources = [
     (''amd-mi300x-8gpu-9core-90gi'', \<lparr>fq_name = ''amd-mi300x-8gpu-9core-90gi'', fq_resources =
        [\<lparr>rq_name = ''cpu'', rq_nominalQuota = 9\<rparr>, \<lparr>rq_name = ''amd.com/gpu'', rq_nominalQuota = 8\<rparr>]\<rparr>),
     (''cpu-only-0gpu-9core-90gi'', \<lparr>fq_name = ''cpu-only-0gpu-9core-90gi'', fq_resources =
        [\<lparr>rq_name = ''cpu'', rq_nominalQuota = 18\<rparr>]\<rparr>)]"


section \<open>A synchronised cluster stays as it is\<close>

text \<open>
  The cluster agrees with the specification: names are distinct and topologies have one; the listed flavors and
  topologies are the specified ones; the cluster queues and priority classes that are read back agree with the
  specification and no others are listed; the local queues of the listed namespaces exist, and every other local queue
  belongs to a queue without namespaces or to none.
\<close>

definition converged :: "QApi \<Rightarrow> QCtx \<Rightarrow> KaiwoQueueConfigSpec \<Rightarrow> bool" where
  "converged api cx spec \<longleftrightarrow> (\<exists>qs ps ls.
     lists_kueue api (map ConvertKaiwoToKueueResourceFlavor (qcs_resourceFlavors spec)) qs ps ls (qcs_topologies spec) \<and>
     distinct (map rf_name (qcs_resourceFlavors spec)) \<and> distinct (map cq_name (qcs_clusterQueues spec)) \<and>
     distinct (map tp_name (qcs_topologies spec)) \<and> list_all (\<lambda>t. tp_name t \<noteq> []) (qcs_topologies spec) \<and>
     list_all (\<lambda>k. kq_name k \<in> cq_name ` set (qcs_clusterQueues spec)) qs \<and>
     list_all (\<lambda>p. pc_name p \<in> pc_name ` set (qcs_workloadPriorityClasses spec)) ps \<and>
     (\<forall>q \<in> set (qcs_clusterQueues spec). \<forall>h. \<exists>k. q_getClusterQueue api h (cq_name q) = Inr k \<and>
        qx_queueSpecEqual cx (kq_spec k) (kq_spec (order_groups (ConvertKaiwoToKueueClusterQueue q)))) \<and>
     (\<forall>p \<in> set (qcs_workloadPriorityClasses spec). \<forall>h. \<exists>k. q_getPriorityClass api h (pc_name p) = Inr k \<and> pc_value k = pc_value p) \<and>
     (\<forall>q \<in> set (qcs_clusterQueues spec). \<forall>ns \<in> set (cq_namespaces q). \<forall>h.
        q_getLocalQueue api h \<lparr>key_name = cq_name q, key_namespace = ns\<rparr> = None) \<and>
     list_all (\<lambda>l. lookup_namespaces (qcs_clusterQueues spec) (lq_name l) = [] \<or>
        lq_namespace l \<in> set (lookup_namespaces (qcs_clusterQueues spec) (lq_name l))) ls)"

definition quiet_step :: "string \<Rightarrow> bool \<times> string list \<Rightarrow> q_event list \<Rightarrow> bool" where
  "quiet_step n r new \<longleftrightarrow> fst r \<and> set (snd r) = {n} \<and> list_all harmless new"

lemma quiet_phase:
  assumes "\<And>x. x \<in> set xs \<Longrightarrow> does (quiet_step (N x)) (step x)" "object_name ` set objs \<subseteq> N ` set xs"
  shows "does (\<lambda>r new. r \<and> list_all harmless new)
    (do { r \<leftarrow> sync_each step xs; d \<leftarrow> delete_stale api cx target tolerated (snd r) objs; ret (fst r \<and> d) })"
proof -
  have each: "does (\<lambda>r new. fst r \<and> set (snd r) = N ` set xs \<and> list_all harmless new) (sync_each step xs)"
    using does_sync_each [of xs True "\<lambda>x. {N x}" "list_all harmless" step] assms(1) by (simp add: quiet_step_def [abs_def] UNION_singleton_eq_range)
  show ?thesis
  proof (rule does_seq [OF each], rule does_seq [OF does_delete_stale], rule does_return)
    fix r :: "bool \<times> string list" and n1 d n2
    assume r: "fst r \<and> set (snd r) = N ` set xs \<and> list_all harmless n1"
      and d: "stale_trace (snd r) objs n2 \<and> (object_name ` set objs \<subseteq> set (snd r) \<longrightarrow> d)"
    have "list_all harmless n2"
      using d r assms(2) by (auto simp: stale_trace_def list_all_iff split: option.splits) (metis imageI option.exhaust subsetD)
    then show "(fst r \<and> d) \<and> list_all harmless (n1 @ n2 @ [])" using r d assms(2) by simp
  qed
qed


lemma find_by_name: "distinct (map f xs) \<Longrightarrow> x \<in> set xs \<Longrightarrow> List.find (\<lambda>y. f y = f x) xs = Some x"
  by (induction xs) (auto simp: image_iff)

lemma CompareResourceFlavors_refl: "CompareResourceFlavors (ConvertKaiwoToKueueResourceFlavor f) (ConvertKaiwoToKueueResourceFlavor f)"
proof -
  have "distinct (map fst (foldl (\<lambda>m (k, v). AList.update k v m) [] xs))" for xs :: "string gomap"
    by (induction xs rule: rev_induct) (auto simp: distinct_update)
  then have "same_map m m" if "kfs_nodeLabels (kf_spec (ConvertKaiwoToKueueResourceFlavor f)) = Some m" for m
    using that by (auto simp: ConvertKaiwoToKueueResourceFlavor_def Let_def same_map_def list_all_iff distinct_update split: if_splits)
  then show ?thesis by (auto simp: CompareResourceFlavors_def split: option.splits)
qed

lemma quiet_flavor:
  assumes "distinct (map rf_name specs)" "f \<in> set specs"
  shows "does (quiet_step (kf_name (ConvertKaiwoToKueueResourceFlavor f)))
    (sync_flavor api cx qc (map ConvertKaiwoToKueueResourceFlavor specs) (ConvertKaiwoToKueueResourceFlavor f))"
proof -
  have "kf_name (ConvertKaiwoToKueueResourceFlavor x) = rf_name x" for x
    by (simp add: ConvertKaiwoToKueueResourceFlavor_def Let_def)
  then have "FindFlavor (map ConvertKaiwoToKueueResourceFlavor specs) (kf_name (ConvertKaiwoToKueueResourceFlavor f)) =
      Some (ConvertKaiwoToKueueResourceFlavor f)"
    unfolding FindFlavor_def using assms by (intro find_by_name) (simp_all add: comp_def)
  then show ?thesis
    unfolding sync_flavor_def using CompareResourceFlavors_refl [of f]
    by simp (intro does_return, simp add: quiet_step_def)
qed

lemma quiet_topology:
  assumes "distinct (map tp_name ts)" "list_all (\<lambda>t. tp_name t \<noteq> []) ts" "t \<in> set ts"
  shows "does (quiet_step (tp_name t)) (sync_topology api cx qc ts t)"
proof -
  have "FindTopology ts (tp_name t) = Some t" unfolding FindTopology_def using assms by (intro find_by_name)
  moreover have "tp_name t \<noteq> []" using assms by (auto simp: list_all_iff)
  ultimately show ?thesis
    unfolding sync_topology_def by (simp add: CompareTopologies_def, intro does_return, simp add: quiet_step_def)
qed

lemma quiet_queue:
  assumes "\<And>h. \<exists>k. q_getClusterQueue api h (cq_name q) = Inr k \<and>
      qx_queueSpecEqual cx (kq_spec k) (kq_spec (order_groups (ConvertKaiwoToKueueClusterQueue q)))"
  shows "does (quiet_step (cq_name q)) (sync_queue api cx qc q)"
proof -
  have name: "kq_name (order_groups (ConvertKaiwoToKueueClusterQueue q)) = cq_name q"
    by (simp add: order_groups_def ConvertKaiwoToKueueClusterQueue_def)
  show ?thesis
    unfolding sync_queue_def Let_def name
    apply (rule does_bind, rule does_call_answer)
    subgoal for h using assms [of h] by clarsimp (intro does_return, simp add: quiet_step_def)
    done
qed

lemma quiet_priority_class:
  assumes "\<And>h. \<exists>k. q_getPriorityClass api h (pc_name p) = Inr k \<and> pc_value k = pc_value p"
  shows "does (quiet_step (pc_name p)) (sync_priority_class api cx qc p)"
  unfolding sync_priority_class_def
  apply (rule does_bind, rule does_call_answer)
  subgoal for h
    using assms [of h]
    by (clarsimp simp: ComparePriorityClasses_def) (intro does_return, simp add: quiet_step_def)
  done


text \<open>Local queues that all exist: they leave the map of stale queues, and nothing is written.\<close>

definition quiet_locals :: "(string \<times> string) set \<Rightarrow> bool \<times> stale_queues \<Rightarrow> bool \<times> stale_queues \<Rightarrow> q_event list \<Rightarrow> bool" where
  "quiet_locals K acc r new \<longleftrightarrow> fst r = fst acc \<and> list_all harmless new \<and> shrinks (snd acc) (snd r) \<and> (\<forall>(n, ns) \<in> K. absent n ns (snd r))"

lemma quiet_locals_seq:
  assumes "quiet_locals K acc r n1" "quiet_locals L r r' n2"
  shows "quiet_locals (K \<union> L) acc r' (n1 @ n2)"
proof -
  have sh: "shrinks (snd r) (snd r')" using assms by (simp add: quiet_locals_def)
  have "absent n ns (snd r')" if "(n, ns) \<in> K \<union> L" for n ns
    using that assms absent_shrinks [OF sh] by (auto simp: quiet_locals_def)
  then show ?thesis using assms by (auto simp: quiet_locals_def intro: shrinks_trans)
qed

lemma quiet_namespaces:
  "(\<And>ns h. ns \<in> set nss \<Longrightarrow> q_getLocalQueue api h \<lparr>key_name = cq_name q, key_namespace = ns\<rparr> = None) \<Longrightarrow>
   does (quiet_locals (Pair (cq_name q) ` set nss) acc) (sync_namespaces api cx actual q nss acc)"
proof (induction nss arbitrary: acc)
  case Nil
  show ?case by (simp, intro does_return) (simp add: quiet_locals_def)
next
  case (Cons ns nss)
  have step: "does (quiet_locals {(cq_name q, ns)} acc) (sync_namespace api cx actual q ns acc)"
    unfolding sync_namespace_def Let_def using Cons.prems [of ns]
    by (intro does_bind does_call_answer) (simp, intro does_return, simp add: quiet_locals_def absent_forget)
  have IH: "does (quiet_locals (Pair (cq_name q) ` set nss) a) (sync_namespaces api cx actual q nss a)" for a
    using Cons.IH Cons.prems by simp
  show ?case
    unfolding sync_namespaces.simps
    by (rule does_seq [OF step], rule does_mono [OF IH]) (drule (1) quiet_locals_seq, simp)
qed

lemma quiet_local_queues:
  "(\<And>q h. q \<in> set qs \<Longrightarrow> \<exists>k. q_getClusterQueue api h (cq_name q) = Inr k) \<Longrightarrow>
   (\<And>q ns h. q \<in> set qs \<Longrightarrow> ns \<in> set (cq_namespaces q) \<Longrightarrow> q_getLocalQueue api h \<lparr>key_name = cq_name q, key_namespace = ns\<rparr> = None) \<Longrightarrow>
   does (quiet_locals (\<Union>q \<in> set qs. Pair (cq_name q) ` set (cq_namespaces q)) acc) (sync_local_queues api cx qs acc)"
proof (induction qs arbitrary: acc)
  case Nil
  show ?case by (simp, intro does_return) (simp add: quiet_locals_def)
next
  case (Cons q qs)
  have nss: "does (quiet_locals (Pair (cq_name q) ` set (cq_namespaces q)) acc) (sync_namespaces api cx k q (cq_namespaces q) acc)" for k
    using Cons.prems(2) by (intro quiet_namespaces) simp
  have step: "does (quiet_locals (Pair (cq_name q) ` set (cq_namespaces q)) acc) (sync_local_queue api cx q acc)"
    unfolding sync_local_queue_def
    apply (rule does_bind, rule does_call_answer)
    subgoal for h
      using Cons.prems(1) [of q h] nss
      by (auto simp: quiet_locals_def [abs_def] intro!: does_return elim!: does_mono)
    done
  have IH: "does (quiet_locals (\<Union>q \<in> set qs. Pair (cq_name q) ` set (cq_namespaces q)) a) (sync_local_queues api cx qs a)" for a
    using Cons.IH Cons.prems by simp
  show ?case
    unfolding sync_local_queues.simps
    by (rule does_seq [OF step], rule does_mono [OF IH]) (drule (1) quiet_locals_seq, simp)
qed

lemma quiet_syncLocalQueues:
  assumes "permutes_keys cx" "distinct (map cq_name (qcs_clusterQueues (qc_spec qc)))"
    and "\<And>q h. q \<in> set (qcs_clusterQueues (qc_spec qc)) \<Longrightarrow> \<exists>k. q_getClusterQueue api h (cq_name q) = Inr k"
    and "\<And>q ns h. q \<in> set (qcs_clusterQueues (qc_spec qc)) \<Longrightarrow> ns \<in> set (cq_namespaces q) \<Longrightarrow>
      q_getLocalQueue api h \<lparr>key_name = cq_name q, key_namespace = ns\<rparr> = None"
    and "list_all (\<lambda>l. lookup_namespaces (qcs_clusterQueues (qc_spec qc)) (lq_name l) = [] \<or>
        lq_namespace l \<in> set (lookup_namespaces (qcs_clusterQueues (qc_spec qc)) (lq_name l))) ls"
  shows "does (\<lambda>r new. r \<and> list_all harmless new) (syncLocalQueues api cx qc ls)"
  unfolding syncLocalQueues_def Let_def
proof (rule does_seq [OF quiet_local_queues [OF assms(3,4)]])
  let ?qs = "qcs_clusterQueues (qc_spec qc)"
  fix r :: "bool \<times> stale_queues" and n1
  assume r: "quiet_locals (\<Union>q \<in> set ?qs. Pair (cq_name q) ` set (cq_namespaces q)) (True, stale_queues_of ls) r n1"
  have "stale_to_delete cx ?qs (snd r) = []"
  proof (rule ccontr)
    assume "stale_to_delete cx ?qs (snd r) \<noteq> []"
    then obtain l where "l \<in> set (stale_to_delete cx ?qs (snd r))" by (cases "stale_to_delete cx ?qs (snd r)") auto
    then obtain n m ns where l: "map_of (snd r) n = Some m" "map_of m ns = Some l" "lookup_namespaces ?qs n \<noteq> []"
      unfolding stale_to_delete_set [OF assms(1)] by blast
    then obtain m' where "map_of (stale_queues_of ls) n = Some m'" "map_of m' ns = Some l"
      using r by (auto simp: quiet_locals_def shrinks_def map_le_def) (metis domI)
    then have own: "l \<in> set ls" "lq_name l = n" "lq_namespace l = ns" using stale_queues_of_sound by blast+
    then have "ns \<in> set (lookup_namespaces ?qs n)" using assms(5) l(3) by (auto simp: list_all_iff)
    moreover obtain q where q: "q \<in> set ?qs" "cq_name q = n"
      using lookup_namespaces_in [OF l(3)] by blast
    ultimately have "(n, ns) \<in> (\<Union>q \<in> set ?qs. Pair (cq_name q) ` set (cq_namespaces q))"
      using lookup_namespaces_distinct [OF assms(2) q(1)] by auto
    then have "absent n ns (snd r)" using r by (auto simp: quiet_locals_def)
    then show False using l(1,2) by (simp add: absent_def)
  qed
  then show "does (\<lambda>y n2. y \<and> list_all harmless (n1 @ n2))
     (do { d \<leftarrow> delete_stale api cx ''local queue'' (\<lambda>e. e = NotFound) [] (map KLocalQueue (stale_to_delete cx ?qs (snd r)));
           ret (fst r \<and> d) })"
    using r by simp (intro does_intros, simp add: quiet_locals_def)
qed


text \<open>
  C24: A synchronised cluster stays as it is. When the Kueue objects agree with the specification, \<open>SyncKueueResources\<close>
  succeeds and writes nothing: it only lists and reads.
\<close>

theorem converged_sync_is_quiet:
  assumes "permutes_keys cx" "converged api cx (qc_spec queueConfig)"
  shows "\<exists>new. run_state (SyncKueueResources api cx queueConfig) h = (Inr (), h @ new) \<and> list_all harmless new"
proof -
  let ?spec = "qc_spec queueConfig"
  obtain qs ps ls where c: "lists_kueue api (map ConvertKaiwoToKueueResourceFlavor (qcs_resourceFlavors ?spec)) qs ps ls (qcs_topologies ?spec)"
     "distinct (map rf_name (qcs_resourceFlavors ?spec))" "distinct (map cq_name (qcs_clusterQueues ?spec))"
     "distinct (map tp_name (qcs_topologies ?spec))" "list_all (\<lambda>t. tp_name t \<noteq> []) (qcs_topologies ?spec)"
     "list_all (\<lambda>k. kq_name k \<in> cq_name ` set (qcs_clusterQueues ?spec)) qs"
     "list_all (\<lambda>p. pc_name p \<in> pc_name ` set (qcs_workloadPriorityClasses ?spec)) ps"
     "\<forall>q \<in> set (qcs_clusterQueues ?spec). \<forall>h. \<exists>k. q_getClusterQueue api h (cq_name q) = Inr k \<and>
        qx_queueSpecEqual cx (kq_spec k) (kq_spec (order_groups (ConvertKaiwoToKueueClusterQueue q)))"
     "\<forall>p \<in> set (qcs_workloadPriorityClasses ?spec). \<forall>h. \<exists>k. q_getPriorityClass api h (pc_name p) = Inr k \<and> pc_value k = pc_value p"
     "\<forall>q \<in> set (qcs_clusterQueues ?spec). \<forall>ns \<in> set (cq_namespaces q). \<forall>h.
        q_getLocalQueue api h \<lparr>key_name = cq_name q, key_namespace = ns\<rparr> = None"
     "list_all (\<lambda>l. lookup_namespaces (qcs_clusterQueues ?spec) (lq_name l) = [] \<or>
        lq_namespace l \<in> set (lookup_namespaces (qcs_clusterQueues ?spec) (lq_name l))) ls"
    using assms(2) unfolding converged_def by (elim exE conjE) (rule that)
  have lists: "q_listFlavors api h = Inr (map ConvertKaiwoToKueueResourceFlavor (qcs_resourceFlavors ?spec))"
      "q_listClusterQueues api h = Inr qs" "q_listPriorityClasses api h = Inr ps" "q_listLocalQueues api h = Inr ls"
      "q_listTopologies api h = Inr (qcs_topologies ?spec)" for h
    using c(1) by (simp_all add: lists_kueue_def)
  have same: "map ConvertKaiwoToKueueTopology ts = ts" for ts
    by (rule map_idI) (simp add: ConvertKaiwoToKueueTopology_def)
  let ?quiet = "\<lambda>r new. r \<and> list_all harmless new"
  have topologies: "does ?quiet (syncTopologies api cx queueConfig (qcs_topologies ?spec))"
    unfolding syncTopologies_def same
    by (rule quiet_phase [OF quiet_topology [OF c(4,5)]]) (auto simp: object_name_def)
  have flavors: "does ?quiet (syncResourceFlavors api cx queueConfig (map ConvertKaiwoToKueueResourceFlavor (qcs_resourceFlavors ?spec)) (qcs_resourceFlavors ?spec))"
    unfolding syncResourceFlavors_def
    by (rule quiet_phase [where N = kf_name]) (auto simp: object_name_def intro: quiet_flavor [OF c(2)])
  have queues: "does ?quiet (syncClusterQueues api cx queueConfig qs)"
    unfolding syncClusterQueues_def
    by (rule quiet_phase [where N = cq_name]) (use c(6,8) in \<open>auto simp: object_name_def list_all_iff intro: quiet_queue\<close>)
  have classes: "does ?quiet (syncWorkloadPriorityClasses api cx queueConfig ps)"
    unfolding syncWorkloadPriorityClasses_def
    by (rule quiet_phase [where N = pc_name]) (use c(7,9) in \<open>auto simp: object_name_def list_all_iff intro: quiet_priority_class\<close>)
  have locals: "does ?quiet (syncLocalQueues api cx queueConfig ls)"
    using c(8,10,11) by (intro quiet_syncLocalQueues [OF assms(1) c(3)]) blast+
  have "does (\<lambda>r new. r = Inr () \<and> list_all harmless new) (do {
       success \<leftarrow> syncTopologies api cx queueConfig (qcs_topologies ?spec);
       sync_rest api cx queueConfig success (map ConvertKaiwoToKueueResourceFlavor (qcs_resourceFlavors ?spec)) (qcs_resourceFlavors ?spec) qs ls ps })"
    unfolding sync_rest_def
    by (rule does_seq [OF topologies], rule does_seq [OF flavors], rule does_seq [OF queues], rule does_seq [OF locals],
        rule does_seq [OF classes], rule does_return) simp
  then have "does (\<lambda>r new. r = Inr () \<and> list_all harmless new) (SyncKueueResources api cx queueConfig)"
    unfolding SyncKueueResources_def
    apply -
    apply (rule does_bindE, rule does_q_call_known [OF lists(1)], simp)
    apply (rule does_bindE, rule does_q_call_known [OF lists(2)], simp)
    apply (rule does_bindE, rule does_q_call_known [OF lists(3)], simp)
    apply (rule does_bindE, rule does_q_call_known [OF lists(4)], simp)
    apply (rule does_bind, rule does_call_known [OF lists(5)], simp)
    done
  then show ?thesis unfolding does_def by blast
qed


definition synced_q_api :: QApi where
  "synced_q_api = example_q_api\<lparr>q_listFlavors := (\<lambda>_. Inr []),
     q_listClusterQueues := (\<lambda>_. Inr (map ConvertKaiwoToKueueClusterQueue (qcs_clusterQueues (qc_spec example_queue_config)))),
     q_getClusterQueue := (\<lambda>_ _. Inr (order_groups (ConvertKaiwoToKueueClusterQueue (hd (qcs_clusterQueues (qc_spec example_queue_config)))))),
     q_getLocalQueue := (\<lambda>_ _. None)\<rparr>"

lemma synced_example: "converged synced_q_api example_q_ctx (qc_spec example_queue_config)"
proof -
  define q where "q = (CreateClusterQueue example_q_ctx [] ''team-queue'' ''kaiwo'')\<lparr>cq_namespaces := [''team'']\<rparr>"
  have qs: "qcs_clusterQueues (qc_spec example_queue_config) = [q]" by (simp add: example_queue q_def)
  have spec: "qcs_resourceFlavors (qc_spec example_queue_config) = []" "qcs_topologies (qc_spec example_queue_config) = [example_topology]"
    "qcs_workloadPriorityClasses (qc_spec example_queue_config) = []" by (simp_all add: example_queue_config_def)
  have name: "cq_name q = ''team-queue''" "cq_namespaces q = [''team'']" by (simp_all add: q_def example_queue)
  have look: "lookup_namespaces [q] ''team-queue'' = [''team'']" by (simp add: lookup_namespaces_def name)
  have "lists_kueue synced_q_api [] [ConvertKaiwoToKueueClusterQueue q] [] [example_local_queue] [example_topology]"
    by (simp add: lists_kueue_def synced_q_api_def example_q_api_def qs)
  then show ?thesis
    unfolding converged_def spec qs
    by (intro exI [of _ "[ConvertKaiwoToKueueClusterQueue q]"] exI [of _ "[]"] exI [of _ "[example_local_queue]"])
       (simp add: example_topology_def synced_q_api_def qs example_q_ctx_def ConvertKaiwoToKueueClusterQueue_def
         example_local_queue_def look)
qed

theorem converged_sync_is_quiet_witness:
  "permutes_keys example_q_ctx \<and> converged synced_q_api example_q_ctx (qc_spec example_queue_config) \<and>
   (\<exists>new. run_state (SyncKueueResources synced_q_api example_q_ctx example_queue_config) [] = (Inr (), [] @ new) \<and> list_all harmless new)"
  using converged_sync_is_quiet [OF example_q_ctx_permutes synced_example, of "[]"] synced_example by simp


section \<open>Merging the generated entries\<close>

lemma by_name_append:
  "map_of (foldl (\<lambda>m x. AList.update (f x) x m) m0 xs) k =
     (case List.find (\<lambda>x. f x = k) (rev xs) of Some x \<Rightarrow> Some x | None \<Rightarrow> map_of m0 k)"
  by (induction xs rule: rev_induct) (auto simp: update_conv')

lemma by_name_keys: "fst ` set (foldl (\<lambda>m x. AList.update (f x) x m) m0 xs) = fst ` set m0 \<union> f ` set xs"
  by (induction xs rule: rev_induct) (auto simp: dom_update)

lemma find_SomeD: "List.find P xs = Some x \<Longrightarrow> x \<in> set xs \<and> P x"
  by (auto simp: find_Some_iff)

lemma find_append: "List.find P (xs @ ys) = (case List.find P xs of Some x \<Rightarrow> Some x | None \<Rightarrow> List.find P ys)"
  by (induction xs) auto

lemma find_distinct: "distinct (map f xs) \<Longrightarrow> x \<in> set xs \<Longrightarrow> List.find (\<lambda>y. f y = f x) (rev xs) = Some x"
  using find_by_name [of f "rev xs" x] by (auto simp: rev_map [symmetric])

definition merged_value :: "('a \<Rightarrow> string) \<Rightarrow> 'a list \<Rightarrow> 'a list \<Rightarrow> string \<Rightarrow> 'a option" where
  "merged_value f old new k = (case List.find (\<lambda>x. f x = k) (rev new) of Some x \<Rightarrow> Some x | None \<Rightarrow> List.find (\<lambda>x. f x = k) (rev old))"

lemma merge_by_name_set:
  assumes "permutes_keys cx"
  shows "set (merge_by_name cx site f old new) = {x. \<exists>k. merged_value f old new k = Some x}"
proof -
  define m where "m = foldl (\<lambda>m x. AList.update (f x) x m) [] (old @ new)"
  have keys: "fst ` set m = f ` set (old @ new)" by (simp add: m_def by_name_keys image_Un)
  have val: "map_of m k = merged_value f old new k" for k
    by (simp add: m_def by_name_append merged_value_def find_append del: foldl_append split: option.split)
  have "set (merge_by_name cx site f old new) = {x. \<exists>k \<in> f ` set (old @ new). map_of m k = Some x}"
    using assms unfolding merge_by_name_def Let_def m_def [symmetric] keys [symmetric] by (simp add: set_map_filter permutes_keys_def)
  also have "\<dots> = {x. \<exists>k. map_of m k = Some x}"
    unfolding keys [symmetric] by (metis (no_types) domI dom_map_of_conv_image_fst)
  finally show ?thesis by (simp add: val)
qed

lemma merged_old:
  assumes "distinct (map f old)" "x \<in> set old" "f x \<notin> f ` set new"
  shows "merged_value f old new (f x) = Some x"
proof -
  have "List.find (\<lambda>y. f y = f x) (rev new) = None" using assms(3) by (auto simp: find_None_iff image_iff)
  then show ?thesis using find_distinct [OF assms(1,2)] by (simp add: merged_value_def)
qed

lemma merged_source:
  assumes "merged_value f old new k = Some x" shows "f x = k \<and> (x \<in> set new \<or> x \<in> set old \<and> k \<notin> f ` set new)"
proof (cases "List.find (\<lambda>x. f x = k) (rev new)")
  case None
  then have "k \<notin> f ` set new" by (auto simp: find_None_iff)
  moreover have "List.find (\<lambda>x. f x = k) (rev old) = Some x" using None assms by (simp add: merged_value_def)
  ultimately show ?thesis using find_SomeD by fastforce
next
  case (Some y)
  then show ?thesis using assms find_SomeD [OF Some] by (simp add: merged_value_def)
qed

lemma merged_one: "merged_value f old [y] (f y) = Some y"
  by (simp add: merged_value_def)

definition updates_config :: "q_event \<Rightarrow> bool" where
  "updates_config e = (case e of QUpdateQueueConfig _ _ \<Rightarrow> True | _ \<Rightarrow> False)"

lemma updates_config_simps [simp]:
  "\<not> updates_config (QListNodes l)" "\<not> updates_config (QGetNode n g)" "\<not> updates_config (QPatchNode nd e)"
  "\<not> updates_config (QUpdateNode nd e)" "updates_config (QUpdateQueueConfig c u)"
  by (simp_all add: updates_config_def)

lemma CreateDefaultResourceFlavors_no_update:
  assumes "run_state (CreateDefaultResourceFlavors api cx config) h = (r, h @ n)"
  shows "QUpdateQueueConfig c u \<notin> set n"
proof -
  have "emits (\<lambda>e. \<not> updates_config e) (CreateDefaultResourceFlavors api cx config)"
    by (rule emits_CreateDefaultResourceFlavors) simp_all
  then have "list_all (\<lambda>e. \<not> updates_config e) n"
    using assms unfolding emits_def does_def by (metis Pair_inject same_append_eq)
  then show ?thesis by (auto simp: list_all_iff)
qed

text \<open>
  Generating the queue configuration keeps what users added. When \<open>EnsureKaiwoQueueConfig\<close> updates an existing
  configuration after it generated flavors and quotas from the nodes, name, status and workload priority classes stay,
  the cluster queues are the default queue as just generated and all others that were there, the resource flavors are
  old or generated ones and every old one whose name was not generated again stays, and topologies without a name
  are dropped.
\<close>

theorem ensured_config_keeps_entries:
  assumes "permutes_keys cx"
    and "run_state (CreateDefaultResourceFlavors api cx config) h = (Inr (flavors, resources), h @ n)"
    and "history_of (EnsureKaiwoQueueConfig api cx config name queue cohort) h = h @ new"
    and "QUpdateQueueConfig c r \<in> set new"
  shows "\<exists>old. QGetQueueConfig name (Inr old) \<in> set new \<and> qc_name c = qc_name old \<and> qc_status c = qc_status old \<and>
     qcs_workloadPriorityClasses (qc_spec c) = qcs_workloadPriorityClasses (qc_spec old) \<and>
     (distinct (map cq_name (qcs_clusterQueues (qc_spec old))) \<longrightarrow>
        set (qcs_clusterQueues (qc_spec c)) = insert (CreateClusterQueue cx resources queue cohort)
          {q \<in> set (qcs_clusterQueues (qc_spec old)). cq_name q \<noteq> queue}) \<and>
     (distinct (map rf_name (qcs_resourceFlavors (qc_spec old))) \<longrightarrow>
        {f \<in> set (qcs_resourceFlavors (qc_spec old)). rf_name f \<notin> rf_name ` set flavors} \<subseteq> set (qcs_resourceFlavors (qc_spec c)) \<and>
        set (qcs_resourceFlavors (qc_spec c)) \<subseteq> set flavors \<union> set (qcs_resourceFlavors (qc_spec old))) \<and>
     (\<forall>t \<in> set (qcs_topologies (qc_spec c)). tp_name t \<noteq> [])"
proof -
  have "QUpdateQueueConfig c r \<notin> set n" by (rule CreateDefaultResourceFlavors_no_update [OF assms(2)])
  define merged where "merged old = old\<lparr>qc_spec := (qc_spec old)\<lparr>
        qcs_resourceFlavors := merge_by_name cx 8 rf_name (qcs_resourceFlavors (qc_spec old)) flavors,
        qcs_clusterQueues := merge_by_name cx 9 cq_name (qcs_clusterQueues (qc_spec old)) [CreateClusterQueue cx resources queue cohort],
        qcs_topologies := merge_by_name cx 10 tp_name (sanitizeTopologies (qcs_topologies (qc_spec old)))
          (sanitizeTopologies (CreateDefaultTopology config))\<rparr>\<rparr>" for old :: KaiwoQueueConfig
  obtain old where old: "QGetQueueConfig name (Inr old) \<in> set new" and c: "c = merged old"
  proof (cases "q_getQueueConfig api (h @ n) name")
    case (Inl e)
    then have "QUpdateQueueConfig c r \<notin> set new" using assms(2,3) \<open>QUpdateQueueConfig c r \<notin> set n\<close>
      by (auto simp: history_of_def EnsureKaiwoQueueConfig_def Let_def split: if_splits)
    then show thesis using assms(4) by blast
  next
    case (Inr old)
    then have "h @ new = h @ n @ [QGetQueueConfig name (Inr old),
        QUpdateQueueConfig (merged old) (q_updateQueueConfig api (h @ n @ [QGetQueueConfig name (Inr old)]) (merged old))]"
      using assms(2) unfolding assms(3) [symmetric] history_of_def EnsureKaiwoQueueConfig_def Let_def q_call_def
      by (simp add: merged_def)
    then show thesis using that [of old] assms(4) \<open>QUpdateQueueConfig c r \<notin> set n\<close> by auto
  qed
  note c = c [unfolded merged_def]
  have name: "cq_name (CreateClusterQueue cx resources queue cohort) = queue" by (simp add: CreateClusterQueue_def Let_def)
  have queues: "set (qcs_clusterQueues (qc_spec c)) = insert (CreateClusterQueue cx resources queue cohort)
      {q \<in> set (qcs_clusterQueues (qc_spec old)). cq_name q \<noteq> queue}" if "distinct (map cq_name (qcs_clusterQueues (qc_spec old)))"
  proof -
    let ?q = "CreateClusterQueue cx resources queue cohort" and ?old = "qcs_clusterQueues (qc_spec old)"
    have "set (qcs_clusterQueues (qc_spec c)) = {q. \<exists>k. merged_value cq_name ?old [?q] k = Some q}"
      by (simp add: c merge_by_name_set [OF assms(1)])
    also have "\<dots> = insert ?q {q \<in> set ?old. cq_name q \<noteq> queue}"
      using merged_old [OF that, of _ "[?q]"] merged_one [of cq_name ?old ?q] merged_source [of cq_name ?old "[?q]"] name by auto
    finally show ?thesis .
  qed
  have flavors: "{f \<in> set (qcs_resourceFlavors (qc_spec old)). rf_name f \<notin> rf_name ` set flavors} \<subseteq> set (qcs_resourceFlavors (qc_spec c)) \<and>
      set (qcs_resourceFlavors (qc_spec c)) \<subseteq> set flavors \<union> set (qcs_resourceFlavors (qc_spec old))"
    if "distinct (map rf_name (qcs_resourceFlavors (qc_spec old)))"
    using merged_old [OF that] by (auto simp: c merge_by_name_set [OF assms(1)] dest: merged_source)
  have "\<forall>t \<in> set (qcs_topologies (qc_spec c)). tp_name t \<noteq> []"
    by (auto simp: c merge_by_name_set [OF assms(1)] sanitizeTopologies_def dest!: merged_source)
  then show ?thesis
    using old queues flavors c by (intro exI [of _ old]) simp
qed


definition merging_q_api :: QApi where
  "merging_q_api = example_q_api\<lparr>q_getQueueConfig := (\<lambda>_ _. Inr example_queue_config)\<rparr>"

lemma merging_example_run:
  "run_state (CreateDefaultResourceFlavors merging_q_api example_q_ctx example_config) [] = (Inr ([], []), [QListNodes (Inr [])])"
  "list_ex updates_config (history_of (EnsureKaiwoQueueConfig merging_q_api example_q_ctx example_config ''kaiwo'' ''default'' ''kaiwo'') [])"
  by code_simp+

theorem ensured_config_keeps_entries_witness:
  "let new = history_of (EnsureKaiwoQueueConfig merging_q_api example_q_ctx example_config ''kaiwo'' ''default'' ''kaiwo'') [] in
   \<exists>c r old. QUpdateQueueConfig c r \<in> set new \<and> QGetQueueConfig ''kaiwo'' (Inr old) \<in> set new \<and> qc_name c = qc_name old \<and>
     (\<forall>t \<in> set (qcs_topologies (qc_spec c)). tp_name t \<noteq> [])"
proof -
  define new where "new = history_of (EnsureKaiwoQueueConfig merging_q_api example_q_ctx example_config ''kaiwo'' ''default'' ''kaiwo'') []"
  have "updates_config e \<Longrightarrow> \<exists>c r. e = QUpdateQueueConfig c r" for e by (cases e) (auto simp: updates_config_def)
  then obtain c r where c: "QUpdateQueueConfig c r \<in> set new" using merging_example_run(2) by (fastforce simp: new_def [symmetric] list_ex_iff)
  have run: "run_state (CreateDefaultResourceFlavors merging_q_api example_q_ctx example_config) [] = (Inr ([], []), [] @ [QListNodes (Inr [])])"
    using merging_example_run(1) by simp
  have hist: "history_of (EnsureKaiwoQueueConfig merging_q_api example_q_ctx example_config ''kaiwo'' ''default'' ''kaiwo'') [] = [] @ new"
    by (simp add: new_def)
  show ?thesis
    using ensured_config_keeps_entries [OF example_q_ctx_permutes run hist c] c unfolding new_def [symmetric] Let_def by blast
qed

end
