(* ===== verification/OperatorMain.thy ===== *)
theory OperatorMain
  imports MetricsWatcher GpuScraper
begin

text \<open>
  The start of the operator, \<^verbatim>\<open>cmd/operator/main.go\<close>: which controllers, webhooks and background tasks are registered with the
  controller manager, under which flags and environment variables, and that the manager starts last. Also what \<^verbatim>\<open>main\<close>
  calls at start-up: \<open>EnsureConfig\<close> of \<^verbatim>\<open>pkg/workloads/common/config.go\<close> and the construction, the request and the ticks of
  the metrics scraper of \<^verbatim>\<open>internal/controller/gpuworkload_scraper.go\<close>. Every call of \<^verbatim>\<open>main\<close> on the controller runtime is an
  event; \<^verbatim>\<open>os.Exit(1)\<close> is \<open>Inl\<close> with the message that is logged before it.
\<close>

section \<open>The metrics scraper\<close>

definition EnvEnabled :: string where "EnvEnabled = ''GPU_PREEMPTION_ENABLED''"
definition scraper_EnvMetricsEndpoint :: string where "scraper_EnvMetricsEndpoint = ''GPU_PREEMPTION_METRICS_ENDPOINT''"
definition scraper_EnvPollingInterval :: string where "scraper_EnvPollingInterval = ''GPU_PREEMPTION_POLLING_INTERVAL''"
definition defaultPollingInterval :: string where "defaultPollingInterval = ''15s''"

definition IsGpuPreemptionEnabled :: "(string \<Rightarrow> string) \<Rightarrow> bool" where
  "IsGpuPreemptionEnabled env_of \<longleftrightarrow> env_of EnvEnabled = ''true''"

record GpuMetricsScraper =
  gs_metricsEndpoint :: string
  gs_pollInterval :: int

text \<open>\<open>url_scheme\<close> is the scheme that \<^verbatim>\<open>url.Parse\<close> finds, \<open>None\<close> for its error; \<open>parse_duration\<close> is \<^verbatim>\<open>time.ParseDuration\<close>.\<close>

definition NewGpuMetricsScraper ::
    "(string \<Rightarrow> string) \<Rightarrow> (string \<Rightarrow> string option) \<Rightarrow> (string \<Rightarrow> int option) \<Rightarrow> string + GpuMetricsScraper" where
  "NewGpuMetricsScraper env_of url_scheme parse_duration = (
     let endpoint = env_of scraper_EnvMetricsEndpoint in
     if endpoint = [] then Inl (''environment variable '' @ scraper_EnvMetricsEndpoint @ '' is required when GPU preemption is enabled'')
     else if url_scheme endpoint \<noteq> Some ''http'' \<and> url_scheme endpoint \<noteq> Some ''https''
     then Inl (scraper_EnvMetricsEndpoint @ '' must use http or https scheme'')
     else let intervalStr = env_of scraper_EnvPollingInterval;
              intervalStr = (if intervalStr = [] then defaultPollingInterval else intervalStr)
          in (case parse_duration intervalStr of
                None \<Rightarrow> Inl (''failed to parse '' @ scraper_EnvPollingInterval)
              | Some interval \<Rightarrow> Inr \<lparr>gs_metricsEndpoint = endpoint, gs_pollInterval = interval\<rparr>))"

text \<open>
  The request: \<open>http_get\<close> is its error or the status code with the body, \<open>text_to_families\<close> the parser of the metrics format.
\<close>

definition scrape ::
    "(string \<Rightarrow> api_error + int \<times> string) \<Rightarrow> (string \<Rightarrow> api_error + Metric list gomap) \<Rightarrow> GpuMetricsScraper \<Rightarrow>
     api_error + Metric list gomap" where
  "scrape http_get text_to_families s = (case http_get (gs_metricsEndpoint s) of
     Inl e \<Rightarrow> Inl e
   | Inr (statusCode, body) \<Rightarrow>
       if statusCode < 200 \<or> statusCode \<ge> 300 then Inl (OtherError (''metrics endpoint returned HTTP '' @ Itoa statusCode))
       else text_to_families body)"

text \<open>One tick of \<^verbatim>\<open>Start\<close>: a failed cycle is only logged.\<close>

definition scraper_tick ::
    "GpuApi \<Rightarrow> ((podKey \<times> gpuSample list) list \<Rightarrow> (podKey \<times> gpuSample list) list) \<Rightarrow> (string \<Rightarrow> api_error + int \<times> string) \<Rightarrow>
     (string \<Rightarrow> api_error + Metric list gomap) \<Rightarrow> GpuMetricsScraper \<Rightarrow> unit gpu_prog" where
  "scraper_tick api order http_get text_to_families s = do {
     _ \<leftarrow> poll api order (scrape http_get text_to_families s);
     ret ()
   }"

section \<open>Calls on the controller runtime\<close>

datatype op_part =
    KaiwoJobController | KaiwoServiceController | KaiwoQueueConfigController
  | JobWebhookDecoder | JobWebhookPart | RayJobWebhookPart | RayServiceWebhookPart | DeploymentWebhookPart
  | MetricsCertWatcher | WebhookCertWatcher
  | GpuWorkloadController | GpuScraperRunnable | MetricsWatcherRunnable
  | HealthzCheck | ReadyzCheck

datatype tls_opt = DisableHTTP2 | CertificateOf string string

datatype webhook_server = ServeCertDir string | ServeTLS "tls_opt list"

record MetricsServerOptions =
  ms_bindAddress :: string
  ms_secureServing :: bool
  ms_TLSOpts :: "tls_opt list"
  ms_authFilter :: bool

record ManagerOptions =
  mo_metrics :: MetricsServerOptions
  mo_healthProbeBindAddress :: string
  mo_leaderElection :: bool
  mo_webhookServer :: "webhook_server option"

datatype op_event =
    OCertWatcher string string "string option"
  | ORestConfig "string option"
  | ONewManager ManagerOptions "string option"
  | OSetup op_part "string option"
  | ONewClient "string option"
  | OGetConfig "api_error option"
  | OCreateConfig "api_error option"
  | OStart "string option"

record OpApi =
  op_certWatcher :: "op_event list \<Rightarrow> string \<Rightarrow> string \<Rightarrow> string option"
  op_restConfig :: "op_event list \<Rightarrow> string option"
  op_newManager :: "op_event list \<Rightarrow> ManagerOptions \<Rightarrow> string option"
  op_setup :: "op_event list \<Rightarrow> op_part \<Rightarrow> string option"
  op_newClient :: "op_event list \<Rightarrow> string option"
  op_getConfig :: "op_event list \<Rightarrow> api_error option"
  op_createConfig :: "op_event list \<Rightarrow> api_error option"
  op_start :: "op_event list \<Rightarrow> string option"

type_synonym op_prog = "(op_event, string + unit) prog"

definition op_call :: "(op_event list \<Rightarrow> 'e option) \<Rightarrow> ('e option \<Rightarrow> op_event) \<Rightarrow> string \<Rightarrow> op_prog" where
  "op_call answer event message = do {
     r \<leftarrow> call answer event;
     ret (case r of Some _ \<Rightarrow> Inl message | None \<Rightarrow> Inr ())
   }"

section \<open>The parts of main\<close>

record MainFlags =
  fl_metricsAddr :: string
  fl_probeAddr :: string
  fl_leaderElect :: bool
  fl_secureMetrics :: bool
  fl_enableHTTP2 :: bool
  fl_webhookCertPath :: string
  fl_webhookCertName :: string
  fl_webhookCertKey :: string
  fl_metricsCertPath :: string
  fl_metricsCertName :: string
  fl_metricsCertKey :: string

fun setup_message :: "op_part \<Rightarrow> string" where
  "setup_message KaiwoJobController = ''unable to create controller KaiwoJob''"
| "setup_message KaiwoServiceController = ''unable to create controller KaiwoService''"
| "setup_message KaiwoQueueConfigController = ''unable to create controller KaiwoQueueConfig''"
| "setup_message JobWebhookDecoder = ''unable to inject decoder to webhook''"
| "setup_message JobWebhookPart = ''Unable to create webhook Job''"
| "setup_message RayJobWebhookPart = ''unable to create webhook RayJob''"
| "setup_message RayServiceWebhookPart = ''unable to create webhook RayService''"
| "setup_message DeploymentWebhookPart = ''unable to create webhook Deployment''"
| "setup_message MetricsCertWatcher = ''unable to add metrics certificate watcher to manager''"
| "setup_message WebhookCertWatcher = ''unable to add webhook certificate watcher to manager''"
| "setup_message GpuWorkloadController = ''unable to create controller GpuWorkload''"
| "setup_message GpuScraperRunnable = ''unable to add GPU metrics scraper to manager''"
| "setup_message MetricsWatcherRunnable = ''unable to add metrics watcher to manager''"
| "setup_message HealthzCheck = ''unable to set up health check''"
| "setup_message ReadyzCheck = ''unable to set up ready check''"

fun setup_parts :: "OpApi \<Rightarrow> op_part list \<Rightarrow> op_prog" where
  "setup_parts api [] = ret (Inr ())"
| "setup_parts api (part # parts) =
     bindE (op_call (\<lambda>h. op_setup api h part) (OSetup part) (setup_message part)) (\<lambda>_. setup_parts api parts)"

definition webhooksEnabled :: "(string \<Rightarrow> string) \<Rightarrow> bool" where
  "webhooksEnabled env_of \<longleftrightarrow> GetEnv env_of ''DISABLE_WEBHOOKS'' ''true'' \<noteq> ''true''"

definition tls_opts :: "MainFlags \<Rightarrow> tls_opt list" where
  "tls_opts flags = (if fl_enableHTTP2 flags then [] else [DisableHTTP2])"

definition watches_webhook_cert :: "(string \<Rightarrow> string) \<Rightarrow> MainFlags \<Rightarrow> bool" where
  "watches_webhook_cert env_of flags \<longleftrightarrow> fl_webhookCertPath flags \<noteq> [] \<and> webhooksEnabled env_of"

text \<open>\<open>join\<close> is \<^verbatim>\<open>filepath.Join\<close>.\<close>

definition webhook_cert :: "(string \<Rightarrow> string \<Rightarrow> string) \<Rightarrow> MainFlags \<Rightarrow> string \<times> string" where
  "webhook_cert join flags = (join (fl_webhookCertPath flags) (fl_webhookCertName flags), join (fl_webhookCertPath flags) (fl_webhookCertKey flags))"

definition metrics_cert :: "(string \<Rightarrow> string \<Rightarrow> string) \<Rightarrow> MainFlags \<Rightarrow> string \<times> string" where
  "metrics_cert join flags = (join (fl_metricsCertPath flags) (fl_metricsCertName flags), join (fl_metricsCertPath flags) (fl_metricsCertKey flags))"

definition watch_certificate :: "OpApi \<Rightarrow> string \<times> string \<Rightarrow> string \<Rightarrow> op_prog" where
  "watch_certificate api files message =
     op_call (\<lambda>h. op_certWatcher api h (fst files) (snd files)) (OCertWatcher (fst files) (snd files)) message"

definition metrics_server_options :: "MainFlags \<Rightarrow> MetricsServerOptions" where
  "metrics_server_options flags = \<lparr>ms_bindAddress = fl_metricsAddr flags, ms_secureServing = fl_secureMetrics flags,
     ms_TLSOpts = tls_opts flags, ms_authFilter = fl_secureMetrics flags\<rparr>"

definition webhook_server_of :: "(string \<Rightarrow> string) \<Rightarrow> tls_opt list \<Rightarrow> webhook_server option" where
  "webhook_server_of env_of webhookTLSOpts =
     (if webhooksEnabled env_of
      then (let certDirectory = GetEnv env_of ''WEBHOOK_CERT_DIRECTORY'' [] in
            if certDirectory \<noteq> [] then Some (ServeCertDir certDirectory) else Some (ServeTLS webhookTLSOpts))
      else None)"

definition manager_options :: "(string \<Rightarrow> string) \<Rightarrow> MainFlags \<Rightarrow> MetricsServerOptions \<Rightarrow> tls_opt list \<Rightarrow> ManagerOptions" where
  "manager_options env_of flags metricsServerOptions webhookTLSOpts = \<lparr>mo_metrics = metricsServerOptions,
     mo_healthProbeBindAddress = fl_probeAddr flags, mo_leaderElection = fl_leaderElect flags,
     mo_webhookServer = webhook_server_of env_of webhookTLSOpts\<rparr>"

definition controller_parts :: "op_part list" where
  "controller_parts = [KaiwoJobController, KaiwoServiceController, KaiwoQueueConfigController]"

definition webhook_parts :: "(string \<Rightarrow> string) \<Rightarrow> op_part list" where
  "webhook_parts env_of = (if webhooksEnabled env_of
     then [JobWebhookDecoder, JobWebhookPart, RayJobWebhookPart, RayServiceWebhookPart, DeploymentWebhookPart] else [])"

definition cert_parts :: "(string \<Rightarrow> string) \<Rightarrow> MainFlags \<Rightarrow> op_part list" where
  "cert_parts env_of flags = (if fl_metricsCertPath flags \<noteq> [] then [MetricsCertWatcher] else []) @
     (if watches_webhook_cert env_of flags then [WebhookCertWatcher] else [])"

definition setup_preemption ::
    "OpApi \<Rightarrow> (string \<Rightarrow> string) \<Rightarrow> (string \<Rightarrow> string option) \<Rightarrow> (string \<Rightarrow> int option) \<Rightarrow> op_prog" where
  "setup_preemption api env_of url_scheme parse_duration =
     (if IsGpuPreemptionEnabled env_of
      then bindE (setup_parts api [GpuWorkloadController]) (\<lambda>_.
             case NewGpuMetricsScraper env_of url_scheme parse_duration of
               Inl _ \<Rightarrow> ret (Inl ''unable to create GPU metrics scraper'')
             | Inr _ \<Rightarrow> setup_parts api [GpuScraperRunnable])
      else ret (Inr ()))"

definition setup_monitoring :: "OpApi \<Rightarrow> (string \<Rightarrow> string) \<Rightarrow> (string \<Rightarrow> int option) \<Rightarrow> op_prog" where
  "setup_monitoring api env_of parse_duration =
     (if IsMetricsMonitoringEnabled env_of
      then (case NewMetricsWatcherFromEnv env_of parse_duration of
              None \<Rightarrow> ret (Inl ''unable to create metrics watcher'')
            | Some _ \<Rightarrow> setup_parts api [MetricsWatcherRunnable])
      else ret (Inr ()))"

text \<open>Any error of the lookup, not only that the configuration is missing, leads to its creation.\<close>

definition createDefaultConfig :: "OpApi \<Rightarrow> string \<Rightarrow> op_prog" where
  "createDefaultConfig api message = op_call (op_createConfig api) OCreateConfig message"

definition EnsureConfig :: "OpApi \<Rightarrow> string \<Rightarrow> op_prog" where
  "EnsureConfig api message = do {
     r \<leftarrow> call (op_getConfig api) OGetConfig;
     (if r = None then ret (Inr ()) else createDefaultConfig api message)
   }"

definition ensureConfigExists :: "OpApi \<Rightarrow> op_prog" where
  "ensureConfigExists api = (let message = ''unable to ensure config exists'' in
     bindE (op_call (op_newClient api) ONewClient message) (\<lambda>_. EnsureConfig api message))"

text \<open>
  The options of the metrics server are copied into those of the manager; the certificate is added to the original
  afterwards, and nothing reads it.
\<close>

definition operator_main ::
    "OpApi \<Rightarrow> (string \<Rightarrow> string \<Rightarrow> string) \<Rightarrow> (string \<Rightarrow> string) \<Rightarrow> (string \<Rightarrow> string option) \<Rightarrow> (string \<Rightarrow> int option) \<Rightarrow> MainFlags \<Rightarrow> op_prog" where
  "operator_main api join env_of url_scheme parse_duration flags =
     bindE (if watches_webhook_cert env_of flags
            then watch_certificate api (webhook_cert join flags) ''Failed to initialize webhook certificate watcher''
            else ret (Inr ())) (\<lambda>_.
     let webhookTLSOpts = (if watches_webhook_cert env_of flags
           then tls_opts flags @ [CertificateOf (fst (webhook_cert join flags)) (snd (webhook_cert join flags))] else tls_opts flags);
         metricsServerOptions = metrics_server_options flags;
         managerOptions = manager_options env_of flags metricsServerOptions webhookTLSOpts
     in bindE (if fl_metricsCertPath flags \<noteq> []
               then watch_certificate api (metrics_cert join flags) ''to initialize metrics certificate watcher''
               else ret (Inr ())) (\<lambda>_.
        let metricsServerOptions = (if fl_metricsCertPath flags \<noteq> []
              then metricsServerOptions\<lparr>ms_TLSOpts := ms_TLSOpts metricsServerOptions @
                [CertificateOf (fst (metrics_cert join flags)) (snd (metrics_cert join flags))]\<rparr> else metricsServerOptions)
        in bindE (op_call (op_restConfig api) ORestConfig ''unable to get kubeconfig'') (\<lambda>_.
           bindE (op_call (\<lambda>h. op_newManager api h managerOptions) (ONewManager managerOptions) ''unable to start manager'') (\<lambda>_.
           bindE (setup_parts api controller_parts) (\<lambda>_.
           bindE (setup_parts api (webhook_parts env_of)) (\<lambda>_.
           bindE (setup_parts api (cert_parts env_of flags)) (\<lambda>_.
           bindE (setup_preemption api env_of url_scheme parse_duration) (\<lambda>_.
           bindE (setup_monitoring api env_of parse_duration) (\<lambda>_.
           bindE (ensureConfigExists api) (\<lambda>_.
           bindE (setup_parts api [HealthzCheck, ReadyzCheck]) (\<lambda>_.
             op_call (op_start api) OStart ''problem running manager'')))))))))))"

section \<open>Milestones\<close>

text \<open>What a trace of the start-up has achieved, in order: only calls that succeeded count.\<close>

datatype milestone = ManagerCreated | Registered op_part | ConfigReady

fun milestone_of :: "op_event \<Rightarrow> milestone list" where
  "milestone_of (ONewManager options None) = [ManagerCreated]"
| "milestone_of (OSetup part None) = [Registered part]"
| "milestone_of (OGetConfig None) = [ConfigReady]"
| "milestone_of (OCreateConfig None) = [ConfigReady]"
| "milestone_of _ = []"

definition milestones :: "op_event list \<Rightarrow> milestone list" where
  "milestones new = concat (map milestone_of new)"

fun is_start :: "op_event \<Rightarrow> bool" where
  "is_start (OStart r) = True"
| "is_start e = False"

fun is_manager :: "op_event \<Rightarrow> bool" where
  "is_manager (ONewManager options r) = True"
| "is_manager e = False"

lemma milestones_append [simp]: "milestones (xs @ ys) = milestones xs @ milestones ys"
  by (simp add: milestones_def)

text \<open>A stage of the start-up: it never starts the manager, and when it succeeds it has achieved \<open>ms\<close>.\<close>

definition stage :: "milestone list \<Rightarrow> op_prog \<Rightarrow> bool" where
  "stage ms m \<longleftrightarrow> does (\<lambda>r new. \<not> list_ex is_start new \<and> (r = Inr () \<longrightarrow> milestones new = ms)) m"

lemma stage_return: "stage [] (ret (Inr ()))"
  by (simp add: stage_def does_return milestones_def)

lemma stage_fail: "stage ms (ret (Inl e))"
  by (simp add: stage_def does_return)

lemma stage_seq: "stage ms m \<Longrightarrow> stage ns n \<Longrightarrow> stage (ms @ ns) (bindE m (\<lambda>_. n))"
  unfolding stage_def by (erule does_seqE, simp, erule does_mono, simp)

lemma stage_call: "\<not> is_start (event None) \<Longrightarrow> (\<And>e. \<not> is_start (event (Some e))) \<Longrightarrow> stage (milestone_of (event None)) (op_call answer event message)"
  unfolding stage_def op_call_def
  by (intro does_bind does_call does_return) (auto simp: milestones_def split: option.split)

lemma stage_parts: "stage (map Registered parts) (setup_parts api parts)"
proof (induction parts)
  case (Cons part parts)
  from stage_seq [OF stage_call Cons, of "OSetup part"] show ?case by simp
qed (simp add: stage_return)

lemma stage_certificate: "stage [] (watch_certificate api files message)"
  using stage_call [of "OCertWatcher (fst files) (snd files)"] by (simp add: watch_certificate_def)

lemma stage_config: "stage [ConfigReady] (ensureConfigExists api)"
proof -
  have "stage [ConfigReady] (EnsureConfig api message)" for message
    unfolding stage_def EnsureConfig_def createDefaultConfig_def op_call_def
    by (intro does_bind does_call does_if does_return) (auto simp: milestones_def split: option.split)
  from stage_seq [OF stage_call this, of ONewClient] show ?thesis by (simp add: ensureConfigExists_def Let_def)
qed

definition preemption_parts :: "(string \<Rightarrow> string) \<Rightarrow> op_part list" where
  "preemption_parts env_of = (if IsGpuPreemptionEnabled env_of then [GpuWorkloadController, GpuScraperRunnable] else [])"

definition monitoring_parts :: "(string \<Rightarrow> string) \<Rightarrow> op_part list" where
  "monitoring_parts env_of = (if IsMetricsMonitoringEnabled env_of then [MetricsWatcherRunnable] else [])"

lemma stage_preemption: "stage (map Registered (preemption_parts env_of)) (setup_preemption api env_of url_scheme parse_duration)"
proof -
  have "stage [Registered GpuScraperRunnable] (case NewGpuMetricsScraper env_of url_scheme parse_duration of
      Inl _ \<Rightarrow> ret (Inl ''unable to create GPU metrics scraper'') | Inr _ \<Rightarrow> setup_parts api [GpuScraperRunnable])"
    using stage_parts [of "[GpuScraperRunnable]"] by (simp add: stage_fail split: sum.split)
  from stage_seq [OF stage_parts [of "[GpuWorkloadController]"] this] show ?thesis
    by (simp add: setup_preemption_def preemption_parts_def stage_return)
qed

lemma stage_monitoring: "stage (map Registered (monitoring_parts env_of)) (setup_monitoring api env_of parse_duration)"
  using stage_parts [of "[MetricsWatcherRunnable]"]
  by (simp add: setup_monitoring_def monitoring_parts_def stage_return stage_fail split: option.split)

text \<open>A stage that starts the manager at its end.\<close>

definition starts :: "milestone list \<Rightarrow> op_prog \<Rightarrow> bool" where
  "starts ms m \<longleftrightarrow> does (\<lambda>r new. (list_ex is_start new \<longrightarrow>
       (\<exists>pre a. new = pre @ [OStart a] \<and> \<not> list_ex is_start pre \<and> milestones pre = ms \<and> (r = Inr () \<longleftrightarrow> a = None))) \<and>
     (r = Inr () \<longrightarrow> list_ex is_start new)) m"

lemma starts_call: "starts [] (op_call (op_start api) OStart message)"
  unfolding starts_def op_call_def by (intro does_bind does_call does_return) (auto simp: milestones_def split: option.split)

lemma starts_seq:
  assumes "stage ms m" and "starts ns n"
  shows "starts (ms @ ns) (bindE m (\<lambda>_. n))"
proof -
  have "\<exists>pre a. n1 @ n2 = pre @ [OStart a] \<and> \<not> list_ex is_start pre \<and> milestones pre = ms @ ns \<and> P a"
    if "\<not> list_ex is_start n1" "milestones n1 = ms" "\<exists>pre a. n2 = pre @ [OStart a] \<and> \<not> list_ex is_start pre \<and> milestones pre = ns \<and> P a" for n1 n2 P
    using that by (metis append_assoc list_ex_append milestones_append)
  then show ?thesis
    using assms unfolding stage_def starts_def
    by (intro does_seqE [OF assms(1) [unfolded stage_def]]) (auto elim!: does_mono)
qed

definition startup_milestones :: "(string \<Rightarrow> string) \<Rightarrow> MainFlags \<Rightarrow> milestone list" where
  "startup_milestones env_of flags = ManagerCreated #
     map Registered (controller_parts @ webhook_parts env_of @ cert_parts env_of flags @ preemption_parts env_of @ monitoring_parts env_of) @
     [ConfigReady, Registered HealthzCheck, Registered ReadyzCheck]"

lemma stage_if: "(b \<Longrightarrow> stage ms m) \<Longrightarrow> (\<not> b \<Longrightarrow> stage ms n) \<Longrightarrow> stage ms (if b then m else n)"
  by simp

lemma operator_main_starts: "starts (startup_milestones env_of flags) (operator_main api join env_of url_scheme parse_duration flags)"
proof -
  have certs: "stage [] (if b then watch_certificate api files message else ret (Inr ()))" for b files message
    by (intro stage_if stage_certificate stage_return)
  have manager: "stage [ManagerCreated] (op_call (\<lambda>h. op_newManager api h options) (ONewManager options) message)" for options message
    using stage_call [of "ONewManager options"] by simp
  have rest: "stage [] (op_call (op_restConfig api) ORestConfig message)" for message
    using stage_call [of ORestConfig] by simp
  have ms: "startup_milestones env_of flags = [] @ [] @ [] @ [ManagerCreated] @ map Registered controller_parts @ map Registered (webhook_parts env_of) @
      map Registered (cert_parts env_of flags) @ map Registered (preemption_parts env_of) @ map Registered (monitoring_parts env_of) @
      [ConfigReady] @ map Registered [HealthzCheck, ReadyzCheck] @ []"
    by (simp add: startup_milestones_def)
  show ?thesis unfolding operator_main_def Let_def ms
    by (intro starts_seq starts_call certs rest manager stage_parts stage_preemption stage_monitoring stage_config)
qed

section \<open>Properties\<close>


text \<open>
  The metrics certificate is not used. Whatever certificate the flags name for the metrics endpoint, and although it is read
  and watched, the metrics server of the manager gets the TLS options without it: they have been copied into the options
  of the manager before the certificate is added to the original.
\<close>

theorem metrics_certificate_unused:
  "\<exists>new. history_of (operator_main api join env_of url_scheme parse_duration flags) h = h @ new \<and>
     (\<forall>options r. ONewManager options r \<in> set new \<longrightarrow> ms_TLSOpts (mo_metrics options) = tls_opts flags \<and>
        (fl_metricsCertPath flags \<noteq> [] \<longrightarrow> OCertWatcher (fst (metrics_cert join flags)) (snd (metrics_cert join flags)) None \<in> set new))"
proof -
  define Q where "Q e \<longleftrightarrow> (\<forall>options r. e = ONewManager options r \<longrightarrow> ms_TLSOpts (mo_metrics options) = tls_opts flags)" for e
  have Q_simps: "Q (OSetup part r1)" "Q (ORestConfig r2)" "Q (OStart r3)" "Q (OCertWatcher f g r4)" "Q (ONewClient r5)" "Q (OGetConfig r6)" "Q (OCreateConfig r6)"
    "Q (ONewManager options r7) \<longleftrightarrow> ms_TLSOpts (mo_metrics options) = tls_opts flags" for part r1 r2 r3 f g r4 r5 r6 options r7
    by (auto simp: Q_def)
  have op: "emits Q (op_call answer event message)" if "\<And>r. Q (event r)" for answer :: "op_event list \<Rightarrow> 'e option" and event message
    unfolding op_call_def using that by (intro emits_intros) blast
  have api_op: "emits Q (op_call (op_createConfig api) OCreateConfig message)" for message
    unfolding op_call_def by (intro emits_intros) (simp add: Q_simps)
  have parts: "emits Q (setup_parts api parts)" for parts
    by (induction parts) (auto intro!: emits_intros op simp: Q_simps)
  have tail: "emits Q (setup_preemption api env_of url_scheme parse_duration)" "emits Q (setup_monitoring api env_of parse_duration)"
    "emits Q (ensureConfigExists api)"
    unfolding setup_preemption_def setup_monitoring_def ensureConfigExists_def EnsureConfig_def createDefaultConfig_def Let_def
    by (intro emits_intros parts op api_op; simp add: Q_simps)+
  have cert: "does (\<lambda>r new. list_all Q new \<and> \<not> list_ex is_manager new \<and> (r = Inr () \<longrightarrow> b \<longrightarrow> OCertWatcher (fst files) (snd files) None \<in> set new))
      (if b then watch_certificate api files message else ret (Inr ()))" for b files message
    unfolding watch_certificate_def op_call_def by (intro does_if does_bind does_call does_return) (auto simp: Q_simps split: option.split)
  have rest: "emits Q (op_call (op_restConfig api) ORestConfig message)" "emits Q (op_call (op_start api) OStart message)" for message
    by (rule op, simp add: Q_simps)+
  have manager: "emits Q (op_call (\<lambda>h. op_newManager api h (manager_options env_of flags (metrics_server_options flags) ws))
      (ONewManager (manager_options env_of flags (metrics_server_options flags) ws)) message)" for ws message
    by (rule op) (simp add: Q_simps manager_options_def metrics_server_options_def)
  have keep: "does (\<lambda>_ new. P (pre @ new)) m" if "emits Q m" "\<And>new. list_all Q new \<Longrightarrow> P (pre @ new)" for P pre and m :: op_prog
    using that unfolding emits_def by (rule does_mono)
  let ?P = "\<lambda>new. list_all Q new \<and> (list_ex is_manager new \<longrightarrow> fl_metricsCertPath flags \<noteq> [] \<longrightarrow>
      OCertWatcher (fst (metrics_cert join flags)) (snd (metrics_cert join flags)) None \<in> set new)"
  have "does (\<lambda>_. ?P) (operator_main api join env_of url_scheme parse_duration flags)"
    unfolding operator_main_def Let_def
  proof (rule does_seqE [OF cert], simp, rule does_seqE [OF cert], simp, goal_cases)
    case (1 _ n1 _ n2)
    show ?case
      unfolding append_assoc [symmetric]
    proof (rule keep [of _ _ "n1 @ n2"], goal_cases)
      case 1
      show ?case by (intro emits_bindE rest parts tail manager)
    next
      case (2 new)
      with \<open>list_all Q n1 \<and> _\<close> \<open>list_all Q n2 \<and> _\<close> show ?case by auto
    qed
  qed
  then obtain new where "history_of (operator_main api join env_of url_scheme parse_duration flags) h = h @ new" "?P new"
    by (rule doesD [where h = h]) blast
  then show ?thesis by (intro exI [of _ new]) (force simp: list_all_iff list_ex_iff Q_def)
qed

text \<open>An operator with monitoring and preemption enabled and a certificate for the metrics endpoint.\<close>

definition example_op_api :: OpApi where
  "example_op_api = \<lparr>op_certWatcher = (\<lambda>_ _ _. None), op_restConfig = (\<lambda>_. None), op_newManager = (\<lambda>_ _. None), op_setup = (\<lambda>_ _. None),
     op_newClient = (\<lambda>_. None), op_getConfig = (\<lambda>_. Some NotFound), op_createConfig = (\<lambda>_. None), op_start = (\<lambda>_. None)\<rparr>"

definition example_op_flags :: MainFlags where
  "example_op_flags = \<lparr>fl_metricsAddr = '':8443'', fl_probeAddr = '':8081'', fl_leaderElect = False, fl_secureMetrics = True, fl_enableHTTP2 = False,
     fl_webhookCertPath = [], fl_webhookCertName = ''tls.crt'', fl_webhookCertKey = ''tls.key'',
     fl_metricsCertPath = ''/certs'', fl_metricsCertName = ''tls.crt'', fl_metricsCertKey = ''tls.key''\<rparr>"

definition example_op_env :: "string \<Rightarrow> string" where
  "example_op_env v = (if v = EnvEnabled \<or> v = EnvMonitoringEnabled then ''true'' else if v = scraper_EnvMetricsEndpoint \<or> v = EnvMetricsEndpoint
     then ''http://metrics'' else if v = EnvPollingInterval then ''15s'' else [])"

definition example_start :: op_prog where
  "example_start = operator_main example_op_api (\<lambda>a b. a @ ''/'' @ b) example_op_env (\<lambda>_. Some ''http'') (\<lambda>_. Some 15) example_op_flags"

lemma example_start_result: "result_of example_start [] = Inr ()"
  by code_simp

lemma example_start_manager: "list_ex is_manager (history_of example_start [])"
  by code_simp


theorem metrics_certificate_unused_witness:
  "\<exists>options r. ONewManager options r \<in> set (history_of example_start []) \<and> ms_TLSOpts (mo_metrics options) = [DisableHTTP2] \<and>
     OCertWatcher ''/certs/tls.crt'' ''/certs/tls.key'' None \<in> set (history_of example_start [])"
proof -
  from example_start_manager obtain e where e: "e \<in> set (history_of example_start [])" "is_manager e" by (auto simp: list_ex_iff)
  from e(2) obtain options r where "e = ONewManager options r" by (cases e) auto
  with e(1) metrics_certificate_unused [of example_op_api "\<lambda>a b. a @ ''/'' @ b" example_op_env "\<lambda>_. Some ''http''" "\<lambda>_. Some 15" example_op_flags "[]"]
  have "ONewManager options r \<in> set (history_of example_start [])" "ms_TLSOpts (mo_metrics options) = tls_opts example_op_flags"
    "OCertWatcher (fst (metrics_cert (\<lambda>a b. a @ ''/'' @ b) example_op_flags)) (snd (metrics_cert (\<lambda>a b. a @ ''/'' @ b) example_op_flags)) None
       \<in> set (history_of example_start [])"
    unfolding example_start_def [symmetric] append_Nil by (auto simp: example_op_flags_def)
  then show ?thesis by (intro exI [of _ options] exI [of _ r]) (simp add: tls_opts_def metrics_cert_def example_op_flags_def)
qed

end
