(* ===== verification/LogDump.thy ===== *)
theory LogDump
  imports PodSpec
begin

text \<open>
  The developers' tool \<^verbatim>\<open>kaiwo-dump\<close> (\<^verbatim>\<open>pkg/cli/dev/main.go\<close>): it collects the log lines and events of a test namespace and of
  the controllers, parses them, sorts them by time, keeps those that matter for the namespace and prints them. The parsers of
  times and of JSON and the printers of times are parameters (\<open>DumpCtx\<close>), as are the answers of the cluster (\<open>DumpApi\<close>), each a function of the request. A time is
  a number of nanoseconds. The collectors run concurrently and send to one channel: the order of arrival is an arbitrary
  permutation, and of several errors one is returned. Lemmas: what is kept, and that it does not depend on the order of arrival.
\<close>

section \<open>Entries\<close>

text \<open>A decoded JSON value; numbers are kept as text (\<^verbatim>\<open>UseNumber\<close>).\<close>

datatype payload_value = PString string | PNumber string | PMap "(string \<times> payload_value) list" | POther string

definition zero_time :: int where "zero_time = -62135596800 * 10 ^ 9"

record logEntry =
  le_time :: int
  le_level :: string
  le_source :: string
  le_namespace :: string
  le_message :: string
  le_extras :: "(string \<times> payload_value) list"

definition srcEvent :: string where "srcEvent = ''Event''"
definition srcKueue :: string where "srcKueue = ''Kueue''"
definition srcRay :: string where "srcRay = ''Ray''"
definition srcKaiwo :: string where "srcKaiwo = ''Kaiwo''"
definition srcNamespacePod :: string where "srcNamespacePod = ''NamespacePod''"

record DumpCtx =
  dc_parseNano :: "string \<Rightarrow> int option"
  dc_parse :: "string \<Rightarrow> int option"
  dc_decode :: "string \<Rightarrow> (string \<times> payload_value) list option"
  dc_sprint :: "payload_value \<Rightarrow> string"
  dc_now :: "string \<Rightarrow> int"
  dc_timestamp :: "int \<Rightarrow> string"
  dc_seconds :: "int \<Rightarrow> string"

record DumpOptions =
  do_controllerDeployments :: "string list"
  do_kaiwoDeployment :: string
  do_localLogsPath :: string
  do_limitLines :: int
  do_namespacedLevel :: string
  do_clusterLevel :: string

definition defaultControllers :: "string list" where
  "defaultControllers = [''kueue-system/kueue-controller-manager'', ''default/kuberay-operator'']"

section \<open>Levels\<close>

definition lowerString :: "string \<Rightarrow> string" where "lowerString s = ToLower (TrimSpace s)"

definition levelRank :: "int gomap" where
  "levelRank = [(''trace'', 0), (''debug'', 1), (''info'', 2), (''warn'', 3), (''warning'', 3), (''error'', 4), (''fatal'', 5)]"

definition severityRank :: "string \<Rightarrow> int" where
  "severityRank s = (case map_of levelRank (lowerString s) of None \<Rightarrow> map_get 0 levelRank ''info'' | Some r \<Rightarrow> r)"

definition atLeast_level :: "string \<Rightarrow> string \<Rightarrow> bool" where
  "atLeast_level level minimum \<longleftrightarrow> severityRank level \<ge> severityRank minimum"

definition level_of_int :: "int \<Rightarrow> string" where
  "level_of_int i = (if i \<le> -2 then ''trace'' else if i = -1 then ''debug'' else if i = 0 then ''info'' else if i = 1 then ''warn''
     else if i \<ge> 5 then ''fatal'' else ''error'')"

text \<open>The number in \<^verbatim>\<open>level(n)\<close>, digits with an optional minus sign.\<close>

definition level_paren :: "string \<Rightarrow> string option" where
  "level_paren s = (let inner = take (length s - 7) (drop 6 s); ds = (if HasPrefix inner ''-'' then drop 1 inner else inner)
     in if HasPrefix s ''level('' \<and> HasSuffix s '')'' \<and> length s \<ge> 8 \<and> ds \<noteq> [] \<and> list_all is_digit ds then Some inner else None)"

definition normalizeLevel :: "string \<Rightarrow> string" where
  "normalizeLevel raw = (let s = TrimSpace (ToLower raw) in
     if s = [] then ''info''
     else (case Atoi s of
       Inr i \<Rightarrow> level_of_int i
     | Inl _ \<Rightarrow> (case Option.bind (level_paren s) (\<lambda>m. case Atoi m of Inr i \<Rightarrow> Some (level_of_int i) | Inl _ \<Rightarrow> None) of
         Some l \<Rightarrow> l
       | None \<Rightarrow> if s = ''warning'' then ''warn'' else s)))"

definition levelOrDefault :: "string \<Rightarrow> string" where
  "levelOrDefault l = (if l = [] then ''INFO'' else l)"

section \<open>Parsing lines\<close>

definition timestamp_start :: "string \<Rightarrow> bool" where
  "timestamp_start line \<longleftrightarrow> length line \<ge> 12 \<and> list_all is_digit (take 4 line) \<and> line ! 4 = CHR ''-'' \<and> list_all is_digit (take 2 (drop 5 line)) \<and>
     line ! 7 = CHR ''-'' \<and> list_all is_digit (take 2 (drop 8 line)) \<and> line ! 10 = CHR ''T'' \<and> line ! 11 \<noteq> CHR '' ''"

definition splitLeadingTimestamp :: "DumpCtx \<Rightarrow> string \<Rightarrow> (int \<times> string) option" where
  "splitLeadingTimestamp dc line =
     (if \<not> timestamp_start line then None
      else if CHR '' '' \<notin> set line then None
      else let raw = takeWhile (\<lambda>c. c \<noteq> CHR '' '') line; rest = TrimSpace (drop (Suc (length raw)) line)
           in (case dc_parseNano dc raw of
                 Some t \<Rightarrow> Some (t, rest)
               | None \<Rightarrow> map_option (\<lambda>t. (t, rest)) (dc_parse dc raw)))"

definition EqualFold :: "string \<Rightarrow> string \<Rightarrow> bool" where
  "EqualFold s t \<longleftrightarrow> ToLower s = ToLower t"

definition value_text :: "DumpCtx \<Rightarrow> payload_value \<Rightarrow> string" where
  "value_text dc v = (case v of PString s \<Rightarrow> s | _ \<Rightarrow> dc_sprint dc v)"

fun getStringAny :: "DumpCtx \<Rightarrow> (string \<times> payload_value) list \<Rightarrow> string list \<Rightarrow> string" where
  "getStringAny dc m [] = []"
| "getStringAny dc m (k # keys) = (case map_of m k of
     Some v \<Rightarrow> value_text dc v
   | None \<Rightarrow> (case find (\<lambda>(kk, _). EqualFold kk k) m of
       Some (_, vv) \<Rightarrow> value_text dc vv
     | None \<Rightarrow> getStringAny dc m keys))"

text \<open>Numbers are \<^verbatim>\<open>json.Number\<close>: only whole ones are times, in seconds or, when large, in milliseconds.\<close>

definition time_of_value :: "DumpCtx \<Rightarrow> payload_value \<Rightarrow> int option" where
  "time_of_value dc v = (case v of
     PString s \<Rightarrow> (case dc_parseNano dc s of Some t \<Rightarrow> Some t | None \<Rightarrow> dc_parse dc s)
   | PNumber s \<Rightarrow> (case Atoi s of Inr i \<Rightarrow> Some (if i > 10 ^ 12 then i * 10 ^ 6 else i * 10 ^ 9) | Inl _ \<Rightarrow> None)
   | _ \<Rightarrow> None)"

fun first_time :: "DumpCtx \<Rightarrow> (string \<times> payload_value) list \<Rightarrow> string list \<Rightarrow> int" where
  "first_time dc m [] = zero_time"
| "first_time dc m (k # keys) = (case Option.bind (map_of m k) (time_of_value dc) of Some t \<Rightarrow> t | None \<Rightarrow> first_time dc m keys)"

definition extractTimeFromMap :: "DumpCtx \<Rightarrow> (string \<times> payload_value) list \<Rightarrow> int" where
  "extractTimeFromMap dc m = first_time dc m [''ts'', ''time'', ''timestamp'', ''t'']"

definition known_keys :: "string list" where
  "known_keys = [''ts'', ''time'', ''timestamp'', ''t'', ''level'', ''lvl'', ''severity'', ''msg'', ''message'', ''log'', ''namespace'', ''ns'',
     ''kubernetes.namespace_name'']"

definition json_entry :: "DumpCtx \<Rightarrow> int \<Rightarrow> string \<Rightarrow> (string \<times> payload_value) list \<Rightarrow> logEntry" where
  "json_entry dc ts line payload = \<lparr>
     le_time = (if ts = zero_time
                then (let embedded = extractTimeFromMap dc payload in if embedded \<noteq> zero_time then embedded else dc_now dc line) else ts),
     le_level = normalizeLevel (lowerString (getStringAny dc payload [''level'', ''lvl'', ''severity''])),
     le_source = [],
     le_namespace = getStringAny dc payload [''namespace'', ''ns'', ''kubernetes.namespace_name''],
     le_message = getStringAny dc payload [''msg'', ''message'', ''log''],
     le_extras = filter (\<lambda>(k, _). ToLower k \<notin> set known_keys) payload\<rparr>"

definition looks_like_json :: "string \<Rightarrow> bool" where
  "looks_like_json trim \<longleftrightarrow> HasPrefix trim ''{'' \<and> HasSuffix trim ''}''"

definition parseJSONLine :: "DumpCtx \<Rightarrow> int \<Rightarrow> string \<Rightarrow> logEntry option" where
  "parseJSONLine dc ts line = (let trim = TrimSpace line in
     if \<not> looks_like_json trim then None else map_option (json_entry dc ts line) (dc_decode dc trim))"

definition parseGenericLine :: "DumpCtx \<Rightarrow> int \<Rightarrow> string \<Rightarrow> logEntry" where
  "parseGenericLine dc ts line = (
     let ts = (if ts = zero_time then dc_now dc line else ts);
         trim = TrimSpace line;
         plain = \<lparr>le_time = ts, le_level = ''info'', le_source = [], le_namespace = [], le_message = trim, le_extras = []\<rparr>
     in if looks_like_json trim then (case parseJSONLine dc ts trim of Some e \<Rightarrow> e | None \<Rightarrow> plain) else plain)"

text \<open>What every collector does with a line: JSON first, else plain text; then the source.\<close>

definition parse_line :: "DumpCtx \<Rightarrow> string \<Rightarrow> int \<times> string \<Rightarrow> logEntry" where
  "parse_line dc source line = (case parseJSONLine dc (fst line) (snd line) of
     Some entry \<Rightarrow> entry\<lparr>le_source := source\<rparr>
   | None \<Rightarrow> (parseGenericLine dc (fst line) (snd line))\<lparr>le_source := source\<rparr>)"

section \<open>Collectors\<close>

record DumpEvent =
  de_eventTime :: int
  de_series :: "(int \<times> int) option"
  de_lastTimestamp :: int
  de_firstTimestamp :: int
  de_creationTimestamp :: int
  de_type :: string
  de_reason :: string
  de_note :: string
  de_count :: int
  de_kind :: string
  de_name :: string
  de_controller :: string

record DumpApi =
  da_pods :: "string \<Rightarrow> string + (string \<times> string list) list"
  da_deployment :: "string \<Rightarrow> string \<Rightarrow> string + string gomap"
  da_podsOf :: "string \<Rightarrow> string gomap \<Rightarrow> string + (string \<times> string list) list"
  da_streams :: "string \<Rightarrow> string \<Rightarrow> string \<Rightarrow> int option \<Rightarrow> (string + string list \<times> string option) list"
  da_eventsV1 :: "string \<Rightarrow> string + DumpEvent list"
  da_eventsCore :: "string \<Rightarrow> string + DumpEvent list"
  da_localFile :: "string \<Rightarrow> string + string list \<times> string option"

text \<open>The errors of a collector, one of which is returned, or the entries it sends.\<close>

type_synonym collected = "string list + logEntry list"

definition together :: "collected list \<Rightarrow> collected" where
  "together rs = (let errs = concat (map (\<lambda>r. case r of Inl es \<Rightarrow> es | Inr _ \<Rightarrow> []) rs)
     in if list_ex (\<lambda>r. case r of Inl _ \<Rightarrow> True | Inr _ \<Rightarrow> False) rs then Inl errs
        else Inr (concat (map (\<lambda>r. case r of Inl _ \<Rightarrow> [] | Inr es \<Rightarrow> es) rs)))"

text \<open>The first request and, if it fails, at most three more; a list of answers that ends early is one that keeps failing.\<close>

definition open_stream :: "(string + string list \<times> string option) list \<Rightarrow> (string list \<times> string option) option" where
  "open_stream attempts = (case find (\<lambda>a. case a of Inl _ \<Rightarrow> False | Inr _ \<Rightarrow> True) (take 4 attempts) of
     Some (Inr s) \<Rightarrow> Some s | _ \<Rightarrow> None)"

definition streamPodLogs :: "DumpApi \<Rightarrow> DumpCtx \<Rightarrow> string \<Rightarrow> string \<Rightarrow> string \<Rightarrow> int \<Rightarrow> (int \<times> string \<Rightarrow> logEntry) \<Rightarrow> collected" where
  "streamPodLogs api dc namespace podName containerName limit onLine =
     (case open_stream (da_streams api namespace podName containerName (if limit > 0 then Some limit else None)) of
        None \<Rightarrow> Inl [''unable to stream logs for '' @ namespace @ ''/'' @ podName @ ''['' @ containerName @ '']'']
      | Some (text_lines, err) \<Rightarrow> (case err of
          Some e \<Rightarrow> Inl [e]
        | None \<Rightarrow> Inr (map (\<lambda>line. case splitLeadingTimestamp dc line of
            None \<Rightarrow> onLine (dc_now dc line, line) | Some (ts, rest) \<Rightarrow> onLine (ts, rest)) text_lines)))"

definition stream_all :: "DumpApi \<Rightarrow> DumpCtx \<Rightarrow> string \<Rightarrow> (string \<times> string list) list \<Rightarrow> int \<Rightarrow> (int \<times> string \<Rightarrow> logEntry) \<Rightarrow> collected" where
  "stream_all api dc namespace pods limit onLine =
     together (concat (map (\<lambda>(pod, containers). map (\<lambda>c. streamPodLogs api dc namespace pod c limit onLine) containers) pods))"

definition in_namespace :: "string \<Rightarrow> logEntry \<Rightarrow> logEntry" where
  "in_namespace namespace e = (if le_namespace e = [] then e\<lparr>le_namespace := namespace\<rparr> else e)"

definition collectNamespacePodLogs :: "DumpApi \<Rightarrow> DumpCtx \<Rightarrow> string \<Rightarrow> int \<Rightarrow> collected" where
  "collectNamespacePodLogs api dc namespace limit = (case da_pods api namespace of
     Inl e \<Rightarrow> Inl [e]
   | Inr pods \<Rightarrow> stream_all api dc namespace pods limit (\<lambda>line. in_namespace namespace (parse_line dc srcNamespacePod line)))"

definition event_level :: "DumpEvent \<Rightarrow> string" where
  "event_level ev = (if EqualFold (de_type ev) ''Warning'' then ''warn'' else ''info'')"

definition event_message :: "DumpEvent \<Rightarrow> string" where
  "event_message ev = (if de_reason ev \<noteq> [] then ''['' @ de_reason ev @ ''] '' @ de_note ev else de_note ev)"

definition event_entry :: "string \<Rightarrow> DumpEvent \<Rightarrow> int \<Rightarrow> int \<Rightarrow> logEntry" where
  "event_entry namespace ev ts n = \<lparr>le_time = ts, le_level = event_level ev, le_source = srcEvent, le_namespace = namespace,
     le_message = event_message ev,
     le_extras = [(''reason'', PString (de_reason ev)), (''count'', PNumber (Itoa n)), (''involved'', PString (de_kind ev @ ''/'' @ de_name ev)),
       (''reporting'', PString (de_controller ev)), (''event_type'', PString (de_type ev))]\<rparr>"

fun first_set :: "int list \<Rightarrow> int \<Rightarrow> int" where
  "first_set [] now = now"
| "first_set (t # ts) now = (if t \<noteq> zero_time then t else first_set ts now)"

definition series_time :: "DumpEvent \<Rightarrow> int" where
  "series_time ev = (case de_series ev of None \<Rightarrow> zero_time | Some (t, _) \<Rightarrow> t)"

definition collectEventsV1 :: "DumpApi \<Rightarrow> DumpCtx \<Rightarrow> string \<Rightarrow> string + logEntry list" where
  "collectEventsV1 api dc namespace = (case da_eventsV1 api namespace of
     Inl e \<Rightarrow> Inl e
   | Inr evs \<Rightarrow> Inr (map (\<lambda>ev. event_entry namespace ev
       (first_set [de_eventTime ev, series_time ev, de_lastTimestamp ev, de_firstTimestamp ev, de_creationTimestamp ev] (dc_now dc (de_note ev)))
       (case de_series ev of Some (_, n) \<Rightarrow> if n > 0 then n else if de_count ev > 0 then de_count ev else 0
        | None \<Rightarrow> if de_count ev > 0 then de_count ev else 0)) evs))"

definition collectEventsCoreV1 :: "DumpApi \<Rightarrow> DumpCtx \<Rightarrow> string \<Rightarrow> string + logEntry list" where
  "collectEventsCoreV1 api dc namespace = (case da_eventsCore api namespace of
     Inl e \<Rightarrow> Inl e
   | Inr evs \<Rightarrow> Inr (map (\<lambda>ev. event_entry namespace ev
       (first_set [de_eventTime ev, de_lastTimestamp ev, de_firstTimestamp ev] (dc_now dc (de_note ev))) (de_count ev)) evs))"

definition collectEvents :: "DumpApi \<Rightarrow> DumpCtx \<Rightarrow> string \<Rightarrow> collected" where
  "collectEvents api dc namespace = (case collectEventsV1 api dc namespace of
     Inr es \<Rightarrow> Inr es
   | Inl _ \<Rightarrow> (case collectEventsCoreV1 api dc namespace of Inl e \<Rightarrow> Inl [e] | Inr es \<Rightarrow> Inr es))"

definition splitNamespaceName :: "string \<Rightarrow> string + string \<times> string" where
  "splitNamespaceName s = (case Split s (CHR ''/'') of
     [namespace, name] \<Rightarrow> if namespace = [] \<or> name = [] then Inl (''expected namespace/name, got '' @ s) else Inr (namespace, name)
   | _ \<Rightarrow> Inl (''expected namespace/name, got '' @ s))"

definition collectDeploymentLogs :: "DumpApi \<Rightarrow> DumpCtx \<Rightarrow> string \<Rightarrow> string \<Rightarrow> string \<Rightarrow> int \<Rightarrow> collected" where
  "collectDeploymentLogs api dc namespace name source limit = (case da_deployment api namespace name of
     Inl e \<Rightarrow> Inl [e]
   | Inr selector \<Rightarrow> (case da_podsOf api namespace selector of
       Inl e \<Rightarrow> Inl [e]
     | Inr pods \<Rightarrow>
         if pods = [] then Inl [''no pods for deployment '' @ namespace @ ''/'' @ name]
         else stream_all api dc namespace pods limit (parse_line dc source)))"

text \<open>A deployment whose name does not have the form \<^verbatim>\<open>namespace/name\<close> ends the collector at once.\<close>

definition collectControllerLogs :: "DumpApi \<Rightarrow> DumpCtx \<Rightarrow> string list \<Rightarrow> int \<Rightarrow> collected" where
  "collectControllerLogs api dc deployments limit =
     (case find (\<lambda>d. case splitNamespaceName d of Inl _ \<Rightarrow> True | Inr _ \<Rightarrow> False) deployments of
        Some d \<Rightarrow> Inl [''expected namespace/name, got '' @ d]
      | None \<Rightarrow> together (map (\<lambda>d. case splitNamespaceName d of
          Inl e \<Rightarrow> Inl [e]
        | Inr (namespace, name) \<Rightarrow>
            collectDeploymentLogs api dc namespace name (if Contains (ToLower name) ''ray'' then srcRay else srcKueue) limit) deployments))"

definition collectKaiwoLogs :: "DumpApi \<Rightarrow> DumpCtx \<Rightarrow> string \<Rightarrow> int \<Rightarrow> string + collected option" where
  "collectKaiwoLogs api dc deployment limit = (case splitNamespaceName deployment of
     Inl e \<Rightarrow> Inl e
   | Inr (namespace, name) \<Rightarrow> (case da_deployment api namespace name of
       Inl _ \<Rightarrow> Inr None
     | Inr _ \<Rightarrow> Inr (Some (collectDeploymentLogs api dc namespace name srcKaiwo limit))))"

definition local_entry :: "DumpCtx \<Rightarrow> string \<Rightarrow> logEntry" where
  "local_entry dc line = (case splitLeadingTimestamp dc line of
     Some stamped \<Rightarrow> parse_line dc srcKaiwo stamped
   | None \<Rightarrow> (case parseJSONLine dc zero_time line of
       Some entry \<Rightarrow> entry\<lparr>le_source := srcKaiwo\<rparr>
     | None \<Rightarrow> \<lparr>le_time = dc_now dc line, le_level = ''info'', le_source = srcKaiwo, le_namespace = [], le_message = TrimSpace line, le_extras = []\<rparr>))"

definition collectLocalKaiwo :: "DumpApi \<Rightarrow> DumpCtx \<Rightarrow> string \<Rightarrow> collected" where
  "collectLocalKaiwo api dc path = (case da_localFile api path of
     Inl e \<Rightarrow> Inl [e]
   | Inr (text_lines, err) \<Rightarrow> (case err of Some e \<Rightarrow> Inl [e] | None \<Rightarrow> Inr (map (local_entry dc) text_lines)))"

definition kaiwo_or_local :: "DumpApi \<Rightarrow> DumpCtx \<Rightarrow> DumpOptions \<Rightarrow> collected" where
  "kaiwo_or_local api dc opts = (case collectKaiwoLogs api dc (do_kaiwoDeployment opts) (do_limitLines opts) of
     Inl e \<Rightarrow> Inl [e]
   | Inr (Some r) \<Rightarrow> r
   | Inr None \<Rightarrow> if do_localLogsPath opts = [] then Inr [] else collectLocalKaiwo api dc (do_localLogsPath opts))"

section \<open>Filtering\<close>

definition filterEntries :: "logEntry list \<Rightarrow> string \<Rightarrow> DumpOptions \<Rightarrow> logEntry list" where
  "filterEntries entries testNamespace opts = (
     let windowStart = (case find (\<lambda>e. le_namespace e = testNamespace) entries of None \<Rightarrow> zero_time | Some e \<Rightarrow> le_time e);
         windowEnd = (case find (\<lambda>e. le_namespace e = testNamespace) (rev entries) of None \<Rightarrow> zero_time | Some e \<Rightarrow> le_time e);
         hasWindow = (windowStart \<noteq> zero_time \<and> windowEnd \<noteq> zero_time)
     in filter (\<lambda>e.
          if le_namespace e = testNamespace then atLeast_level (le_level e) (do_namespacedLevel opts)
          else if \<not> hasWindow then False
          else if le_time e < windowStart \<or> le_time e > windowEnd then False
          else atLeast_level (le_level e) (do_clusterLevel opts)) entries)"

section \<open>Resources and printing\<close>

fun getStringFromExtras :: "DumpCtx \<Rightarrow> (string \<times> payload_value) list \<Rightarrow> string list \<Rightarrow> string" where
  "getStringFromExtras dc extras [] = []"
| "getStringFromExtras dc extras (k # keys) = (case map_of extras k of
     Some v \<Rightarrow> value_text dc v
   | None \<Rightarrow> getStringFromExtras dc extras keys)"

text \<open>The name of an object nested in the extras, in the order in which the map is walked.\<close>

fun nested_resource :: "DumpCtx \<Rightarrow> (string \<times> payload_value) list \<Rightarrow> string option" where
  "nested_resource dc [] = None"
| "nested_resource dc ((k, v) # rest) = (case v of
     PMap obj \<Rightarrow> (let objName = getStringFromExtras dc obj [''name'']; objNamespace = getStringFromExtras dc obj [''namespace'']
       in if objName \<noteq> [] \<and> objNamespace \<noteq> [] then Some (k @ ''/'' @ objNamespace @ ''/'' @ objName)
          else if objName \<noteq> [] then Some (k @ ''/'' @ objName)
          else nested_resource dc rest)
   | _ \<Rightarrow> nested_resource dc rest)"

definition namespace_resource :: "logEntry \<Rightarrow> string" where
  "namespace_resource e = (if le_namespace e \<noteq> [] then ''ns/'' @ le_namespace e else [])"

definition extractResourceInfo :: "DumpCtx \<Rightarrow> logEntry \<Rightarrow> string" where
  "extractResourceInfo dc e = (
     let extra = getStringFromExtras dc (le_extras e);
         kind = extra [''controllerKind'', ''kind'']; name = extra [''name'']; namespace = extra [''namespace''];
         qualified = (\<lambda>s. if namespace \<noteq> [] then namespace @ ''/'' @ s else s)
     in if kind \<noteq> [] \<and> name \<noteq> [] \<and> namespace \<noteq> [] then kind @ ''/'' @ namespace @ ''/'' @ name
        else if kind \<noteq> [] \<and> name \<noteq> [] then kind @ ''/'' @ name
        else (case nested_resource dc (le_extras e) of
          Some r \<Rightarrow> r
        | None \<Rightarrow>
            if name \<noteq> [] \<and> namespace \<noteq> [] then namespace @ ''/'' @ name
            else if name \<noteq> [] then name
            else if extra [''workload''] \<noteq> [] then
              (if extra [''queue''] \<noteq> [] then ''queue/'' @ extra [''queue''] @ ''/workload/'' @ extra [''workload'']
               else ''workload/'' @ extra [''workload''])
            else if extra [''clusterQueue'', ''cluster-queue''] \<noteq> [] then ''clusterQueue/'' @ extra [''clusterQueue'', ''cluster-queue'']
            else if extra [''resourceQuota''] \<noteq> [] then ''resourceQuota/'' @ qualified (extra [''resourceQuota''])
            else if extra [''involved''] \<noteq> [] then qualified (extra [''involved''])
            else if extra [''pod''] \<noteq> [] then ''pod/'' @ qualified (extra [''pod''])
            else if extra [''controller''] \<noteq> [] then ''controller/'' @ extra [''controller'']
            else namespace_resource e))"

definition ansi :: "string \<Rightarrow> string" where "ansi code = CHR 0x1B # ''['' @ code @ ''m''"

definition colorReset :: string where "colorReset = ansi ''0''"
definition colorGray :: string where "colorGray = ansi ''90''"
definition colorWhite :: string where "colorWhite = ansi ''97''"
definition colorRed :: string where "colorRed = ansi ''31''"
definition colorGreen :: string where "colorGreen = ansi ''32''"
definition colorYellow :: string where "colorYellow = ansi ''33''"
definition colorBlue :: string where "colorBlue = ansi ''34''"
definition colorMagenta :: string where "colorMagenta = ansi ''35''"
definition colorCyan :: string where "colorCyan = ansi ''36''"
definition colorBRed :: string where "colorBRed = ansi ''91''"
definition colorOrange :: string where "colorOrange = ansi ''38;5;214''"

definition sourceColors :: "string gomap" where
  "sourceColors = [(srcEvent, colorMagenta), (srcKueue, colorCyan), (srcRay, colorYellow), (srcKaiwo, colorGreen), (srcNamespacePod, colorBlue)]"

definition levelColors :: "string gomap" where
  "levelColors = [(''trace'', colorGray), (''debug'', colorGray), (''info'', colorGreen), (''warn'', colorYellow), (''error'', colorRed),
     (''fatal'', colorBRed)]"

definition color_of :: "string gomap \<Rightarrow> string \<Rightarrow> string" where
  "color_of colors k = (let c = map_get [] colors k in if c = [] then colorGray else c)"

definition ToUpper :: "string \<Rightarrow> string" where
  "ToUpper s = map to_upper_char s"

definition pad_right :: "nat \<Rightarrow> string \<Rightarrow> string" where
  "pad_right n s = s @ replicate (n - length s) (CHR '' '')"

definition extras_text :: "DumpCtx \<Rightarrow> (string \<times> payload_value) list \<Rightarrow> string" where
  "extras_text dc extras = (if extras = [] then []
     else '' '' @ colorGray @ Join (map (\<lambda>(k, v). k @ ''='' @ value_text dc v) (sort_key fst extras)) '' '' @ colorReset)"

definition printEntry :: "DumpCtx \<Rightarrow> int \<Rightarrow> logEntry \<Rightarrow> string" where
  "printEntry dc baseTime e = (
     let level = (if lowerString (le_level e) = [] then ''info'' else lowerString (le_level e));
         resource = extractResourceInfo dc e;
         resourceStr = (if resource \<noteq> [] then '' '' @ colorOrange @ pad_right 20 resource @ colorReset else '' '' @ pad_right 20 []);
         namespaceStr = (if le_namespace e \<noteq> [] then '' '' @ colorGray @ ''ns='' @ le_namespace e @ colorReset else [])
     in dc_timestamp dc (le_time e) @ '' ('' @ dc_seconds dc (le_time e - baseTime) @ ''s)  '' @
        color_of levelColors level @ pad_right 9 (ToUpper (levelOrDefault level)) @ colorReset @ ''  '' @
        color_of sourceColors (le_source e) @ le_source e @ colorReset @ resourceStr @ ''  '' @
        colorWhite @ le_message e @ colorReset @ namespaceStr @ extras_text dc (le_extras e) @ [CHR 0x0A])"

section \<open>The command\<close>

text \<open>
  The command: all collectors, then the entries in the order of their arrival without those that have no time, sorted by time
  and filtered. \<^verbatim>\<open>sort.Slice\<close> may put entries of one time in any order; the model keeps theirs.
\<close>

definition collect_all :: "DumpApi \<Rightarrow> DumpCtx \<Rightarrow> DumpOptions \<Rightarrow> string \<Rightarrow> collected" where
  "collect_all api dc opts testNamespace = together
     [collectNamespacePodLogs api dc testNamespace (do_limitLines opts), collectEvents api dc testNamespace,
      collectControllerLogs api dc (do_controllerDeployments opts) (do_limitLines opts), kaiwo_or_local api dc opts]"

definition kaiwo_dump :: "DumpApi \<Rightarrow> DumpCtx \<Rightarrow> DumpOptions \<Rightarrow> (logEntry list \<Rightarrow> logEntry list) \<Rightarrow> string \<Rightarrow> collected" where
  "kaiwo_dump api dc opts arrival testNamespace = (case collect_all api dc opts testNamespace of
     Inl errs \<Rightarrow> Inl errs
   | Inr sent \<Rightarrow> Inr (filterEntries (sort_key le_time (filter (\<lambda>e. le_time e \<noteq> zero_time) (arrival sent))) testNamespace opts))"

definition dump_defaults :: DumpOptions where
  "dump_defaults = \<lparr>do_controllerDeployments = defaultControllers, do_kaiwoDeployment = ''kaiwo-system/kaiwo-controller-manager'',
     do_localLogsPath = [], do_limitLines = 0, do_namespacedLevel = ''debug'', do_clusterLevel = ''info''\<rparr>"

text \<open>What the command prints: ages count from the first entry kept.\<close>

definition dump_main :: "DumpApi \<Rightarrow> DumpCtx \<Rightarrow> DumpOptions \<Rightarrow> (logEntry list \<Rightarrow> logEntry list) \<Rightarrow> string \<Rightarrow> string list + string list" where
  "dump_main api dc opts arrival testNamespace = (case kaiwo_dump api dc opts arrival testNamespace of
     Inl errs \<Rightarrow> Inl errs
   | Inr [] \<Rightarrow> Inr []
   | Inr (e # es) \<Rightarrow> Inr (map (printEntry dc (le_time e)) (e # es)))"

section \<open>What is kept\<close>

text \<open>An entry matters if it is of the namespace, or happened while the namespace was active; the levels differ.\<close>

definition relevant :: "logEntry set \<Rightarrow> string \<Rightarrow> DumpOptions \<Rightarrow> logEntry \<Rightarrow> bool" where
  "relevant E ns opts e \<longleftrightarrow> (if le_namespace e = ns then atLeast_level (le_level e) (do_namespacedLevel opts)
     else atLeast_level (le_level e) (do_clusterLevel opts) \<and>
          (\<exists>a\<in>E. le_namespace a = ns \<and> le_time a \<le> le_time e) \<and> (\<exists>b\<in>E. le_namespace b = ns \<and> le_time e \<le> le_time b))"

lemma find_first_sorted:
  assumes "sorted (map f xs)" "find P xs = Some a" "b \<in> set xs" "P b"
  shows "f a \<le> (f b :: int)"
  using assms by (induction xs) (auto split: if_splits)

lemma find_last_sorted:
  assumes "sorted (map f xs)" "find P (rev xs) = Some a" "b \<in> set xs" "P b"
  shows "f b \<le> (f a :: int)"
  using assms by (induction xs rule: rev_induct) (auto simp: sorted_append split: if_splits)

lemma find_member: "find P xs = Some a \<Longrightarrow> a \<in> set xs \<and> P a"
  by (auto simp: find_Some_iff)

lemma filterEntries_sorted:
  assumes srt: "sorted (map le_time es)" and nz: "\<And>e. e \<in> set es \<Longrightarrow> le_time e \<noteq> zero_time"
  shows "filterEntries es ns opts = filter (relevant (set es) ns opts) es"
proof (cases "find (\<lambda>e. le_namespace e = ns) es")
  case None
  then have none: "\<And>e. e \<in> set es \<Longrightarrow> le_namespace e \<noteq> ns" by (auto simp: find_None_iff)
  then have "find (\<lambda>e. le_namespace e = ns) (rev es) = None" by (auto simp: find_None_iff)
  with None none show ?thesis
    by (auto simp: filterEntries_def relevant_def intro!: filter_cong)
next
  case (Some a)
  from find_member [OF Some] have a: "a \<in> set es" "le_namespace a = ns" by auto
  then obtain b where b: "find (\<lambda>e. le_namespace e = ns) (rev es) = Some b"
    by (cases "find (\<lambda>e. le_namespace e = ns) (rev es)") (auto simp: find_None_iff)
  from find_member [OF b] have b': "b \<in> set es" "le_namespace b = ns" by auto
  have lo: "(\<exists>c\<in>set es. le_namespace c = ns \<and> le_time c \<le> t) \<longleftrightarrow> le_time a \<le> t" for t
    using find_first_sorted [OF srt Some] a by (blast intro: order_trans)
  have hi: "(\<exists>c\<in>set es. le_namespace c = ns \<and> t \<le> le_time c) \<longleftrightarrow> t \<le> le_time b" for t
    using find_last_sorted [OF srt b] b' by (blast intro: order_trans)
  show ?thesis
    unfolding filterEntries_def relevant_def lo hi using Some b nz [OF a(1)] nz [OF b'(1)]
    by (auto simp: not_less intro!: filter_cong)
qed

lemma filterEntries_of_sorted_arrival:
  fixes ns opts
  assumes "mset arrived = mset sent"
  defines "timed \<equiv> filter (\<lambda>e. le_time e \<noteq> zero_time) sent"
  defines "out \<equiv> filterEntries (sort_key le_time (filter (\<lambda>e. le_time e \<noteq> zero_time) arrived)) ns opts"
  shows "sorted (map le_time out)" "mset out = filter_mset (relevant (set timed) ns opts) (mset timed)"
proof -
  let ?es = "sort_key le_time (filter (\<lambda>e. le_time e \<noteq> zero_time) arrived)"
  have ms: "mset ?es = mset timed" unfolding timed_def using assms(1) by simp
  then have st: "set ?es = set timed" by (rule mset_eq_setD)
  have out: "out = filter (relevant (set timed) ns opts) ?es"
    unfolding out_def by (subst filterEntries_sorted) (auto simp: st [symmetric])
  show "sorted (map le_time out)" unfolding out by (rule sorted_filter) simp
  show "mset out = filter_mset (relevant (set timed) ns opts) (mset timed)"
    unfolding out by (simp only: mset_filter ms)
qed

text \<open>
  C39: The dump is right whatever the order in which the concurrent collectors deliver: if they all succeed, the command prints
  the entries in the order of their times, and prints exactly, each as often as it was collected, the entries with a time that are of the
  test namespace and severe enough for it, or that happened between two entries of the namespace and are severe enough for the
  cluster.
\<close>

theorem kaiwo_dump_prints_relevant:
  assumes "collect_all api dc opts ns = Inr sent"
    and "mset (arrival sent) = mset sent"
  defines "timed \<equiv> filter (\<lambda>e. le_time e \<noteq> zero_time) sent"
  shows "\<exists>out. kaiwo_dump api dc opts arrival ns = Inr out \<and> sorted (map le_time out) \<and>
     mset out = filter_mset (relevant (set timed) ns opts) (mset timed)"
  using filterEntries_of_sorted_arrival [OF assms(2), of ns opts] assms(1) unfolding timed_def
  by (simp add: kaiwo_dump_def)

text \<open>
  A run: an event of the namespace at 10 and one at 30, a controller that logs at 5, at 20 (twice, once too low) and at 40, and no Kaiwo
  deployment. The lines arrive in reverse.
\<close>

definition example_dump_ctx :: DumpCtx where
  "example_dump_ctx = \<lparr>dc_parseNano = (\<lambda>s. map_of [(''2025-01-01T05Z'', 5), (''2025-01-01T20Z'', 20), (''2025-01-01T40Z'', 40)] s),
     dc_parse = (\<lambda>_. None), dc_decode = (\<lambda>s. if s = ''{d}'' then Some [(''level'', PString ''debug''), (''msg'', PString ''low'')] else None),
     dc_sprint = (\<lambda>_. []), dc_now = (\<lambda>_. 99), dc_timestamp = (\<lambda>_. []), dc_seconds = (\<lambda>_. [])\<rparr>"

definition example_event :: "int \<Rightarrow> DumpEvent" where
  "example_event t = \<lparr>de_eventTime = t, de_series = None, de_lastTimestamp = zero_time, de_firstTimestamp = zero_time,
     de_creationTimestamp = zero_time, de_type = ''Normal'', de_reason = ''Started'', de_note = ''n'', de_count = 1, de_kind = ''Pod'',
     de_name = ''p'', de_controller = ''kubelet''\<rparr>"

definition example_dump_api :: DumpApi where
  "example_dump_api = \<lparr>da_pods = (\<lambda>_. Inr []),
     da_deployment = (\<lambda>ns n. if ns = ''kaiwo-system'' then Inl ''not found'' else Inr [(''app'', n)]),
     da_podsOf = (\<lambda>ns sel. Inr [(ns, [''manager''])]),
     da_streams = (\<lambda>ns p c l. if ns = ''default'' then [Inl ''busy'', Inr ([''2025-01-01T05Z early'', ''2025-01-01T20Z {d}'', ''2025-01-01T20Z kept''], None)]
       else [Inr ([''2025-01-01T40Z late''], None)]),
     da_eventsV1 = (\<lambda>_. Inl ''forbidden''), da_eventsCore = (\<lambda>_. Inr [example_event 30, example_event 10]),
     da_localFile = (\<lambda>_. Inl ''no file'')\<rparr>"

definition example_sent :: "logEntry list" where
  "example_sent = (case collect_all example_dump_api example_dump_ctx dump_defaults ''test'' of Inl _ \<Rightarrow> [] | Inr es \<Rightarrow> es)"

lemma example_sent: "collect_all example_dump_api example_dump_ctx dump_defaults ''test'' = Inr example_sent"
  by code_simp

theorem kaiwo_dump_prints_relevant_witness:
  "\<exists>out. kaiwo_dump example_dump_api example_dump_ctx dump_defaults rev ''test'' = Inr out \<and> sorted (map le_time out) \<and>
     mset out = filter_mset (relevant (set (filter (\<lambda>e. le_time e \<noteq> zero_time) example_sent)) ''test'' dump_defaults)
       (mset (filter (\<lambda>e. le_time e \<noteq> zero_time) example_sent)) \<and>
     map le_time out = [10, 20, 30]"
proof -
  have "(case kaiwo_dump example_dump_api example_dump_ctx dump_defaults rev ''test'' of Inl _ \<Rightarrow> [] | Inr out \<Rightarrow> map le_time out) = [10, 20, 30]"
    by code_simp
  with kaiwo_dump_prints_relevant [OF example_sent, of rev] show ?thesis by auto
qed

section \<open>Resources\<close>

text \<open>The parsers move the namespace of a line out of its extras, where the resource is looked for.\<close>

definition no_namespace :: "logEntry \<Rightarrow> bool" where
  "no_namespace e \<longleftrightarrow> map_of (le_extras e) ''namespace'' = None"

fun all_entries :: "(logEntry \<Rightarrow> bool) \<Rightarrow> collected \<Rightarrow> bool" where
  "all_entries P (Inl _) = True"
| "all_entries P (Inr es) = list_all P es"

lemma no_namespace_updates [simp]:
  "no_namespace (e\<lparr>le_source := s\<rparr>) = no_namespace e"
  "no_namespace (in_namespace ns e) = no_namespace e"
  by (simp_all add: no_namespace_def in_namespace_def)

lemma json_entry_no_namespace [simp]: "no_namespace (json_entry dc ts line payload)"
proof -
  have "ToLower ''namespace'' \<in> set known_keys" by code_simp
  then show ?thesis by (auto simp: no_namespace_def json_entry_def map_of_eq_None_iff)
qed

lemma parseJSONLine_no_namespace: "parseJSONLine dc ts line = Some e \<Longrightarrow> no_namespace e"
  by (auto simp: parseJSONLine_def Let_def split: if_splits)

lemma parseGenericLine_no_namespace [simp]: "no_namespace (parseGenericLine dc ts line)"
  by (auto simp: parseGenericLine_def Let_def parseJSONLine_no_namespace split: option.splits)
    (simp_all add: no_namespace_def)

lemma parse_line_no_namespace [simp]: "no_namespace (parse_line dc source line)"
  by (auto simp: parse_line_def parseJSONLine_no_namespace split: option.splits)

lemma local_entry_no_namespace [simp]: "no_namespace (local_entry dc line)"
  by (auto simp: local_entry_def parseJSONLine_no_namespace split: option.splits) (simp add: no_namespace_def)

lemma event_entry_no_namespace [simp]: "no_namespace (event_entry ns ev ts n)"
  by (simp add: no_namespace_def event_entry_def)

lemma together_all_entries: "list_all (all_entries P) rs \<Longrightarrow> all_entries P (together rs)"
  by (auto simp: together_def Let_def list_all_iff split: sum.splits)

lemma streamPodLogs_all: "(\<And>line. P (onLine line)) \<Longrightarrow> all_entries P (streamPodLogs api dc ns pod c limit onLine)"
  by (auto simp: streamPodLogs_def list_all_iff split: option.splits prod.splits)

lemma stream_all_all: "(\<And>line. P (onLine line)) \<Longrightarrow> all_entries P (stream_all api dc ns pods limit onLine)"
  unfolding stream_all_def by (rule together_all_entries) (auto simp: list_all_iff intro!: streamPodLogs_all)

lemma collectDeploymentLogs_all: "all_entries no_namespace (collectDeploymentLogs api dc ns name source limit)"
  by (auto simp: collectDeploymentLogs_def stream_all_all split: sum.splits)

lemma collect_all_no_namespace: "all_entries no_namespace (collect_all api dc opts ns)"
proof -
  have "all_entries no_namespace (collectNamespacePodLogs api dc ns l)" for l
    by (auto simp: collectNamespacePodLogs_def stream_all_all split: sum.splits)
  moreover have "all_entries no_namespace (collectEvents api dc ns)"
    by (auto simp: collectEvents_def collectEventsV1_def collectEventsCoreV1_def list_all_iff split: sum.splits)
  moreover have "all_entries no_namespace (collectControllerLogs api dc ds l)" for ds l
    by (auto simp: collectControllerLogs_def list_all_iff collectDeploymentLogs_all split: option.splits sum.splits intro!: together_all_entries)
  moreover have "all_entries no_namespace (kaiwo_or_local api dc opts)"
    by (auto simp: kaiwo_or_local_def collectKaiwoLogs_def collectLocalKaiwo_def collectDeploymentLogs_all list_all_iff
        split: sum.splits option.splits if_splits)
  ultimately show ?thesis unfolding collect_all_def by (intro together_all_entries) simp
qed

text \<open>
  The namespace of a collected entry is never among its extras, so the resource printed for it never has the form
  \<^verbatim>\<open>kind/namespace/name\<close> of the controllers' log lines.
\<close>

lemma collected_resource_has_no_namespace:
  assumes "collect_all api dc opts ns = Inr sent" and "e \<in> set sent"
  shows "getStringFromExtras dc (le_extras e) [''namespace''] = []"
proof -
  from collect_all_no_namespace [of api dc opts ns] assms have "no_namespace e"
    by (simp add: list_all_iff)
  then show ?thesis by (simp add: no_namespace_def)
qed

end
