(* ===== verification/CliStreams.thy ===== *)
theory CliStreams
  imports PodCommands "HOL-Library.Word"
begin

text \<open>
  The streams behind \<^verbatim>\<open>kaiwo logs\<close> and \<^verbatim>\<open>kaiwo exec\<close> (\<^verbatim>\<open>pkg/cli/utils/logs.go\<close>, \<^verbatim>\<open>pkg/cli/utils/exec.go\<close>).
  \<^verbatim>\<open>OutputLogs\<close> runs two goroutines beside its caller: one waits for a signal and cancels the context, one copies the stream to the
  terminal. They are a step relation whose steps interleave freely. Lemmas: what has been printed at any moment, that nothing
  runs on after the return, and that a signal or the end of the stream ends the call on every schedule.
\<close>

section \<open>Reading a log stream\<close>

datatype read_error = ReadEOF | ReadCanceled | ReadFailed string

text \<open>
  What the stream delivers: the bytes of each \<^verbatim>\<open>Read\<close>, with the error that may come with them. A stream that has
  nothing more to deliver blocks.
\<close>

type_synonym reads = "(string \<times> read_error option) list"

datatype reader = AtSelect | AtRead | ReaderDone
datatype caller = AtWait | AtClose | Returned

record LogRun =
  lr_cancelled :: bool
  lr_reader :: reader
  lr_caller :: caller
  lr_reads :: reads
  lr_printed :: string

definition podLogOpts :: "string \<Rightarrow> int \<Rightarrow> bool \<Rightarrow> string \<times> bool \<times> int option" where
  "podLogOpts containerName tailLines follow = (containerName, follow, if tailLines > 0 then Some tailLines else None)"

definition log_run_start :: "reads \<Rightarrow> LogRun" where
  "log_run_start rs = \<lparr>lr_cancelled = False, lr_reader = AtSelect, lr_caller = AtWait, lr_reads = rs, lr_printed = []\<rparr>"

text \<open>
  The reader looks at the context before each read; a read in progress when the context is cancelled may still deliver or may
  fail. The caller waits for the reader or the context, and its deferred function waits for the reader before it closes the
  stream.
\<close>

inductive log_step :: "LogRun \<Rightarrow> LogRun \<Rightarrow> bool" where
  log_signal: "\<not> lr_cancelled s \<Longrightarrow> log_step s (s\<lparr>lr_cancelled := True\<rparr>)"
| log_stop: "lr_reader s = AtSelect \<Longrightarrow> lr_cancelled s \<Longrightarrow> log_step s (s\<lparr>lr_reader := ReaderDone\<rparr>)"
| log_select: "lr_reader s = AtSelect \<Longrightarrow> \<not> lr_cancelled s \<Longrightarrow> log_step s (s\<lparr>lr_reader := AtRead\<rparr>)"
| log_read: "lr_reader s = AtRead \<Longrightarrow> lr_reads s = (chunk, None) # rest \<Longrightarrow>
    log_step s (s\<lparr>lr_reader := AtSelect, lr_reads := rest, lr_printed := lr_printed s @ chunk\<rparr>)"
| log_end: "lr_reader s = AtRead \<Longrightarrow> lr_reads s = (chunk, Some err) # rest \<Longrightarrow>
    log_step s (s\<lparr>lr_reader := ReaderDone, lr_reads := rest, lr_printed := lr_printed s @ chunk\<rparr>)"
| log_interrupted: "lr_reader s = AtRead \<Longrightarrow> lr_cancelled s \<Longrightarrow> log_step s (s\<lparr>lr_reader := ReaderDone\<rparr>)"
| log_wait: "lr_caller s = AtWait \<Longrightarrow> lr_reader s = ReaderDone \<or> lr_cancelled s \<Longrightarrow> log_step s (s\<lparr>lr_caller := AtClose\<rparr>)"
| log_close: "lr_caller s = AtClose \<Longrightarrow> lr_reader s = ReaderDone \<Longrightarrow> log_step s (s\<lparr>lr_caller := Returned\<rparr>)"

inductive_cases log_stepE: "log_step s t"

text \<open>The call as its caller sees it: the error of opening the stream, or a run; the run itself reports no error.\<close>

datatype log_outcome = LogFailed string | LogStreams LogRun

definition OutputLogs :: "(string \<Rightarrow> string \<Rightarrow> string \<times> bool \<times> int option \<Rightarrow> string + reads) \<Rightarrow> string \<Rightarrow> string \<Rightarrow> int \<Rightarrow> string \<Rightarrow> bool \<Rightarrow> log_outcome" where
  "OutputLogs stream podName containerName tailLines namespace follow =
     (case stream namespace podName (podLogOpts containerName tailLines follow) of
        Inl e \<Rightarrow> LogFailed (''error streaming logs for pod '' @ podName @ '' container '' @ containerName @ '': '' @ e)
      | Inr rs \<Rightarrow> LogStreams (log_run_start rs))"

section \<open>Executing a command\<close>

record ExecRequest =
  er_namespace :: string
  er_pod :: string
  er_container :: string
  er_command :: "string list"
  er_stdin :: bool
  er_tty :: bool

text \<open>The terminal's size, as the resize stream sends it: 16 bits each.\<close>

definition getTerminalSize :: "(string + int \<times> int) \<Rightarrow> int \<times> int" where
  "getTerminalSize size_answer = (case size_answer of Inl _ \<Rightarrow> (80, 24) | Inr wh \<Rightarrow> wh)"

definition fixedSizeQueue_Next :: "int \<times> int \<Rightarrow> 16 word \<times> 16 word" where
  "fixedSizeQueue_Next q = (word_of_int (fst q), word_of_int (snd q))"

text \<open>
  \<open>newExecutor\<close> is the SPDY executor's constructor, \<open>stream\<close> what a session does with the request and the size: whether it was
  cancelled, and its error.
\<close>

definition ExecInContainer :: "(ExecRequest \<Rightarrow> string option) \<Rightarrow> (ExecRequest \<Rightarrow> 16 word \<times> 16 word \<Rightarrow> bool \<times> string option) \<Rightarrow> (string + int \<times> int) \<Rightarrow>
    string \<Rightarrow> string \<Rightarrow> string \<Rightarrow> string list \<Rightarrow> bool \<Rightarrow> bool \<Rightarrow> string option" where
  "ExecInContainer newExecutor stream size_answer podName containerName namespace command interactive tty = (
     let req = \<lparr>er_namespace = namespace, er_pod = podName, er_container = containerName, er_command = command, er_stdin = interactive, er_tty = tty\<rparr>
     in case newExecutor req of
       Some e \<Rightarrow> Some (''failed to create SPDY executor: '' @ e)
     | None \<Rightarrow> (case stream req (fixedSizeQueue_Next (getTerminalSize size_answer)) of
         (cancelled, err) \<Rightarrow> if cancelled then None else map_option (\<lambda>e. ''stream execution error: '' @ e) err))"

section \<open>Forwarding a port\<close>

text \<open>
  A session after the user's choices: the transport and the forwarder are made, the spinner waits until the forwarder is ready, fails or
  ten seconds are over, and the session goes on until a signal or an error. The result is the error and how often the stop channel is
  closed; a second close would panic.
\<close>

datatype forward_wait = ForwardReady | ForwardError string | ForwardTimeout
datatype forward_stop = StopSignal | StopError string

record ForwardSession =
  fw_transport :: "string option"
  fw_forwarder :: "string list \<Rightarrow> string list \<Rightarrow> string option"
  fw_wait :: forward_wait
  fw_spinner :: "string option"
  fw_stop :: forward_stop

definition forward_stopped :: "forward_stop \<Rightarrow> string option \<times> nat" where
  "forward_stopped stop = (case stop of StopSignal \<Rightarrow> (None, 1) | StopError e \<Rightarrow> (Some (''port forwarding error: '' @ e), 1))"

definition forward_session :: "ForwardSession \<Rightarrow> string \<Rightarrow> int \<Rightarrow> int \<Rightarrow> string option \<times> nat" where
  "forward_session fw host localPort port = (case fw_transport fw of
     Some e \<Rightarrow> (Some (''failed to create SPDY transport: '' @ e), 0)
   | None \<Rightarrow> (case fw_forwarder fw [host] [Itoa localPort @ '':'' @ Itoa port] of
       Some e \<Rightarrow> (Some (''failed to create port forwarder: '' @ e), 0)
     | None \<Rightarrow> (case fw_wait fw of
         ForwardError e \<Rightarrow> (Some e, 0)
       | ForwardTimeout \<Rightarrow> (Some ''timeout waiting for port forwarding to be ready'', 1)
       | ForwardReady \<Rightarrow> (case fw_spinner fw of Some e \<Rightarrow> (Some e, 0) | None \<Rightarrow> forward_stopped (fw_stop fw)))))"

definition isPortFree :: "(string \<Rightarrow> string option) \<Rightarrow> string \<Rightarrow> int \<Rightarrow> bool" where
  "isPortFree listen host port \<longleftrightarrow> listen (host @ '':'' @ Itoa port) = None"

text \<open>A service as a target: its first pod's first container port with the number of the service's target port.\<close>

datatype int_or_string = IntPort int | StringPort string

definition port_IntValue :: "int_or_string \<Rightarrow> int" where
  "port_IntValue p = (case p of IntPort i \<Rightarrow> i | StringPort s \<Rightarrow> atoi_value s)"

definition port_String :: "int_or_string \<Rightarrow> string" where
  "port_String p = (case p of IntPort i \<Rightarrow> Itoa i | StringPort s \<Rightarrow> s)"

record ServicePortForwardTarget =
  spt_name :: string
  spt_selector :: "string gomap"
  spt_portName :: string
  spt_targetPort :: int_or_string
  spt_protocol :: string

definition pod_ports :: "TuiPod \<Rightarrow> (string \<times> int) list" where
  "pod_ports pod = concat (map (\<lambda>c. map (\<lambda>(_, port, _). (tc_name c, port)) (tc_ports c)) (tpd_containers pod))"

definition service_GetInfo :: "(string \<Rightarrow> string gomap \<Rightarrow> string + TuiPod list) \<Rightarrow> ServicePortForwardTarget \<Rightarrow> string \<Rightarrow> string + PortForwardInfo" where
  "service_GetInfo list_pods s namespace = (case list_pods namespace (spt_selector s) of
     Inl e \<Rightarrow> Inl (''failed to list pods for service '' @ e)
   | Inr [] \<Rightarrow> Inl (''no pods found for service '' @ spt_name s)
   | Inr (pod # _) \<Rightarrow> (case find (\<lambda>p. snd p = port_IntValue (spt_targetPort s)) (pod_ports pod) of
       Some (c, port) \<Rightarrow> Inr \<lparr>pf_podName = tpd_name pod, pf_containerName = c, pf_port = port\<rparr>
     | None \<Rightarrow> Inl (''no pods with matching container ports found for service '' @ spt_name s @ '' and port '' @ spt_portName s)))"

definition service_GetTableRow :: "ServicePortForwardTarget \<Rightarrow> string list" where
  "service_GetTableRow s = [''Service'', spt_name s, spt_portName s, port_String (spt_targetPort s), spt_protocol s]"

section \<open>Invariants\<close>

definition stream_ends :: "reads \<Rightarrow> bool" where
  "stream_ends rs = list_ex (\<lambda>r. snd r \<noteq> None) rs"

fun until_error :: "reads \<Rightarrow> string" where
  "until_error [] = []"
| "until_error ((chunk, None) # rs) = chunk @ until_error rs"
| "until_error ((chunk, Some _) # rs) = chunk"

definition log_inv :: "reads \<Rightarrow> LogRun \<Rightarrow> bool" where
  "log_inv rs s \<longleftrightarrow>
     (lr_reader s \<noteq> ReaderDone \<longrightarrow> lr_printed s @ until_error (lr_reads s) = until_error rs \<and> (stream_ends rs \<longrightarrow> stream_ends (lr_reads s))) \<and>
     (\<exists>more. lr_printed s @ more = until_error rs) \<and>
     (lr_reader s = ReaderDone \<and> \<not> lr_cancelled s \<longrightarrow> lr_printed s = until_error rs) \<and>
     (lr_caller s = Returned \<longrightarrow> lr_reader s = ReaderDone) \<and>
     (lr_caller s = AtClose \<longrightarrow> lr_reader s = ReaderDone \<or> lr_cancelled s)"

lemma log_inv_start: "log_inv rs (log_run_start rs)"
  by (simp add: log_inv_def log_run_start_def)

lemma log_inv_step:
  assumes "log_step s t" and "log_inv rs s"
  shows "log_inv rs t"
  using assms(1)
proof cases
  case (log_read chunk rest)
  then show ?thesis using assms(2) by (auto simp: log_inv_def stream_ends_def)
next
  case (log_end chunk err rest)
  then show ?thesis using assms(2) by (auto simp: log_inv_def)
qed (use assms(2) in \<open>auto simp: log_inv_def\<close>)

lemma log_inv_run:
  assumes "log_step\<^sup>*\<^sup>* (log_run_start rs) s"
  shows "log_inv rs s"
  using assms by (induction rule: rtranclp_induct) (auto intro: log_inv_start log_inv_step)

section \<open>Termination\<close>

text \<open>A system whose steps decrease a measure has no schedule that is longer than the measure of its start.\<close>

locale measured_steps =
  fixes step :: "'s \<Rightarrow> 's \<Rightarrow> bool" and rank :: "'s \<Rightarrow> nat"
  assumes step_decreases: "step s t \<Longrightarrow> rank t < rank s"
begin

lemma steps_bounded:
  assumes "(step ^^ n) s t"
  shows "n + rank t \<le> rank s"
  using assms
proof (induction n arbitrary: t)
  case (Suc n)
  then obtain u where "(step ^^ n) s u" "step u t" by auto
  then show ?case using Suc.IH step_decreases by fastforce
qed simp

end

text \<open>Every step moves one of the three goroutines forward.\<close>

definition reader_rank :: "reader \<Rightarrow> nat" where
  "reader_rank r = (case r of AtSelect \<Rightarrow> 2 | AtRead \<Rightarrow> 1 | ReaderDone \<Rightarrow> 0)"

definition caller_rank :: "caller \<Rightarrow> nat" where
  "caller_rank c = (case c of AtWait \<Rightarrow> 2 | AtClose \<Rightarrow> 1 | Returned \<Rightarrow> 0)"

definition log_measure :: "LogRun \<Rightarrow> nat" where
  "log_measure s = 2 * length (lr_reads s) + reader_rank (lr_reader s) + caller_rank (lr_caller s) + (if lr_cancelled s then 0 else 1)"

interpretation log_runs: measured_steps log_step log_measure
proof
  show "log_measure t < log_measure s" if "log_step s t" for s t
    using that by (induction rule: log_step.induct) (auto simp: log_measure_def reader_rank_def caller_rank_def)
qed

lemma log_progress:
  assumes "lr_caller s \<noteq> Returned" and "lr_reader s = ReaderDone \<or> lr_cancelled s \<or> stream_ends (lr_reads s)"
  shows "\<exists>t. log_step s t \<and> lr_cancelled t = lr_cancelled s"
proof (cases "lr_reader s")
  case AtSelect
  then show ?thesis by (cases "lr_cancelled s") (auto dest: log_stop log_select intro!: exI)
next
  case AtRead
  show ?thesis
  proof (cases "lr_cancelled s")
    case False
    with AtRead assms(2) obtain chunk err rest where "lr_reads s = (chunk, err) # rest"
      by (cases "lr_reads s") (auto simp: stream_ends_def)
    with AtRead show ?thesis by (cases err) (auto dest: log_read log_end intro!: exI)
  qed (use AtRead log_interrupted in \<open>auto intro!: exI\<close>)
next
  case ReaderDone
  with assms(1) show ?thesis by (cases "lr_caller s") (auto dest: log_wait log_close intro!: exI)
qed

section \<open>Port forwards\<close>

text \<open>The stop channel is never closed twice, and a session that was established closes it however it ends.\<close>

lemma forward_session_closes:
  "snd (forward_session fw host localPort port) \<le> 1"
  "fw_transport fw = None \<Longrightarrow> fw_forwarder fw [host] [Itoa localPort @ '':'' @ Itoa port] = None \<Longrightarrow> fw_wait fw = ForwardReady \<Longrightarrow>
     fw_spinner fw = None \<Longrightarrow> snd (forward_session fw host localPort port) = 1"
  by (auto simp: forward_session_def forward_stopped_def split: option.splits forward_wait.splits forward_stop.splits)

text \<open>If only the spinner fails, the session is left with a forwarder that still runs.\<close>

lemma forward_session_left_running:
  assumes "fw_transport fw = None" "fw_forwarder fw [host] [Itoa localPort @ '':'' @ Itoa port] = None" "fw_wait fw = ForwardReady"
    and "fw_spinner fw = Some e"
  shows "forward_session fw host localPort port = (Some e, 0)"
  using assms by (simp add: forward_session_def)

text \<open>A forward to a service goes to a port that its first pod exposes under the service's target port.\<close>

lemma service_GetInfo_exposed:
  assumes "service_GetInfo list_pods s ns = Inr i"
  shows "\<exists>pod pods c. list_pods ns (spt_selector s) = Inr (pod # pods) \<and> pf_podName i = tpd_name pod \<and> c \<in> set (tpd_containers pod) \<and>
     tc_name c = pf_containerName i \<and> pf_port i = port_IntValue (spt_targetPort s) \<and> pf_port i \<in> (\<lambda>p. fst (snd p)) ` set (tc_ports c)"
proof -
  from assms obtain pod pods where pods: "list_pods ns (spt_selector s) = Inr (pod # pods)"
    by (auto simp: service_GetInfo_def split: sum.splits list.splits)
  with assms obtain c port where found: "find (\<lambda>p. snd p = port_IntValue (spt_targetPort s)) (pod_ports pod) = Some (c, port)"
    and i: "i = \<lparr>pf_podName = tpd_name pod, pf_containerName = c, pf_port = port\<rparr>"
    by (cases "find (\<lambda>p. snd p = port_IntValue (spt_targetPort s)) (pod_ports pod)") (auto simp: service_GetInfo_def)
  from found have "(c, port) \<in> set (pod_ports pod)" "port = port_IntValue (spt_targetPort s)"
    by (auto simp: find_Some_iff) (metis snd_conv)
  with pods i show ?thesis by (force simp: pod_ports_def)
qed

section \<open>Properties\<close>

text \<open>
  C37: On every interleaving of its goroutines, \<^verbatim>\<open>OutputLogs\<close> prints the log in order and without gaps: what it has printed is at any moment a prefix of what
  the stream delivers up to its first error, and all of it once the call returned without a signal; and when the call has returned, the
  copying goroutine is done, so that nothing is printed afterwards.
\<close>

theorem OutputLogs_prints_in_order:
  assumes "OutputLogs stream podName containerName tailLines namespace follow = LogStreams s0"
    and "log_step\<^sup>*\<^sup>* s0 s"
  shows "(\<exists>more. lr_printed s @ more = until_error (lr_reads s0)) \<and>
    (lr_caller s = Returned \<longrightarrow> (lr_cancelled s \<or> lr_printed s = until_error (lr_reads s0)) \<and> (\<forall>t. log_step s t \<longrightarrow> lr_printed t = lr_printed s))"
proof -
  from assms(1) obtain rs where s0: "s0 = log_run_start rs" "lr_reads s0 = rs"
    by (auto simp: OutputLogs_def log_run_start_def split: sum.splits)
  from log_inv_run assms(2) have inv: "log_inv rs s" unfolding s0(1) .
  then have "lr_printed t = lr_printed s" if "lr_caller s = Returned" "log_step s t" for t
    using that unfolding log_inv_def by (auto elim: log_stepE)
  with inv show ?thesis unfolding s0(2) log_inv_def by blast
qed

text \<open>
  C38: \<^verbatim>\<open>OutputLogs\<close> returns: no schedule has more than \<open>2 n + 5\<close> steps, where \<open>n\<close> is the number of reads, and as long as the call has not
  returned, some goroutine can make a step without a further signal, provided that the stream ends or a signal has come. So every schedule ends
  with the return, a stream that is followed and stays open ends on a signal, and the deferred wait does not deadlock.
\<close>

theorem OutputLogs_returns:
  assumes "OutputLogs stream podName containerName tailLines namespace follow = LogStreams s0"
    and "(log_step ^^ n) s0 s"
  shows "n \<le> 2 * length (lr_reads s0) + 5 \<and>
    (stream_ends (lr_reads s0) \<or> lr_cancelled s \<longrightarrow> lr_caller s = Returned \<or> (\<exists>t. log_step s t \<and> lr_cancelled t = lr_cancelled s))"
proof -
  from assms(1) obtain rs where s0: "s0 = log_run_start rs" "lr_reads s0 = rs"
    by (auto simp: OutputLogs_def log_run_start_def split: sum.splits)
  from log_runs.steps_bounded [OF assms(2)] have "n \<le> 2 * length (lr_reads s0) + 5"
    by (simp add: s0(1) log_measure_def log_run_start_def reader_rank_def caller_rank_def)
  moreover from assms(2) have "log_step\<^sup>*\<^sup>* s0 s" by (rule relpowp_imp_rtranclp)
  then have "log_inv rs s" unfolding s0(1) by (rule log_inv_run)
  then have "lr_reader s = ReaderDone \<or> lr_cancelled s \<or> stream_ends (lr_reads s)" if "stream_ends (lr_reads s0) \<or> lr_cancelled s"
    using that unfolding s0(2) log_inv_def by blast
  then have "stream_ends (lr_reads s0) \<or> lr_cancelled s \<longrightarrow> lr_caller s = Returned \<or> (\<exists>t. log_step s t \<and> lr_cancelled t = lr_cancelled s)"
    using log_progress by blast
  ultimately show ?thesis ..
qed

text \<open>A run in which the stream delivers two chunks, the last one with the end of the file.\<close>

definition example_stream :: "string \<Rightarrow> string \<Rightarrow> string \<times> bool \<times> int option \<Rightarrow> string + reads" where
  "example_stream ns pod opts = Inr [(''one '', None), (''two'', Some ReadEOF)]"

definition example_log_start :: LogRun where
  "example_log_start = log_run_start [(''one '', None), (''two'', Some ReadEOF)]"

definition example_log_end :: LogRun where
  "example_log_end = \<lparr>lr_cancelled = False, lr_reader = ReaderDone, lr_caller = Returned, lr_reads = [], lr_printed = ''one two''\<rparr>"

lemma example_log_outcome: "OutputLogs example_stream ''pod'' ''main'' 0 ''ns'' True = LogStreams example_log_start"
  by (simp add: OutputLogs_def example_stream_def example_log_start_def)

lemma example_log_run: "(log_step ^^ Suc (Suc (Suc (Suc (Suc (Suc 0)))))) example_log_start example_log_end"
proof -
  define s where "s = (\<lambda>r c rs out. \<lparr>lr_cancelled = False, lr_reader = r, lr_caller = c, lr_reads = rs, lr_printed = out\<rparr>)"
  let ?two = "[(''two'', Some ReadEOF)]" and ?both = "[(''one '', None), (''two'', Some ReadEOF)]"
  have "log_step (s AtSelect AtWait ?both []) (s AtRead AtWait ?both [])"
    using log_select [of "s AtSelect AtWait ?both []"] by (simp add: s_def)
  moreover have "log_step (s AtRead AtWait ?both []) (s AtSelect AtWait ?two ''one '')"
    using log_read [of "s AtRead AtWait ?both []"] by (simp add: s_def)
  moreover have "log_step (s AtSelect AtWait ?two ''one '') (s AtRead AtWait ?two ''one '')"
    using log_select [of "s AtSelect AtWait ?two ''one ''"] by (simp add: s_def)
  moreover have "log_step (s AtRead AtWait ?two ''one '') (s ReaderDone AtWait [] ''one two'')"
    using log_end [of "s AtRead AtWait ?two ''one ''"] by (simp add: s_def)
  moreover have "log_step (s ReaderDone AtWait [] ''one two'') (s ReaderDone AtClose [] ''one two'')"
    using log_wait [of "s ReaderDone AtWait [] ''one two''"] by (simp add: s_def)
  moreover have "log_step (s ReaderDone AtClose [] ''one two'') (s ReaderDone Returned [] ''one two'')"
    using log_close [of "s ReaderDone AtClose [] ''one two''"] by (simp add: s_def)
  ultimately have "(log_step ^^ Suc (Suc (Suc (Suc (Suc (Suc 0)))))) (s AtSelect AtWait ?both []) (s ReaderDone Returned [] ''one two'')"
    by (intro relpowp_Suc_I2) simp_all
  then show ?thesis by (simp only: s_def example_log_start_def example_log_end_def log_run_start_def)
qed

theorem OutputLogs_prints_in_order_witness:
  "lr_printed example_log_end = until_error (lr_reads example_log_start) \<and> lr_printed example_log_end = ''one two''"
  using OutputLogs_prints_in_order [OF example_log_outcome relpowp_imp_rtranclp [OF example_log_run]]
  by (simp add: example_log_end_def)

theorem OutputLogs_returns_witness:
  "(6::nat) \<le> 2 * length (lr_reads example_log_start) + 5 \<and>
   (\<exists>t. log_step example_log_start t \<and> lr_cancelled t = lr_cancelled example_log_start)"
proof -
  have "stream_ends (lr_reads example_log_start)" "lr_caller example_log_start \<noteq> Returned" by code_simp+
  then show ?thesis
    using OutputLogs_returns [OF example_log_outcome example_log_run]
      OutputLogs_returns [OF example_log_outcome relpowp_0_I [of log_step example_log_start]] by simp
qed

end
