(* ===== verification/CliClients.thy ===== *)
theory CliClients
  imports CommandLine QueueConfig
begin

text \<open>
  What the command line needs before and around its commands: the clients of the cluster (\<^verbatim>\<open>pkg/k8s/client.go\<close>), the helpers on queues and
  flavors (\<^verbatim>\<open>pkg/k8s/kueue.go\<close>), the printing of objects (\<^verbatim>\<open>pkg/k8s/utils.go\<close>), the verbosity flags (\<^verbatim>\<open>pkg/cli/main.go\<close>) and the reading of
  files (\<^verbatim>\<open>pkg/cli/submit.go\<close>). Constructors of the Kubernetes libraries are parameters. Lemmas: the singletons are
  built once, what printing removes, and where the clients' configurations come from.
\<close>

section \<open>Clients\<close>

text \<open>The environment, the files and the constructors that the clients are built with.\<close>

record ('cfg, 'dyn, 'cl, 'set) ClientEnv =
  cv_kubeconfig :: string
  cv_home :: string
  cv_join :: "string list \<Rightarrow> string"
  cv_missing :: "string \<Rightarrow> bool"
  cv_buildConfig :: "string \<Rightarrow> string + 'cfg"
  cv_getConfig :: "string + 'cfg"
  cv_newDynamic :: "'cfg \<Rightarrow> string + 'dyn"
  cv_newClient :: "'cfg \<Rightarrow> string list \<Rightarrow> string + 'cl"
  cv_newClientset :: "'cfg \<Rightarrow> string + 'set"
  cv_addToScheme :: "string \<Rightarrow> string option"

text \<open>\<^verbatim>\<open>logrus.Fatalf\<close> ends the process.\<close>

datatype 'a runs = Runs 'a | Exits string

definition GetKubeConfig :: "('cfg, 'dyn, 'cl, 'set) ClientEnv \<Rightarrow> string + string" where
  "GetKubeConfig env =
     (if cv_kubeconfig env \<noteq> [] then Inr (cv_kubeconfig env)
      else let path = cv_join env [cv_home env, ''.kube'', ''config'']
           in if cv_missing env path then Inl (''kubeconfig file not found: '' @ path) else Inr path)"

definition buildKubeConfig :: "('cfg, 'dyn, 'cl, 'set) ClientEnv \<Rightarrow> string + 'cfg" where
  "buildKubeConfig env = (case GetKubeConfig env of
     Inl e \<Rightarrow> Inl e
   | Inr path \<Rightarrow> (case cv_buildConfig env path of Inl e \<Rightarrow> Inl (''failed to build kubeconfig: '' @ e) | Inr cfg \<Rightarrow> Inr cfg))"

definition InitializeDynamicClient :: "('cfg, 'dyn, 'cl, 'set) ClientEnv \<Rightarrow> string + 'dyn" where
  "InitializeDynamicClient env = (case buildKubeConfig env of
     Inl e \<Rightarrow> Inl e
   | Inr cfg \<Rightarrow> (case cv_newDynamic env cfg of Inl e \<Rightarrow> Inl (''failed to create dynamic Kubernetes client: '' @ e) | Inr c \<Rightarrow> Inr c))"

text \<open>
  The process's singletons. The guarded function of a \<^verbatim>\<open>sync.Once\<close> either sets its variable or ends the process, so the
  variable tells whether it has run, and the error variables keep their value nil.
\<close>

record 'dyn ClientVars =
  cx_dynamicClient :: "'dyn option"
  cx_scheme :: "string list option"

definition GetDynamicClient :: "('cfg, 'dyn, 'cl, 'set) ClientEnv \<Rightarrow> 'dyn ClientVars \<Rightarrow> ('dyn \<times> 'dyn ClientVars) runs" where
  "GetDynamicClient env vars = (case cx_dynamicClient vars of
     Some c \<Rightarrow> Runs (c, vars)
   | None \<Rightarrow> (case InitializeDynamicClient env of
       Inl e \<Rightarrow> Exits (''failed to initialize dynamic Kubernetes client: '' @ e)
     | Inr c \<Rightarrow> Runs (c, vars\<lparr>cx_dynamicClient := Some c\<rparr>)))"

definition scheme_groups :: "(string \<times> string) list" where
  "scheme_groups = [(''core'', ''core Kubernetes''), (''batch'', ''batch Kubernetes''), (''kueue'', ''kueue Kubernetes''), (''ray'', ''RayService''), (''kaiwo'', ''Kaiwo'')]"

fun add_groups :: "('cfg, 'dyn, 'cl, 'set) ClientEnv \<Rightarrow> (string \<times> string) list \<Rightarrow> string list \<Rightarrow> string + string list" where
  "add_groups env [] scheme = Inr scheme"
| "add_groups env ((g, what) # gs) scheme = (case cv_addToScheme env g of
     Some e \<Rightarrow> Inl (''failed to add '' @ what @ '' types to scheme: '' @ e)
   | None \<Rightarrow> add_groups env gs (scheme @ [g]))"

definition buildScheme :: "('cfg, 'dyn, 'cl, 'set) ClientEnv \<Rightarrow> string + string list" where
  "buildScheme env = add_groups env scheme_groups []"

definition GetScheme :: "('cfg, 'dyn, 'cl, 'set) ClientEnv \<Rightarrow> 'dyn ClientVars \<Rightarrow> (string list \<times> 'dyn ClientVars) runs" where
  "GetScheme env vars = (case cx_scheme vars of
     Some s \<Rightarrow> Runs (s, vars)
   | None \<Rightarrow> (case buildScheme env of
       Inl e \<Rightarrow> Exits (''failed to build scheme: '' @ e)
     | Inr s \<Rightarrow> Runs (s, vars\<lparr>cx_scheme := Some s\<rparr>)))"

definition GetClient :: "('cfg, 'dyn, 'cl, 'set) ClientEnv \<Rightarrow> 'dyn ClientVars \<Rightarrow> ((string + 'cl) \<times> 'dyn ClientVars) runs" where
  "GetClient env vars = (case cv_getConfig env of
     Inl e \<Rightarrow> Runs (Inl (''failed to get Kubernetes config: '' @ e), vars)
   | Inr cfg \<Rightarrow> (case GetScheme env vars of
       Exits e \<Rightarrow> Exits e
     | Runs (s, vars) \<Rightarrow> (case cv_newClient env cfg s of
         Inl e \<Rightarrow> Runs (Inl (''failed to create Kubernetes client: '' @ e), vars)
       | Inr c \<Rightarrow> Runs (Inr c, vars))))"

text \<open>The error of \<^verbatim>\<open>GetKubeConfig\<close> is dropped; its path is then empty.\<close>

definition GetClientset :: "('cfg, 'dyn, 'cl, 'set) ClientEnv \<Rightarrow> string + 'set" where
  "GetClientset env = (let kubeconfig = (case GetKubeConfig env of Inl _ \<Rightarrow> [] | Inr path \<Rightarrow> path)
     in case cv_buildConfig env kubeconfig of
       Inl e \<Rightarrow> Inl (''failed to get Kubernetes config: '' @ e)
     | Inr cfg \<Rightarrow> (case cv_newClientset env cfg of Inl e \<Rightarrow> Inl (''failed to create Kubernetes client: '' @ e) | Inr c \<Rightarrow> Inr c))"

record ('cfg, 'cl, 'set) KubernetesClients =
  kc_client :: 'cl
  kc_clientset :: 'set
  kc_kubeconfig :: 'cfg

definition GetKubernetesClients ::
    "('cfg, 'dyn, 'cl, 'set) ClientEnv \<Rightarrow> 'dyn ClientVars \<Rightarrow> ((string + ('cfg, 'cl, 'set) KubernetesClients) \<times> 'dyn ClientVars) runs" where
  "GetKubernetesClients env vars = (case GetClient env vars of
     Exits e \<Rightarrow> Exits e
   | Runs (Inl e, vars) \<Rightarrow> Runs (Inl (''failed to get Kubernetes client: '' @ e), vars)
   | Runs (Inr c, vars) \<Rightarrow> (case GetClientset env of
       Inl e \<Rightarrow> Runs (Inl (''failed to get Kubernetes clientset: '' @ e), vars)
     | Inr cs \<Rightarrow> (case buildKubeConfig env of
         Inl e \<Rightarrow> Runs (Inl (''failed to get Kubernetes config: '' @ e), vars)
       | Inr cfg \<Rightarrow> Runs (Inr \<lparr>kc_client = c, kc_clientset = cs, kc_kubeconfig = cfg\<rparr>, vars))))"

section \<open>Queues and flavors\<close>

definition flavor_labels :: "KueueFlavor \<Rightarrow> string gomap" where
  "flavor_labels f = (case kfs_nodeLabels (kf_spec f) of None \<Rightarrow> [] | Some m \<Rightarrow> m)"

definition ListResourceFlavorsWithNodeLabel :: "(string + KueueFlavor list) \<Rightarrow> string \<Rightarrow> string + KueueFlavor list" where
  "ListResourceFlavorsWithNodeLabel answer labelKey = (case answer of
     Inl e \<Rightarrow> Inl (''failed to list resource flavors: '' @ e)
   | Inr items \<Rightarrow> Inr (filter (\<lambda>item. has_key (flavor_labels item) labelKey) items))"

definition GetResourceFlavorGpuCount :: "KueueFlavor \<Rightarrow> string \<Rightarrow> string + int" where
  "GetResourceFlavorGpuCount f labelKey = (case map_of (flavor_labels f) labelKey of
     None \<Rightarrow> Inl (''GPU label '' @ labelKey @ '' not found in ResourceFlavor'')
   | Some gpuLabel \<Rightarrow> (case Atoi gpuLabel of Inl _ \<Rightarrow> Inl ''failed to parse GPU count'' | Inr n \<Rightarrow> Inr n))"

definition GetDefaultResourceFlavorGpuCount :: "(string + KueueFlavor list) \<Rightarrow> string \<Rightarrow> string + int" where
  "GetDefaultResourceFlavorGpuCount answer labelKey = (case ListResourceFlavorsWithNodeLabel answer labelKey of
     Inl e \<Rightarrow> Inl (''failed to list resource flavors: '' @ e)
   | Inr [f] \<Rightarrow> GetResourceFlavorGpuCount f labelKey
   | Inr _ \<Rightarrow> Inl ''zero or more than one resource flavor found, expected just one'')"

definition GetClusterQueue :: "(string \<Rightarrow> string + KueueClusterQueue) \<Rightarrow> string \<Rightarrow> string + KueueClusterQueue" where
  "GetClusterQueue answer clusterQueueName = (case answer clusterQueueName of
     Inl e \<Rightarrow> Inl (''failed to get cluster queue '' @ clusterQueueName @ '': '' @ e)
   | Inr q \<Rightarrow> Inr q)"

definition PrepareLocalClusterQueue :: "(string \<Rightarrow> string + KueueClusterQueue) \<Rightarrow> string \<Rightarrow> string \<Rightarrow> string + LocalQueue" where
  "PrepareLocalClusterQueue answer queueName namespace = (case GetClusterQueue answer queueName of
     Inl e \<Rightarrow> Inl (''failed to get default cluster queue: '' @ e)
   | Inr _ \<Rightarrow> Inr \<lparr>lq_name = queueName, lq_namespace = namespace, lq_clusterQueue = queueName\<rparr>)"

section \<open>Printing objects\<close>

definition unwanted_metadata :: "string list" where
  "unwanted_metadata = [''creationTimestamp'', ''managedFields'', ''uid'', ''selfLink'', ''generation'']"

definition without_keys :: "string list \<Rightarrow> 'v gomap \<Rightarrow> 'v gomap" where
  "without_keys ks m = filter (\<lambda>kv. fst kv \<notin> set ks) m"

definition wanted_field :: "string \<Rightarrow> gojson \<Rightarrow> gojson" where
  "wanted_field k v = (if k = ''metadata'' then (case v of JMap m \<Rightarrow> JMap (without_keys unwanted_metadata m) | _ \<Rightarrow> v) else v)"

definition removeUnwantedFields :: "gojson gomap \<Rightarrow> gojson gomap" where
  "removeUnwantedFields obj = without_keys [''status''] (map (\<lambda>(k, v). (k, wanted_field k v)) obj)"

text \<open>The group, the version and the kind of an object.\<close>

type_synonym gvk = "string \<times> string \<times> string"

definition apiVersion_of :: "gvk \<Rightarrow> string" where
  "apiVersion_of g = (case g of (grp, version, _) \<Rightarrow> if grp = [] then version else grp @ ''/'' @ version)"

record 'o SchemeOps =
  so_objectKinds :: "'o \<Rightarrow> string + gvk list"
  so_setKind :: "'o \<Rightarrow> gvk \<Rightarrow> 'o"
  so_kind :: "'o \<Rightarrow> gvk"
  so_toUnstructured :: "'o \<Rightarrow> string + gojson gomap"
  so_encode :: "gojson gomap \<Rightarrow> string + string"

definition minimal_object :: "gvk \<Rightarrow> gojson gomap \<Rightarrow> gojson gomap" where
  "minimal_object g m = removeUnwantedFields (AList.update ''kind'' (JString (snd (snd g))) (AList.update ''apiVersion'' (JString (apiVersion_of g)) m))"

definition MinimalizeAndConvertToYAML :: "'o SchemeOps \<Rightarrow> 'o \<Rightarrow> string + string" where
  "MinimalizeAndConvertToYAML ops obj = (case so_objectKinds ops obj of
     Inl e \<Rightarrow> Inl (''failed to get GVK for object: '' @ e)
   | Inr gvks \<Rightarrow> (let obj = (case gvks of [] \<Rightarrow> obj | g # _ \<Rightarrow> so_setKind ops obj g)
       in case so_toUnstructured ops obj of
         Inl e \<Rightarrow> Inl (''failed to convert object to unstructured: '' @ e)
       | Inr m \<Rightarrow> (case so_encode ops (minimal_object (so_kind ops obj) m) of
           Inl e \<Rightarrow> Inl (''failed to convert object to yaml: '' @ e)
         | Inr text_out \<Rightarrow> Inr text_out)))"

section \<open>The command line\<close>

datatype log_level = TraceLevel | DebugLevel | InfoLevel | WarnLevel | ErrorLevel | FatalLevel

definition PersistentPreRunE :: "int \<Rightarrow> int \<Rightarrow> log_level \<Rightarrow> string + log_level" where
  "PersistentPreRunE verbosity quiet level =
     (if verbosity \<noteq> 0 \<and> quiet \<noteq> 0 then Inl ''cannot set both verbose and quiet at the same time''
      else let level = (if verbosity = 0 then level else if verbosity = 1 then DebugLevel else TraceLevel)
           in Inr (if quiet = 0 then level else if quiet = 1 then WarnLevel else if quiet = 2 then ErrorLevel else FatalLevel))"

definition version_text :: "string \<Rightarrow> string \<Rightarrow> string \<Rightarrow> string" where
  "version_text version commit date = ''kaiwo version: '' @ version @ [CHR 0x0A] @ ''commit: '' @ commit @ [CHR 0x0A] @ ''build date: '' @ date @ [CHR 0x0A]"

text \<open>Files: opening, reading, the standard input, and the decoders of the Kubernetes and YAML libraries.\<close>

record 'o FileOps =
  fo_stdin :: "string + string"
  fo_open :: "string \<Rightarrow> string option"
  fo_read :: "string \<Rightarrow> string + string"
  fo_decode :: "string \<Rightarrow> string + 'o"
  fo_unmarshal :: "string \<Rightarrow> string + 'o"
  fo_config :: "string \<Rightarrow> string + KaiwoCliConfig"

definition readKaiwoCliConfig :: "'o FileOps \<Rightarrow> string \<Rightarrow> string + KaiwoCliConfig" where
  "readKaiwoCliConfig fs path = (case fo_read fs path of
     Inl e \<Rightarrow> Inl (''failed to read file '' @ path @ '': '' @ e)
   | Inr bytes \<Rightarrow> (case fo_config fs bytes of Inl e \<Rightarrow> Inl (''failed to unmarshal file '' @ path @ '': '' @ e) | Inr c \<Rightarrow> Inr c))"

definition decode_manifest :: "'o FileOps \<Rightarrow> string \<Rightarrow> string \<Rightarrow> string + 'o" where
  "decode_manifest fs reader_left bytes = (case fo_decode fs reader_left of
     Inr obj \<Rightarrow> Inr obj
   | Inl _ \<Rightarrow> (case fo_unmarshal fs bytes of Inl e \<Rightarrow> Inl (''failed to decode manifest: '' @ e) | Inr obj \<Rightarrow> Inr obj))"

text \<open>The standard input has been read to its end when the decoder starts; a file is opened a second time.\<close>

definition readManifest :: "'o FileOps \<Rightarrow> string \<Rightarrow> string + 'o" where
  "readManifest fs path =
     (if path = ''-'' \<or> path = ''--'' then (case fo_stdin fs of
        Inl e \<Rightarrow> Inl (''failed to read from stdin: '' @ e)
      | Inr bytes \<Rightarrow> decode_manifest fs [] bytes)
      else (case fo_open fs path of
        Some e \<Rightarrow> Inl (''failed to open file: '' @ e)
      | None \<Rightarrow> (case fo_read fs path of
          Inl e \<Rightarrow> Inl (''failed to read file: '' @ e)
        | Inr bytes \<Rightarrow> decode_manifest fs bytes bytes)))"

section \<open>The user\<close>

text \<open>The user of a workload by the mail address of the environment, or by the names of the account and the machine.\<close>

definition dots_to_hyphens :: "string \<Rightarrow> string" where
  "dots_to_hyphens s = map (\<lambda>c. if c = CHR ''.'' then CHR ''-'' else c) s"

definition GetCurrentUser :: "(string \<Rightarrow> string) \<Rightarrow> (string + string) \<Rightarrow> (string + string) \<Rightarrow> string + string" where
  "GetCurrentUser env current_user hostname = (let userEmail = env ''KAIWO_USER_EMAIL'' in
     if userEmail \<noteq> [] then
       (if \<not> email_match userEmail then Inl (''invalid email format: '' @ userEmail)
        else let parts = Split userEmail (CHR ''@'')
             in Inr (base_MakeRFC1123Compliant (hd (Split (parts ! 0) (CHR ''-'')) @ ''-'' @ dots_to_hyphens (parts ! 1))))
     else (case current_user of
       Inl e \<Rightarrow> Inl (''failed to retrieve current user: '' @ e)
     | Inr username \<Rightarrow> (case hostname of
         Inl e \<Rightarrow> Inl (''failed to retrieve hostname: '' @ e)
       | Inr host \<Rightarrow> Inr (base_MakeRFC1123Compliant (username @ ''-'' @ dots_to_hyphens host)))))"

text \<open>Which credentials an image is pulled with: \<open>None\<close> is the default keychain.\<close>

definition BuildKeychain :: "(string \<Rightarrow> string list \<Rightarrow> string + 'kc) \<Rightarrow> bool \<Rightarrow> string \<Rightarrow> string list \<Rightarrow> string + 'kc option" where
  "BuildKeychain new_chain has_clientset secretNamespace imagePullSecrets =
     (if \<not> has_clientset \<or> secretNamespace = [] \<or> imagePullSecrets = [] then Inr None
      else (case new_chain secretNamespace imagePullSecrets of Inl e \<Rightarrow> Inl (''failed to create k8s keychain: '' @ e) | Inr kc \<Rightarrow> Inr (Some kc)))"

definition AreAnyPodsRunning :: "(string + string list) \<Rightarrow> string + bool" where
  "AreAnyPodsRunning phases = (case phases of Inl e \<Rightarrow> Inl e | Inr ps \<Rightarrow> Inr (''Running'' \<in> set ps))"

definition GetGVK :: "(string + gvk list) \<Rightarrow> string + gvk" where
  "GetGVK kinds = (case kinds of
     Inl e \<Rightarrow> Inl (''failed to determine GVK: '' @ e) | Inr [] \<Rightarrow> Inl ''no GVK found for object type'' | Inr (g # _) \<Rightarrow> Inr g)"

section \<open>Namespaces\<close>

text \<open>\<open>get\<close> and \<open>update\<close> are the API server's answers; the result has the labels that were sent, if any.\<close>

definition EnsureNamespaceKueueManaged :: "(string + string gomap) \<Rightarrow> (string gomap \<Rightarrow> string option) \<Rightarrow> string option \<times> string gomap option" where
  "EnsureNamespaceKueueManaged got update = (case got of
     Inl e \<Rightarrow> (Some (''failed to get namespace: '' @ e), None)
   | Inr labels \<Rightarrow>
       if map_of labels ''kueue-managed'' = Some ''true'' then (None, None)
       else let new = AList.update ''kueue-managed'' ''true'' labels
            in (map_option (\<lambda>e. ''failed to update namespace: '' @ e) (update new), Some new))"

section \<open>Lemmas\<close>

text \<open>The scheme of a process knows all five groups, or the process has ended.\<close>

lemma add_groups_all: "add_groups env gs scheme = Inr s \<Longrightarrow> s = scheme @ map fst gs"
  by (induction env gs scheme rule: add_groups.induct) (auto split: option.splits)

lemma GetScheme_complete:
  assumes "GetScheme env vars = Runs (s, vars')" "cx_scheme vars = None \<or> cx_scheme vars = Some (map fst scheme_groups)"
  shows "s = map fst scheme_groups \<and> cx_scheme vars' = Some s \<and> cx_dynamicClient vars' = cx_dynamicClient vars"
  using assms by (auto simp: GetScheme_def buildScheme_def dest!: add_groups_all split: option.splits sum.splits)

text \<open>Later calls return what the first one returned, whatever has become of the environment.\<close>

lemma GetDynamicClient_once:
  assumes "GetDynamicClient env vars = Runs (c, vars')"
  shows "GetDynamicClient env' vars' = Runs (c, vars')"
  using assms by (auto simp: GetDynamicClient_def split: option.splits sum.splits)

text \<open>
  The clients need a kubeconfig file: \<^verbatim>\<open>GetClientset\<close> goes on without one, but the configuration built afterwards is from the
  file, so in a pod without a file the call fails although both clients could be built.
\<close>

lemma GetKubernetesClients_from_file:
  assumes "GetKubernetesClients env vars = Runs (Inr k, vars')"
  shows "\<exists>path. GetKubeConfig env = Inr path \<and> cv_buildConfig env path = Inr (kc_kubeconfig k) \<and> GetClientset env = Inr (kc_clientset k)"
  using assms
  by (auto simp: GetKubernetesClients_def buildKubeConfig_def split: runs.splits prod.splits sum.splits)

lemma GetClientset_without_file:
  assumes "GetKubeConfig env = Inl e" "cv_buildConfig env [] = Inr cfg" "cv_newClientset env cfg = Inr cs"
  shows "GetClientset env = Inr cs" "buildKubeConfig env = Inl e"
  using assms by (simp_all add: GetClientset_def buildKubeConfig_def)

lemma GetDefaultResourceFlavorGpuCount_unique:
  assumes "GetDefaultResourceFlavorGpuCount (Inr items) k = Inr n"
  shows "\<exists>f v. filter (\<lambda>f. has_key (flavor_labels f) k) items = [f] \<and> map_of (flavor_labels f) k = Some v \<and> Atoi v = Inr n"
  using assms
  by (auto simp: GetDefaultResourceFlavorGpuCount_def ListResourceFlavorsWithNodeLabel_def GetResourceFlavorGpuCount_def
      split: list.splits option.splits sum.splits)

text \<open>Printing keeps every other field and is idempotent.\<close>

lemma map_of_without_keys: "map_of (without_keys ks m) k = (if k \<in> set ks then None else map_of m k)"
  by (induction m) (auto simp: without_keys_def)

lemma without_keys_idem [simp]: "without_keys ks (without_keys ks m) = without_keys ks m"
  by (simp add: without_keys_def)

lemma wanted_field_idem [simp]: "wanted_field k (wanted_field k v) = wanted_field k v"
  by (simp add: wanted_field_def split: gojson.splits)

lemma map_of_removeUnwantedFields:
  "map_of (removeUnwantedFields obj) k = (if k = ''status'' then None else map_option (wanted_field k) (map_of obj k))"
proof -
  have "map_of (map (\<lambda>(k, v). (k, wanted_field k v)) obj) k = map_option (wanted_field k) (map_of obj k)"
    by (induction obj) auto
  then show ?thesis by (simp add: removeUnwantedFields_def map_of_without_keys)
qed

lemma removeUnwantedFields_idem: "removeUnwantedFields (removeUnwantedFields obj) = removeUnwantedFields obj"
  by (induction obj) (auto simp: removeUnwantedFields_def without_keys_def)

lemma minimal_object_header:
  "map_of (minimal_object g m) ''kind'' = Some (JString (snd (snd g)))"
  "map_of (minimal_object g m) ''apiVersion'' = Some (JString (apiVersion_of g))"
  "map_of (minimal_object g m) ''status'' = None"
  by (simp_all add: minimal_object_def map_of_removeUnwantedFields update_conv' wanted_field_def)

text \<open>Where the decoder reports the end of its input, a manifest from the standard input is always read by the fallback.\<close>

lemma readManifest_stdin:
  assumes "fo_decode fs [] = Inl eof" "fo_stdin fs = Inr bytes"
  shows "readManifest fs ''-'' = (case fo_unmarshal fs bytes of Inl e \<Rightarrow> Inl (''failed to decode manifest: '' @ e) | Inr obj \<Rightarrow> Inr obj)"
  using assms by (simp add: readManifest_def decode_manifest_def)

lemma EnsureNamespaceKueueManaged_labels:
  "EnsureNamespaceKueueManaged (Inr labels) update = (None, sent) \<Longrightarrow>
     map_of (case sent of None \<Rightarrow> labels | Some new \<Rightarrow> new) ''kueue-managed'' = Some ''true'' \<and>
     (\<forall>k. k \<noteq> ''kueue-managed'' \<longrightarrow> map_of (case sent of None \<Rightarrow> labels | Some new \<Rightarrow> new) k = map_of labels k)"
  by (auto simp: EnsureNamespaceKueueManaged_def update_conv' Let_def split: if_splits)

text \<open>Only the part of an address before the first hyphen counts, so different users of a domain can get the same name.\<close>

lemma GetCurrentUser_collides:
  "GetCurrentUser (\<lambda>_. ''jean-luc@example.com'') u host = Inr ''jean-example-com''"
  "GetCurrentUser (\<lambda>_. ''jean-paul@example.com'') u host = Inr ''jean-example-com''"
  by code_simp+

end
