(* ===== verification/Lifecycle.thy ===== *)
theory Lifecycle
  imports MetricsWatcher
begin

text \<open>
  The resource monitor (\<^verbatim>\<open>pkg/utils/monitoring/metrics.go\<close>) and the workload controllers (\<^verbatim>\<open>pkg/workloads/common/reconciler.go\<close>) work on the same
  workloads and meet only in the status that the server stores: one writes \<open>TERMINATING\<close>, the other acts on it. Their runs,
  in any order, are one history of calls; lemmas: every \<open>TERMINATING\<close> in it has a cause.
\<close>

section \<open>Runs of both components\<close>

text \<open>
  The status is written by these two components only: a workload that the server hands to a controller with status
  \<open>TERMINATING\<close> has been written so, and accepted, before.
\<close>

definition served :: "wl_event list \<Rightarrow> KaiwoWorkload \<Rightarrow> bool" where
  "served h w \<longleftrightarrow> (status_of w = WorkloadStatusTerminating \<longrightarrow>
     (\<exists>w0 w1. WUpdateStatus w0 (Inr w1) \<in> set h \<and> workload_key w0 = workload_key w \<and> status_of w0 = WorkloadStatusTerminating))"

inductive lifecycle :: "WlApi \<Rightarrow> WlCtx \<Rightarrow> MetricsWatcher \<Rightarrow> KaiwoConfigSpec \<Rightarrow> wl_event list \<Rightarrow> bool"
  for api cx m config where
  lifecycle_start: "lifecycle api cx m config []"
| lifecycle_poll: "lifecycle api cx m config h \<Longrightarrow> lifecycle api cx m config (history_of (pollMetrics api cx m config) h)"
| lifecycle_reconcile: "lifecycle api cx m config h \<Longrightarrow> served h w \<Longrightarrow>
    lifecycle api cx m config (history_of (workload_Reconcile api cx w impl) h)"

section \<open>Causes\<close>

definition cause :: "WlCtx \<Rightarrow> KaiwoConfigSpec \<Rightarrow> wl_event list \<Rightarrow> KaiwoWorkload \<Rightarrow> bool" where
  "cause cx config h w' \<longleftrightarrow>
     (rm_terminateUnderutilized (kcs_resourceMonitoring config) \<and>
       (\<exists>w w1 cs. handed_out h w \<and> WUpdateStatus (with_conditions w cs) (Inr w1) \<in> set h \<and> idle_too_long cx config h w1 \<and>
          workload_key w' = workload_key w1)) \<or>
     (\<exists>w config'. workload_key w = workload_key w' \<and> WGetConfig (Inr config') \<in> set h \<and> preemption_evidence cx config' w h) \<or>
     (\<exists>kind ws p. WListWorkloads kind (Inr ws) \<in> set h \<and> p \<in> set ws \<and> flagged cx p w')"

lemma cause_mono: "cause cx config h w' \<Longrightarrow> set h \<subseteq> set h' \<Longrightarrow> cause cx config h' w'"
proof -
  assume c: "cause cx config h w'" and sub: "set h \<subseteq> set h'"
  have "handed_out h' w" if "handed_out h w" for w using that sub unfolding handed_out_def by blast
  moreover have "idle_too_long cx config h' w" if "idle_too_long cx config h w" for w
    using that sub unfolding idle_too_long_def by blast
  moreover have "preemption_evidence cx config' w h'" if "preemption_evidence cx config' w h" for config' w
    using that sub by (rule preemption_evidence_mono)
  ultimately show ?thesis using c sub unfolding cause_def by (meson subsetD)
qed

lemma key_with [simp]: "workload_key (w\<lparr>kw_status := st\<rparr>) = workload_key w"
  by (simp add: workload_key_def)

definition terminating_caused :: "WlCtx \<Rightarrow> KaiwoConfigSpec \<Rightarrow> wl_event list \<Rightarrow> bool" where
  "terminating_caused cx config h \<longleftrightarrow>
     (\<forall>w' w1. WUpdateStatus w' (Inr w1) \<in> set h \<longrightarrow> status_of w' = WorkloadStatusTerminating \<longrightarrow> cause cx config h w')"

lemma stored_as_given_mono: "stored_as_given h \<Longrightarrow> set n \<subseteq> set h \<Longrightarrow> stored_as_given n"
  unfolding stored_as_given_def by blast

lemma poll_caused:
  assumes "poll_trace cx config new" and stored: "stored_as_given new"
  shows "terminating_caused cx config new"
  unfolding terminating_caused_def
proof (intro allI impI)
  fix w' w2 assume u: "WUpdateStatus w' (Inr w2) \<in> set new" and t: "status_of w' = WorkloadStatusTerminating"
  from assms(1) u obtain w where w: "handed_out new w" "monitor_write cx config w new w'" unfolding poll_trace_def by blast
  have live: "status_of w \<noteq> WorkloadStatusTerminating" using w(2) unfolding monitor_write_def is_finishing_def by auto
  with w(2) t obtain cs w1 where mon: "rm_terminateUnderutilized (kcs_resourceMonitoring config)"
      "WUpdateStatus (with_conditions w cs) (Inr w1) \<in> set new"
      "w' = w1 \<or> idle_too_long cx config new w1 \<and> (\<exists>cs'. w' = with_conditions (with_status w1 WorkloadStatusTerminating) cs')"
    unfolding monitor_write_def by auto
  have "status_of w1 = status_of w" using stored mon(2) unfolding stored_as_given_def by fastforce
  with live t mon(3) have "idle_too_long cx config new w1" "workload_key w' = workload_key w1" by auto
  with w(1) mon(1,2) show "cause cx config new w'" unfolding cause_def by blast
qed

lemma reconcile_caused:
  assumes "workload_trace cx w got new"
  shows "terminating_caused cx config new"
  unfolding terminating_caused_def
proof (intro allI impI)
  fix w' w2 assume u: "WUpdateStatus w' (Inr w2) \<in> set new" and t: "status_of w' = WorkloadStatusTerminating"
  from workload_trace_writes [OF assms u] consider
      "terminated_workload w w'"
    | st config' where "w' = w\<lparr>kw_status := st\<rparr>" "WGetConfig (Inr config') \<in> set new" "preemption_evidence cx config' w new"
    | kind ws p where "WListWorkloads kind (Inr ws) \<in> set new" "p \<in> set ws" "flagged cx p w'"
    using t by (auto)
  then show "cause cx config new w'"
  proof cases
    case 1
    with t show ?thesis by (auto simp: terminated_workload_def)
  next
    case 2
    then show ?thesis unfolding cause_def by (metis key_with)
  next
    case 3
    then show ?thesis unfolding cause_def by blast
  qed
qed

lemma terminating_caused_append:
  assumes "terminating_caused cx config h" "terminating_caused cx config new"
  shows "terminating_caused cx config (h @ new)"
  using assms cause_mono [of cx config h _ "h @ new"] cause_mono [of cx config new _ "h @ new"]
  unfolding terminating_caused_def by auto

text \<open>Induction over the runs, by what each of them appends.\<close>

lemma lifecycle_runs [consumes 1, case_names start poll reconcile]:
  assumes "lifecycle api cx m config h"
    and "P []"
    and "\<And>h new. P h \<Longrightarrow> poll_trace cx config new \<Longrightarrow> P (h @ new)"
    and "\<And>h w got new. P h \<Longrightarrow> lifecycle api cx m config h \<Longrightarrow> served h w \<Longrightarrow> workload_trace cx w got new \<Longrightarrow> P (h @ new)"
  shows "P h"
  using assms(1)
proof (induction rule: lifecycle.induct)
  case (lifecycle_poll h)
  from pollMetrics_trace [of cx config api m] obtain new where "history_of (pollMetrics api cx m config) h = h @ new" "poll_trace cx config new"
    unfolding polled.always_def by (rule doesD [where h = h])
  with lifecycle_poll.IH assms(3) show ?case by simp
next
  case (lifecycle_reconcile h w impl)
  from workload_Reconcile_trace [of cx w api impl] obtain new where "history_of (workload_Reconcile api cx w impl) h = h @ new"
      "workload_trace cx w (result_of (workload_Reconcile api cx w impl) h) new"
    by (rule doesD [where h = h])
  with lifecycle_reconcile assms(4) show ?case by simp
qed (rule assms(2))

lemma lifecycle_caused:
  assumes "lifecycle api cx m config h" and "stored_as_given h"
  shows "terminating_caused cx config h"
  using assms
proof (induction rule: lifecycle_runs)
  case start
  then show ?case by (simp add: terminating_caused_def)
next
  case (poll h new)
  from poll(3) have "stored_as_given h" "stored_as_given new" by (auto elim: stored_as_given_mono)
  with poll(1,2) show ?case by (blast intro: terminating_caused_append poll_caused)
next
  case (reconcile h w got new)
  from reconcile(5) have "stored_as_given h" by (auto elim: stored_as_given_mono)
  with reconcile(1,4) show ?case by (blast intro: terminating_caused_append reconcile_caused)
qed

section \<open>Deletions\<close>

text \<open>What must have happened before an object is deleted, in this order, with a cause.\<close>

definition deletion_explained :: "WlCtx \<Rightarrow> KaiwoConfigSpec \<Rightarrow> wl_event list \<Rightarrow> OwnedObject \<Rightarrow> bool" where
  "deletion_explained cx config pre obj \<longleftrightarrow> (\<exists>a w0 w2 b wT w1 c.
     pre = a @ WUpdateStatus w0 (Inr w2) # b @ WUpdateStatus wT (Inr w1) # c \<and>
     status_of w0 = WorkloadStatusTerminating \<and> status_of wT = WorkloadStatusTerminated \<and> workload_key w0 = workload_key wT \<and>
     owned_by (kw_uid w1) obj \<and> cause cx config pre w0)"

lemma reconcile_deletion:
  assumes trace: "workload_trace cx w got new" and new: "new = pre @ WDeleteOwned kind obj r # post"
  shows "status_of w = WorkloadStatusTerminating \<and> (\<exists>b wT w1 c. pre = b @ WUpdateStatus wT (Inr w1) # c \<and>
     status_of wT = WorkloadStatusTerminated \<and> workload_key wT = workload_key w \<and> owned_by (kw_uid w1) obj)"
proof -
  have d: "WDeleteOwned kind obj r \<in> set new" using new by simp
  obtain config rest where rest: "status_of w = WorkloadStatusTerminating" "new = WGetConfig (Inr config) # rest" "termination_trace w rest"
    using trace d by (cases rule: workload_traceE) (auto dest: active_trace_no_delete)
  from rest(3) obtain now w0 r' dels recs where t: "rest = [WNow now, WUpdateStatus w0 r'] @ dels @ recs" "terminated_workload w w0"
      "case r' of Inl _ \<Rightarrow> dels = [] | Inr w1 \<Rightarrow> deletions_ok (kw_uid w1) (kw_namespace w1) dels"
      "list_all (\<lambda>e. \<exists>k t r m. e = WRecord k t r m) recs"
    unfolding termination_trace_def by blast
  have "WDeleteOwned kind obj r \<in> set dels" using d rest(2) t(1,4) by (auto simp: list_all_iff)
  with t(3) obtain w1 where r': "r' = Inr w1" and own: "owned_by (kw_uid w1) obj" by (cases r') (auto simp: deletions_ok_def)
  have "[WGetConfig (Inr config), WNow now, WUpdateStatus w0 (Inr w1)] @ dels @ recs = pre @ WDeleteOwned kind obj r # post"
    using new rest(2) t(1) r' by simp
  then obtain c where "pre = [WGetConfig (Inr config), WNow now] @ WUpdateStatus w0 (Inr w1) # c"
    by (cases pre; cases "tl pre"; cases "tl (tl pre)") auto
  with own t(2) rest(1) show ?thesis by (fastforce simp: terminated_workload_def)
qed

lemma lifecycle_deletions:
  assumes "lifecycle api cx m config h" and "stored_as_given h" and "h = pre @ WDeleteOwned kind obj r # post"
  shows "deletion_explained cx config pre obj"
  using assms
proof (induction arbitrary: post rule: lifecycle_runs)
  case (poll h new)
  then have "WDeleteOwned kind obj r \<notin> set new" by (auto simp: poll_trace_def list_all_iff no_change_def)
  with poll(4) obtain post' where "h = pre @ WDeleteOwned kind obj r # post'"
    by (auto simp: append_eq_append_conv2 append_eq_Cons_conv Cons_eq_append_conv)
  moreover have "stored_as_given h" using poll(3) by (rule stored_as_given_mono) simp
  ultimately show ?case using poll(1) by blast
next
  case (reconcile h w got new)
  have stored: "stored_as_given h" using reconcile(5) by (rule stored_as_given_mono) simp
  from reconcile(6) consider post' where "h = pre @ WDeleteOwned kind obj r # post'"
    | pre' where "pre = h @ pre'" "new = pre' @ WDeleteOwned kind obj r # post"
    by (auto simp: append_eq_append_conv2 append_eq_Cons_conv)
  then show ?case
  proof cases
    case 1
    then show ?thesis using reconcile(1) stored by simp
  next
    case 2
    from reconcile_deletion [OF reconcile(4) 2(2)] obtain b wT w1 c where
      t: "status_of w = WorkloadStatusTerminating" "pre' = b @ WUpdateStatus wT (Inr w1) # c" "status_of wT = WorkloadStatusTerminated"
        "workload_key wT = workload_key w" "owned_by (kw_uid w1) obj" by blast
    from reconcile(3) t(1) obtain w0 w2 where w0: "WUpdateStatus w0 (Inr w2) \<in> set h" "workload_key w0 = workload_key w"
        "status_of w0 = WorkloadStatusTerminating" unfolding served_def by blast
    have "cause cx config h w0"
      using lifecycle_caused [OF reconcile(2) stored] w0 unfolding terminating_caused_def by blast
    then have "cause cx config pre w0" using 2(1) by (auto elim: cause_mono)
    moreover obtain a b' where "h = a @ WUpdateStatus w0 (Inr w2) # b'" using split_list [OF w0(1)] by blast
    then have "pre = a @ WUpdateStatus w0 (Inr w2) # (b' @ b) @ WUpdateStatus wT (Inr w1) # c" using 2(1) t(2) by simp
    ultimately show ?thesis using t(3-5) w0(2,3) unfolding deletion_explained_def by metis
  qed
qed simp

section \<open>A run\<close>

text \<open>The monitor flags a job that has been idle for too long; the controller then deletes what the job owns.\<close>

definition lifecycle_api :: WlApi where
  "lifecycle_api = (monitor_api [idle_sample ''p0'' 0])\<lparr>w_listOwned := w_listOwned owning_api\<rparr>"

definition flagged_history :: "wl_event list" where
  "flagged_history = history_of (pollMetrics lifecycle_api example_wl_ctx monitor_watcher monitor_config) []"

definition deleted_history :: "wl_event list" where
  "deleted_history = history_of (workload_Reconcile lifecycle_api example_wl_ctx terminating_example (BatchJobHandler example_job_spec)) flagged_history"

fun terminating_key :: "wl_event \<Rightarrow> ObjectKey list" where
  "terminating_key (WUpdateStatus w (Inr w')) = (if status_of w = WorkloadStatusTerminating then [workload_key w] else [])"
| "terminating_key e = []"

fun deleted_object :: "wl_event \<Rightarrow> OwnedObject list" where
  "deleted_object (WDeleteOwned kind obj r) = [obj]"
| "deleted_object e = []"

lemma example_flagged: "concat (map terminating_key flagged_history) = [workload_key terminating_example]"
  by code_simp

lemma example_stored: "concat (map update_status deleted_history) = [(WorkloadStatusRunning, WorkloadStatusRunning),
    (WorkloadStatusTerminating, WorkloadStatusTerminating), (WorkloadStatusTerminated, WorkloadStatusTerminated)]"
  by code_simp

lemma example_deleted: "concat (map deleted_object deleted_history) = [example_owned]"
  by code_simp

lemma example_lifecycle: "lifecycle lifecycle_api example_wl_ctx monitor_watcher monitor_config deleted_history"
  unfolding deleted_history_def
proof (rule lifecycle_reconcile)
  show "lifecycle lifecycle_api example_wl_ctx monitor_watcher monitor_config flagged_history"
    unfolding flagged_history_def by (intro lifecycle_poll lifecycle_start)
  have "k \<in> set (terminating_key e) \<longleftrightarrow>
      (\<exists>w w'. e = WUpdateStatus w (Inr w') \<and> status_of w = WorkloadStatusTerminating \<and> k = workload_key w)" for k e
    by (cases e rule: terminating_key.cases) auto
  moreover have "workload_key terminating_example \<in> set (concat (map terminating_key flagged_history))"
    unfolding example_flagged by simp
  ultimately show "served flagged_history terminating_example" unfolding served_def by fastforce
qed

lemma example_stored_as_given: "stored_as_given deleted_history"
  unfolding stored_as_given_def
proof (intro allI impI)
  fix w1 w2 assume "WUpdateStatus w1 (Inr w2) \<in> set deleted_history"
  then have "(status_of w1, status_of w2) \<in> set (concat (map update_status deleted_history))"
    unfolding update_status_iff by blast
  then show "status_of w2 = status_of w1" unfolding example_stored by auto
qed

lemma example_deletion: "\<exists>pre kind r post. deleted_history = pre @ WDeleteOwned kind example_owned r # post"
proof -
  have "obj \<in> set (deleted_object e) \<longleftrightarrow> (\<exists>kind r. e = WDeleteOwned kind obj r)" for obj e
    by (cases e rule: deleted_object.cases) auto
  moreover have "example_owned \<in> set (concat (map deleted_object deleted_history))" unfolding example_deleted by simp
  ultimately show ?thesis by (fastforce dest: split_list)
qed

end
